(* ===== verification/Hiraeth_Prelude.thy ===== *)
theory Hiraeth_Prelude
  imports Main "HOL-Library.Char_ord" "HOL-Library.List_Lexorder"
    "HOL-Library.Product_Lexorder" "HOL-Library.AList" "HOL-Library.Sublist"
begin

text \<open>
  Shared vocabulary of the development: results and store operations as values, the parts
  of the Rust standard library the sources use (strings as UTF-8 byte sequences, integer
  parsing and printing, prefix and suffix stripping, splitting and trimming), and the parts
  of SQL the queries under \<^verbatim>\<open>hiraeth_store_sqlx\<close> use (\<^verbatim>\<open>LIMIT\<close>, \<^verbatim>\<open>COALESCE\<close>, row ids).
  The generic lemmas about them are collected in \<open>result_simps\<close> and \<open>string_simps\<close>.

  A Rust \<^verbatim>\<open>String\<close> is modelled by its UTF-8 bytes, one \<^typ>\<open>char\<close> per byte, so
  \<^const>\<open>length\<close> is \<^verbatim>\<open>str::len\<close> and the order of lists of characters is the byte order
  that both Rust and SQLite's \<^verbatim>\<open>BINARY\<close> collation use. A \<^verbatim>\<open>HashMap\<close> is an association list
  with distinct keys whose order is the (arbitrary) iteration order.
\<close>

named_theorems result_simps \<open>inversion of results and store operations\<close>
named_theorems string_simps \<open>facts about Rust string operations\<close>

section \<open>Results\<close>

text \<open>\<^verbatim>\<open>Result<T, E>\<close> is \<open>'e + 'a\<close> with \<open>Inl\<close> for \<^verbatim>\<open>Err\<close>; \<open>ebind\<close> is the \<^verbatim>\<open>?\<close> operator.\<close>

definition ebind :: "'e + 'a \<Rightarrow> ('a \<Rightarrow> 'e + 'b) \<Rightarrow> 'e + 'b" where
  "ebind m f = (case m of Inl e \<Rightarrow> Inl e | Inr x \<Rightarrow> f x)"

definition map_err :: "('e \<Rightarrow> 'f) \<Rightarrow> 'e + 'a \<Rightarrow> 'f + 'a" where
  "map_err g m = (case m of Inl e \<Rightarrow> Inl (g e) | Inr x \<Rightarrow> Inr x)"

definition ok_or :: "'e \<Rightarrow> 'a option \<Rightarrow> 'e + 'a" where
  "ok_or e m = (case m of None \<Rightarrow> Inl e | Some x \<Rightarrow> Inr x)"

definition guard :: "bool \<Rightarrow> 'e \<Rightarrow> 'e + unit" where
  "guard bad e = (if bad then Inl e else Inr ())"

text \<open>\<^verbatim>\<open>for x in xs { f(x)?; }\<close> and \<^verbatim>\<open>xs.map(f).collect::<Result<Vec<_>, _>>()\<close>.\<close>

fun check_all :: "('a \<Rightarrow> 'e + unit) \<Rightarrow> 'a list \<Rightarrow> 'e + unit" where
  "check_all f [] = Inr ()"
| "check_all f (x # xs) = ebind (f x) (\<lambda>_. check_all f xs)"

fun collect_results :: "('a \<Rightarrow> 'e + 'b) \<Rightarrow> 'a list \<Rightarrow> 'e + 'b list" where
  "collect_results f [] = Inr []"
| "collect_results f (x # xs) =
     ebind (f x) (\<lambda>y. ebind (collect_results f xs) (\<lambda>ys. Inr (y # ys)))"

text \<open>\<^verbatim>\<open>Option<Result<T, E>>::transpose\<close> after \<^verbatim>\<open>map\<close>.\<close>

definition map_transpose :: "('a \<Rightarrow> 'e + 'b) \<Rightarrow> 'a option \<Rightarrow> 'e + 'b option" where
  "map_transpose f m = (case m of None \<Rightarrow> Inr None | Some x \<Rightarrow> ebind (f x) (\<lambda>y. Inr (Some y)))"

section \<open>Operations on a store\<close>

text \<open>
  An operation takes the state of the store and returns its result with the new state:
  an error return keeps whatever was written before it.
\<close>

type_synonym ('s, 'e, 'a) store_op = "'s \<Rightarrow> ('e + 'a) \<times> 's"

definition sbind :: "('s, 'e, 'a) store_op \<Rightarrow> ('a \<Rightarrow> ('s, 'e, 'b) store_op) \<Rightarrow> ('s, 'e, 'b) store_op" where
  "sbind m f s = (case m s of (Inl e, s') \<Rightarrow> (Inl e, s') | (Inr x, s') \<Rightarrow> f x s')"

definition slift :: "'e + 'a \<Rightarrow> ('s, 'e, 'a) store_op" where
  "slift m s = (m, s)"

definition sread :: "('s \<Rightarrow> 'e + 'a) \<Rightarrow> ('s, 'e, 'a) store_op" where
  "sread f s = (f s, s)"

definition smap_err :: "('e \<Rightarrow> 'f) \<Rightarrow> ('s, 'e, 'a) store_op \<Rightarrow> ('s, 'f, 'a) store_op" where
  "smap_err g m s = (case m s of (r, s') \<Rightarrow> (map_err g r, s'))"

lemma ebind_simps [simp]: "ebind (Inl e) f = Inl e" "ebind (Inr x) f = f x"
  by (simp_all add: ebind_def)

lemma ebind_eq_Inr [simp, result_simps]:
  "ebind m f = Inr y \<longleftrightarrow> (\<exists>x. m = Inr x \<and> f x = Inr y)"
  by (cases m) (auto simp: ebind_def)

lemma ebind_eq_Inl [result_simps]:
  "ebind m f = Inl e \<longleftrightarrow> m = Inl e \<or> (\<exists>x. m = Inr x \<and> f x = Inl e)"
  by (cases m) (auto simp: ebind_def)

lemma map_err_simps [simp]: "map_err g (Inl e) = Inl (g e)" "map_err g (Inr x) = Inr x"
  by (simp_all add: map_err_def)

lemma map_err_eq_Inr [simp, result_simps]: "map_err g m = Inr x \<longleftrightarrow> m = Inr x"
  by (cases m) (auto simp: map_err_def)

lemma Inr_eq_map_err [simp, result_simps]: "Inr x = map_err g m \<longleftrightarrow> m = Inr x"
  by (cases m) (auto simp: map_err_def)

lemma ok_or_simps [simp]: "ok_or e None = Inl e" "ok_or e (Some x) = Inr x"
  by (simp_all add: ok_or_def)

lemma ok_or_eq_Inr [simp, result_simps]: "ok_or e m = Inr x \<longleftrightarrow> m = Some x"
  by (cases m) (auto simp: ok_or_def)

lemma guard_simps [simp]: "guard True e = Inl e" "guard False e = Inr ()"
  by (simp_all add: guard_def)

lemma guard_eq_Inr [simp, result_simps]: "guard bad e = Inr u \<longleftrightarrow> \<not> bad"
  by (simp add: guard_def)

lemma guard_eq_Inl [simp, result_simps]: "guard bad e = Inl e' \<longleftrightarrow> bad \<and> e' = e"
  by (auto simp: guard_def)

lemma check_all_eq_Inr [simp, result_simps]:
  "check_all f xs = Inr u \<longleftrightarrow> (\<forall>x\<in>set xs. f x = Inr ())"
  by (induction xs) auto

lemma check_all_eq_Inl [result_simps]:
  "check_all f xs = Inl e \<Longrightarrow> \<exists>x\<in>set xs. f x = Inl e"
  by (induction xs) (auto simp: ebind_eq_Inl)

lemma collect_results_eq_Inr [result_simps]:
  "collect_results f xs = Inr ys \<longleftrightarrow> map f xs = map Inr ys"
proof (induction xs arbitrary: ys)
  case (Cons x xs)
  then show ?case by (cases ys) auto
qed auto

lemma collect_results_Inr_iff:
  "collect_results f xs = Inr ys \<longleftrightarrow>
     (\<forall>x\<in>set xs. \<exists>y. f x = Inr y) \<and> ys = map (\<lambda>x. projr (f x)) xs"
  by (induction xs arbitrary: ys) auto

lemma collect_results_eq_Inl [result_simps]:
  "collect_results f xs = Inl e \<Longrightarrow> \<exists>x\<in>set xs. f x = Inl e"
  by (induction xs) (auto simp: ebind_eq_Inl)

lemma map_transpose_simps [simp]:
  "map_transpose f None = Inr None"
  "map_transpose f (Some x) = ebind (f x) (\<lambda>y. Inr (Some y))"
  by (simp_all add: map_transpose_def)

lemma slift_apply [simp]: "slift m s = (m, s)"
  by (simp add: slift_def)

lemma sread_apply [simp]: "sread f s = (f s, s)"
  by (simp add: sread_def)

lemma sbind_slift [simp]: "sbind (slift m) f s = (case m of Inl e \<Rightarrow> (Inl e, s) | Inr x \<Rightarrow> f x s)"
  by (simp add: sbind_def split: sum.splits)

lemma sbind_sread [simp]: "sbind (sread g) f s = (case g s of Inl e \<Rightarrow> (Inl e, s) | Inr x \<Rightarrow> f x s)"
  by (simp add: sbind_def split: sum.splits)

lemma sbind_eq_Inr [result_simps]:
  "sbind m f s = (Inr y, s') \<longleftrightarrow> (\<exists>x s1. m s = (Inr x, s1) \<and> f x s1 = (Inr y, s'))"
  by (auto simp: sbind_def split: prod.splits sum.splits)

lemma sbind_eq_Inl [result_simps]:
  "sbind m f s = (Inl e, s') \<longleftrightarrow>
     m s = (Inl e, s') \<or> (\<exists>x s1. m s = (Inr x, s1) \<and> f x s1 = (Inl e, s'))"
  by (auto simp: sbind_def split: prod.splits sum.splits)

lemma smap_err_eq [result_simps]:
  "smap_err g m s = (r, s') \<longleftrightarrow> (\<exists>r0. m s = (r0, s') \<and> r = map_err g r0)"
  by (auto simp: smap_err_def split: prod.splits)

lemma smap_err_InlD: "smap_err g m s = (Inl e, s') \<Longrightarrow> \<exists>e0. e = g e0"
  by (auto simp: smap_err_def map_err_def split: prod.splits sum.splits)

text \<open>What every run of the parts keeps, the composition keeps.\<close>

definition keeps :: "('s \<Rightarrow> bool) \<Rightarrow> ('s, 'e, 'a) store_op \<Rightarrow> bool" where
  "keeps P m \<longleftrightarrow> (\<forall>s. P s \<longrightarrow> P (snd (m s)))"

lemma keepsI: "(\<And>s. P s \<Longrightarrow> P (snd (m s))) \<Longrightarrow> keeps P m"
  by (simp add: keeps_def)

lemma keepsD: "keeps P m \<Longrightarrow> P s \<Longrightarrow> P (snd (m s))"
  by (simp add: keeps_def)

lemma keeps_slift [simp, intro]: "keeps P (slift m)"
  by (simp add: keeps_def)

lemma keeps_sread [simp, intro]: "keeps P (sread f)"
  by (simp add: keeps_def)

lemma keeps_smap_err [intro]: "keeps P m \<Longrightarrow> keeps P (smap_err g m)"
  by (auto simp: keeps_def smap_err_def split: prod.splits)

lemma keeps_sbind [intro]: "keeps P m \<Longrightarrow> (\<And>x. keeps P (f x)) \<Longrightarrow> keeps P (sbind m f)"
  by (fastforce simp: keeps_def sbind_def split: prod.splits sum.splits)

lemma keeps_if [intro]: "keeps P m \<Longrightarrow> keeps P n \<Longrightarrow> keeps P (if b then m else n)"
  by simp

lemma find_append: "find P (xs @ ys) = (case find P xs of None \<Rightarrow> find P ys | Some x \<Rightarrow> Some x)"
  by (induction xs) auto

lemma count_list_distinct: "distinct xs \<Longrightarrow> x \<in> set xs \<Longrightarrow> count_list xs x = 1"
  by (induction xs) auto

end
