(* ===== verification/Rust_Std.thy ===== *)
theory Rust_Std
  imports Hiraeth_Prelude
begin

text \<open>
  The parts of Rust's standard library and of SQLite that the sources use: UTF-8 strings and
  their characters, prefixes and suffixes, splitting and trimming, \<^verbatim>\<open>i64\<close> parsing and printing,
  big-endian bytes, \<^verbatim>\<open>BTreeMap\<close> collection, and the SQL clauses of the store.
\<close>

section \<open>Characters of a string\<close>

text \<open>
  A string is its UTF-8 bytes; \<open>str_chars\<close> cuts it into encoded characters by the lead byte
  and \<open>rust_chars\<close> (\<^verbatim>\<open>str::chars\<close>) gives their code points.
\<close>

definition byte :: "char \<Rightarrow> nat" where
  "byte c = of_char c"

definition utf8_width :: "char \<Rightarrow> nat" where
  "utf8_width c =
     (if byte c < 128 then 1 else if byte c < 224 then 2 else if byte c < 240 then 3 else 4)"

fun str_chars :: "string \<Rightarrow> string list" where
  "str_chars [] = []"
| "str_chars (c # cs) =
     (c # take (utf8_width c - 1) cs) # str_chars (drop (utf8_width c - 1) cs)"

fun code_point :: "string \<Rightarrow> nat" where
  "code_point [a] = byte a"
| "code_point [a, b] = (byte a mod 32) * 64 + byte b mod 64"
| "code_point [a, b, c] = (byte a mod 16) * 4096 + (byte b mod 64) * 64 + byte c mod 64"
| "code_point [a, b, c, d] =
     (byte a mod 8) * 262144 + (byte b mod 64) * 4096 + (byte c mod 64) * 64 + byte d mod 64"
| "code_point _ = 0"

definition rust_chars :: "string \<Rightarrow> nat list" where
  "rust_chars s = map code_point (str_chars s)"

definition is_ascii_alphanumeric :: "nat \<Rightarrow> bool" where
  "is_ascii_alphanumeric n \<longleftrightarrow> 48 \<le> n \<and> n \<le> 57 \<or> 65 \<le> n \<and> n \<le> 90 \<or> 97 \<le> n \<and> n \<le> 122"

definition is_control :: "nat \<Rightarrow> bool" where
  "is_control n \<longleftrightarrow> n < 32 \<or> 127 \<le> n \<and> n < 160"

definition is_whitespace :: "nat \<Rightarrow> bool" where
  "is_whitespace n \<longleftrightarrow> 9 \<le> n \<and> n \<le> 13 \<or> n = 32 \<or> n = 133 \<or> n = 160 \<or> n = 5760 \<or>
     8192 \<le> n \<and> n \<le> 8202 \<or> n = 8232 \<or> n = 8233 \<or> n = 8239 \<or> n = 8287 \<or> n = 12288"

definition trim_chars :: "(nat \<Rightarrow> bool) \<Rightarrow> string \<Rightarrow> string" where
  "trim_chars p s =
     concat (rev (dropWhile (p \<circ> code_point) (rev (dropWhile (p \<circ> code_point) (str_chars s)))))"

definition trim :: "string \<Rightarrow> string" where
  "trim = trim_chars is_whitespace"

definition trim_matches :: "char \<Rightarrow> string \<Rightarrow> string" where
  "trim_matches c = trim_chars (\<lambda>n. n = byte c)"

section \<open>Prefixes, suffixes, splitting\<close>

definition starts_with :: "string \<Rightarrow> string \<Rightarrow> bool" where
  "starts_with p s \<longleftrightarrow> take (length p) s = p"

definition ends_with :: "string \<Rightarrow> string \<Rightarrow> bool" where
  "ends_with p s \<longleftrightarrow> starts_with (rev p) (rev s)"

definition strip_prefix :: "string \<Rightarrow> string \<Rightarrow> string option" where
  "strip_prefix p s = (if starts_with p s then Some (drop (length p) s) else None)"

definition strip_suffix :: "string \<Rightarrow> string \<Rightarrow> string option" where
  "strip_suffix p s = (if ends_with p s then Some (take (length s - length p) s) else None)"

fun contains_str :: "string \<Rightarrow> string \<Rightarrow> bool" where
  "contains_str p [] = (p = [])"
| "contains_str p (c # cs) = (starts_with p (c # cs) \<or> contains_str p cs)"

text \<open>\<^verbatim>\<open>split_once\<close>, \<^verbatim>\<open>splitn\<close> and \<^verbatim>\<open>split(c).next()\<close> on an ASCII separator.\<close>

definition split_once :: "char \<Rightarrow> string \<Rightarrow> (string \<times> string) option" where
  "split_once c s =
     (if c \<in> set s then Some (takeWhile (\<lambda>x. x \<noteq> c) s, tl (dropWhile (\<lambda>x. x \<noteq> c) s)) else None)"

fun splitn :: "nat \<Rightarrow> char \<Rightarrow> string \<Rightarrow> string list" where
  "splitn 0 c s = []"
| "splitn (Suc 0) c s = [s]"
| "splitn (Suc (Suc n)) c s =
     (case split_once c s of None \<Rightarrow> [s] | Some (a, b) \<Rightarrow> a # splitn (Suc n) c b)"

text \<open>\<^verbatim>\<open>split(c)\<close>: all the parts between the separators, at least one.\<close>

fun split_all :: "char \<Rightarrow> string \<Rightarrow> string list" where
  "split_all c [] = [[]]"
| "split_all c (x # xs) =
     (if x = c then [] # split_all c xs
      else case split_all c xs of [] \<Rightarrow> [[x]] | p # ps \<Rightarrow> (x # p) # ps)"

definition split_first :: "char \<Rightarrow> string \<Rightarrow> string" where
  "split_first c s = takeWhile (\<lambda>x. x \<noteq> c) s"

definition ascii_lower :: "char \<Rightarrow> char" where
  "ascii_lower c = (if 65 \<le> byte c \<and> byte c \<le> 90 then char_of (byte c + 32) else c)"

definition to_ascii_lowercase :: "string \<Rightarrow> string" where
  "to_ascii_lowercase = map ascii_lower"

definition eq_ignore_ascii_case :: "string \<Rightarrow> string \<Rightarrow> bool" where
  "eq_ignore_ascii_case a b \<longleftrightarrow> to_ascii_lowercase a = to_ascii_lowercase b"

fun join_strings :: "string \<Rightarrow> string list \<Rightarrow> string" where
  "join_strings sep [] = []"
| "join_strings sep [x] = x"
| "join_strings sep (x # y # ys) = x @ sep @ join_strings sep (y # ys)"

text \<open>A string between single quotes, as the error messages print names.\<close>

definition quoted :: "string \<Rightarrow> string" where
  "quoted s = [CHR 0x27] @ s @ [CHR 0x27]"

section \<open>Integers\<close>

definition digit_char :: "nat \<Rightarrow> char" where
  "digit_char d = char_of (48 + d)"

fun show_nat :: "nat \<Rightarrow> string" where
  "show_nat n = (if n < 10 then [digit_char n] else show_nat (n div 10) @ [digit_char (n mod 10)])"

declare show_nat.simps [simp del]

definition show_int :: "int \<Rightarrow> string" where
  "show_int i = (if i < 0 then CHR ''-'' # show_nat (nat (- i)) else show_nat (nat i))"

definition show_bool :: "bool \<Rightarrow> string" where
  "show_bool b = (if b then ''true'' else ''false'')"

definition is_digit :: "char \<Rightarrow> bool" where
  "is_digit c \<longleftrightarrow> 48 \<le> byte c \<and> byte c \<le> 57"

definition digits_value :: "string \<Rightarrow> nat" where
  "digits_value = foldl (\<lambda>acc c. 10 * acc + (byte c - 48)) 0"

definition parse_nat :: "string \<Rightarrow> nat option" where
  "parse_nat s = (if s \<noteq> [] \<and> list_all is_digit s then Some (digits_value s) else None)"

definition in_i64 :: "int \<Rightarrow> bool" where
  "in_i64 i \<longleftrightarrow> - (2 ^ 63) \<le> i \<and> i < 2 ^ 63"

text \<open>\<^verbatim>\<open>str::parse::<i64>\<close>: an optional sign, at least one digit, in range.\<close>

definition parse_i64 :: "string \<Rightarrow> int option" where
  "parse_i64 s =
     (let r = (if take 1 s = ''-'' then map_option (\<lambda>n. - int n) (parse_nat (drop 1 s))
               else if take 1 s = ''+'' then map_option int (parse_nat (drop 1 s))
               else map_option int (parse_nat s))
      in case r of Some i \<Rightarrow> if in_i64 i then Some i else None | None \<Rightarrow> None)"

text \<open>\<^verbatim>\<open>str::parse::<usize>\<close>, 64 bits.\<close>

definition parse_usize :: "string \<Rightarrow> nat option" where
  "parse_usize s =
     (case parse_nat (if take 1 s = ''+'' then drop 1 s else s) of
        Some n \<Rightarrow> if n < 2 ^ 64 then Some n else None
      | None \<Rightarrow> None)"

text \<open>\<^verbatim>\<open>(n as u32).to_be_bytes()\<close>.\<close>

definition be_u32 :: "nat \<Rightarrow> nat list" where
  "be_u32 n = (let m = n mod 2 ^ 32 in [m div 2 ^ 24, m div 2 ^ 16 mod 256, m div 256 mod 256, m mod 256])"

section \<open>Maps and SQL clauses\<close>

text \<open>Collecting pairs into a \<^verbatim>\<open>BTreeMap\<close>: ordered by key, the last value of a key wins.\<close>

definition btreemap :: "(string \<times> 'v) list \<Rightarrow> (string \<times> 'v) list" where
  "btreemap kvs = sort_key fst (AList.clearjunk (rev kvs))"

definition hashmap_insert :: "string \<Rightarrow> 'v \<Rightarrow> (string \<times> 'v) list \<Rightarrow> (string \<times> 'v) list" where
  "hashmap_insert = AList.update"

definition sql_limit :: "int \<Rightarrow> 'a list \<Rightarrow> 'a list" where
  "sql_limit n xs = (if n < 0 then xs else take (nat n) xs)"

definition coalesce :: "'a option \<Rightarrow> 'a \<Rightarrow> 'a" where
  "coalesce m d = (case m of None \<Rightarrow> d | Some x \<Rightarrow> x)"

fun max_list :: "int \<Rightarrow> int list \<Rightarrow> int" where
  "max_list m [] = m"
| "max_list m (x # xs) = max_list (max m x) xs"

text \<open>The row id SQLite gives to a new row of a table without \<^verbatim>\<open>AUTOINCREMENT\<close>.\<close>

definition next_rowid :: "int list \<Rightarrow> int" where
  "next_rowid ids = (case ids of [] \<Rightarrow> 1 | x # xs \<Rightarrow> max_list x xs + 1)"

text \<open>
  \<^verbatim>\<open>LIKE\<close> on characters: \<^verbatim>\<open>%\<close> matches any sequence, \<^verbatim>\<open>_\<close> any character, letters match in either case.
\<close>

fun like_chars :: "string list \<Rightarrow> string list \<Rightarrow> bool" where
  "like_chars [] s = (s = [])"
| "like_chars (p # ps) [] = (p = ''%'' \<and> like_chars ps [])"
| "like_chars (p # ps) (x # xs) =
     (if p = ''%'' then like_chars ps (x # xs) \<or> like_chars (p # ps) xs
      else (p = ''_'' \<or> eq_ignore_ascii_case p x) \<and> like_chars ps xs)"

definition sql_like :: "string \<Rightarrow> string \<Rightarrow> bool" where
  "sql_like pattern s = like_chars (str_chars pattern) (str_chars s)"

definition sql_length :: "string \<Rightarrow> nat" where
  "sql_length s = length (str_chars s)"

definition sql_substr_from_1 :: "string \<Rightarrow> nat \<Rightarrow> string" where
  "sql_substr_from_1 s n = concat (take n (str_chars s))"

section \<open>Lemmas\<close>

lemma str_chars_concat [simp, string_simps]: "concat (str_chars s) = s"
  by (induction s rule: str_chars.induct) auto

lemma str_chars_ascii [string_simps]:
  "\<forall>c\<in>set s. byte c < 128 \<Longrightarrow> str_chars s = map (\<lambda>c. [c]) s"
  by (induction s) (auto simp: utf8_width_def)

lemma str_chars_empty_iff [simp]: "str_chars s = [] \<longleftrightarrow> s = []"
  by (cases s) auto

lemma starts_with_iff [string_simps]: "starts_with p s \<longleftrightarrow> (\<exists>t. s = p @ t)"
  by (auto simp: starts_with_def) (metis append_take_drop_id)

lemma starts_with_append [simp]: "starts_with p (p @ t)"
  by (auto simp: starts_with_iff)

lemma strip_prefix_append [simp]: "strip_prefix p (p @ t) = Some t"
  by (simp add: strip_prefix_def)

lemma strip_prefix_eq_Some [string_simps]: "strip_prefix p s = Some t \<longleftrightarrow> s = p @ t"
  by (auto simp: strip_prefix_def starts_with_iff)

lemma ends_with_iff [string_simps]: "ends_with p s \<longleftrightarrow> (\<exists>t. s = t @ p)"
  by (auto simp: ends_with_def starts_with_iff) (metis rev_append rev_rev_ident)

lemma strip_suffix_eq_Some [string_simps]: "strip_suffix p s = Some t \<longleftrightarrow> s = t @ p"
  by (auto simp: strip_suffix_def ends_with_iff)

lemma split_once_append [simp]: "c \<notin> set a \<Longrightarrow> split_once c (a @ c # b) = Some (a, b)"
proof -
  assume "c \<notin> set a"
  then have "\<And>x. x \<in> set a \<Longrightarrow> x \<noteq> c" by auto
  then show ?thesis by (simp add: split_once_def takeWhile_append2 dropWhile_append2)
qed

lemma split_once_eq_Some [string_simps]:
  "split_once c s = Some (a, b) \<longleftrightarrow> s = a @ c # b \<and> c \<notin> set a"
proof
  assume *: "split_once c s = Some (a, b)"
  then have c: "c \<in> set s" and a: "a = takeWhile (\<lambda>x. x \<noteq> c) s" and b: "b = tl (dropWhile (\<lambda>x. x \<noteq> c) s)"
    by (auto simp: split_once_def split: if_splits)
  have "dropWhile (\<lambda>x. x \<noteq> c) s \<noteq> []" using c by (auto simp: dropWhile_eq_Nil_conv)
  then have "dropWhile (\<lambda>x. x \<noteq> c) s = c # b"
    using hd_dropWhile [of "\<lambda>x. x \<noteq> c" s] b by (metis hd_Cons_tl)
  then have "s = a @ c # b" using a by (metis takeWhile_dropWhile_id)
  moreover have "c \<notin> set a" using a by (auto dest: set_takeWhileD)
  ultimately show "s = a @ c # b \<and> c \<notin> set a" by simp
qed auto

lemma split_once_eq_None [string_simps]: "split_once c s = None \<longleftrightarrow> c \<notin> set s"
  by (simp add: split_once_def)

lemma split_all_nonempty [simp]: "split_all c s \<noteq> []"
  by (cases s) (auto split: list.split)

lemma split_all_single [simp]: "c \<notin> set a \<Longrightarrow> split_all c a = [a]"
  by (induction a) auto

lemma split_all_append [simp]: "c \<notin> set a \<Longrightarrow> split_all c (a @ c # b) = a # split_all c b"
  by (induction a) auto

lemma split_all_join: "split_all c (a @ c # b) = split_all c a @ split_all c b"
  by (induction a) (auto split: list.splits)

lemma join_split_all: "join_strings [c] (split_all c s) = s"
proof (induction s)
  case (Cons x s)
  moreover obtain p ps where "split_all c s = p # ps" by (cases "split_all c s") auto
  ultimately show ?case by (cases ps) auto
qed simp

lemma split_all_parts: "p \<in> set (split_all c s) \<Longrightarrow> c \<notin> set p"
proof (induction s arbitrary: p)
  case (Cons x s)
  moreover obtain q qs where "split_all c s = q # qs" by (cases "split_all c s") auto
  ultimately show ?case by (auto split: if_splits)
qed simp

lemma sql_limit_length: "0 \<le> n \<Longrightarrow> int (length (sql_limit n xs)) \<le> n"
  by (auto simp: sql_limit_def)

lemma set_sql_limit_subset: "set (sql_limit n xs) \<subseteq> set xs"
  by (auto simp: sql_limit_def dest: in_set_takeD)

lemma coalesce_simps [simp]: "coalesce None d = d" "coalesce (Some x) d = x"
  by (simp_all add: coalesce_def)

lemma max_list_ge_start: "m \<le> max_list m xs"
  by (induction xs arbitrary: m) (auto intro: order_trans max.cobounded1)

lemma max_list_ge: "x \<in> set xs \<Longrightarrow> x \<le> max_list m xs"
proof (induction xs arbitrary: m)
  case (Cons y ys)
  show ?case
  proof (cases "x = y")
    case True
    then show ?thesis using max_list_ge_start [of "max m y" ys] by simp
  qed (use Cons in auto)
qed simp

lemma next_rowid_fresh: "x \<in> set ids \<Longrightarrow> x < next_rowid ids"
  using max_list_ge max_list_ge_start by (fastforce simp: next_rowid_def split: list.splits)

lemma next_rowid_notin [simp]: "next_rowid ids \<notin> set ids"
  using next_rowid_fresh by blast

subsection \<open>Printing and parsing integers\<close>

lemma byte_digit_char: "d < 10 \<Longrightarrow> byte (digit_char d) = 48 + d"
  by (simp add: byte_def digit_char_def)

lemma is_digit_digit_char [simp]: "d < 10 \<Longrightarrow> is_digit (digit_char d)"
  by (simp add: is_digit_def byte_digit_char)

lemma show_nat_digits: "list_all is_digit (show_nat n)"
proof (induction n rule: show_nat.induct)
  case (1 n)
  then show ?case
    by (subst show_nat.simps) auto
qed

lemma show_nat_nonempty: "show_nat n \<noteq> []"
  by (subst show_nat.simps) simp

lemma digits_value_snoc: "digits_value (s @ [c]) = 10 * digits_value s + (byte c - 48)"
  by (simp add: digits_value_def)

lemma digits_value_show_nat: "digits_value (show_nat n) = n"
proof (induction n rule: show_nat.induct)
  case (1 n)
  show ?case
  proof (cases "n < 10")
    case True
    then show ?thesis by (subst show_nat.simps) (simp add: digits_value_def byte_digit_char)
  next
    case False
    with 1 have "digits_value (show_nat (n div 10)) = n div 10" by simp
    with False show ?thesis
      by (subst show_nat.simps) (simp add: digits_value_snoc byte_digit_char)
  qed
qed

lemma parse_nat_show_nat [simp]: "parse_nat (show_nat n) = Some n"
  by (simp add: parse_nat_def show_nat_nonempty show_nat_digits digits_value_show_nat)

lemma show_nat_sign_free: "take 1 (show_nat n) \<noteq> ''-''" "take 1 (show_nat n) \<noteq> ''+''"
  using show_nat_digits [of n] by (cases "show_nat n"; auto simp: is_digit_def byte_def)+

lemma parse_usize_show_nat: "n < 2 ^ 64 \<Longrightarrow> parse_usize (show_nat n) = Some n"
  unfolding parse_usize_def if_not_P [OF show_nat_sign_free(2)] by simp

lemma parse_i64_show_int: "in_i64 i \<Longrightarrow> parse_i64 (show_int i) = Some i"
  using show_nat_sign_free by (auto simp: parse_i64_def show_int_def)

lemma parse_i64_in_range: "parse_i64 s = Some i \<Longrightarrow> in_i64 i"
  by (auto simp: parse_i64_def Let_def split: if_splits option.splits)

lemma to_ascii_lowercase_show_bool [simp]: "to_ascii_lowercase (show_bool b) = show_bool b"
  by (simp add: to_ascii_lowercase_def show_bool_def ascii_lower_def byte_def)

subsection \<open>Ordered maps\<close>

lemma set_btreemap: "distinct (map fst kvs) \<Longrightarrow> set (btreemap kvs) = set kvs"
  by (simp add: btreemap_def distinct_clearjunk_id flip: rev_map)

lemma map_of_btreemap: "distinct (map fst kvs) \<Longrightarrow> map_of (btreemap kvs) = map_of kvs"
proof -
  assume d: "distinct (map fst kvs)"
  then have "distinct (map fst (btreemap kvs))"
    by (simp add: btreemap_def distinct_clearjunk_id distinct_map flip: rev_map)
  then show ?thesis using d set_btreemap [OF d] by (simp add: map_of_inject_set)
qed

lemma sorted_btreemap: "sorted (map fst (btreemap kvs))"
  by (simp add: btreemap_def)

end
