(* ===== verification/Policy.thy ===== *)
theory Policy
  imports Rust_Std
begin

text \<open>
  The policy language and its evaluation: \<^verbatim>\<open>hiraeth_core/src/auth\<close> (\<^verbatim>\<open>principal.rs\<close>, \<^verbatim>\<open>policy.rs\<close>,
  \<^verbatim>\<open>eval.rs\<close>, \<^verbatim>\<open>util.rs\<close>) and the ARNs of \<^verbatim>\<open>hiraeth_core/src/arn_util.rs\<close>. Glob matching is the
  \<^verbatim>\<open>wildmatch\<close> crate, a parameter \<open>wm\<close> of the definitions; the decoding of policy JSON into the
  wire types is generated by \<^verbatim>\<open>serde\<close> and stays outside, what the crate does with the wire
  types is modelled.
\<close>

section \<open>Principals\<close>

datatype policy_principal =
    Any
  | Account string
  | User (user_account: string) (user_name: string)
  | Role (role_account: string) (role_name: string)
  | AssumedRole (assumed_account: string) (assumed_role: string) (session_name: string)
  | Service string

datatype 'a one_or_many = One 'a | Many "'a list"

fun into_vec :: "'a one_or_many \<Rightarrow> 'a list" where
  "into_vec (One x) = [x]"
| "into_vec (Many xs) = xs"

record principal_map_wire =
  wire_aws :: "string one_or_many option"
  wire_service :: "string one_or_many option"

datatype principal_wire = AnyWire string | MapWire principal_map_wire

definition sq :: string where
  "sq = [CHR 0x27]"

definition is_account_id_pattern :: "string \<Rightarrow> bool" where
  "is_account_id_pattern v \<longleftrightarrow>
     v \<noteq> [] \<and> list_all (\<lambda>c. is_digit c \<or> c = CHR ''*'' \<or> c = CHR ''?'') v"

definition parse_iam_principal :: "string \<Rightarrow> string \<Rightarrow> string + policy_principal" where
  "parse_iam_principal account_id res =
     (if res = ''root'' then Inr (Account account_id)
      else case strip_prefix ''user/'' res of
        Some name \<Rightarrow> Inr (User account_id name)
      | None \<Rightarrow>
          (case strip_prefix ''role/'' res of
             Some name \<Rightarrow> Inr (Role account_id name)
           | None \<Rightarrow> Inl (''unsupported IAM resource in principal ARN: '' @ sq @ res @ sq)))"

definition parse_sts_principal :: "string \<Rightarrow> string \<Rightarrow> string + policy_principal" where
  "parse_sts_principal account_id res =
     (case strip_prefix ''assumed-role/'' res of
        Some session \<Rightarrow>
          (case split_once (CHR ''/'') session of
             Some (role, sess) \<Rightarrow> Inr (AssumedRole account_id role sess)
           | None \<Rightarrow> Inl (''invalid assumed role format: '' @ sq @ res @ sq))
      | None \<Rightarrow> Inl (''unsupported STS resource in principal ARN: '' @ sq @ res @ sq))"

definition parse_principal :: "string \<Rightarrow> string + policy_principal" where
  "parse_principal v =
     (if v = ''*'' then Inr Any
      else if is_account_id_pattern v then Inr (Account v)
      else case splitn 6 (CHR '':'') v of
        [p0, p1, p2, p3, p4, p5] \<Rightarrow>
          (if p0 = ''arn'' then
             if \<not> is_account_id_pattern p4
             then Inl (''invalid account id in principal ARN: '' @ sq @ v @ sq)
             else if p2 = ''iam'' then parse_iam_principal p4 p5
             else if p2 = ''sts'' then parse_sts_principal p4 p5
             else Inl (''unsupported service in principal ARN: '' @ sq @ p2 @ sq)
           else Inl (''invalid principal format: '' @ sq @ v @ sq))
      | _ \<Rightarrow> Inl (''invalid principal format: '' @ sq @ v @ sq))"

definition deserialize_principals :: "principal_wire \<Rightarrow> string + policy_principal list" where
  "deserialize_principals wire =
     (case wire of
        AnyWire v \<Rightarrow>
          (if v = ''*'' then Inr [Any]
           else Inl (''expected '' @ sq @ ''*'' @ sq @ '' for Any principal, got '' @ sq @ v @ sq))
      | MapWire w \<Rightarrow>
          ebind
            (map_err (\<lambda>e. ''failed to parse AWS principal: '' @ e)
              (collect_results parse_principal
                (case wire_aws w of None \<Rightarrow> [] | Some m \<Rightarrow> into_vec m)))
            (\<lambda>aws. let principals = aws @
                       map Service (case wire_service w of None \<Rightarrow> [] | Some m \<Rightarrow> into_vec m)
                   in if principals = []
                      then Inl ''principal map must contain at least one supported principal''
                      else Inr principals))"

definition deserialize_optional_principals ::
    "principal_wire option \<Rightarrow> string + policy_principal list" where
  "deserialize_optional_principals v =
     (case v of Some wire \<Rightarrow> deserialize_principals wire | None \<Rightarrow> Inr [])"

section \<open>Policies\<close>

record policy_statement =
  ps_effect :: string
  ps_action :: "string list"
  ps_resource :: "string list"
  ps_principal :: "policy_principal list"

record policy =
  pol_version :: string
  pol_statement :: "policy_statement list"

definition default_policy :: policy where
  "default_policy = \<lparr>pol_version = ''2012-10-17'', pol_statement = []\<rparr>"

datatype policy_eval_result = Allowed | Denied | NotApplicable

section \<open>Evaluation\<close>

type_synonym glob = "string \<Rightarrow> string \<Rightarrow> bool"

definition wildcard_match :: "glob \<Rightarrow> string \<Rightarrow> string \<Rightarrow> bool" where
  "wildcard_match wm pattern v = wm pattern v"

fun principal_account_id :: "policy_principal \<Rightarrow> string option" where
  "principal_account_id Any = None"
| "principal_account_id (Account a) = Some a"
| "principal_account_id (User a _) = Some a"
| "principal_account_id (Role a _) = Some a"
| "principal_account_id (AssumedRole a _ _) = Some a"
| "principal_account_id (Service _) = None"

fun principal_matches_pattern :: "glob \<Rightarrow> policy_principal \<Rightarrow> policy_principal \<Rightarrow> bool" where
  "principal_matches_pattern wm Any p = True"
| "principal_matches_pattern wm (Account a) p =
     (case principal_account_id p of Some b \<Rightarrow> wildcard_match wm a b | None \<Rightarrow> False)"
| "principal_matches_pattern wm (User a n) p =
     (case p of User a' n' \<Rightarrow> wildcard_match wm a a' \<and> wildcard_match wm n n' | _ \<Rightarrow> False)"
| "principal_matches_pattern wm (Role a n) p =
     (case p of Role a' n' \<Rightarrow> wildcard_match wm a a' \<and> wildcard_match wm n n' | _ \<Rightarrow> False)"
| "principal_matches_pattern wm (AssumedRole a n s) p =
     (case p of AssumedRole a' n' s' \<Rightarrow>
        wildcard_match wm a a' \<and> wildcard_match wm n n' \<and> wildcard_match wm s s' | _ \<Rightarrow> False)"
| "principal_matches_pattern wm (Service pat) p =
     (case p of Service s \<Rightarrow> wildcard_match wm pat s | _ \<Rightarrow> False)"

definition evaluate_statement ::
    "(policy_statement \<Rightarrow> bool) \<Rightarrow> policy_statement \<Rightarrow> policy_eval_result" where
  "evaluate_statement matches st =
     (if matches st then
        if ps_effect st = ''Allow'' then Allowed
        else if ps_effect st = ''Deny'' then Denied
        else NotApplicable
      else NotApplicable)"

text \<open>The closure folded over the statements in \<^verbatim>\<open>evaluate_matching_statements\<close>.\<close>

fun combine_statement_results ::
    "policy_eval_result \<Rightarrow> policy_eval_result \<Rightarrow> policy_eval_result" where
  "combine_statement_results Denied _ = Denied"
| "combine_statement_results _ Denied = Denied"
| "combine_statement_results Allowed _ = Allowed"
| "combine_statement_results _ Allowed = Allowed"
| "combine_statement_results _ _ = NotApplicable"

definition evaluate_matching_statements ::
    "policy \<Rightarrow> (policy_statement \<Rightarrow> bool) \<Rightarrow> policy_eval_result" where
  "evaluate_matching_statements p matches =
     foldl combine_statement_results NotApplicable
       (map (evaluate_statement matches) (pol_statement p))"

definition resource_statement_matches ::
    "glob \<Rightarrow> policy_principal \<Rightarrow> string \<Rightarrow> string \<Rightarrow> policy_statement \<Rightarrow> bool" where
  "resource_statement_matches wm prin resource action st \<longleftrightarrow>
     (ps_principal st \<noteq> [] \<and>
      list_ex (\<lambda>pat. principal_matches_pattern wm pat prin) (ps_principal st)) \<and>
     list_ex (\<lambda>pat. wildcard_match wm pat action) (ps_action st) \<and>
     list_ex (\<lambda>pat. wildcard_match wm pat resource) (ps_resource st)"

definition identity_statement_matches ::
    "glob \<Rightarrow> string \<Rightarrow> string \<Rightarrow> policy_statement \<Rightarrow> bool" where
  "identity_statement_matches wm resource action st \<longleftrightarrow>
     ps_principal st = [] \<and>
     list_ex (\<lambda>pat. wildcard_match wm pat action) (ps_action st) \<and>
     list_ex (\<lambda>pat. wildcard_match wm pat resource) (ps_resource st)"

definition evaluate_resource_policy ::
    "glob \<Rightarrow> policy_principal \<Rightarrow> string \<Rightarrow> string \<Rightarrow> policy \<Rightarrow> policy_eval_result" where
  "evaluate_resource_policy wm prin resource action p =
     evaluate_matching_statements p (resource_statement_matches wm prin resource action)"

definition evaluate_identity_policy ::
    "glob \<Rightarrow> string \<Rightarrow> string \<Rightarrow> policy \<Rightarrow> policy_eval_result" where
  "evaluate_identity_policy wm resource action p =
     evaluate_matching_statements p (identity_statement_matches wm resource action)"

definition authorize_cross_service ::
    "glob \<Rightarrow> policy_principal \<Rightarrow> string \<Rightarrow> string \<Rightarrow> policy \<Rightarrow> policy_eval_result" where
  "authorize_cross_service wm caller action resource p =
     evaluate_resource_policy wm caller resource action p"

section \<open>ARNs\<close>

definition normalize_user_path :: "string \<Rightarrow> string" where
  "normalize_user_path path =
     (let trimmed = trim path
      in if trimmed = [] \<or> trimmed = ''/'' then ''/''
         else ''/'' @ trim_matches (CHR ''/'') trimmed @ ''/'')"

definition user_arn :: "string \<Rightarrow> string \<Rightarrow> string \<Rightarrow> string" where
  "user_arn account_id path name =
     ''arn:aws:iam::'' @ account_id @ '':user'' @ normalize_user_path path @ name"

definition policy_arn :: "string \<Rightarrow> string \<Rightarrow> string \<Rightarrow> string" where
  "policy_arn account_id path name =
     ''arn:aws:iam::'' @ account_id @ '':policy'' @ normalize_user_path path @ name"

section \<open>Combining decisions\<close>

text \<open>
  The contract both combiners of the program satisfy (the one of \<^verbatim>\<open>eval.rs\<close> here, the one of
  \<^verbatim>\<open>authorize.rs\<close> in the authorizer): a deny wins over everything, an allow wins over no
  decision. The folds over it depend only on which decisions occur.
\<close>

locale deny_overrides =
  fixes comb :: "policy_eval_result \<Rightarrow> policy_eval_result \<Rightarrow> policy_eval_result"
  assumes deny_left: "comb Denied r = Denied"
    and deny_right: "comb r Denied = Denied"
    and allow_left: "r \<noteq> Denied \<Longrightarrow> comb Allowed r = Allowed"
    and allow_right: "r \<noteq> Denied \<Longrightarrow> comb r Allowed = Allowed"
    and unit: "comb NotApplicable NotApplicable = NotApplicable"
begin

lemma fold_from:
  "foldl comb acc rs =
     (if acc = Denied \<or> Denied \<in> set rs then Denied
      else if acc = Allowed \<or> Allowed \<in> set rs then Allowed else NotApplicable)"
proof (induction rs arbitrary: acc)
  case Nil
  then show ?case by (cases acc) auto
next
  case (Cons r rs)
  then show ?case
    using deny_left deny_right allow_left allow_right unit by (cases acc; cases r) auto
qed

lemma fold_decision:
  "foldl comb NotApplicable rs =
     (if Denied \<in> set rs then Denied
      else if Allowed \<in> set rs then Allowed else NotApplicable)"
  by (simp add: fold_from)

lemma fold_same_set: "set rs = set rs' \<Longrightarrow> foldl comb NotApplicable rs = foldl comb NotApplicable rs'"
  by (simp add: fold_decision)

lemma fold_append:
  "foldl comb NotApplicable (rs @ rs') =
     comb (foldl comb NotApplicable rs) (foldl comb NotApplicable rs')"
  using deny_left deny_right allow_left allow_right unit by (auto simp: fold_from)

end

interpretation statement_comb: deny_overrides combine_statement_results
proof unfold_locales
  fix r :: policy_eval_result
  show "combine_statement_results r Denied = Denied" by (cases r) auto
  show "r \<noteq> Denied \<Longrightarrow> combine_statement_results Allowed r = Allowed" by (cases r) auto
  show "r \<noteq> Denied \<Longrightarrow> combine_statement_results r Allowed = Allowed" by (cases r) auto
qed auto

lemma evaluate_statement_eq:
  "evaluate_statement m st = Denied \<longleftrightarrow> m st \<and> ps_effect st = ''Deny''"
  "evaluate_statement m st = Allowed \<longleftrightarrow> m st \<and> ps_effect st = ''Allow''"
  by (auto simp: evaluate_statement_def)

definition has_matching :: "string \<Rightarrow> (policy_statement \<Rightarrow> bool) \<Rightarrow> policy \<Rightarrow> bool" where
  "has_matching eff m p \<longleftrightarrow> list_ex (\<lambda>st. m st \<and> ps_effect st = eff) (pol_statement p)"

lemma evaluate_matching_statements_eq:
  "evaluate_matching_statements p m =
     (if has_matching ''Deny'' m p then Denied
      else if has_matching ''Allow'' m p then Allowed else NotApplicable)"
proof -
  let ?rs = "map (evaluate_statement m) (pol_statement p)"
  have "Denied \<in> set ?rs \<longleftrightarrow> has_matching ''Deny'' m p"
    using evaluate_statement_eq(1) [of m] by (force simp: has_matching_def list_ex_iff image_iff)
  moreover have "Allowed \<in> set ?rs \<longleftrightarrow> has_matching ''Allow'' m p"
    using evaluate_statement_eq(2) [of m] by (force simp: has_matching_def list_ex_iff image_iff)
  ultimately show ?thesis
    unfolding evaluate_matching_statements_def statement_comb.fold_decision by simp
qed

section \<open>Properties\<close>

text \<open>
  Deny overrides: the evaluation of a resource policy is \<open>Denied\<close> exactly when some
  statement that matches principal, action and resource has effect \<^verbatim>\<open>Deny\<close>; it is \<open>Allowed\<close>
  exactly when none denies and some matching statement has effect \<^verbatim>\<open>Allow\<close>; otherwise the
  policy does not apply.
\<close>

theorem evaluate_resource_policy_deny_overrides:
  "evaluate_resource_policy wm prin resource action p =
     (if has_matching ''Deny'' (resource_statement_matches wm prin resource action) p then Denied
      else if has_matching ''Allow'' (resource_statement_matches wm prin resource action) p
      then Allowed else NotApplicable)"
  by (simp add: evaluate_resource_policy_def evaluate_matching_statements_eq)

text \<open>
  The decision of a policy, resource or identity, depends only on which statements it has:
  reordering or repeating statements never changes it.
\<close>

theorem evaluation_order_independent:
  assumes "set (pol_statement p) = set (pol_statement p')"
  shows "evaluate_resource_policy wm prin resource action p =
           evaluate_resource_policy wm prin resource action p' \<and>
         evaluate_identity_policy wm resource action p = evaluate_identity_policy wm resource action p'"
  using assms
  by (simp add: evaluate_resource_policy_def evaluate_identity_policy_def
      evaluate_matching_statements_def statement_comb.fold_same_set)

theorem evaluation_order_independent_witness:
  "evaluate_identity_policy (=) ''r'' ''a''
     \<lparr>pol_version = [], pol_statement =
        [\<lparr>ps_effect = ''Allow'', ps_action = [''a''], ps_resource = [''r''], ps_principal = []\<rparr>,
         \<lparr>ps_effect = ''Deny'', ps_action = [''a''], ps_resource = [''r''], ps_principal = []\<rparr>]\<rparr> =
   evaluate_identity_policy (=) ''r'' ''a''
     \<lparr>pol_version = [], pol_statement =
        [\<lparr>ps_effect = ''Deny'', ps_action = [''a''], ps_resource = [''r''], ps_principal = []\<rparr>,
         \<lparr>ps_effect = ''Allow'', ps_action = [''a''], ps_resource = [''r''], ps_principal = []\<rparr>]\<rparr>"
  by (rule evaluation_order_independent [THEN conjunct2]) auto

lemma deserialize_principals_nonempty: "deserialize_principals w = Inr ps \<Longrightarrow> ps \<noteq> []"
  by (auto simp: deserialize_principals_def Let_def split: principal_wire.splits if_splits)

text \<open>
  The two kinds of policy do not overlap: a statement whose \<^verbatim>\<open>Principal\<close> element was present
  and decoded is never used by an identity evaluation, and a statement without one is never used
  by a resource evaluation.
\<close>

theorem statement_kinds_disjoint:
  assumes "deserialize_optional_principals v = Inr (ps_principal st)"
  shows "(v \<noteq> None \<longrightarrow> \<not> identity_statement_matches wm resource action st) \<and>
         (v = None \<longrightarrow> \<not> resource_statement_matches wm prin resource action st)"
  using assms deserialize_principals_nonempty
  by (auto simp: deserialize_optional_principals_def identity_statement_matches_def
      resource_statement_matches_def split: option.splits)

theorem statement_kinds_disjoint_witness:
  "\<not> identity_statement_matches (=) ''r'' ''a''
     \<lparr>ps_effect = ''Allow'', ps_action = [''a''], ps_resource = [''r''], ps_principal = [Any]\<rparr>"
  using statement_kinds_disjoint [of "Some (AnyWire ''*'')"
      "\<lparr>ps_effect = ''Allow'', ps_action = [''a''], ps_resource = [''r''], ps_principal = [Any]\<rparr>"]
  by (simp add: deserialize_optional_principals_def deserialize_principals_def)

subsection \<open>User ARNs as principals\<close>

lemma normalize_user_path_slash: "\<exists>t. normalize_user_path path = CHR ''/'' # t"
  by (auto simp: normalize_user_path_def Let_def)

lemma account_pattern_no_colon: "is_account_id_pattern a \<Longrightarrow> CHR '':'' \<notin> set a"
  by (auto simp: is_account_id_pattern_def list_all_iff is_digit_def byte_def)

lemma splitn_arn:
  assumes "CHR '':'' \<notin> set a"
  shows "splitn 6 (CHR '':'') (''arn:aws:iam::'' @ a @ CHR '':'' # rest) =
           [''arn'', ''aws'', ''iam'', [], a, rest]"
  using split_once_append [OF assms, of rest] by (simp add: numeral_eq_Suc split_once_def)

lemma parse_principal_user_arn:
  assumes "is_account_id_pattern a"
  shows "parse_principal (user_arn a path n) = Inr (User a (tl (normalize_user_path path) @ n))"
proof -
  obtain t where t: "normalize_user_path path = CHR ''/'' # t"
    using normalize_user_path_slash by blast
  have arn: "user_arn a path n = ''arn:aws:iam::'' @ a @ CHR '':'' # (''user/'' @ t @ n)"
    by (simp add: user_arn_def t)
  have "\<not> is_account_id_pattern (user_arn a path n)"
    by (simp add: arn is_account_id_pattern_def is_digit_def byte_def)
  moreover have "user_arn a path n \<noteq> ''*''" by (simp add: arn)
  moreover have "splitn 6 (CHR '':'') (user_arn a path n) =
      [''arn'', ''aws'', ''iam'', [], a, ''user/'' @ t @ n]"
    unfolding arn by (rule splitn_arn) (rule account_pattern_no_colon [OF assms])
  ultimately show ?thesis
    using assms t strip_prefix_append [of "''user/''" "t @ n"]
    by (simp add: parse_principal_def parse_iam_principal_def)
qed

text \<open>
  The ARN the program prints for a user at the root path, read back as the principal of a
  policy, is that user: account and name survive the round trip.
\<close>

theorem root_user_arn_roundtrip:
  assumes "is_account_id_pattern a" and "normalize_user_path path = ''/''"
  shows "parse_principal (user_arn a path n) = Inr (User a n)"
  using parse_principal_user_arn [OF assms(1), of path n] assms(2) by simp

theorem root_user_arn_roundtrip_witness:
  "parse_principal (user_arn ''000000000000'' ''/'' ''test'') = Inr (User ''000000000000'' ''test'')"
  by (rule root_user_arn_roundtrip)
    (simp_all add: is_account_id_pattern_def is_digit_def byte_def normalize_user_path_def trim_def
      trim_chars_def utf8_width_def is_whitespace_def)

end
