(* ===== verification/Core.thy ===== *)
theory Core
  imports Policy
begin

text \<open>
  The types every service shares: requests and responses (\<^verbatim>\<open>hiraeth_http\<close>, \<^verbatim>\<open>hiraeth_core/src/request.rs\<close>,
  \<^verbatim>\<open>protocol.rs\<close>, \<^verbatim>\<open>lib.rs\<close>), store errors (\<^verbatim>\<open>hiraeth_store/src/lib.rs\<close>), the rendering of service
  errors, and the externals: one record \<open>ext\<close> of functions that stand for the crates the program
  calls (\<^verbatim>\<open>wildmatch\<close>, \<^verbatim>\<open>serde_json\<close>, \<^verbatim>\<open>md5\<close>, \<^verbatim>\<open>base64\<close>, \<^verbatim>\<open>url\<close>). Points in time
  (\<^verbatim>\<open>chrono::NaiveDateTime\<close>) are integers counting nanoseconds from the epoch.
\<close>

type_synonym time = int

definition seconds :: "int \<Rightarrow> time" where
  "seconds n = n * 1000000000"

definition milliseconds :: "int \<Rightarrow> time" where
  "milliseconds n = n * 1000000"

definition timestamp_millis :: "time \<Rightarrow> int" where
  "timestamp_millis t = t div 1000000"

section \<open>Requests\<close>

record incoming_request =
  ir_host :: string
  ir_method :: string
  ir_path :: string
  ir_query :: "string option"
  ir_headers :: "(string \<times> string) list"
  ir_body :: string

record principal_row =
  p_id :: int
  p_account_id :: string
  p_kind :: string
  p_name :: string
  p_path :: string
  p_user_id :: string
  p_created_at :: time

record auth_context =
  ac_access_key :: string
  ac_principal :: principal_row

record resolved_request =
  rr_request_id :: string
  rr_request :: incoming_request
  rr_service :: string
  rr_region :: string
  rr_auth_context :: auth_context
  rr_date :: time

abbreviation req_account :: "resolved_request \<Rightarrow> string" where
  "req_account req \<equiv> p_account_id (ac_principal (rr_auth_context req))"

abbreviation req_host :: "resolved_request \<Rightarrow> string" where
  "req_host req \<equiv> ir_host (rr_request req)"

record authorization_check =
  chk_action :: string
  chk_resource :: string
  chk_resource_policy :: "policy option"

section \<open>Responses and errors\<close>

record service_response =
  status_code :: nat
  resp_headers :: "(string \<times> string) list"
  resp_body :: string

datatype api_error =
    ApiNotFound string
  | InternalServerError string
  | ApiBadRequest string
  | NotAuthorized string
  | NotAuthenticated string

fun api_status_code :: "api_error \<Rightarrow> nat" where
  "api_status_code (ApiNotFound _) = 404"
| "api_status_code (InternalServerError _) = 500"
| "api_status_code (ApiBadRequest _) = 400"
| "api_status_code (NotAuthorized _) = 403"
| "api_status_code (NotAuthenticated _) = 401"

fun api_message :: "api_error \<Rightarrow> string" where
  "api_message (ApiNotFound m) = ''Not Found: '' @ m"
| "api_message (InternalServerError m) = ''Internal Server Error: '' @ m"
| "api_message (ApiBadRequest m) = ''Bad Request: '' @ m"
| "api_message (NotAuthorized m) = ''Not Authorized: '' @ m"
| "api_message (NotAuthenticated m) = ''Not Authenticated: '' @ m"

datatype store_error = StoreNotFound string | StoreConflict string | StorageFailure string

fun store_error_text :: "store_error \<Rightarrow> string" where
  "store_error_text (StoreNotFound m) = ''Not found: '' @ m"
| "store_error_text (StoreConflict m) = ''Conflict: '' @ m"
| "store_error_text (StorageFailure m) = ''Storage failure: '' @ m"

section \<open>Externals\<close>

record message_attribute_value =
  mav_data_type :: string
  mav_string_value :: "string option"
  mav_binary_value :: "string option"

type_synonym message_attributes = "(string \<times> message_attribute_value) list"

text \<open>
  \<open>x_wildmatch\<close> is \<^verbatim>\<open>WildMatch::matches\<close>; \<open>x_json_value\<close> and \<open>x_policy\<close> are \<^verbatim>\<open>serde_json::from_str\<close>
  at \<^verbatim>\<open>Value\<close> and at \<^verbatim>\<open>Policy\<close>, with the text of the error on the left; \<open>x_md5\<close> is the hexadecimal
  digest; \<open>x_base64\<close> decodes; \<open>x_url\<close> gives \<^verbatim>\<open>host_str\<close> and \<^verbatim>\<open>path_segments\<close> of a parsed URL;
  \<open>x_attrs_to_json\<close> and \<open>x_attrs_of_json\<close> write and read a map of message attributes;
  \<open>x_error_body\<close> is the JSON body of a service error with a type and a message.
\<close>

record ext =
  x_wildmatch :: glob
  x_json_value :: "string \<Rightarrow> string + unit"
  x_policy :: "string \<Rightarrow> string + policy"
  x_md5 :: "string \<Rightarrow> string"
  x_base64 :: "string \<Rightarrow> string + string"
  x_url :: "string \<Rightarrow> (string option \<times> string list option) option"
  x_attrs_to_json :: "message_attributes \<Rightarrow> string + string"
  x_attrs_of_json :: "string \<Rightarrow> string + message_attributes"
  x_error_body :: "string \<Rightarrow> string \<Rightarrow> string"

section \<open>Rendering service errors\<close>

datatype aws_error_fault = Sender | Server

fun as_query_type :: "aws_error_fault \<Rightarrow> string" where
  "as_query_type Sender = ''Sender''"
| "as_query_type Server = ''Server''"

fun sender_fault :: "aws_error_fault \<Rightarrow> bool" where
  "sender_fault Sender = True"
| "sender_fault Server = False"

text \<open>The trait \<^verbatim>\<open>AwsServiceError\<close>, as the record of its methods, with \<^verbatim>\<open>Display\<close>.\<close>

record 'e aws_service_error =
  se_status_code :: "'e \<Rightarrow> nat"
  se_namespace :: "'e \<Rightarrow> string"
  se_code :: "'e \<Rightarrow> string"
  se_query_error_prefix :: "'e \<Rightarrow> string"
  se_fault :: "'e \<Rightarrow> aws_error_fault"
  se_query_code :: "'e \<Rightarrow> string"
  se_text :: "'e \<Rightarrow> string"

definition render_aws_json_error :: "ext \<Rightarrow> 'e aws_service_error \<Rightarrow> 'e \<Rightarrow> service_response" where
  "render_aws_json_error E T e =
     \<lparr>status_code = se_status_code T e,
      resp_headers =
        [(''content-type'', ''application/x-amz-json-1.0''),
         (''x-amzn-query-error'',
          se_query_error_prefix T e @ ''.'' @ se_query_code T e @ '';'' @ as_query_type (se_fault T e))],
      resp_body = x_error_body E (se_namespace T e @ ''#'' @ se_code T e) (se_text T e)\<rparr>"

definition aws_batch_error_details :: "'e aws_service_error \<Rightarrow> 'e \<Rightarrow> string \<times> bool" where
  "aws_batch_error_details T e = (se_code T e, sender_fault (se_fault T e))"

definition empty_response :: service_response where
  "empty_response = \<lparr>status_code = 200, resp_headers = [], resp_body = []\<rparr>"

definition json_response :: "string \<Rightarrow> service_response" where
  "json_response body = \<lparr>status_code = 200, resp_headers = [], resp_body = body\<rparr>"

section \<open>Action registries\<close>

text \<open>
  The trait object \<^verbatim>\<open>AwsAction\<close> over a store state \<open>'s\<close>, and the registry: a list searched by
  name, first registered first.
\<close>

record 's aws_action =
  act_name :: string
  act_validate :: "resolved_request \<Rightarrow> 's \<Rightarrow> service_response + unit"
  act_handle :: "resolved_request \<Rightarrow> 's \<Rightarrow> service_response \<times> 's"
  act_resolve_authorization :: "resolved_request \<Rightarrow> 's \<Rightarrow> service_response + authorization_check"

type_synonym 's registry = "'s aws_action list"

definition registry_get :: "'s registry \<Rightarrow> string \<Rightarrow> 's aws_action option" where
  "registry_get reg name = find (\<lambda>a. act_name a = name) reg"

definition registry_handle ::
    "'s registry \<Rightarrow> string \<Rightarrow> resolved_request \<Rightarrow> 's \<Rightarrow> (service_response \<times> 's) option" where
  "registry_handle reg name req s =
     (case registry_get reg name of None \<Rightarrow> None | Some a \<Rightarrow> Some (act_handle a req s))"

definition registry_validate ::
    "'s registry \<Rightarrow> string \<Rightarrow> resolved_request \<Rightarrow> 's \<Rightarrow> (service_response + unit) option" where
  "registry_validate reg name req s =
     (case registry_get reg name of None \<Rightarrow> None | Some a \<Rightarrow> Some (act_validate a req s))"

text \<open>
  \<^verbatim>\<open>TypedAwsActionAdapter\<close>: a typed action (payload decoder, validation, handler, authorization,
  rendering of responses and errors) as an action on raw requests.
\<close>

record ('s, 'p, 'r, 'e) typed_action =
  ta_name :: string
  ta_parse :: "resolved_request \<Rightarrow> 'e + 'p"
  ta_validate :: "resolved_request \<Rightarrow> 'p \<Rightarrow> 's \<Rightarrow> 'e + unit"
  ta_handle :: "resolved_request \<Rightarrow> 'p \<Rightarrow> 's \<Rightarrow> ('e + 'r) \<times> 's"
  ta_resolve_authorization :: "resolved_request \<Rightarrow> 'p \<Rightarrow> 's \<Rightarrow> 'e + authorization_check"
  ta_render :: "'r \<Rightarrow> 'e + service_response"
  ta_error_response :: "'e \<Rightarrow> service_response"

definition adapter_validate ::
    "('s, 'p, 'r, 'e) typed_action \<Rightarrow> resolved_request \<Rightarrow> 's \<Rightarrow> service_response + unit" where
  "adapter_validate A req s =
     map_err (ta_error_response A) (ebind (ta_parse A req) (\<lambda>p. ta_validate A req p s))"

definition adapter_handle ::
    "('s, 'p, 'r, 'e) typed_action \<Rightarrow> resolved_request \<Rightarrow> 's \<Rightarrow> service_response \<times> 's" where
  "adapter_handle A req s =
     (case ta_parse A req of
        Inl e \<Rightarrow> (ta_error_response A e, s)
      | Inr p \<Rightarrow>
          (case ta_handle A req p s of
             (Inl e, s') \<Rightarrow> (ta_error_response A e, s')
           | (Inr r, s') \<Rightarrow>
               (case ta_render A r of
                  Inl e \<Rightarrow> (ta_error_response A e, s')
                | Inr resp \<Rightarrow> (resp, s'))))"

definition adapter_resolve_authorization ::
    "('s, 'p, 'r, 'e) typed_action \<Rightarrow> resolved_request \<Rightarrow> 's \<Rightarrow>
     service_response + authorization_check" where
  "adapter_resolve_authorization A req s =
     map_err (ta_error_response A)
       (ebind (ta_parse A req) (\<lambda>p. ta_resolve_authorization A req p s))"

definition typed_action_adapter :: "('s, 'p, 'r, 'e) typed_action \<Rightarrow> 's aws_action" where
  "typed_action_adapter A =
     \<lparr>act_name = ta_name A, act_validate = adapter_validate A, act_handle = adapter_handle A,
      act_resolve_authorization = adapter_resolve_authorization A\<rparr>"

lemma registry_get_name: "registry_get reg name = Some a \<Longrightarrow> a \<in> set reg \<and> act_name a = name"
  by (auto simp: registry_get_def find_Some_iff)

lemma adapter_handle_keeps:
  assumes "\<And>p. keeps P (ta_handle A req p)" and "P s"
  shows "P (snd (adapter_handle A req s))"
proof -
  have "P (snd (ta_handle A req p s))" for p using keepsD [OF assms] .
  then have "ta_handle A req p s = (r, s') \<Longrightarrow> P s'" for p r s' by (metis snd_conv)
  with assms(2) show ?thesis by (auto simp: adapter_handle_def split: sum.splits prod.splits)
qed

text \<open>Concrete externals and a concrete request, for the examples of the development.\<close>

definition demo_ext :: ext where
  "demo_ext =
     \<lparr>x_wildmatch = (\<lambda>p v. p = ''*'' \<or> p = v), x_json_value = (\<lambda>_. Inr ()),
      x_policy = (\<lambda>d. if d = ''d'' then
         Inr \<lparr>pol_version = [], pol_statement =
            [\<lparr>ps_effect = ''Allow'', ps_action = [''*''], ps_resource = [''*''], ps_principal = []\<rparr>]\<rparr>
         else Inl ''invalid''),
      x_md5 = (\<lambda>_. ''digest''), x_base64 = Inr, 
      x_url = (\<lambda>u. if u = ''http://localhost:4566/000000000000/jobs''
                then Some (Some ''localhost'', Some [''000000000000'', ''jobs'']) else None),
      x_attrs_to_json = (\<lambda>_. Inr ''{}''), x_attrs_of_json = (\<lambda>_. Inr []), x_error_body = (\<lambda>t m. t)\<rparr>"

definition demo_request :: "string \<Rightarrow> resolved_request" where
  "demo_request svc =
     \<lparr>rr_request_id = [],
      rr_request = \<lparr>ir_host = ''localhost:4566'', ir_method = ''POST'', ir_path = ''/'', ir_query = None,
        ir_headers = [], ir_body = []\<rparr>,
      rr_service = svc, rr_region = ''us-east-1'',
      rr_auth_context = \<lparr>ac_access_key = ''test'', ac_principal =
        \<lparr>p_id = 1, p_account_id = ''000000000000'', p_kind = ''user'', p_name = ''test'', p_path = ''/'',
         p_user_id = ''AIDA'', p_created_at = 0\<rparr>\<rparr>,
      rr_date = 0\<rparr>"

end
