(* ===== verification/Router.thy ===== *)
theory Router
  imports Core
begin

text \<open>
  Routing and authorization: \<^verbatim>\<open>hiraeth_router\<close> (the traits \<^verbatim>\<open>Service\<close> and \<^verbatim>\<open>Authorizer\<close> and
  \<^verbatim>\<open>ServiceRouter::route_traced\<close>) and the authorizer of \<^verbatim>\<open>hiraeth_iam/src/authorize.rs\<close>. The recording
  of trace spans has no influence on the outcome and is left out. The state \<open>'s\<close> is the
  whole state of the stores.
\<close>

section \<open>Services and the router\<close>

datatype authorization_result = Allow | Deny

record 's service =
  svc_can_handle :: "resolved_request \<Rightarrow> bool"
  svc_handle_request :: "resolved_request \<Rightarrow> 's \<Rightarrow> (api_error + service_response) \<times> 's"
  svc_resolve_authorization :: "resolved_request \<Rightarrow> 's \<Rightarrow> service_response + authorization_check"
  svc_validate_request :: "resolved_request \<Rightarrow> 's \<Rightarrow> service_response + unit"

record 's authorizer =
  az_authorize :: "resolved_request \<Rightarrow> authorization_check \<Rightarrow> 's \<Rightarrow> authorization_result"
  az_unauthorized_response :: service_response

definition no_service_found :: api_error where
  "no_service_found = ApiNotFound ''No service found to handle the request''"

definition route_traced ::
    "'s authorizer \<Rightarrow> 's service list \<Rightarrow> resolved_request \<Rightarrow> 's \<Rightarrow>
     (api_error + service_response) \<times> 's" where
  "route_traced az services req s =
     (case find (\<lambda>svc. svc_can_handle svc req) services of
        None \<Rightarrow> (Inl no_service_found, s)
      | Some svc \<Rightarrow>
          (case svc_resolve_authorization svc req s of
             Inl resp \<Rightarrow> (Inr resp, s)
           | Inr check \<Rightarrow>
               (case az_authorize az req check s of
                  Allow \<Rightarrow>
                    (case svc_validate_request svc req s of
                       Inl resp \<Rightarrow> (Inr resp, s)
                     | Inr _ \<Rightarrow> svc_handle_request svc req s)
                | Deny \<Rightarrow> (Inr (az_unauthorized_response az), s))))"

section \<open>The IAM authorizer\<close>

datatype authorization_mode = Enforce | Audit | Off

record inline_policy =
  ip_name :: string
  ip_document :: string

record managed_policy_view =
  mp_name :: string
  mp_document :: string

text \<open>The two reads of \<^verbatim>\<open>IamStore\<close> the authorizer makes, for a principal id.\<close>

record 's iam_policy_store =
  iam_inline_policies :: "int \<Rightarrow> 's \<Rightarrow> store_error + inline_policy list"
  iam_attached_policies :: "int \<Rightarrow> 's \<Rightarrow> store_error + managed_policy_view list"

text \<open>The closure folded in \<^verbatim>\<open>combine_policy_results\<close> of \<^verbatim>\<open>authorize.rs\<close>.\<close>

fun combine_two_policies :: "policy_eval_result \<Rightarrow> policy_eval_result \<Rightarrow> policy_eval_result" where
  "combine_two_policies Denied _ = Denied"
| "combine_two_policies _ Denied = Denied"
| "combine_two_policies Allowed _ = Allowed"
| "combine_two_policies _ Allowed = Allowed"
| "combine_two_policies _ _ = NotApplicable"

definition combine_policy_results :: "policy_eval_result list \<Rightarrow> policy_eval_result" where
  "combine_policy_results rs = foldl combine_two_policies NotApplicable rs"

definition evaluate_principal_inline_policies ::
    "ext \<Rightarrow> 's iam_policy_store \<Rightarrow> int \<Rightarrow> string \<Rightarrow> string \<Rightarrow> 's \<Rightarrow> string + policy_eval_result" where
  "evaluate_principal_inline_policies E st pid resource action s =
     ebind (map_err store_error_text (iam_inline_policies st pid s)) (\<lambda>policies.
     ebind (collect_results
              (\<lambda>ip. map_err (\<lambda>e. ''invalid policy document for inline policy '' @ ip_name ip @ '': '' @ e)
                 (ebind (x_policy E (ip_document ip)) (\<lambda>doc.
                    Inr (evaluate_identity_policy (x_wildmatch E) resource action doc))))
              policies) (\<lambda>rs.
     Inr (combine_policy_results rs)))"

definition evaluate_managed_policies ::
    "ext \<Rightarrow> 's iam_policy_store \<Rightarrow> int \<Rightarrow> string \<Rightarrow> string \<Rightarrow> 's \<Rightarrow> string + policy_eval_result" where
  "evaluate_managed_policies E st pid resource action s =
     ebind (map_err store_error_text (iam_attached_policies st pid s)) (\<lambda>policies.
     ebind (collect_results
              (\<lambda>mp. map_err (\<lambda>e. ''invalid policy document for managed policy '' @ mp_name mp @ '': '' @ e)
                 (ebind (x_policy E (mp_document mp)) (\<lambda>doc.
                    Inr (evaluate_identity_policy (x_wildmatch E) resource action doc))))
              policies) (\<lambda>rs.
     Inr (combine_policy_results rs)))"

definition policy_principal_from_request :: "resolved_request \<Rightarrow> policy_principal option" where
  "policy_principal_from_request req =
     (let pr = ac_principal (rr_auth_context req)
      in if p_kind pr = ''user'' then Some (User (p_account_id pr) (p_name pr)) else None)"

definition or_denied :: "string + policy_eval_result \<Rightarrow> policy_eval_result" where
  "or_denied r = (case r of Inl _ \<Rightarrow> Denied | Inr d \<Rightarrow> d)"

definition evaluate_request ::
    "ext \<Rightarrow> 's iam_policy_store \<Rightarrow> resolved_request \<Rightarrow> authorization_check \<Rightarrow> 's \<Rightarrow> policy_eval_result" where
  "evaluate_request E st req check s =
     (let pid = p_id (ac_principal (rr_auth_context req));
          identity_result = or_denied
            (evaluate_principal_inline_policies E st pid (chk_resource check) (chk_action check) s);
          managed_result = or_denied
            (evaluate_managed_policies E st pid (chk_resource check) (chk_action check) s);
          resource_result =
            (case (policy_principal_from_request req, chk_resource_policy check) of
               (Some prin, Some p) \<Rightarrow>
                 evaluate_resource_policy (x_wildmatch E) prin (chk_resource check) (chk_action check) p
             | _ \<Rightarrow> NotApplicable)
      in combine_policy_results [identity_result, managed_result, resource_result])"

definition authorize ::
    "ext \<Rightarrow> authorization_mode \<Rightarrow> 's iam_policy_store \<Rightarrow> resolved_request \<Rightarrow> authorization_check \<Rightarrow>
     's \<Rightarrow> authorization_result" where
  "authorize E mode st req check s =
     (let authz_result =
        (case evaluate_request E st req check s of
           Allowed \<Rightarrow> Allow | Denied \<Rightarrow> Deny | NotApplicable \<Rightarrow> Deny)
      in case mode of Enforce \<Rightarrow> authz_result | Audit \<Rightarrow> Allow | Off \<Rightarrow> Allow)"

definition unauthorized_response :: service_response where
  "unauthorized_response = \<lparr>status_code = 403, resp_headers = [], resp_body = []\<rparr>"

definition iam_authorizer :: "ext \<Rightarrow> authorization_mode \<Rightarrow> 's iam_policy_store \<Rightarrow> 's authorizer" where
  "iam_authorizer E mode st =
     \<lparr>az_authorize = authorize E mode st, az_unauthorized_response = unauthorized_response\<rparr>"

section \<open>Lemmas\<close>

interpretation policy_comb: deny_overrides combine_two_policies
proof unfold_locales
  fix r :: policy_eval_result
  show "combine_two_policies r Denied = Denied" by (cases r) auto
  show "r \<noteq> Denied \<Longrightarrow> combine_two_policies Allowed r = Allowed" by (cases r) auto
  show "r \<noteq> Denied \<Longrightarrow> combine_two_policies r Allowed = Allowed" by (cases r) auto
qed auto

lemma combine_policy_results_eq:
  "combine_policy_results rs =
     (if Denied \<in> set rs then Denied else if Allowed \<in> set rs then Allowed else NotApplicable)"
  by (simp add: combine_policy_results_def policy_comb.fold_decision)

text \<open>
  Evaluating a list of documents: the result is the combination of one decision per document,
  where a document that cannot be decoded counts as a denial.
\<close>

lemma or_denied_simps [simp]: "or_denied (Inl e) = Denied" "or_denied (Inr d) = d"
  by (simp_all add: or_denied_def)

lemma or_denied_documents:
  "or_denied (ebind (collect_results f xs) (\<lambda>rs. Inr (combine_policy_results rs))) =
     combine_policy_results (map (\<lambda>x. or_denied (f x)) xs)"
proof (cases "\<forall>x\<in>set xs. \<exists>y. f x = Inr y")
  case True
  then have "map (\<lambda>x. projr (f x)) xs = map (\<lambda>x. or_denied (f x)) xs"
    by force
  moreover have "collect_results f xs = Inr (map (\<lambda>x. projr (f x)) xs)"
    using True by (simp add: collect_results_Inr_iff)
  ultimately show ?thesis by (simp only: ebind_simps or_denied_simps)
next
  case False
  then obtain x where x: "x \<in> set xs" "\<And>y. f x \<noteq> Inr y" by blast
  then have "Denied \<in> set (map (\<lambda>x. or_denied (f x)) xs)"
    by (cases "f x") force+
  moreover have "\<nexists>rs. collect_results f xs = Inr rs" using x by (auto simp: collect_results_Inr_iff)
  then obtain e where "collect_results f xs = Inl e" by (cases "collect_results f xs") auto
  ultimately show ?thesis by (simp add: combine_policy_results_eq)
qed

lemma combine_nested:
  "combine_policy_results [combine_policy_results xs, combine_policy_results ys, r] =
     combine_policy_results (xs @ ys @ [r])"
  by (auto simp: combine_policy_results_eq)

section \<open>What the authorizer promises\<close>

text \<open>One decision per policy document of the principal, and one for the resource policy.\<close>

definition document_decision :: "ext \<Rightarrow> authorization_check \<Rightarrow> string \<Rightarrow> policy_eval_result" where
  "document_decision E check doc =
     (case x_policy E doc of
        Inl _ \<Rightarrow> Denied
      | Inr p \<Rightarrow> evaluate_identity_policy (x_wildmatch E) (chk_resource check) (chk_action check) p)"

definition resource_decision :: "ext \<Rightarrow> resolved_request \<Rightarrow> authorization_check \<Rightarrow> policy_eval_result" where
  "resource_decision E req check =
     (case (policy_principal_from_request req, chk_resource_policy check) of
        (Some prin, Some p) \<Rightarrow>
          evaluate_resource_policy (x_wildmatch E) prin (chk_resource check) (chk_action check) p
      | _ \<Rightarrow> NotApplicable)"

definition all_decisions ::
    "ext \<Rightarrow> resolved_request \<Rightarrow> authorization_check \<Rightarrow> inline_policy list \<Rightarrow>
     managed_policy_view list \<Rightarrow> policy_eval_result list" where
  "all_decisions E req check ips mps =
     map (document_decision E check) (map ip_document ips @ map mp_document mps) @
     [resource_decision E req check]"

lemma or_denied_document:
  "or_denied (map_err g (ebind (x_policy E doc) (\<lambda>p. Inr
     (evaluate_identity_policy (x_wildmatch E) (chk_resource check) (chk_action check) p)))) =
   document_decision E check doc"
  by (simp add: or_denied_def document_decision_def map_err_def ebind_def split: sum.splits)

lemma evaluate_request_eq:
  "evaluate_request E st req check s =
     (case (iam_inline_policies st (p_id (ac_principal (rr_auth_context req))) s,
            iam_attached_policies st (p_id (ac_principal (rr_auth_context req))) s) of
        (Inr ips, Inr mps) \<Rightarrow> combine_policy_results (all_decisions E req check ips mps)
      | _ \<Rightarrow> Denied)"
proof -
  let ?pid = "p_id (ac_principal (rr_auth_context req))"
  have inl: "or_denied (evaluate_principal_inline_policies E st ?pid (chk_resource check) (chk_action check) s) =
      (case iam_inline_policies st ?pid s of Inl _ \<Rightarrow> Denied
       | Inr ips \<Rightarrow> combine_policy_results (map (document_decision E check \<circ> ip_document) ips))"
    by (cases "iam_inline_policies st ?pid s")
      (simp_all add: evaluate_principal_inline_policies_def or_denied_documents or_denied_document comp_def)
  have man: "or_denied (evaluate_managed_policies E st ?pid (chk_resource check) (chk_action check) s) =
      (case iam_attached_policies st ?pid s of Inl _ \<Rightarrow> Denied
       | Inr mps \<Rightarrow> combine_policy_results (map (document_decision E check \<circ> mp_document) mps))"
    by (cases "iam_attached_policies st ?pid s")
      (simp_all add: evaluate_managed_policies_def or_denied_documents or_denied_document comp_def)
  show ?thesis
    unfolding evaluate_request_def Let_def inl man resource_decision_def [symmetric]
    by (auto simp: all_decisions_def combine_nested combine_policy_results_eq split: sum.splits)
qed

lemma resource_denial_denies:
  assumes "resource_decision E req check = Denied"
  shows "authorize E Enforce st req check s = Deny"
proof -
  have "evaluate_request E st req check s = Denied"
    using assms by (auto simp: evaluate_request_eq all_decisions_def combine_policy_results_eq split: sum.split)
  then show ?thesis by (simp add: authorize_def)
qed

text \<open>
  C34. In enforce mode a request is allowed exactly when both policy reads succeed, no inline policy,
  no attached managed policy and no resource policy denies it, and at least one of them allows it;
  a policy document that cannot be decoded counts as a denial (the authorizer fails closed).
\<close>

theorem enforce_allows_iff:
  "authorize E Enforce st req check s = Allow \<longleftrightarrow>
     (\<exists>ips mps.
        iam_inline_policies st (p_id (ac_principal (rr_auth_context req))) s = Inr ips \<and>
        iam_attached_policies st (p_id (ac_principal (rr_auth_context req))) s = Inr mps \<and>
        Denied \<notin> set (all_decisions E req check ips mps) \<and>
        Allowed \<in> set (all_decisions E req check ips mps))"
  by (auto simp: authorize_def evaluate_request_eq combine_policy_results_eq
      split: sum.splits policy_eval_result.splits if_splits)

text \<open>A change of state has passed the check of its service.\<close>

lemma mediated_change:
  assumes "route_traced (iam_authorizer E Enforce st) services req s = (r, s')" and "s' \<noteq> s"
  obtains svc check where "find (\<lambda>svc. svc_can_handle svc req) services = Some svc"
    "svc_resolve_authorization svc req s = Inr check" "evaluate_request E st req check s = Allowed"
    "svc_validate_request svc req s = Inr ()" "svc_handle_request svc req s = (r, s')"
  using assms
  by (auto simp: route_traced_def iam_authorizer_def authorize_def Let_def
      split: option.splits sum.splits authorization_result.splits policy_eval_result.splits)

text \<open>
  Complete mediation: when the router, with the authorizer in enforce mode, changes the state
  of the stores at all, then the service found for the request resolved its authorization check,
  the evaluation of that check allowed it and validation passed; the change is the one
  the service's handler made.
\<close>

theorem enforce_complete_mediation:
  assumes "route_traced (iam_authorizer E Enforce st) services req s = (r, s')" and "s' \<noteq> s"
  shows "\<exists>svc check.
           find (\<lambda>svc. svc_can_handle svc req) services = Some svc \<and>
           svc_resolve_authorization svc req s = Inr check \<and>
           evaluate_request E st req check s = Allowed \<and>
           svc_validate_request svc req s = Inr () \<and>
           svc_handle_request svc req s = (r, s')"
  using assms by (rule mediated_change) blast

definition allow_all_store :: "'s iam_policy_store" where
  "allow_all_store =
     \<lparr>iam_inline_policies = (\<lambda>_ _. Inr [\<lparr>ip_name = ''p'', ip_document = ''d''\<rparr>]),
      iam_attached_policies = (\<lambda>_ _. Inr [])\<rparr>"

definition counter_service :: "nat service" where
  "counter_service =
     \<lparr>svc_can_handle = (\<lambda>_. True), svc_handle_request = (\<lambda>_ n. (Inr empty_response, Suc n)),
      svc_resolve_authorization =
        (\<lambda>_ _. Inr \<lparr>chk_action = ''a'', chk_resource = ''r'', chk_resource_policy = None\<rparr>),
      svc_validate_request = (\<lambda>_ _. Inr ())\<rparr>"

theorem enforce_complete_mediation_witness:
  "\<exists>check. svc_resolve_authorization counter_service (demo_request ''x'') 0 = Inr check \<and>
     evaluate_request demo_ext allow_all_store (demo_request ''x'') check (0::nat) = Allowed"
proof -
  have "route_traced (iam_authorizer demo_ext Enforce allow_all_store) [counter_service]
          (demo_request ''x'') 0 = (Inr empty_response, Suc 0)"
    by (simp add: route_traced_def counter_service_def iam_authorizer_def authorize_def
        evaluate_request_eq all_decisions_def document_decision_def resource_decision_def
        allow_all_store_def demo_ext_def demo_request_def policy_principal_from_request_def
        combine_policy_results_eq evaluate_identity_policy_def evaluate_matching_statements_eq
        has_matching_def identity_statement_matches_def wildcard_match_def)
  from enforce_complete_mediation [OF this]
  show ?thesis by (auto simp: counter_service_def)
qed

text \<open>
  Audit and off modes never turn a request away on policy grounds: a denial can only come from
  the resolution of the check, which every mode performs before the authorizer is asked.
\<close>

theorem audit_off_route:
  assumes "mode \<noteq> Enforce" and "find (\<lambda>svc. svc_can_handle svc req) services = Some svc"
  shows "route_traced (iam_authorizer E mode st) services req s =
           (case svc_resolve_authorization svc req s of
              Inl resp \<Rightarrow> (Inr resp, s)
            | Inr _ \<Rightarrow> (case svc_validate_request svc req s of
                          Inl resp \<Rightarrow> (Inr resp, s)
                        | Inr _ \<Rightarrow> svc_handle_request svc req s))"
  using assms
  by (cases mode) (auto simp: route_traced_def iam_authorizer_def authorize_def split: sum.splits)

theorem audit_off_route_witness:
  "route_traced (iam_authorizer demo_ext Off allow_all_store) [counter_service] (demo_request ''x'') 0 =
     (Inr empty_response, 1)"
  by (subst audit_off_route [of Off]) (auto simp: counter_service_def)

section \<open>Users below a path\<close>

text \<open>
  Documented behaviour of \<^verbatim>\<open>wildmatch\<close>: a pattern without \<^verbatim>\<open>*\<close> and \<^verbatim>\<open>?\<close> matches itself only.
\<close>

definition glob_literal :: "glob \<Rightarrow> bool" where
  "glob_literal wm \<longleftrightarrow>
     (\<forall>pat v. CHR ''*'' \<notin> set pat \<and> CHR ''?'' \<notin> set pat \<longrightarrow> wm pat v = (pat = v))"

text \<open>
  C40. A user created below a path is not matched by its own ARN: the principal read from the ARN
  keeps the path in the user name, while the principal of a request carries the bare name,
  so a resource policy that names the user by ARN never applies to the user's requests.
\<close>

theorem pathed_user_arn_never_matches:
  assumes "glob_literal wm"
    and "is_account_id_pattern (req_account req)"
    and "normalize_user_path path \<noteq> ''/''"
    and "CHR ''*'' \<notin> set (normalize_user_path path @ name)"
    and "CHR ''?'' \<notin> set (normalize_user_path path @ name)"
    and "policy_principal_from_request req = Some (User (req_account req) name)"
  shows "\<exists>pat. parse_principal (user_arn (req_account req) path name) = Inr pat \<and>
           \<not> principal_matches_pattern wm pat (User (req_account req) name)"
proof -
  obtain t where t: "normalize_user_path path = CHR ''/'' # t"
    using normalize_user_path_slash by blast
  then have "wm (t @ name) name = (t @ name = name)"
    using assms(1,4,5) by (auto simp: glob_literal_def)
  moreover have "t @ name \<noteq> name" using t assms(3) by simp
  ultimately show ?thesis
    using parse_principal_user_arn [OF assms(2), of path name] t by (simp add: wildcard_match_def)
qed

theorem pathed_user_arn_never_matches_witness:
  "\<exists>pat. parse_principal (user_arn ''000000000000'' ''/dev/'' ''test'') = Inr pat \<and>
     \<not> principal_matches_pattern (=) pat (User ''000000000000'' ''test'')"
  using pathed_user_arn_never_matches [of "(=)" "demo_request ''sqs''" "''/dev/''" "''test''"]
  by (simp add: glob_literal_def demo_request_def policy_principal_from_request_def
      is_account_id_pattern_def is_digit_def byte_def normalize_user_path_def trim_def trim_matches_def
      trim_chars_def utf8_width_def is_whitespace_def)

end
