(* ===== verification/Sqs_Store.thy ===== *)
theory Sqs_Store
  imports Core
begin

text \<open>
  The SQS store: the types and the trait of \<^verbatim>\<open>hiraeth_store/src/sqs.rs\<close> and the SQLite store of
  \<^verbatim>\<open>hiraeth_store_sqlx/src/sqs.rs\<close>. A table is the list of its rows in row-id order; each SQL statement
  is a function on the tables, with the constraints of the migrations (unique keys, foreign keys
  with \<^verbatim>\<open>ON DELETE CASCADE\<close>, row ids). The clock readings and the random receipt handles of a call
  are arguments. The order of the rows of \<^verbatim>\<open>RETURNING\<close>, which SQLite leaves open, is the table's.
\<close>

section \<open>Rows\<close>

record sqs_queue =
  q_id :: int
  q_name :: string
  q_region :: string
  q_account_id :: string
  q_queue_type :: string
  q_visibility_timeout_seconds :: int
  q_delay_seconds :: int
  q_maximum_message_size :: int
  q_message_retention_period_seconds :: int
  q_receive_message_wait_time_seconds :: int
  q_policy :: string
  q_redrive_policy :: string
  q_content_based_deduplication :: bool
  q_kms_master_key_id :: "string option"
  q_kms_data_key_reuse_period_seconds :: int
  q_deduplication_scope :: string
  q_fifo_throughput_limit :: string
  q_redrive_allow_policy :: string
  q_sqs_managed_sse_enabled :: bool
  q_created_at :: time
  q_updated_at :: time

definition default_sqs_queue :: sqs_queue where
  "default_sqs_queue =
     \<lparr>q_id = 0, q_name = [], q_region = [], q_account_id = [], q_queue_type = ''standard'',
      q_visibility_timeout_seconds = 30, q_delay_seconds = 0, q_maximum_message_size = 1048576,
      q_message_retention_period_seconds = 345600, q_receive_message_wait_time_seconds = 0,
      q_policy = ''{}'', q_redrive_policy = ''{}'', q_content_based_deduplication = False,
      q_kms_master_key_id = None, q_kms_data_key_reuse_period_seconds = 300,
      q_deduplication_scope = ''queue'', q_fifo_throughput_limit = ''perQueue'',
      q_redrive_allow_policy = ''{}'', q_sqs_managed_sse_enabled = False,
      q_created_at = 0, q_updated_at = 0\<rparr>"

record sqs_message =
  m_message_id :: string
  m_queue_id :: int
  m_body :: string
  m_message_attributes :: "string option"
  m_aws_trace_header :: "string option"
  m_sent_at :: time
  m_visible_at :: time
  m_expires_at :: time
  m_receive_count :: int
  m_receipt_handle :: "string option"
  m_first_received_at :: "time option"
  m_message_group_id :: "string option"
  m_message_deduplication_id :: "string option"

record sqs_queue_attribute_update =
  u_visibility_timeout_seconds :: "int option"
  u_delay_seconds :: "int option"
  u_maximum_message_size :: "int option"
  u_message_retention_period_seconds :: "int option"
  u_receive_message_wait_time_seconds :: "int option"
  u_policy :: "string option"
  u_redrive_policy :: "string option"
  u_content_based_deduplication :: "bool option"
  u_kms_master_key_id :: "string option option"
  u_kms_data_key_reuse_period_seconds :: "int option"
  u_deduplication_scope :: "string option"
  u_fifo_throughput_limit :: "string option"
  u_redrive_allow_policy :: "string option"
  u_sqs_managed_sse_enabled :: "bool option"

text \<open>The tables \<^verbatim>\<open>sqs_queues\<close>, \<^verbatim>\<open>sqs_messages\<close> (with its row id) and \<^verbatim>\<open>sqs_queue_tags\<close>.\<close>

record sqs_db =
  queues :: "sqs_queue list"
  messages :: "(int \<times> sqs_message) list"
  queue_tags :: "(int \<times> string \<times> string) list"

definition empty_db :: sqs_db where
  "empty_db = \<lparr>queues = [], messages = [], queue_tags = []\<rparr>"

type_synonym queue_key = "string \<times> string \<times> string"

definition queue_key :: "sqs_queue \<Rightarrow> queue_key" where
  "queue_key q = (q_name q, q_region q, q_account_id q)"

section \<open>The trait\<close>

text \<open>What one call of \<^verbatim>\<open>receive_messages\<close> reads from outside: the clock, twice, and the random handles.\<close>

record receive_env =
  re_now :: time
  re_lease_now :: time
  re_handle :: "int \<Rightarrow> string"

text \<open>
  \<^verbatim>\<open>trait SqsStore\<close> as the record of its methods over a state \<open>'s\<close>; methods that read the
  clock take the reading first.
\<close>

record 's sqs_store =
  st_create_queue :: "time \<Rightarrow> sqs_queue \<Rightarrow> ('s, store_error, unit) store_op"
  st_delete_queue :: "int \<Rightarrow> ('s, store_error, unit) store_op"
  st_get_queue :: "string \<Rightarrow> string \<Rightarrow> string \<Rightarrow> 's \<Rightarrow> store_error + sqs_queue option"
  st_get_message_count :: "time \<Rightarrow> int \<Rightarrow> 's \<Rightarrow> store_error + int"
  st_get_visible_message_count :: "time \<Rightarrow> int \<Rightarrow> 's \<Rightarrow> store_error + int"
  st_get_messages_delayed_count :: "time \<Rightarrow> int \<Rightarrow> 's \<Rightarrow> store_error + int"
  st_list_queues :: "string \<Rightarrow> string \<Rightarrow> string option \<Rightarrow> int option \<Rightarrow> string option \<Rightarrow> 's \<Rightarrow>
    store_error + sqs_queue list"
  st_purge_queue :: "int \<Rightarrow> ('s, store_error, unit) store_op"
  st_set_queue_attributes :: "time \<Rightarrow> int \<Rightarrow> sqs_queue_attribute_update \<Rightarrow> ('s, store_error, unit) store_op"
  st_list_queue_tags :: "int \<Rightarrow> 's \<Rightarrow> store_error + (string \<times> string) list"
  st_tag_queue :: "int \<Rightarrow> (string \<times> string) list \<Rightarrow> ('s, store_error, unit) store_op"
  st_untag_queue :: "int \<Rightarrow> string list \<Rightarrow> ('s, store_error, unit) store_op"
  st_send_message :: "sqs_message \<Rightarrow> ('s, store_error, unit) store_op"
  st_receive_messages :: "receive_env \<Rightarrow> int \<Rightarrow> int \<Rightarrow> int \<Rightarrow> ('s, store_error, sqs_message list) store_op"
  st_delete_message :: "int \<Rightarrow> string \<Rightarrow> ('s, store_error, unit) store_op"
  st_set_message_visible_at :: "int \<Rightarrow> string \<Rightarrow> time \<Rightarrow> ('s, store_error, unit) store_op"

section \<open>The SQLite store\<close>

text \<open>
  \<^verbatim>\<open>sqlx::Error\<close>, as far as \<^verbatim>\<open>map_sqlx_error\<close> tells errors apart: a database error that is a
  unique violation, and any other. The texts are SQLite's, parameters \<open>UE\<close>.
\<close>

record sqlite_texts =
  txt_unique :: string
  txt_foreign_key :: string
  txt_not_null :: string

datatype sqlx_error = UniqueViolation string | OtherSqlxError string

fun map_sqlx_error :: "sqlx_error \<Rightarrow> store_error" where
  "map_sqlx_error (UniqueViolation m) = StoreConflict m"
| "map_sqlx_error (OtherSqlxError m) = StorageFailure m"

text \<open>\<^verbatim>\<open>CURRENT_TIMESTAMP\<close> has whole seconds.\<close>

definition current_timestamp :: "time \<Rightarrow> time" where
  "current_timestamp now = seconds (now div 1000000000)"

definition queue_exists :: "sqs_db \<Rightarrow> int \<Rightarrow> bool" where
  "queue_exists db qid \<longleftrightarrow> list_ex (\<lambda>q. q_id q = qid) (queues db)"

definition sqlite_create_queue ::
    "sqlite_texts \<Rightarrow> time \<Rightarrow> sqs_queue \<Rightarrow> (sqs_db, store_error, unit) store_op" where
  "sqlite_create_queue UE now queue db =
     (if list_ex (\<lambda>q. queue_key q = queue_key queue) (queues db)
      then (Inl (map_sqlx_error (UniqueViolation (txt_unique UE))), db)
      else (Inr (), db\<lparr>queues := queues db @
              [queue\<lparr>q_id := next_rowid (map q_id (queues db)), q_created_at := current_timestamp now\<rparr>]\<rparr>))"

definition sqlite_delete_queue :: "int \<Rightarrow> (sqs_db, store_error, unit) store_op" where
  "sqlite_delete_queue qid db =
     (if queue_exists db qid
      then (Inr (), db\<lparr>queues := filter (\<lambda>q. q_id q \<noteq> qid) (queues db),
                       messages := filter (\<lambda>(_, m). m_queue_id m \<noteq> qid) (messages db),
                       queue_tags := filter (\<lambda>(i, _). i \<noteq> qid) (queue_tags db)\<rparr>)
      else (Inl (StoreNotFound ''queue not found''), db))"

definition sqlite_get_queue :: "string \<Rightarrow> string \<Rightarrow> string \<Rightarrow> sqs_db \<Rightarrow> store_error + sqs_queue option" where
  "sqlite_get_queue name region account db =
     Inr (find (\<lambda>q. q_name q = name \<and> q_region q = region \<and> q_account_id q = account) (queues db))"

definition sqlite_get_queue_by_id :: "int \<Rightarrow> sqs_db \<Rightarrow> store_error + sqs_queue option" where
  "sqlite_get_queue_by_id qid db = Inr (find (\<lambda>q. q_id q = qid) (queues db))"

definition sqlite_list_messages :: "int \<Rightarrow> int \<Rightarrow> sqs_db \<Rightarrow> store_error + sqs_message list" where
  "sqlite_list_messages qid limit db =
     Inr (sql_limit limit (sort_key (\<lambda>m. (- m_sent_at m, m_message_id m))
            (filter (\<lambda>m. m_queue_id m = qid) (map snd (messages db)))))"

definition sqlite_delete_message_by_id :: "int \<Rightarrow> string \<Rightarrow> (sqs_db, store_error, unit) store_op" where
  "sqlite_delete_message_by_id qid mid db =
     (if list_ex (\<lambda>(_, m). m_queue_id m = qid \<and> m_message_id m = mid) (messages db)
      then (Inr (), db\<lparr>messages := filter (\<lambda>(_, m). \<not> (m_queue_id m = qid \<and> m_message_id m = mid)) (messages db)\<rparr>)
      else (Inl (StoreNotFound ''message not found''), db))"

definition sqlite_ensure_queue_exists :: "int \<Rightarrow> sqs_db \<Rightarrow> store_error + unit" where
  "sqlite_ensure_queue_exists qid db =
     (if length (filter (\<lambda>q. q_id q = qid) (queues db)) = 0
      then Inl (StoreNotFound ''queue not found'') else Inr ())"

definition sqlite_send_message ::
    "sqlite_texts \<Rightarrow> sqs_message \<Rightarrow> (sqs_db, store_error, unit) store_op" where
  "sqlite_send_message UE msg db =
     (if list_ex (\<lambda>(_, m). m_message_id m = m_message_id msg) (messages db)
      then (Inl (map_sqlx_error (UniqueViolation (txt_unique UE))), db)
      else if \<not> queue_exists db (m_queue_id msg)
      then (Inl (map_sqlx_error (OtherSqlxError (txt_foreign_key UE))), db)
      else (Inr (), db\<lparr>messages := messages db @
              [(next_rowid (map fst (messages db)),
                msg\<lparr>m_message_attributes := Some (coalesce (m_message_attributes msg) ''{}'')\<rparr>)]\<rparr>))"

text \<open>The largest \<^verbatim>\<open>NaiveDateTime\<close> of \<^verbatim>\<open>chrono\<close>, year 262142.\<close>

definition naive_datetime_max :: time where
  "naive_datetime_max = seconds 8210266876799 + 999999999"

definition receivable :: "int \<Rightarrow> time \<Rightarrow> sqs_message \<Rightarrow> bool" where
  "receivable qid now m \<longleftrightarrow> m_queue_id m = qid \<and> m_visible_at m \<le> now \<and> m_expires_at m > now"

definition selected_ids :: "int \<Rightarrow> time \<Rightarrow> int \<Rightarrow> (int \<times> sqs_message) list \<Rightarrow> int list" where
  "selected_ids qid now limit rows =
     map fst (sql_limit limit (sort_key (\<lambda>(rid, m). (m_sent_at m, rid))
                (filter (\<lambda>(_, m). receivable qid now m) rows)))"

definition lease :: "time \<Rightarrow> time \<Rightarrow> string \<Rightarrow> sqs_message \<Rightarrow> sqs_message" where
  "lease now leased_until handle m =
     m\<lparr>m_visible_at := leased_until, m_receipt_handle := Some handle,
       m_receive_count := m_receive_count m + 1,
       m_first_received_at := Some (coalesce (m_first_received_at m) now)\<rparr>"

definition lease_rows ::
    "int list \<Rightarrow> time \<Rightarrow> time \<Rightarrow> (int \<Rightarrow> string) \<Rightarrow> (int \<times> sqs_message) list \<Rightarrow> (int \<times> sqs_message) list" where
  "lease_rows ids now leased_until handle rows =
     map (\<lambda>(rid, m). if rid \<in> set ids then (rid, lease now leased_until (handle rid) m) else (rid, m)) rows"

definition sqlite_receive_messages ::
    "receive_env \<Rightarrow> int \<Rightarrow> int \<Rightarrow> int \<Rightarrow> (sqs_db, store_error, sqs_message list) store_op" where
  "sqlite_receive_messages env qid max_number_of_messages visibility_timeout_seconds db =
     (let now = re_now env; leased_until = re_lease_now env + seconds visibility_timeout_seconds
      in if leased_until > naive_datetime_max
         then (Inl (StorageFailure ''failed to calculate leased_until''), db)
         else let ids = selected_ids qid now max_number_of_messages (messages db);
                  rows = lease_rows ids now leased_until (re_handle env) (messages db)
              in (Inr (map snd (filter (\<lambda>(rid, _). rid \<in> set ids) rows)), db\<lparr>messages := rows\<rparr>))"

definition sqlite_get_message_count :: "time \<Rightarrow> int \<Rightarrow> sqs_db \<Rightarrow> store_error + int" where
  "sqlite_get_message_count now qid db =
     Inr (int (length (filter (\<lambda>(_, m). m_queue_id m = qid \<and> m_expires_at m > now) (messages db))))"

definition sqlite_get_visible_message_count :: "time \<Rightarrow> int \<Rightarrow> sqs_db \<Rightarrow> store_error + int" where
  "sqlite_get_visible_message_count now qid db =
     Inr (int (length (filter
       (\<lambda>(_, m). m_queue_id m = qid \<and> m_visible_at m \<le> now \<and> m_expires_at m > now) (messages db))))"

definition sqlite_get_messages_delayed_count :: "time \<Rightarrow> int \<Rightarrow> sqs_db \<Rightarrow> store_error + int" where
  "sqlite_get_messages_delayed_count now qid db =
     Inr (int (length (filter
       (\<lambda>(_, m). m_queue_id m = qid \<and> m_visible_at m > now \<and> m_expires_at m > now \<and> m_receipt_handle m = None)
       (messages db))))"

definition has_receipt :: "int \<Rightarrow> string \<Rightarrow> sqs_message \<Rightarrow> bool" where
  "has_receipt qid handle m \<longleftrightarrow> m_queue_id m = qid \<and> m_receipt_handle m = Some handle"

definition sqlite_delete_message :: "int \<Rightarrow> string \<Rightarrow> (sqs_db, store_error, unit) store_op" where
  "sqlite_delete_message qid handle db =
     (if list_ex (\<lambda>(_, m). has_receipt qid handle m) (messages db)
      then (Inr (), db\<lparr>messages := filter (\<lambda>(_, m). \<not> has_receipt qid handle m) (messages db)\<rparr>)
      else (Inl (StoreNotFound ''receipt handle not found''), db))"

definition sqlite_set_message_visible_at ::
    "int \<Rightarrow> string \<Rightarrow> time \<Rightarrow> (sqs_db, store_error, unit) store_op" where
  "sqlite_set_message_visible_at qid handle visible_at db =
     (if list_ex (\<lambda>(_, m). has_receipt qid handle m) (messages db)
      then (Inr (), db\<lparr>messages :=
              map (\<lambda>(rid, m). (rid, if has_receipt qid handle m then m\<lparr>m_visible_at := visible_at\<rparr> else m))
                (messages db)\<rparr>)
      else (Inl (StoreNotFound ''receipt handle not found''), db))"

definition sqlite_list_queues ::
    "string \<Rightarrow> string \<Rightarrow> string option \<Rightarrow> int option \<Rightarrow> string option \<Rightarrow> sqs_db \<Rightarrow>
     store_error + sqs_queue list" where
  "sqlite_list_queues region account name_prefix max_results next_token db =
     Inr (sql_limit (case max_results of None \<Rightarrow> 1000 | Some n \<Rightarrow> n)
       (sort_key q_name (filter (\<lambda>q. q_region q = region \<and> q_account_id q = account \<and>
            (case name_prefix of None \<Rightarrow> True | Some p \<Rightarrow> sql_substr_from_1 (q_name q) (sql_length p) = p) \<and>
            (case next_token of None \<Rightarrow> True | Some t \<Rightarrow> q_name q > t)) (queues db))))"

definition sqlite_purge_queue :: "int \<Rightarrow> (sqs_db, store_error, unit) store_op" where
  "sqlite_purge_queue qid db =
     (Inr (), db\<lparr>messages := filter (\<lambda>(_, m). m_queue_id m \<noteq> qid) (messages db)\<rparr>)"

definition apply_queue_update :: "time \<Rightarrow> sqs_queue_attribute_update \<Rightarrow> sqs_queue \<Rightarrow> sqs_queue" where
  "apply_queue_update now u q =
     q\<lparr>q_visibility_timeout_seconds := coalesce (u_visibility_timeout_seconds u) (q_visibility_timeout_seconds q),
       q_delay_seconds := coalesce (u_delay_seconds u) (q_delay_seconds q),
       q_maximum_message_size := coalesce (u_maximum_message_size u) (q_maximum_message_size q),
       q_message_retention_period_seconds :=
         coalesce (u_message_retention_period_seconds u) (q_message_retention_period_seconds q),
       q_receive_message_wait_time_seconds :=
         coalesce (u_receive_message_wait_time_seconds u) (q_receive_message_wait_time_seconds q),
       q_policy := coalesce (u_policy u) (q_policy q),
       q_redrive_policy := coalesce (u_redrive_policy u) (q_redrive_policy q),
       q_content_based_deduplication :=
         coalesce (u_content_based_deduplication u) (q_content_based_deduplication q),
       q_kms_master_key_id :=
         (case u_kms_master_key_id u of None \<Rightarrow> q_kms_master_key_id q | Some v \<Rightarrow> v),
       q_kms_data_key_reuse_period_seconds :=
         coalesce (u_kms_data_key_reuse_period_seconds u) (q_kms_data_key_reuse_period_seconds q),
       q_deduplication_scope := coalesce (u_deduplication_scope u) (q_deduplication_scope q),
       q_fifo_throughput_limit := coalesce (u_fifo_throughput_limit u) (q_fifo_throughput_limit q),
       q_redrive_allow_policy := coalesce (u_redrive_allow_policy u) (q_redrive_allow_policy q),
       q_sqs_managed_sse_enabled := coalesce (u_sqs_managed_sse_enabled u) (q_sqs_managed_sse_enabled q),
       q_updated_at := now\<rparr>"

definition sqlite_set_queue_attributes ::
    "time \<Rightarrow> int \<Rightarrow> sqs_queue_attribute_update \<Rightarrow> (sqs_db, store_error, unit) store_op" where
  "sqlite_set_queue_attributes now qid u db =
     (if queue_exists db qid
      then (Inr (), db\<lparr>queues :=
              map (\<lambda>q. if q_id q = qid then apply_queue_update now u q else q) (queues db)\<rparr>)
      else (Inl (StoreNotFound ''queue not found''), db))"

definition sqlite_list_queue_tags :: "int \<Rightarrow> sqs_db \<Rightarrow> store_error + (string \<times> string) list" where
  "sqlite_list_queue_tags qid db =
     ebind (sqlite_ensure_queue_exists qid db) (\<lambda>_.
     Inr (sort_key fst (map snd (filter (\<lambda>(i, _). i = qid) (queue_tags db)))))"

text \<open>The upsert of one tag, a statement of its own, and the deletion of one tag.\<close>

definition upsert_tag ::
    "sqlite_texts \<Rightarrow> int \<Rightarrow> string \<times> string \<Rightarrow> (sqs_db, store_error, unit) store_op" where
  "upsert_tag UE qid kv db =
     (if \<not> queue_exists db qid
      then (Inl (map_sqlx_error (OtherSqlxError (txt_foreign_key UE))), db)
      else (Inr (), db\<lparr>queue_tags :=
        (if list_ex (\<lambda>(i, k, _). i = qid \<and> k = fst kv) (queue_tags db)
         then map (\<lambda>(i, k, v). if i = qid \<and> k = fst kv then (i, k, snd kv) else (i, k, v)) (queue_tags db)
         else queue_tags db @ [(qid, kv)])\<rparr>))"

definition delete_tag :: "int \<Rightarrow> string \<Rightarrow> (sqs_db, store_error, unit) store_op" where
  "delete_tag qid key db =
     (Inr (), db\<lparr>queue_tags := filter (\<lambda>(i, k, _). \<not> (i = qid \<and> k = key)) (queue_tags db)\<rparr>)"

fun for_each :: "('a \<Rightarrow> ('s, 'e, unit) store_op) \<Rightarrow> 'a list \<Rightarrow> ('s, 'e, unit) store_op" where
  "for_each f [] = slift (Inr ())"
| "for_each f (x # xs) = sbind (f x) (\<lambda>_. for_each f xs)"

definition sqlite_tag_queue ::
    "sqlite_texts \<Rightarrow> int \<Rightarrow> (string \<times> string) list \<Rightarrow> (sqs_db, store_error, unit) store_op" where
  "sqlite_tag_queue UE qid tags =
     sbind (sread (sqlite_ensure_queue_exists qid)) (\<lambda>_. for_each (upsert_tag UE qid) tags)"

definition sqlite_untag_queue :: "int \<Rightarrow> string list \<Rightarrow> (sqs_db, store_error, unit) store_op" where
  "sqlite_untag_queue qid keys =
     sbind (sread (sqlite_ensure_queue_exists qid)) (\<lambda>_. for_each (delete_tag qid) keys)"

definition sqlite_sqs_store :: "sqlite_texts \<Rightarrow> sqs_db sqs_store" where
  "sqlite_sqs_store UE =
     \<lparr>st_create_queue = sqlite_create_queue UE, st_delete_queue = sqlite_delete_queue,
      st_get_queue = sqlite_get_queue, st_get_message_count = sqlite_get_message_count,
      st_get_visible_message_count = sqlite_get_visible_message_count,
      st_get_messages_delayed_count = sqlite_get_messages_delayed_count,
      st_list_queues = sqlite_list_queues, st_purge_queue = sqlite_purge_queue,
      st_set_queue_attributes = sqlite_set_queue_attributes, st_list_queue_tags = sqlite_list_queue_tags,
      st_tag_queue = sqlite_tag_queue UE, st_untag_queue = sqlite_untag_queue,
      st_send_message = sqlite_send_message UE, st_receive_messages = sqlite_receive_messages,
      st_delete_message = sqlite_delete_message,
      st_set_message_visible_at = sqlite_set_message_visible_at\<rparr>"

end
