(* ===== verification/Sqs_Store_Laws.thy ===== *)
theory Sqs_Store_Laws
  imports Sqs_Store
begin

text \<open>
  The integrity of the SQS tables and what the statements promise: an invariant every statement
  keeps, so that it holds under every interleaving of requests; the contract of
  \<^verbatim>\<open>receive_messages\<close> (who is handed out, in which order, for how long); receipt handles; counts.
\<close>

section \<open>The invariant\<close>

definition tag_key :: "int \<times> string \<times> string \<Rightarrow> int \<times> string" where
  "tag_key t = (fst t, fst (snd t))"

text \<open>The keys of the tables; the invariant depends on nothing else.\<close>

definition sqs_keys ::
    "sqs_db \<Rightarrow> int list \<times> queue_key list \<times> int list \<times> string list \<times> int list \<times> (int \<times> string) list" where
  "sqs_keys db =
     (map q_id (queues db), map queue_key (queues db), map fst (messages db),
      map (m_message_id \<circ> snd) (messages db), map (m_queue_id \<circ> snd) (messages db),
      map tag_key (queue_tags db))"

definition sqs_inv :: "sqs_db \<Rightarrow> bool" where
  "sqs_inv db \<longleftrightarrow>
     (case sqs_keys db of (qids, qkeys, rids, mids, mqids, tkeys) \<Rightarrow>
        distinct qids \<and> distinct qkeys \<and> distinct rids \<and> distinct mids \<and>
        set mqids \<subseteq> set qids \<and> distinct tkeys \<and> set (map fst tkeys) \<subseteq> set qids)"

lemma fst_tag_key [simp]: "fst (tag_key t) = fst t"
  by (simp add: tag_key_def)

lemma sqs_inv_keys: "sqs_inv db \<Longrightarrow> sqs_keys db' = sqs_keys db \<Longrightarrow> sqs_inv db'"
  by (simp add: sqs_inv_def)

lemma queue_exists_iff: "queue_exists db qid \<longleftrightarrow> qid \<in> q_id ` set (queues db)"
  by (auto simp: queue_exists_def list_ex_iff)

lemmas sqs_inv_simps = sqs_inv_def sqs_keys_def queue_exists_iff list_ex_iff

lemma sqs_inv_message_queue:
  "sqs_inv db \<Longrightarrow> r \<in> set (messages db) \<Longrightarrow> m_queue_id (snd r) \<in> q_id ` set (queues db)"
  by (simp add: sqs_inv_simps subset_iff image_image)

lemma sqs_inv_tag_queue:
  "sqs_inv db \<Longrightarrow> t \<in> set (queue_tags db) \<Longrightarrow> fst t \<in> q_id ` set (queues db)"
  by (simp add: sqs_inv_simps subset_iff image_image)

lemma sqs_inv_empty: "sqs_inv empty_db"
  by (simp add: sqs_inv_def sqs_keys_def empty_db_def)

lemma distinct_map_filter': "distinct (map f xs) \<Longrightarrow> distinct (map f (filter P xs))"
  by (induction xs) auto

lemma keeps_create_queue: "keeps sqs_inv (sqlite_create_queue UE now q)"
proof (rule keepsI)
  fix db assume inv: "sqs_inv db"
  show "sqs_inv (snd (sqlite_create_queue UE now q db))"
  proof (cases "list_ex (\<lambda>q'. queue_key q' = queue_key q) (queues db)")
    case False
    let ?i = "next_rowid (map q_id (queues db))"
    have "?i \<notin> q_id ` set (queues db)" using next_rowid_notin [of "map q_id (queues db)"] by simp
    with False inv show ?thesis
      by (simp add: sqlite_create_queue_def sqs_inv_simps queue_key_def image_iff subset_iff) metis
  qed (use inv in \<open>simp add: sqlite_create_queue_def\<close>)
qed

lemma keeps_delete_queue: "keeps sqs_inv (sqlite_delete_queue qid)"
  by (rule keepsI)
    (auto simp: sqlite_delete_queue_def sqs_inv_simps distinct_map_filter' tag_key_def image_image subset_iff)

lemma keeps_send_message: "keeps sqs_inv (sqlite_send_message UE msg)"
proof (rule keepsI)
  fix db assume inv: "sqs_inv db"
  let ?i = "next_rowid (map fst (messages db))"
  have "?i \<notin> fst ` set (messages db)" using next_rowid_notin [of "map fst (messages db)"] by simp
  with inv show "sqs_inv (snd (sqlite_send_message UE msg db))"
    by (auto simp: sqlite_send_message_def sqs_inv_simps)
qed

lemma lease_keeps [simp]:
  "m_message_id (lease now until h m) = m_message_id m" "m_queue_id (lease now until h m) = m_queue_id m"
  "m_body (lease now until h m) = m_body m" "m_sent_at (lease now until h m) = m_sent_at m"
  "m_expires_at (lease now until h m) = m_expires_at m"
  "m_message_attributes (lease now until h m) = m_message_attributes m"
  by (simp_all add: lease_def)

lemma keeps_receive_messages: "keeps sqs_inv (sqlite_receive_messages env qid n vt)"
proof (rule keepsI)
  fix db assume "sqs_inv db"
  moreover have "sqs_keys (snd (sqlite_receive_messages env qid n vt db)) = sqs_keys db"
    by (simp add: sqlite_receive_messages_def Let_def sqs_keys_def lease_rows_def split_beta)
  ultimately show "sqs_inv (snd (sqlite_receive_messages env qid n vt db))"
    by (rule sqs_inv_keys)
qed

lemma keeps_delete_message: "keeps sqs_inv (sqlite_delete_message qid h)"
  by (rule keepsI) (auto simp: sqlite_delete_message_def sqs_inv_simps distinct_map_filter')

lemma keeps_delete_message_by_id: "keeps sqs_inv (sqlite_delete_message_by_id qid mid)"
  by (rule keepsI) (auto simp: sqlite_delete_message_by_id_def sqs_inv_simps distinct_map_filter')

lemma keeps_purge_queue: "keeps sqs_inv (sqlite_purge_queue qid)"
  by (rule keepsI) (auto simp: sqlite_purge_queue_def sqs_inv_simps distinct_map_filter')

lemma keeps_set_message_visible_at: "keeps sqs_inv (sqlite_set_message_visible_at qid h t)"
proof (rule keepsI)
  fix db assume "sqs_inv db"
  moreover have "sqs_keys (snd (sqlite_set_message_visible_at qid h t db)) = sqs_keys db"
    by (simp add: sqlite_set_message_visible_at_def sqs_keys_def split_beta)
  ultimately show "sqs_inv (snd (sqlite_set_message_visible_at qid h t db))"
    by (rule sqs_inv_keys)
qed

lemma apply_queue_update_keeps [simp]:
  "q_id (apply_queue_update now u q) = q_id q" "queue_key (apply_queue_update now u q) = queue_key q"
  by (simp_all add: apply_queue_update_def queue_key_def)

lemma keeps_set_queue_attributes: "keeps sqs_inv (sqlite_set_queue_attributes now qid u)"
proof (rule keepsI)
  fix db assume "sqs_inv db"
  moreover have "sqs_keys (snd (sqlite_set_queue_attributes now qid u db)) = sqs_keys db"
    by (simp add: sqlite_set_queue_attributes_def sqs_keys_def)
  ultimately show "sqs_inv (snd (sqlite_set_queue_attributes now qid u db))"
    by (rule sqs_inv_keys)
qed

lemma keeps_upsert_tag: "keeps sqs_inv (upsert_tag UE qid kv)"
proof (rule keepsI)
  fix db assume inv: "sqs_inv db"
  consider "\<not> queue_exists db qid" | "list_ex (\<lambda>(i, k, _). i = qid \<and> k = fst kv) (queue_tags db)"
    | "queue_exists db qid" "\<not> list_ex (\<lambda>(i, k, _). i = qid \<and> k = fst kv) (queue_tags db)"
    by blast
  then show "sqs_inv (snd (upsert_tag UE qid kv db))"
  proof cases
    case 2
    then have "sqs_keys (snd (upsert_tag UE qid kv db)) = sqs_keys db"
      by (simp add: upsert_tag_def sqs_keys_def tag_key_def split_beta)
    with inv show ?thesis by (rule sqs_inv_keys)
  next
    case 3
    then have "(qid, fst kv) \<notin> tag_key ` set (queue_tags db)"
      by (auto simp: list_ex_iff tag_key_def)
    with 3 inv show ?thesis by (auto simp: upsert_tag_def sqs_inv_simps tag_key_def)
  qed (use inv in \<open>simp add: upsert_tag_def\<close>)
qed

lemma keeps_delete_tag: "keeps sqs_inv (delete_tag qid key)"
  by (rule keepsI)
    (auto simp: delete_tag_def sqs_inv_simps distinct_map_filter' tag_key_def image_image subset_iff)

lemma keeps_for_each: "(\<And>x. keeps P (f x)) \<Longrightarrow> keeps P (for_each f xs)"
  by (induction xs) auto

lemma keeps_tag_queue: "keeps sqs_inv (sqlite_tag_queue UE qid tags)"
  by (simp add: sqlite_tag_queue_def keeps_sbind keeps_for_each keeps_upsert_tag)

lemma keeps_untag_queue: "keeps sqs_inv (sqlite_untag_queue qid keys)"
  by (simp add: sqlite_untag_queue_def keeps_sbind keeps_for_each keeps_delete_tag)

lemmas sqlite_keeps_inv =
  keeps_create_queue keeps_delete_queue keeps_send_message keeps_receive_messages
  keeps_delete_message keeps_delete_message_by_id keeps_purge_queue keeps_set_message_visible_at
  keeps_set_queue_attributes keeps_upsert_tag keeps_delete_tag keeps_tag_queue keeps_untag_queue

section \<open>Statements as steps\<close>

text \<open>
  The statements that write, as labels. Requests run concurrently and every statement (the
  receive in its transaction) is atomic, so the reachable databases are those reached by
  any sequence of statements.
\<close>

datatype sqs_stmt =
    CreateQueue time sqs_queue
  | DeleteQueue int
  | SendMessage sqs_message
  | ReceiveMessages receive_env int int int
  | DeleteMessage int string
  | DeleteMessageById int string
  | SetMessageVisibleAt int string time
  | PurgeQueue int
  | SetQueueAttributes time int sqs_queue_attribute_update
  | UpsertTag int "string \<times> string"
  | DeleteTag int string

fun exec_stmt :: "sqlite_texts \<Rightarrow> sqs_stmt \<Rightarrow> sqs_db \<Rightarrow> sqs_db" where
  "exec_stmt UE (CreateQueue now q) db = snd (sqlite_create_queue UE now q db)"
| "exec_stmt UE (DeleteQueue qid) db = snd (sqlite_delete_queue qid db)"
| "exec_stmt UE (SendMessage msg) db = snd (sqlite_send_message UE msg db)"
| "exec_stmt UE (ReceiveMessages env qid n vt) db = snd (sqlite_receive_messages env qid n vt db)"
| "exec_stmt UE (DeleteMessage qid h) db = snd (sqlite_delete_message qid h db)"
| "exec_stmt UE (DeleteMessageById qid mid) db = snd (sqlite_delete_message_by_id qid mid db)"
| "exec_stmt UE (SetMessageVisibleAt qid h t) db = snd (sqlite_set_message_visible_at qid h t db)"
| "exec_stmt UE (PurgeQueue qid) db = snd (sqlite_purge_queue qid db)"
| "exec_stmt UE (SetQueueAttributes now qid u) db = snd (sqlite_set_queue_attributes now qid u db)"
| "exec_stmt UE (UpsertTag qid kv) db = snd (upsert_tag UE qid kv db)"
| "exec_stmt UE (DeleteTag qid key) db = snd (delete_tag qid key db)"

inductive sqs_reachable :: "sqlite_texts \<Rightarrow> sqs_db \<Rightarrow> bool" for UE where
  init: "sqs_reachable UE empty_db"
| step: "sqs_reachable UE db \<Longrightarrow> sqs_reachable UE (exec_stmt UE stmt db)"

lemma exec_stmt_inv: "sqs_inv db \<Longrightarrow> sqs_inv (exec_stmt UE stmt db)"
  by (cases stmt) (auto intro: keepsD sqlite_keeps_inv)

fun exec_stmts :: "sqlite_texts \<Rightarrow> sqs_stmt list \<Rightarrow> sqs_db \<Rightarrow> sqs_db" where
  "exec_stmts UE [] db = db"
| "exec_stmts UE (stmt # stmts) db = exec_stmts UE stmts (exec_stmt UE stmt db)"

lemma exec_stmts_inv: "sqs_inv db \<Longrightarrow> sqs_inv (exec_stmts UE stmts db)"
  by (induction stmts arbitrary: db) (auto intro: exec_stmt_inv)

lemma reachable_exec_stmts: "sqs_reachable UE db \<Longrightarrow> sqs_reachable UE (exec_stmts UE stmts db)"
  by (induction stmts arbitrary: db) (auto intro: sqs_reachable.step)

lemma exec_stmts_invariant:
  assumes "\<And>db stmt. sqs_inv db \<Longrightarrow> P db \<Longrightarrow> A stmt \<Longrightarrow> P (exec_stmt UE stmt db)"
  shows "sqs_inv db \<Longrightarrow> P db \<Longrightarrow> list_all A stmts \<Longrightarrow> P (exec_stmts UE stmts db)"
  by (induction stmts arbitrary: db) (auto intro: assms exec_stmt_inv)

text \<open>A small database: one queue and one message in it.\<close>

definition demo_queue :: sqs_queue where
  "demo_queue = default_sqs_queue\<lparr>q_name := ''jobs'', q_region := ''us-east-1'', q_account_id := ''000000000000''\<rparr>"

definition demo_message :: sqs_message where
  "demo_message = \<lparr>m_message_id = ''m1'', m_queue_id = 1, m_body = ''hello'', m_message_attributes = None,
     m_aws_trace_header = None, m_sent_at = 0, m_visible_at = 0, m_expires_at = seconds 345600,
     m_receive_count = 0, m_receipt_handle = None, m_first_received_at = None,
     m_message_group_id = None, m_message_deduplication_id = None\<rparr>"

definition demo_texts :: sqlite_texts where
  "demo_texts = \<lparr>txt_unique = ''UNIQUE constraint failed'', txt_foreign_key = ''FOREIGN KEY constraint failed'',
     txt_not_null = ''NOT NULL constraint failed''\<rparr>"

definition demo_db :: sqs_db where
  "demo_db = exec_stmts demo_texts [CreateQueue 0 demo_queue, SendMessage demo_message] empty_db"

lemma demo_db_reachable: "sqs_reachable demo_texts demo_db"
  unfolding demo_db_def by (intro reachable_exec_stmts sqs_reachable.init)

lemma demo_db_inv: "sqs_inv demo_db"
  unfolding demo_db_def by (intro exec_stmts_inv sqs_inv_empty)

lemmas sqlite_defs =
  sqlite_create_queue_def sqlite_delete_queue_def sqlite_send_message_def sqlite_receive_messages_def
  sqlite_delete_message_def sqlite_delete_message_by_id_def sqlite_set_message_visible_at_def
  sqlite_purge_queue_def sqlite_set_queue_attributes_def upsert_tag_def delete_tag_def

lemma demo_db_eq:
  "demo_db = \<lparr>queues = [demo_queue\<lparr>q_id := 1, q_created_at := 0\<rparr>],
              messages = [(1, demo_message\<lparr>m_message_attributes := Some ''{}''\<rparr>)], queue_tags = []\<rparr>"
  by (simp add: demo_db_def sqlite_defs empty_db_def queue_exists_def next_rowid_def current_timestamp_def
      demo_message_def demo_queue_def default_sqs_queue_def seconds_def)

section \<open>Properties\<close>

text \<open>
  C11. In every database reached by any sequence of statements (so under every interleaving of
  requests) queue ids and (name, region, account) triples are unique, message row ids and message
  ids are unique, every message and every tag belongs to an existing queue, and tag keys are
  unique per queue.
\<close>

theorem reachable_integrity:
  assumes "sqs_reachable UE db"
  shows "distinct (map q_id (queues db)) \<and> distinct (map queue_key (queues db)) \<and>
         distinct (map fst (messages db)) \<and> distinct (map (m_message_id \<circ> snd) (messages db)) \<and>
         (\<forall>(_, m) \<in> set (messages db). queue_exists db (m_queue_id m)) \<and>
         distinct (map tag_key (queue_tags db)) \<and> (\<forall>t \<in> set (queue_tags db). queue_exists db (fst t))"
proof -
  from assms have "sqs_inv db"
    by induction (auto intro: exec_stmt_inv simp: sqs_inv_empty)
  then show ?thesis by (simp add: sqs_inv_simps image_image subset_iff split_beta)
qed

theorem reachable_integrity_witness:
  "sqs_reachable demo_texts demo_db \<and> length (messages demo_db) = 1 \<and>
   list_all (\<lambda>(_, m). queue_exists demo_db (m_queue_id m)) (messages demo_db)"
  using reachable_integrity [OF demo_db_reachable] demo_db_reachable by (simp add: demo_db_eq list_all_iff)

text \<open>
  A queue just created is found by its name, region and account, with the attributes given,
  and holds no message and no tag, even when its row id was used by a deleted queue; creating it
  again is a conflict that changes nothing.
\<close>

theorem create_queue_fresh:
  assumes "sqs_inv db" "queue_key queue \<notin> queue_key ` set (queues db)"
  shows "\<exists>db' q. sqlite_create_queue UE now queue db = (Inr (), db') \<and>
           sqlite_get_queue (q_name queue) (q_region queue) (q_account_id queue) db' = Inr (Some q) \<and>
           q = queue\<lparr>q_id := q_id q, q_created_at := current_timestamp now\<rparr> \<and>
           sqlite_get_message_count t (q_id q) db' = Inr 0 \<and> sqlite_list_queue_tags (q_id q) db' = Inr [] \<and>
           sqlite_create_queue UE now' queue db' = (Inl (StoreConflict (txt_unique UE)), db')"
proof -
  let ?q = "queue\<lparr>q_id := next_rowid (map q_id (queues db)), q_created_at := current_timestamp now\<rparr>"
  let ?db = "db\<lparr>queues := queues db @ [?q]\<rparr>"
  have fresh: "q_id ?q \<notin> q_id ` set (queues db)" using next_rowid_notin [of "map q_id (queues db)"] by simp
  have "find (\<lambda>q. q_name q = q_name queue \<and> q_region q = q_region queue \<and> q_account_id q = q_account_id queue)
          (queues db) = None"
    using assms(2) by (auto simp: find_None_iff queue_key_def image_iff)
  then have get: "sqlite_get_queue (q_name queue) (q_region queue) (q_account_id queue) ?db = Inr (Some ?q)"
    by (simp add: sqlite_get_queue_def find_append)
  have "m_queue_id (snd r) \<noteq> q_id ?q" if "r \<in> set (messages db)" for r
    using sqs_inv_message_queue [OF assms(1) that] fresh by metis
  then have cnt: "sqlite_get_message_count t (q_id ?q) ?db = Inr 0"
    by (simp add: sqlite_get_message_count_def filter_empty_conv split_beta)
  have "fst x \<noteq> q_id ?q" if "x \<in> set (queue_tags db)" for x
    using sqs_inv_tag_queue [OF assms(1) that] fresh by metis
  then have "filter (\<lambda>(i, _). i = q_id ?q) (queue_tags db) = []" by (simp add: filter_empty_conv split_beta)
  then have tags: "sqlite_list_queue_tags (q_id ?q) ?db = Inr []"
    by (simp add: sqlite_list_queue_tags_def sqlite_ensure_queue_exists_def)
  have "sqlite_create_queue UE now queue db = (Inr (), ?db)"
    using assms(2) by (auto simp: sqlite_create_queue_def list_ex_iff image_iff)
  moreover have "sqlite_create_queue UE now' queue ?db = (Inl (StoreConflict (txt_unique UE)), ?db)"
    by (simp add: sqlite_create_queue_def queue_key_def)
  ultimately show ?thesis using get cnt tags by (intro exI [of _ ?db] exI [of _ ?q]) simp
qed

theorem create_queue_fresh_witness:
  "\<exists>db' q. sqlite_create_queue demo_texts 0 demo_queue empty_db = (Inr (), db') \<and>
     sqlite_get_queue (q_name demo_queue) (q_region demo_queue) (q_account_id demo_queue) db' = Inr (Some q) \<and>
     sqlite_get_message_count 0 (q_id q) db' = Inr 0"
  using create_queue_fresh [of empty_db demo_queue demo_texts 0 0 0] sqs_inv_empty
  by (auto simp: empty_db_def)

end
