(* ===== verification/Sqs_Delivery.thy ===== *)
theory Sqs_Delivery
  imports Sqs_Store_Laws
begin

text \<open>
  Message delivery by the SQLite store: which messages \<^verbatim>\<open>receive_messages\<close> hands out and in which
  order, that a leased message is not handed out again before its lease ends and is available
  afterwards, under every interleaving of other statements, and what a receipt handle is good for.
\<close>

section \<open>The selection\<close>

definition ready :: "int \<Rightarrow> time \<Rightarrow> (int \<times> sqs_message) list \<Rightarrow> (int \<times> sqs_message) list" where
  "ready qid now rows = filter (\<lambda>(_, m). receivable qid now m) rows"

definition age_key :: "int \<times> sqs_message \<Rightarrow> time \<times> int" where
  "age_key r = (m_sent_at (snd r), fst r)"

lemma selected_ids_eq:
  "selected_ids qid now n rows = map fst (sql_limit n (sort_key age_key (ready qid now rows)))"
proof -
  have "age_key = (\<lambda>(rid, m). (m_sent_at m, rid))" by (simp add: fun_eq_iff age_key_def)
  then show ?thesis by (simp add: selected_ids_def ready_def)
qed

lemma length_selected_ids:
  "0 \<le> n \<Longrightarrow> length (selected_ids qid now n rows) = min (nat n) (length (ready qid now rows))"
  by (simp add: selected_ids_eq sql_limit_def)

lemma distinct_selected_ids:
  "distinct (map fst rows) \<Longrightarrow> distinct (selected_ids qid now n rows)"
proof -
  assume "distinct (map fst rows)"
  then have "distinct (map fst (sort_key age_key (ready qid now rows)))"
    by (simp add: distinct_map ready_def inj_on_def)
  then show ?thesis by (simp add: selected_ids_eq sql_limit_def take_map [symmetric])
qed

lemma row_unique: "distinct (map fst rows) \<Longrightarrow> r \<in> set rows \<Longrightarrow> r' \<in> set rows \<Longrightarrow> fst r = fst r' \<Longrightarrow> r = r'"
  by (meson distinct_map inj_onD)

lemma selected_ready:
  assumes "distinct (map fst rows)" "r \<in> set rows" "fst r \<in> set (selected_ids qid now n rows)"
  shows "r \<in> set (sql_limit n (sort_key age_key (ready qid now rows)))"
proof -
  obtain r' where r': "r' \<in> set (sql_limit n (sort_key age_key (ready qid now rows)))" "fst r = fst r'"
    using assms(3) by (auto simp: selected_ids_eq)
  then have "r' \<in> set rows" using set_sql_limit_subset by (fastforce simp: ready_def)
  with assms r' show ?thesis using row_unique by metis
qed

lemma selected_receivable:
  assumes "distinct (map fst rows)" "r \<in> set rows" "fst r \<in> set (selected_ids qid now n rows)"
  shows "receivable qid now (snd r)"
  using selected_ready [OF assms] set_sql_limit_subset by (fastforce simp: ready_def split_beta)

lemma selected_if_room:
  "0 \<le> n \<Longrightarrow> int (length (ready qid now rows)) \<le> n \<Longrightarrow>
   fst ` set (ready qid now rows) = set (selected_ids qid now n rows)"
  by (simp add: selected_ids_eq sql_limit_def)

lemma selected_oldest:
  assumes "distinct (map fst rows)" "r \<in> set rows" "fst r \<in> set (selected_ids qid now n rows)"
    and "r' \<in> set (ready qid now rows)" "fst r' \<notin> set (selected_ids qid now n rows)"
  shows "age_key r \<le> age_key r'"
proof -
  let ?s = "sort_key age_key (ready qid now rows)" and ?l = "\<lambda>k. sql_limit n k"
  from assms(5) have "r' \<notin> set (?l ?s)" by (auto simp: selected_ids_eq)
  moreover have "r' \<in> set (take (nat n) ?s @ drop (nat n) ?s)" using assms(4) by simp
  then have "r' \<in> set (take (nat n) ?s) \<or> r' \<in> set (drop (nat n) ?s)" by (simp only: set_append Un_iff)
  ultimately have "\<not> n < 0" and out: "r' \<in> set (drop (nat n) ?s)"
    using assms(4) by (auto simp: sql_limit_def split: if_splits)
  then have "r \<in> set (take (nat n) ?s)"
    using selected_ready [OF assms(1-3)] by (simp add: sql_limit_def)
  moreover have "sorted (map age_key (take (nat n) ?s @ drop (nat n) ?s))" 
    by (simp only: append_take_drop_id sorted_sort_key)
  ultimately show ?thesis using out by (simp only: map_append sorted_append set_map) blast
qed

lemma length_filter_ids:
  assumes "distinct (map fst rows)" "distinct ids" "set ids \<subseteq> fst ` set rows"
  shows "length (filter (\<lambda>r. fst r \<in> set ids) rows) = length ids"
proof -
  let ?f = "filter (\<lambda>r. fst r \<in> set ids) rows"
  have "fst ` set ?f = set ids" using assms(3) by auto
  moreover have "distinct (map fst ?f)" using assms(1) by (rule distinct_map_filter')
  ultimately have "length (map fst ?f) = length ids"
    using assms(2) by (metis distinct_card set_map)
  then show ?thesis by simp
qed

section \<open>What a receive does\<close>

abbreviation lease_end :: "receive_env \<Rightarrow> int \<Rightarrow> time" where
  "lease_end env vt \<equiv> re_lease_now env + seconds vt"

abbreviation handed_out :: "receive_env \<Rightarrow> int \<Rightarrow> int \<Rightarrow> sqs_db \<Rightarrow> int \<times> sqs_message \<Rightarrow> bool" where
  "handed_out env qid n db r \<equiv> fst r \<in> set (selected_ids qid (re_now env) n (messages db))"

definition lease_row :: "receive_env \<Rightarrow> int \<Rightarrow> int \<times> sqs_message \<Rightarrow> sqs_message" where
  "lease_row env vt r = lease (re_now env) (lease_end env vt) (re_handle env (fst r)) (snd r)"

lemma receive_eq:
  "lease_end env vt \<le> naive_datetime_max \<Longrightarrow>
   sqlite_receive_messages env qid n vt db =
     (Inr (map (lease_row env vt) (filter (handed_out env qid n db) (messages db))),
      db\<lparr>messages := map (\<lambda>r. if handed_out env qid n db r then (fst r, lease_row env vt r) else r) (messages db)\<rparr>)"
  by (simp add: sqlite_receive_messages_def Let_def lease_rows_def lease_row_def split_beta filter_map
      comp_def if_distrib cong: if_cong)

lemma receive_ok_iff:
  "(\<exists>ms. fst (sqlite_receive_messages env qid n vt db) = Inr ms) \<longleftrightarrow> lease_end env vt \<le> naive_datetime_max"
  by (simp add: sqlite_receive_messages_def Let_def)

lemma receive_InrE:
  assumes "sqlite_receive_messages env qid n vt db = (Inr ms, db')"
  obtains "lease_end env vt \<le> naive_datetime_max"
    "ms = map (lease_row env vt) (filter (handed_out env qid n db) (messages db))"
    "db' = db\<lparr>messages := map (\<lambda>r. if handed_out env qid n db r then (fst r, lease_row env vt r) else r) (messages db)\<rparr>"
  using assms receive_ok_iff [of env qid n vt db] receive_eq [of env vt qid n db] by auto

lemma sqs_inv_rows: "sqs_inv db \<Longrightarrow> distinct (map fst (messages db))"
  by (simp add: sqs_inv_def sqs_keys_def)

lemma lease_row_fields [simp]:
  "m_message_id (lease_row env vt r) = m_message_id (snd r)" "m_queue_id (lease_row env vt r) = m_queue_id (snd r)"
  "m_body (lease_row env vt r) = m_body (snd r)" "m_expires_at (lease_row env vt r) = m_expires_at (snd r)"
  "m_visible_at (lease_row env vt r) = lease_end env vt"
  "m_receipt_handle (lease_row env vt r) = Some (re_handle env (fst r))"
  "m_receive_count (lease_row env vt r) = m_receive_count (snd r) + 1"
  by (simp_all add: lease_row_def lease_def)

lemma receive_result_iff:
  "sqlite_receive_messages env qid n vt db = (Inr ms, db') \<Longrightarrow>
   m \<in> set ms \<longleftrightarrow> (\<exists>r\<in>set (messages db). handed_out env qid n db r \<and> m = lease_row env vt r)"
  by (erule receive_InrE) auto

lemma receive_table_handed_out:
  "sqlite_receive_messages env qid n vt db = (Inr ms, db') \<Longrightarrow> r \<in> set (messages db) \<Longrightarrow>
   handed_out env qid n db r \<Longrightarrow> (fst r, lease_row env vt r) \<in> set (messages db')"
  by (erule receive_InrE) (simp add: rev_image_eqI)

lemma receive_table_other:
  "sqlite_receive_messages env qid n vt db = (Inr ms, db') \<Longrightarrow> r \<in> set (messages db) \<Longrightarrow>
   \<not> handed_out env qid n db r \<Longrightarrow> r \<in> set (messages db')"
  by (erule receive_InrE) (simp add: rev_image_eqI)

lemma receive_table_cases:
  assumes "r' \<in> set (messages (snd (sqlite_receive_messages env qid n vt db)))"
  obtains (leased) r where "r \<in> set (messages db)" "handed_out env qid n db r" "r' = (fst r, lease_row env vt r)"
    | (kept) "r' \<in> set (messages db)"
      "lease_end env vt \<le> naive_datetime_max \<Longrightarrow> \<not> handed_out env qid n db r'"
proof (cases "lease_end env vt \<le> naive_datetime_max")
  case True
  let ?f = "\<lambda>r. if handed_out env qid n db r then (fst r, lease_row env vt r) else r"
  have "messages (snd (sqlite_receive_messages env qid n vt db)) = map ?f (messages db)"
    using True by (simp add: receive_eq)
  with assms have "r' \<in> ?f ` set (messages db)" by (simp only: set_map)
  then obtain r where r: "r \<in> set (messages db)" "r' = ?f r" by blast
  then show ?thesis using that by (cases "handed_out env qid n db r") (simp_all only: if_True if_False not_False_eq_True simp_thms)
next
  case False
  then show ?thesis using assms that by (simp add: sqlite_receive_messages_def)
qed

lemma message_id_row:
  "sqs_inv db \<Longrightarrow> r \<in> set (messages db) \<Longrightarrow> r' \<in> set (messages db) \<Longrightarrow>
   m_message_id (snd r) = m_message_id (snd r') \<Longrightarrow> r = r'"
  by (simp add: sqs_inv_def sqs_keys_def distinct_map inj_on_def)

lemma receive_id_iff:
  assumes "sqs_inv db" "sqlite_receive_messages env qid n vt db = (Inr ms, db')" "r \<in> set (messages db)"
  shows "m_message_id (snd r) \<in> m_message_id ` set ms \<longleftrightarrow> handed_out env qid n db r"
proof
  assume "m_message_id (snd r) \<in> m_message_id ` set ms"
  then obtain m where "m \<in> set ms" "m_message_id (snd r) = m_message_id m" by blast
  then obtain r' where "r' \<in> set (messages db)" "handed_out env qid n db r'" "m = lease_row env vt r'"
    using receive_result_iff [OF assms(2)] by blast
  then show "handed_out env qid n db r"
    using message_id_row [OF assms(1,3)] \<open>m_message_id (snd r) = m_message_id m\<close> by simp
next
  assume "handed_out env qid n db r"
  then have "lease_row env vt r \<in> set ms" using receive_result_iff [OF assms(2)] assms(3) by blast
  then show "m_message_id (snd r) \<in> m_message_id ` set ms" by (metis image_eqI lease_row_fields(1))
qed

lemma handed_out_receivable:
  "sqs_inv db \<Longrightarrow> r \<in> set (messages db) \<Longrightarrow> handed_out env qid n db r \<Longrightarrow> receivable qid (re_now env) (snd r)"
  using selected_receivable sqs_inv_rows by blast

lemma receive_length:
  assumes "sqs_inv db" "0 \<le> n" "sqlite_receive_messages env qid n vt db = (Inr ms, db')"
  shows "length ms = min (nat n) (length (ready qid (re_now env) (messages db)))"
proof -
  let ?ids = "selected_ids qid (re_now env) n (messages db)"
  have "set ?ids \<subseteq> fst ` set (messages db)"
    using set_sql_limit_subset by (fastforce simp: selected_ids_eq ready_def)
  then have "length (filter (\<lambda>r. fst r \<in> set ?ids) (messages db)) = length ?ids"
    using sqs_inv_rows [OF assms(1)] by (intro length_filter_ids distinct_selected_ids)
  then have "length (filter (handed_out env qid n db) (messages db)) =
      min (nat n) (length (ready qid (re_now env) (messages db)))"
    using length_selected_ids [OF assms(2)] by simp
  moreover have "ms = map (lease_row env vt) (filter (handed_out env qid n db) (messages db))"
    by (rule receive_InrE [OF assms(3)])
  ultimately show ?thesis by (simp only: length_map)
qed

subsection \<open>A concrete run\<close>

text \<open>
  On the database with one queue and one message: a first receive leases the message for 30
  seconds, a second one finds nothing, and one after 31 seconds finds it again.
\<close>

definition demo_env :: "int \<Rightarrow> string \<Rightarrow> receive_env" where
  "demo_env t h = \<lparr>re_now = seconds t, re_lease_now = seconds t, re_handle = (\<lambda>_. h)\<rparr>"

definition demo_leased :: sqs_message where
  "demo_leased = lease 0 (seconds 30) ''h1'' (demo_message\<lparr>m_message_attributes := Some ''{}''\<rparr>)"

lemmas demo_eval = receive_eq selected_ids_def ready_def sql_limit_def lease_row_def lease_def receivable_def
  demo_env_def demo_leased_def demo_message_def seconds_def naive_datetime_max_def

lemma demo_receive:
  "sqlite_receive_messages (demo_env 0 ''h1'') 1 10 30 demo_db = (Inr [demo_leased], demo_db\<lparr>messages := [(1, demo_leased)]\<rparr>)"
  by (simp add: demo_db_eq demo_eval)

lemma demo_receive_again:
  "sqlite_receive_messages (demo_env 10 ''h2'') 1 10 30 (demo_db\<lparr>messages := [(1, demo_leased)]\<rparr>)
     = (Inr [], demo_db\<lparr>messages := [(1, demo_leased)]\<rparr>)"
  by (simp add: demo_db_eq demo_eval)

lemma demo_receive_later:
  "\<exists>m db'. sqlite_receive_messages (demo_env 31 ''h2'') 1 10 30 (demo_db\<lparr>messages := [(1, demo_leased)]\<rparr>) = (Inr [m], db')"
  by (simp add: demo_db_eq demo_eval)

text \<open>
  A receive hands out exactly as many messages as are ready and asked for: the minimum of the
  requested number and the number of visible, unexpired messages of the queue. In particular it
  returns something whenever something is ready.
\<close>

theorem receive_fills_request:
  assumes "sqs_inv db" "0 \<le> n" "lease_end env vt \<le> naive_datetime_max"
  shows "\<exists>ms db'. sqlite_receive_messages env qid n vt db = (Inr ms, db') \<and>
           length ms = min (nat n) (length (ready qid (re_now env) (messages db)))"
  using receive_eq [OF assms(3), of qid n db] receive_length [OF assms(1,2)] by blast

theorem receive_fills_request_witness:
  "\<exists>ms db'. sqlite_receive_messages (demo_env 0 ''h1'') 1 10 30 demo_db = (Inr ms, db') \<and> length ms = 1"
  using receive_fills_request [of demo_db 10 "demo_env 0 ''h1''" 30 1] demo_db_inv
  by (simp add: demo_db_eq demo_eval)

text \<open>
  C27. Every message handed out was ready (of the queue, visible and unexpired) and comes back
  leased: invisible until the lease ends, with a new receipt handle and one more receive, the
  body untouched; the table then holds it in that form. Every other row is as before.
\<close>

theorem receive_leases_ready_messages:
  assumes "sqs_inv db" "sqlite_receive_messages env qid n vt db = (Inr ms, db')"
  shows "(\<forall>m\<in>set ms. \<exists>r\<in>set (messages db).
            receivable qid (re_now env) (snd r) \<and> (fst r, m) \<in> set (messages db') \<and>
            m_message_id m = m_message_id (snd r) \<and> m_body m = m_body (snd r) \<and>
            m_visible_at m = lease_end env vt \<and> m_receipt_handle m = Some (re_handle env (fst r)) \<and>
            m_receive_count m = m_receive_count (snd r) + 1) \<and>
         (\<forall>r\<in>set (messages db). m_message_id (snd r) \<notin> m_message_id ` set ms \<longrightarrow> r \<in> set (messages db'))"
proof (intro conjI ballI impI)
  fix m assume "m \<in> set ms"
  then obtain r where r: "r \<in> set (messages db)" "handed_out env qid n db r" "m = lease_row env vt r"
    using receive_result_iff [OF assms(2)] by blast
  then have "receivable qid (re_now env) (snd r)" "(fst r, m) \<in> set (messages db')"
    using handed_out_receivable [OF assms(1)] receive_table_handed_out [OF assms(2)] by auto
  with r show "\<exists>r\<in>set (messages db).
      receivable qid (re_now env) (snd r) \<and> (fst r, m) \<in> set (messages db') \<and>
      m_message_id m = m_message_id (snd r) \<and> m_body m = m_body (snd r) \<and>
      m_visible_at m = lease_end env vt \<and> m_receipt_handle m = Some (re_handle env (fst r)) \<and>
      m_receive_count m = m_receive_count (snd r) + 1"
    by (intro bexI [of _ r]) simp_all
next
  fix r assume "r \<in> set (messages db)" "m_message_id (snd r) \<notin> m_message_id ` set ms"
  then show "r \<in> set (messages db')"
    using receive_id_iff [OF assms] receive_table_other [OF assms(2)] by blast
qed

theorem receive_leases_ready_messages_witness:
  "\<exists>r\<in>set (messages demo_db). receivable 1 0 (snd r) \<and> m_body demo_leased = m_body (snd r) \<and>
     m_receive_count demo_leased = m_receive_count (snd r) + 1"
  using receive_leases_ready_messages [OF demo_db_inv demo_receive]
  by (simp add: demo_db_eq demo_env_def seconds_def)

text \<open>
  The oldest messages are handed out first: no ready message that is passed over is older, by
  send time and then by row id, than one that is handed out.
\<close>

theorem receive_oldest_first:
  assumes "sqs_inv db" "sqlite_receive_messages env qid n vt db = (Inr ms, db')"
    and "r \<in> set (messages db)" "m_message_id (snd r) \<in> m_message_id ` set ms"
    and "r' \<in> set (ready qid (re_now env) (messages db))" "m_message_id (snd r') \<notin> m_message_id ` set ms"
  shows "age_key r \<le> age_key r'"
proof -
  have "r' \<in> set (messages db)" using assms(5) by (simp add: ready_def)
  then have "handed_out env qid n db r" "\<not> handed_out env qid n db r'"
    using receive_id_iff [OF assms(1,2)] assms(3,4,6) by auto
  then show ?thesis
    using selected_oldest [OF sqs_inv_rows [OF assms(1)]] assms(3,5) by blast
qed

text \<open>Two messages, the younger one first in the table, and room for one.\<close>

definition demo_pair_db :: sqs_db where
  "demo_pair_db = exec_stmts demo_texts [CreateQueue 0 demo_queue,
     SendMessage (demo_message\<lparr>m_message_id := ''m2'', m_sent_at := 5\<rparr>), SendMessage demo_message] empty_db"

lemma demo_pair_db_inv: "sqs_inv demo_pair_db"
  unfolding demo_pair_db_def by (intro exec_stmts_inv sqs_inv_empty)

lemma demo_pair_rows:
  "messages demo_pair_db =
     [(1, demo_message\<lparr>m_message_id := ''m2'', m_sent_at := 5, m_message_attributes := Some ''{}''\<rparr>),
      (2, demo_message\<lparr>m_message_attributes := Some ''{}''\<rparr>)]"
  by (simp add: demo_pair_db_def sqlite_defs empty_db_def queue_exists_def next_rowid_def
      demo_message_def demo_queue_def default_sqs_queue_def)

lemma demo_pair_receive:
  "\<exists>m db'. sqlite_receive_messages (demo_env 1 ''h1'') 1 1 30 demo_pair_db = (Inr [m], db') \<and> m_message_id m = ''m1''"
  by (simp add: demo_pair_rows demo_eval)

theorem receive_oldest_first_witness:
  "age_key (2, demo_message\<lparr>m_message_attributes := Some ''{}''\<rparr>) \<le>
   age_key (1, demo_message\<lparr>m_message_id := ''m2'', m_sent_at := 5, m_message_attributes := Some ''{}''\<rparr>)"
proof -
  obtain m db' where *: "sqlite_receive_messages (demo_env 1 ''h1'') 1 1 30 demo_pair_db = (Inr [m], db')"
    "m_message_id m = ''m1''"
    using demo_pair_receive by blast
  show ?thesis
    by (rule receive_oldest_first [OF demo_pair_db_inv *(1)])
      (simp_all add: demo_pair_rows ready_def receivable_def demo_env_def demo_message_def seconds_def *(2))
qed

section \<open>The life of a lease\<close>

text \<open>
  A message is leased under a handle when every row with its id is invisible up to the end of the
  lease and carries the handle. Statements that respect the lease neither reuse the (random)
  message id, nor change the visibility under the handle, nor receive after the lease has ended.
\<close>

definition leased :: "string \<Rightarrow> string \<Rightarrow> time \<Rightarrow> sqs_db \<Rightarrow> bool" where
  "leased mid h T db \<longleftrightarrow>
     (\<forall>r\<in>set (messages db). m_message_id (snd r) = mid \<longrightarrow>
        T \<le> m_visible_at (snd r) \<and> m_receipt_handle (snd r) = Some h)"

fun respects_lease :: "string \<Rightarrow> string \<Rightarrow> time \<Rightarrow> sqs_stmt \<Rightarrow> bool" where
  "respects_lease mid h T (SendMessage msg) \<longleftrightarrow> m_message_id msg \<noteq> mid"
| "respects_lease mid h T (ReceiveMessages env qid n vt) \<longleftrightarrow> re_now env < T"
| "respects_lease mid h T (SetMessageVisibleAt qid h' t) \<longleftrightarrow> h' \<noteq> h"
| "respects_lease mid h T _ \<longleftrightarrow> True"

lemma leased_not_handed_out:
  assumes "sqs_inv db" "leased mid h T db" "re_now env < T" "r \<in> set (messages db)" "handed_out env qid n db r"
  shows "m_message_id (snd r) \<noteq> mid"
  using handed_out_receivable [OF assms(1,4,5)] assms(2-4) by (fastforce simp: leased_def receivable_def)

lemma leased_receive:
  assumes "sqs_inv db" "leased mid h T db" "re_now env < T"
  shows "leased mid h T (snd (sqlite_receive_messages env qid n vt db))"
  unfolding leased_def
proof (intro ballI impI)
  fix r' assume "r' \<in> set (messages (snd (sqlite_receive_messages env qid n vt db)))" "m_message_id (snd r') = mid"
  then show "T \<le> m_visible_at (snd r') \<and> m_receipt_handle (snd r') = Some h"
  proof (cases rule: receive_table_cases)
    case (leased r)
    with leased_not_handed_out [OF assms leased(1,2)] \<open>m_message_id (snd r') = mid\<close> show ?thesis by simp
  next
    case kept
    with assms(2) \<open>m_message_id (snd r') = mid\<close> show ?thesis by (simp add: leased_def)
  qed
qed

lemma leased_mono:
  "leased mid h T db \<Longrightarrow> set (messages db') \<subseteq> set (messages db) \<Longrightarrow> leased mid h T db'"
  unfolding leased_def by blast

lemma leased_set_visible:
  assumes "leased mid h T db" "h' \<noteq> h"
  shows "leased mid h T (snd (sqlite_set_message_visible_at qid h' t db))"
proof -
  have "\<not> has_receipt qid h' (snd r)" if "r \<in> set (messages db)" "m_message_id (snd r) = mid" for r
    using assms that by (simp add: leased_def has_receipt_def)
  then show ?thesis using assms(1)
    by (simp add: sqlite_set_message_visible_at_def leased_def split_beta) blast
qed

lemma leased_step:
  assumes "sqs_inv db" "leased mid h T db" "respects_lease mid h T stmt"
  shows "leased mid h T (exec_stmt UE stmt db)"
proof (cases stmt)
  case (SendMessage msg)
  with assms show ?thesis by (simp add: sqlite_send_message_def leased_def)
qed (use assms in \<open>simp_all add: leased_receive leased_set_visible\<close>,
     auto simp: sqlite_defs intro: leased_mono)

lemma receive_leased:
  assumes "sqs_inv db" "sqlite_receive_messages env qid n vt db = (Inr ms, db')" "m \<in> set ms"
    "m_receipt_handle m = Some h"
  shows "leased (m_message_id m) h (lease_end env vt) db'"
  unfolding leased_def
proof (intro ballI impI)
  fix r' assume r': "r' \<in> set (messages db')" "m_message_id (snd r') = m_message_id m"
  obtain r where r: "r \<in> set (messages db)" "handed_out env qid n db r" "m = lease_row env vt r"
    using receive_result_iff [OF assms(2)] assms(3) by blast
  have same: "x = r" if "x \<in> set (messages db)" "m_message_id (snd x) = m_message_id (snd r)" for x
    using message_id_row [OF assms(1) that(1) r(1)] that(2) by simp
  have ok: "lease_end env vt \<le> naive_datetime_max" by (rule receive_InrE [OF assms(2)])
  have "r' \<in> set (messages (snd (sqlite_receive_messages env qid n vt db)))" using r'(1) assms(2) by simp
  then show "lease_end env vt \<le> m_visible_at (snd r') \<and> m_receipt_handle (snd r') = Some h"
  proof (cases rule: receive_table_cases)
    case (leased x)
    with same [of x] r' r assms(4) show ?thesis by simp
  next
    case kept
    with same [of r'] r' r ok show ?thesis by simp
  qed
qed

text \<open>
  C2. No double delivery: once a message has been handed out, no receive on any queue before its
  lease ends hands it out again, whatever statements other requests run in between, as long as
  its visibility is not changed under its receipt handle.
\<close>

theorem no_double_delivery:
  assumes "sqs_inv db" "sqlite_receive_messages env qid n vt db = (Inr ms, db1)"
    and "m \<in> set ms" "m_receipt_handle m = Some h"
    and "list_all (respects_lease (m_message_id m) h (lease_end env vt)) stmts"
    and "sqlite_receive_messages env' qid' n' vt' (exec_stmts UE stmts db1) = (Inr ms', db2)"
    and "re_now env' < lease_end env vt"
  shows "m_message_id m \<notin> m_message_id ` set ms'"
proof
  let ?db = "exec_stmts UE stmts db1"
  have inv1: "sqs_inv db1" using keepsD [OF keeps_receive_messages assms(1), of env qid n vt] assms(2) by simp
  have inv: "sqs_inv ?db" using inv1 by (rule exec_stmts_inv)
  have held: "leased (m_message_id m) h (lease_end env vt) ?db"
    using exec_stmts_invariant [OF leased_step inv1 receive_leased [OF assms(1-4)] assms(5)] .
  assume "m_message_id m \<in> m_message_id ` set ms'"
  then obtain r where "r \<in> set (messages ?db)" "handed_out env' qid' n' ?db r" "m_message_id (snd r) = m_message_id m"
    using receive_result_iff [OF assms(6)] by auto
  then show False using leased_not_handed_out [OF inv held assms(7)] by blast
qed

lemma receive_Inr_projr:
  "lease_end env vt \<le> naive_datetime_max \<Longrightarrow> sqlite_receive_messages env qid n vt db =
     (Inr (projr (fst (sqlite_receive_messages env qid n vt db))), snd (sqlite_receive_messages env qid n vt db))"
  by (simp add: receive_eq)

theorem no_double_delivery_witness:
  "''m1'' \<notin> m_message_id ` set (projr (fst (sqlite_receive_messages (demo_env 10 ''h2'') 1 10 30
     (exec_stmts demo_texts [SendMessage (demo_message\<lparr>m_message_id := ''m2''\<rparr>), UpsertTag 1 (''k'', ''v'')]
        (demo_db\<lparr>messages := [(1, demo_leased)]\<rparr>)))))"
proof -
  let ?stmts = "[SendMessage (demo_message\<lparr>m_message_id := ''m2''\<rparr>), UpsertTag 1 (''k'', ''v'')]"
  have "list_all (respects_lease (m_message_id demo_leased) ''h1'' (lease_end (demo_env 0 ''h1'') 30)) ?stmts"
    by (simp add: demo_leased_def demo_message_def)
  moreover have "lease_end (demo_env 10 ''h2'') 30 \<le> naive_datetime_max" by (simp add: demo_eval)
  ultimately have "m_message_id demo_leased \<notin> m_message_id ` set (projr (fst (sqlite_receive_messages
      (demo_env 10 ''h2'') 1 10 30 (exec_stmts demo_texts ?stmts (demo_db\<lparr>messages := [(1, demo_leased)]\<rparr>)))))"
    by (intro no_double_delivery [OF demo_db_inv demo_receive _ _ _ receive_Inr_projr])
      (simp_all add: demo_leased_def lease_def demo_env_def seconds_def)
  then show ?thesis by (simp add: demo_leased_def demo_message_def)
qed

section \<open>Redelivery\<close>

text \<open>
  The statements that leave a leased row alone: those that respect the lease and do not delete
  the message, by its handle, by its id, with its queue or by a purge.
\<close>

fun spares :: "int \<times> sqs_message \<Rightarrow> sqs_stmt \<Rightarrow> bool" where
  "spares r (DeleteQueue qid) \<longleftrightarrow> qid \<noteq> m_queue_id (snd r)"
| "spares r (ReceiveMessages env qid n vt) \<longleftrightarrow> re_now env < m_visible_at (snd r)"
| "spares r (DeleteMessage qid h) \<longleftrightarrow> \<not> has_receipt qid h (snd r)"
| "spares r (DeleteMessageById qid mid) \<longleftrightarrow> \<not> (m_queue_id (snd r) = qid \<and> m_message_id (snd r) = mid)"
| "spares r (SetMessageVisibleAt qid h t) \<longleftrightarrow> \<not> has_receipt qid h (snd r)"
| "spares r (PurgeQueue qid) \<longleftrightarrow> qid \<noteq> m_queue_id (snd r)"
| "spares r _ \<longleftrightarrow> True"

lemma spared_receive:
  assumes "sqs_inv db" "r \<in> set (messages db)" "re_now env < m_visible_at (snd r)"
  shows "r \<in> set (messages (snd (sqlite_receive_messages env qid n vt db)))"
proof (cases "lease_end env vt \<le> naive_datetime_max")
  case True
  have "\<not> handed_out env qid n db r"
    using handed_out_receivable [OF assms(1,2)] assms(3) by (fastforce simp: receivable_def)
  then show ?thesis using receive_table_other [OF receive_eq [OF True] assms(2)] True
    by (simp only: receive_eq [OF True] snd_conv)
next
  case False
  then show ?thesis using assms by (simp add: sqlite_receive_messages_def)
qed

lemma spared_step:
  assumes "sqs_inv db" "r \<in> set (messages db)" "spares r stmt"
  shows "r \<in> set (messages (exec_stmt UE stmt db))"
proof (cases stmt)
  case (SetMessageVisibleAt qid h t)
  with assms have "(\<lambda>(rid, m). (rid, if has_receipt qid h m then m\<lparr>m_visible_at := t\<rparr> else m)) r = r"
    by (simp add: split_beta)
  with assms(2) SetMessageVisibleAt show ?thesis
    by (simp add: sqlite_set_message_visible_at_def) (metis (no_types, lifting) rev_image_eqI)
qed (use assms in \<open>simp_all add: spared_receive\<close>, simp_all add: sqlite_defs split_beta)

lemma spared_row_delivered:
  assumes "sqs_inv db1" "(rid, m) \<in> set (messages db1)" "list_all (spares (rid, m)) stmts"
    and "receivable qid (re_now env) m"
    and "int (length (ready qid (re_now env) (messages (exec_stmts UE stmts db1)))) \<le> n"
    and "sqlite_receive_messages env qid n vt (exec_stmts UE stmts db1) = (Inr ms, db2)"
  shows "lease_row env vt (rid, m) \<in> set ms"
proof -
  let ?db = "exec_stmts UE stmts db1"
  have row: "(rid, m) \<in> set (messages ?db)"
    using exec_stmts_invariant [where P = "\<lambda>d. (rid, m) \<in> set (messages d)", OF spared_step assms(1-3)] .
  then have "(rid, m) \<in> set (ready qid (re_now env) (messages ?db))"
    using assms(4) by (simp add: ready_def)
  then have "handed_out env qid n ?db (rid, m)"
    using selected_if_room [of n qid "re_now env" "messages ?db"] assms(5) by (force simp: image_iff)
  then show ?thesis using receive_result_iff [OF assms(6)] row by blast
qed

text \<open>
  C4. Redelivery: a message that was handed out and not deleted becomes available again when its
  lease ends. A receive on its queue after the end of the lease and before the message expires,
  with room for all ready messages, hands it out with the same body, a new receipt handle and one
  more receive counted, whatever other statements ran in between.
\<close>

theorem redelivery_after_lease:
  assumes "sqs_inv db" "sqlite_receive_messages env qid n vt db = (Inr ms, db1)"
    and "m \<in> set ms" "(rid, m) \<in> set (messages db1)"
    and "list_all (spares (rid, m)) stmts"
    and "lease_end env vt \<le> re_now env'" "re_now env' < m_expires_at m"
    and "int (length (ready qid (re_now env') (messages (exec_stmts UE stmts db1)))) \<le> n'"
    and "sqlite_receive_messages env' qid n' vt' (exec_stmts UE stmts db1) = (Inr ms', db2)"
  shows "\<exists>m'\<in>set ms'. m_message_id m' = m_message_id m \<and> m_body m' = m_body m \<and>
           m_receipt_handle m' = Some (re_handle env' rid) \<and> m_receive_count m' = m_receive_count m + 1"
proof -
  let ?db = "exec_stmts UE stmts db1"
  have inv1: "sqs_inv db1" using keepsD [OF keeps_receive_messages assms(1), of env qid n vt] assms(2) by simp
  obtain r where r: "r \<in> set (messages db)" "handed_out env qid n db r" "m = lease_row env vt r"
    using receive_result_iff [OF assms(2)] assms(3) by blast
  then have "m_queue_id m = qid" "m_visible_at m = lease_end env vt"
    using handed_out_receivable [OF assms(1)] by (auto simp: receivable_def)
  then have "receivable qid (re_now env') m" using assms(6,7) by (simp add: receivable_def)
  then have "lease_row env' vt' (rid, m) \<in> set ms'"
    using spared_row_delivered [OF inv1 assms(4,5) _ assms(8,9)] by blast
  then show ?thesis by (intro bexI [of _ "lease_row env' vt' (rid, m)"]) simp_all
qed

theorem redelivery_after_lease_witness:
  "\<exists>ms'. (\<exists>db2. sqlite_receive_messages (demo_env 31 ''h2'') 1 10 30 (demo_db\<lparr>messages := [(1, demo_leased)]\<rparr>)
            = (Inr ms', db2)) \<and>
     (\<exists>m'\<in>set ms'. m_message_id m' = ''m1'' \<and> m_receipt_handle m' = Some ''h2'' \<and> m_receive_count m' = 2)"
proof -
  obtain m db2 where rcv:
    "sqlite_receive_messages (demo_env 31 ''h2'') 1 10 30 (demo_db\<lparr>messages := [(1, demo_leased)]\<rparr>) = (Inr [m], db2)"
    using demo_receive_later by blast
  have "\<exists>m'\<in>set [m]. m_message_id m' = m_message_id demo_leased \<and> m_body m' = m_body demo_leased \<and>
          m_receipt_handle m' = Some (re_handle (demo_env 31 ''h2'') 1) \<and>
          m_receive_count m' = m_receive_count demo_leased + 1"
    by (rule redelivery_after_lease [OF demo_db_inv demo_receive, where stmts = "[]"
          and env' = "demo_env 31 ''h2''" and n' = 10 and vt' = 30 and UE = demo_texts])
      (simp_all add: rcv, simp_all add: demo_eval demo_db_eq)
  then show ?thesis using rcv by (auto simp: demo_leased_def lease_def demo_message_def demo_env_def)
qed

section \<open>Receipt handles\<close>

text \<open>
  Deleting by the receipt handle of a message removes that message and no other, and the handle
  is spent: a second deletion reports that the handle is not found and changes nothing. Handles
  are random; the hypothesis says that no other row carries this one.
\<close>

theorem delete_message_exact:
  assumes "(rid, m) \<in> set (messages db)" "m_receipt_handle m = Some h"
    and "\<forall>r\<in>set (messages db). m_receipt_handle (snd r) = Some h \<longrightarrow> r = (rid, m)"
  shows "\<exists>db'. sqlite_delete_message (m_queue_id m) h db = (Inr (), db') \<and>
           set (messages db') = set (messages db) - {(rid, m)} \<and> queues db' = queues db \<and>
           sqlite_delete_message (m_queue_id m) h db' = (Inl (StoreNotFound ''receipt handle not found''), db')"
proof -
  let ?q = "m_queue_id m"
  have rcpt: "has_receipt ?q h (snd r) \<longleftrightarrow> r = (rid, m)" if "r \<in> set (messages db)" for r
    using assms(2,3) that by (auto simp: has_receipt_def)
  let ?rows = "filter (\<lambda>(_, m). \<not> has_receipt ?q h m) (messages db)"
  have ex: "list_ex (\<lambda>(_, m). has_receipt ?q h m) (messages db)"
    using assms(1) rcpt [OF assms(1)] by (auto simp: list_ex_iff)
  have "\<not> list_ex (\<lambda>(_, m). has_receipt ?q h m) ?rows" by (auto simp: list_ex_iff)
  moreover have "set ?rows = set (messages db) - {(rid, m)}" using rcpt by (auto simp: split_beta)
  ultimately show ?thesis
    by (intro exI [of _ "db\<lparr>messages := ?rows\<rparr>"]) (simp add: sqlite_delete_message_def ex)
qed

theorem delete_message_exact_witness:
  "\<exists>db'. sqlite_delete_message 1 ''h1'' (demo_db\<lparr>messages := [(1, demo_leased)]\<rparr>) = (Inr (), db') \<and>
     messages db' = []"
  using delete_message_exact [of 1 demo_leased "demo_db\<lparr>messages := [(1, demo_leased)]\<rparr>" "''h1''"]
  by (auto simp: demo_leased_def lease_def demo_message_def)

text \<open>
  Receiving a message again makes its older receipt handle stale: deleting or changing the
  visibility under the old handle reports that the handle is not found and changes nothing.
\<close>

theorem stale_receipt_handle:
  assumes "sqs_inv db" "(rid, m) \<in> set (messages db)"
    and "\<forall>r\<in>set (messages db). m_receipt_handle (snd r) = Some h \<longrightarrow> r = (rid, m)"
    and "sqlite_receive_messages env qid n vt db = (Inr ms, db')" "m_message_id m \<in> m_message_id ` set ms"
    and "h \<notin> range (re_handle env)"
  shows "sqlite_delete_message qid h db' = (Inl (StoreNotFound ''receipt handle not found''), db') \<and>
         sqlite_set_message_visible_at qid h t db' = (Inl (StoreNotFound ''receipt handle not found''), db')"
proof -
  have out: "handed_out env qid n db (rid, m)" using receive_id_iff [OF assms(1,4,2)] assms(5) by simp
  have ok: "lease_end env vt \<le> naive_datetime_max" by (rule receive_InrE [OF assms(4)])
  have "m_receipt_handle (snd r') \<noteq> Some h" if "r' \<in> set (messages db')" for r'
  proof -
    from that have "r' \<in> set (messages (snd (sqlite_receive_messages env qid n vt db)))" using assms(4) by simp
    then show ?thesis
    proof (cases rule: receive_table_cases)
      case (leased r)
      then show ?thesis using assms(6) by auto
    next
      case kept
      then show ?thesis using assms(3) out ok by auto
    qed
  qed
  then have "\<not> list_ex (\<lambda>(_, m). has_receipt qid h m) (messages db')"
    by (auto simp: list_ex_iff has_receipt_def)
  then show ?thesis by (simp add: sqlite_delete_message_def sqlite_set_message_visible_at_def)
qed

theorem stale_receipt_handle_witness:
  "fst (sqlite_delete_message 1 ''h1'' (snd (sqlite_receive_messages (demo_env 31 ''h2'') 1 10 30
     (demo_db\<lparr>messages := [(1, demo_leased)]\<rparr>)))) = Inl (StoreNotFound ''receipt handle not found'')"
proof -
  let ?db = "demo_db\<lparr>messages := [(1, demo_leased)]\<rparr>"
  obtain m db2 where rcv: "sqlite_receive_messages (demo_env 31 ''h2'') 1 10 30 ?db = (Inr [m], db2)"
    using demo_receive_later by blast
  have inv: "sqs_inv ?db"
    using keepsD [OF keeps_receive_messages demo_db_inv, of "demo_env 0 ''h1''" 1 10 30] demo_receive by simp
  have "m_message_id m = m_message_id demo_leased" using rcv by (auto simp: demo_eval demo_db_eq)
  with stale_receipt_handle [OF inv, of 1 demo_leased "''h1''" "demo_env 31 ''h2''" 1 10 30 "[m]" db2] rcv
  show ?thesis by (auto simp: demo_env_def)
qed

end
