(* ===== verification/Sqs_Validation.thy ===== *)
theory Sqs_Validation
  imports Sqs_Store
begin

text \<open>
  The errors of the SQS service (\<^verbatim>\<open>hiraeth_sqs/src/error.rs\<close>), the request checks and helpers of
  \<^verbatim>\<open>util.rs\<close>, \<^verbatim>\<open>actions/tag_support.rs\<close> and \<^verbatim>\<open>actions/queue_support.rs\<close>: queue URLs, batch
  entries, message bodies and attributes, the digest of message attributes, tags and queue names.
  The lemmas say which inputs each check lets through.
\<close>

section \<open>Errors\<close>

datatype sqs_error =
    QueueNotFound
  | BadRequest string
  | BatchEntryIdsNotDistinct
  | EmptyBatchRequest
  | InternalError string
  | QueueAlreadyExists string
  | ReceiptHandleIsInvalid string
  | TooManyEntriesInBatchRequest
  | UnsupportedOperation string

fun sqs_status_code :: "sqs_error \<Rightarrow> nat" where
  "sqs_status_code (InternalError _) = 500"
| "sqs_status_code _ = 400"

fun sqs_code :: "sqs_error \<Rightarrow> string" where
  "sqs_code QueueNotFound = ''QueueDoesNotExist''"
| "sqs_code (BadRequest _) = ''InvalidParameterValue''"
| "sqs_code BatchEntryIdsNotDistinct = ''BatchEntryIdsNotDistinct''"
| "sqs_code EmptyBatchRequest = ''EmptyBatchRequest''"
| "sqs_code (InternalError _) = ''InternalError''"
| "sqs_code (QueueAlreadyExists _) = ''QueueAlreadyExists''"
| "sqs_code (ReceiptHandleIsInvalid _) = ''ReceiptHandleIsInvalid''"
| "sqs_code TooManyEntriesInBatchRequest = ''TooManyEntriesInBatchRequest''"
| "sqs_code (UnsupportedOperation _) = ''UnsupportedOperation''"

fun sqs_fault :: "sqs_error \<Rightarrow> aws_error_fault" where
  "sqs_fault (InternalError _) = Server"
| "sqs_fault _ = Sender"

fun sqs_query_code :: "sqs_error \<Rightarrow> string" where
  "sqs_query_code QueueNotFound = ''NonExistentQueue''"
| "sqs_query_code e = sqs_code e"

fun sqs_error_text :: "sqs_error \<Rightarrow> string" where
  "sqs_error_text QueueNotFound = ''The specified queue does not exist.''"
| "sqs_error_text (BadRequest msg) = msg"
| "sqs_error_text BatchEntryIdsNotDistinct = ''Two or more batch entries in the request have the same Id.''"
| "sqs_error_text EmptyBatchRequest = ''The batch request must contain at least one entry.''"
| "sqs_error_text (InternalError msg) = msg"
| "sqs_error_text (QueueAlreadyExists msg) = msg"
| "sqs_error_text (ReceiptHandleIsInvalid msg) = msg"
| "sqs_error_text TooManyEntriesInBatchRequest = ''The batch request contains more entries than allowed.''"
| "sqs_error_text (UnsupportedOperation msg) = msg"

definition sqs_service_error :: "sqs_error aws_service_error" where
  "sqs_service_error =
     \<lparr>se_status_code = sqs_status_code, se_namespace = (\<lambda>_. ''com.amazonaws.sqs''), se_code = sqs_code,
      se_query_error_prefix = (\<lambda>_. ''AWS.SimpleQueueService''), se_fault = sqs_fault,
      se_query_code = sqs_query_code, se_text = sqs_error_text\<rparr>"

definition sqs_error_response :: "ext \<Rightarrow> sqs_error \<Rightarrow> service_response" where
  "sqs_error_response E e = render_aws_json_error E sqs_service_error e"

fun map_store_error :: "store_error \<Rightarrow> sqs_error" where
  "map_store_error (StoreNotFound _) = QueueNotFound"
| "map_store_error (StoreConflict msg) = BadRequest msg"
| "map_store_error (StorageFailure msg) = InternalError msg"

fun map_receipt_handle_store_error :: "store_error \<Rightarrow> sqs_error" where
  "map_receipt_handle_store_error (StoreNotFound msg) = ReceiptHandleIsInvalid msg"
| "map_receipt_handle_store_error (StoreConflict msg) = BadRequest msg"
| "map_receipt_handle_store_error (StorageFailure msg) = InternalError msg"

definition batch_error_details :: "sqs_error \<Rightarrow> string \<times> bool" where
  "batch_error_details e = aws_batch_error_details sqs_service_error e"

text \<open>\<^verbatim>\<open>.map_err(|e| SqsError::InternalError(e.to_string()))\<close>.\<close>

definition internal_error :: "store_error \<Rightarrow> sqs_error" where
  "internal_error e = InternalError (store_error_text e)"

section \<open>Queues\<close>

record queue_ref =
  qi_name :: string
  qi_region :: string
  qi_account_id :: string

definition parse_queue_url :: "ext \<Rightarrow> string \<Rightarrow> string \<Rightarrow> queue_ref option" where
  "parse_queue_url E url default_region =
     (case x_url E url of
        None \<Rightarrow> None
      | Some (host, segments) \<Rightarrow>
          (case segments of
             None \<Rightarrow> None
           | Some path_segments \<Rightarrow>
               if length path_segments \<noteq> 2 then None
               else (case host of
                       None \<Rightarrow> None
                     | Some h \<Rightarrow>
                         Some \<lparr>qi_name = path_segments ! 1,
                               qi_region = (case strip_prefix ''sqs.'' h of
                                              None \<Rightarrow> default_region
                                            | Some remainder \<Rightarrow> split_first (CHR ''.'') remainder),
                               qi_account_id = path_segments ! 0\<rparr>)))"

definition load_queue_from_url ::
    "ext \<Rightarrow> 's sqs_store \<Rightarrow> resolved_request \<Rightarrow> string \<Rightarrow> 's \<Rightarrow> sqs_error + sqs_queue" where
  "load_queue_from_url E store request url s =
     ebind (ok_or (BadRequest ''Invalid queue url'') (parse_queue_url E url (rr_region request))) (\<lambda>i.
     ebind (map_err internal_error
              (st_get_queue store (qi_name i) (qi_region i) (qi_account_id i) s))
       (ok_or QueueNotFound))"

definition queue_url :: "string \<Rightarrow> string \<Rightarrow> string \<Rightarrow> string" where
  "queue_url host account_id queue_name = ''http://'' @ host @ ''/'' @ account_id @ ''/'' @ queue_name"

definition get_queue_arn :: "sqs_queue \<Rightarrow> string" where
  "get_queue_arn queue =
     ''arn:aws:sqs:'' @ q_region queue @ '':'' @ q_account_id queue @ '':'' @ q_name queue"

definition is_name_char :: "nat \<Rightarrow> bool" where
  "is_name_char ch \<longleftrightarrow> is_ascii_alphanumeric ch \<or> ch = byte (CHR ''-'') \<or> ch = byte (CHR ''_'')"

definition validate_queue_name :: "string \<Rightarrow> bool \<Rightarrow> sqs_error + unit" where
  "validate_queue_name queue_name fifo_queue =
     (if queue_name = [] \<or> length queue_name > 80
      then Inl (BadRequest ''QueueName must be between 1 and 80 characters'')
      else let name_without_fifo_suffix =
             (case strip_suffix ''.fifo'' queue_name of None \<Rightarrow> queue_name | Some n \<Rightarrow> n)
      in if \<not> list_all is_name_char (rust_chars name_without_fifo_suffix)
      then Inl (BadRequest ''QueueName may only contain alphanumeric characters, hyphens, and underscores'')
      else if fifo_queue \<and> \<not> ends_with ''.fifo'' queue_name
      then Inl (BadRequest ''FIFO queue names must end with .fifo'')
      else if \<not> fifo_queue \<and> ends_with ''.fifo'' queue_name
      then Inl (BadRequest ''Queue names ending with .fifo must set FifoQueue=true'')
      else Inr ())"

definition queue_configuration_matches :: "sqs_queue \<Rightarrow> sqs_queue \<Rightarrow> bool" where
  "queue_configuration_matches existing requested \<longleftrightarrow>
     q_queue_type existing = q_queue_type requested \<and>
     q_visibility_timeout_seconds existing = q_visibility_timeout_seconds requested \<and>
     q_delay_seconds existing = q_delay_seconds requested \<and>
     q_maximum_message_size existing = q_maximum_message_size requested \<and>
     q_message_retention_period_seconds existing = q_message_retention_period_seconds requested \<and>
     q_receive_message_wait_time_seconds existing = q_receive_message_wait_time_seconds requested \<and>
     q_policy existing = q_policy requested \<and>
     q_redrive_policy existing = q_redrive_policy requested \<and>
     q_content_based_deduplication existing = q_content_based_deduplication requested \<and>
     q_kms_master_key_id existing = q_kms_master_key_id requested \<and>
     q_kms_data_key_reuse_period_seconds existing = q_kms_data_key_reuse_period_seconds requested \<and>
     q_deduplication_scope existing = q_deduplication_scope requested \<and>
     q_fifo_throughput_limit existing = q_fifo_throughput_limit requested \<and>
     q_redrive_allow_policy existing = q_redrive_allow_policy requested \<and>
     q_sqs_managed_sse_enabled existing = q_sqs_managed_sse_enabled requested"

section \<open>Batches\<close>

text \<open>The loop of \<^verbatim>\<open>validate_batch_request\<close>, with its count and the set of ids seen.\<close>

fun count_distinct_ids :: "nat \<Rightarrow> string list \<Rightarrow> string list \<Rightarrow> sqs_error + nat" where
  "count_distinct_ids count seen [] = Inr count"
| "count_distinct_ids count seen (i # is) =
     (if i \<in> set seen then Inl BatchEntryIdsNotDistinct
      else count_distinct_ids (count + 1) (i # seen) is)"

definition validate_batch_request :: "string list \<Rightarrow> sqs_error + unit" where
  "validate_batch_request entry_ids =
     ebind (count_distinct_ids 0 [] entry_ids) (\<lambda>count.
       if count = 0 then Inl EmptyBatchRequest
       else if count > 10 then Inl TooManyEntriesInBatchRequest
       else Inr ())"

definition validate_batch_entry_id :: "string \<Rightarrow> sqs_error + unit" where
  "validate_batch_entry_id entry_id =
     (if entry_id = [] \<or> length entry_id > 80
      then Inl (BadRequest ''Batch entry Id must be between 1 and 80 characters'')
      else if \<not> list_all is_name_char (rust_chars entry_id)
      then Inl (BadRequest ''Batch entry Id may only contain alphanumeric characters, hyphens, and underscores'')
      else Inr ())"

section \<open>Message attributes\<close>

text \<open>\<^verbatim>\<open>str::get(..n)\<close>: the first \<open>n\<close> bytes when they end at a character boundary.\<close>

definition str_get_to :: "nat \<Rightarrow> string \<Rightarrow> string option" where
  "str_get_to n s =
     (if length s = n \<or> (n < length s \<and> \<not> (128 \<le> byte (s ! n) \<and> byte (s ! n) < 192))
      then Some (take n s) else None)"

definition is_attribute_char :: "nat \<Rightarrow> bool" where
  "is_attribute_char ch \<longleftrightarrow>
     is_ascii_alphanumeric ch \<or> ch = byte (CHR ''_'') \<or> ch = byte (CHR ''-'') \<or> ch = byte (CHR ''.'')"

definition validate_message_attribute_name :: "string \<Rightarrow> sqs_error + unit" where
  "validate_message_attribute_name name =
     (if name = [] \<or> length name > 256
      then Inl (BadRequest ''Message attribute names must be between 1 and 256 characters'')
      else if starts_with ''.'' name \<or> ends_with ''.'' name \<or> contains_str ''..'' name
      then Inl (BadRequest
        ''Message attribute names may not start or end with a period or contain consecutive periods'')
      else if (case str_get_to 4 name of None \<Rightarrow> False | Some p \<Rightarrow> eq_ignore_ascii_case p ''aws.'')
      then Inl (BadRequest ''Message attribute names cannot start with the reserved AWS. prefix'')
      else if \<not> list_all is_attribute_char (rust_chars name)
      then Inl (BadRequest
        ''Message attribute names may only contain alphanumeric characters, hyphens, underscores, and periods'')
      else Inr ())"

definition validate_message_attribute_value :: "string \<Rightarrow> message_attribute_value \<Rightarrow> sqs_error + unit" where
  "validate_message_attribute_value name value =
     (if mav_data_type value = [] \<or> length (mav_data_type value) > 256
      then Inl (BadRequest (''Message attribute '' @ quoted name @
             '' DataType must be between 1 and 256 characters''))
      else if starts_with ''Binary'' (mav_data_type value)
      then (if mav_binary_value value = None
            then Inl (BadRequest (''Binary message attribute '' @ quoted name @
                   '' is missing BinaryValue''))
            else Inr ())
      else if starts_with ''String'' (mav_data_type value) \<or> starts_with ''Number'' (mav_data_type value)
      then (if mav_string_value value = None
            then Inl (BadRequest (''String/Number message attribute '' @ quoted name @
                   '' is missing StringValue''))
            else Inr ())
      else Inl (BadRequest (''Message attribute '' @ quoted name @
             '' DataType must start with String, Number, or Binary'')))"

definition validate_message_attributes :: "message_attributes \<Rightarrow> sqs_error + unit" where
  "validate_message_attributes attrs =
     (if length attrs > 10
      then Inl (BadRequest ''A message can contain at most 10 message attributes'')
      else check_all (\<lambda>(name, value).
             ebind (validate_message_attribute_name name) (\<lambda>_.
             validate_message_attribute_value name value)) attrs)"

definition validate_message_system_attributes :: "message_attributes \<Rightarrow> sqs_error + unit" where
  "validate_message_system_attributes attrs =
     check_all (\<lambda>(name, value).
       if name \<noteq> ''AWSTraceHeader''
       then Inl (BadRequest (''Unsupported message system attribute: '' @ name))
       else if mav_data_type value \<noteq> ''String''
       then Inl (BadRequest ''AWSTraceHeader must use DataType=String'')
       else validate_message_attribute_value name value) attrs"

definition append_length_prefixed_bytes :: "string \<Rightarrow> string \<Rightarrow> string" where
  "append_length_prefixed_bytes buffer bytes = buffer @ map char_of (be_u32 (length bytes)) @ bytes"

text \<open>One round of the loop of \<^verbatim>\<open>calculate_message_attributes_md5\<close>, on the buffer.\<close>

definition append_message_attribute ::
    "ext \<Rightarrow> string \<Rightarrow> string \<times> message_attribute_value \<Rightarrow> sqs_error + string" where
  "append_message_attribute E buffer nv =
     (let name = fst nv; value = snd nv;
          buffer = append_length_prefixed_bytes buffer name;
          buffer = append_length_prefixed_bytes buffer (mav_data_type value)
      in if starts_with ''Binary'' (mav_data_type value)
         then ebind (ok_or (BadRequest (''Binary message attribute '' @ quoted name @
                 '' is missing BinaryValue'')) (mav_binary_value value)) (\<lambda>binary_value.
              ebind (map_err (\<lambda>e. BadRequest (''Binary message attribute '' @ quoted name @
                 '' is not valid base64: '' @ e)) (x_base64 E binary_value)) (\<lambda>decoded.
              Inr (append_length_prefixed_bytes (buffer @ [char_of (2::nat)]) decoded)))
         else ebind (ok_or (BadRequest (''String/Number message attribute '' @ quoted name @
                 '' is missing StringValue'')) (mav_string_value value)) (\<lambda>string_value.
              Inr (append_length_prefixed_bytes (buffer @ [char_of (1::nat)]) string_value)))"

fun append_message_attributes ::
    "ext \<Rightarrow> string \<Rightarrow> message_attributes \<Rightarrow> sqs_error + string" where
  "append_message_attributes E buffer [] = Inr buffer"
| "append_message_attributes E buffer (nv # nvs) =
     ebind (append_message_attribute E buffer nv) (\<lambda>buffer'. append_message_attributes E buffer' nvs)"

definition calculate_message_attributes_md5 :: "ext \<Rightarrow> message_attributes \<Rightarrow> sqs_error + string" where
  "calculate_message_attributes_md5 E attrs =
     ebind (append_message_attributes E [] (sort_key fst attrs)) (\<lambda>buffer. Inr (x_md5 E buffer))"

definition serialize_message_attributes :: "ext \<Rightarrow> message_attributes \<Rightarrow> sqs_error + string" where
  "serialize_message_attributes E attrs =
     map_err (\<lambda>e. InternalError (''failed to serialize message attributes: '' @ e))
       (x_attrs_to_json E (btreemap attrs))"

definition extract_aws_trace_header :: "message_attributes option \<Rightarrow> sqs_error + string option" where
  "extract_aws_trace_header attrs =
     (case attrs of
        None \<Rightarrow> Inr None
      | Some as \<Rightarrow>
          (case find (\<lambda>(name, _). name = ''AWSTraceHeader'') as of
             None \<Rightarrow> Inr None
           | Some (_, trace_header) \<Rightarrow>
               if mav_data_type trace_header \<noteq> ''String''
               then Inl (BadRequest ''AWSTraceHeader must use DataType=String'')
               else ebind (ok_or (BadRequest ''AWSTraceHeader is missing StringValue'')
                       (mav_string_value trace_header)) (\<lambda>v. Inr (Some v))))"

section \<open>Message bodies and delays\<close>

definition resolve_delay_seconds :: "int option \<Rightarrow> int \<Rightarrow> sqs_error + int" where
  "resolve_delay_seconds requested_delay_seconds queue_delay_seconds =
     (let delay_seconds = (case requested_delay_seconds of None \<Rightarrow> queue_delay_seconds | Some d \<Rightarrow> d)
      in if \<not> (0 \<le> delay_seconds \<and> delay_seconds \<le> 900)
         then Inl (BadRequest ''DelaySeconds must be between 0 and 900'')
         else Inr delay_seconds)"

definition is_valid_sqs_message_character :: "nat \<Rightarrow> bool" where
  "is_valid_sqs_message_character ch \<longleftrightarrow>
     ch = 9 \<or> ch = 10 \<or> ch = 13 \<or> 32 \<le> ch \<and> ch \<le> 55295 \<or> 57344 \<le> ch \<and> ch \<le> 65533 \<or>
     65536 \<le> ch \<and> ch \<le> 1114111"

text \<open>\<^verbatim>\<open>maximum_message_size as usize\<close> wraps negative sizes around \<open>2 ^ 64\<close>.\<close>

definition validate_message_body :: "string \<Rightarrow> int \<Rightarrow> sqs_error + unit" where
  "validate_message_body message_body maximum_message_size =
     (if message_body = []
      then Inl (BadRequest ''MessageBody must contain at least one character'')
      else if int (length message_body) > maximum_message_size mod 2 ^ 64
      then Inl (BadRequest (''MessageBody exceeds the queue MaximumMessageSize of '' @
             show_int maximum_message_size @ '' bytes''))
      else if \<not> list_all is_valid_sqs_message_character (rust_chars message_body)
      then Inl (BadRequest ''MessageBody contains characters that are not allowed by SQS'')
      else Inr ())"

section \<open>Tags\<close>

definition max_tags_per_queue :: nat where "max_tags_per_queue = 50"
definition max_tag_key_length :: nat where "max_tag_key_length = 128"
definition max_tag_value_length :: nat where "max_tag_value_length = 256"

definition validate_tag_key :: "string \<Rightarrow> sqs_error + unit" where
  "validate_tag_key key =
     (let key_length = length (rust_chars key)
      in if key_length = 0 \<or> key_length > max_tag_key_length
         then Inl (BadRequest (''Tag keys must be between 1 and '' @ show_nat max_tag_key_length @ '' characters''))
         else if starts_with ''aws:'' key
         then Inl (BadRequest ''Tag keys cannot start with the reserved aws: prefix'')
         else Inr ())"

definition validate_tags :: "(string \<times> string) list \<Rightarrow> bool \<Rightarrow> sqs_error + unit" where
  "validate_tags tags allow_empty =
     (if \<not> allow_empty \<and> tags = []
      then Inl (BadRequest ''Tags must contain at least one entry'')
      else if length tags > max_tags_per_queue
      then Inl (BadRequest (''A queue can have at most '' @ show_nat max_tags_per_queue @ '' tags''))
      else check_all (\<lambda>(key, value).
             ebind (validate_tag_key key) (\<lambda>_.
               guard (length (rust_chars value) > max_tag_value_length)
                 (BadRequest (''Tag value for '' @ quoted key @ '' must be at most '' @
                    show_nat max_tag_value_length @ '' characters'')))) tags)"

definition validate_tag_keys :: "string list \<Rightarrow> bool \<Rightarrow> sqs_error + unit" where
  "validate_tag_keys tag_keys allow_empty =
     (if \<not> allow_empty \<and> tag_keys = []
      then Inl (BadRequest ''TagKeys must contain at least one entry'')
      else if length tag_keys > max_tags_per_queue
      then Inl (BadRequest (''TagKeys can contain at most '' @ show_nat max_tags_per_queue @ '' entries''))
      else check_all validate_tag_key tag_keys)"

section \<open>What the checks let through\<close>

lemma count_distinct_ids_eq:
  "count_distinct_ids c seen is =
     (if distinct is \<and> set seen \<inter> set is = {} then Inr (c + length is) else Inl BatchEntryIdsNotDistinct)"
  by (induction c seen "is" rule: count_distinct_ids.induct) auto

text \<open>
  The batch check refuses a request with a repeated entry id before it looks at the size, then an
  empty request, then one of more than ten entries, and lets every other request through.
\<close>

theorem validate_batch_request_eq:
  "validate_batch_request ids =
     (if \<not> distinct ids then Inl BatchEntryIdsNotDistinct
      else if ids = [] then Inl EmptyBatchRequest
      else if length ids > 10 then Inl TooManyEntriesInBatchRequest
      else Inr ())"
  by (simp add: validate_batch_request_def count_distinct_ids_eq)

lemma validate_message_attribute_value_ok:
  "validate_message_attribute_value name v = Inr () \<Longrightarrow>
     (if starts_with ''Binary'' (mav_data_type v) then mav_binary_value v \<noteq> None else mav_string_value v \<noteq> None) \<and>
     mav_data_type v \<noteq> [] \<and> length (mav_data_type v) \<le> 256"
  by (auto simp: validate_message_attribute_value_def split: if_splits)

subsection \<open>The digest of message attributes\<close>

text \<open>
  The bytes that are digested are a sequence of length-prefixed fields; \<open>attribute_bytes\<close> are those
  of one attribute, \<open>attribute_content\<close> what they stand for.
\<close>

definition length_prefixed :: "string \<Rightarrow> string" where
  "length_prefixed bytes = map char_of (be_u32 (length bytes)) @ bytes"

definition attribute_content ::
    "ext \<Rightarrow> string \<times> message_attribute_value \<Rightarrow> string \<times> string \<times> bool \<times> string" where
  "attribute_content E nv =
     (fst nv, mav_data_type (snd nv), starts_with ''Binary'' (mav_data_type (snd nv)),
      if starts_with ''Binary'' (mav_data_type (snd nv))
      then projr (x_base64 E (the (mav_binary_value (snd nv)))) else the (mav_string_value (snd nv)))"

definition attribute_bytes :: "string \<times> string \<times> bool \<times> string \<Rightarrow> string" where
  "attribute_bytes = (\<lambda>(name, data_type, binary, val).
     length_prefixed name @ length_prefixed data_type @ [char_of (if binary then 2 else 1 :: nat)] @
     length_prefixed val)"

definition fits_u32 :: "string \<times> string \<times> bool \<times> string \<Rightarrow> bool" where
  "fits_u32 = (\<lambda>(name, data_type, binary, val).
     length name < 2 ^ 32 \<and> length data_type < 2 ^ 32 \<and> length val < 2 ^ 32)"

lemma be_u32_bytes: "\<forall>b\<in>set (be_u32 n). b < 256"
  by (auto simp: be_u32_def Let_def less_mult_imp_div_less)

lemma be_u32_value:
  "n < 2 ^ 32 \<Longrightarrow> be_u32 n = [a, b, c, d] \<Longrightarrow> n = a * 2 ^ 24 + b * 2 ^ 16 + c * 2 ^ 8 + d"
proof -
  assume "n < 2 ^ 32" "be_u32 n = [a, b, c, d]"
  then have abcd: "a = n div 256 div 256 div 256" "b = n div 256 div 256 mod 256" "c = n div 256 mod 256" "d = n mod 256"
    by (simp_all add: be_u32_def Let_def div_mult2_eq [symmetric])
  have "n = n div 256 * 256 + d" "n div 256 = n div 256 div 256 * 256 + c" "n div 256 div 256 = a * 256 + b"
    by (simp_all only: abcd div_mult_mod_eq)
  then show ?thesis by simp
qed

lemma length_be_u32 [simp]: "length (be_u32 n) = 4"
  by (simp add: be_u32_def Let_def)

lemma be_u32_inj: "m < 2 ^ 32 \<Longrightarrow> n < 2 ^ 32 \<Longrightarrow> be_u32 m = be_u32 n \<Longrightarrow> m = n"
  by (rule trans [OF be_u32_value sym [OF be_u32_value]]) (auto simp: be_u32_def Let_def)

lemma map_char_of_inj:
  assumes "\<forall>b\<in>set xs. b < 256" "\<forall>b\<in>set ys. b < 256"
    "map char_of xs = map (char_of :: nat \<Rightarrow> char) ys"
  shows "xs = ys"
proof -
  have "map of_char (map char_of xs) = (map of_char (map (char_of :: nat \<Rightarrow> char) ys) :: nat list)"
    using assms(3) by (rule arg_cong)
  then show ?thesis using assms(1,2) by (simp add: map_idI)
qed

lemma length_prefixed_inj:
  assumes "length_prefixed a @ r = length_prefixed b @ r'" "length a < 2 ^ 32" "length b < 2 ^ 32"
  shows "a = b \<and> r = r'"
proof -
  have "map char_of (be_u32 (length a)) = map (char_of :: nat \<Rightarrow> char) (be_u32 (length b)) \<and> a @ r = b @ r'"
    using assms(1) by (auto simp: length_prefixed_def append_eq_append_conv)
  then have "be_u32 (length a) = be_u32 (length b)" and rest: "a @ r = b @ r'"
    using map_char_of_inj be_u32_bytes by blast+
  then have "length a = length b" using be_u32_inj assms(2,3) by blast
  with rest show ?thesis by simp
qed

lemma attribute_bytes_inj:
  assumes "attribute_bytes x @ r = attribute_bytes y @ r'" "fits_u32 x" "fits_u32 y"
  shows "x = y \<and> r = r'"
proof -
  obtain n t b v where x: "x = (n, t, b, v)" by (cases x)
  obtain n' t' b' v' where y: "y = (n', t', b', v')" by (cases y)
  have tags: "char_of (1::nat) \<noteq> char_of (2::nat)" by (simp add: char_of_def bit_0)
  have fits: "length n < 2 ^ 32" "length t < 2 ^ 32" "length v < 2 ^ 32"
    "length n' < 2 ^ 32" "length t' < 2 ^ 32" "length v' < 2 ^ 32"
    using assms(2,3) x y by (simp_all add: fits_u32_def)
  have "length_prefixed n @ (length_prefixed t @ [char_of (if b then 2 else 1 :: nat)] @ length_prefixed v @ r)
      = length_prefixed n' @ (length_prefixed t' @ [char_of (if b' then 2 else 1 :: nat)] @ length_prefixed v' @ r')"
    using assms(1) x y by (simp add: attribute_bytes_def)
  note 1 = length_prefixed_inj [OF this fits(1,4)]
  note 2 = length_prefixed_inj [OF conjunct2 [OF 1] fits(2,5)]
  then have b: "b = b'" and "length_prefixed v @ r = length_prefixed v' @ r'"
    using tags by (simp_all split: if_splits)
  note 3 = length_prefixed_inj [OF this(2) fits(3,6)]
  from 1 2 b 3 x y show ?thesis by simp
qed

lemma append_message_attribute_eq:
  "append_message_attribute E buffer nv = Inr buffer' \<Longrightarrow> buffer' = buffer @ attribute_bytes (attribute_content E nv)"
  by (auto simp: append_message_attribute_def Let_def append_length_prefixed_bytes_def attribute_bytes_def
      attribute_content_def length_prefixed_def split: if_splits)

lemma append_message_attributes_eq:
  "append_message_attributes E buffer nvs = Inr buffer' \<Longrightarrow>
   buffer' = buffer @ concat (map (attribute_bytes \<circ> attribute_content E) nvs)"
proof (induction nvs arbitrary: buffer)
  case (Cons nv nvs)
  then obtain b where "append_message_attribute E buffer nv = Inr b" "append_message_attributes E b nvs = Inr buffer'"
    by auto
  with Cons.IH [of b] show ?case by (auto dest: append_message_attribute_eq)
qed simp

lemma attribute_bytes_nonempty: "attribute_bytes x \<noteq> []"
  by (simp add: attribute_bytes_def split_beta)

lemma concat_attribute_bytes_inj:
  "concat (map attribute_bytes xs) = concat (map attribute_bytes ys) \<Longrightarrow> list_all fits_u32 xs \<Longrightarrow>
   list_all fits_u32 ys \<Longrightarrow> xs = ys"
proof (induction xs arbitrary: ys)
  case Nil
  then show ?case by (cases ys) (simp_all add: attribute_bytes_nonempty)
next
  case (Cons x xs)
  show ?case
  proof (cases ys)
    case Nil
    with Cons.prems show ?thesis by (simp add: attribute_bytes_nonempty)
  next
    case (Cons y zs)
    with Cons.prems have "attribute_bytes x @ concat (map attribute_bytes xs) = attribute_bytes y @ concat (map attribute_bytes zs)"
      and "fits_u32 x" "fits_u32 y" by simp_all
    from attribute_bytes_inj [OF this] Cons.IH [of zs] Cons.prems \<open>ys = y # zs\<close> show ?thesis by simp
  qed
qed

lemma sort_by_name_unique:
  assumes "distinct (map fst xs)" "distinct (map fst ys)" "set xs = set ys"
  shows "sort_key fst xs = sort_key (fst :: string \<times> 'v \<Rightarrow> string) ys"
  using assms by (intro map_sorted_distinct_set_unique [where f = fst]) (auto simp: distinct_map)

text \<open>
  The digest of message attributes is taken over an unambiguous encoding that does not depend on
  the iteration order of the map: two maps with the same entries give the same digest, and if
  two sorted attribute lists give the same bytes then they agree in names, data types and values.
\<close>

theorem message_attribute_encoding_canonical:
  assumes "distinct (map fst xs)" "distinct (map fst ys)"
  shows "(set xs = set ys \<longrightarrow> calculate_message_attributes_md5 E xs = calculate_message_attributes_md5 E ys) \<and>
         (append_message_attributes E [] (sort_key fst xs) = Inr b \<longrightarrow>
          append_message_attributes E [] (sort_key fst ys) = Inr b \<longrightarrow>
          list_all (fits_u32 \<circ> attribute_content E) (xs @ ys) \<longrightarrow>
          set (map (attribute_content E) xs) = set (map (attribute_content E) ys))"
proof (intro conjI impI)
  assume "set xs = set ys"
  then show "calculate_message_attributes_md5 E xs = calculate_message_attributes_md5 E ys"
    using sort_by_name_unique [OF assms] by (simp add: calculate_message_attributes_md5_def)
next
  let ?c = "\<lambda>l. map (attribute_content E) (sort_key fst l)"
  assume x: "append_message_attributes E [] (sort_key fst xs) = Inr b"
    and y: "append_message_attributes E [] (sort_key fst ys) = Inr b"
    and fits: "list_all (fits_u32 \<circ> attribute_content E) (xs @ ys)"
  have "concat (map attribute_bytes (?c xs)) = concat (map attribute_bytes (?c ys))"
    using append_message_attributes_eq [OF x] append_message_attributes_eq [OF y] by simp
  moreover have "list_all fits_u32 (?c xs)" "list_all fits_u32 (?c ys)"
    using fits by (auto simp: list_all_iff)
  ultimately have "?c xs = ?c ys" by (rule concat_attribute_bytes_inj)
  then have "set (?c xs) = set (?c ys)" by simp
  then show "set (map (attribute_content E) xs) = set (map (attribute_content E) ys)" by simp
qed

theorem message_attribute_encoding_canonical_witness:
  "calculate_message_attributes_md5 demo_ext
     [(''b'', \<lparr>mav_data_type = ''String'', mav_string_value = Some ''2'', mav_binary_value = None\<rparr>),
      (''a'', \<lparr>mav_data_type = ''Number'', mav_string_value = Some ''1'', mav_binary_value = None\<rparr>)] =
   calculate_message_attributes_md5 demo_ext
     [(''a'', \<lparr>mav_data_type = ''Number'', mav_string_value = Some ''1'', mav_binary_value = None\<rparr>),
      (''b'', \<lparr>mav_data_type = ''String'', mav_string_value = Some ''2'', mav_binary_value = None\<rparr>)]"
  by (rule message_attribute_encoding_canonical [THEN conjunct1, THEN mp]) auto

end
