(* ===== verification/Sqs_Attributes.thy ===== *)
theory Sqs_Attributes
  imports Sqs_Validation
begin

text \<open>
  Queue attributes, \<^verbatim>\<open>hiraeth_sqs/src/actions/queue_attribute_support.rs\<close>: reading them from a
  request map (with defaults for \<^verbatim>\<open>CreateQueue\<close>, as an update for \<^verbatim>\<open>SetQueueAttributes\<close>) and writing
  them into the response map of \<^verbatim>\<open>GetQueueAttributes\<close>. The lemmas give the bounds of every accepted
  attribute and the round trips between the maps and the stored queue.
\<close>

type_synonym attribute_map = "(string \<times> string) list"

record queue_attribute_values =
  v_visibility_timeout_seconds :: int
  v_delay_seconds :: int
  v_maximum_message_size :: int
  v_message_retention_period_seconds :: int
  v_receive_message_wait_time_seconds :: int
  v_policy :: string
  v_redrive_policy :: string
  v_fifo_queue :: bool
  v_content_based_deduplication :: bool
  v_kms_master_key_id :: "string option"
  v_kms_data_key_reuse_period_seconds :: int
  v_deduplication_scope :: string
  v_fifo_throughput_limit :: string
  v_redrive_allow_policy :: string
  v_sqs_managed_sse_enabled :: bool

definition create_queue_attributes :: "string list" where
  "create_queue_attributes =
     [''VisibilityTimeout'', ''DelaySeconds'', ''MaximumMessageSize'', ''MessageRetentionPeriod'',
      ''ReceiveMessageWaitTimeSeconds'', ''Policy'', ''RedrivePolicy'', ''FifoQueue'',
      ''ContentBasedDeduplication'', ''KmsMasterKeyId'', ''KmsDataKeyReusePeriodSeconds'',
      ''DeduplicationScope'', ''FifoThroughputLimit'', ''RedriveAllowPolicy'', ''SqsManagedSseEnabled'']"

definition set_queue_attributes_names :: "string list" where
  "set_queue_attributes_names =
     [''VisibilityTimeout'', ''DelaySeconds'', ''MaximumMessageSize'', ''MessageRetentionPeriod'',
      ''ReceiveMessageWaitTimeSeconds'', ''Policy'', ''RedrivePolicy'',
      ''ContentBasedDeduplication'', ''KmsMasterKeyId'', ''KmsDataKeyReusePeriodSeconds'',
      ''DeduplicationScope'', ''FifoThroughputLimit'', ''RedriveAllowPolicy'', ''SqsManagedSseEnabled'']"

definition default_queue_attribute_values :: queue_attribute_values where
  "default_queue_attribute_values =
     \<lparr>v_visibility_timeout_seconds = 30, v_delay_seconds = 0, v_maximum_message_size = 1048576,
      v_message_retention_period_seconds = 345600, v_receive_message_wait_time_seconds = 0,
      v_policy = ''{}'', v_redrive_policy = ''{}'', v_fifo_queue = False,
      v_content_based_deduplication = False, v_kms_master_key_id = None,
      v_kms_data_key_reuse_period_seconds = 300, v_deduplication_scope = ''queue'',
      v_fifo_throughput_limit = ''perQueue'', v_redrive_allow_policy = ''{}'',
      v_sqs_managed_sse_enabled = False\<rparr>"

section \<open>Reading\<close>

definition validate_supported_attributes :: "attribute_map \<Rightarrow> string list \<Rightarrow> sqs_error + unit" where
  "validate_supported_attributes attributes supported =
     check_all (\<lambda>a. guard (a \<notin> set supported) (BadRequest (''Unsupported queue attribute: '' @ a)))
       (map fst attributes)"

definition parse_i64_attribute :: "attribute_map \<Rightarrow> string \<Rightarrow> int \<Rightarrow> int \<Rightarrow> sqs_error + int option" where
  "parse_i64_attribute attributes name mn mx =
     (case map_of attributes name of
        None \<Rightarrow> Inr None
      | Some raw \<Rightarrow>
          ebind (ok_or (BadRequest (name @ '' must be an integer between '' @ show_int mn @ '' and '' @ show_int mx))
                   (parse_i64 raw)) (\<lambda>val.
          if \<not> (mn \<le> val \<and> val \<le> mx)
          then Inl (BadRequest (name @ '' must be between '' @ show_int mn @ '' and '' @ show_int mx))
          else Inr (Some val)))"

definition get_i64_attribute :: "attribute_map \<Rightarrow> string \<Rightarrow> int \<Rightarrow> int \<Rightarrow> int \<Rightarrow> sqs_error + int" where
  "get_i64_attribute attributes name dflt mn mx =
     ebind (parse_i64_attribute attributes name mn mx) (\<lambda>v. Inr (coalesce v dflt))"

definition parse_bool_attribute :: "attribute_map \<Rightarrow> string \<Rightarrow> sqs_error + bool option" where
  "parse_bool_attribute attributes name =
     (case map_of attributes name of
        None \<Rightarrow> Inr None
      | Some raw \<Rightarrow>
          if to_ascii_lowercase raw = ''true'' then Inr (Some True)
          else if to_ascii_lowercase raw = ''false'' then Inr (Some False)
          else Inl (BadRequest (name @ '' must be either true or false'')))"

definition get_bool_attribute :: "attribute_map \<Rightarrow> string \<Rightarrow> bool \<Rightarrow> sqs_error + bool" where
  "get_bool_attribute attributes name dflt =
     ebind (parse_bool_attribute attributes name) (\<lambda>v. Inr (coalesce v dflt))"

definition parse_json_string_attribute :: "ext \<Rightarrow> attribute_map \<Rightarrow> string \<Rightarrow> sqs_error + string option" where
  "parse_json_string_attribute E attributes name =
     (case map_of attributes name of
        None \<Rightarrow> Inr None
      | Some raw \<Rightarrow>
          ebind (map_err (\<lambda>e. BadRequest (name @ '' must be valid JSON: '' @ e)) (x_json_value E raw)) (\<lambda>_.
          ebind (if name = ''Policy'' \<and> trim raw \<noteq> ''{}''
                 then ebind (map_err (\<lambda>e. BadRequest (''Policy must be a valid queue policy: '' @ e)) (x_policy E raw))
                        (\<lambda>_. Inr ())
                 else Inr ()) (\<lambda>_.
          Inr (Some raw))))"

definition get_json_string_attribute :: "ext \<Rightarrow> attribute_map \<Rightarrow> string \<Rightarrow> string \<Rightarrow> sqs_error + string" where
  "get_json_string_attribute E attributes name dflt =
     ebind (parse_json_string_attribute E attributes name) (\<lambda>v. Inr (coalesce v dflt))"

definition parse_allowed_string_attribute ::
    "attribute_map \<Rightarrow> string \<Rightarrow> string list \<Rightarrow> sqs_error + string option" where
  "parse_allowed_string_attribute attributes name allowed =
     (case map_of attributes name of
        None \<Rightarrow> Inr None
      | Some raw \<Rightarrow>
          if raw \<in> set allowed then Inr (Some raw)
          else Inl (BadRequest (name @ '' must be one of: '' @ join_strings '', '' allowed)))"

definition get_allowed_string_attribute ::
    "attribute_map \<Rightarrow> string \<Rightarrow> string \<Rightarrow> string list \<Rightarrow> sqs_error + string" where
  "get_allowed_string_attribute attributes name dflt allowed =
     ebind (parse_allowed_string_attribute attributes name allowed) (\<lambda>v. Inr (coalesce v dflt))"

definition from_attribute_map :: "ext \<Rightarrow> attribute_map \<Rightarrow> sqs_error + queue_attribute_values" where
  "from_attribute_map E attributes =
     ebind (validate_supported_attributes attributes create_queue_attributes) (\<lambda>_.
     let d = default_queue_attribute_values in
     ebind (get_i64_attribute attributes ''VisibilityTimeout'' (v_visibility_timeout_seconds d) 0 43200) (\<lambda>vt.
     ebind (get_i64_attribute attributes ''DelaySeconds'' (v_delay_seconds d) 0 900) (\<lambda>ds.
     ebind (get_i64_attribute attributes ''MaximumMessageSize'' (v_maximum_message_size d) 1024 1048576) (\<lambda>ms.
     ebind (get_i64_attribute attributes ''MessageRetentionPeriod'' (v_message_retention_period_seconds d) 60 1209600) (\<lambda>rp.
     ebind (get_i64_attribute attributes ''ReceiveMessageWaitTimeSeconds'' (v_receive_message_wait_time_seconds d) 0 20) (\<lambda>wt.
     ebind (get_json_string_attribute E attributes ''Policy'' (v_policy d)) (\<lambda>pol.
     ebind (get_json_string_attribute E attributes ''RedrivePolicy'' (v_redrive_policy d)) (\<lambda>rd.
     ebind (get_bool_attribute attributes ''FifoQueue'' (v_fifo_queue d)) (\<lambda>fifo.
     ebind (get_bool_attribute attributes ''ContentBasedDeduplication'' (v_content_based_deduplication d)) (\<lambda>cbd.
     ebind (get_i64_attribute attributes ''KmsDataKeyReusePeriodSeconds''
              (v_kms_data_key_reuse_period_seconds d) 60 86400) (\<lambda>kp.
     ebind (get_allowed_string_attribute attributes ''DeduplicationScope'' (v_deduplication_scope d)
              [''queue'', ''messageGroup'']) (\<lambda>scope.
     ebind (get_allowed_string_attribute attributes ''FifoThroughputLimit'' (v_fifo_throughput_limit d)
              [''perQueue'', ''perMessageGroupId'']) (\<lambda>lim.
     ebind (get_json_string_attribute E attributes ''RedriveAllowPolicy'' (v_redrive_allow_policy d)) (\<lambda>rap.
     ebind (get_bool_attribute attributes ''SqsManagedSseEnabled'' (v_sqs_managed_sse_enabled d)) (\<lambda>sse.
     Inr \<lparr>v_visibility_timeout_seconds = vt, v_delay_seconds = ds, v_maximum_message_size = ms,
          v_message_retention_period_seconds = rp, v_receive_message_wait_time_seconds = wt,
          v_policy = pol, v_redrive_policy = rd, v_fifo_queue = fifo,
          v_content_based_deduplication = cbd, v_kms_master_key_id = map_of attributes ''KmsMasterKeyId'',
          v_kms_data_key_reuse_period_seconds = kp, v_deduplication_scope = scope,
          v_fifo_throughput_limit = lim, v_redrive_allow_policy = rap,
          v_sqs_managed_sse_enabled = sse\<rparr>)))))))))))))))"

definition parse_queue_attribute_update :: "ext \<Rightarrow> attribute_map \<Rightarrow> sqs_error + sqs_queue_attribute_update" where
  "parse_queue_attribute_update E attributes =
     ebind (validate_supported_attributes attributes set_queue_attributes_names) (\<lambda>_.
     ebind (parse_i64_attribute attributes ''VisibilityTimeout'' 0 43200) (\<lambda>vt.
     ebind (parse_i64_attribute attributes ''DelaySeconds'' 0 900) (\<lambda>ds.
     ebind (parse_i64_attribute attributes ''MaximumMessageSize'' 1024 1048576) (\<lambda>ms.
     ebind (parse_i64_attribute attributes ''MessageRetentionPeriod'' 60 1209600) (\<lambda>rp.
     ebind (parse_i64_attribute attributes ''ReceiveMessageWaitTimeSeconds'' 0 20) (\<lambda>wt.
     ebind (parse_json_string_attribute E attributes ''Policy'') (\<lambda>pol.
     ebind (parse_json_string_attribute E attributes ''RedrivePolicy'') (\<lambda>rd.
     ebind (parse_bool_attribute attributes ''ContentBasedDeduplication'') (\<lambda>cbd.
     let kms = (if map_of attributes ''KmsMasterKeyId'' \<noteq> None
                then Some (Option.bind (map_of attributes ''KmsMasterKeyId'')
                             (\<lambda>v. if v \<noteq> [] then Some v else None))
                else None) in
     ebind (parse_i64_attribute attributes ''KmsDataKeyReusePeriodSeconds'' 60 86400) (\<lambda>kp.
     ebind (parse_allowed_string_attribute attributes ''DeduplicationScope'' [''queue'', ''messageGroup'']) (\<lambda>scope.
     ebind (parse_allowed_string_attribute attributes ''FifoThroughputLimit''
              [''perQueue'', ''perMessageGroupId'']) (\<lambda>lim.
     ebind (parse_json_string_attribute E attributes ''RedriveAllowPolicy'') (\<lambda>rap.
     ebind (parse_bool_attribute attributes ''SqsManagedSseEnabled'') (\<lambda>sse.
     Inr \<lparr>u_visibility_timeout_seconds = vt, u_delay_seconds = ds, u_maximum_message_size = ms,
          u_message_retention_period_seconds = rp, u_receive_message_wait_time_seconds = wt,
          u_policy = pol, u_redrive_policy = rd, u_content_based_deduplication = cbd,
          u_kms_master_key_id = kms, u_kms_data_key_reuse_period_seconds = kp,
          u_deduplication_scope = scope, u_fifo_throughput_limit = lim,
          u_redrive_allow_policy = rap, u_sqs_managed_sse_enabled = sse\<rparr>))))))))))))))"

section \<open>Writing\<close>

definition is_requested_attribute :: "string \<Rightarrow> string list \<Rightarrow> bool" where
  "is_requested_attribute name requested \<longleftrightarrow> list_ex (\<lambda>r. r = name \<or> r = ''All'') requested"

definition insert_string_attribute ::
    "string list \<Rightarrow> string \<Rightarrow> string \<Rightarrow> attribute_map \<Rightarrow> attribute_map" where
  "insert_string_attribute requested name val attributes =
     (if is_requested_attribute name requested then hashmap_insert name val attributes else attributes)"

definition insert_i64_attribute ::
    "string list \<Rightarrow> string \<Rightarrow> int \<Rightarrow> attribute_map \<Rightarrow> attribute_map" where
  "insert_i64_attribute requested name val attributes =
     (if is_requested_attribute name requested then hashmap_insert name (show_int val) attributes else attributes)"

definition insert_bool_attribute ::
    "string list \<Rightarrow> string \<Rightarrow> bool \<Rightarrow> attribute_map \<Rightarrow> attribute_map" where
  "insert_bool_attribute requested name val attributes =
     (if is_requested_attribute name requested then hashmap_insert name (show_bool val) attributes else attributes)"

text \<open>
  The counts read the clock: for \<^verbatim>\<open>ApproximateNumberOfMessages\<close>, for the two counts of
  \<^verbatim>\<open>...NotVisible\<close>, and for \<^verbatim>\<open>...Delayed\<close>.
\<close>

record count_clock =
  cc_count :: time
  cc_visible :: time
  cc_total :: time
  cc_delayed :: time

definition insert_read_attribute ::
    "string list \<Rightarrow> string \<Rightarrow> (sqs_error + int) \<Rightarrow> attribute_map \<Rightarrow> sqs_error + attribute_map" where
  "insert_read_attribute requested name val attributes =
     (if is_requested_attribute name requested
      then ebind val (\<lambda>n. Inr (hashmap_insert name (show_int n) attributes)) else Inr attributes)"

definition collect_queue_attributes ::
    "'s sqs_store \<Rightarrow> count_clock \<Rightarrow> sqs_queue \<Rightarrow> string list \<Rightarrow> 's \<Rightarrow> sqs_error + attribute_map" where
  "collect_queue_attributes store cc queue requested s =
     (let a = insert_string_attribute requested ''Policy'' (q_policy queue) [];
          a = insert_i64_attribute requested ''VisibilityTimeout'' (q_visibility_timeout_seconds queue) a;
          a = insert_i64_attribute requested ''MaximumMessageSize'' (q_maximum_message_size queue) a;
          a = insert_i64_attribute requested ''MessageRetentionPeriod'' (q_message_retention_period_seconds queue) a
      in
      ebind (insert_read_attribute requested ''ApproximateNumberOfMessages''
               (map_err internal_error (st_get_message_count store (cc_count cc) (q_id queue) s)) a) (\<lambda>a.
      ebind (insert_read_attribute requested ''ApproximateNumberOfMessagesNotVisible''
               (ebind (map_err internal_error (st_get_visible_message_count store (cc_visible cc) (q_id queue) s)) (\<lambda>visible.
                ebind (map_err internal_error (st_get_message_count store (cc_total cc) (q_id queue) s)) (\<lambda>total.
                Inr (total - visible)))) a) (\<lambda>a.
      let a = insert_i64_attribute requested ''CreatedTimestamp'' (timestamp_millis (q_created_at queue)) a;
          a = insert_i64_attribute requested ''LastModifiedTimestamp'' (timestamp_millis (q_updated_at queue)) a;
          a = insert_string_attribute requested ''QueueArn''
                (''arn:aws:sqs:'' @ q_region queue @ '':'' @ q_account_id queue @ '':'' @ q_name queue) a
      in
      ebind (insert_read_attribute requested ''ApproximateNumberOfMessagesDelayed''
               (map_err internal_error (st_get_messages_delayed_count store (cc_delayed cc) (q_id queue) s)) a) (\<lambda>a.
      let a = insert_i64_attribute requested ''DelaySeconds'' (q_delay_seconds queue) a;
          a = insert_i64_attribute requested ''ReceiveMessageWaitTimeSeconds'' (q_receive_message_wait_time_seconds queue) a;
          a = insert_string_attribute requested ''RedrivePolicy'' (q_redrive_policy queue) a;
          a = insert_bool_attribute requested ''FifoQueue'' (q_queue_type queue = ''fifo'') a;
          a = insert_bool_attribute requested ''ContentBasedDeduplication'' (q_content_based_deduplication queue) a;
          a = (case q_kms_master_key_id queue of
                 None \<Rightarrow> a
               | Some k \<Rightarrow> insert_string_attribute requested ''KmsMasterKeyId'' k a);
          a = insert_i64_attribute requested ''KmsDataKeyReusePeriodSeconds'' (q_kms_data_key_reuse_period_seconds queue) a;
          a = insert_string_attribute requested ''DeduplicationScope'' (q_deduplication_scope queue) a;
          a = insert_string_attribute requested ''FifoThroughputLimit'' (q_fifo_throughput_limit queue) a;
          a = insert_string_attribute requested ''RedriveAllowPolicy'' (q_redrive_allow_policy queue) a;
          a = insert_bool_attribute requested ''SqsManagedSseEnabled'' (q_sqs_managed_sse_enabled queue) a
      in Inr a))))"

section \<open>Bounds\<close>

lemma parse_i64_attribute_bounds:
  "parse_i64_attribute attributes name mn mx = Inr (Some i) \<Longrightarrow> mn \<le> i \<and> i \<le> mx"
  by (auto simp: parse_i64_attribute_def split: option.splits if_splits)

lemma get_i64_attribute_bounds:
  "get_i64_attribute attributes name d mn mx = Inr i \<Longrightarrow> mn \<le> d \<Longrightarrow> d \<le> mx \<Longrightarrow> mn \<le> i \<and> i \<le> mx"
  by (auto simp: get_i64_attribute_def coalesce_def dest: parse_i64_attribute_bounds split: option.splits)

lemma parse_allowed_string_bounds:
  "parse_allowed_string_attribute attributes name allowed = Inr (Some v) \<Longrightarrow> v \<in> set allowed"
  by (auto simp: parse_allowed_string_attribute_def split: option.splits if_splits)

lemma get_allowed_string_bounds:
  "get_allowed_string_attribute attributes name d allowed = Inr v \<Longrightarrow> d \<in> set allowed \<Longrightarrow> v \<in> set allowed"
  by (auto simp: get_allowed_string_attribute_def coalesce_def dest: parse_allowed_string_bounds split: option.splits)

definition json_attribute_ok :: "ext \<Rightarrow> string \<Rightarrow> string \<Rightarrow> bool" where
  "json_attribute_ok E name raw \<longleftrightarrow>
     x_json_value E raw = Inr () \<and> (name = ''Policy'' \<and> trim raw \<noteq> ''{}'' \<longrightarrow> (\<exists>p. x_policy E raw = Inr p))"

lemma parse_json_string_ok:
  "parse_json_string_attribute E attributes name = Inr (Some v) \<Longrightarrow> json_attribute_ok E name v"
  by (auto simp: parse_json_string_attribute_def json_attribute_ok_def split: option.splits if_splits)

lemma get_json_string_ok:
  "get_json_string_attribute E attributes name d = Inr v \<Longrightarrow> json_attribute_ok E name d \<Longrightarrow> json_attribute_ok E name v"
  by (auto simp: get_json_string_attribute_def coalesce_def dest: parse_json_string_ok split: option.splits)

text \<open>The queues the attribute checks admit: every number in its range, every choice allowed, JSON valid.\<close>

definition queue_attributes_valid :: "ext \<Rightarrow> sqs_queue \<Rightarrow> bool" where
  "queue_attributes_valid E q \<longleftrightarrow>
     q_visibility_timeout_seconds q \<in> {0..43200} \<and> q_delay_seconds q \<in> {0..900} \<and>
     q_maximum_message_size q \<in> {1024..1048576} \<and> q_message_retention_period_seconds q \<in> {60..1209600} \<and>
     q_receive_message_wait_time_seconds q \<in> {0..20} \<and>
     q_kms_data_key_reuse_period_seconds q \<in> {60..86400} \<and>
     q_deduplication_scope q \<in> {''queue'', ''messageGroup''} \<and>
     q_fifo_throughput_limit q \<in> {''perQueue'', ''perMessageGroupId''} \<and>
     q_queue_type q \<in> {''standard'', ''fifo''} \<and>
     json_attribute_ok E ''Policy'' (q_policy q) \<and> json_attribute_ok E ''RedrivePolicy'' (q_redrive_policy q) \<and>
     json_attribute_ok E ''RedriveAllowPolicy'' (q_redrive_allow_policy q)"

definition values_valid :: "ext \<Rightarrow> queue_attribute_values \<Rightarrow> bool" where
  "values_valid E v \<longleftrightarrow>
     v_visibility_timeout_seconds v \<in> {0..43200} \<and> v_delay_seconds v \<in> {0..900} \<and>
     v_maximum_message_size v \<in> {1024..1048576} \<and> v_message_retention_period_seconds v \<in> {60..1209600} \<and>
     v_receive_message_wait_time_seconds v \<in> {0..20} \<and>
     v_kms_data_key_reuse_period_seconds v \<in> {60..86400} \<and>
     v_deduplication_scope v \<in> {''queue'', ''messageGroup''} \<and>
     v_fifo_throughput_limit v \<in> {''perQueue'', ''perMessageGroupId''} \<and>
     json_attribute_ok E ''Policy'' (v_policy v) \<and> json_attribute_ok E ''RedrivePolicy'' (v_redrive_policy v) \<and>
     json_attribute_ok E ''RedriveAllowPolicy'' (v_redrive_allow_policy v)"

lemma trim_empty_object [simp]: "trim ''{}'' = ''{}''"
  by (simp add: trim_def trim_chars_def is_whitespace_def utf8_width_def byte_def)

lemma default_json_ok: "x_json_value E ''{}'' = Inr () \<Longrightarrow> json_attribute_ok E name ''{}''"
  by (simp add: json_attribute_ok_def)

lemma from_attribute_map_Inr:
  assumes "from_attribute_map E a = Inr v"
  shows "get_i64_attribute a ''VisibilityTimeout'' 30 0 43200 = Inr (v_visibility_timeout_seconds v)"
    "get_i64_attribute a ''DelaySeconds'' 0 0 900 = Inr (v_delay_seconds v)"
    "get_i64_attribute a ''MaximumMessageSize'' 1048576 1024 1048576 = Inr (v_maximum_message_size v)"
    "get_i64_attribute a ''MessageRetentionPeriod'' 345600 60 1209600 = Inr (v_message_retention_period_seconds v)"
    "get_i64_attribute a ''ReceiveMessageWaitTimeSeconds'' 0 0 20 = Inr (v_receive_message_wait_time_seconds v)"
    "get_json_string_attribute E a ''Policy'' ''{}'' = Inr (v_policy v)"
    "get_json_string_attribute E a ''RedrivePolicy'' ''{}'' = Inr (v_redrive_policy v)"
    "get_i64_attribute a ''KmsDataKeyReusePeriodSeconds'' 300 60 86400 = Inr (v_kms_data_key_reuse_period_seconds v)"
    "get_allowed_string_attribute a ''DeduplicationScope'' ''queue'' [''queue'', ''messageGroup''] = Inr (v_deduplication_scope v)"
    "get_allowed_string_attribute a ''FifoThroughputLimit'' ''perQueue'' [''perQueue'', ''perMessageGroupId'']
       = Inr (v_fifo_throughput_limit v)"
    "get_json_string_attribute E a ''RedriveAllowPolicy'' ''{}'' = Inr (v_redrive_allow_policy v)"
  using assms
  by (simp_all only: from_attribute_map_def Let_def ebind_eq_Inr default_queue_attribute_values_def
      queue_attribute_values.simps sum.inject)
    (elim exE conjE, hypsubst, simp)+

lemma from_attribute_map_valid:
  assumes "from_attribute_map E a = Inr v" "x_json_value E ''{}'' = Inr ()"
  shows "values_valid E v"
  unfolding values_valid_def
  using from_attribute_map_Inr(1-5,8) [OF assms(1), THEN get_i64_attribute_bounds]
    from_attribute_map_Inr(9,10) [OF assms(1), THEN get_allowed_string_bounds]
    from_attribute_map_Inr(6,7,11) [OF assms(1), THEN get_json_string_ok]
    default_json_ok [OF assms(2)]
  by simp

lemma parse_queue_attribute_update_Inr:
  assumes "parse_queue_attribute_update E a = Inr u"
  shows "parse_i64_attribute a ''VisibilityTimeout'' 0 43200 = Inr (u_visibility_timeout_seconds u)"
    "parse_i64_attribute a ''DelaySeconds'' 0 900 = Inr (u_delay_seconds u)"
    "parse_i64_attribute a ''MaximumMessageSize'' 1024 1048576 = Inr (u_maximum_message_size u)"
    "parse_i64_attribute a ''MessageRetentionPeriod'' 60 1209600 = Inr (u_message_retention_period_seconds u)"
    "parse_i64_attribute a ''ReceiveMessageWaitTimeSeconds'' 0 20 = Inr (u_receive_message_wait_time_seconds u)"
    "parse_json_string_attribute E a ''Policy'' = Inr (u_policy u)"
    "parse_json_string_attribute E a ''RedrivePolicy'' = Inr (u_redrive_policy u)"
    "parse_bool_attribute a ''ContentBasedDeduplication'' = Inr (u_content_based_deduplication u)"
    "u_kms_master_key_id u = (if map_of a ''KmsMasterKeyId'' \<noteq> None
       then Some (Option.bind (map_of a ''KmsMasterKeyId'') (\<lambda>v. if v \<noteq> [] then Some v else None)) else None)"
    "parse_i64_attribute a ''KmsDataKeyReusePeriodSeconds'' 60 86400 = Inr (u_kms_data_key_reuse_period_seconds u)"
    "parse_allowed_string_attribute a ''DeduplicationScope'' [''queue'', ''messageGroup''] = Inr (u_deduplication_scope u)"
    "parse_allowed_string_attribute a ''FifoThroughputLimit'' [''perQueue'', ''perMessageGroupId'']
       = Inr (u_fifo_throughput_limit u)"
    "parse_json_string_attribute E a ''RedriveAllowPolicy'' = Inr (u_redrive_allow_policy u)"
    "parse_bool_attribute a ''SqsManagedSseEnabled'' = Inr (u_sqs_managed_sse_enabled u)"
  using assms
  by (simp_all only: parse_queue_attribute_update_def Let_def ebind_eq_Inr sum.inject)
    (elim exE conjE, hypsubst, simp only: sqs_queue_attribute_update.simps)+

lemma i64_update:
  "parse_i64_attribute a name l h = Inr m \<Longrightarrow> d \<in> {l..h} \<Longrightarrow> coalesce m d \<in> {l..h}"
  by (cases m) (auto dest: parse_i64_attribute_bounds)

lemma allowed_string_update:
  "parse_allowed_string_attribute a name allowed = Inr m \<Longrightarrow> d \<in> set allowed \<Longrightarrow> coalesce m d \<in> set allowed"
  by (cases m) (auto dest: parse_allowed_string_bounds)

lemma json_update:
  "parse_json_string_attribute E a name = Inr m \<Longrightarrow> json_attribute_ok E name d \<Longrightarrow> json_attribute_ok E name (coalesce m d)"
  by (cases m) (auto dest: parse_json_string_ok)

text \<open>
  Queue attributes stay within their documented ranges: a queue whose attributes are valid
  (numbers in range, choices among the allowed ones, policies well-formed) is still valid after
  any attribute update that \<^verbatim>\<open>SetQueueAttributes\<close> accepts.
\<close>

theorem attribute_update_keeps_valid:
  assumes "parse_queue_attribute_update E a = Inr u" "queue_attributes_valid E q"
  shows "queue_attributes_valid E (apply_queue_update now u q)"
proof -
  note eqs = parse_queue_attribute_update_Inr [OF assms(1)]
  show ?thesis
    using assms(2) unfolding queue_attributes_valid_def
    by (simp add: apply_queue_update_def eqs(1-5,10) [THEN i64_update] eqs(6,7,13) [THEN json_update]
        eqs(11,12) [THEN allowed_string_update, simplified] del: atLeastAtMost_iff)
qed

theorem attribute_update_keeps_valid_witness:
  "queue_attributes_valid demo_ext (apply_queue_update 0
     (projr (parse_queue_attribute_update demo_ext [(''VisibilityTimeout'', ''60'')])) default_sqs_queue)"
proof -
  have "parse_queue_attribute_update demo_ext [(''VisibilityTimeout'', ''60'')] =
      Inr (projr (parse_queue_attribute_update demo_ext [(''VisibilityTimeout'', ''60'')]))"
    by (simp add: parse_queue_attribute_update_def validate_supported_attributes_def set_queue_attributes_names_def
        parse_i64_attribute_def parse_json_string_attribute_def parse_bool_attribute_def
        parse_allowed_string_attribute_def parse_i64_def parse_nat_def is_digit_def byte_def digits_value_def in_i64_def)
  then show ?thesis
    by (rule attribute_update_keeps_valid)
      (simp add: queue_attributes_valid_def default_sqs_queue_def json_attribute_ok_def demo_ext_def)
qed

section \<open>Round trips\<close>

text \<open>The stored attributes of a queue, as \<^verbatim>\<open>GetQueueAttributes\<close> reports them.\<close>

definition stored_attributes :: "sqs_queue \<Rightarrow> attribute_map" where
  "stored_attributes q =
     [(''Policy'', q_policy q), (''VisibilityTimeout'', show_int (q_visibility_timeout_seconds q)),
      (''MaximumMessageSize'', show_int (q_maximum_message_size q)),
      (''MessageRetentionPeriod'', show_int (q_message_retention_period_seconds q)),
      (''DelaySeconds'', show_int (q_delay_seconds q)),
      (''ReceiveMessageWaitTimeSeconds'', show_int (q_receive_message_wait_time_seconds q)),
      (''RedrivePolicy'', q_redrive_policy q), (''FifoQueue'', show_bool (q_queue_type q = ''fifo'')),
      (''ContentBasedDeduplication'', show_bool (q_content_based_deduplication q))] @
     (case q_kms_master_key_id q of None \<Rightarrow> [] | Some k \<Rightarrow> [(''KmsMasterKeyId'', k)]) @
     [(''KmsDataKeyReusePeriodSeconds'', show_int (q_kms_data_key_reuse_period_seconds q)),
      (''DeduplicationScope'', q_deduplication_scope q), (''FifoThroughputLimit'', q_fifo_throughput_limit q),
      (''RedriveAllowPolicy'', q_redrive_allow_policy q),
      (''SqsManagedSseEnabled'', show_bool (q_sqs_managed_sse_enabled q))]"

lemma collect_create_attributes:
  "collect_queue_attributes store cc q create_queue_attributes s = Inr (stored_attributes q)"
  by (simp add: collect_queue_attributes_def stored_attributes_def create_queue_attributes_def
      is_requested_attribute_def insert_string_attribute_def insert_i64_attribute_def
      insert_bool_attribute_def insert_read_attribute_def hashmap_insert_def split: option.split)

lemma stored_attributes_lookup [simp]:
  "map_of (stored_attributes q) ''VisibilityTimeout'' = Some (show_int (q_visibility_timeout_seconds q))"
  "map_of (stored_attributes q) ''DelaySeconds'' = Some (show_int (q_delay_seconds q))"
  "map_of (stored_attributes q) ''MaximumMessageSize'' = Some (show_int (q_maximum_message_size q))"
  "map_of (stored_attributes q) ''MessageRetentionPeriod'' = Some (show_int (q_message_retention_period_seconds q))"
  "map_of (stored_attributes q) ''ReceiveMessageWaitTimeSeconds'' = Some (show_int (q_receive_message_wait_time_seconds q))"
  "map_of (stored_attributes q) ''Policy'' = Some (q_policy q)"
  "map_of (stored_attributes q) ''RedrivePolicy'' = Some (q_redrive_policy q)"
  "map_of (stored_attributes q) ''FifoQueue'' = Some (show_bool (q_queue_type q = ''fifo''))"
  "map_of (stored_attributes q) ''ContentBasedDeduplication'' = Some (show_bool (q_content_based_deduplication q))"
  "map_of (stored_attributes q) ''KmsMasterKeyId'' = q_kms_master_key_id q"
  "map_of (stored_attributes q) ''KmsDataKeyReusePeriodSeconds'' = Some (show_int (q_kms_data_key_reuse_period_seconds q))"
  "map_of (stored_attributes q) ''DeduplicationScope'' = Some (q_deduplication_scope q)"
  "map_of (stored_attributes q) ''FifoThroughputLimit'' = Some (q_fifo_throughput_limit q)"
  "map_of (stored_attributes q) ''RedriveAllowPolicy'' = Some (q_redrive_allow_policy q)"
  "map_of (stored_attributes q) ''SqsManagedSseEnabled'' = Some (show_bool (q_sqs_managed_sse_enabled q))"
  by (simp_all add: stored_attributes_def map_add_def split: option.split)

lemma stored_attributes_supported:
  "validate_supported_attributes (stored_attributes q) create_queue_attributes = Inr ()"
  by (simp add: validate_supported_attributes_def stored_attributes_def create_queue_attributes_def split: option.split)

lemma get_i64_shown:
  "map_of a name = Some (show_int i) \<Longrightarrow> i \<in> {l..h} \<Longrightarrow> - (2 ^ 63) \<le> l \<Longrightarrow> h < 2 ^ 63 \<Longrightarrow>
   get_i64_attribute a name d l h = Inr i"
  by (simp add: get_i64_attribute_def parse_i64_attribute_def parse_i64_show_int in_i64_def)

lemma get_bool_shown: "map_of a name = Some (show_bool b) \<Longrightarrow> get_bool_attribute a name d = Inr b"
  by (simp add: get_bool_attribute_def parse_bool_attribute_def) (simp add: show_bool_def)

lemma get_json_shown:
  "map_of a name = Some v \<Longrightarrow> json_attribute_ok E name v \<Longrightarrow> get_json_string_attribute E a name d = Inr v"
  by (auto simp: get_json_string_attribute_def parse_json_string_attribute_def json_attribute_ok_def)

lemma get_allowed_shown:
  "map_of a name = Some v \<Longrightarrow> v \<in> set allowed \<Longrightarrow> get_allowed_string_attribute a name d allowed = Inr v"
  by (simp add: get_allowed_string_attribute_def parse_allowed_string_attribute_def)

definition queue_values :: "sqs_queue \<Rightarrow> queue_attribute_values" where
  "queue_values q =
     \<lparr>v_visibility_timeout_seconds = q_visibility_timeout_seconds q, v_delay_seconds = q_delay_seconds q,
      v_maximum_message_size = q_maximum_message_size q,
      v_message_retention_period_seconds = q_message_retention_period_seconds q,
      v_receive_message_wait_time_seconds = q_receive_message_wait_time_seconds q,
      v_policy = q_policy q, v_redrive_policy = q_redrive_policy q, v_fifo_queue = (q_queue_type q = ''fifo''),
      v_content_based_deduplication = q_content_based_deduplication q,
      v_kms_master_key_id = q_kms_master_key_id q,
      v_kms_data_key_reuse_period_seconds = q_kms_data_key_reuse_period_seconds q,
      v_deduplication_scope = q_deduplication_scope q, v_fifo_throughput_limit = q_fifo_throughput_limit q,
      v_redrive_allow_policy = q_redrive_allow_policy q,
      v_sqs_managed_sse_enabled = q_sqs_managed_sse_enabled q\<rparr>"



text \<open>How a value given to \<^verbatim>\<open>SetQueueAttributes\<close> is reported afterwards: numbers and truth values in
  canonical form, an empty key id as no key id, everything else as given.\<close>

definition reported_form :: "string \<Rightarrow> string \<Rightarrow> string option" where
  "reported_form name raw =
     (if name \<in> {''VisibilityTimeout'', ''DelaySeconds'', ''MaximumMessageSize'', ''MessageRetentionPeriod'',
                  ''ReceiveMessageWaitTimeSeconds'', ''KmsDataKeyReusePeriodSeconds''}
      then map_option show_int (parse_i64 raw)
      else if name \<in> {''ContentBasedDeduplication'', ''SqsManagedSseEnabled''} then Some (to_ascii_lowercase raw)
      else if name = ''KmsMasterKeyId'' then (if raw = [] then None else Some raw)
      else Some raw)"

lemma i64_reported:
  "parse_i64_attribute a name l h = Inr m \<Longrightarrow>
   (case map_of a name of None \<Rightarrow> Some (show_int d) | Some raw \<Rightarrow> map_option show_int (parse_i64 raw)) =
     Some (show_int (coalesce m d))"
  by (auto simp: parse_i64_attribute_def split: option.splits if_splits)

lemma bool_reported:
  "parse_bool_attribute a name = Inr m \<Longrightarrow>
   (case map_of a name of None \<Rightarrow> Some (show_bool d) | Some raw \<Rightarrow> Some (to_ascii_lowercase raw)) =
     Some (show_bool (coalesce m d))"
  by (auto simp: parse_bool_attribute_def show_bool_def split: option.splits if_splits)

lemma json_reported:
  "parse_json_string_attribute E a name = Inr m \<Longrightarrow>
   (case map_of a name of None \<Rightarrow> Some d | Some raw \<Rightarrow> Some raw) = Some (coalesce m d)"
  by (auto simp: parse_json_string_attribute_def split: option.splits if_splits)

lemma allowed_reported:
  "parse_allowed_string_attribute a name allowed = Inr m \<Longrightarrow>
   (case map_of a name of None \<Rightarrow> Some d | Some raw \<Rightarrow> Some raw) = Some (coalesce m d)"
  by (auto simp: parse_allowed_string_attribute_def coalesce_def split: option.splits if_splits)

lemma kms_reported:
  "m = (if k \<noteq> None then Some (Option.bind k (\<lambda>v. if v \<noteq> [] then Some v else None)) else None) \<Longrightarrow>
   (case k of None \<Rightarrow> d | Some raw \<Rightarrow> if raw = [] then None else Some raw) = (case m of None \<Rightarrow> d | Some v \<Rightarrow> v)"
  by (auto split: option.splits)

text \<open>
  \<^verbatim>\<open>SetQueueAttributes\<close> changes exactly the attributes it names: afterwards every attribute in the
  request is reported in its canonical form and every other one as before.
\<close>

theorem set_then_get_attributes:
  assumes "parse_queue_attribute_update E a = Inr u" "name \<in> set set_queue_attributes_names"
  shows "map_of (stored_attributes (apply_queue_update now u q)) name =
           (case map_of a name of None \<Rightarrow> map_of (stored_attributes q) name | Some raw \<Rightarrow> reported_form name raw)"
proof -
  note eqs = parse_queue_attribute_update_Inr [OF assms(1)]
  from assms(2) show ?thesis
    unfolding set_queue_attributes_names_def
    by (simp only: list.set insert_iff empty_iff simp_thms, elim disjE; hypsubst)
      (simp_all add: apply_queue_update_def reported_form_def eqs(1-5,10) [THEN i64_reported]
        eqs(6,7,13) [THEN json_reported] eqs(8,14) [THEN bool_reported] eqs(11,12) [THEN allowed_reported]
        eqs(9) [THEN kms_reported] cong: option.case_cong)
qed

theorem set_then_get_attributes_witness:
  "map_of (stored_attributes (apply_queue_update 0
     (projr (parse_queue_attribute_update demo_ext [(''DelaySeconds'', ''+007'')])) default_sqs_queue)) ''DelaySeconds''
   = Some ''7''"
proof -
  have "parse_queue_attribute_update demo_ext [(''DelaySeconds'', ''+007'')] =
      Inr (projr (parse_queue_attribute_update demo_ext [(''DelaySeconds'', ''+007'')]))"
    by (simp add: parse_queue_attribute_update_def validate_supported_attributes_def set_queue_attributes_names_def
        parse_i64_attribute_def parse_json_string_attribute_def parse_bool_attribute_def
        parse_allowed_string_attribute_def parse_i64_def parse_nat_def is_digit_def byte_def digits_value_def in_i64_def)
  from set_then_get_attributes [OF this, of "''DelaySeconds''" 0 default_sqs_queue]
  show ?thesis
    by (simp add: set_queue_attributes_names_def reported_form_def parse_i64_def parse_nat_def is_digit_def
        byte_def digits_value_def in_i64_def show_int_def show_nat.simps digit_char_def char_of_def bit_simps)
qed

end
