(* ===== verification/Sqs_Queue_Actions.thy ===== *)
theory Sqs_Queue_Actions
  imports Sqs_Attributes Sqs_Store_Laws
begin

text \<open>
  The queue actions of \<^verbatim>\<open>hiraeth_sqs/src/actions\<close>: \<^verbatim>\<open>CreateQueue\<close>, \<^verbatim>\<open>DeleteQueue\<close>, \<^verbatim>\<open>GetQueueUrl\<close>,
  \<^verbatim>\<open>ListQueues\<close>, \<^verbatim>\<open>PurgeQueue\<close>, \<^verbatim>\<open>SetQueueAttributes\<close>, \<^verbatim>\<open>GetQueueAttributes\<close> and the three tag actions.
  A handler is a store operation over any store that implements the trait; the validation closures
  are the \<open>validate_*\<close> definitions. The locale \<open>sqs_store_contract\<close> states what the handlers rely
  on; the SQLite store is shown to provide it.
\<close>

section \<open>Handlers\<close>

subsection \<open>\<^verbatim>\<open>CreateQueue\<close>\<close>

record create_queue_request =
  cq_queue_name :: string
  cq_attributes :: attribute_map
  cq_tags :: "(string \<times> string) list"

definition validate_create_queue :: "ext \<Rightarrow> create_queue_request \<Rightarrow> sqs_error + unit" where
  "validate_create_queue E payload =
     ebind (from_attribute_map E (cq_attributes payload)) (\<lambda>v.
     ebind (validate_queue_name (cq_queue_name payload) (v_fifo_queue v)) (\<lambda>_.
     validate_tags (cq_tags payload) True))"

definition requested_queue ::
    "resolved_request \<Rightarrow> time \<Rightarrow> string \<Rightarrow> queue_attribute_values \<Rightarrow> sqs_queue" where
  "requested_queue request now name v =
     \<lparr>q_id = 0, q_name = name, q_region = rr_region request, q_account_id = req_account request,
      q_queue_type = (if v_fifo_queue v then ''fifo'' else ''standard''),
      q_visibility_timeout_seconds = v_visibility_timeout_seconds v, q_delay_seconds = v_delay_seconds v,
      q_maximum_message_size = v_maximum_message_size v,
      q_message_retention_period_seconds = v_message_retention_period_seconds v,
      q_receive_message_wait_time_seconds = v_receive_message_wait_time_seconds v,
      q_policy = v_policy v, q_redrive_policy = v_redrive_policy v,
      q_content_based_deduplication = v_content_based_deduplication v,
      q_kms_master_key_id = v_kms_master_key_id v,
      q_kms_data_key_reuse_period_seconds = v_kms_data_key_reuse_period_seconds v,
      q_deduplication_scope = v_deduplication_scope v, q_fifo_throughput_limit = v_fifo_throughput_limit v,
      q_redrive_allow_policy = v_redrive_allow_policy v,
      q_sqs_managed_sse_enabled = v_sqs_managed_sse_enabled v,
      q_created_at = now, q_updated_at = now\<rparr>"

definition create_queue_response :: "resolved_request \<Rightarrow> string \<Rightarrow> string \<Rightarrow> string" where
  "create_queue_response request account_id name = queue_url (req_host request) account_id name"

text \<open>
  \<open>now\<close> is the handler's clock reading, \<open>db_now\<close> the one of the insertion; \<open>create_or_match\<close> is the
  \<^verbatim>\<open>match\<close> on the result of \<^verbatim>\<open>store.create_queue\<close>.
\<close>

definition create_or_match ::
    "'s sqs_store \<Rightarrow> time \<Rightarrow> resolved_request \<Rightarrow> create_queue_request \<Rightarrow> sqs_queue \<Rightarrow>
     ('s, sqs_error, string) store_op" where
  "create_or_match store db_now request body queue s =
     (let get = map_err internal_error \<circ>
                  st_get_queue store (cq_queue_name body) (rr_region request) (req_account request);
          response = create_queue_response request (req_account request) (cq_queue_name body)
      in case st_create_queue store db_now queue s of
           (Inr _, s) \<Rightarrow>
             (if cq_tags body \<noteq> []
              then sbind (sread get) (\<lambda>found.
                   sbind (slift (ok_or (InternalError ''created queue could not be loaded for tagging'') found)) (\<lambda>created.
                   sbind (smap_err map_store_error (st_tag_queue store (q_id created) (cq_tags body))) (\<lambda>_.
                   slift (Inr response)))) s
              else (Inr response, s))
         | (Inl (StoreConflict _), s) \<Rightarrow>
             sbind (sread get) (\<lambda>existing. slift (case existing of
                 Some q \<Rightarrow>
                   if queue_configuration_matches q queue then Inr response
                   else Inl (QueueAlreadyExists (''A queue named '' @ quoted (cq_queue_name body) @
                          '' already exists with different attributes.''))
               | None \<Rightarrow> Inl (InternalError ''queue creation conflicted but existing queue could not be loaded''))) s
         | (Inl e, s) \<Rightarrow> (Inl (internal_error e), s))"

definition handle_create_queue ::
    "ext \<Rightarrow> 's sqs_store \<Rightarrow> time \<Rightarrow> time \<Rightarrow> resolved_request \<Rightarrow> create_queue_request \<Rightarrow>
     ('s, sqs_error, string) store_op" where
  "handle_create_queue E store now db_now request body =
     sbind (slift (from_attribute_map E (cq_attributes body))) (\<lambda>v.
     sbind (slift (validate_queue_name (cq_queue_name body) (v_fifo_queue v))) (\<lambda>_.
     sbind (slift (validate_tags (cq_tags body) True)) (\<lambda>_.
     create_or_match store db_now request body (requested_queue request now (cq_queue_name body) v))))"

subsection \<open>Other queue actions\<close>

definition handle_delete_queue ::
    "ext \<Rightarrow> 's sqs_store \<Rightarrow> resolved_request \<Rightarrow> string \<Rightarrow> ('s, sqs_error, unit) store_op" where
  "handle_delete_queue E store request url =
     sbind (sread (load_queue_from_url E store request url)) (\<lambda>queue.
     smap_err map_store_error (st_delete_queue store (q_id queue)))"

definition validate_get_queue_url :: "string \<Rightarrow> sqs_error + unit" where
  "validate_get_queue_url name = validate_queue_name name (ends_with ''.fifo'' name)"

definition handle_get_queue_url ::
    "'s sqs_store \<Rightarrow> resolved_request \<Rightarrow> string \<Rightarrow> string option \<Rightarrow> ('s, sqs_error, string) store_op" where
  "handle_get_queue_url store request name owner =
     sbind (slift (validate_queue_name name (ends_with ''.fifo'' name))) (\<lambda>_.
     let account_id = (case owner of None \<Rightarrow> req_account request | Some a \<Rightarrow> a) in
     sbind (sread (map_err internal_error \<circ> st_get_queue store name (rr_region request) account_id)) (\<lambda>queue.
     slift (case queue of
              Some _ \<Rightarrow> Inr (queue_url (req_host request) account_id name)
            | None \<Rightarrow> Inl QueueNotFound)))"

record list_queues_request =
  lq_max_results :: "int option"
  lq_next_token :: "string option"
  lq_queue_name_prefix :: "string option"

definition validate_list_queues_request :: "list_queues_request \<Rightarrow> sqs_error + unit" where
  "validate_list_queues_request body =
     (case lq_max_results body of
        None \<Rightarrow> Inr ()
      | Some n \<Rightarrow> guard (\<not> (1 \<le> n \<and> n \<le> 1000)) (BadRequest ''MaxResults must be between 1 and 1000''))"

definition saturating_add_1 :: "int \<Rightarrow> int" where
  "saturating_add_1 n = min (n + 1) (2 ^ 63 - 1)"

definition page_of :: "int option \<Rightarrow> sqs_queue list \<Rightarrow> sqs_queue list \<times> string option" where
  "page_of max_results found =
     (case max_results of
        None \<Rightarrow> (found, None)
      | Some n \<Rightarrow>
          if int (length found) > n
          then let kept = take (nat n) found
               in (kept, if kept = [] then None else Some (q_name (last kept)))
          else (found, None))"

definition handle_list_queues ::
    "'s sqs_store \<Rightarrow> resolved_request \<Rightarrow> list_queues_request \<Rightarrow>
     ('s, sqs_error, string list \<times> string option) store_op" where
  "handle_list_queues store request body =
     sbind (slift (validate_list_queues_request body)) (\<lambda>_.
     sbind (sread (map_err internal_error \<circ> st_list_queues store (rr_region request) (req_account request)
              (lq_queue_name_prefix body) (map_option saturating_add_1 (lq_max_results body)) (lq_next_token body)))
       (\<lambda>found.
     let (page, next_token) = page_of (lq_max_results body) found
     in slift (Inr (map (\<lambda>q. queue_url (req_host request) (req_account request) (q_name q)) page, next_token))))"

definition handle_purge_queue ::
    "ext \<Rightarrow> 's sqs_store \<Rightarrow> resolved_request \<Rightarrow> string \<Rightarrow> ('s, sqs_error, unit) store_op" where
  "handle_purge_queue E store request url =
     sbind (sread (load_queue_from_url E store request url)) (\<lambda>queue.
     smap_err map_store_error (st_purge_queue store (q_id queue)))"

definition validate_set_queue_attributes :: "ext \<Rightarrow> attribute_map \<Rightarrow> sqs_error + unit" where
  "validate_set_queue_attributes E attributes =
     ebind (parse_queue_attribute_update E attributes) (\<lambda>_. Inr ())"

definition handle_set_queue_attributes ::
    "ext \<Rightarrow> 's sqs_store \<Rightarrow> time \<Rightarrow> resolved_request \<Rightarrow> string \<Rightarrow> attribute_map \<Rightarrow>
     ('s, sqs_error, unit) store_op" where
  "handle_set_queue_attributes E store db_now request url attributes =
     sbind (sread (load_queue_from_url E store request url)) (\<lambda>queue.
     sbind (slift (parse_queue_attribute_update E attributes)) (\<lambda>update.
     smap_err map_store_error (st_set_queue_attributes store db_now (q_id queue) update)))"

definition handle_get_queue_attributes ::
    "ext \<Rightarrow> 's sqs_store \<Rightarrow> count_clock \<Rightarrow> resolved_request \<Rightarrow> string \<Rightarrow> string list \<Rightarrow>
     ('s, sqs_error, attribute_map) store_op" where
  "handle_get_queue_attributes E store cc request url names =
     sbind (sread (load_queue_from_url E store request url)) (\<lambda>queue.
     sread (collect_queue_attributes store cc queue names))"

subsection \<open>Tags\<close>

definition handle_list_queue_tags ::
    "ext \<Rightarrow> 's sqs_store \<Rightarrow> resolved_request \<Rightarrow> string \<Rightarrow> ('s, sqs_error, (string \<times> string) list) store_op" where
  "handle_list_queue_tags E store request url =
     sbind (sread (load_queue_from_url E store request url)) (\<lambda>queue.
     sread (map_err map_store_error \<circ> st_list_queue_tags store (q_id queue)))"

text \<open>\<^verbatim>\<open>HashMap::extend\<close>.\<close>

definition hashmap_extend :: "(string \<times> 'v) list \<Rightarrow> (string \<times> 'v) list \<Rightarrow> (string \<times> 'v) list" where
  "hashmap_extend m kvs = foldl (\<lambda>m (k, v). hashmap_insert k v m) m kvs"

definition handle_tag_queue ::
    "ext \<Rightarrow> 's sqs_store \<Rightarrow> resolved_request \<Rightarrow> string \<Rightarrow> (string \<times> string) list \<Rightarrow>
     ('s, sqs_error, unit) store_op" where
  "handle_tag_queue E store request url tags =
     sbind (slift (validate_tags tags False)) (\<lambda>_.
     sbind (sread (load_queue_from_url E store request url)) (\<lambda>queue.
     sbind (sread (map_err map_store_error \<circ> st_list_queue_tags store (q_id queue))) (\<lambda>existing.
     sbind (slift (validate_tags (hashmap_extend existing tags) True)) (\<lambda>_.
     smap_err map_store_error (st_tag_queue store (q_id queue) tags)))))"

definition handle_untag_queue ::
    "ext \<Rightarrow> 's sqs_store \<Rightarrow> resolved_request \<Rightarrow> string \<Rightarrow> string list \<Rightarrow> ('s, sqs_error, unit) store_op" where
  "handle_untag_queue E store request url keys =
     sbind (slift (validate_tag_keys keys False)) (\<lambda>_.
     sbind (sread (load_queue_from_url E store request url)) (\<lambda>queue.
     smap_err map_store_error (st_untag_queue store (q_id queue) keys)))"

section \<open>What the actions rely on\<close>

text \<open>
  The contract between the actions and a store, with an invariant of its states: looking a queue up
  never fails and returns the queue of that name, region and account; creating a queue that is not
  there makes it found with its configuration, creating one that is there is a conflict that changes
  nothing; tagging an existing queue succeeds and changes no queue; every method keeps the invariant.
\<close>

locale sqs_store_contract =
  fixes store :: "'s sqs_store"
    and inv :: "'s \<Rightarrow> bool"
  assumes get_total: "\<exists>q. st_get_queue store n r a s = Inr q"
    and get_key: "st_get_queue store n r a s = Inr (Some q) \<Longrightarrow> q_name q = n \<and> q_region q = r \<and> q_account_id q = a"
    and create_new: "inv s \<Longrightarrow> st_get_queue store (q_name q) (q_region q) (q_account_id q) s = Inr None \<Longrightarrow>
      \<exists>s' q'. st_create_queue store now q s = (Inr (), s') \<and>
        st_get_queue store (q_name q) (q_region q) (q_account_id q) s' = Inr (Some q') \<and> queue_configuration_matches q' q"
    and create_existing: "st_get_queue store (q_name q) (q_region q) (q_account_id q) s = Inr (Some q') \<Longrightarrow>
      \<exists>m. st_create_queue store now q s = (Inl (StoreConflict m), s)"
    and tag_existing: "inv s \<Longrightarrow> st_get_queue store n r a s = Inr (Some q) \<Longrightarrow>
      fst (st_tag_queue store (q_id q) tags s) = Inr ()"
    and tag_keeps_queues: "st_get_queue store n r a (snd (st_tag_queue store i tags s)) = st_get_queue store n r a s"
    and keeps_all: "keeps inv (st_create_queue store now q)" "keeps inv (st_delete_queue store i)"
      "keeps inv (st_purge_queue store i)" "keeps inv (st_set_queue_attributes store now i u)"
      "keeps inv (st_tag_queue store i tags)" "keeps inv (st_untag_queue store i keys)"
      "keeps inv (st_send_message store m)" "keeps inv (st_receive_messages store env i n' vt)"
      "keeps inv (st_delete_message store i h)" "keeps inv (st_set_message_visible_at store i h t)"
begin

lemma create_cases:
  assumes "inv s"
  obtains (created) s' q' where "st_create_queue store now q s = (Inr (), s')" "inv s'"
      "st_get_queue store (q_name q) (q_region q) (q_account_id q) s' = Inr (Some q')"
      "queue_configuration_matches q' q"
    | (existing) q' m where "st_create_queue store now q s = (Inl (StoreConflict m), s)"
      "st_get_queue store (q_name q) (q_region q) (q_account_id q) s = Inr (Some q')"
proof -
  obtain found where f: "st_get_queue store (q_name q) (q_region q) (q_account_id q) s = Inr found"
    using get_total by blast
  show ?thesis
  proof (cases found)
    case None
    with f create_new [OF assms] obtain s' q' where *: "st_create_queue store now q s = (Inr (), s')"
      "st_get_queue store (q_name q) (q_region q) (q_account_id q) s' = Inr (Some q')" "queue_configuration_matches q' q"
      by blast
    moreover have "inv s'" using keepsD [OF keeps_all(1) assms, of now q] * by simp
    ultimately show ?thesis using created by blast
  next
    case (Some q')
    with f create_existing existing show ?thesis by blast
  qed
qed

lemma requested_queue_key [simp]:
  "q_name (requested_queue request now name v) = name"
  "q_region (requested_queue request now name v) = rr_region request"
  "q_account_id (requested_queue request now name v) = req_account request"
  by (simp_all add: requested_queue_def)

lemma matches_requested_now:
  "queue_configuration_matches q (requested_queue request now name v) \<longleftrightarrow>
   queue_configuration_matches q (requested_queue request now' name v)"
  by (simp add: queue_configuration_matches_def requested_queue_def)

text \<open>What holds after a successful creation, whether the queue was new or not.\<close>

definition create_queue_post ::
    "ext \<Rightarrow> resolved_request \<Rightarrow> create_queue_request \<Rightarrow> string \<Rightarrow> 's \<Rightarrow> bool" where
  "create_queue_post E request body url s \<longleftrightarrow>
     validate_create_queue E body = Inr () \<and>
     url = create_queue_response request (req_account request) (cq_queue_name body) \<and>
     (\<exists>v q. from_attribute_map E (cq_attributes body) = Inr v \<and>
        st_get_queue store (cq_queue_name body) (rr_region request) (req_account request) s = Inr (Some q) \<and>
        queue_configuration_matches q (requested_queue request 0 (cq_queue_name body) v))"

lemma create_queue_establishes:
  assumes "inv s" "handle_create_queue E store now db_now request body s = (Inr url, s')"
  shows "create_queue_post E request body url s'"
proof -
  let ?n = "cq_queue_name body"
  from assms(2) obtain v where v: "from_attribute_map E (cq_attributes body) = Inr v"
      "validate_create_queue E body = Inr ()"
    and run: "handle_create_queue E store now db_now request body s = (Inr url, s')"
    by (auto simp: handle_create_queue_def create_or_match_def validate_create_queue_def split: sum.splits)
  let ?q = "requested_queue request now ?n v"
  show ?thesis
    using assms(1)
  proof (cases rule: create_cases [where q = ?q and now = db_now])
    case (created s1 q')
    have "url = create_queue_response request (req_account request) ?n \<and>
          st_get_queue store ?n (rr_region request) (req_account request) s' = Inr (Some q')"
    proof (cases "cq_tags body = []")
      case True
      then show ?thesis using run v created
        by (auto simp: handle_create_queue_def create_or_match_def validate_create_queue_def Let_def)
    next
      case False
      obtain s2 where "st_tag_queue store (q_id q') (cq_tags body) s1 = (Inr (), s2)"
        using tag_existing [of s1 ?n "rr_region request" "req_account request" q' "cq_tags body"] created
        by (cases "st_tag_queue store (q_id q') (cq_tags body) s1") auto
      with False run v created tag_keeps_queues [of ?n "rr_region request" "req_account request" "q_id q'" "cq_tags body" s1]
      show ?thesis
        by (auto simp: handle_create_queue_def create_or_match_def validate_create_queue_def Let_def sbind_def smap_err_def)
    qed
    with v created(4) matches_requested_now [of q' request now ?n v 0] show ?thesis
      by (auto simp: create_queue_post_def)
  next
    case (existing q' m)
    with run v matches_requested_now [of q' request now ?n v 0] show ?thesis
      by (auto simp: handle_create_queue_def create_or_match_def validate_create_queue_def Let_def create_queue_post_def split: if_splits)
  qed
qed

lemma create_queue_idempotent:
  assumes "create_queue_post E request body url s"
  shows "handle_create_queue E store now db_now request body s = (Inr url, s)"
proof -
  let ?n = "cq_queue_name body"
  obtain v q where v: "from_attribute_map E (cq_attributes body) = Inr v"
      "st_get_queue store ?n (rr_region request) (req_account request) s = Inr (Some q)"
      "queue_configuration_matches q (requested_queue request now ?n v)"
    using assms matches_requested_now [of _ request 0 ?n _ now] unfolding create_queue_post_def by blast
  then obtain m where "st_create_queue store db_now (requested_queue request now ?n v) s = (Inl (StoreConflict m), s)"
    using create_existing [of "requested_queue request now ?n v" s q db_now] by auto
  with v assms show ?thesis
    by (auto simp: create_queue_post_def handle_create_queue_def create_or_match_def validate_create_queue_def Let_def)
qed

lemma create_queue_succeeds:
  assumes "inv s" "validate_create_queue E body = Inr ()"
    and "st_get_queue store (cq_queue_name body) (rr_region request) (req_account request) s = Inr None"
  shows "\<exists>s'. handle_create_queue E store now db_now request body s =
           (Inr (create_queue_response request (req_account request) (cq_queue_name body)), s')"
proof -
  let ?n = "cq_queue_name body"
  obtain v where v: "from_attribute_map E (cq_attributes body) = Inr v" "validate_queue_name ?n (v_fifo_queue v) = Inr ()"
      "validate_tags (cq_tags body) True = Inr ()"
    using assms(2) by (auto simp: validate_create_queue_def)
  let ?q = "requested_queue request now ?n v"
  show ?thesis
    using assms(1)
  proof (cases rule: create_cases [where q = ?q and now = db_now])
    case (created s1 q')
    then obtain s2 where "st_tag_queue store (q_id q') (cq_tags body) s1 = (Inr (), s2)"
      using tag_existing [of s1 ?n "rr_region request" "req_account request" q' "cq_tags body"]
      by (cases "st_tag_queue store (q_id q') (cq_tags body) s1") auto
    with v created show ?thesis
      by (auto simp: handle_create_queue_def create_or_match_def Let_def sbind_def smap_err_def)
  qed (use assms(3) in auto)
qed

lemma create_queue_conflict:
  assumes "validate_create_queue E body = Inr ()" "from_attribute_map E (cq_attributes body) = Inr v"
    and "st_get_queue store (cq_queue_name body) (rr_region request) (req_account request) s = Inr (Some q)"
    and "\<not> queue_configuration_matches q (requested_queue request 0 (cq_queue_name body) v)"
  shows "\<exists>msg. handle_create_queue E store now db_now request body s = (Inl (QueueAlreadyExists msg), s)"
proof -
  let ?q = "requested_queue request now (cq_queue_name body) v"
  obtain m where "st_create_queue store db_now ?q s = (Inl (StoreConflict m), s)"
    using create_existing [of ?q s q db_now] assms(3) by auto
  with assms matches_requested_now [of q request now "cq_queue_name body" v 0] show ?thesis
    by (auto simp: handle_create_queue_def create_or_match_def validate_create_queue_def Let_def)
qed

lemma keeps_create_or_match: "keeps inv (create_or_match store db_now request body q)"
proof (rule keepsI)
  fix s assume inv: "inv s"
  have "inv s'" if "st_create_queue store db_now q s = (r, s')" for r s'
    using keepsD [OF keeps_all(1) inv, of db_now q] that by simp
  moreover have "inv s2" if "st_tag_queue store i (cq_tags body) s1 = (r, s2)" "inv s1" for i s1 r s2
    using keepsD [OF keeps_all(5) that(2), of i "cq_tags body"] that(1) by simp
  ultimately show "inv (snd (create_or_match store db_now request body q s))"
    using inv by (auto simp: create_or_match_def Let_def sbind_def smap_err_def
        split: prod.splits sum.splits store_error.splits)
qed

lemma keeps_handle_create_queue: "keeps inv (handle_create_queue E store now db_now request body)"
  unfolding handle_create_queue_def by (intro keeps_sbind keeps_slift keeps_create_or_match)

lemma keeps_queue_actions:
  "keeps inv (handle_delete_queue E store request url)"
  "keeps inv (handle_get_queue_url store request name owner)"
  "keeps inv (handle_list_queues store request lq)"
  "keeps inv (handle_purge_queue E store request url)"
  "keeps inv (handle_set_queue_attributes E store now request url attributes)"
  "keeps inv (handle_get_queue_attributes E store cc request url names)"
  "keeps inv (handle_list_queue_tags E store request url)"
  "keeps inv (handle_tag_queue E store request url tags)"
  "keeps inv (handle_untag_queue E store request url keys)"
  unfolding handle_delete_queue_def handle_get_queue_url_def handle_list_queues_def handle_purge_queue_def
    handle_set_queue_attributes_def handle_get_queue_attributes_def handle_list_queue_tags_def
    handle_tag_queue_def handle_untag_queue_def Let_def split_beta
  by (intro keeps_sbind keeps_sread keeps_slift keeps_smap_err keeps_all)+

end

section \<open>The SQLite store provides the contract\<close>

lemma sqlite_get_Some:
  "sqlite_get_queue n r a db = Inr (Some q) \<Longrightarrow>
   q \<in> set (queues db) \<and> q_name q = n \<and> q_region q = r \<and> q_account_id q = a"
  by (auto simp: sqlite_get_queue_def find_Some_iff)

lemma sqlite_get_None:
  "sqlite_get_queue n r a db = Inr None \<longleftrightarrow> (n, r, a) \<notin> queue_key ` set (queues db)"
  by (auto simp: sqlite_get_queue_def find_None_iff queue_key_def)

lemma sqlite_create_new:
  assumes "sqlite_get_queue (q_name q) (q_region q) (q_account_id q) db = Inr None"
  shows "\<exists>db' q'. sqlite_create_queue UE now q db = (Inr (), db') \<and>
           sqlite_get_queue (q_name q) (q_region q) (q_account_id q) db' = Inr (Some q') \<and>
           queue_configuration_matches q' q"
proof -
  have none: "\<not> list_ex (\<lambda>x. queue_key x = queue_key q) (queues db)"
    using assms by (auto simp: sqlite_get_None list_ex_iff queue_key_def image_iff)
  have "find (\<lambda>x. q_name x = q_name q \<and> q_region x = q_region q \<and> q_account_id x = q_account_id q) (queues db) = None"
    using assms by (simp add: sqlite_get_queue_def)
  then show ?thesis using none
    by (simp add: sqlite_create_queue_def sqlite_get_queue_def find_append queue_configuration_matches_def)
qed

lemma for_each_upsert_ok: "queue_exists db qid \<Longrightarrow> fst (for_each (upsert_tag UE qid) tags db) = Inr ()"
proof (induction tags arbitrary: db)
  case (Cons kv tags)
  then have "\<exists>db'. upsert_tag UE qid kv db = (Inr (), db') \<and> queue_exists db' qid"
    by (simp add: upsert_tag_def queue_exists_def)
  with Cons.IH show ?case by (auto simp: sbind_def)
qed simp

lemma for_each_upsert_queues: "queues (snd (for_each (upsert_tag UE qid) tags db)) = queues db"
proof (induction tags arbitrary: db)
  case (Cons kv tags)
  have "queues (snd (upsert_tag UE qid kv db)) = queues db" by (simp add: upsert_tag_def)
  with Cons.IH show ?case by (auto simp: sbind_def split: prod.splits sum.splits)
qed simp

lemma tag_queue_eq:
  "sqlite_tag_queue UE qid tags db =
     (if queue_exists db qid then for_each (upsert_tag UE qid) tags db
      else (Inl (StoreNotFound ''queue not found''), db))"
  by (auto simp: sqlite_tag_queue_def sqlite_ensure_queue_exists_def queue_exists_def list_ex_iff filter_empty_conv)

interpretation sqlite: sqs_store_contract "sqlite_sqs_store UE" sqs_inv for UE
proof
  fix n r a and s :: sqs_db
  show "\<exists>q. st_get_queue (sqlite_sqs_store UE) n r a s = Inr q"
    by (simp add: sqlite_sqs_store_def sqlite_get_queue_def)
next
  fix n r a s q assume "st_get_queue (sqlite_sqs_store UE) n r a s = Inr (Some q)"
  then show "q_name q = n \<and> q_region q = r \<and> q_account_id q = a"
    by (simp add: sqlite_sqs_store_def sqlite_get_Some)
next
  fix s :: sqs_db and q :: sqs_queue and now
  assume "st_get_queue (sqlite_sqs_store UE) (q_name q) (q_region q) (q_account_id q) s = Inr None"
  then show "\<exists>s' q'. st_create_queue (sqlite_sqs_store UE) now q s = (Inr (), s') \<and>
      st_get_queue (sqlite_sqs_store UE) (q_name q) (q_region q) (q_account_id q) s' = Inr (Some q') \<and>
      queue_configuration_matches q' q"
    using sqlite_create_new [of q s UE now] by (simp add: sqlite_sqs_store_def)
next
  fix s :: sqs_db and q q' :: sqs_queue and now
  assume "st_get_queue (sqlite_sqs_store UE) (q_name q) (q_region q) (q_account_id q) s = Inr (Some q')"
  then have "list_ex (\<lambda>x. queue_key x = queue_key q) (queues s)"
    using sqlite_get_Some [of "q_name q" "q_region q" "q_account_id q" s q']
    by (auto simp: sqlite_sqs_store_def list_ex_iff queue_key_def)
  then show "\<exists>m. st_create_queue (sqlite_sqs_store UE) now q s = (Inl (StoreConflict m), s)"
    by (simp add: sqlite_sqs_store_def sqlite_create_queue_def)
next
  fix s n r a q tags
  assume "st_get_queue (sqlite_sqs_store UE) n r a s = Inr (Some q)"
  then have "queue_exists s (q_id q)"
    using sqlite_get_Some [of n r a s q] by (simp add: sqlite_sqs_store_def queue_exists_iff)
  then show "fst (st_tag_queue (sqlite_sqs_store UE) (q_id q) tags s) = Inr ()"
    by (simp add: sqlite_sqs_store_def tag_queue_eq for_each_upsert_ok)
next
  fix n r a i tags s
  show "st_get_queue (sqlite_sqs_store UE) n r a (snd (st_tag_queue (sqlite_sqs_store UE) i tags s)) =
      st_get_queue (sqlite_sqs_store UE) n r a s"
    by (simp add: sqlite_sqs_store_def tag_queue_eq sqlite_get_queue_def for_each_upsert_queues)
qed (simp_all add: sqlite_sqs_store_def sqlite_keeps_inv)

section \<open>Properties\<close>

text \<open>
  \<^verbatim>\<open>CreateQueue\<close> is idempotent on the SQLite store: when it has succeeded, the same request at any
  later time succeeds with the same URL and changes nothing.
\<close>

theorem create_queue_twice:
  assumes "sqs_inv db" "handle_create_queue E (sqlite_sqs_store UE) now db_now request body db = (Inr url, db')"
  shows "handle_create_queue E (sqlite_sqs_store UE) now' db_now' request body db' = (Inr url, db')"
  using sqlite.create_queue_establishes [OF assms] by (rule sqlite.create_queue_idempotent)

definition demo_create :: create_queue_request where
  "demo_create = \<lparr>cq_queue_name = ''jobs'', cq_attributes = [], cq_tags = [(''team'', ''a'')]\<rparr>"

lemma validate_demo_create: "validate_create_queue demo_ext demo_create = Inr ()"
  by (simp add: validate_create_queue_def demo_create_def from_attribute_map_def Let_def
      validate_supported_attributes_def get_i64_attribute_def parse_i64_attribute_def
      get_json_string_attribute_def parse_json_string_attribute_def get_bool_attribute_def parse_bool_attribute_def
      get_allowed_string_attribute_def parse_allowed_string_attribute_def validate_queue_name_def
      strip_suffix_def ends_with_def starts_with_def rust_chars_def is_name_char_def is_ascii_alphanumeric_def
      byte_def utf8_width_def default_queue_attribute_values_def validate_tags_def validate_tag_key_def
      max_tags_per_queue_def max_tag_key_length_def max_tag_value_length_def)

lemma demo_create_ok:
  "\<exists>db'. handle_create_queue demo_ext (sqlite_sqs_store demo_texts) 0 0 (demo_request ''sqs'') demo_create empty_db =
     (Inr ''http://localhost:4566/000000000000/jobs'', db')"
proof -
  have "st_get_queue (sqlite_sqs_store demo_texts) (cq_queue_name demo_create) (rr_region (demo_request ''sqs''))
      (req_account (demo_request ''sqs'')) empty_db = Inr None"
    by (simp add: sqlite_sqs_store_def sqlite_get_queue_def empty_db_def)
  from sqlite.create_queue_succeeds [OF sqs_inv_empty validate_demo_create this, of 0 0]
  show ?thesis by (simp add: create_queue_response_def queue_url_def demo_request_def demo_create_def)
qed

theorem create_queue_twice_witness:
  "\<exists>db'. handle_create_queue demo_ext (sqlite_sqs_store demo_texts) 0 0 (demo_request ''sqs'') demo_create empty_db =
       (Inr ''http://localhost:4566/000000000000/jobs'', db') \<and>
     handle_create_queue demo_ext (sqlite_sqs_store demo_texts) 7 8 (demo_request ''sqs'') demo_create db' =
       (Inr ''http://localhost:4566/000000000000/jobs'', db')"
  using demo_create_ok create_queue_twice [OF sqs_inv_empty] by blast

lemma demo_load_queue:
  "queues db = queues demo_db \<Longrightarrow>
   load_queue_from_url demo_ext (sqlite_sqs_store demo_texts) (demo_request ''sqs'')
     ''http://localhost:4566/000000000000/jobs'' db = Inr (demo_queue\<lparr>q_id := 1, q_created_at := 0\<rparr>)"
  by (simp add: load_queue_from_url_def parse_queue_url_def demo_ext_def demo_request_def sqlite_sqs_store_def
      sqlite_get_queue_def demo_db_eq demo_queue_def strip_prefix_def starts_with_def)

text \<open>
  \<^verbatim>\<open>CreateQueue\<close> with a valid request decides by what is stored under the name: without such a queue
  it succeeds; with one of a different configuration it fails with \<^verbatim>\<open>QueueAlreadyExists\<close> and
  changes nothing.
\<close>

theorem create_queue_decides:
  assumes "sqs_inv db" "validate_create_queue E body = Inr ()" "from_attribute_map E (cq_attributes body) = Inr v"
    and "sqlite_get_queue (cq_queue_name body) (rr_region request) (req_account request) db = Inr found"
  shows "case found of
      None \<Rightarrow> \<exists>db'. handle_create_queue E (sqlite_sqs_store UE) now db_now request body db =
        (Inr (queue_url (req_host request) (req_account request) (cq_queue_name body)), db')
    | Some q \<Rightarrow> \<not> queue_configuration_matches q (requested_queue request 0 (cq_queue_name body) v) \<longrightarrow>
        (\<exists>msg. handle_create_queue E (sqlite_sqs_store UE) now db_now request body db = (Inl (QueueAlreadyExists msg), db))"
proof -
  have get: "st_get_queue (sqlite_sqs_store UE) (cq_queue_name body) (rr_region request) (req_account request) db = Inr found"
    using assms(4) by (simp add: sqlite_sqs_store_def)
  show ?thesis
  proof (cases found)
    case None
    with get sqlite.create_queue_succeeds [OF assms(1,2), of UE request now db_now] show ?thesis
      by (simp add: create_queue_response_def)
  next
    case (Some q)
    with get sqlite.create_queue_conflict [OF assms(2,3), of UE request db q now db_now] show ?thesis by simp
  qed
qed

theorem create_queue_decides_witness:
  "\<exists>db'. handle_create_queue demo_ext (sqlite_sqs_store demo_texts) 0 0 (demo_request ''sqs'') demo_create empty_db =
     (Inr (queue_url ''localhost:4566'' ''000000000000'' ''jobs''), db')"
proof -
  obtain v where "from_attribute_map demo_ext (cq_attributes demo_create) = Inr v"
    using validate_demo_create by (auto simp: validate_create_queue_def)
  moreover have "sqlite_get_queue (cq_queue_name demo_create) (rr_region (demo_request ''sqs''))
      (req_account (demo_request ''sqs'')) empty_db = Inr None"
    by (simp add: sqlite_get_queue_def empty_db_def)
  ultimately have "case None of
      None \<Rightarrow> \<exists>db'. handle_create_queue demo_ext (sqlite_sqs_store demo_texts) 0 0 (demo_request ''sqs'') demo_create empty_db =
        (Inr (queue_url (req_host (demo_request ''sqs'')) (req_account (demo_request ''sqs'')) (cq_queue_name demo_create)), db')
    | Some q \<Rightarrow> \<not> queue_configuration_matches q (requested_queue (demo_request ''sqs'') 0 (cq_queue_name demo_create) v) \<longrightarrow>
        (\<exists>msg. handle_create_queue demo_ext (sqlite_sqs_store demo_texts) 0 0 (demo_request ''sqs'') demo_create empty_db =
           (Inl (QueueAlreadyExists msg), empty_db))"
    by (rule create_queue_decides [OF sqs_inv_empty validate_demo_create])
  then show ?thesis by (simp add: demo_request_def demo_create_def)
qed

end
