(* ===== verification/Tag_Rows.thy ===== *)
theory Tag_Rows
  imports Rust_Std
begin

text \<open>
  Tables of tags, rows of an owner's id, a key and a value, as SQS and SNS have them: the tags of one
  owner as a map, and what the upsert and the deletion of a tag do to it. With them, generic facts
  about the first row with a given key.
\<close>

section \<open>Tags of an owner\<close>

definition tags_of :: "int \<Rightarrow> (int \<times> string \<times> string) list \<Rightarrow> (string \<times> string) list" where
  "tags_of qid rows = map snd (filter (\<lambda>(i, _). i = qid) rows)"

lemma map_of_sorted_tags:
  "distinct (map fst kvs) \<Longrightarrow> map_of (sort_key fst kvs) = map_of (kvs :: (string \<times> string) list)"
  by (subst map_of_inject_set) (auto simp: distinct_map)

lemma tags_of_replace:
  "tags_of j (map (\<lambda>(i, k, v). if i = qid \<and> k = key then (i, k, val) else (i, k, v)) rows) =
     (if j = qid then map (\<lambda>(k, v). if k = key then (k, val) else (k, v)) (tags_of j rows) else tags_of j rows)"
  by (induction rows) (auto simp: tags_of_def split: if_splits)

lemma map_of_replace:
  "key \<in> fst ` set kvs \<Longrightarrow> map_of (map (\<lambda>(k, v). if k = key then (k, val) else (k, v)) kvs) = (map_of kvs)(key \<mapsto> val)"
proof (induction kvs)
  case (Cons kv kvs)
  show ?case
  proof (cases "key \<in> fst ` set kvs")
    case True
    with Cons.IH show ?thesis by (cases kv) (auto simp: fun_eq_iff)
  next
    case False
    then have "map (\<lambda>(k, v). if k = key then (k, val) else (k, v)) kvs = kvs" by (intro map_idI) (force simp: image_iff)
    with Cons.prems False show ?thesis by (cases kv) (auto simp: fun_eq_iff)
  qed
qed simp

lemma ex_tag_iff: "list_ex (\<lambda>(i, k, _). i = qid \<and> k = key) rows \<longleftrightarrow> key \<in> fst ` set (tags_of qid rows)"
  by (induction rows) (auto simp: tags_of_def)

lemma length_map_of_eq:
  "distinct (map fst xs) \<Longrightarrow> distinct (map fst ys) \<Longrightarrow> map_of xs = map_of ys \<Longrightarrow> length xs = length ys"
  by (metis distinct_card dom_map_of_conv_image_fst length_map set_map)

lemma tags_of_delete:
  "tags_of j (filter (\<lambda>(i, k, _). \<not> (i = qid \<and> k = key)) rows) =
     (if j = qid then filter (\<lambda>(k, _). k \<noteq> key) (tags_of j rows) else tags_of j rows)"
  by (induction rows) (auto simp: tags_of_def)

lemma map_of_filter_key: "map_of (filter (\<lambda>(k, _). k \<noteq> key) kvs) = map_of kvs |` (- {key})"
  by (induction kvs) (auto simp: fun_eq_iff restrict_map_def)

text \<open>\<^verbatim>\<open>INSERT ... ON CONFLICT(id, key) DO UPDATE\<close>, on the rows.\<close>

lemma upsert_rows_map:
  "map_of (tags_of j (if list_ex (\<lambda>(i, k, _). i = tid \<and> k = fst kv) rows
       then map (\<lambda>(i, k, v). if i = tid \<and> k = fst kv then (i, k, snd kv) else (i, k, v)) rows
       else rows @ [(tid, kv)])) =
     (if j = tid then (map_of (tags_of j rows))(fst kv \<mapsto> snd kv) else map_of (tags_of j rows))"
proof (cases "list_ex (\<lambda>(i, k, _). i = tid \<and> k = fst kv) rows")
  case True
  then have "fst kv \<in> fst ` set (tags_of tid rows)" by (simp only: ex_tag_iff)
  with True show ?thesis by (simp add: tags_of_replace map_of_replace)
next
  case False
  then have "fst kv \<notin> fst ` set (tags_of tid rows)" by (simp only: ex_tag_iff not_False_eq_True)
  then have "map_of (tags_of tid rows) (fst kv) = None" by (simp add: map_of_eq_None_iff)
  with False show ?thesis
    by (cases kv) (auto simp: tags_of_def fun_eq_iff map_add_def split: option.splits)
qed

section \<open>Rows by key\<close>

lemma find_cong_key: "(\<And>x. x \<in> set xs \<Longrightarrow> P x = Q x) \<Longrightarrow> find P xs = find Q xs"
  by (induction xs) auto

lemma find_key_None: "find (\<lambda>x. f x = k) xs = None \<longleftrightarrow> k \<notin> f ` set xs"
  by (auto simp: find_None_iff)

lemma find_key_Some:
  "distinct (map f xs) \<Longrightarrow> find (\<lambda>x. f x = k) xs = Some x \<longleftrightarrow> x \<in> set xs \<and> f x = k"
  by (induction xs) auto

lemma find_key_in: "find (\<lambda>x. f x = k) xs = Some x \<Longrightarrow> x \<in> set xs \<and> f x = k"
  by (induction xs) (auto split: if_splits)

lemma find_key_filter:
  assumes "distinct (map f xs)"
  shows "find (\<lambda>x. f x = k) (filter P xs) =
    (case find (\<lambda>x. f x = k) xs of None \<Rightarrow> None | Some x \<Rightarrow> if P x then Some x else None)"
  using assms by (induction xs) (auto simp: find_None_iff image_iff dest!: find_key_in split: option.splits)

lemma find_key_append:
  "find (\<lambda>x. f x = k) (xs @ [y]) =
     (case find (\<lambda>x. f x = k) xs of None \<Rightarrow> if f y = k then Some y else None | Some x \<Rightarrow> Some x)"
  by (induction xs) auto

lemma filter_key: "distinct (map f xs) \<Longrightarrow> x \<in> set xs \<Longrightarrow> filter (\<lambda>y. f y = f x) xs = [x]"
  by (induction xs) (auto simp: filter_empty_conv image_iff)

lemma find_key_map:
  assumes "\<And>x. f (h x) = f x"
  shows "find (\<lambda>x. f x = k) (map h xs) = map_option h (find (\<lambda>x. f x = k) xs)"
  using assms by (induction xs) auto

end
