(* ===== verification/Sqs_Queue_Laws.thy ===== *)
theory Sqs_Queue_Laws
  imports Sqs_Queue_Actions Tag_Rows
begin

text \<open>
  Properties of the queue actions on the SQLite store that span several requests: the URL of a
  created queue leads back to it, following the page tokens of \<^verbatim>\<open>ListQueues\<close> enumerates the queues
  exactly once, and tags behave as a map of bounded size.
\<close>

section \<open>Queue URLs\<close>

text \<open>
  The URL \<^verbatim>\<open>CreateQueue\<close> returns leads later requests to the queue with the requested
  configuration. The hypothesis on the URL parser is its documented behaviour on a plain
  \<^verbatim>\<open>http\<close> URL with two path segments; the host must not be of the form \<^verbatim>\<open>sqs.<region>\<close>, from which the
  region would be taken instead of from the request.
\<close>

theorem created_queue_url_resolves:
  assumes "sqs_inv db" "handle_create_queue E (sqlite_sqs_store UE) now db_now request body db = (Inr url, db')"
    and "x_url E url = Some (Some host, Some [req_account request, cq_queue_name body])"
    and "strip_prefix ''sqs.'' host = None"
  shows "\<exists>v q. from_attribute_map E (cq_attributes body) = Inr v \<and>
           load_queue_from_url E (sqlite_sqs_store UE) request url db' = Inr q \<and>
           queue_key q = (cq_queue_name body, rr_region request, req_account request) \<and>
           queue_configuration_matches q (requested_queue request 0 (cq_queue_name body) v)"
proof -
  from sqlite.create_queue_establishes [OF assms(1,2)] obtain v q where
    v: "from_attribute_map E (cq_attributes body) = Inr v"
      "queue_configuration_matches q (requested_queue request 0 (cq_queue_name body) v)"
    and get: "st_get_queue (sqlite_sqs_store UE) (cq_queue_name body) (rr_region request) (req_account request) db' = Inr (Some q)"
    by (auto simp: sqlite.create_queue_post_def)
  have "load_queue_from_url E (sqlite_sqs_store UE) request url db' = Inr q"
    using assms(3,4) get by (simp add: load_queue_from_url_def parse_queue_url_def)
  moreover have "queue_key q = (cq_queue_name body, rr_region request, req_account request)"
    using sqlite.get_key [OF get] by (simp add: queue_key_def)
  ultimately show ?thesis using v by blast
qed

theorem created_queue_url_resolves_witness:
  "\<exists>db' q. load_queue_from_url demo_ext (sqlite_sqs_store demo_texts) (demo_request ''sqs'')
      ''http://localhost:4566/000000000000/jobs'' db' = Inr q \<and> q_name q = ''jobs''"
proof -
  obtain db' where c: "handle_create_queue demo_ext (sqlite_sqs_store demo_texts) 0 0 (demo_request ''sqs'') demo_create empty_db =
       (Inr ''http://localhost:4566/000000000000/jobs'', db')"
    using demo_create_ok by blast
  have "x_url demo_ext ''http://localhost:4566/000000000000/jobs'' =
      Some (Some ''localhost'', Some [req_account (demo_request ''sqs''), cq_queue_name demo_create])"
    by (simp add: demo_ext_def demo_request_def demo_create_def)
  from created_queue_url_resolves [OF sqs_inv_empty c this]
  show ?thesis by (auto simp: queue_key_def demo_create_def strip_prefix_def starts_with_def)
qed

section \<open>Listing\<close>

text \<open>A client that follows the page tokens; \<open>fuel\<close> bounds the number of requests.\<close>

fun follow_pages :: "(string option \<Rightarrow> 'a list \<times> string option) \<Rightarrow> nat \<Rightarrow> string option \<Rightarrow> 'a list option" where
  "follow_pages f 0 token = None"
| "follow_pages f (Suc fuel) token =
     (case f token of
        (page, None) \<Rightarrow> Some page
      | (page, Some t) \<Rightarrow> map_option (\<lambda>rest. page @ rest) (follow_pages f fuel (Some t)))"

definition matching_queues :: "string \<Rightarrow> string \<Rightarrow> string option \<Rightarrow> sqs_db \<Rightarrow> sqs_queue list" where
  "matching_queues region account name_prefix db =
     sort_key q_name (filter (\<lambda>q. q_region q = region \<and> q_account_id q = account \<and>
       (case name_prefix of None \<Rightarrow> True | Some p \<Rightarrow> sql_substr_from_1 (q_name q) (sql_length p) = p)) (queues db))"

definition after_token :: "string option \<Rightarrow> sqs_queue list \<Rightarrow> sqs_queue list" where
  "after_token token qs = filter (\<lambda>q. case token of None \<Rightarrow> True | Some t \<Rightarrow> t < q_name q) qs"

lemma sqlite_list_queues_eq:
  "sqlite_list_queues region account name_prefix m token db =
     Inr (sql_limit (coalesce m 1000) (after_token token (matching_queues region account name_prefix db)))"
  by (simp add: sqlite_list_queues_def after_token_def matching_queues_def coalesce_def filter_sort
      conj_ac cong: option.case_cong)

lemma matching_names_sorted:
  assumes "sqs_inv db"
  shows "sorted_wrt (<) (map q_name (matching_queues region account name_prefix db))"
proof -
  let ?P = "\<lambda>q. q_region q = region \<and> q_account_id q = account \<and>
       (case name_prefix of None \<Rightarrow> True | Some p \<Rightarrow> sql_substr_from_1 (q_name q) (sql_length p) = p)"
  have "distinct (map queue_key (queues db))" using assms by (simp add: sqs_inv_def sqs_keys_def)
  then have "distinct (map queue_key (filter ?P (queues db)))" by (rule distinct_map_filter')
  then have "inj_on q_name (set (filter ?P (queues db)))" "distinct (filter ?P (queues db))"
    by (auto simp: distinct_map inj_on_def queue_key_def)
  then have "distinct (map q_name (matching_queues region account name_prefix db))"
    by (simp add: distinct_map matching_queues_def)
  then show ?thesis by (simp add: strict_sorted_iff matching_queues_def)
qed

lemma after_token_drop:
  assumes "sorted_wrt (<) (map q_name qs)" "0 < k" "k \<le> length qs"
  shows "after_token (Some (q_name (qs ! (k - 1)))) qs = drop k qs"
proof -
  let ?t = "q_name (qs ! (k - 1))"
  have "\<not> ?t < q_name q" if "q \<in> set (take k qs)" for q
  proof -
    from that assms(3) obtain i where "i < k" "q = qs ! i" by (auto simp: in_set_conv_nth)
    then have "i = k - 1 \<or> q_name q < ?t"
      using assms by (cases "i = k - 1") (auto simp: sorted_wrt_iff_nth_less)
    then show ?thesis using \<open>q = qs ! i\<close> by auto
  qed
  moreover have "?t < q_name q" if "q \<in> set (drop k qs)" for q
  proof -
    from that obtain i where "i < length qs - k" "q = qs ! (k + i)" by (auto simp: in_set_conv_nth)
    then show ?thesis using assms by (auto simp: sorted_wrt_iff_nth_less)
  qed
  ultimately have "after_token (Some ?t) (take k qs @ drop k qs) = drop k qs"
    by (simp add: after_token_def filter_False filter_True del: append_take_drop_id)
  then show ?thesis by simp
qed

definition token_at :: "sqs_queue list \<Rightarrow> nat \<Rightarrow> string option" where
  "token_at qs k = (if k = 0 then None else Some (q_name (qs ! (k - 1))))"

lemma after_token_at:
  "sorted_wrt (<) (map q_name qs) \<Longrightarrow> k \<le> length qs \<Longrightarrow> after_token (token_at qs k) qs = drop k qs"
  using after_token_drop [of qs k] by (cases "k = 0") (auto simp: token_at_def, simp add: after_token_def)

definition list_page :: "int \<Rightarrow> sqs_queue list \<Rightarrow> string option \<Rightarrow> sqs_queue list \<times> string option" where
  "list_page n qs token = page_of (Some n) (sql_limit (n + 1) (after_token token qs))"

lemma list_page_at:
  assumes "sorted_wrt (<) (map q_name qs)" "k \<le> length qs" "1 \<le> n"
  shows "list_page n qs (token_at qs k) =
    (if length qs - k > nat n then (take (nat n) (drop k qs), token_at qs (k + nat n)) else (drop k qs, None))"
proof -
  have n: "nat (n + 1) = Suc (nat n)" "0 < nat n" using assms(3) by simp_all
  have "last (take (nat n) (drop k qs)) = qs ! (k + nat n - 1)" if "nat n < length qs - k"
  proof -
    have "take (nat n) (drop k qs) \<noteq> []" using that n by simp
    then have "last (take (nat n) (drop k qs)) = qs ! (k + (nat n - 1))" using that n by (simp add: last_conv_nth)
    also have "k + (nat n - 1) = k + nat n - 1" using n(2) by arith
    finally show ?thesis .
  qed
  then show ?thesis
    using n assms(3) unfolding list_page_def after_token_at [OF assms(1,2)] page_of_def Let_def
    by (auto simp: sql_limit_def token_at_def)
qed

lemma follow_pages_at:
  assumes "sorted_wrt (<) (map q_name qs)" "1 \<le> n"
  shows "k \<le> length qs \<Longrightarrow> length qs - k < fuel \<Longrightarrow>
         follow_pages (list_page n qs) fuel (token_at qs k) = Some (drop k qs)"
proof (induction fuel arbitrary: k)
  case (Suc fuel)
  show ?case
  proof (cases "length qs - k > nat n")
    case True
    then have "follow_pages (list_page n qs) fuel (token_at qs (k + nat n)) = Some (drop (k + nat n) qs)"
      using Suc.prems assms(2) by (intro Suc.IH) auto
    moreover have "take (nat n) (drop k qs) @ drop (k + nat n) qs = drop k qs"
      by (metis add.commute append_take_drop_id drop_drop)
    moreover have "token_at qs (k + nat n) = Some (q_name (qs ! (k + nat n - 1)))"
      using assms(2) by (simp add: token_at_def)
    ultimately show ?thesis using True by (simp add: list_page_at [OF assms(1) Suc.prems(1) assms(2)])
  next
    case False
    then show ?thesis by (simp add: list_page_at [OF assms(1) Suc.prems(1) assms(2)])
  qed
qed simp

lemma follow_pages_map:
  "follow_pages (\<lambda>t. apfst (map g) (f t)) fuel token = map_option (map g) (follow_pages f fuel token)"
  by (induction fuel arbitrary: token) (auto simp: option.map_comp comp_def apfst_def split: prod.splits option.splits)

definition request_page ::
    "sqlite_texts \<Rightarrow> resolved_request \<Rightarrow> int \<Rightarrow> string option \<Rightarrow> sqs_db \<Rightarrow> string option \<Rightarrow> string list \<times> string option" where
  "request_page UE request n name_prefix db token =
     projr (fst (handle_list_queues (sqlite_sqs_store UE) request
       \<lparr>lq_max_results = Some n, lq_next_token = token, lq_queue_name_prefix = name_prefix\<rparr> db))"

lemma request_page_eq:
  assumes "1 \<le> n" "n \<le> 1000"
  shows "request_page UE request n name_prefix db token =
    apfst (map (\<lambda>q. queue_url (req_host request) (req_account request) (q_name q)))
      (list_page n (matching_queues (rr_region request) (req_account request) name_prefix db) token)"
  using assms
  by (simp add: request_page_def handle_list_queues_def validate_list_queues_request_def sqlite_sqs_store_def
      sqlite_list_queues_eq saturating_add_1_def list_page_def split_beta apfst_def map_prod_def)

text \<open>
  C26. Following the page tokens of \<^verbatim>\<open>ListQueues\<close> ends after at most one request more than there are
  queues, and gives the URLs of all queues of the caller's region and account whose name has the
  prefix, each exactly once and in the order of their names, for every page size.
\<close>

theorem list_queues_pagination:
  assumes "sqs_inv db" "1 \<le> n" "n \<le> 1000"
  shows "follow_pages (request_page UE request n name_prefix db) (Suc (length (queues db))) None =
           Some (map (\<lambda>q. queue_url (req_host request) (req_account request) (q_name q))
             (matching_queues (rr_region request) (req_account request) name_prefix db)) \<and>
         distinct (map q_name (matching_queues (rr_region request) (req_account request) name_prefix db))"
proof -
  let ?qs = "matching_queues (rr_region request) (req_account request) name_prefix db"
  have sorted: "sorted_wrt (<) (map q_name ?qs)" using assms(1) by (rule matching_names_sorted)
  have "length ?qs - 0 < Suc (length (queues db))" by (simp add: matching_queues_def less_Suc_eq_le)
  from follow_pages_at [OF sorted assms(2) _ this]
  have "follow_pages (list_page n ?qs) (Suc (length (queues db))) None = Some ?qs"
    by (simp add: token_at_def)
  then have "follow_pages (request_page UE request n name_prefix db) (Suc (length (queues db))) None =
      Some (map (\<lambda>q. queue_url (req_host request) (req_account request) (q_name q)) ?qs)"
    unfolding request_page_eq [OF assms(2,3), abs_def] by (subst follow_pages_map) simp
  with sorted show ?thesis by (simp add: strict_sorted_iff)
qed

theorem list_queues_pagination_witness:
  "follow_pages (request_page demo_texts (demo_request ''sqs'') 1 None demo_db) 2 None =
     Some [''http://localhost:4566/000000000000/jobs'']"
proof -
  have "matching_queues (rr_region (demo_request ''sqs'')) (req_account (demo_request ''sqs'')) None demo_db =
      [demo_queue\<lparr>q_id := 1, q_created_at := 0\<rparr>]"
    by (simp add: matching_queues_def demo_db_eq demo_request_def demo_queue_def)
  with list_queues_pagination [OF demo_db_inv, of 1 demo_texts "demo_request ''sqs''" None]
  show ?thesis
    by (simp add: demo_db_eq demo_request_def demo_queue_def queue_url_def numeral_2_eq_2)
qed

section \<open>Tags\<close>

lemma list_queue_tags_eq:
  "sqlite_list_queue_tags qid db =
     (if queue_exists db qid then Inr (sort_key fst (tags_of qid (queue_tags db)))
      else Inl (StoreNotFound ''queue not found''))"
  by (auto simp: sqlite_list_queue_tags_def sqlite_ensure_queue_exists_def tags_of_def queue_exists_def
      list_ex_iff filter_empty_conv)

lemma distinct_tags_of:
  assumes "sqs_inv db"
  shows "distinct (map fst (tags_of qid (queue_tags db)))"
proof -
  have "distinct (map tag_key (queue_tags db))" using assms by (simp add: sqs_inv_def sqs_keys_def)
  then have "distinct (map tag_key (filter (\<lambda>(i, _). i = qid) (queue_tags db)))" by (rule distinct_map_filter')
  then show ?thesis
    by (auto simp: tags_of_def distinct_map inj_on_def tag_key_def)
qed

lemma upsert_tag_map:
  assumes "queue_exists db qid"
  shows "map_of (tags_of j (queue_tags (snd (upsert_tag UE qid kv db)))) =
    (if j = qid then (map_of (tags_of j (queue_tags db)))(fst kv \<mapsto> snd kv) else map_of (tags_of j (queue_tags db)))"
  using assms upsert_rows_map [of j qid kv "queue_tags db"] by (simp add: upsert_tag_def)

lemma upsert_tags_map:
  "queue_exists db qid \<Longrightarrow>
   map_of (tags_of j (queue_tags (snd (for_each (upsert_tag UE qid) tags db)))) =
     (if j = qid then map_of (tags_of j (queue_tags db)) ++ map_of (rev tags) else map_of (tags_of j (queue_tags db)))"
proof (induction tags arbitrary: db)
  case (Cons kv tags)
  let ?db = "snd (upsert_tag UE qid kv db)"
  have ok: "upsert_tag UE qid kv db = (Inr (), ?db)" "queue_exists ?db qid"
    using Cons.prems by (simp_all add: upsert_tag_def queue_exists_def)
  have "snd (for_each (upsert_tag UE qid) (kv # tags) db) = snd (for_each (upsert_tag UE qid) tags ?db)"
    by (simp add: sbind_def) (subst ok(1), simp)
  then show ?case using Cons.IH [OF ok(2)] upsert_tag_map [OF Cons.prems, of j UE kv]
    by (cases kv) (auto simp: map_add_def fun_eq_iff split: option.splits)
qed simp

lemma hashmap_extend_map:
  "map_of (hashmap_extend m kvs) = map_of m ++ map_of (rev kvs) \<and>
   (distinct (map fst m) \<longrightarrow> distinct (map fst (hashmap_extend m kvs)))"
  unfolding hashmap_extend_def
proof (induction kvs arbitrary: m)
  case (Cons kv kvs)
  then show ?case
    by (cases kv) (auto simp: hashmap_insert_def update_conv' distinct_update map_add_def fun_eq_iff
        split: option.splits)
qed simp

lemma delete_tags_map:
  "map_of (tags_of j (queue_tags (snd (for_each (delete_tag qid) keys db)))) =
     (if j = qid then map_of (tags_of j (queue_tags db)) |` (- set keys) else map_of (tags_of j (queue_tags db)))"
proof (induction keys arbitrary: db)
  case (Cons key keys)
  let ?db = "snd (delete_tag qid key db)"
  have rows: "queue_tags ?db = filter (\<lambda>(i, k, _). \<not> (i = qid \<and> k = key)) (queue_tags db)"
    by (simp add: delete_tag_def)
  have "map_of (tags_of j (queue_tags ?db)) =
      (if j = qid then map_of (tags_of j (queue_tags db)) |` (- {key}) else map_of (tags_of j (queue_tags db)))"
    unfolding rows tags_of_delete by (simp add: map_of_filter_key)
  moreover have "snd (for_each (delete_tag qid) (key # keys) db) = snd (for_each (delete_tag qid) keys ?db)"
    by (simp add: sbind_def delete_tag_def)
  moreover have "- {key} \<inter> - set keys = - set (key # keys)" by auto
  ultimately show ?case using Cons.IH [of ?db] by (cases "j = qid") (simp_all add: Int_commute)
qed (simp add: restrict_map_def)

lemma tag_handler_steps:
  assumes "handle_tag_queue E (sqlite_sqs_store UE) request url tags db = (Inr (), db')"
  obtains q where "load_queue_from_url E (sqlite_sqs_store UE) request url db = Inr q" "queue_exists db (q_id q)"
    "validate_tags (hashmap_extend (sort_key fst (tags_of (q_id q) (queue_tags db))) tags) True = Inr ()"
    "db' = snd (for_each (upsert_tag UE (q_id q)) tags db)"
proof -
  from assms obtain q where q: "load_queue_from_url E (sqlite_sqs_store UE) request url db = Inr q"
    by (auto simp: handle_tag_queue_def split: sum.splits)
  have exists: "queue_exists db (q_id q)"
    using assms q by (auto simp: handle_tag_queue_def sqlite_sqs_store_def list_queue_tags_eq split: sum.splits if_splits)
  have "validate_tags (hashmap_extend (sort_key fst (tags_of (q_id q) (queue_tags db))) tags) True = Inr () \<and>
      db' = snd (for_each (upsert_tag UE (q_id q)) tags db)"
    using assms q exists
    by (auto simp: handle_tag_queue_def sqlite_sqs_store_def list_queue_tags_eq tag_queue_eq smap_err_eq split: sum.splits)
  with q exists that show ?thesis by blast
qed

text \<open>
  \<^verbatim>\<open>TagQueue\<close> merges: afterwards the tags of the queue are the old ones overridden by the given
  ones, there are at most fifty of them, and the tags of every other queue are as before.
\<close>

theorem tag_queue_merges:
  assumes "sqs_inv db" "distinct (map fst tags)"
    and "handle_tag_queue E (sqlite_sqs_store UE) request url tags db = (Inr (), db')"
  shows "\<exists>q old new. load_queue_from_url E (sqlite_sqs_store UE) request url db = Inr q \<and>
           sqlite_list_queue_tags (q_id q) db = Inr old \<and> sqlite_list_queue_tags (q_id q) db' = Inr new \<and>
           map_of new = map_of old ++ map_of tags \<and> length new \<le> 50 \<and>
           (\<forall>j. j \<noteq> q_id q \<longrightarrow> map_of (tags_of j (queue_tags db')) = map_of (tags_of j (queue_tags db)))"
proof -
  from assms(3) obtain q where q: "load_queue_from_url E (sqlite_sqs_store UE) request url db = Inr q"
      "queue_exists db (q_id q)"
      "validate_tags (hashmap_extend (sort_key fst (tags_of (q_id q) (queue_tags db))) tags) True = Inr ()"
    and db': "db' = snd (for_each (upsert_tag UE (q_id q)) tags db)"
    by (rule tag_handler_steps)
  let ?old = "sort_key fst (tags_of (q_id q) (queue_tags db))" and ?new = "sort_key fst (tags_of (q_id q) (queue_tags db'))"
  have inv': "sqs_inv db'"
    using keepsD [OF sqlite.keeps_queue_actions(8) assms(1), of E UE request url tags] assms(3) by simp
  have rev_tags: "map_of (rev tags) = map_of tags" 
    using assms(2) by (subst map_of_inject_set) (auto simp: rev_map [symmetric])
  have dist: "distinct (map fst ?old)" "distinct (map fst ?new)"
    using distinct_tags_of [OF assms(1)] distinct_tags_of [OF inv'] by (auto simp: distinct_map)
  have maps: "map_of ?new = map_of ?old ++ map_of tags"
    using upsert_tags_map [OF q(2), of "q_id q" UE tags] rev_tags distinct_tags_of [OF assms(1)] distinct_tags_of [OF inv']
    by (simp add: db' map_of_sorted_tags)
  then have "length ?new = length (hashmap_extend ?old tags)"
    using dist hashmap_extend_map [of ?old tags] rev_tags by (intro length_map_of_eq) auto
  also have "\<dots> \<le> 50" using q(3) by (auto simp: validate_tags_def max_tags_per_queue_def split: if_splits)
  finally have "length ?new \<le> 50" .
  moreover have "queue_exists db' (q_id q)"
    using q(2) for_each_upsert_queues [of UE "q_id q" tags db] by (simp add: db' queue_exists_def)
  moreover have "map_of (tags_of j (queue_tags db')) = map_of (tags_of j (queue_tags db))" if "j \<noteq> q_id q" for j
    using upsert_tags_map [OF q(2), of j UE tags] that by (simp add: db')
  ultimately show ?thesis using q maps by (simp add: list_queue_tags_eq)
qed

text \<open>
  \<^verbatim>\<open>UntagQueue\<close> removes exactly the given keys from the tags of its queue.
\<close>

theorem untag_queue_removes:
  assumes "sqs_inv db" "handle_untag_queue E (sqlite_sqs_store UE) request url keys db = (Inr (), db')"
  shows "\<exists>q old new. load_queue_from_url E (sqlite_sqs_store UE) request url db = Inr q \<and>
           sqlite_list_queue_tags (q_id q) db = Inr old \<and> sqlite_list_queue_tags (q_id q) db' = Inr new \<and>
           map_of new = map_of old |` (- set keys) \<and>
           (\<forall>j. j \<noteq> q_id q \<longrightarrow> map_of (tags_of j (queue_tags db')) = map_of (tags_of j (queue_tags db)))"
proof -
  from assms(2) obtain q where q: "load_queue_from_url E (sqlite_sqs_store UE) request url db = Inr q"
    by (auto simp: handle_untag_queue_def split: sum.splits)
  have run: "sqlite_untag_queue (q_id q) keys db = (Inr (), db')"
    using assms(2) q by (auto simp: handle_untag_queue_def sqlite_sqs_store_def smap_err_eq split: sum.splits)
  then have ok: "sqlite_ensure_queue_exists (q_id q) db = Inr ()" "db' = snd (for_each (delete_tag (q_id q)) keys db)"
    by (auto simp: sqlite_untag_queue_def split: sum.splits)
  then have exists: "queue_exists db (q_id q)"
    by (auto simp: sqlite_ensure_queue_exists_def queue_exists_def list_ex_iff filter_empty_conv split: if_splits)
  have "queues (snd (for_each (delete_tag i) keys db)) = queues db" for i
    by (induction keys arbitrary: db) (simp_all add: sbind_def delete_tag_def)
  then have exists': "queue_exists db' (q_id q)" using exists ok(2) by (simp add: queue_exists_def)
  have inv': "sqs_inv db'"
    using keepsD [OF sqlite.keeps_queue_actions(9) assms(1), of E UE request url keys] assms(2) by simp
  show ?thesis
    using q exists exists' delete_tags_map [of _ "q_id q" keys db] distinct_tags_of [OF assms(1)] distinct_tags_of [OF inv']
    by (simp add: list_queue_tags_eq map_of_sorted_tags ok(2))
qed

text \<open>A run: create a tagged queue, tag it again, remove one tag.\<close>

definition demo_tagged_db :: sqs_db where
  "demo_tagged_db = demo_db\<lparr>queue_tags := [(1, ''team'', ''a'')]\<rparr>"

lemma demo_tagged_db_inv: "sqs_inv demo_tagged_db"
proof -
  have eq: "demo_tagged_db = snd (upsert_tag demo_texts 1 (''team'', ''a'') demo_db)"
    by (simp add: demo_tagged_db_def upsert_tag_def demo_db_eq queue_exists_def)
  show ?thesis unfolding eq by (rule keepsD [OF keeps_upsert_tag demo_db_inv])
qed

lemma demo_load:
  "load_queue_from_url demo_ext (sqlite_sqs_store demo_texts) (demo_request ''sqs'')
     ''http://localhost:4566/000000000000/jobs'' demo_tagged_db = Inr (demo_queue\<lparr>q_id := 1, q_created_at := 0\<rparr>)"
  by (rule demo_load_queue) (simp add: demo_tagged_db_def)

lemmas tag_check_eval = validate_tags_def validate_tag_keys_def validate_tag_key_def rust_chars_def utf8_width_def byte_def
  max_tags_per_queue_def max_tag_key_length_def max_tag_value_length_def starts_with_def

lemma demo_tag:
  "\<exists>db'. handle_tag_queue demo_ext (sqlite_sqs_store demo_texts) (demo_request ''sqs'')
     ''http://localhost:4566/000000000000/jobs'' [(''team'', ''b''), (''env'', ''x'')] demo_tagged_db = (Inr (), db')"
proof -
  let ?tags = "[(''team'', ''b''), (''env'', ''x'')]"
  have ex: "queue_exists demo_tagged_db 1" by (simp add: demo_tagged_db_def demo_db_eq queue_exists_def)
  then have "st_list_queue_tags (sqlite_sqs_store demo_texts) 1 demo_tagged_db = Inr [(''team'', ''a'')]"
    by (simp add: sqlite_sqs_store_def list_queue_tags_eq tags_of_def) (simp add: demo_tagged_db_def)
  moreover have "validate_tags ?tags False = Inr ()" "validate_tags (hashmap_extend [(''team'', ''a'')] ?tags) True = Inr ()"
    by (simp_all add: tag_check_eval hashmap_extend_def hashmap_insert_def)
  moreover obtain db' where "st_tag_queue (sqlite_sqs_store demo_texts) 1 ?tags demo_tagged_db = (Inr (), db')"
    using for_each_upsert_ok [OF ex, of demo_texts ?tags] ex
    by (cases "st_tag_queue (sqlite_sqs_store demo_texts) 1 ?tags demo_tagged_db") (auto simp: sqlite_sqs_store_def tag_queue_eq)
  ultimately show ?thesis by (simp add: handle_tag_queue_def demo_load smap_err_def)
qed

lemma demo_untag:
  "\<exists>db'. handle_untag_queue demo_ext (sqlite_sqs_store demo_texts) (demo_request ''sqs'')
     ''http://localhost:4566/000000000000/jobs'' [''team''] demo_tagged_db = (Inr (), db')"
proof -
  have ok: "validate_tag_keys [''team''] False = Inr ()" by (simp add: tag_check_eval)
  have "\<exists>db'. st_untag_queue (sqlite_sqs_store demo_texts) 1 [''team''] demo_tagged_db = (Inr (), db')"
    by (simp add: sqlite_sqs_store_def sqlite_untag_queue_def sqlite_ensure_queue_exists_def sbind_def delete_tag_def)
      (simp add: demo_tagged_db_def demo_db_eq)
  then show ?thesis using ok by (auto simp: handle_untag_queue_def demo_load smap_err_def)
qed

theorem tag_queue_merges_witness:
  "\<exists>db' new. handle_tag_queue demo_ext (sqlite_sqs_store demo_texts) (demo_request ''sqs'')
      ''http://localhost:4566/000000000000/jobs'' [(''team'', ''b''), (''env'', ''x'')] demo_tagged_db = (Inr (), db') \<and>
     sqlite_list_queue_tags 1 db' = Inr new \<and> map_of new ''team'' = Some ''b'' \<and> map_of new ''env'' = Some ''x''"
proof -
  obtain db' where run: "handle_tag_queue demo_ext (sqlite_sqs_store demo_texts) (demo_request ''sqs'')
      ''http://localhost:4566/000000000000/jobs'' [(''team'', ''b''), (''env'', ''x'')] demo_tagged_db = (Inr (), db')"
    using demo_tag by blast
  from tag_queue_merges [OF demo_tagged_db_inv _ run] demo_load obtain old new where
    "sqlite_list_queue_tags 1 db' = Inr new" "map_of new = map_of old ++ map_of [(''team'', ''b''), (''env'', ''x'')]"
    by auto
  then show ?thesis by (intro exI [of _ db'] exI [of _ new]) (simp add: run)
qed

theorem untag_queue_removes_witness:
  "\<exists>db' new. handle_untag_queue demo_ext (sqlite_sqs_store demo_texts) (demo_request ''sqs'')
      ''http://localhost:4566/000000000000/jobs'' [''team''] demo_tagged_db = (Inr (), db') \<and>
     sqlite_list_queue_tags 1 db' = Inr new \<and> map_of new ''team'' = None"
proof -
  obtain db' where run: "handle_untag_queue demo_ext (sqlite_sqs_store demo_texts) (demo_request ''sqs'')
      ''http://localhost:4566/000000000000/jobs'' [''team''] demo_tagged_db = (Inr (), db')"
    using demo_untag by blast
  from untag_queue_removes [OF demo_tagged_db_inv run] demo_load obtain old new where
    "sqlite_list_queue_tags 1 db' = Inr new" "map_of new = map_of old |` (- set [''team''])"
    by auto
  then show ?thesis by (intro exI [of _ db'] exI [of _ new]) (simp add: run)
qed

end
