(* ===== verification/Sqs_Message_Actions.thy ===== *)
theory Sqs_Message_Actions
  imports Sqs_Queue_Actions
begin

text \<open>
  The message actions of \<^verbatim>\<open>hiraeth_sqs/src/actions\<close> that do not wait: \<^verbatim>\<open>SendMessage\<close>, \<^verbatim>\<open>DeleteMessage\<close>,
  \<^verbatim>\<open>ChangeMessageVisibility\<close>, their batch forms, and \<^verbatim>\<open>enqueue_message\<close> of \<^verbatim>\<open>operations.rs\<close>, which other
  services call. The random message ids are arguments. In a batch each entry runs on the store left
  by the entries before it, whatever became of them.
\<close>

section \<open>Sending\<close>

record send_message_request =
  sm_delay_seconds :: "int option"
  sm_message_attributes :: "message_attributes option"
  sm_message_system_attributes :: "message_attributes option"
  sm_message_body :: string
  sm_message_deduplication_id :: "string option"
  sm_message_group_id :: "string option"
  sm_queue_url :: string

record send_message_response =
  sr_md5_of_message_attributes :: "string option"
  sr_md5_of_message_body :: string
  sr_md5_of_message_system_attributes :: "string option"
  sr_message_id :: string
  sr_sequence_number :: "string option"

definition check_option :: "('a \<Rightarrow> 'e + unit) \<Rightarrow> 'a option \<Rightarrow> 'e + unit" where
  "check_option f m = (case m of None \<Rightarrow> Inr () | Some x \<Rightarrow> f x)"

definition validate_send_message ::
    "ext \<Rightarrow> 's sqs_store \<Rightarrow> resolved_request \<Rightarrow> send_message_request \<Rightarrow> 's \<Rightarrow> sqs_error + unit" where
  "validate_send_message E store request payload s =
     ebind (load_queue_from_url E store request (sm_queue_url payload) s) (\<lambda>queue.
     ebind (validate_message_body (sm_message_body payload) (q_maximum_message_size queue)) (\<lambda>_.
     ebind (resolve_delay_seconds (sm_delay_seconds payload) (q_delay_seconds queue)) (\<lambda>_.
     ebind (check_option validate_message_attributes (sm_message_attributes payload)) (\<lambda>_.
     check_option validate_message_system_attributes (sm_message_system_attributes payload)))))"

text \<open>\<^verbatim>\<open>attrs.filter(|attrs| !attrs.is_empty()).map(calculate_message_attributes_md5).transpose()\<close>.\<close>

definition nonempty_attributes_md5 :: "ext \<Rightarrow> message_attributes option \<Rightarrow> sqs_error + string option" where
  "nonempty_attributes_md5 E attrs =
     map_transpose (calculate_message_attributes_md5 E) (case attrs of Some [] \<Rightarrow> None | a \<Rightarrow> a)"

definition new_message ::
    "string \<Rightarrow> sqs_queue \<Rightarrow> string \<Rightarrow> string option \<Rightarrow> string option \<Rightarrow> time \<Rightarrow> int \<Rightarrow> string option \<Rightarrow>
     string option \<Rightarrow> sqs_message" where
  "new_message mid queue body attributes trace_header date delay_seconds group_id deduplication_id =
     \<lparr>m_message_id = mid, m_queue_id = q_id queue, m_body = body, m_message_attributes = attributes,
      m_aws_trace_header = trace_header, m_sent_at = date, m_visible_at = date + seconds delay_seconds,
      m_expires_at = date + seconds (q_message_retention_period_seconds queue), m_receive_count = 0,
      m_receipt_handle = None, m_first_received_at = None, m_message_group_id = group_id,
      m_message_deduplication_id = deduplication_id\<rparr>"

definition handle_send_message ::
    "ext \<Rightarrow> 's sqs_store \<Rightarrow> string \<Rightarrow> resolved_request \<Rightarrow> send_message_request \<Rightarrow>
     ('s, sqs_error, send_message_response) store_op" where
  "handle_send_message E store mid request body =
     sbind (sread (load_queue_from_url E store request (sm_queue_url body))) (\<lambda>queue.
     sbind (slift (validate_message_body (sm_message_body body) (q_maximum_message_size queue))) (\<lambda>_.
     sbind (slift (resolve_delay_seconds (sm_delay_seconds body) (q_delay_seconds queue))) (\<lambda>delay_seconds.
     sbind (slift (map_transpose (serialize_message_attributes E) (sm_message_attributes body))) (\<lambda>attributes.
     sbind (slift (nonempty_attributes_md5 E (sm_message_attributes body))) (\<lambda>md5_attributes.
     sbind (slift (extract_aws_trace_header (sm_message_system_attributes body))) (\<lambda>trace_header.
     sbind (slift (nonempty_attributes_md5 E (sm_message_system_attributes body))) (\<lambda>md5_system.
     sbind (smap_err internal_error (st_send_message store
              (new_message mid queue (sm_message_body body) attributes trace_header (rr_date request) delay_seconds
                 (sm_message_group_id body) (sm_message_deduplication_id body)))) (\<lambda>_.
     slift (Inr \<lparr>sr_md5_of_message_attributes = md5_attributes,
                 sr_md5_of_message_body = x_md5 E (sm_message_body body),
                 sr_md5_of_message_system_attributes = md5_system,
                 sr_message_id = mid, sr_sequence_number = None\<rparr>)))))))))"

text \<open>\<^verbatim>\<open>enqueue_message\<close>, the entry point of other services.\<close>

definition enqueue_message ::
    "ext \<Rightarrow> 's sqs_store \<Rightarrow> string \<Rightarrow> sqs_queue \<Rightarrow> string \<Rightarrow> message_attributes option \<Rightarrow>
     message_attributes option \<Rightarrow> string option \<Rightarrow> string option \<Rightarrow> time \<Rightarrow>
     ('s, sqs_error, string) store_op" where
  "enqueue_message E store mid queue body attrs system_attrs group_id deduplication_id date =
     sbind (slift (validate_message_body body (q_maximum_message_size queue))) (\<lambda>_.
     sbind (slift (resolve_delay_seconds None (q_delay_seconds queue))) (\<lambda>delay_seconds.
     sbind (slift (map_transpose (serialize_message_attributes E) attrs)) (\<lambda>attributes.
     sbind (slift (extract_aws_trace_header system_attrs)) (\<lambda>trace_header.
     sbind (smap_err internal_error (st_send_message store
              (new_message mid queue body attributes trace_header date delay_seconds group_id deduplication_id)))
       (\<lambda>_. slift (Inr mid))))))"

section \<open>Batches\<close>

text \<open>Running the entries of a batch in order, each with its index, collecting the results.\<close>

fun run_entries ::
    "(nat \<Rightarrow> 'a \<Rightarrow> ('s, 'f, 'r) store_op) \<Rightarrow> nat \<Rightarrow> 'a list \<Rightarrow> 's \<Rightarrow> ('f + 'r) list \<times> 's" where
  "run_entries f i [] s = ([], s)"
| "run_entries f i (x # xs) s =
     (case f i x s of (r, s1) \<Rightarrow> (case run_entries f (Suc i) xs s1 of (rs, s2) \<Rightarrow> (r # rs, s2)))"

definition oks :: "('f + 'r) list \<Rightarrow> 'r list" where
  "oks rs = concat (map (\<lambda>r. case r of Inl _ \<Rightarrow> [] | Inr x \<Rightarrow> [x]) rs)"

definition errs :: "('f + 'r) list \<Rightarrow> 'f list" where
  "errs rs = concat (map (\<lambda>r. case r of Inl e \<Rightarrow> [e] | Inr _ \<Rightarrow> []) rs)"

text \<open>The failed entry of all three batch actions.\<close>

record batch_result_error_entry =
  bx_id :: string
  bx_code :: string
  bx_message :: string
  bx_sender_fault :: bool

definition batch_error_entry :: "string \<Rightarrow> sqs_error \<Rightarrow> batch_result_error_entry" where
  "batch_error_entry i error =
     (let (code, sender_fault) = batch_error_details error
      in \<lparr>bx_id = i, bx_code = code, bx_message = sqs_error_text error, bx_sender_fault = sender_fault\<rparr>)"

record send_message_batch_entry =
  sb_id :: string
  sb_delay_seconds :: "int option"
  sb_message_attributes :: "message_attributes option"
  sb_message_system_attributes :: "message_attributes option"
  sb_message_body :: string
  sb_message_deduplication_id :: "string option"
  sb_message_group_id :: "string option"

record send_message_batch_result_entry =
  br_id :: string
  br_md5_of_message_attributes :: "string option"
  br_md5_of_message_body :: string
  br_md5_of_message_system_attributes :: "string option"
  br_message_id :: string
  br_sequence_number :: "string option"

definition validate_send_message_batch ::
    "ext \<Rightarrow> 's sqs_store \<Rightarrow> resolved_request \<Rightarrow> string \<Rightarrow> send_message_batch_entry list \<Rightarrow> 's \<Rightarrow> sqs_error + unit" where
  "validate_send_message_batch E store request url entries s =
     ebind (load_queue_from_url E store request url s) (\<lambda>queue.
     ebind (validate_batch_request (map sb_id entries)) (\<lambda>_.
     check_all (\<lambda>entry.
       ebind (validate_batch_entry_id (sb_id entry)) (\<lambda>_.
       ebind (resolve_delay_seconds (sb_delay_seconds entry) (q_delay_seconds queue)) (\<lambda>_.
       ebind (validate_message_body (sb_message_body entry) (q_maximum_message_size queue)) (\<lambda>_.
       ebind (check_option validate_message_attributes (sb_message_attributes entry)) (\<lambda>_.
       check_option validate_message_system_attributes (sb_message_system_attributes entry)))))) entries))"

definition send_batch_entry ::
    "ext \<Rightarrow> 's sqs_store \<Rightarrow> (nat \<Rightarrow> string) \<Rightarrow> resolved_request \<Rightarrow> sqs_queue \<Rightarrow> nat \<Rightarrow> send_message_batch_entry \<Rightarrow>
     ('s, batch_result_error_entry, send_message_batch_result_entry) store_op" where
  "send_batch_entry E store mids request queue i entry =
     smap_err (batch_error_entry (sb_id entry)) (
     sbind (slift (resolve_delay_seconds (sb_delay_seconds entry) (q_delay_seconds queue))) (\<lambda>delay_seconds.
     sbind (slift (validate_message_body (sb_message_body entry) (q_maximum_message_size queue))) (\<lambda>_.
     sbind (slift (map_transpose (serialize_message_attributes E) (sb_message_attributes entry))) (\<lambda>attributes.
     sbind (slift (nonempty_attributes_md5 E (sb_message_attributes entry))) (\<lambda>md5_attributes.
     sbind (slift (extract_aws_trace_header (sb_message_system_attributes entry))) (\<lambda>trace_header.
     sbind (slift (nonempty_attributes_md5 E (sb_message_system_attributes entry))) (\<lambda>md5_system.
     sbind (smap_err internal_error (st_send_message store
              (new_message (mids i) queue (sb_message_body entry) attributes trace_header (rr_date request) delay_seconds
                 (sb_message_group_id entry) (sb_message_deduplication_id entry)))) (\<lambda>_.
     slift (Inr \<lparr>br_id = sb_id entry, br_md5_of_message_attributes = md5_attributes,
                 br_md5_of_message_body = x_md5 E (sb_message_body entry),
                 br_md5_of_message_system_attributes = md5_system, br_message_id = mids i,
                 br_sequence_number = None\<rparr>)))))))))"

definition handle_send_message_batch ::
    "ext \<Rightarrow> 's sqs_store \<Rightarrow> (nat \<Rightarrow> string) \<Rightarrow> resolved_request \<Rightarrow> string \<Rightarrow> send_message_batch_entry list \<Rightarrow>
     ('s, sqs_error, send_message_batch_result_entry list \<times> batch_result_error_entry list) store_op" where
  "handle_send_message_batch E store mids request url entries =
     sbind (sread (load_queue_from_url E store request url)) (\<lambda>queue.
     sbind (slift (validate_batch_request (map sb_id entries))) (\<lambda>_ s.
     case run_entries (send_batch_entry E store mids request queue) 0 entries s of
       (rs, s') \<Rightarrow> (Inr (oks rs, errs rs), s')))"

section \<open>Deleting and changing visibility\<close>

definition handle_delete_message ::
    "ext \<Rightarrow> 's sqs_store \<Rightarrow> resolved_request \<Rightarrow> string \<Rightarrow> string \<Rightarrow> ('s, sqs_error, unit) store_op" where
  "handle_delete_message E store request url receipt_handle =
     sbind (sread (load_queue_from_url E store request url)) (\<lambda>queue.
     smap_err map_receipt_handle_store_error (st_delete_message store (q_id queue) receipt_handle))"

text \<open>The checks shared by the batches of receipt handles.\<close>

definition validate_entry_ids :: "string list \<Rightarrow> sqs_error + unit" where
  "validate_entry_ids ids =
     ebind (validate_batch_request ids) (\<lambda>_. check_all validate_batch_entry_id ids)"

definition delete_batch_entry ::
    "'s sqs_store \<Rightarrow> sqs_queue \<Rightarrow> nat \<Rightarrow> string \<times> string \<Rightarrow> ('s, batch_result_error_entry, string) store_op" where
  "delete_batch_entry store queue i entry =
     sbind (smap_err (\<lambda>e. batch_error_entry (fst entry) (map_receipt_handle_store_error e))
              (st_delete_message store (q_id queue) (snd entry))) (\<lambda>_. slift (Inr (fst entry)))"

text \<open>The entries are pairs of id and receipt handle; the result is the list of successful ids and of failures.\<close>

definition handle_delete_message_batch ::
    "ext \<Rightarrow> 's sqs_store \<Rightarrow> resolved_request \<Rightarrow> string \<Rightarrow> (string \<times> string) list \<Rightarrow>
     ('s, sqs_error, string list \<times> batch_result_error_entry list) store_op" where
  "handle_delete_message_batch E store request url entries =
     sbind (sread (load_queue_from_url E store request url)) (\<lambda>queue.
     sbind (slift (validate_batch_request (map fst entries))) (\<lambda>_ s.
     case run_entries (delete_batch_entry store queue) 0 entries s of
       (rs, s') \<Rightarrow> (Inr (oks rs, errs rs), s')))"

definition validate_visibility_timeout :: "int \<Rightarrow> sqs_error + unit" where
  "validate_visibility_timeout visibility_timeout =
     guard (visibility_timeout > 43200) (BadRequest ''VisibilityTimeout must be between 0 and 43200'')"

definition handle_change_message_visibility ::
    "ext \<Rightarrow> 's sqs_store \<Rightarrow> time \<Rightarrow> resolved_request \<Rightarrow> string \<Rightarrow> string \<Rightarrow> int \<Rightarrow> ('s, sqs_error, unit) store_op" where
  "handle_change_message_visibility E store now request url receipt_handle visibility_timeout =
     sbind (sread (load_queue_from_url E store request url)) (\<lambda>queue.
     sbind (slift (validate_visibility_timeout visibility_timeout)) (\<lambda>_.
     smap_err map_receipt_handle_store_error
       (st_set_message_visible_at store (q_id queue) receipt_handle (now + seconds visibility_timeout))))"

record change_visibility_entry =
  cv_id :: string
  cv_receipt_handle :: string
  cv_visibility_timeout :: int

definition change_visibility_batch_entry ::
    "'s sqs_store \<Rightarrow> (nat \<Rightarrow> time) \<Rightarrow> sqs_queue \<Rightarrow> nat \<Rightarrow> change_visibility_entry \<Rightarrow>
     ('s, batch_result_error_entry, string) store_op" where
  "change_visibility_batch_entry store nows queue i entry =
     sbind (slift (map_err (\<lambda>error. \<lparr>bx_id = cv_id entry, bx_code = ''InvalidParameterValue'',
                     bx_message = sqs_error_text error, bx_sender_fault = True\<rparr>)
              (validate_visibility_timeout (cv_visibility_timeout entry)))) (\<lambda>_.
     sbind (smap_err (\<lambda>e. batch_error_entry (cv_id entry) (map_receipt_handle_store_error e))
              (st_set_message_visible_at store (q_id queue) (cv_receipt_handle entry)
                 (nows i + seconds (cv_visibility_timeout entry)))) (\<lambda>_.
     slift (Inr (cv_id entry))))"

definition handle_change_message_visibility_batch ::
    "ext \<Rightarrow> 's sqs_store \<Rightarrow> (nat \<Rightarrow> time) \<Rightarrow> resolved_request \<Rightarrow> string \<Rightarrow> change_visibility_entry list \<Rightarrow>
     ('s, sqs_error, string list \<times> batch_result_error_entry list) store_op" where
  "handle_change_message_visibility_batch E store nows request url entries =
     sbind (sread (load_queue_from_url E store request url)) (\<lambda>queue.
     sbind (slift (validate_batch_request (map cv_id entries))) (\<lambda>_ s.
     case run_entries (change_visibility_batch_entry store nows queue) 0 entries s of
       (rs, s') \<Rightarrow> (Inr (oks rs, errs rs), s')))"

end
