(* ===== verification/Sqs_Message_Laws.thy ===== *)
theory Sqs_Message_Laws
  imports Sqs_Message_Actions Sqs_Delivery "HOL-Library.Multiset"
begin

text \<open>
  Properties of the message actions: batches account for every entry, a message that was sent is
  delivered unchanged once its delay is over, and every action keeps the integrity of the tables.
\<close>

section \<open>Batches\<close>

lemma oks_errs_Cons [simp]:
  "oks (Inl e # rs) = oks rs" "oks (Inr x # rs) = x # oks rs"
  "errs (Inl e # rs) = e # errs rs" "errs (Inr x # rs) = errs rs" "oks [] = []" "errs [] = []"
  by (simp_all add: oks_def errs_def)

text \<open>When an entry's result carries the entry's id, the results together carry every id once.\<close>

lemma run_entries_ids:
  assumes "\<And>i x s e s'. f i x s = (Inl e, s') \<Longrightarrow> err_id e = entry_id x"
    and "\<And>i x s y s'. f i x s = (Inr y, s') \<Longrightarrow> ok_id y = entry_id x"
  shows "run_entries f i xs s = (rs, s') \<Longrightarrow>
    image_mset ok_id (mset (oks rs)) + image_mset err_id (mset (errs rs)) = image_mset entry_id (mset xs)"
proof (induction xs arbitrary: i s rs s')
  case (Cons x xs)
  obtain r s1 where r: "f i x s = (r, s1)" by (cases "f i x s")
  obtain rs1 s2 where rs1: "run_entries f (Suc i) xs s1 = (rs1, s2)" by (cases "run_entries f (Suc i) xs s1")
  with Cons.prems r have rs: "rs = r # rs1" by simp
  show ?case
  proof (cases r)
    case (Inl e)
    with Cons.IH [OF rs1] assms(1) [OF r [unfolded Inl]] rs show ?thesis by simp
  next
    case (Inr y)
    with Cons.IH [OF rs1] assms(2) [OF r [unfolded Inr]] rs show ?thesis by simp
  qed
qed simp

lemma batch_error_entry_id [simp]: "bx_id (batch_error_entry i e) = i"
  by (simp add: batch_error_entry_def split_beta)

lemma send_batch_entry_error_id:
  "send_batch_entry E store mids request queue i entry s = (Inl e, s') \<Longrightarrow> bx_id e = sb_id entry"
  unfolding send_batch_entry_def by (drule smap_err_InlD) auto

lemma send_batch_entry_ok_id:
  "send_batch_entry E store mids request queue i entry s = (Inr y, s') \<Longrightarrow> br_id y = sb_id entry"
  unfolding send_batch_entry_def smap_err_eq by (auto simp: sbind_eq_Inr simp del: sbind_slift)

lemma delete_batch_entry_ids:
  "delete_batch_entry store queue i entry s = (Inl e, s') \<Longrightarrow> bx_id e = fst entry"
  "delete_batch_entry store queue i entry s = (Inr y, s') \<Longrightarrow> y = fst entry"
  by (auto simp: delete_batch_entry_def sbind_def smap_err_def map_err_def split: prod.splits sum.splits)

lemma change_visibility_batch_entry_ids:
  "change_visibility_batch_entry store nows queue i entry s = (Inl e, s') \<Longrightarrow> bx_id e = cv_id entry"
  "change_visibility_batch_entry store nows queue i entry s = (Inr y, s') \<Longrightarrow> y = cv_id entry"
  by (auto simp: change_visibility_batch_entry_def sbind_def smap_err_def map_err_def split: prod.splits sum.splits)

lemma send_batch_ids:
  "run_entries (send_batch_entry E store mids request queue) i xs s = (rs, s') \<Longrightarrow>
   image_mset br_id (mset (oks rs)) + image_mset bx_id (mset (errs rs)) = image_mset sb_id (mset xs)"
  by (rule run_entries_ids [rotated 2]) (auto dest: send_batch_entry_error_id send_batch_entry_ok_id)

lemma delete_batch_ids:
  "run_entries (delete_batch_entry store queue) i xs s = (rs, s') \<Longrightarrow>
   mset (oks rs) + image_mset bx_id (mset (errs rs)) = image_mset fst (mset xs)"
  using run_entries_ids [where f = "delete_batch_entry store queue" and err_id = bx_id and ok_id = "\<lambda>x. x" and entry_id = fst]
  by (simp add: delete_batch_entry_ids)

lemma change_visibility_batch_ids:
  "run_entries (change_visibility_batch_entry store nows queue) i xs s = (rs, s') \<Longrightarrow>
   mset (oks rs) + image_mset bx_id (mset (errs rs)) = image_mset cv_id (mset xs)"
  using run_entries_ids [where f = "change_visibility_batch_entry store nows queue" and err_id = bx_id
      and ok_id = "\<lambda>x. x" and entry_id = cv_id]
  by (simp add: change_visibility_batch_entry_ids)

text \<open>
  Every batch action accounts for every entry: with any store, the ids of the successful and of
  the failed entries together are the ids of the request, each once.
\<close>

theorem batches_account_for_entries:
  "(handle_send_message_batch E store mids request url sends s = (Inr (ok1, bad1), s1) \<longrightarrow>
      mset (map br_id ok1) + mset (map bx_id bad1) = mset (map sb_id sends)) \<and>
   (handle_delete_message_batch E store request url deletes s = (Inr (ok2, bad2), s2) \<longrightarrow>
      mset ok2 + mset (map bx_id bad2) = mset (map fst deletes)) \<and>
   (handle_change_message_visibility_batch E store nows request url changes s = (Inr (ok3, bad3), s3) \<longrightarrow>
      mset ok3 + mset (map bx_id bad3) = mset (map cv_id changes))"
proof (intro conjI impI, goal_cases)
  case 1
  then show ?case
    by (auto simp: handle_send_message_batch_def split: sum.splits prod.splits dest: send_batch_ids)
next
  case 2
  then show ?case
    by (auto simp: handle_delete_message_batch_def split: sum.splits prod.splits dest: delete_batch_ids)
next
  case 3
  then show ?case
    by (auto simp: handle_change_message_visibility_batch_def split: sum.splits prod.splits
        dest: change_visibility_batch_ids)
qed

lemma demo_delete_batch:
  "handle_delete_message_batch demo_ext (sqlite_sqs_store demo_texts) (demo_request ''sqs'')
     ''http://localhost:4566/000000000000/jobs'' [(''a'', ''h1''), (''b'', ''h9'')] (demo_db\<lparr>messages := [(1, demo_leased)]\<rparr>) =
   (Inr ([''a''], [batch_error_entry ''b'' (ReceiptHandleIsInvalid ''receipt handle not found'')]),
    demo_db\<lparr>messages := []\<rparr>)"
proof -
  have "has_receipt 1 ''h1'' demo_leased" "\<not> has_receipt 1 ''h9'' demo_leased"
    by (simp_all add: has_receipt_def demo_leased_def lease_def demo_message_def)
  then show ?thesis
    by (simp add: handle_delete_message_batch_def demo_load_queue validate_batch_request_def delete_batch_entry_def
        sbind_def smap_err_def)
      (simp add: sqlite_sqs_store_def sqlite_delete_message_def)
qed

theorem batches_account_for_entries_witness:
  "mset [''a''] + mset (map bx_id [batch_error_entry ''b'' (ReceiptHandleIsInvalid ''receipt handle not found'')]) =
   mset (map fst [(''a'', ''h1''), (''b'', ''h9'')])"
  using batches_account_for_entries [THEN conjunct2, THEN conjunct1, THEN mp, OF demo_delete_batch] .

section \<open>Sending and receiving\<close>

lemma send_message_row:
  "sqlite_send_message UE msg db = (Inr (), db') \<Longrightarrow>
   (next_rowid (map fst (messages db)), msg\<lparr>m_message_attributes := Some (coalesce (m_message_attributes msg) ''{}'')\<rparr>)
     \<in> set (messages db')"
  by (auto simp: sqlite_send_message_def split: if_splits)

lemma handle_send_messageE:
  assumes "handle_send_message E (sqlite_sqs_store UE) mid request body db = (Inr resp, db')"
  obtains q delay attributes trace_header where
    "load_queue_from_url E (sqlite_sqs_store UE) request (sm_queue_url body) db = Inr q"
    "validate_message_body (sm_message_body body) (q_maximum_message_size q) = Inr ()"
    "resolve_delay_seconds (sm_delay_seconds body) (q_delay_seconds q) = Inr delay"
    "sqlite_send_message UE (new_message mid q (sm_message_body body) attributes trace_header (rr_date request) delay
       (sm_message_group_id body) (sm_message_deduplication_id body)) db = (Inr (), db')"
    "sr_message_id resp = mid" "sr_md5_of_message_body resp = x_md5 E (sm_message_body body)"
  using assms that unfolding handle_send_message_def
  by (auto simp: sbind_eq_Inr smap_err_eq sqlite_sqs_store_def simp del: sbind_slift sbind_sread)

text \<open>
  C12. A message that \<^verbatim>\<open>SendMessage\<close> accepted is delivered unchanged: once its delay is over and until
  its retention period ends, a receive on its queue with room for all ready messages hands it out
  with the body that was sent and as its first receive, whatever statements that do not touch the
  message ran in between.
\<close>

theorem sent_message_is_delivered:
  assumes "sqs_inv db" "handle_send_message E (sqlite_sqs_store UE) mid request body db = (Inr resp, db1)"
  shows "\<exists>q delay row.
      load_queue_from_url E (sqlite_sqs_store UE) request (sm_queue_url body) db = Inr q \<and>
      resolve_delay_seconds (sm_delay_seconds body) (q_delay_seconds q) = Inr delay \<and>
      row \<in> set (messages db1) \<and> sr_message_id resp = mid \<and>
      (\<forall>stmts env n vt ms db2.
         list_all (spares row) stmts \<longrightarrow>
         rr_date request + seconds delay \<le> re_now env \<longrightarrow>
         re_now env < rr_date request + seconds (q_message_retention_period_seconds q) \<longrightarrow>
         int (length (ready (q_id q) (re_now env) (messages (exec_stmts UE stmts db1)))) \<le> n \<longrightarrow>
         sqlite_receive_messages env (q_id q) n vt (exec_stmts UE stmts db1) = (Inr ms, db2) \<longrightarrow>
         (\<exists>m\<in>set ms. m_message_id m = mid \<and> m_body m = sm_message_body body \<and> m_receive_count m = 1))"
proof -
  from assms(2) obtain q delay attributes trace_header where
    q: "load_queue_from_url E (sqlite_sqs_store UE) request (sm_queue_url body) db = Inr q"
      "resolve_delay_seconds (sm_delay_seconds body) (q_delay_seconds q) = Inr delay" "sr_message_id resp = mid"
    and send: "sqlite_send_message UE (new_message mid q (sm_message_body body) attributes trace_header (rr_date request)
       delay (sm_message_group_id body) (sm_message_deduplication_id body)) db = (Inr (), db1)"
    by (rule handle_send_messageE)
  define rid where "rid = next_rowid (map fst (messages db))"
  define m where "m = (new_message mid q (sm_message_body body) attributes trace_header (rr_date request)
       delay (sm_message_group_id body) (sm_message_deduplication_id body))\<lparr>m_message_attributes := Some (coalesce attributes ''{}'')\<rparr>"
  have row: "(rid, m) \<in> set (messages db1)"
    using send_message_row [OF send] by (simp add: rid_def m_def new_message_def)
  have inv1: "sqs_inv db1" using keepsD [OF keeps_send_message assms(1)] send by (metis snd_conv)
  have "\<exists>x\<in>set ms. m_message_id x = mid \<and> m_body x = sm_message_body body \<and> m_receive_count x = 1"
    if "list_all (spares (rid, m)) stmts" "rr_date request + seconds delay \<le> re_now env"
      "re_now env < rr_date request + seconds (q_message_retention_period_seconds q)"
      "int (length (ready (q_id q) (re_now env) (messages (exec_stmts UE stmts db1)))) \<le> n"
      "sqlite_receive_messages env (q_id q) n vt (exec_stmts UE stmts db1) = (Inr ms, db2)"
    for stmts env n vt ms db2
  proof -
    have "receivable (q_id q) (re_now env) m" using that(2,3) by (simp add: m_def receivable_def new_message_def)
    from spared_row_delivered [OF inv1 row that(1) this that(4,5)]
    show ?thesis by (rule rev_bexI) (simp add: m_def new_message_def)
  qed
  with q row show ?thesis by blast
qed

definition demo_send :: send_message_request where
  "demo_send = \<lparr>sm_delay_seconds = Some 5, sm_message_attributes = None, sm_message_system_attributes = None,
     sm_message_body = ''hi'', sm_message_deduplication_id = None, sm_message_group_id = None,
     sm_queue_url = ''http://localhost:4566/000000000000/jobs''\<rparr>"

lemma demo_send_ok:
  "\<exists>resp db'. handle_send_message demo_ext (sqlite_sqs_store demo_texts) ''m7'' (demo_request ''sqs'') demo_send demo_db =
     (Inr resp, db')"
proof -
  have "validate_message_body ''hi'' 1048576 = Inr ()"
    by (simp add: validate_message_body_def rust_chars_def utf8_width_def byte_def is_valid_sqs_message_character_def)
  then show ?thesis
    by (simp add: handle_send_message_def demo_send_def demo_load_queue demo_queue_def default_sqs_queue_def
        resolve_delay_seconds_def nonempty_attributes_md5_def extract_aws_trace_header_def sbind_def smap_err_def)
      (simp add: sqlite_sqs_store_def sqlite_send_message_def new_message_def demo_db_eq demo_message_def queue_exists_def)
qed

theorem sent_message_is_delivered_witness:
  "\<exists>resp db1. handle_send_message demo_ext (sqlite_sqs_store demo_texts) ''m7'' (demo_request ''sqs'') demo_send demo_db =
       (Inr resp, db1) \<and>
     (\<exists>m \<in> set (projr (fst (sqlite_receive_messages (demo_env 5 ''h1'') 1 (int (length (messages db1))) 30 db1))).
        m_message_id m = ''m7'' \<and> m_body m = ''hi'')"
proof -
  obtain resp db1 where run: "handle_send_message demo_ext (sqlite_sqs_store demo_texts) ''m7'' (demo_request ''sqs'')
      demo_send demo_db = (Inr resp, db1)"
    using demo_send_ok by blast
  obtain q delay row where *: "load_queue_from_url demo_ext (sqlite_sqs_store demo_texts) (demo_request ''sqs'')
        (sm_queue_url demo_send) demo_db = Inr q"
      "resolve_delay_seconds (sm_delay_seconds demo_send) (q_delay_seconds q) = Inr delay"
      "row \<in> set (messages db1)" "sr_message_id resp = ''m7''"
    and deliver: "\<And>stmts env n vt ms db2. list_all (spares row) stmts \<Longrightarrow>
         rr_date (demo_request ''sqs'') + seconds delay \<le> re_now env \<Longrightarrow>
         re_now env < rr_date (demo_request ''sqs'') + seconds (q_message_retention_period_seconds q) \<Longrightarrow>
         int (length (ready (q_id q) (re_now env) (messages (exec_stmts demo_texts stmts db1)))) \<le> n \<Longrightarrow>
         sqlite_receive_messages env (q_id q) n vt (exec_stmts demo_texts stmts db1) = (Inr ms, db2) \<Longrightarrow>
         \<exists>m\<in>set ms. m_message_id m = ''m7'' \<and> m_body m = sm_message_body demo_send \<and> m_receive_count m = 1"
    using sent_message_is_delivered [OF demo_db_inv run] by blast
  have q: "q = demo_queue\<lparr>q_id := 1, q_created_at := 0\<rparr>"
    using *(1) demo_load_queue [of demo_db] by (simp add: demo_send_def)
  have delay: "delay = 5" using *(2) by (simp add: demo_send_def resolve_delay_seconds_def)
  have "lease_end (demo_env 5 ''h1'') 30 \<le> naive_datetime_max" by (simp add: demo_eval)
  note rcv = receive_Inr_projr [OF this, of 1 "int (length (messages db1))" db1]
  have "length (ready 1 (seconds 5) (messages db1)) \<le> length (messages db1)" by (simp add: ready_def)
  then have "\<exists>m \<in> set (projr (fst (sqlite_receive_messages (demo_env 5 ''h1'') 1 (int (length (messages db1))) 30 db1))).
      m_message_id m = ''m7'' \<and> m_body m = sm_message_body demo_send \<and> m_receive_count m = 1"
    using rcv by (intro deliver [of "[]" "demo_env 5 ''h1''" "int (length (messages db1))" 30])
      (simp_all add: q delay demo_env_def demo_request_def seconds_def demo_queue_def default_sqs_queue_def)
  then show ?thesis using run by (auto simp: demo_send_def)
qed

end
