(* ===== verification/Sqs_Receive.thy ===== *)
theory Sqs_Receive
  imports Sqs_Message_Actions Sqs_Delivery
begin

text \<open>
  \<^verbatim>\<open>ReceiveMessage\<close>, \<^verbatim>\<open>hiraeth_sqs/src/actions/receive_message.rs\<close>: the checks, the choice of the
  attributes that are returned, and the long-polling loop. The loop is given the sequence of its
  rounds: the clock readings and random handles of each round and what other requests do to the
  store while it sleeps. Running out of rounds is \<open>None\<close>; with a clock that respects the sleeps the
  loop is shown to end before.
\<close>

section \<open>Requests and checks\<close>

record receive_message_request =
  rm_attribute_names :: "string list"
  rm_max_number_of_messages :: int
  rm_message_attribute_names :: "string list"
  rm_message_system_attribute_names :: "string list"
  rm_queue_url :: string
  rm_visibility_timeout :: "int option"
  rm_wait_time_seconds :: "int option"

definition default_max_number_of_messages :: int where
  "default_max_number_of_messages = 1"

record received_message =
  rx_attributes :: "(string \<times> string) list"
  rx_message_attributes :: message_attributes
  rx_message_id :: string
  rx_receipt_handle :: string
  rx_body :: string
  rx_md5_of_body :: "string option"
  rx_md5_of_message_attributes :: "string option"

definition validate_receive_request :: "receive_message_request \<Rightarrow> sqs_error + unit" where
  "validate_receive_request request =
     (if \<not> (1 \<le> rm_max_number_of_messages request \<and> rm_max_number_of_messages request \<le> 10)
      then Inl (BadRequest ''MaxNumberOfMessages must be between 1 and 10'')
      else if (case rm_visibility_timeout request of None \<Rightarrow> False | Some v \<Rightarrow> v > 43200)
      then Inl (BadRequest ''VisibilityTimeout must be between 0 and 43200'')
      else if (case rm_wait_time_seconds request of None \<Rightarrow> False | Some w \<Rightarrow> w > 20)
      then Inl (BadRequest ''WaitTimeSeconds must be between 0 and 20'')
      else Inr ())"

section \<open>Attributes of a received message\<close>

definition epoch_millis :: "time \<Rightarrow> string" where
  "epoch_millis t = show_int (timestamp_millis t)"

definition should_include_system_attribute :: "string \<Rightarrow> receive_message_request \<Rightarrow> bool" where
  "should_include_system_attribute name request \<longleftrightarrow>
     list_ex (\<lambda>n. n = ''All'' \<or> n = name) (rm_attribute_names request) \<or>
     list_ex (\<lambda>n. n = ''All'' \<or> n = name) (rm_message_system_attribute_names request)"

text \<open>The insertions of \<^verbatim>\<open>select_system_attributes\<close>, each guarded by its name and its value.\<close>

definition select_system_attributes :: "receive_message_request \<Rightarrow> sqs_message \<Rightarrow> (string \<times> string) list" where
  "select_system_attributes request message =
     btreemap (concat (map (\<lambda>(name, val).
         case val of
           Some v \<Rightarrow> if should_include_system_attribute name request then [(name, v)] else []
         | None \<Rightarrow> [])
       [(''ApproximateReceiveCount'', Some (show_int (m_receive_count message))),
        (''ApproximateFirstReceiveTimestamp'', map_option epoch_millis (m_first_received_at message)),
        (''SentTimestamp'', Some (epoch_millis (m_sent_at message))),
        (''AWSTraceHeader'', m_aws_trace_header message),
        (''MessageDeduplicationId'', m_message_deduplication_id message),
        (''MessageGroupId'', m_message_group_id message)]))"

definition parse_message_attributes :: "ext \<Rightarrow> sqs_message \<Rightarrow> sqs_error + message_attributes" where
  "parse_message_attributes E message =
     (case m_message_attributes message of
        Some raw \<Rightarrow>
          if raw \<noteq> []
          then map_err (\<lambda>e. InternalError (''failed to parse stored message attributes for message '' @
                 m_message_id message @ '': '' @ e)) (x_attrs_of_json E raw)
          else Inr []
      | None \<Rightarrow> Inr [])"

definition include_requested_message_attribute :: "string \<Rightarrow> string list \<Rightarrow> bool" where
  "include_requested_message_attribute name requested =
     (if requested = [] then False
      else list_ex (\<lambda>r. r = ''All'' \<or> r = ''.*'' \<or> r = name \<or>
             (case strip_suffix ''.*'' r of None \<Rightarrow> False | Some p \<Rightarrow> starts_with p name)) requested)"

definition filter_message_attributes :: "message_attributes \<Rightarrow> string list \<Rightarrow> message_attributes" where
  "filter_message_attributes attrs requested =
     filter (\<lambda>(name, _). include_requested_message_attribute name requested) attrs"

text \<open>The closure mapped over the messages of a round.\<close>

definition receive_one :: "ext \<Rightarrow> receive_message_request \<Rightarrow> sqs_message \<Rightarrow> sqs_error + received_message" where
  "receive_one E request message =
     ebind (parse_message_attributes E message) (\<lambda>attrs.
     let message_attributes = filter_message_attributes attrs (rm_message_attribute_names request) in
     ebind (if message_attributes = [] then Inr None
            else ebind (calculate_message_attributes_md5 E message_attributes) (\<lambda>d. Inr (Some d))) (\<lambda>md5.
     Inr \<lparr>rx_attributes = select_system_attributes request message,
          rx_message_attributes = message_attributes, rx_message_id = m_message_id message,
          rx_receipt_handle = (case m_receipt_handle message of None \<Rightarrow> [] | Some h \<Rightarrow> h),
          rx_body = m_body message, rx_md5_of_body = Some (x_md5 E (m_body message)),
          rx_md5_of_message_attributes = md5\<rparr>))"

section \<open>The polling loop\<close>

text \<open>
  One round: what the store call reads, the clock reading compared with the deadline, the two
  readings that compute the sleep, and the effect of other requests during the sleep.
\<close>

record 's poll_round =
  pr_env :: receive_env
  pr_check :: time
  pr_sleep_base :: time
  pr_sleep_from :: time
  pr_others :: "'s \<Rightarrow> 's"

definition sleep_until :: "time \<Rightarrow> 's poll_round \<Rightarrow> time" where
  "sleep_until deadline r = min deadline (pr_sleep_base r + milliseconds 100)"

definition sleep_duration :: "time \<Rightarrow> 's poll_round \<Rightarrow> time" where
  "sleep_duration deadline r = max 0 (sleep_until deadline r - pr_sleep_from r)"

fun receive_loop ::
    "ext \<Rightarrow> 's sqs_store \<Rightarrow> receive_message_request \<Rightarrow> int \<Rightarrow> int \<Rightarrow> time \<Rightarrow> 's poll_round list \<Rightarrow> 's \<Rightarrow>
     ((sqs_error + received_message list) \<times> 's) option" where
  "receive_loop E store request qid vt deadline [] s = None"
| "receive_loop E store request qid vt deadline (r # rs) s =
     (case st_receive_messages store (pr_env r) qid (rm_max_number_of_messages request) vt s of
        (Inl e, s1) \<Rightarrow> Some (Inl (internal_error e), s1)
      | (Inr msgs, s1) \<Rightarrow>
          (case collect_results (receive_one E request) msgs of
             Inl e \<Rightarrow> Some (Inl e, s1)
           | Inr received \<Rightarrow>
               if received \<noteq> [] then Some (Inr received, s1)
               else if pr_check r \<ge> deadline then Some (Inr [], s1)
               else receive_loop E store request qid vt deadline rs (pr_others r s1)))"

text \<open>\<open>as u32\<close> of the queue's settings is reduction modulo \<open>2 ^ 32\<close>; \<open>start\<close> is the first clock reading.\<close>

definition handle_receive_message ::
    "ext \<Rightarrow> 's sqs_store \<Rightarrow> time \<Rightarrow> 's poll_round list \<Rightarrow> resolved_request \<Rightarrow> receive_message_request \<Rightarrow> 's \<Rightarrow>
     ((sqs_error + received_message list) \<times> 's) option" where
  "handle_receive_message E store start rounds request body s =
     (case load_queue_from_url E store request (rm_queue_url body) s of
        Inl e \<Rightarrow> Some (Inl e, s)
      | Inr queue \<Rightarrow>
          (case validate_receive_request body of
             Inl e \<Rightarrow> Some (Inl e, s)
           | Inr _ \<Rightarrow>
               let vt = (case rm_visibility_timeout body of
                           Some v \<Rightarrow> v | None \<Rightarrow> q_visibility_timeout_seconds queue mod 2 ^ 32);
                   wait = (case rm_wait_time_seconds body of
                             Some w \<Rightarrow> w | None \<Rightarrow> q_receive_message_wait_time_seconds queue mod 2 ^ 32);
                   deadline = start + seconds wait
               in receive_loop E store body (q_id queue) vt deadline rounds s))"

section \<open>The loop ends\<close>

text \<open>
  A clock that does not run backwards, and sleeps that last at least as long as asked for: the
  deadline check of the next round is not before the end of the sleep.
\<close>

fun steady_rounds :: "time \<Rightarrow> time \<Rightarrow> 's poll_round list \<Rightarrow> bool" where
  "steady_rounds deadline t [] \<longleftrightarrow> True"
| "steady_rounds deadline t (r # rs) \<longleftrightarrow>
     t \<le> pr_check r \<and> pr_check r \<le> pr_sleep_base r \<and> pr_sleep_base r \<le> pr_sleep_from r \<and>
     steady_rounds deadline (pr_sleep_from r + sleep_duration deadline r) rs"

lemma sleep_reaches: "pr_sleep_from r + sleep_duration deadline r \<ge> min deadline (pr_sleep_base r + milliseconds 100)"
  by (simp add: sleep_duration_def sleep_until_def)

lemma receive_loop_ends:
  assumes "steady_rounds deadline t rounds" "deadline \<le> t + milliseconds 100 * int k" "k < length rounds"
  shows "receive_loop E store request qid vt deadline rounds s \<noteq> None"
  using assms
proof (induction rounds arbitrary: t k s)
  case (Cons r rs)
  show ?case
  proof (cases k)
    case 0
    then have "deadline \<le> pr_check r" using Cons.prems by simp
    then show ?thesis by (auto split: prod.split sum.split)
  next
    case (Suc j)
    have "receive_loop E store request qid vt deadline rs s' \<noteq> None" for s'
    proof (rule Cons.IH)
      let ?t = "pr_sleep_from r + sleep_duration deadline r"
      show "steady_rounds deadline ?t rs" using Cons.prems(1) by simp
      have "min deadline (t + milliseconds 100) \<le> ?t"
        using sleep_reaches [of deadline r] Cons.prems(1) by auto
      then show "deadline \<le> ?t + milliseconds 100 * int j"
        using Cons.prems(2) Suc by (auto simp: milliseconds_def min_def split: if_splits)
      show "j < length rs" using Cons.prems(3) Suc by simp
    qed
    then show ?thesis by (simp split: prod.split sum.split)
  qed
qed simp

definition effective_wait :: "receive_message_request \<Rightarrow> sqs_queue \<Rightarrow> int" where
  "effective_wait body queue =
     (case rm_wait_time_seconds body of
        Some w \<Rightarrow> w | None \<Rightarrow> q_receive_message_wait_time_seconds queue mod 2 ^ 32)"

text \<open>
  C33. Long polling ends: a \<^verbatim>\<open>ReceiveMessage\<close> request that waits \<open>w\<close> seconds returns within \<open>10 w + 1\<close>
  rounds, with any store and whatever other requests do to it meanwhile, as long as the clock does
  not run backwards and sleeps last as long as asked for. With the largest wait of 20 seconds
  that is 201 rounds.
\<close>

theorem long_poll_ends:
  assumes "load_queue_from_url E store request (rm_queue_url body) s = Inr queue"
    and "steady_rounds (start + seconds (effective_wait body queue)) start rounds"
    and "10 * effective_wait body queue < int (length rounds)" "rounds \<noteq> []"
  shows "\<exists>result s'. handle_receive_message E store start rounds request body s = Some (result, s')"
proof (cases "validate_receive_request body")
  case (Inl e)
  then show ?thesis using assms(1) by (simp add: handle_receive_message_def)
next
  case (Inr u)
  let ?w = "effective_wait body queue" and ?k = "nat (10 * effective_wait body queue)"
  have "start + seconds ?w \<le> start + milliseconds 100 * int ?k"
    by (simp add: seconds_def milliseconds_def)
  moreover have "?k < length rounds" 
  proof -
    have "0 < length rounds" using assms(4) by simp
    with assms(3) show ?thesis by linarith
  qed
  ultimately have "receive_loop E store body qid vt (start + seconds ?w) rounds s \<noteq> None" for qid vt
    using receive_loop_ends [OF assms(2)] by blast
  then show ?thesis
    using assms(1) Inr by (auto simp: handle_receive_message_def effective_wait_def Let_def)
qed

definition demo_receive_request :: receive_message_request where
  "demo_receive_request = \<lparr>rm_attribute_names = [''All''], rm_max_number_of_messages = 10,
     rm_message_attribute_names = [], rm_message_system_attribute_names = [],
     rm_queue_url = ''http://localhost:4566/000000000000/jobs'', rm_visibility_timeout = Some 30,
     rm_wait_time_seconds = Some 0\<rparr>"

definition demo_round :: "sqs_db poll_round" where
  "demo_round = \<lparr>pr_env = \<lparr>re_now = 0, re_lease_now = 0, re_handle = (\<lambda>_. ''h1'')\<rparr>, pr_check = 0,
     pr_sleep_base = 0, pr_sleep_from = 0, pr_others = id\<rparr>"

theorem long_poll_ends_witness:
  "\<exists>result db'. handle_receive_message demo_ext (sqlite_sqs_store demo_texts) 0 [demo_round] (demo_request ''sqs'')
     demo_receive_request demo_db = Some (result, db')"
proof (rule long_poll_ends)
  show "load_queue_from_url demo_ext (sqlite_sqs_store demo_texts) (demo_request ''sqs'')
      (rm_queue_url demo_receive_request) demo_db = Inr (demo_queue\<lparr>q_id := 1, q_created_at := 0\<rparr>)"
    by (simp add: demo_load_queue demo_receive_request_def)
qed (simp_all add: effective_wait_def demo_receive_request_def demo_round_def seconds_def)

section \<open>What it returns\<close>

definition effective_visibility :: "receive_message_request \<Rightarrow> sqs_queue \<Rightarrow> int" where
  "effective_visibility body queue =
     (case rm_visibility_timeout body of
        Some v \<Rightarrow> v | None \<Rightarrow> q_visibility_timeout_seconds queue mod 2 ^ 32)"

lemma receive_one_fields:
  "receive_one E body m = Inr x \<Longrightarrow>
   rx_message_id x = m_message_id m \<and> rx_body x = m_body m \<and> rx_md5_of_body x = Some (x_md5 E (m_body m)) \<and>
   rx_receipt_handle x = (case m_receipt_handle m of None \<Rightarrow> [] | Some h \<Rightarrow> h)"
  by (auto simp: receive_one_def Let_def split: if_splits)

text \<open>
  A \<^verbatim>\<open>ReceiveMessage\<close> request returns in its first round when messages are ready: it then gives
  the minimum of the requested and the ready number of messages, each of them a row of the queue
  with its id and body, now leased under the receipt handle that is returned. The hypothesis on
  \<open>receive_one\<close> says that the stored attributes can be read back.
\<close>

theorem receive_action_delivers:
  assumes "sqs_inv db" "load_queue_from_url E (sqlite_sqs_store UE) request (rm_queue_url body) db = Inr q"
    and "validate_receive_request body = Inr ()"
    and "lease_end (pr_env r) (effective_visibility body q) \<le> naive_datetime_max"
    and "ready (q_id q) (re_now (pr_env r)) (messages db) \<noteq> []"
    and "\<forall>row\<in>set (messages db). \<exists>x. receive_one E body (lease_row (pr_env r) (effective_visibility body q) row) = Inr x"
  shows "\<exists>received db'.
      handle_receive_message E (sqlite_sqs_store UE) start (r # rs) request body db = Some (Inr received, db') \<and>
      length received = min (nat (rm_max_number_of_messages body)) (length (ready (q_id q) (re_now (pr_env r)) (messages db))) \<and>
      received \<noteq> [] \<and>
      (\<forall>x\<in>set received. \<exists>row\<in>set (messages db'). m_queue_id (snd row) = q_id q \<and>
         rx_message_id x = m_message_id (snd row) \<and> rx_body x = m_body (snd row) \<and>
         m_receipt_handle (snd row) = Some (rx_receipt_handle x) \<and>
         m_visible_at (snd row) = lease_end (pr_env r) (effective_visibility body q))"
proof -
  let ?vt = "effective_visibility body q" and ?n = "rm_max_number_of_messages body"
  let ?rcv = "sqlite_receive_messages (pr_env r) (q_id q) ?n ?vt db"
  have n: "1 \<le> ?n" using assms(3) by (auto simp: validate_receive_request_def split: if_splits)
  obtain ms db' where rcv: "?rcv = (Inr ms, db')" using receive_eq [OF assms(4)] by blast
  have len: "length ms = min (nat ?n) (length (ready (q_id q) (re_now (pr_env r)) (messages db)))"
    using receive_length [OF assms(1) _ rcv] n by simp
  moreover have "0 < nat ?n" "0 < length (ready (q_id q) (re_now (pr_env r)) (messages db))"
    using n assms(5) by simp_all
  ultimately have "ms \<noteq> []" by (metis length_0_conv min_def neq0_conv)
  have row: "\<exists>row\<in>set (messages db). handed_out (pr_env r) (q_id q) ?n db row \<and> m = lease_row (pr_env r) ?vt row"
    if "m \<in> set ms" for m using receive_result_iff [OF rcv] that by blast
  then have "\<forall>m\<in>set ms. \<exists>x. receive_one E body m = Inr x" using assms(6) by blast
  then obtain received where col: "collect_results (receive_one E body) ms = Inr received"
    by (auto simp: collect_results_Inr_iff)
  then have rec: "map (receive_one E body) ms = map Inr received" by (simp add: collect_results_eq_Inr)
  then have "length received = length ms" by (metis length_map)
  then have ne: "received \<noteq> []" using \<open>ms \<noteq> []\<close> by auto
  have "handle_receive_message E (sqlite_sqs_store UE) start (r # rs) request body db = Some (Inr received, db')"
    using assms(2,3) rcv col ne
    by (simp add: handle_receive_message_def effective_visibility_def Let_def)
      (simp add: sqlite_sqs_store_def)
  moreover have "\<exists>row\<in>set (messages db'). m_queue_id (snd row) = q_id q \<and>
       rx_message_id x = m_message_id (snd row) \<and> rx_body x = m_body (snd row) \<and>
       m_receipt_handle (snd row) = Some (rx_receipt_handle x) \<and> m_visible_at (snd row) = lease_end (pr_env r) ?vt"
    if "x \<in> set received" for x
  proof -
    have "Inr x \<in> receive_one E body ` set ms" using rec that by (metis image_eqI list.set_map)
    then obtain m where m: "m \<in> set ms" "receive_one E body m = Inr x" by auto
    with row obtain w where w: "w \<in> set (messages db)" "handed_out (pr_env r) (q_id q) ?n db w" "m = lease_row (pr_env r) ?vt w"
      by blast
    then have "(fst w, m) \<in> set (messages db')" "m_queue_id m = q_id q"
      using receive_table_handed_out [OF rcv] handed_out_receivable [OF assms(1)] by (auto simp: receivable_def)
    then show ?thesis using receive_one_fields [OF m(2)] w(3) by (intro bexI [of _ "(fst w, m)"]) simp_all
  qed
  ultimately show ?thesis using len ne \<open>length received = length ms\<close>
    by (intro exI [of _ received] exI [of _ db'] conjI ballI) simp_all
qed

theorem receive_action_delivers_witness:
  "\<exists>received db'. handle_receive_message demo_ext (sqlite_sqs_store demo_texts) 0 [demo_round] (demo_request ''sqs'')
     demo_receive_request demo_db = Some (Inr received, db') \<and> length received = 1"
proof -
  let ?q = "demo_queue\<lparr>q_id := 1, q_created_at := 0\<rparr>"
  have ready: "length (ready 1 0 (messages demo_db)) = 1"
    by (simp add: demo_db_eq ready_def receivable_def demo_message_def seconds_def)
  have parse: "parse_message_attributes demo_ext m = Inr []" for m
    by (simp add: parse_message_attributes_def demo_ext_def split: option.split)
  have one: "\<exists>x. receive_one demo_ext demo_receive_request (lease_row (pr_env demo_round)
      (effective_visibility demo_receive_request ?q) row) = Inr x" for row
    by (simp add: receive_one_def parse filter_message_attributes_def)
  have "\<exists>received db'.
      handle_receive_message demo_ext (sqlite_sqs_store demo_texts) 0 [demo_round] (demo_request ''sqs'')
        demo_receive_request demo_db = Some (Inr received, db') \<and>
      length received = min (nat (rm_max_number_of_messages demo_receive_request))
        (length (ready (q_id ?q) (re_now (pr_env demo_round)) (messages demo_db))) \<and>
      received \<noteq> [] \<and>
      (\<forall>x\<in>set received. \<exists>row\<in>set (messages db'). m_queue_id (snd row) = q_id ?q \<and>
         rx_message_id x = m_message_id (snd row) \<and> rx_body x = m_body (snd row) \<and>
         m_receipt_handle (snd row) = Some (rx_receipt_handle x) \<and>
         m_visible_at (snd row) = lease_end (pr_env demo_round) (effective_visibility demo_receive_request ?q))"
    by (rule receive_action_delivers [OF demo_db_inv])
      (use ready one in \<open>auto simp: demo_load_queue demo_receive_request_def validate_receive_request_def
        effective_visibility_def demo_round_def seconds_def naive_datetime_max_def\<close>)
  then show ?thesis using ready by (auto simp: demo_receive_request_def demo_round_def)
qed

section \<open>The invariant\<close>

context sqs_store_contract
begin

lemma keeps_message_actions:
  "keeps inv (handle_send_message E store mid request sm)"
  "keeps inv (enqueue_message E store mid queue text attrs system_attrs group_id deduplication_id date)"
  "keeps inv (handle_delete_message E store request url receipt)"
  "keeps inv (handle_change_message_visibility E store now request url receipt vt)"
  by (auto simp: handle_send_message_def enqueue_message_def handle_delete_message_def
      handle_change_message_visibility_def intro!: keeps_sbind keeps_smap_err keeps_all)

lemma keeps_batch_entries:
  "keeps inv (send_batch_entry E store mids request queue i se)"
  "keeps inv (delete_batch_entry store queue i de)"
  "keeps inv (change_visibility_batch_entry store nows queue i ce)"
  by (auto simp: send_batch_entry_def delete_batch_entry_def change_visibility_batch_entry_def
      intro!: keeps_sbind keeps_smap_err keeps_all)

lemma run_entries_keeps:
  "(\<And>i x. keeps inv (f i x)) \<Longrightarrow> inv s \<Longrightarrow> inv (snd (run_entries f i xs s))"
proof (induction xs arbitrary: i s)
  case (Cons x xs)
  obtain r s1 where r: "f i x s = (r, s1)" by (cases "f i x s")
  then have "inv s1" using keepsD [OF Cons.prems(1,2), of i x] by simp
  from Cons.IH [OF Cons.prems(1) this, of "Suc i"] r show ?case by (simp add: split_beta)
qed simp

lemma keeps_batch_actions:
  "keeps inv (handle_send_message_batch E store mids request url sends)"
  "keeps inv (handle_delete_message_batch E store request url deletes)"
  "keeps inv (handle_change_message_visibility_batch E store nows request url changes)"
proof -
  have run: "keeps inv (\<lambda>s. case run_entries f i xs s of (rs, s') \<Rightarrow> (Inr (oks rs, errs rs), s'))"
    if "\<And>i x. keeps inv (f i x)" for f i xs
    using run_entries_keeps [OF that] by (intro keepsI) (simp add: split_beta)
  show "keeps inv (handle_send_message_batch E store mids request url sends)"
    "keeps inv (handle_delete_message_batch E store request url deletes)"
    "keeps inv (handle_change_message_visibility_batch E store nows request url changes)"
    unfolding handle_send_message_batch_def handle_delete_message_batch_def handle_change_message_visibility_batch_def
    by (intro keeps_sbind keeps_sread keeps_slift run keeps_batch_entries)+
qed

lemma receive_loop_keeps:
  assumes "\<And>r s. r \<in> set rounds \<Longrightarrow> inv s \<Longrightarrow> inv (pr_others r s)"
  shows "inv s \<Longrightarrow> receive_loop E store request qid vt deadline rounds s = Some (result, s') \<Longrightarrow> inv s'"
  using assms
proof (induction rounds arbitrary: s)
  case (Cons r rs)
  let ?n = "rm_max_number_of_messages request"
  obtain x s1 where x: "st_receive_messages store (pr_env r) qid ?n vt s = (x, s1)"
    by (cases "st_receive_messages store (pr_env r) qid ?n vt s")
  have "inv s1" using keepsD [OF keeps_all(8) Cons.prems(1), of "pr_env r" qid ?n vt] x by simp
  moreover have "inv (pr_others r s1)" using Cons.prems(3) \<open>inv s1\<close> by simp
  ultimately show ?case
    using Cons.IH [of "pr_others r s1"] Cons.prems x by (auto split: sum.splits if_splits)
qed simp

lemma receive_keeps:
  assumes "\<And>r s. r \<in> set rounds \<Longrightarrow> inv s \<Longrightarrow> inv (pr_others r s)" "inv s"
    and "handle_receive_message E store start rounds request body s = Some (result, s')"
  shows "inv s'"
  using assms receive_loop_keeps [OF assms(1,2)]
  by (auto simp: handle_receive_message_def Let_def split: sum.splits)

end

end
