(* ===== verification/Sqs_Service.thy ===== *)
theory Sqs_Service
  imports Sqs_Receive Router
begin

text \<open>
  The SQS service as the router sees it: \<^verbatim>\<open>hiraeth_sqs/src/lib.rs\<close>, \<^verbatim>\<open>auth.rs\<close> and the registry of
  \<^verbatim>\<open>actions/mod.rs\<close>. The JSON decoding of the request types and encoding of the response types is
  derived by \<^verbatim>\<open>serde\<close>; a record of decoders and encoders stands for it. What a request reads from
  its environment (clock, random ids, polling rounds) is a record too.
\<close>

section \<open>Environment and codecs\<close>

record 's sqs_env =
  ev_now :: time
  ev_db_now :: time
  ev_message_id :: string
  ev_message_ids :: "nat \<Rightarrow> string"
  ev_nows :: "nat \<Rightarrow> time"
  ev_counts :: count_clock
  ev_start :: time
  ev_rounds :: "'s poll_round list"

record sqs_codec =
  dec_create_queue :: "string \<Rightarrow> string + create_queue_request"
  dec_queue_url :: "string \<Rightarrow> string + string"
  dec_get_queue_attributes :: "string \<Rightarrow> string + string \<times> string list"
  dec_get_queue_url :: "string \<Rightarrow> string + string \<times> string option"
  dec_list_queues :: "string \<Rightarrow> string + list_queues_request"
  dec_receive_message :: "string \<Rightarrow> string + receive_message_request"
  dec_send_message :: "string \<Rightarrow> string + send_message_request"
  dec_send_message_batch :: "string \<Rightarrow> string + string \<times> send_message_batch_entry list"
  dec_set_queue_attributes :: "string \<Rightarrow> string + string \<times> attribute_map"
  dec_tag_queue :: "string \<Rightarrow> string + string \<times> (string \<times> string) list"
  dec_untag_queue :: "string \<Rightarrow> string + string \<times> string list"
  dec_change_message_visibility :: "string \<Rightarrow> string + string \<times> string \<times> int"
  dec_change_message_visibility_batch :: "string \<Rightarrow> string + string \<times> change_visibility_entry list"
  dec_delete_message :: "string \<Rightarrow> string + string \<times> string"
  dec_delete_message_batch :: "string \<Rightarrow> string + string \<times> (string \<times> string) list"
  dec_queue_url_field :: "string \<Rightarrow> string + string option"
  enc_queue_url :: "string \<Rightarrow> string + string"
  enc_list_queues :: "string list \<times> string option \<Rightarrow> string + string"
  enc_attributes :: "attribute_map \<Rightarrow> string + string"
  enc_tags :: "(string \<times> string) list \<Rightarrow> string + string"
  enc_received :: "received_message list \<Rightarrow> string + string"
  enc_send_message :: "send_message_response \<Rightarrow> string + string"
  enc_send_message_batch :: "send_message_batch_result_entry list \<times> batch_result_error_entry list \<Rightarrow> string + string"
  enc_batch :: "string list \<times> batch_result_error_entry list \<Rightarrow> string + string"

definition parse_request_body :: "(string \<Rightarrow> string + 'p) \<Rightarrow> resolved_request \<Rightarrow> sqs_error + 'p" where
  "parse_request_body dec request =
     map_err (\<lambda>e. BadRequest (''Invalid request body: '' @ e)) (dec (ir_body (rr_request request)))"

definition render_json :: "('r \<Rightarrow> string + string) \<Rightarrow> 'r \<Rightarrow> sqs_error + service_response" where
  "render_json enc r =
     ebind (map_err (\<lambda>e. InternalError (''failed to serialize response: '' @ e)) (enc r)) (\<lambda>body.
     Inr (json_response body))"

definition render_empty :: "unit \<Rightarrow> sqs_error + service_response" where
  "render_empty u = Inr empty_response"

section \<open>Authorization\<close>

definition get_queue_url_from_request :: "sqs_codec \<Rightarrow> resolved_request \<Rightarrow> sqs_error + string" where
  "get_queue_url_from_request C request =
     ebind (map_err (\<lambda>e. BadRequest (''Invalid JSON body: '' @ e)) (dec_queue_url_field C (ir_body (rr_request request))))
       (ok_or (BadRequest ''Missing QueueUrl in request body''))"

definition get_queue_from_request ::
    "ext \<Rightarrow> sqs_codec \<Rightarrow> 's sqs_store \<Rightarrow> resolved_request \<Rightarrow> 's \<Rightarrow> sqs_error + sqs_queue" where
  "get_queue_from_request E C store request s =
     ebind (get_queue_url_from_request C request) (\<lambda>url. load_queue_from_url E store request url s)"

definition get_relevant_queue_for_action ::
    "ext \<Rightarrow> sqs_codec \<Rightarrow> 's sqs_store \<Rightarrow> string \<Rightarrow> resolved_request \<Rightarrow> 's \<Rightarrow> sqs_error + sqs_queue option" where
  "get_relevant_queue_for_action E C store action request s =
     (if action = ''sqs:ListQueues'' then Inr None
      else if action = ''sqs:CreateQueue'' then Inr None
      else if action = ''sqs:GetQueueUrl''
      then ebind (parse_request_body (dec_get_queue_url C) request) (\<lambda>(name, owner).
             map_err internal_error (st_get_queue store name (rr_region request)
               (case owner of None \<Rightarrow> req_account request | Some a \<Rightarrow> a) s))
      else ebind (get_queue_from_request E C store request s) (\<lambda>q. Inr (Some q)))"

definition sqs_resolve_authorization ::
    "ext \<Rightarrow> sqs_codec \<Rightarrow> 's sqs_store \<Rightarrow> string \<Rightarrow> resolved_request \<Rightarrow> 's \<Rightarrow> sqs_error + authorization_check" where
  "sqs_resolve_authorization E C store action request s =
     ebind (get_relevant_queue_for_action E C store action request s) (\<lambda>relevant_queue.
     Inr \<lparr>chk_action = action,
          chk_resource = (case relevant_queue of
              Some q \<Rightarrow> get_queue_arn q
            | None \<Rightarrow> ''arn:aws:sqs:'' @ rr_region request @ '':'' @ req_account request @ '':*''),
          chk_resource_policy = map_option (\<lambda>q. case x_policy E (q_policy q) of Inl _ \<Rightarrow> default_policy | Inr p \<Rightarrow> p)
            relevant_queue\<rparr>)"

definition operation_names :: "string list" where
  "operation_names =
     [''CreateQueue'', ''DeleteQueue'', ''GetQueueAttributes'', ''GetQueueUrl'', ''ListQueueTags'', ''ListQueues'',
      ''PurgeQueue'', ''ReceiveMessage'', ''SendMessage'', ''SendMessageBatch'', ''SetQueueAttributes'', ''TagQueue'',
      ''UntagQueue'', ''ChangeMessageVisibility'', ''ChangeMessageVisibilityBatch'', ''DeleteMessage'',
      ''DeleteMessageBatch'']"

definition target_to_operation_name :: "string \<Rightarrow> sqs_error + string" where
  "target_to_operation_name target =
     ebind (ok_or (UnsupportedOperation target) (strip_prefix ''AmazonSQS.'' target)) (\<lambda>action.
     if action \<in> set operation_names then Inr action else Inl (UnsupportedOperation target))"

definition get_action_name_for_request :: "resolved_request \<Rightarrow> sqs_error + string" where
  "get_action_name_for_request request =
     (case map_of (ir_headers (rr_request request)) ''x-amz-target'' of
        Some value \<Rightarrow> target_to_operation_name value
      | None \<Rightarrow> Inl (BadRequest ''Missing x-amz-target header''))"

section \<open>The registry\<close>

text \<open>One registration: the adapter around a typed action with JSON payload.\<close>

definition sqs_action ::
    "ext \<Rightarrow> sqs_codec \<Rightarrow> 's sqs_store \<Rightarrow> string \<Rightarrow> string \<Rightarrow> (string \<Rightarrow> string + 'p) \<Rightarrow>
     (resolved_request \<Rightarrow> 'p \<Rightarrow> 's \<Rightarrow> sqs_error + unit) \<Rightarrow> (resolved_request \<Rightarrow> 'p \<Rightarrow> ('s, sqs_error, 'r) store_op) \<Rightarrow>
     ('r \<Rightarrow> sqs_error + service_response) \<Rightarrow> 's aws_action" where
  "sqs_action E C store name authorize_action dec validate handler render =
     typed_action_adapter
       \<lparr>ta_name = name, ta_parse = parse_request_body dec, ta_validate = validate, ta_handle = handler,
        ta_resolve_authorization = (\<lambda>req _ s. sqs_resolve_authorization E C store authorize_action req s),
        ta_render = render, ta_error_response = sqs_error_response E\<rparr>"

definition no_validation :: "resolved_request \<Rightarrow> 'p \<Rightarrow> 's \<Rightarrow> sqs_error + unit" where
  "no_validation req p s = Inr ()"

text \<open>
  The handler of \<^verbatim>\<open>ReceiveMessage\<close> in the registry. Its loop ends before the rounds of the
  environment run out (\<open>long_poll_ends\<close>); the error for the other case is never returned then.
\<close>

definition receive_handler ::
    "ext \<Rightarrow> 's sqs_store \<Rightarrow> 's sqs_env \<Rightarrow> resolved_request \<Rightarrow> receive_message_request \<Rightarrow>
     ('s, sqs_error, received_message list) store_op" where
  "receive_handler E store env req body s =
     (case handle_receive_message E store (ev_start env) (ev_rounds env) req body s of
        Some rs \<Rightarrow> rs
      | None \<Rightarrow> (Inl (InternalError ''out of polling rounds''), s))"

definition change_message_visibility_action :: "ext \<Rightarrow> sqs_codec \<Rightarrow> 's sqs_store \<Rightarrow> 's sqs_env \<Rightarrow> 's aws_action" where
  "change_message_visibility_action E C store env =
     sqs_action E C store ''ChangeMessageVisibility'' ''sqs:ChangeMessageVisibility'' (dec_change_message_visibility C)
       (\<lambda>_ (_, _, vt) _. validate_visibility_timeout vt)
       (\<lambda>req (url, h, vt). handle_change_message_visibility E store (ev_now env) req url h vt) render_empty"

definition change_message_visibility_batch_action :: "ext \<Rightarrow> sqs_codec \<Rightarrow> 's sqs_store \<Rightarrow> 's sqs_env \<Rightarrow> 's aws_action" where
  "change_message_visibility_batch_action E C store env =
     sqs_action E C store ''ChangeMessageVisibilityBatch'' ''sqs:ChangeMessageVisibility''
       (dec_change_message_visibility_batch C)
       (\<lambda>_ (_, entries) _. validate_entry_ids (map cv_id entries))
       (\<lambda>req (url, entries). handle_change_message_visibility_batch E store (ev_nows env) req url entries)
       (render_json (enc_batch C))"

definition create_queue_action :: "ext \<Rightarrow> sqs_codec \<Rightarrow> 's sqs_store \<Rightarrow> 's sqs_env \<Rightarrow> 's aws_action" where
  "create_queue_action E C store env =
     sqs_action E C store ''CreateQueue'' ''sqs:CreateQueue'' (dec_create_queue C)
       (\<lambda>_ body _. validate_create_queue E body)
       (handle_create_queue E store (ev_now env) (ev_db_now env)) (render_json (enc_queue_url C))"

definition delete_message_action :: "ext \<Rightarrow> sqs_codec \<Rightarrow> 's sqs_store \<Rightarrow> 's aws_action" where
  "delete_message_action E C store =
     sqs_action E C store ''DeleteMessage'' ''sqs:DeleteMessage'' (dec_delete_message C) no_validation
       (\<lambda>req (url, h). handle_delete_message E store req url h) render_empty"

definition delete_message_batch_action :: "ext \<Rightarrow> sqs_codec \<Rightarrow> 's sqs_store \<Rightarrow> 's aws_action" where
  "delete_message_batch_action E C store =
     sqs_action E C store ''DeleteMessageBatch'' ''sqs:DeleteMessage'' (dec_delete_message_batch C)
       (\<lambda>_ (_, entries) _. validate_entry_ids (map fst entries))
       (\<lambda>req (url, entries). handle_delete_message_batch E store req url entries) (render_json (enc_batch C))"

definition delete_queue_action :: "ext \<Rightarrow> sqs_codec \<Rightarrow> 's sqs_store \<Rightarrow> 's aws_action" where
  "delete_queue_action E C store =
     sqs_action E C store ''DeleteQueue'' ''sqs:DeleteQueue'' (dec_queue_url C) no_validation
       (handle_delete_queue E store) render_empty"

definition get_queue_attributes_action :: "ext \<Rightarrow> sqs_codec \<Rightarrow> 's sqs_store \<Rightarrow> 's sqs_env \<Rightarrow> 's aws_action" where
  "get_queue_attributes_action E C store env =
     sqs_action E C store ''GetQueueAttributes'' ''sqs:GetQueueAttributes'' (dec_get_queue_attributes C) no_validation
       (\<lambda>req (url, names). handle_get_queue_attributes E store (ev_counts env) req url names)
       (render_json (enc_attributes C))"

definition get_queue_url_action :: "ext \<Rightarrow> sqs_codec \<Rightarrow> 's sqs_store \<Rightarrow> 's aws_action" where
  "get_queue_url_action E C store =
     sqs_action E C store ''GetQueueUrl'' ''sqs:GetQueueUrl'' (dec_get_queue_url C)
       (\<lambda>_ (name, _) _. validate_get_queue_url name)
       (\<lambda>req (name, owner). handle_get_queue_url store req name owner) (render_json (enc_queue_url C))"

definition list_queue_tags_action :: "ext \<Rightarrow> sqs_codec \<Rightarrow> 's sqs_store \<Rightarrow> 's aws_action" where
  "list_queue_tags_action E C store =
     sqs_action E C store ''ListQueueTags'' ''sqs:ListQueueTags'' (dec_queue_url C) no_validation
       (handle_list_queue_tags E store) (render_json (enc_tags C))"

definition list_queues_action :: "ext \<Rightarrow> sqs_codec \<Rightarrow> 's sqs_store \<Rightarrow> 's aws_action" where
  "list_queues_action E C store =
     sqs_action E C store ''ListQueues'' ''sqs:ListQueues'' (dec_list_queues C)
       (\<lambda>_ body _. validate_list_queues_request body) (handle_list_queues store) (render_json (enc_list_queues C))"

definition purge_queue_action :: "ext \<Rightarrow> sqs_codec \<Rightarrow> 's sqs_store \<Rightarrow> 's aws_action" where
  "purge_queue_action E C store =
     sqs_action E C store ''PurgeQueue'' ''sqs:PurgeQueue'' (dec_queue_url C) no_validation
       (handle_purge_queue E store) render_empty"

definition receive_message_action :: "ext \<Rightarrow> sqs_codec \<Rightarrow> 's sqs_store \<Rightarrow> 's sqs_env \<Rightarrow> 's aws_action" where
  "receive_message_action E C store env =
     sqs_action E C store ''ReceiveMessage'' ''sqs:ReceiveMessage'' (dec_receive_message C)
       (\<lambda>_ body _. validate_receive_request body) (receive_handler E store env) (render_json (enc_received C))"

definition send_message_action :: "ext \<Rightarrow> sqs_codec \<Rightarrow> 's sqs_store \<Rightarrow> 's sqs_env \<Rightarrow> 's aws_action" where
  "send_message_action E C store env =
     sqs_action E C store ''SendMessage'' ''sqs:SendMessage'' (dec_send_message C)
       (validate_send_message E store)
       (handle_send_message E store (ev_message_id env)) (render_json (enc_send_message C))"

definition send_message_batch_action :: "ext \<Rightarrow> sqs_codec \<Rightarrow> 's sqs_store \<Rightarrow> 's sqs_env \<Rightarrow> 's aws_action" where
  "send_message_batch_action E C store env =
     sqs_action E C store ''SendMessageBatch'' ''sqs:SendMessage'' (dec_send_message_batch C)
       (\<lambda>req (url, entries). validate_send_message_batch E store req url entries)
       (\<lambda>req (url, entries). handle_send_message_batch E store (ev_message_ids env) req url entries)
       (render_json (enc_send_message_batch C))"

definition set_queue_attributes_action :: "ext \<Rightarrow> sqs_codec \<Rightarrow> 's sqs_store \<Rightarrow> 's sqs_env \<Rightarrow> 's aws_action" where
  "set_queue_attributes_action E C store env =
     sqs_action E C store ''SetQueueAttributes'' ''sqs:SetQueueAttributes'' (dec_set_queue_attributes C)
       (\<lambda>_ (_, attributes) _. validate_set_queue_attributes E attributes)
       (\<lambda>req (url, attributes). handle_set_queue_attributes E store (ev_db_now env) req url attributes) render_empty"

definition tag_queue_action :: "ext \<Rightarrow> sqs_codec \<Rightarrow> 's sqs_store \<Rightarrow> 's aws_action" where
  "tag_queue_action E C store =
     sqs_action E C store ''TagQueue'' ''sqs:TagQueue'' (dec_tag_queue C)
       (\<lambda>_ (_, tags) _. validate_tags tags False)
       (\<lambda>req (url, tags). handle_tag_queue E store req url tags) render_empty"

definition untag_queue_action :: "ext \<Rightarrow> sqs_codec \<Rightarrow> 's sqs_store \<Rightarrow> 's aws_action" where
  "untag_queue_action E C store =
     sqs_action E C store ''UntagQueue'' ''sqs:UntagQueue'' (dec_untag_queue C)
       (\<lambda>_ (_, keys) _. validate_tag_keys keys False)
       (\<lambda>req (url, keys). handle_untag_queue E store req url keys) render_empty"

definition sqs_registry :: "ext \<Rightarrow> sqs_codec \<Rightarrow> 's sqs_store \<Rightarrow> 's sqs_env \<Rightarrow> 's registry" where
  "sqs_registry E C store env =
     [change_message_visibility_action E C store env,
      change_message_visibility_batch_action E C store env,
      create_queue_action E C store env,
      delete_message_action E C store,
      delete_message_batch_action E C store,
      delete_queue_action E C store,
      get_queue_attributes_action E C store env,
      get_queue_url_action E C store,
      list_queue_tags_action E C store,
      list_queues_action E C store,
      purge_queue_action E C store,
      receive_message_action E C store env,
      send_message_action E C store env,
      send_message_batch_action E C store env,
      set_queue_attributes_action E C store env,
      tag_queue_action E C store,
      untag_queue_action E C store]"

lemmas sqs_actions_def =
  change_message_visibility_action_def
  change_message_visibility_batch_action_def
  create_queue_action_def
  delete_message_action_def
  delete_message_batch_action_def
  delete_queue_action_def
  get_queue_attributes_action_def
  get_queue_url_action_def
  list_queue_tags_action_def
  list_queues_action_def
  purge_queue_action_def
  receive_message_action_def
  send_message_action_def
  send_message_batch_action_def
  set_queue_attributes_action_def
  tag_queue_action_def
  untag_queue_action_def

lemmas sqs_registry_unfold = sqs_registry_def sqs_actions_def

section \<open>The service\<close>

definition sqs_can_handle :: "resolved_request \<Rightarrow> bool" where
  "sqs_can_handle request \<longleftrightarrow> rr_service request = ''sqs''"

definition sqs_handle_request ::
    "ext \<Rightarrow> 's registry \<Rightarrow> resolved_request \<Rightarrow> 's \<Rightarrow> (api_error + service_response) \<times> 's" where
  "sqs_handle_request E reg request s =
     (case get_action_name_for_request request of
        Inr action_name \<Rightarrow>
          (case registry_handle reg action_name request s of
             Some (response, s') \<Rightarrow> (Inr response, s')
           | None \<Rightarrow> (Inr (sqs_error_response E (UnsupportedOperation action_name)), s))
      | Inl (BadRequest message) \<Rightarrow>
          if message = ''Missing x-amz-target header'' then (Inl (ApiNotFound message), s)
          else (Inr (sqs_error_response E (BadRequest message)), s)
      | Inl error \<Rightarrow> (Inr (sqs_error_response E error), s))"

definition sqs_service_resolve_authorization ::
    "ext \<Rightarrow> 's registry \<Rightarrow> resolved_request \<Rightarrow> 's \<Rightarrow> service_response + authorization_check" where
  "sqs_service_resolve_authorization E reg request s =
     ebind (map_err (sqs_error_response E) (get_action_name_for_request request)) (\<lambda>action_name.
     ebind (ok_or (sqs_error_response E (UnsupportedOperation action_name)) (registry_get reg action_name)) (\<lambda>action.
     act_resolve_authorization action request s))"

definition sqs_validate_request ::
    "ext \<Rightarrow> 's registry \<Rightarrow> resolved_request \<Rightarrow> 's \<Rightarrow> service_response + unit" where
  "sqs_validate_request E reg request s =
     ebind (map_err (sqs_error_response E) (get_action_name_for_request request)) (\<lambda>action_name.
     case registry_validate reg action_name request s of
       None \<Rightarrow> Inl (sqs_error_response E (UnsupportedOperation action_name))
     | Some r \<Rightarrow> r)"

definition sqs_service :: "ext \<Rightarrow> sqs_codec \<Rightarrow> 's sqs_store \<Rightarrow> 's sqs_env \<Rightarrow> 's service" where
  "sqs_service E C store env =
     (let reg = sqs_registry E C store env
      in \<lparr>svc_can_handle = sqs_can_handle, svc_handle_request = sqs_handle_request E reg,
          svc_resolve_authorization = sqs_service_resolve_authorization E reg,
          svc_validate_request = sqs_validate_request E reg\<rparr>)"

section \<open>Every request keeps the integrity of the tables\<close>

definition good_env :: "('s \<Rightarrow> bool) \<Rightarrow> 's sqs_env \<Rightarrow> bool" where
  "good_env P env \<longleftrightarrow> list_all (\<lambda>r. \<forall>s. P s \<longrightarrow> P (pr_others r s)) (ev_rounds env)"

lemma sqs_action_keeps:
  assumes "\<And>p. keeps P (handler req p)" "P s"
  shows "P (snd (act_handle (sqs_action E C store name auth dec validate handler render) req s))"
proof -
  let ?A = "\<lparr>ta_name = name, ta_parse = parse_request_body dec, ta_validate = validate, ta_handle = handler,
    ta_resolve_authorization = (\<lambda>req _ s. sqs_resolve_authorization E C store auth req s),
    ta_render = render, ta_error_response = sqs_error_response E\<rparr>"
  have "P (snd (adapter_handle ?A req s))" by (rule adapter_handle_keeps) (simp_all add: assms)
  then show ?thesis by (simp add: sqs_action_def typed_action_adapter_def)
qed

context sqs_store_contract
begin

lemma keeps_receive_handler:
  assumes "good_env inv env"
  shows "keeps inv (receive_handler E store env req body)"
proof (rule keepsI)
  fix s assume "inv s"
  moreover have others: "inv (pr_others r s)" if "r \<in> set (ev_rounds env)" "inv s" for r s
    using assms that by (simp add: good_env_def list_all_iff)
  ultimately show "inv (snd (receive_handler E store env req body s))"
    using receive_keeps [OF others]
    by (cases "handle_receive_message E store (ev_start env) (ev_rounds env) req body s")
      (auto simp: receive_handler_def)
qed

lemma registry_keeps:
  assumes "good_env inv env" "a \<in> set (sqs_registry E C store env)" "inv s"
  shows "inv (snd (act_handle a req s))"
proof -
  note keep = keeps_message_actions keeps_batch_actions keeps_queue_actions keeps_handle_create_queue
    keeps_receive_handler [OF assms(1)]
  have "\<forall>a\<in>set (sqs_registry E C store env). inv (snd (act_handle a req s))"
    unfolding sqs_registry_unfold
    by (simp only: list.set ball_simps ball_empty simp_thms, intro conjI; rule sqs_action_keeps)
      (simp_all add: keep assms(3) split: prod.split)
  with assms(2) show ?thesis by blast
qed

lemma service_keeps:
  assumes "good_env inv env" "inv s"
  shows "inv (snd (sqs_handle_request E (sqs_registry E C store env) req s))"
proof (cases "get_action_name_for_request req")
  case (Inl e)
  then show ?thesis using assms(2) by (cases e) (simp_all add: sqs_handle_request_def)
next
  case (Inr name)
  show ?thesis
  proof (cases "registry_get (sqs_registry E C store env) name")
    case None
    then show ?thesis using assms(2) Inr by (simp add: sqs_handle_request_def registry_handle_def)
  next
    case (Some a)
    then have "inv (snd (act_handle a req s))"
      using registry_keeps [OF assms(1) _ assms(2)] registry_get_name by blast
    then show ?thesis using Inr Some by (simp add: sqs_handle_request_def registry_handle_def split_beta)
  qed
qed

end

text \<open>
  Every request to the SQS service, valid or not, authorized or not, leaves the SQLite tables with
  their integrity: unique keys, and every message and tag with its queue. The hypothesis on the
  environment is that the requests that run while a \<^verbatim>\<open>ReceiveMessage\<close> sleeps keep it too.
\<close>

theorem routed_request_keeps_integrity:
  assumes "sqs_inv db" "good_env sqs_inv env"
  shows "sqs_inv (snd (route_traced az [sqs_service E C (sqlite_sqs_store UE) env] req db))"
  using sqlite.service_keeps [OF assms(2,1), of E C UE req] assms(1)
  by (auto simp: route_traced_def sqs_service_def Let_def split: sum.split authorization_result.split)

definition demo_sqs_env :: "sqs_db sqs_env" where
  "demo_sqs_env = \<lparr>ev_now = 0, ev_db_now = 0, ev_message_id = ''m2'', ev_message_ids = show_nat, ev_nows = (\<lambda>_. 0),
     ev_counts = \<lparr>cc_count = 0, cc_visible = 0, cc_total = 0, cc_delayed = 0\<rparr>, ev_start = 0,
     ev_rounds = [demo_round]\<rparr>"

text \<open>Codecs that decode every body as a request for the queue of the examples, and as nothing else.\<close>

definition demo_codec :: sqs_codec where
  "demo_codec = \<lparr>dec_create_queue = (\<lambda>_. Inr demo_create),
     dec_queue_url = (\<lambda>_. Inr ''http://localhost:4566/000000000000/jobs''),
     dec_get_queue_attributes = (\<lambda>_. Inl ''invalid''), dec_get_queue_url = (\<lambda>_. Inl ''invalid''),
     dec_list_queues = (\<lambda>_. Inl ''invalid''), dec_receive_message = (\<lambda>_. Inr demo_receive_request),
     dec_send_message = (\<lambda>_. Inl ''invalid''), dec_send_message_batch = (\<lambda>_. Inl ''invalid''),
     dec_set_queue_attributes = (\<lambda>_. Inl ''invalid''), dec_tag_queue = (\<lambda>_. Inl ''invalid''),
     dec_untag_queue = (\<lambda>_. Inl ''invalid''), dec_change_message_visibility = (\<lambda>_. Inl ''invalid''),
     dec_change_message_visibility_batch = (\<lambda>_. Inl ''invalid''), dec_delete_message = (\<lambda>_. Inl ''invalid''),
     dec_delete_message_batch = (\<lambda>_. Inl ''invalid''),
     dec_queue_url_field = (\<lambda>_. Inr (Some ''http://localhost:4566/000000000000/jobs'')),
     enc_queue_url = Inr, enc_list_queues = (\<lambda>_. Inr ''{}''), enc_attributes = (\<lambda>_. Inr ''{}''),
     enc_tags = (\<lambda>_. Inr ''{}''), enc_received = (\<lambda>_. Inr ''{}''), enc_send_message = (\<lambda>_. Inr ''{}''),
     enc_send_message_batch = (\<lambda>_. Inr ''{}''), enc_batch = (\<lambda>_. Inr ''{}'')\<rparr>"

definition demo_sqs_request :: "string \<Rightarrow> resolved_request" where
  "demo_sqs_request op =
     (demo_request ''sqs'')\<lparr>rr_request := (rr_request (demo_request ''sqs''))
        \<lparr>ir_headers := [(''x-amz-target'', ''AmazonSQS.'' @ op)]\<rparr>\<rparr>"

theorem routed_request_keeps_integrity_witness:
  "sqs_inv (snd (route_traced (iam_authorizer demo_ext Off allow_all_store)
     [sqs_service demo_ext demo_codec (sqlite_sqs_store demo_texts) demo_sqs_env] (demo_sqs_request ''DeleteQueue'') demo_db))"
  by (rule routed_request_keeps_integrity [OF demo_db_inv])
    (simp add: good_env_def demo_sqs_env_def demo_round_def)

section \<open>Dispatch\<close>

lemma act_name_sqs_action [simp]: "act_name (sqs_action E C store name auth dec validate handler render) = name"
  by (simp add: sqs_action_def typed_action_adapter_def)

lemma registry_names: "set (map act_name (sqs_registry E C store env)) = set operation_names"
proof -
  have "map act_name (sqs_registry E C store env) =
     [''ChangeMessageVisibility'', ''ChangeMessageVisibilityBatch'', ''CreateQueue'', ''DeleteMessage'',
      ''DeleteMessageBatch'', ''DeleteQueue'', ''GetQueueAttributes'', ''GetQueueUrl'', ''ListQueueTags'',
      ''ListQueues'', ''PurgeQueue'', ''ReceiveMessage'', ''SendMessage'', ''SendMessageBatch'',
      ''SetQueueAttributes'', ''TagQueue'', ''UntagQueue'']"
    by (simp add: sqs_registry_unfold)
  then show ?thesis by (simp only: set_eq_subset) (simp add: operation_names_def)
qed

lemma registry_names_distinct: "distinct (map act_name (sqs_registry E C store env))"
  by (simp add: sqs_registry_unfold)

text \<open>
  The dispatch table is complete: every operation name that is accepted from the target header
  has exactly one registered action, and no other name has one, so an accepted request is
  never answered as an unsupported operation.
\<close>

theorem registry_complete:
  "(\<exists>target. target_to_operation_name target = Inr name) \<longleftrightarrow>
   (\<exists>a. registry_get (sqs_registry E C store env) name = Some a \<and> act_name a = name \<and>
      length (filter (\<lambda>b. act_name b = name) (sqs_registry E C store env)) = 1)"
proof -
  let ?reg = "sqs_registry E C store env"
  have "(\<exists>target. target_to_operation_name target = Inr name) \<longleftrightarrow> name \<in> set operation_names"
  proof
    assume "name \<in> set operation_names"
    then have "target_to_operation_name (''AmazonSQS.'' @ name) = Inr name"
      by (simp only: target_to_operation_name_def strip_prefix_append ok_or_simps ebind_simps if_True)
    then show "\<exists>target. target_to_operation_name target = Inr name" by blast
  qed (auto simp: target_to_operation_name_def split: if_splits)
  also have "\<dots> \<longleftrightarrow> name \<in> set (map act_name ?reg)" by (simp only: registry_names)
  also have "\<dots> \<longleftrightarrow> (\<exists>a. registry_get ?reg name = Some a \<and> act_name a = name \<and>
      length (filter (\<lambda>b. act_name b = name) ?reg) = 1)"
  proof
    assume in_reg: "name \<in> set (map act_name ?reg)"
    have "length (filter (\<lambda>b. act_name b = name) ?reg) = length (filter ((=) name) (map act_name ?reg))"
      by (simp add: filter_map comp_def eq_commute)
    also have "\<dots> = count_list (map act_name ?reg) name" by (simp only: count_list_eq_length_filter)
    also have "\<dots> = 1" using count_list_distinct [OF registry_names_distinct in_reg] .
    finally have "length (filter (\<lambda>b. act_name b = name) ?reg) = 1" .
    moreover obtain a where "registry_get ?reg name = Some a"
      using in_reg by (cases "registry_get ?reg name") (auto simp: registry_get_def find_None_iff)
    ultimately show "\<exists>a. registry_get ?reg name = Some a \<and> act_name a = name \<and>
        length (filter (\<lambda>b. act_name b = name) ?reg) = 1"
      using registry_get_name by blast
  qed (metis image_eqI list.set_map registry_get_name)
  finally show ?thesis .
qed

section \<open>What is authorized is what is acted on\<close>

definition queue_policy :: "ext \<Rightarrow> sqs_queue \<Rightarrow> policy" where
  "queue_policy E q = (case x_policy E (q_policy q) of Inl _ \<Rightarrow> default_policy | Inr p \<Rightarrow> p)"

text \<open>
  For every action on a queue, the check handed to the authorizer names the ARN and carries the
  policy of exactly the queue that \<^verbatim>\<open>load_queue_from_url\<close> finds for the request's \<^verbatim>\<open>QueueUrl\<close>, the
  queue the handler acts on; a request for a queue that cannot be found gets no check at all.
\<close>

theorem authorization_checks_target_queue:
  assumes "action \<notin> {''sqs:ListQueues'', ''sqs:CreateQueue'', ''sqs:GetQueueUrl''}"
    and "dec_queue_url_field C (ir_body (rr_request request)) = Inr (Some url)"
  shows "sqs_resolve_authorization E C store action request s =
    (case load_queue_from_url E store request url s of
       Inl e \<Rightarrow> Inl e
     | Inr q \<Rightarrow> Inr \<lparr>chk_action = action, chk_resource = get_queue_arn q, chk_resource_policy = Some (queue_policy E q)\<rparr>)"
  using assms
  by (simp add: sqs_resolve_authorization_def get_relevant_queue_for_action_def get_queue_from_request_def
      get_queue_url_from_request_def queue_policy_def split: sum.split)

lemma demo_sqs_load:
  "load_queue_from_url demo_ext (sqlite_sqs_store demo_texts) (demo_sqs_request op)
     ''http://localhost:4566/000000000000/jobs'' demo_db = Inr (demo_queue\<lparr>q_id := 1, q_created_at := 0\<rparr>)"
  using demo_load_queue [of demo_db] by (simp add: load_queue_from_url_def demo_sqs_request_def)

theorem authorization_checks_target_queue_witness:
  "sqs_resolve_authorization demo_ext demo_codec (sqlite_sqs_store demo_texts) ''sqs:DeleteQueue''
     (demo_sqs_request ''DeleteQueue'') demo_db =
   Inr \<lparr>chk_action = ''sqs:DeleteQueue'', chk_resource = ''arn:aws:sqs:us-east-1:000000000000:jobs'',
        chk_resource_policy = Some default_policy\<rparr>"
proof -
  have "dec_queue_url_field demo_codec (ir_body (rr_request (demo_sqs_request ''DeleteQueue''))) =
      Inr (Some ''http://localhost:4566/000000000000/jobs'')"
    by (simp add: demo_codec_def)
  moreover have "queue_policy demo_ext (demo_queue\<lparr>q_id := 1, q_created_at := 0\<rparr>) = default_policy"
    by (simp add: queue_policy_def demo_ext_def demo_queue_def default_sqs_queue_def)
  ultimately show ?thesis
    using authorization_checks_target_queue [of "''sqs:DeleteQueue''" demo_codec "demo_sqs_request ''DeleteQueue''"
        "''http://localhost:4566/000000000000/jobs''" demo_ext "sqlite_sqs_store demo_texts" demo_db]
    by (simp add: demo_sqs_load) (simp add: get_queue_arn_def demo_queue_def)
qed

end
