(* ===== verification/Query_Protocol.thy ===== *)
theory Query_Protocol
  imports Core
begin

text \<open>
  The AWS query protocol of \<^verbatim>\<open>hiraeth_core/src/protocol.rs\<close>: parameters from the query string and a
  form-encoded body, read by SNS, IAM and STS. The splitting of an encoded string into pairs is that of
  the crate \<^verbatim>\<open>form_urlencoded\<close>, the parameter \<open>fp\<close>.
\<close>

section \<open>Parameters of a request\<close>

type_synonym form_parser = "string \<Rightarrow> (string \<times> string) list"

definition is_form_urlencoded_content_type :: "string \<Rightarrow> bool" where
  "is_form_urlencoded_content_type content_type =
     eq_ignore_ascii_case (trim (split_first (CHR '';'') content_type)) ''application/x-www-form-urlencoded''"

definition unsupported_content_type :: "string \<Rightarrow> string" where
  "unsupported_content_type content_type =
     ''Invalid AWS query request: unsupported content-type '' @ quoted content_type"

definition encoded_aws_query_request :: "incoming_request \<Rightarrow> string + string" where
  "encoded_aws_query_request request =
     (let encoded = (case ir_query request of None \<Rightarrow> [] | Some q \<Rightarrow> q);
          content_type = (case map_of (ir_headers request) ''content-type'' of None \<Rightarrow> [] | Some v \<Rightarrow> v)
      in if ir_body request = [] then Inr encoded
         else if content_type \<noteq> [] \<and> \<not> is_form_urlencoded_content_type content_type
         then Inl (unsupported_content_type content_type)
         else Inr ((if encoded = [] then [] else encoded @ ''&'') @ ir_body request))"

record aws_query_params =
  qp_encoded :: string
  qp_values :: "(string \<times> string list) list"

text \<open>\<^verbatim>\<open>values.entry(name).or_insert_with(Vec::new).push(value)\<close>.\<close>

definition push_value :: "(string \<times> string list) list \<Rightarrow> string \<times> string \<Rightarrow> (string \<times> string list) list" where
  "push_value values nv =
     AList.update (fst nv) ((case map_of values (fst nv) of None \<Rightarrow> [] | Some vs \<Rightarrow> vs) @ [snd nv]) values"

definition from_encoded :: "form_parser \<Rightarrow> string \<Rightarrow> aws_query_params" where
  "from_encoded fp encoded = \<lparr>qp_encoded = encoded, qp_values = foldl push_value [] (fp encoded)\<rparr>"

definition parse_aws_query_params :: "form_parser \<Rightarrow> incoming_request \<Rightarrow> string + aws_query_params" where
  "parse_aws_query_params fp request =
     ebind (encoded_aws_query_request request) (\<lambda>encoded. Inr (from_encoded fp encoded))"

definition query_get :: "aws_query_params \<Rightarrow> string \<Rightarrow> string option" where
  "query_get params key =
     (case map_of (qp_values params) key of Some (v # vs) \<Rightarrow> Some v | _ \<Rightarrow> None)"

text \<open>\<^verbatim>\<open>serde_urlencoded\<close> decodes the payload from the same encoded text; \<open>dec\<close> is the derived decoder.\<close>

definition parse_aws_query_request :: "(string \<Rightarrow> string + 'p) \<Rightarrow> incoming_request \<Rightarrow> string + 'p" where
  "parse_aws_query_request dec request =
     ebind (encoded_aws_query_request request) (\<lambda>encoded.
     map_err (\<lambda>e. ''Invalid AWS query request: '' @ e) (dec encoded))"

definition get_query_request_action_name :: "form_parser \<Rightarrow> resolved_request \<Rightarrow> string + string option" where
  "get_query_request_action_name fp request =
     ebind (parse_aws_query_params fp (rr_request request)) (\<lambda>params. Inr (query_get params ''Action''))"

definition xml_response :: "string \<Rightarrow> service_response" where
  "xml_response body =
     \<lparr>status_code = 200, resp_headers = [(''content-type'', ''text/xml; charset=utf-8'')], resp_body = body\<rparr>"

section \<open>Actions of query services\<close>

text \<open>
  The macro \<^verbatim>\<open>impl_aws_action!\<close> with a query payload and an XML response: the error type enters through
  the constructors the macro's conversions use and its rendering; \<open>dec\<close> is the derived decoder of the
  payload and \<open>enc\<close> the derived XML encoder of the response.
\<close>

record 'e query_errors =
  qe_bad_request :: "string \<Rightarrow> 'e"
  qe_internal :: "string \<Rightarrow> 'e"
  qe_response :: "'e \<Rightarrow> service_response"

definition query_payload ::
    "'e query_errors \<Rightarrow> (string \<Rightarrow> string + 'p) \<Rightarrow> resolved_request \<Rightarrow> 'e + 'p" where
  "query_payload Q dec request = map_err (qe_bad_request Q) (parse_aws_query_request dec (rr_request request))"

definition render_xml :: "'e query_errors \<Rightarrow> ('r \<Rightarrow> string + string) \<Rightarrow> 'r \<Rightarrow> 'e + service_response" where
  "render_xml Q enc r =
     ebind (map_err (\<lambda>e. qe_internal Q (''failed to serialize response: '' @ e)) (enc r)) (\<lambda>body.
     Inr (xml_response body))"

definition query_action ::
    "'e query_errors \<Rightarrow> string \<Rightarrow> (string \<Rightarrow> string + 'p) \<Rightarrow>
     (resolved_request \<Rightarrow> 'p \<Rightarrow> 's \<Rightarrow> 'e + unit) \<Rightarrow> (resolved_request \<Rightarrow> 'p \<Rightarrow> ('s, 'e, 'r) store_op) \<Rightarrow>
     (resolved_request \<Rightarrow> 's \<Rightarrow> 'e + authorization_check) \<Rightarrow> ('r \<Rightarrow> string + string) \<Rightarrow> 's aws_action" where
  "query_action Q name dec validate handler authorize enc =
     typed_action_adapter
       \<lparr>ta_name = name, ta_parse = query_payload Q dec, ta_validate = validate, ta_handle = handler,
        ta_resolve_authorization = (\<lambda>req _. authorize req), ta_render = render_xml Q enc,
        ta_error_response = qe_response Q\<rparr>"

lemma act_name_query_action [simp]: "act_name (query_action Q name dec validate handler authorize enc) = name"
  by (simp add: query_action_def typed_action_adapter_def)

lemma query_action_keeps:
  assumes "\<And>p. keeps P (handler req p)" "P s"
  shows "P (snd (act_handle (query_action Q name dec validate handler authorize enc) req s))"
proof -
  let ?A = "\<lparr>ta_name = name, ta_parse = query_payload Q dec, ta_validate = validate, ta_handle = handler,
    ta_resolve_authorization = (\<lambda>req _. authorize req), ta_render = render_xml Q enc, ta_error_response = qe_response Q\<rparr>"
  have "P (snd (adapter_handle ?A req s))" by (rule adapter_handle_keeps) (simp_all add: assms)
  then show ?thesis by (simp add: query_action_def typed_action_adapter_def)
qed

lemma query_action_authorize:
  "query_payload Q dec req = Inr p \<Longrightarrow>
   act_resolve_authorization (query_action Q name dec validate handler authorize enc) req s =
     map_err (qe_response Q) (authorize req s)"
  by (simp add: query_action_def typed_action_adapter_def adapter_resolve_authorization_def)

lemma registry_handle_keeps:
  assumes "\<And>a. a \<in> set reg \<Longrightarrow> P (snd (act_handle a req s))" "registry_handle reg name req s = Some (resp, s')"
  shows "P s'"
proof -
  from assms(2) obtain a where "registry_get reg name = Some a" "act_handle a req s = (resp, s')"
    by (auto simp: registry_handle_def split: option.splits)
  then show ?thesis using assms(1) [of a] registry_get_name [of reg name a] by (metis snd_conv)
qed

section \<open>The first value of a parameter\<close>

lemma map_of_push_value:
  "map_of (push_value vals (n, v)) =
     (map_of vals)(n \<mapsto> (case map_of vals n of None \<Rightarrow> [] | Some vs \<Rightarrow> vs) @ [v])"
  by (simp add: push_value_def update_conv')

lemma map_of_push_values:
  "map_of (foldl push_value vals kvs) k =
     (if k \<in> fst ` set kvs \<or> map_of vals k \<noteq> None
      then Some ((case map_of vals k of None \<Rightarrow> [] | Some vs \<Rightarrow> vs) @ map snd (filter (\<lambda>nv. fst nv = k) kvs))
      else None)"
proof (induction kvs arbitrary: vals)
  case (Cons nv kvs)
  then show ?case by (cases nv) (auto simp: map_of_push_value split: option.splits)
qed (auto split: option.splits)

lemma query_get_from_encoded: "query_get (from_encoded fp encoded) k = map_of (fp encoded) k"
proof -
  have first: "(case filter (\<lambda>nv. fst nv = k) kvs of [] \<Rightarrow> None | nv # _ \<Rightarrow> Some (snd nv)) = map_of kvs k" for kvs :: "(string \<times> string) list"
    by (induction kvs) auto
  have given: "k \<in> fst ` set kvs \<longleftrightarrow> filter (\<lambda>nv. fst nv = k) kvs \<noteq> []" for kvs :: "(string \<times> string) list"
    by (auto simp: filter_empty_conv)
  from first [of "fp encoded"] given [of "fp encoded"] show ?thesis
    by (cases "filter (\<lambda>nv. fst nv = k) (fp encoded)")
      (auto simp: query_get_def from_encoded_def map_of_push_values)
qed

end
