(* ===== verification/Sns_Store.thy ===== *)
theory Sns_Store
  imports Core Sqs_Store
begin

text \<open>
  The rows and the store trait of SNS (\<^verbatim>\<open>hiraeth_store/src/sns.rs\<close>) and its SQLite implementation
  (\<^verbatim>\<open>hiraeth_store_sqlx/src/sns.rs\<close>) over the tables of topics, subscriptions and topic tags. The
  first two tables number their rows with \<^verbatim>\<open>AUTOINCREMENT\<close>: a sequence per table, never reused.
\<close>

section \<open>Rows\<close>

record sns_topic =
  tp_id :: int
  tp_name :: string
  tp_region :: string
  tp_account_id :: string
  tp_display_name :: "string option"
  tp_policy :: string
  tp_delivery_policy :: "string option"
  tp_fifo_topic :: "string option"
  tp_signature_version :: "string option"
  tp_tracing_config :: "string option"
  tp_kms_master_key_id :: "string option"
  tp_data_protection_policy :: "string option"
  tp_archive_policy :: "string option"
  tp_beginning_archive_time :: "string option"
  tp_content_based_deduplication :: "string option"
  tp_created_at :: time

record sns_subscription =
  sub_id :: int
  sub_topic_arn :: string
  sub_protocol :: string
  sub_endpoint :: string
  sub_owner_account_id :: string
  sub_subscription_arn :: string
  sub_delivery_policy :: "string option"
  sub_filter_policy :: "string option"
  sub_filter_policy_scope :: "string option"
  sub_raw_message_delivery :: "string option"
  sub_redrive_policy :: "string option"
  sub_subscription_role_arn :: "string option"
  sub_replay_policy :: "string option"
  sub_created_at :: time

record sns_subscription_attribute_update =
  su_delivery_policy :: "string option"
  su_filter_policy :: "string option"
  su_filter_policy_scope :: "string option"
  su_raw_message_delivery :: "string option"
  su_redrive_policy :: "string option"
  su_subscription_role_arn :: "string option"
  su_replay_policy :: "string option"

definition default_subscription_update :: sns_subscription_attribute_update where
  "default_subscription_update =
     \<lparr>su_delivery_policy = None, su_filter_policy = None, su_filter_policy_scope = None,
      su_raw_message_delivery = None, su_redrive_policy = None, su_subscription_role_arn = None,
      su_replay_policy = None\<rparr>"

text \<open>\<^verbatim>\<open>SnsSubscriptionAttributeUpdate::from_attribute_name_and_value\<close>.\<close>

definition subscription_update_of :: "string \<Rightarrow> string \<Rightarrow> sns_subscription_attribute_update" where
  "subscription_update_of attribute_name v =
     (let d = default_subscription_update
      in if attribute_name = ''DeliveryPolicy'' then d\<lparr>su_delivery_policy := Some v\<rparr>
         else if attribute_name = ''FilterPolicy'' then d\<lparr>su_filter_policy := Some v\<rparr>
         else if attribute_name = ''FilterPolicyScope'' then d\<lparr>su_filter_policy_scope := Some v\<rparr>
         else if attribute_name = ''RawMessageDelivery'' then d\<lparr>su_raw_message_delivery := Some v\<rparr>
         else if attribute_name = ''RedrivePolicy'' then d\<lparr>su_redrive_policy := Some v\<rparr>
         else if attribute_name = ''SubscriptionRoleArn'' then d\<lparr>su_subscription_role_arn := Some v\<rparr>
         else if attribute_name = ''ReplayPolicy'' then d\<lparr>su_replay_policy := Some v\<rparr>
         else d)"

record sns_topic_attribute_update =
  tu_delivery_policy :: "string option"
  tu_display_name :: "string option"
  tu_policy :: "string option"
  tu_tracing_config :: "string option"
  tu_kms_master_key_id :: "string option"
  tu_signature_version :: "string option"
  tu_fifo_topic :: "string option"
  tu_data_protection_policy :: "string option"
  tu_archive_policy :: "string option"
  tu_beginning_archive_time :: "string option"
  tu_content_based_deduplication :: "string option"

definition default_topic_update :: sns_topic_attribute_update where
  "default_topic_update =
     \<lparr>tu_delivery_policy = None, tu_display_name = None, tu_policy = None, tu_tracing_config = None,
      tu_kms_master_key_id = None, tu_signature_version = None, tu_fifo_topic = None,
      tu_data_protection_policy = None, tu_archive_policy = None, tu_beginning_archive_time = None,
      tu_content_based_deduplication = None\<rparr>"

text \<open>\<^verbatim>\<open>SnsTopicAttributeUpdate::from_attribute_name_and_value\<close>.\<close>

definition topic_update_of :: "string \<Rightarrow> string \<Rightarrow> sns_topic_attribute_update" where
  "topic_update_of attribute_name v =
     (let d = default_topic_update
      in if attribute_name = ''DeliveryPolicy'' then d\<lparr>tu_delivery_policy := Some v\<rparr>
         else if attribute_name = ''DisplayName'' then d\<lparr>tu_display_name := Some v\<rparr>
         else if attribute_name = ''Policy'' then d\<lparr>tu_policy := Some v\<rparr>
         else if attribute_name = ''TracingConfig'' then d\<lparr>tu_tracing_config := Some v\<rparr>
         else if attribute_name = ''KmsMasterKeyId'' then d\<lparr>tu_kms_master_key_id := Some v\<rparr>
         else if attribute_name = ''SignatureVersion'' then d\<lparr>tu_signature_version := Some v\<rparr>
         else if attribute_name = ''FifoTopic'' then d\<lparr>tu_fifo_topic := Some v\<rparr>
         else if attribute_name = ''DataProtectionPolicy'' then d\<lparr>tu_data_protection_policy := Some v\<rparr>
         else if attribute_name = ''ArchivePolicy'' then d\<lparr>tu_archive_policy := Some v\<rparr>
         else if attribute_name = ''ContentBasedDeduplication'' then d\<lparr>tu_content_based_deduplication := Some v\<rparr>
         else d)"

type_synonym topic_key = "string \<times> string \<times> string"

definition topic_key :: "sns_topic \<Rightarrow> topic_key" where
  "topic_key t = (tp_name t, tp_region t, tp_account_id t)"

text \<open>The text \<^verbatim>\<open>arn:aws:sns:{region}:{account_id}:{name}\<close>.\<close>

definition sns_arn :: "string \<Rightarrow> string \<Rightarrow> string \<Rightarrow> string" where
  "sns_arn region account name = ''arn:aws:sns:'' @ region @ '':'' @ account @ '':'' @ name"

definition topic_arn_of :: "sns_topic \<Rightarrow> string" where
  "topic_arn_of t = sns_arn (tp_region t) (tp_account_id t) (tp_name t)"

section \<open>The store interface\<close>

record 's sns_store =
  ss_create_topic :: "sns_topic \<Rightarrow> ('s, store_error, unit) store_op"
  ss_get_topic :: "string \<Rightarrow> 's \<Rightarrow> store_error + sns_topic option"
  ss_get_topic_by_id :: "int \<Rightarrow> 's \<Rightarrow> store_error + sns_topic option"
  ss_list_topics :: "string \<Rightarrow> string \<Rightarrow> string option \<Rightarrow> int option \<Rightarrow> 's \<Rightarrow> store_error + sns_topic list"
  ss_delete_topic :: "string \<Rightarrow> ('s, store_error, unit) store_op"
  ss_create_subscription :: "sns_subscription \<Rightarrow> ('s, store_error, unit) store_op"
  ss_get_subscription :: "string \<Rightarrow> 's \<Rightarrow> store_error + sns_subscription option"
  ss_get_subscription_by_id :: "int \<Rightarrow> 's \<Rightarrow> store_error + sns_subscription option"
  ss_list_subscriptions :: "string \<Rightarrow> string \<Rightarrow> int option \<Rightarrow> 's \<Rightarrow> store_error + sns_subscription list"
  ss_list_subscriptions_by_topic :: "string \<Rightarrow> 's \<Rightarrow> store_error + sns_subscription list"
  ss_delete_subscription :: "string \<Rightarrow> ('s, store_error, unit) store_op"
  ss_delete_subscription_by_id :: "int \<Rightarrow> ('s, store_error, unit) store_op"
  ss_set_subscription_attributes ::
    "string \<Rightarrow> sns_subscription_attribute_update \<Rightarrow> ('s, store_error, unit) store_op"
  ss_set_topic_attributes ::
    "string \<Rightarrow> string \<Rightarrow> string \<Rightarrow> sns_topic_attribute_update \<Rightarrow> ('s, store_error, unit) store_op"
  ss_list_topic_tags :: "string \<Rightarrow> 's \<Rightarrow> store_error + (string \<times> string) list"
  ss_tag_topic :: "string \<Rightarrow> (string \<times> string) list \<Rightarrow> ('s, store_error, unit) store_op"
  ss_untag_topic :: "string \<Rightarrow> string list \<Rightarrow> ('s, store_error, unit) store_op"

section \<open>The SQLite tables\<close>

record sns_db =
  topics :: "sns_topic list"
  subscriptions :: "sns_subscription list"
  topic_tags :: "(int \<times> string \<times> string) list"
  topic_seq :: int
  subscription_seq :: int

definition empty_sns_db :: sns_db where
  "empty_sns_db = \<lparr>topics = [], subscriptions = [], topic_tags = [], topic_seq = 0, subscription_seq = 0\<rparr>"

definition sqlite_create_topic :: "sqlite_texts \<Rightarrow> sns_topic \<Rightarrow> (sns_db, store_error, unit) store_op" where
  "sqlite_create_topic UE topic db =
     (if list_ex (\<lambda>t. topic_key t = topic_key topic) (topics db)
      then (Inl (map_sqlx_error (UniqueViolation (txt_unique UE))), db)
      else (Inr (), db\<lparr>topics := topics db @ [topic\<lparr>tp_id := topic_seq db + 1\<rparr>],
                       topic_seq := topic_seq db + 1\<rparr>))"

text \<open>
  \<^verbatim>\<open>topic_arn.split(':')\<close> with exactly six parts; the last three name the topic, the first three are
  not looked at.
\<close>

definition arn_topic_key :: "string \<Rightarrow> topic_key option" where
  "arn_topic_key arn =
     (let parts = split_all (CHR '':'') arn
      in if length parts = 6 then Some (parts ! 5, parts ! 3, parts ! 4) else None)"

definition find_topic :: "topic_key \<Rightarrow> sns_db \<Rightarrow> sns_topic option" where
  "find_topic k db = find (\<lambda>t. topic_key t = k) (topics db)"

definition sqlite_get_topic :: "string \<Rightarrow> sns_db \<Rightarrow> store_error + sns_topic option" where
  "sqlite_get_topic arn db =
     (case arn_topic_key arn of None \<Rightarrow> Inr None | Some k \<Rightarrow> Inr (find_topic k db))"

definition sqlite_get_topic_by_id :: "int \<Rightarrow> sns_db \<Rightarrow> store_error + sns_topic option" where
  "sqlite_get_topic_by_id i db = Inr (find (\<lambda>t. tp_id t = i) (topics db))"

definition sqlite_list_topics ::
    "string \<Rightarrow> string \<Rightarrow> string option \<Rightarrow> int option \<Rightarrow> sns_db \<Rightarrow> store_error + sns_topic list" where
  "sqlite_list_topics region account name_prefix limit db =
     Inr (sql_limit (case limit of None \<Rightarrow> 2 ^ 63 - 1 | Some n \<Rightarrow> n)
       (sort_key tp_name (filter (\<lambda>t. tp_region t = region \<and> tp_account_id t = account \<and>
            (case name_prefix of None \<Rightarrow> True | Some p \<Rightarrow> sql_like (p @ ''%'') (tp_name t))) (topics db))))"

definition topic_not_found :: store_error where
  "topic_not_found = StoreNotFound ''topic not found''"

definition subscription_not_found :: store_error where
  "subscription_not_found = StoreNotFound ''subscription not found''"

text \<open>
  The three statements of \<^verbatim>\<open>delete_topic\<close>: the tags of the topic, the topic, and, when there was one,
  the subscriptions with this ARN.
\<close>

definition sqlite_delete_topic :: "string \<Rightarrow> (sns_db, store_error, unit) store_op" where
  "sqlite_delete_topic arn db =
     (case arn_topic_key arn of
        None \<Rightarrow> (Inl topic_not_found, db)
      | Some k \<Rightarrow>
          let ids = map tp_id (filter (\<lambda>t. topic_key t = k) (topics db));
              db1 = db\<lparr>topic_tags := filter (\<lambda>(i, _). i \<notin> set ids) (topic_tags db)\<rparr>
          in if \<not> list_ex (\<lambda>t. topic_key t = k) (topics db1) then (Inl topic_not_found, db1)
             else (Inr (), db1\<lparr>topics := filter (\<lambda>t. topic_key t \<noteq> k) (topics db1),
                     subscriptions := filter (\<lambda>s. sub_topic_arn s \<noteq> arn) (subscriptions db1)\<rparr>))"

definition sqlite_create_subscription ::
    "sqlite_texts \<Rightarrow> sns_subscription \<Rightarrow> (sns_db, store_error, unit) store_op" where
  "sqlite_create_subscription UE sub db =
     (if list_ex (\<lambda>s. sub_subscription_arn s = sub_subscription_arn sub) (subscriptions db)
      then (Inl (map_sqlx_error (UniqueViolation (txt_unique UE))), db)
      else (Inr (), db\<lparr>subscriptions := subscriptions db @ [sub\<lparr>sub_id := subscription_seq db + 1\<rparr>],
                       subscription_seq := subscription_seq db + 1\<rparr>))"

definition find_subscription :: "string \<Rightarrow> sns_db \<Rightarrow> sns_subscription option" where
  "find_subscription arn db = find (\<lambda>s. sub_subscription_arn s = arn) (subscriptions db)"

definition sqlite_get_subscription :: "string \<Rightarrow> sns_db \<Rightarrow> store_error + sns_subscription option" where
  "sqlite_get_subscription arn db = Inr (find_subscription arn db)"

definition sqlite_get_subscription_by_id :: "int \<Rightarrow> sns_db \<Rightarrow> store_error + sns_subscription option" where
  "sqlite_get_subscription_by_id i db = Inr (find (\<lambda>s. sub_id s = i) (subscriptions db))"

definition sqlite_list_subscriptions ::
    "string \<Rightarrow> string \<Rightarrow> int option \<Rightarrow> sns_db \<Rightarrow> store_error + sns_subscription list" where
  "sqlite_list_subscriptions region account limit db =
     Inr (sql_limit (case limit of None \<Rightarrow> 2 ^ 63 - 1 | Some n \<Rightarrow> n)
       (sort_key sub_subscription_arn (filter (\<lambda>s. sub_owner_account_id s = account \<and>
            sql_like (''arn:aws:sns:'' @ region @ '':'' @ account @ '':%'') (sub_topic_arn s)) (subscriptions db))))"

definition sqlite_list_subscriptions_by_topic :: "string \<Rightarrow> sns_db \<Rightarrow> store_error + sns_subscription list" where
  "sqlite_list_subscriptions_by_topic arn db =
     Inr (filter (\<lambda>s. sub_topic_arn s = arn) (subscriptions db))"

definition sqlite_delete_subscription :: "string \<Rightarrow> (sns_db, store_error, unit) store_op" where
  "sqlite_delete_subscription arn db =
     (if list_ex (\<lambda>s. sub_subscription_arn s = arn) (subscriptions db)
      then (Inr (), db\<lparr>subscriptions := filter (\<lambda>s. sub_subscription_arn s \<noteq> arn) (subscriptions db)\<rparr>)
      else (Inl subscription_not_found, db))"

definition sqlite_delete_subscription_by_id :: "int \<Rightarrow> (sns_db, store_error, unit) store_op" where
  "sqlite_delete_subscription_by_id i db =
     (if list_ex (\<lambda>s. sub_id s = i) (subscriptions db)
      then (Inr (), db\<lparr>subscriptions := filter (\<lambda>s. sub_id s \<noteq> i) (subscriptions db)\<rparr>)
      else (Inl subscription_not_found, db))"

text \<open>\<^verbatim>\<open>update.or(old)\<close>.\<close>

definition or_else :: "'a option \<Rightarrow> 'a option \<Rightarrow> 'a option" where
  "or_else m d = (case m of None \<Rightarrow> d | Some x \<Rightarrow> Some x)"

text \<open>
  The row \<open>s\<close> is read first; the \<^verbatim>\<open>UPDATE\<close> writes the columns merged from it to the row with its id.
\<close>

definition apply_subscription_update ::
    "sns_subscription_attribute_update \<Rightarrow> sns_subscription \<Rightarrow> sns_subscription \<Rightarrow> sns_subscription" where
  "apply_subscription_update u s x =
     x\<lparr>sub_delivery_policy := or_else (su_delivery_policy u) (sub_delivery_policy s),
       sub_filter_policy := or_else (su_filter_policy u) (sub_filter_policy s),
       sub_filter_policy_scope := or_else (su_filter_policy_scope u) (sub_filter_policy_scope s),
       sub_raw_message_delivery := or_else (su_raw_message_delivery u) (sub_raw_message_delivery s),
       sub_redrive_policy := or_else (su_redrive_policy u) (sub_redrive_policy s),
       sub_subscription_role_arn := or_else (su_subscription_role_arn u) (sub_subscription_role_arn s),
       sub_replay_policy := or_else (su_replay_policy u) (sub_replay_policy s)\<rparr>"

definition sqlite_set_subscription_attributes ::
    "string \<Rightarrow> sns_subscription_attribute_update \<Rightarrow> (sns_db, store_error, unit) store_op" where
  "sqlite_set_subscription_attributes arn u db =
     (case find_subscription arn db of
        None \<Rightarrow> (Inl subscription_not_found, db)
      | Some s \<Rightarrow> (Inr (), db\<lparr>subscriptions :=
          map (\<lambda>x. if sub_id x = sub_id s then apply_subscription_update u s x else x) (subscriptions db)\<rparr>))"

definition apply_topic_update :: "sns_topic_attribute_update \<Rightarrow> sns_topic \<Rightarrow> sns_topic \<Rightarrow> sns_topic" where
  "apply_topic_update u t x =
     x\<lparr>tp_display_name := or_else (tu_display_name u) (tp_display_name t),
       tp_policy := coalesce (tu_policy u) (tp_policy t),
       tp_delivery_policy := or_else (tu_delivery_policy u) (tp_delivery_policy t),
       tp_signature_version := or_else (tu_signature_version u) (tp_signature_version t),
       tp_tracing_config := or_else (tu_tracing_config u) (tp_tracing_config t),
       tp_kms_master_key_id := or_else (tu_kms_master_key_id u) (tp_kms_master_key_id t),
       tp_fifo_topic := or_else (tu_fifo_topic u) (tp_fifo_topic t),
       tp_data_protection_policy := or_else (tu_data_protection_policy u) (tp_data_protection_policy t),
       tp_archive_policy := or_else (tu_archive_policy u) (tp_archive_policy t),
       tp_beginning_archive_time := or_else (tu_beginning_archive_time u) (tp_beginning_archive_time t),
       tp_content_based_deduplication :=
         or_else (tu_content_based_deduplication u) (tp_content_based_deduplication t)\<rparr>"

definition sqlite_set_topic_attributes ::
    "string \<Rightarrow> string \<Rightarrow> string \<Rightarrow> sns_topic_attribute_update \<Rightarrow> (sns_db, store_error, unit) store_op" where
  "sqlite_set_topic_attributes account region name u db =
     (case sqlite_get_topic (sns_arn region account name) db of
        Inl e \<Rightarrow> (Inl e, db)
      | Inr None \<Rightarrow> (Inl topic_not_found, db)
      | Inr (Some t) \<Rightarrow> (Inr (), db\<lparr>topics :=
          map (\<lambda>x. if tp_id x = tp_id t then apply_topic_update u t x else x) (topics db)\<rparr>))"

definition sqlite_list_topic_tags :: "string \<Rightarrow> sns_db \<Rightarrow> store_error + (string \<times> string) list" where
  "sqlite_list_topic_tags arn db =
     ebind (sqlite_get_topic arn db) (\<lambda>found.
     ebind (ok_or topic_not_found found) (\<lambda>t.
     Inr (sort_key fst (map snd (filter (\<lambda>(i, _). i = tp_id t) (topic_tags db))))))"

definition upsert_topic_tag :: "int \<Rightarrow> string \<times> string \<Rightarrow> (sns_db, store_error, unit) store_op" where
  "upsert_topic_tag tid kv db =
     (Inr (), db\<lparr>topic_tags :=
        (if list_ex (\<lambda>(i, k, _). i = tid \<and> k = fst kv) (topic_tags db)
         then map (\<lambda>(i, k, v). if i = tid \<and> k = fst kv then (i, k, snd kv) else (i, k, v)) (topic_tags db)
         else topic_tags db @ [(tid, kv)])\<rparr>)"

definition delete_topic_tag :: "int \<Rightarrow> string \<Rightarrow> (sns_db, store_error, unit) store_op" where
  "delete_topic_tag tid key db =
     (Inr (), db\<lparr>topic_tags := filter (\<lambda>(i, k, _). \<not> (i = tid \<and> k = key)) (topic_tags db)\<rparr>)"

text \<open>
  The tag is inserted for the id that was just read, so the foreign key holds; both loops are
  transactions.
\<close>

definition sqlite_tag_topic ::
    "string \<Rightarrow> (string \<times> string) list \<Rightarrow> (sns_db, store_error, unit) store_op" where
  "sqlite_tag_topic arn tags =
     sbind (sread (sqlite_get_topic arn)) (\<lambda>found.
     sbind (slift (ok_or topic_not_found found)) (\<lambda>t. for_each (upsert_topic_tag (tp_id t)) tags))"

definition sqlite_untag_topic :: "string \<Rightarrow> string list \<Rightarrow> (sns_db, store_error, unit) store_op" where
  "sqlite_untag_topic arn keys =
     sbind (sread (sqlite_get_topic arn)) (\<lambda>found.
     sbind (slift (ok_or topic_not_found found)) (\<lambda>t. for_each (delete_topic_tag (tp_id t)) keys))"

definition sqlite_sns_store :: "sqlite_texts \<Rightarrow> sns_db sns_store" where
  "sqlite_sns_store UE =
     \<lparr>ss_create_topic = sqlite_create_topic UE, ss_get_topic = sqlite_get_topic,
      ss_get_topic_by_id = sqlite_get_topic_by_id, ss_list_topics = sqlite_list_topics, ss_delete_topic = sqlite_delete_topic,
      ss_create_subscription = sqlite_create_subscription UE, ss_get_subscription = sqlite_get_subscription,
      ss_get_subscription_by_id = sqlite_get_subscription_by_id,
      ss_list_subscriptions = sqlite_list_subscriptions,
      ss_list_subscriptions_by_topic = sqlite_list_subscriptions_by_topic,
      ss_delete_subscription = sqlite_delete_subscription,
      ss_delete_subscription_by_id = sqlite_delete_subscription_by_id,
      ss_set_subscription_attributes = sqlite_set_subscription_attributes,
      ss_set_topic_attributes = sqlite_set_topic_attributes, ss_list_topic_tags = sqlite_list_topic_tags,
      ss_tag_topic = sqlite_tag_topic, ss_untag_topic = sqlite_untag_topic\<rparr>"

end
