(* ===== verification/Sns_Support.thy ===== *)
theory Sns_Support
  imports Query_Protocol Sns_Store Sqs_Validation
begin

text \<open>
  Errors of the SNS service (\<^verbatim>\<open>hiraeth_sns/src/error.rs\<close>) and the checks its actions share
  (\<^verbatim>\<open>actions/action_support.rs\<close>). JSON and XML texts are rendered by other crates: the record \<open>sns_ext\<close>.
\<close>

section \<open>Errors\<close>

datatype sns_error =
    TopicNotFound
  | SubscriptionNotFound
  | SnsBadRequest string
  | SnsInternalError string
  | SnsUnsupportedOperation string
  | NotAuthorizedToQueue string

fun sns_status_code :: "sns_error \<Rightarrow> nat" where
  "sns_status_code (SnsInternalError _) = 500"
| "sns_status_code _ = 400"

fun sns_code :: "sns_error \<Rightarrow> string" where
  "sns_code TopicNotFound = ''NotFound''"
| "sns_code SubscriptionNotFound = ''NotFound''"
| "sns_code (SnsBadRequest _) = ''InvalidParameter''"
| "sns_code (SnsInternalError _) = ''InternalError''"
| "sns_code (SnsUnsupportedOperation _) = ''InvalidAction''"
| "sns_code (NotAuthorizedToQueue _) = ''AuthorizationError''"

fun sns_fault :: "sns_error \<Rightarrow> aws_error_fault" where
  "sns_fault (SnsInternalError _) = Server"
| "sns_fault _ = Sender"

fun sns_error_text :: "sns_error \<Rightarrow> string" where
  "sns_error_text TopicNotFound = ''Topic does not exist''"
| "sns_error_text SubscriptionNotFound = ''Subscription does not exist''"
| "sns_error_text (SnsBadRequest m) = m"
| "sns_error_text (SnsInternalError m) = m"
| "sns_error_text (SnsUnsupportedOperation m) = m"
| "sns_error_text (NotAuthorizedToQueue arn) = ''SNS is not authorized to access SQS queue: '' @ arn"

definition sns_service_error :: "sns_error aws_service_error" where
  "sns_service_error =
     \<lparr>se_status_code = sns_status_code, se_namespace = (\<lambda>_. ''com.amazonaws.sns''), se_code = sns_code,
      se_query_error_prefix = (\<lambda>_. ''AWS.SimpleNotificationService''), se_fault = sns_fault,
      se_query_code = sns_code, se_text = sns_error_text\<rparr>"

fun sns_of_store_error :: "store_error \<Rightarrow> sns_error" where
  "sns_of_store_error (StoreNotFound _) = TopicNotFound"
| "sns_of_store_error (StoreConflict m) = SnsBadRequest m"
| "sns_of_store_error (StorageFailure m) = SnsInternalError m"

text \<open>
  What other crates render: the XML of an error (fault type, code, message), the default policy of a
  topic, the JSON of a notification (message id, topic ARN, subject, message, timestamp), and RFC 3339.
\<close>

record sns_ext =
  sx_xml_error :: "string \<Rightarrow> string \<Rightarrow> string \<Rightarrow> string + string"
  sx_topic_policy :: "string \<Rightarrow> string \<Rightarrow> string"
  sx_notification :: "string \<Rightarrow> string \<Rightarrow> string \<Rightarrow> string \<Rightarrow> string \<Rightarrow> string"
  sx_rfc3339 :: "time \<Rightarrow> string"

definition sns_error_response :: "sns_ext \<Rightarrow> sns_error \<Rightarrow> service_response" where
  "sns_error_response X e =
     \<lparr>status_code = sns_status_code e, resp_headers = [(''content-type'', ''text/xml; charset=utf-8'')],
      resp_body = (case sx_xml_error X (as_query_type (sns_fault e)) (sns_code e) (sns_error_text e) of
                     Inl _ \<Rightarrow> sns_error_text e | Inr body \<Rightarrow> body)\<rparr>"

section \<open>Attribute names\<close>

definition max_message_bytes :: nat where "max_message_bytes = 262144"
definition max_subject_chars :: nat where "max_subject_chars = 100"
definition max_topic_name_chars :: nat where "max_topic_name_chars = 256"
definition max_tags_per_resource :: nat where "max_tags_per_resource = 50"
definition sns_max_tag_key_length :: nat where "sns_max_tag_key_length = 128"
definition sns_max_tag_value_length :: nat where "sns_max_tag_value_length = 256"

definition valid_topic_attributes :: "string list" where
  "valid_topic_attributes =
     [''ApplicationSuccessFeedbackRoleArn'', ''ApplicationSuccessFeedbackSampleRate'',
      ''ApplicationFailureFeedbackRoleArn'', ''ArchivePolicy'', ''ContentBasedDeduplication'',
      ''DataProtectionPolicy'', ''DeliveryPolicy'', ''DisplayName'', ''FifoTopic'',
      ''FirehoseSuccessFeedbackRoleArn'', ''FirehoseSuccessFeedbackSampleRate'', ''FirehoseFailureFeedbackRoleArn'',
      ''HTTPFailureFeedbackRoleArn'', ''HTTPSuccessFeedbackRoleArn'', ''HTTPSuccessFeedbackSampleRate'',
      ''KmsMasterKeyId'', ''LambdaSuccessFeedbackRoleArn'', ''LambdaSuccessFeedbackSampleRate'',
      ''LambdaFailureFeedbackRoleArn'', ''Policy'', ''SignatureVersion'', ''SQSFailureFeedbackRoleArn'',
      ''SQSSuccessFeedbackRoleArn'', ''SQSSuccessFeedbackSampleRate'', ''TracingConfig'']"

definition is_valid_topic_attribute :: "string \<Rightarrow> bool" where
  "is_valid_topic_attribute name \<longleftrightarrow> name \<in> set valid_topic_attributes"

definition valid_subscription_attributes :: "string list" where
  "valid_subscription_attributes =
     [''DeliveryPolicy'', ''FilterPolicy'', ''FilterPolicyScope'', ''RawMessageDelivery'', ''RedrivePolicy'',
      ''SubscriptionRoleArn'', ''ReplayPolicy'']"

definition is_valid_subscription_attribute :: "string \<Rightarrow> bool" where
  "is_valid_subscription_attribute name \<longleftrightarrow> name \<in> set valid_subscription_attributes"

section \<open>Checks\<close>

definition is_topic_name_char :: "nat \<Rightarrow> bool" where
  "is_topic_name_char c \<longleftrightarrow> is_ascii_alphanumeric c \<or> c = 45 \<or> c = 95 \<or> c = 46"

definition validate_topic_name :: "string \<Rightarrow> string option \<Rightarrow> sns_error + unit" where
  "validate_topic_name name fifo_topic =
     (let len = length (rust_chars name);
          fifo_requested = (case fifo_topic of None \<Rightarrow> False | Some v \<Rightarrow> eq_ignore_ascii_case v ''true'')
      in if len = 0 \<or> len > max_topic_name_chars
         then Inl (SnsBadRequest (''Topic name must be between 1 and '' @ show_nat max_topic_name_chars @ '' characters''))
         else if \<not> list_all is_topic_name_char (rust_chars name)
         then Inl (SnsBadRequest ''Topic name may only contain letters, numbers, hyphens, underscores, and periods'')
         else if fifo_requested \<and> \<not> ends_with ''.fifo'' name
         then Inl (SnsBadRequest ''FIFO topic names must end with .fifo'')
         else if \<not> fifo_requested \<and> ends_with ''.fifo'' name
         then Inl (SnsBadRequest ''FIFO topic names require FifoTopic=true'')
         else Inr ())"

definition validate_json_attribute :: "ext \<Rightarrow> string \<Rightarrow> string \<Rightarrow> sns_error + unit" where
  "validate_json_attribute E attribute_name attribute_value =
     (if attribute_name \<in> {''Policy'', ''DeliveryPolicy'', ''DataProtectionPolicy'', ''ArchivePolicy'', ''FilterPolicy'',
          ''RedrivePolicy'', ''ReplayPolicy''}
      then map_err (\<lambda>e. SnsBadRequest (attribute_name @ '' must be valid JSON: '' @ e)) (x_json_value E attribute_value)
      else Inr ())"

definition validate_raw_message_delivery :: "string \<Rightarrow> sns_error + unit" where
  "validate_raw_message_delivery v =
     (if v \<in> {''true'', ''false'', ''True'', ''False'', ''TRUE'', ''FALSE''} then Inr ()
      else Inl (SnsBadRequest ''RawMessageDelivery must be true or false''))"

definition validate_publish_payload :: "string \<Rightarrow> string option \<Rightarrow> sns_error + unit" where
  "validate_publish_payload message subject =
     (if message = [] then Inl (SnsBadRequest ''Message is required'')
      else if length message > max_message_bytes
      then Inl (SnsBadRequest (''Message must be at most '' @ show_nat max_message_bytes @ '' bytes''))
      else (case subject of
              None \<Rightarrow> Inr ()
            | Some subj \<Rightarrow>
                if length (rust_chars subj) > max_subject_chars
                then Inl (SnsBadRequest (''Subject must be at most '' @ show_nat max_subject_chars @ '' characters''))
                else if list_ex is_control (rust_chars subj)
                then Inl (SnsBadRequest ''Subject cannot contain control characters'')
                else Inr ()))"

section \<open>ARNs\<close>

definition parse_sqs_endpoint_arn :: "string \<Rightarrow> queue_ref option" where
  "parse_sqs_endpoint_arn endpoint =
     (let parts = split_all (CHR '':'') endpoint
      in if length parts = 6 \<and> parts ! 0 = ''arn'' \<and> parts ! 1 = ''aws'' \<and> parts ! 2 = ''sqs''
         then Some \<lparr>qi_name = parts ! 5, qi_region = parts ! 3, qi_account_id = parts ! 4\<rparr> else None)"

record topic_ref =
  tr_region :: string
  tr_account_id :: string
  tr_name :: string

definition parse_sns_topic_arn :: "string \<Rightarrow> topic_ref option" where
  "parse_sns_topic_arn arn =
     (let parts = split_all (CHR '':'') arn
      in if length parts = 6 \<and> parts ! 0 = ''arn'' \<and> parts ! 1 = ''aws'' \<and> parts ! 2 = ''sns'' \<and>
            parts ! 3 \<noteq> [] \<and> parts ! 4 \<noteq> [] \<and> parts ! 5 \<noteq> []
         then Some \<lparr>tr_region = parts ! 3, tr_account_id = parts ! 4, tr_name = parts ! 5\<rparr> else None)"

definition validate_topic_arn :: "string \<Rightarrow> string \<Rightarrow> sns_error + unit" where
  "validate_topic_arn arn field_name =
     (if arn = [] then Inl (SnsBadRequest (field_name @ '' is required''))
      else if parse_sns_topic_arn arn = None then Inl (SnsBadRequest (''Invalid '' @ field_name @ '' format''))
      else Inr ())"

definition validate_subscription_arn :: "string \<Rightarrow> sns_error + unit" where
  "validate_subscription_arn arn =
     (let parts = split_all (CHR '':'') arn
      in if arn = [] then Inl (SnsBadRequest ''SubscriptionArn is required'')
         else if length parts = 7 \<and> parts ! 0 = ''arn'' \<and> parts ! 1 = ''aws'' \<and> parts ! 2 = ''sns'' \<and>
            parts ! 3 \<noteq> [] \<and> parts ! 4 \<noteq> [] \<and> parts ! 5 \<noteq> [] \<and> parts ! 6 \<noteq> [] then Inr ()
         else Inl (SnsBadRequest ''Invalid SubscriptionArn format''))"

definition topic_policy_attribute_value :: "sns_ext \<Rightarrow> string \<Rightarrow> string \<Rightarrow> string \<Rightarrow> string" where
  "topic_policy_attribute_value X stored_policy topic_arn account_id =
     (if trim stored_policy = [] \<or> trim stored_policy = ''{}'' then sx_topic_policy X topic_arn account_id
      else stored_policy)"

section \<open>Attributes and tags in query parameters\<close>

text \<open>
  \<^verbatim>\<open>Attributes.entry.N.key\<close> and \<^verbatim>\<open>.value\<close> (\<^verbatim>\<open>Tags.member.N.Key\<close> and \<^verbatim>\<open>.Value\<close>): the entries by index,
  each with the key and the value seen, then those that have both.
\<close>

definition set_entry ::
    "string \<Rightarrow> string \<Rightarrow> string \<Rightarrow> (string \<times> string option \<times> string option) list \<Rightarrow> string \<times> string \<Rightarrow>
     (string \<times> string option \<times> string option) list" where
  "set_entry pre key_name value_name entries kv =
     (case strip_prefix pre (fst kv) of
        None \<Rightarrow> entries
      | Some rest \<Rightarrow>
          (case split_once (CHR ''.'') rest of
             None \<Rightarrow> entries
           | Some (idx, field) \<Rightarrow>
               let old = (case map_of entries idx of None \<Rightarrow> (None, None) | Some e \<Rightarrow> e)
               in AList.update idx
                    (if field = key_name then (Some (snd kv), snd old)
                     else if field = value_name then (fst old, Some (snd kv)) else old) entries))"

definition entry_map ::
    "string \<Rightarrow> string \<Rightarrow> string \<Rightarrow> (string \<times> string) list \<Rightarrow> (string \<times> string) list" where
  "entry_map pre key_name value_name raw =
     fold (\<lambda>(_, k, v) m. case (k, v) of (Some k, Some v) \<Rightarrow> hashmap_insert k v m | _ \<Rightarrow> m)
       (foldl (set_entry pre key_name value_name) [] raw) []"

definition sns_attributes :: "(string \<times> string) list \<Rightarrow> (string \<times> string) list" where
  "sns_attributes = entry_map ''Attributes.entry.'' ''key'' ''value''"

definition sns_tags :: "(string \<times> string) list \<Rightarrow> (string \<times> string) list" where
  "sns_tags = entry_map ''Tags.member.'' ''Key'' ''Value''"

definition sns_tag_keys :: "(string \<times> string) list \<Rightarrow> string list" where
  "sns_tag_keys raw =
     map snd (sort_key fst (List.map_filter (\<lambda>(k, v). map_option (\<lambda>idx. (idx, v)) (strip_prefix ''TagKeys.member.'' k)) raw))"

definition sns_validate_tag_key :: "string \<Rightarrow> sns_error + unit" where
  "sns_validate_tag_key key =
     (let key_length = length (rust_chars key)
      in if key_length = 0 \<or> key_length > sns_max_tag_key_length
         then Inl (SnsBadRequest (''Tag keys must be between 1 and '' @ show_nat sns_max_tag_key_length @ '' characters''))
         else if starts_with ''aws:'' key
         then Inl (SnsBadRequest ''Tag keys cannot start with the reserved aws: prefix'')
         else if list_ex is_control (rust_chars key)
         then Inl (SnsBadRequest ''Tag keys cannot contain control characters'')
         else Inr ())"

definition sns_validate_tags :: "(string \<times> string) list \<Rightarrow> bool \<Rightarrow> sns_error + unit" where
  "sns_validate_tags tags allow_empty =
     (if \<not> allow_empty \<and> tags = []
      then Inl (SnsBadRequest ''Tags must contain at least one entry'')
      else if length tags > max_tags_per_resource
      then Inl (SnsBadRequest (''A resource can have at most '' @ show_nat max_tags_per_resource @ '' tags''))
      else check_all (\<lambda>(key, value).
             ebind (sns_validate_tag_key key) (\<lambda>_.
               guard (length (rust_chars value) > sns_max_tag_value_length)
                 (SnsBadRequest (''Tag value for '' @ quoted key @ '' must be at most '' @
                    show_nat sns_max_tag_value_length @ '' characters'')))) tags)"

definition sns_validate_tag_keys :: "string list \<Rightarrow> bool \<Rightarrow> sns_error + unit" where
  "sns_validate_tag_keys tag_keys allow_empty =
     (if \<not> allow_empty \<and> tag_keys = []
      then Inl (SnsBadRequest ''TagKeys must contain at least one entry'')
      else if length tag_keys > max_tags_per_resource
      then Inl (SnsBadRequest (''TagKeys can contain at most '' @ show_nat max_tags_per_resource @ '' entries''))
      else check_all sns_validate_tag_key tag_keys)"

section \<open>ARNs read back\<close>

lemma split_arn:
  assumes "CHR '':'' \<notin> set region" "CHR '':'' \<notin> set account" "CHR '':'' \<notin> set name"
    and "CHR '':'' \<notin> set svc"
  shows "split_all (CHR '':'') (''arn:aws:'' @ svc @ CHR '':'' # region @ CHR '':'' # account @ CHR '':'' # name) =
    [''arn'', ''aws'', svc, region, account, name]"
  using assms by simp

lemma six_parts:
  assumes "length (split_all (CHR '':'') arn) = 6"
  obtains a b c d e f where "split_all (CHR '':'') arn = [a, b, c, d, e, f]"
    "arn = a @ '':'' @ b @ '':'' @ c @ '':'' @ d @ '':'' @ e @ '':'' @ f"
    "CHR '':'' \<notin> set d \<union> set e \<union> set f"
proof -
  from assms obtain a b c d e f where parts: "split_all (CHR '':'') arn = [a, b, c, d, e, f]"
    by (auto simp: numeral_eq_Suc length_Suc_conv)
  have "arn = join_strings '':'' [a, b, c, d, e, f]" using join_split_all [of "CHR '':''" arn] parts by simp
  moreover have "CHR '':'' \<notin> set d \<union> set e \<union> set f"
    using split_all_parts [of _ "CHR '':''" arn] parts by auto
  ultimately show ?thesis using that parts by simp
qed

lemma arn_topic_key_sns_arn:
  assumes "CHR '':'' \<notin> set region" "CHR '':'' \<notin> set account" "CHR '':'' \<notin> set name"
  shows "arn_topic_key (sns_arn region account name) = Some (name, region, account)"
  using split_arn [OF assms, of "''sns''"] by (simp add: arn_topic_key_def sns_arn_def numeral_eq_Suc)

text \<open>An ARN that passes the check is the one printed for the topic it names.\<close>

lemma parse_sns_topic_arn_Some:
  assumes "parse_sns_topic_arn arn = Some r"
  shows "arn = sns_arn (tr_region r) (tr_account_id r) (tr_name r) \<and>
         arn_topic_key arn = Some (tr_name r, tr_region r, tr_account_id r)"
proof -
  from assms have "length (split_all (CHR '':'') arn) = 6"
    by (auto simp: parse_sns_topic_arn_def Let_def split: if_splits)
  then obtain a b c d e f where "split_all (CHR '':'') arn = [a, b, c, d, e, f]"
    "arn = a @ '':'' @ b @ '':'' @ c @ '':'' @ d @ '':'' @ e @ '':'' @ f" by (rule six_parts)
  with assms show ?thesis
    by (auto simp: parse_sns_topic_arn_def arn_topic_key_def sns_arn_def Let_def numeral_eq_Suc split: if_splits)
qed

lemma validate_topic_arn_Inr: "validate_topic_arn arn field = Inr u \<longleftrightarrow> arn \<noteq> [] \<and> (\<exists>r. parse_sns_topic_arn arn = Some r)"
  by (auto simp: validate_topic_arn_def)

end
