(* ===== verification/Sns_Store_Laws.thy ===== *)
theory Sns_Store_Laws
  imports Sns_Store Tag_Rows Sqs_Store_Laws
begin

text \<open>
  What the SQLite implementation of the SNS store promises: an integrity invariant that every
  statement keeps, and the refinement of a specification in which the store is three maps without
  row ids. The names of topics and of subscriptions are their keys in the specification.
\<close>

section \<open>Integrity\<close>

definition sns_inv :: "sns_db \<Rightarrow> bool" where
  "sns_inv db \<longleftrightarrow>
     distinct (map tp_id (topics db)) \<and> distinct (map topic_key (topics db)) \<and>
     distinct (map sub_id (subscriptions db)) \<and> distinct (map sub_subscription_arn (subscriptions db)) \<and>
     distinct (map tag_key (topic_tags db)) \<and> fst ` set (topic_tags db) \<subseteq> tp_id ` set (topics db) \<and>
     list_all (\<lambda>t. tp_id t \<le> topic_seq db) (topics db) \<and>
     list_all (\<lambda>s. sub_id s \<le> subscription_seq db) (subscriptions db)"

definition sns_keys ::
    "sns_db \<Rightarrow> int list \<times> topic_key list \<times> int list \<times> string list \<times> (int \<times> string) list \<times> int \<times> int" where
  "sns_keys db = (map tp_id (topics db), map topic_key (topics db), map sub_id (subscriptions db),
     map sub_subscription_arn (subscriptions db), map tag_key (topic_tags db), topic_seq db, subscription_seq db)"

text \<open>The invariant looks at keys only, so a statement that changes other columns keeps it.\<close>

lemma sns_inv_keys:
  assumes "sns_inv db" "sns_keys db' = sns_keys db"
  shows "sns_inv db'"
proof -
  have owner: "fst ` set (topic_tags d) = fst ` set (map tag_key (topic_tags d))" for d
    by (force simp: tag_key_def)
  have bound: "list_all (\<lambda>t. tp_id t \<le> topic_seq d) (topics d) = list_all (\<lambda>i. i \<le> topic_seq d) (map tp_id (topics d))"
    "list_all (\<lambda>s. sub_id s \<le> subscription_seq d) (subscriptions d) =
       list_all (\<lambda>i. i \<le> subscription_seq d) (map sub_id (subscriptions d))" for d
    by (simp_all add: list_all_iff)
  have "fst ` set (topic_tags db') = fst ` set (topic_tags db)" "tp_id ` set (topics db') = tp_id ` set (topics db)"
    using assms(2) unfolding owner by (simp_all only: sns_keys_def prod.inject set_map [symmetric])
  then show ?thesis
    using assms unfolding sns_inv_def bound by (simp only: sns_keys_def prod.inject)
qed

lemma sns_inv_empty [simp]: "sns_inv empty_sns_db"
  by (simp add: sns_inv_def empty_sns_db_def)

lemma inv_topic_ids: "sns_inv db \<Longrightarrow> distinct (map tp_id (topics db))"
  and inv_topic_keys: "sns_inv db \<Longrightarrow> distinct (map topic_key (topics db))"
  and inv_sub_ids: "sns_inv db \<Longrightarrow> distinct (map sub_id (subscriptions db))"
  and inv_sub_arns: "sns_inv db \<Longrightarrow> distinct (map sub_subscription_arn (subscriptions db))"
  and inv_tag_owner: "sns_inv db \<Longrightarrow> fst ` set (topic_tags db) \<subseteq> tp_id ` set (topics db)"
  and inv_topic_seq: "sns_inv db \<Longrightarrow> t \<in> set (topics db) \<Longrightarrow> tp_id t \<le> topic_seq db"
  by (simp_all add: sns_inv_def list_all_iff)

lemma topic_by_id: "sns_inv db \<Longrightarrow> t \<in> set (topics db) \<Longrightarrow> t' \<in> set (topics db) \<Longrightarrow> tp_id t = tp_id t' \<Longrightarrow> t = t'"
  by (metis inv_topic_ids distinct_map inj_onD)

lemma sub_by_id:
  "sns_inv db \<Longrightarrow> s \<in> set (subscriptions db) \<Longrightarrow> s' \<in> set (subscriptions db) \<Longrightarrow> sub_id s = sub_id s' \<Longrightarrow> s = s'"
  by (metis inv_sub_ids distinct_map inj_onD)

section \<open>Statements\<close>

datatype sns_stmt =
    CreateTopicStmt sns_topic
  | DeleteTopicStmt string
  | CreateSubscriptionStmt sns_subscription
  | DeleteSubscriptionStmt string
  | SetSubscriptionAttributesStmt string sns_subscription_attribute_update
  | SetTopicAttributesStmt string string string sns_topic_attribute_update
  | TagTopicStmt string "(string \<times> string) list"
  | UntagTopicStmt string "string list"

fun sns_exec :: "sqlite_texts \<Rightarrow> sns_stmt \<Rightarrow> (sns_db, store_error, unit) store_op" where
  "sns_exec UE (CreateTopicStmt t) = sqlite_create_topic UE t"
| "sns_exec UE (DeleteTopicStmt arn) = sqlite_delete_topic arn"
| "sns_exec UE (CreateSubscriptionStmt s) = sqlite_create_subscription UE s"
| "sns_exec UE (DeleteSubscriptionStmt arn) = sqlite_delete_subscription arn"
| "sns_exec UE (SetSubscriptionAttributesStmt arn u) = sqlite_set_subscription_attributes arn u"
| "sns_exec UE (SetTopicAttributesStmt account region name u) = sqlite_set_topic_attributes account region name u"
| "sns_exec UE (TagTopicStmt arn tags) = sqlite_tag_topic arn tags"
| "sns_exec UE (UntagTopicStmt arn keys) = sqlite_untag_topic arn keys"

section \<open>The specification\<close>

record sns_spec =
  a_topics :: "topic_key \<Rightarrow> sns_topic option"
  a_subscriptions :: "string \<Rightarrow> sns_subscription option"
  a_tags :: "topic_key \<Rightarrow> string \<Rightarrow> string option"

definition spec_update_topic :: "topic_key \<Rightarrow> sns_topic_attribute_update \<Rightarrow> sns_spec \<Rightarrow> (store_error + unit) \<times> sns_spec" where
  "spec_update_topic k u S =
     (case a_topics S k of
        None \<Rightarrow> (Inl topic_not_found, S)
      | Some t \<Rightarrow> (Inr (), S\<lparr>a_topics := (a_topics S)(k \<mapsto> apply_topic_update u t t)\<rparr>))"

text \<open>An operation on the topic an ARN names.\<close>

definition spec_on_topic ::
    "string \<Rightarrow> (topic_key \<Rightarrow> sns_spec \<Rightarrow> sns_spec) \<Rightarrow> sns_spec \<Rightarrow> (store_error + unit) \<times> sns_spec" where
  "spec_on_topic arn f S =
     (case arn_topic_key arn of
        None \<Rightarrow> (Inl topic_not_found, S)
      | Some k \<Rightarrow> if a_topics S k = None then (Inl topic_not_found, S) else (Inr (), f k S))"

fun spec_exec :: "sqlite_texts \<Rightarrow> sns_stmt \<Rightarrow> sns_spec \<Rightarrow> (store_error + unit) \<times> sns_spec" where
  "spec_exec UE (CreateTopicStmt t) S =
     (if a_topics S (topic_key t) \<noteq> None then (Inl (StoreConflict (txt_unique UE)), S)
      else (Inr (), S\<lparr>a_topics := (a_topics S)(topic_key t \<mapsto> t\<lparr>tp_id := 0\<rparr>)\<rparr>))"
| "spec_exec UE (DeleteTopicStmt arn) S =
     spec_on_topic arn (\<lambda>k S. S\<lparr>a_topics := (a_topics S)(k := None), a_tags := (a_tags S)(k := Map.empty),
       a_subscriptions := (\<lambda>a. case a_subscriptions S a of
          Some s \<Rightarrow> if sub_topic_arn s = arn then None else Some s | None \<Rightarrow> None)\<rparr>) S"
| "spec_exec UE (CreateSubscriptionStmt s) S =
     (if a_subscriptions S (sub_subscription_arn s) \<noteq> None then (Inl (StoreConflict (txt_unique UE)), S)
      else (Inr (), S\<lparr>a_subscriptions := (a_subscriptions S)(sub_subscription_arn s \<mapsto> s\<lparr>sub_id := 0\<rparr>)\<rparr>))"
| "spec_exec UE (DeleteSubscriptionStmt arn) S =
     (if a_subscriptions S arn = None then (Inl subscription_not_found, S)
      else (Inr (), S\<lparr>a_subscriptions := (a_subscriptions S)(arn := None)\<rparr>))"
| "spec_exec UE (SetSubscriptionAttributesStmt arn u) S =
     (case a_subscriptions S arn of
        None \<Rightarrow> (Inl subscription_not_found, S)
      | Some s \<Rightarrow> (Inr (), S\<lparr>a_subscriptions := (a_subscriptions S)(arn \<mapsto> apply_subscription_update u s s)\<rparr>))"
| "spec_exec UE (SetTopicAttributesStmt account region name u) S =
     (case arn_topic_key (sns_arn region account name) of
        None \<Rightarrow> (Inl topic_not_found, S) | Some k \<Rightarrow> spec_update_topic k u S)"
| "spec_exec UE (TagTopicStmt arn tags) S =
     spec_on_topic arn (\<lambda>k S. S\<lparr>a_tags := (a_tags S)(k := a_tags S k ++ map_of (rev tags))\<rparr>) S"
| "spec_exec UE (UntagTopicStmt arn keys) S =
     spec_on_topic arn (\<lambda>k S. S\<lparr>a_tags := (a_tags S)(k := a_tags S k |` (- set keys))\<rparr>) S"

section \<open>Abstraction\<close>

definition topic_tag_map :: "sns_db \<Rightarrow> topic_key \<Rightarrow> string \<Rightarrow> string option" where
  "topic_tag_map db k = (case find_topic k db of None \<Rightarrow> Map.empty | Some t \<Rightarrow> map_of (tags_of (tp_id t) (topic_tags db)))"

definition abs_sns :: "sns_db \<Rightarrow> sns_spec" where
  "abs_sns db =
     \<lparr>a_topics = (\<lambda>k. map_option (\<lambda>t. t\<lparr>tp_id := 0\<rparr>) (find_topic k db)),
      a_subscriptions = (\<lambda>arn. map_option (\<lambda>s. s\<lparr>sub_id := 0\<rparr>) (find_subscription arn db)),
      a_tags = topic_tag_map db\<rparr>"

lemma abs_sns_sel [simp]:
  "a_topics (abs_sns db) k = map_option (\<lambda>t. t\<lparr>tp_id := 0\<rparr>) (find_topic k db)"
  "a_subscriptions (abs_sns db) arn = map_option (\<lambda>s. s\<lparr>sub_id := 0\<rparr>) (find_subscription arn db)"
  "a_tags (abs_sns db) = topic_tag_map db"
  by (simp_all add: abs_sns_def)

lemma list_ex_topic: "list_ex (\<lambda>t. topic_key t = k) (topics db) \<longleftrightarrow> find_topic k db \<noteq> None"
  by (auto simp: find_topic_def find_None_iff list_ex_iff)

lemma list_ex_subscription:
  "list_ex (\<lambda>s. sub_subscription_arn s = a) (subscriptions db) \<longleftrightarrow> find_subscription a db \<noteq> None"
  by (auto simp: find_subscription_def find_None_iff list_ex_iff)

lemma update_keys [simp]:
  "topic_key (apply_topic_update u t x) = topic_key x" "tp_id (apply_topic_update u t x) = tp_id x"
  "sub_subscription_arn (apply_subscription_update v s y) = sub_subscription_arn y"
  "sub_id (apply_subscription_update v s y) = sub_id y"
  "topic_key (x\<lparr>tp_id := i\<rparr>) = topic_key x"
  by (simp_all add: apply_topic_update_def apply_subscription_update_def topic_key_def)

lemma sns_spec_eqI:
  "(\<And>k. a_topics S k = a_topics T k) \<Longrightarrow> (\<And>a. a_subscriptions S a = a_subscriptions T a) \<Longrightarrow>
   (\<And>k. a_tags S k = a_tags T k) \<Longrightarrow> S = (T :: sns_spec)"
  by (cases S, cases T) (simp add: fun_eq_iff)

lemma same_topics:
  assumes "topics db' = topics db"
  shows "find_topic k db' = find_topic k db"
    and "topic_tags db' = topic_tags db \<Longrightarrow> topic_tag_map db' k = topic_tag_map db k"
proof -
  show same: "find_topic k db' = find_topic k db" by (simp add: find_topic_def assms)
  show "topic_tags db' = topic_tags db \<Longrightarrow> topic_tag_map db' k = topic_tag_map db k"
    by (simp add: topic_tag_map_def same split: option.splits)
qed

lemma same_subscriptions: "subscriptions db' = subscriptions db \<Longrightarrow> find_subscription a db' = find_subscription a db"
  by (simp add: find_subscription_def)

section \<open>Each statement refines its specification\<close>

lemma create_topic_refines:
  assumes "sns_inv db"
  shows "apsnd abs_sns (sqlite_create_topic UE t db) = spec_exec UE (CreateTopicStmt t) (abs_sns db)"
proof (cases "find_topic (topic_key t) db")
  case None
  let ?db = "snd (sqlite_create_topic UE t db)"
  have run: "sqlite_create_topic UE t db = (Inr (), ?db)"
    and rows: "topics ?db = topics db @ [t\<lparr>tp_id := topic_seq db + 1\<rparr>]" "subscriptions ?db = subscriptions db"
      "topic_tags ?db = topic_tags db"
    using None by (simp_all add: sqlite_create_topic_def list_ex_topic)
  have found: "find_topic k ?db = (if k = topic_key t then Some (t\<lparr>tp_id := topic_seq db + 1\<rparr>) else find_topic k db)" for k
    using None by (auto simp: find_topic_def rows find_key_append split: option.splits)
  have "topic_seq db + 1 \<notin> fst ` set (topic_tags db)"
    using inv_tag_owner [OF assms] inv_topic_seq [OF assms] by force
  then have "tags_of (topic_seq db + 1) (topic_tags db) = []"
    by (force simp: tags_of_def filter_empty_conv)
  then have "topic_tag_map ?db k = topic_tag_map db k" for k
    using None by (simp add: topic_tag_map_def found rows split: option.split)
  then have "abs_sns ?db = (abs_sns db)\<lparr>a_topics := (a_topics (abs_sns db))(topic_key t \<mapsto> t\<lparr>tp_id := 0\<rparr>)\<rparr>"
    by (intro sns_spec_eqI) (simp_all add: found same_subscriptions [OF rows(2)])
  then show ?thesis using None by (subst run) simp
qed (simp add: sqlite_create_topic_def list_ex_topic)

lemma create_subscription_refines:
  "apsnd abs_sns (sqlite_create_subscription UE s db) = spec_exec UE (CreateSubscriptionStmt s) (abs_sns db)"
proof (cases "find_subscription (sub_subscription_arn s) db")
  case None
  let ?db = "snd (sqlite_create_subscription UE s db)"
  have run: "sqlite_create_subscription UE s db = (Inr (), ?db)"
    and rows: "subscriptions ?db = subscriptions db @ [s\<lparr>sub_id := subscription_seq db + 1\<rparr>]"
      "topics ?db = topics db" "topic_tags ?db = topic_tags db"
    using None by (simp_all add: sqlite_create_subscription_def list_ex_subscription)
  have "find_subscription a ?db =
      (if a = sub_subscription_arn s then Some (s\<lparr>sub_id := subscription_seq db + 1\<rparr>) else find_subscription a db)" for a
    using None by (auto simp: find_subscription_def rows find_key_append split: option.splits)
  then have "abs_sns ?db = (abs_sns db)
      \<lparr>a_subscriptions := (a_subscriptions (abs_sns db))(sub_subscription_arn s \<mapsto> s\<lparr>sub_id := 0\<rparr>)\<rparr>"
    by (intro sns_spec_eqI) (simp_all add: same_topics [OF rows(2)] rows(3))
  then show ?thesis using None by (subst run) simp
qed (simp add: sqlite_create_subscription_def list_ex_subscription)

lemma delete_subscription_refines:
  assumes "sns_inv db"
  shows "apsnd abs_sns (sqlite_delete_subscription arn db) = spec_exec UE (DeleteSubscriptionStmt arn) (abs_sns db)"
proof (cases "find_subscription arn db")
  case (Some s)
  let ?db = "snd (sqlite_delete_subscription arn db)"
  have run: "sqlite_delete_subscription arn db = (Inr (), ?db)"
    and rows: "subscriptions ?db = filter (\<lambda>s. sub_subscription_arn s \<noteq> arn) (subscriptions db)"
      "topics ?db = topics db" "topic_tags ?db = topic_tags db"
    using Some by (simp_all add: sqlite_delete_subscription_def list_ex_subscription)
  have "find_subscription a ?db = (if a = arn then None else find_subscription a db)" for a
    by (auto simp: find_subscription_def rows find_key_filter [OF inv_sub_arns [OF assms]]
        dest!: find_key_in split: option.splits)
  then have "abs_sns ?db = (abs_sns db)\<lparr>a_subscriptions := (a_subscriptions (abs_sns db))(arn := None)\<rparr>"
    by (intro sns_spec_eqI) (simp_all add: same_topics [OF rows(2)] rows(3))
  then show ?thesis using Some by (subst run) simp
qed (simp add: sqlite_delete_subscription_def list_ex_subscription)

lemma set_subscription_attributes_refines:
  assumes "sns_inv db"
  shows "apsnd abs_sns (sqlite_set_subscription_attributes arn u db) =
    spec_exec UE (SetSubscriptionAttributesStmt arn u) (abs_sns db)"
proof (cases "find_subscription arn db")
  case (Some s)
  let ?db = "snd (sqlite_set_subscription_attributes arn u db)"
  let ?h = "\<lambda>x. if sub_id x = sub_id s then apply_subscription_update u s x else x"
  have run: "sqlite_set_subscription_attributes arn u db = (Inr (), ?db)"
    and rows: "subscriptions ?db = map ?h (subscriptions db)" "topics ?db = topics db" "topic_tags ?db = topic_tags db"
    using Some by (simp_all add: sqlite_set_subscription_attributes_def)
  have s: "s \<in> set (subscriptions db)" "sub_subscription_arn s = arn"
    using Some by (auto simp: find_subscription_def dest: find_key_in)
  have "map_option ?h (find_subscription a db) =
      (if a = arn then Some (apply_subscription_update u s s) else find_subscription a db)" for a
  proof (cases "a = arn")
    case True
    then show ?thesis using Some by simp
  next
    case False
    then have "?h x = x" if "find_subscription a db = Some x" for x
      using that s sub_by_id [OF assms, of x s] by (auto simp: find_subscription_def dest!: find_key_in)
    then show ?thesis using False by (cases "find_subscription a db") simp_all
  qed
  then have "find_subscription a ?db = (if a = arn then Some (apply_subscription_update u s s) else find_subscription a db)" for a
    by (simp add: find_subscription_def rows find_key_map [where h = ?h])
  moreover have "(apply_subscription_update u s s)\<lparr>sub_id := 0\<rparr> = apply_subscription_update u (s\<lparr>sub_id := 0\<rparr>) (s\<lparr>sub_id := 0\<rparr>)"
    by (simp add: apply_subscription_update_def)
  ultimately have "abs_sns ?db = (abs_sns db)\<lparr>a_subscriptions := (a_subscriptions (abs_sns db))
      (arn \<mapsto> apply_subscription_update u (s\<lparr>sub_id := 0\<rparr>) (s\<lparr>sub_id := 0\<rparr>))\<rparr>"
    by (intro sns_spec_eqI) (simp_all add: same_topics [OF rows(2)] rows(3))
  then show ?thesis using Some by (subst run) simp
qed (simp add: sqlite_set_subscription_attributes_def)

lemma set_topic_attributes_refines:
  assumes "sns_inv db"
  shows "apsnd abs_sns (sqlite_set_topic_attributes account region name u db) =
    spec_exec UE (SetTopicAttributesStmt account region name u) (abs_sns db)"
proof (cases "arn_topic_key (sns_arn region account name)")
  case key: (Some k)
  show ?thesis
  proof (cases "find_topic k db")
    case (Some t)
    let ?db = "snd (sqlite_set_topic_attributes account region name u db)"
    let ?h = "\<lambda>x. if tp_id x = tp_id t then apply_topic_update u t x else x"
    have run: "sqlite_set_topic_attributes account region name u db = (Inr (), ?db)"
      and rows: "topics ?db = map ?h (topics db)" "subscriptions ?db = subscriptions db" "topic_tags ?db = topic_tags db"
      using key Some by (simp_all add: sqlite_set_topic_attributes_def sqlite_get_topic_def)
    have t: "t \<in> set (topics db)" "topic_key t = k"
      using Some by (auto simp: find_topic_def dest: find_key_in)
    have "map_option ?h (find_topic j db) = (if j = k then Some (apply_topic_update u t t) else find_topic j db)" for j
    proof (cases "j = k")
      case True
      then show ?thesis using Some by simp
    next
      case False
      then have "?h x = x" if "find_topic j db = Some x" for x
        using that t topic_by_id [OF assms, of x t] by (auto simp: find_topic_def dest!: find_key_in)
      then show ?thesis using False by (cases "find_topic j db") simp_all
    qed
    then have found: "find_topic j ?db = (if j = k then Some (apply_topic_update u t t) else find_topic j db)" for j
      by (simp add: find_topic_def rows find_key_map [where h = ?h])
    moreover have "(apply_topic_update u t t)\<lparr>tp_id := 0\<rparr> = apply_topic_update u (t\<lparr>tp_id := 0\<rparr>) (t\<lparr>tp_id := 0\<rparr>)"
      by (simp add: apply_topic_update_def)
    moreover have "topic_tag_map ?db j = topic_tag_map db j" for j
      using Some by (simp add: topic_tag_map_def found rows split: option.split)
    ultimately have "abs_sns ?db = (abs_sns db)\<lparr>a_topics := (a_topics (abs_sns db))
        (k \<mapsto> apply_topic_update u (t\<lparr>tp_id := 0\<rparr>) (t\<lparr>tp_id := 0\<rparr>))\<rparr>"
      by (intro sns_spec_eqI) (simp_all add: same_subscriptions [OF rows(2)])
    then show ?thesis using key Some by (subst run) (simp add: spec_update_topic_def)
  qed (use key in \<open>simp add: sqlite_set_topic_attributes_def sqlite_get_topic_def spec_update_topic_def\<close>)
qed (simp add: sqlite_set_topic_attributes_def sqlite_get_topic_def)

lemma tags_of_filter_owner:
  "tags_of j (filter (\<lambda>(i, _). i \<noteq> tid) rows) = (if j = tid then [] else tags_of j rows)"
  by (induction rows) (auto simp: tags_of_def)

lemma delete_topic_refines:
  assumes "sns_inv db"
  shows "apsnd abs_sns (sqlite_delete_topic arn db) = spec_exec UE (DeleteTopicStmt arn) (abs_sns db)"
proof (cases "arn_topic_key arn")
  case key: (Some k)
  show ?thesis
  proof (cases "find_topic k db")
    case None
    then have "filter (\<lambda>t. topic_key t = k) (topics db) = []"
      by (simp add: find_topic_def find_None_iff filter_empty_conv)
    with None key show ?thesis by (simp add: sqlite_delete_topic_def spec_on_topic_def list_ex_topic)
  next
    case (Some t)
    let ?db = "snd (sqlite_delete_topic arn db)"
    have t: "t \<in> set (topics db)" "topic_key t = k"
      using Some by (auto simp: find_topic_def dest: find_key_in)
    have "filter (\<lambda>t. topic_key t = k) (topics db) = [t]"
      using filter_key [OF inv_topic_keys [OF assms] t(1)] t(2) by simp
    moreover have "list_ex (\<lambda>t. topic_key t = k) (topics db)" using Some by (simp add: list_ex_topic)
    ultimately have eq: "sqlite_delete_topic arn db =
        (Inr (), db\<lparr>topic_tags := filter (\<lambda>(i, _). i \<noteq> tp_id t) (topic_tags db),
           topics := filter (\<lambda>t. topic_key t \<noteq> k) (topics db),
           subscriptions := filter (\<lambda>s. sub_topic_arn s \<noteq> arn) (subscriptions db)\<rparr>)"
      using key by (simp add: sqlite_delete_topic_def)
    then have run: "sqlite_delete_topic arn db = (Inr (), ?db)"
      and rows: "topics ?db = filter (\<lambda>t. topic_key t \<noteq> k) (topics db)"
        "subscriptions ?db = filter (\<lambda>s. sub_topic_arn s \<noteq> arn) (subscriptions db)"
        "topic_tags ?db = filter (\<lambda>(i, _). i \<noteq> tp_id t) (topic_tags db)"
      by simp_all
    have found: "find_topic j ?db = (if j = k then None else find_topic j db)" for j
      by (auto simp: find_topic_def rows find_key_filter [OF inv_topic_keys [OF assms]]
          dest!: find_key_in split: option.splits)
    have "topic_tag_map ?db j = (if j = k then Map.empty else topic_tag_map db j)" for j
    proof (cases "j = k \<or> find_topic j db = None")
      case False
      then obtain x where x: "find_topic j db = Some x" "x \<in> set (topics db)" "topic_key x = j"
        by (auto simp: find_topic_def dest: find_key_in)
      then have "tp_id x \<noteq> tp_id t" using False t topic_by_id [OF assms, of x t] by auto
      then show ?thesis using False x by (simp add: topic_tag_map_def found rows tags_of_filter_owner)
    qed (auto simp: topic_tag_map_def found)
    moreover have "find_subscription a ?db = (case find_subscription a db of
        Some s \<Rightarrow> if sub_topic_arn s = arn then None else Some s | None \<Rightarrow> None)" for a
      by (auto simp: find_subscription_def rows find_key_filter [OF inv_sub_arns [OF assms]] split: option.splits)
    ultimately have "abs_sns ?db = snd (spec_exec UE (DeleteTopicStmt arn) (abs_sns db))"
      using key Some by (intro sns_spec_eqI) (auto simp: spec_on_topic_def found split: option.splits)
    then show ?thesis using key Some by (subst run) (simp add: spec_on_topic_def)
  qed
qed (simp add: sqlite_delete_topic_def spec_on_topic_def)

lemma for_each_step: "fst (f x s) = Inr () \<Longrightarrow> for_each f (x # xs) s = for_each f xs (snd (f x s))"
  by (cases "f x s") (simp add: sbind_def)

lemma for_each_ok: "(\<And>x s. fst (f x s) = Inr ()) \<Longrightarrow> fst (for_each f xs s) = Inr ()"
proof (induction xs arbitrary: s)
  case (Cons x xs)
  then show ?case by (simp only: for_each_step)
qed simp

lemma tag_steps_ok: "fst (upsert_topic_tag tid kv db) = Inr ()" "fst (delete_topic_tag tid key db) = Inr ()"
  by (simp_all add: upsert_topic_tag_def delete_topic_tag_def)

lemma upsert_topic_tags:
  "for_each (upsert_topic_tag tid) tags db = (Inr (), db') \<Longrightarrow>
   topics db' = topics db \<and> subscriptions db' = subscriptions db \<and>
   map_of (tags_of j (topic_tags db')) =
     (if j = tid then map_of (tags_of j (topic_tags db)) ++ map_of (rev tags) else map_of (tags_of j (topic_tags db)))"
proof (induction tags arbitrary: db)
  case (Cons kv tags)
  let ?db = "snd (upsert_topic_tag tid kv db)"
  have rest: "for_each (upsert_topic_tag tid) tags ?db = (Inr (), db')"
    using Cons.prems by (simp only: for_each_step tag_steps_ok)
  have "map_of (tags_of j (topic_tags ?db)) =
      (if j = tid then (map_of (tags_of j (topic_tags db)))(fst kv \<mapsto> snd kv) else map_of (tags_of j (topic_tags db)))"
    using upsert_rows_map [of j tid kv "topic_tags db"] by (simp add: upsert_topic_tag_def)
  moreover have "topics ?db = topics db" "subscriptions ?db = subscriptions db" by (simp_all add: upsert_topic_tag_def)
  moreover have "m(fst kv \<mapsto> snd kv) ++ map_of (rev tags) = m ++ map_of (rev (kv # tags))" for m :: "string \<Rightarrow> string option"
    by (cases kv) (auto simp: fun_eq_iff map_add_def split: option.split)
  ultimately show ?case using Cons.IH [OF rest] by (cases "j = tid") simp_all
qed simp

lemma delete_topic_tags:
  "for_each (delete_topic_tag tid) keys db = (Inr (), db') \<Longrightarrow>
   topics db' = topics db \<and> subscriptions db' = subscriptions db \<and>
   map_of (tags_of j (topic_tags db')) =
     (if j = tid then map_of (tags_of j (topic_tags db)) |` (- set keys) else map_of (tags_of j (topic_tags db)))"
proof (induction keys arbitrary: db)
  case (Cons key keys)
  let ?db = "snd (delete_topic_tag tid key db)"
  have rest: "for_each (delete_topic_tag tid) keys ?db = (Inr (), db')"
    using Cons.prems by (simp only: for_each_step tag_steps_ok)
  have rows: "topic_tags ?db = filter (\<lambda>(i, k, _). \<not> (i = tid \<and> k = key)) (topic_tags db)"
    by (simp add: delete_topic_tag_def)
  have "map_of (tags_of j (topic_tags ?db)) =
      (if j = tid then map_of (tags_of j (topic_tags db)) |` (- {key}) else map_of (tags_of j (topic_tags db)))"
    unfolding rows tags_of_delete by (simp add: map_of_filter_key)
  moreover have "- {key} \<inter> - set keys = - set (key # keys)" by auto
  moreover have "topics ?db = topics db" "subscriptions ?db = subscriptions db" by (simp_all add: delete_topic_tag_def)
  ultimately show ?case using Cons.IH [OF rest] by (cases "j = tid") (simp_all add: Int_commute)
qed (simp add: restrict_map_def)

text \<open>Both loops run on the topic that the ARN names and change its tags only.\<close>

lemma on_topic_refines:
  assumes "sns_inv db"
    and step: "\<And>tid db' j. for_each (g tid) xs db = (Inr (), db') \<Longrightarrow>
      topics db' = topics db \<and> subscriptions db' = subscriptions db \<and>
      map_of (tags_of j (topic_tags db')) =
        (if j = tid then h (map_of (tags_of j (topic_tags db))) else map_of (tags_of j (topic_tags db)))"
    and "\<And>tid x s. fst (g tid x s) = Inr ()"
  shows "apsnd abs_sns (sbind (sread (sqlite_get_topic arn)) (\<lambda>found.
      sbind (slift (ok_or topic_not_found found)) (\<lambda>t. for_each (g (tp_id t)) xs)) db) =
    spec_on_topic arn (\<lambda>k S. S\<lparr>a_tags := (a_tags S)(k := h (a_tags S k))\<rparr>) (abs_sns db)"
proof (cases "arn_topic_key arn")
  case key: (Some k)
  show ?thesis
  proof (cases "find_topic k db")
    case (Some t)
    let ?run = "for_each (g (tp_id t)) xs db"
    have run: "?run = (Inr (), snd ?run)" using for_each_ok [of "g (tp_id t)" xs db] assms(3) by (cases ?run) simp
    note rows = step [OF run]
    have t: "t \<in> set (topics db)" "topic_key t = k" using Some by (auto simp: find_topic_def dest: find_key_in)
    have topics: "find_topic j (snd ?run) = find_topic j db" for j by (rule same_topics(1) [OF conjunct1 [OF rows]])
    have "topic_tag_map (snd ?run) j = (if j = k then h (topic_tag_map db k) else topic_tag_map db j)" for j
    proof (cases "find_topic j db")
      case x: (Some x)
      then have "x \<in> set (topics db)" "topic_key x = j" by (auto simp: find_topic_def dest: find_key_in)
      then have "tp_id x = tp_id t \<longleftrightarrow> j = k" using t topic_by_id [OF assms(1)] x Some by (metis option.inject)
      with x Some rows [of "tp_id x"] show ?thesis unfolding topic_tag_map_def topics by (cases "j = k") simp_all
    next
      case None
      then show ?thesis using Some by (auto simp: topic_tag_map_def topics)
    qed
    then have "abs_sns (snd ?run) = (abs_sns db)\<lparr>a_tags := (a_tags (abs_sns db))(k := h (a_tags (abs_sns db) k))\<rparr>"
      using same_subscriptions [OF conjunct1 [OF conjunct2 [OF rows]]]
      by (intro sns_spec_eqI) (simp_all add: topics)
    then show ?thesis using key Some run by (simp add: sqlite_get_topic_def spec_on_topic_def) (metis apsnd_conv)
  qed (use key in \<open>simp add: sqlite_get_topic_def spec_on_topic_def\<close>)
qed (simp add: sqlite_get_topic_def spec_on_topic_def)

lemma tag_topic_refines:
  "sns_inv db \<Longrightarrow> apsnd abs_sns (sqlite_tag_topic arn tags db) = spec_exec UE (TagTopicStmt arn tags) (abs_sns db)"
  unfolding sqlite_tag_topic_def spec_exec.simps
  by (rule on_topic_refines [OF _ upsert_topic_tags tag_steps_ok(1)])

lemma untag_topic_refines:
  "sns_inv db \<Longrightarrow> apsnd abs_sns (sqlite_untag_topic arn keys db) = spec_exec UE (UntagTopicStmt arn keys) (abs_sns db)"
  unfolding sqlite_untag_topic_def spec_exec.simps
  by (rule on_topic_refines [OF _ delete_topic_tags tag_steps_ok(2)])

lemmas sns_refines = create_topic_refines delete_topic_refines create_subscription_refines delete_subscription_refines
  set_subscription_attributes_refines set_topic_attributes_refines tag_topic_refines untag_topic_refines

section \<open>Integrity is kept\<close>

lemma keeps_create_topic: "keeps sns_inv (sqlite_create_topic UE t)"
proof (rule keepsI)
  fix db assume inv: "sns_inv db"
  then have "topic_seq db + 1 \<notin> tp_id ` set (topics db)" using inv_topic_seq [OF inv] by force
  with inv show "sns_inv (snd (sqlite_create_topic UE t db))"
    by (auto simp: sqlite_create_topic_def sns_inv_def list_all_iff list_ex_iff image_iff)
qed

lemma keeps_create_subscription: "keeps sns_inv (sqlite_create_subscription UE s)"
proof (rule keepsI)
  fix db assume inv: "sns_inv db"
  then have "subscription_seq db + 1 \<notin> sub_id ` set (subscriptions db)" by (force simp: sns_inv_def list_all_iff)
  with inv show "sns_inv (snd (sqlite_create_subscription UE s db))"
    by (auto simp: sqlite_create_subscription_def sns_inv_def list_all_iff list_ex_iff image_iff)
qed

lemma distinct_keys_filter: "distinct (map f xs) \<Longrightarrow> distinct (map f (filter P xs))"
  by (simp add: distinct_map_filter)

lemma keeps_delete_subscription: "keeps sns_inv (sqlite_delete_subscription arn)" "keeps sns_inv (sqlite_delete_subscription_by_id i)"
  by (auto simp: keeps_def sqlite_delete_subscription_def sqlite_delete_subscription_by_id_def sns_inv_def
      distinct_keys_filter list_all_iff)

lemma keeps_delete_topic: "keeps sns_inv (sqlite_delete_topic arn)"
proof (rule keepsI)
  fix db assume inv: "sns_inv db"
  show "sns_inv (snd (sqlite_delete_topic arn db))"
  proof (cases "arn_topic_key arn")
    case (Some k)
    let ?ids = "tp_id ` {t \<in> set (topics db). topic_key t = k}"
    have "fst ` {r \<in> set (topic_tags db). fst r \<notin> ?ids} \<subseteq> tp_id ` {t \<in> set (topics db). topic_key t \<noteq> k}"
      using inv_tag_owner [OF inv] by (fastforce simp: subset_iff image_iff)
    moreover have "fst ` {r \<in> set (topic_tags db). fst r \<notin> ?ids} \<subseteq> tp_id ` set (topics db)"
      using inv_tag_owner [OF inv] by auto
    ultimately show ?thesis
      using inv Some by (auto simp: sqlite_delete_topic_def Let_def sns_inv_def distinct_keys_filter list_all_iff case_prod_unfold)
  qed (simp add: sqlite_delete_topic_def inv)
qed

lemma keeps_set_attributes:
  "keeps sns_inv (sqlite_set_subscription_attributes arn u)"
  "keeps sns_inv (sqlite_set_topic_attributes account region name v)"
proof -
  have "sns_keys (snd (sqlite_set_subscription_attributes arn u db)) = sns_keys db" for db
    by (simp add: sqlite_set_subscription_attributes_def sns_keys_def split: option.split)
  then show "keeps sns_inv (sqlite_set_subscription_attributes arn u)" by (metis keepsI sns_inv_keys)
  have "sns_keys (snd (sqlite_set_topic_attributes account region name v db)) = sns_keys db" for db
    by (simp add: sqlite_set_topic_attributes_def sqlite_get_topic_def sns_keys_def split: option.split)
  then show "keeps sns_inv (sqlite_set_topic_attributes account region name v)" by (metis keepsI sns_inv_keys)
qed

definition owns_tags :: "int \<Rightarrow> sns_db \<Rightarrow> bool" where
  "owns_tags tid db \<longleftrightarrow> sns_inv db \<and> tid \<in> tp_id ` set (topics db)"

lemma keeps_upsert_topic_tag: "keeps (owns_tags tid) (upsert_topic_tag tid kv)"
proof (rule keepsI)
  fix db assume own: "owns_tags tid db"
  let ?db = "snd (upsert_topic_tag tid kv db)"
  have topics: "topics ?db = topics db" by (simp add: upsert_topic_tag_def)
  have "sns_inv ?db"
  proof (cases "list_ex (\<lambda>(i, k, _). i = tid \<and> k = fst kv) (topic_tags db)")
    case True
    then have "sns_keys ?db = sns_keys db"
      by (simp add: upsert_topic_tag_def sns_keys_def tag_key_def split_beta)
    with own show ?thesis unfolding owns_tags_def by (blast intro: sns_inv_keys)
  next
    case False
    then have "(tid, fst kv) \<notin> tag_key ` set (topic_tags db)" by (auto simp: list_ex_iff tag_key_def)
    with False own show ?thesis by (simp add: owns_tags_def upsert_topic_tag_def sns_inv_def tag_key_def list_all_iff)
  qed
  with own topics show "owns_tags tid ?db" by (simp add: owns_tags_def)
qed

lemma keeps_delete_topic_tag: "keeps sns_inv (delete_topic_tag tid key)"
  by (rule keepsI) (auto simp: delete_topic_tag_def sns_inv_def distinct_keys_filter list_all_iff)

lemma keeps_untag_topic: "keeps sns_inv (sqlite_untag_topic arn keys)"
  unfolding sqlite_untag_topic_def by (intro keeps_sbind keeps_sread keeps_slift keeps_for_each keeps_delete_topic_tag)

lemma keeps_tag_topic: "keeps sns_inv (sqlite_tag_topic arn tags)"
proof (rule keepsI)
  fix db assume inv: "sns_inv db"
  show "sns_inv (snd (sqlite_tag_topic arn tags db))"
  proof (cases "sqlite_get_topic arn db")
    case (Inr found)
    show ?thesis
    proof (cases found)
      case (Some t)
      then have "tp_id t \<in> tp_id ` set (topics db)"
        using Inr by (auto simp: sqlite_get_topic_def find_topic_def dest!: find_key_in split: option.splits)
      with inv have "owns_tags (tp_id t) (snd (for_each (upsert_topic_tag (tp_id t)) tags db))"
        by (intro keepsD [OF keeps_for_each [OF keeps_upsert_topic_tag]]) (simp add: owns_tags_def)
      then show ?thesis using Inr Some by (simp add: sqlite_tag_topic_def owns_tags_def)
    qed (use Inr inv in \<open>simp add: sqlite_tag_topic_def\<close>)
  qed (use inv in \<open>simp add: sqlite_tag_topic_def\<close>)
qed

lemmas sns_keeps = keeps_create_topic keeps_delete_topic keeps_create_subscription keeps_delete_subscription
  keeps_set_attributes keeps_tag_topic keeps_untag_topic

lemma sns_exec_keeps: "keeps sns_inv (sns_exec UE stmt)"
  by (cases stmt) (simp_all add: sns_keeps)

section \<open>The store is a refinement of the maps\<close>

fun sns_run :: "sqlite_texts \<Rightarrow> sns_stmt list \<Rightarrow> sns_db \<Rightarrow> (store_error + unit) list \<times> sns_db" where
  "sns_run UE [] db = ([], db)"
| "sns_run UE (st # sts) db =
     (case sns_exec UE st db of (r, db1) \<Rightarrow> (case sns_run UE sts db1 of (rs, db2) \<Rightarrow> (r # rs, db2)))"

fun spec_run :: "sqlite_texts \<Rightarrow> sns_stmt list \<Rightarrow> sns_spec \<Rightarrow> (store_error + unit) list \<times> sns_spec" where
  "spec_run UE [] S = ([], S)"
| "spec_run UE (st # sts) S =
     (case spec_exec UE st S of (r, S1) \<Rightarrow> (case spec_run UE sts S1 of (rs, S2) \<Rightarrow> (r # rs, S2)))"

lemma sns_exec_refines:
  "sns_inv db \<Longrightarrow> apsnd abs_sns (sns_exec UE st db) = spec_exec UE st (abs_sns db)"
  by (cases st) (simp_all only: sns_exec.simps sns_refines)


text \<open>The topic of the examples.\<close>

definition demo_topic :: sns_topic where
  "demo_topic = \<lparr>tp_id = 1, tp_name = ''news'', tp_region = ''us-east-1'', tp_account_id = ''000000000000'',
     tp_display_name = None, tp_policy = ''{}'', tp_delivery_policy = None, tp_fifo_topic = None,
     tp_signature_version = None, tp_tracing_config = None, tp_kms_master_key_id = None,
     tp_data_protection_policy = None, tp_archive_policy = None, tp_beginning_archive_time = None,
     tp_content_based_deduplication = None, tp_created_at = 0\<rparr>"


end
