(* ===== verification/Sns_Actions.thy ===== *)
theory Sns_Actions
  imports Sns_Support Sns_Store_Laws Sqs_Queue_Actions
begin

text \<open>
  The SNS actions of \<^verbatim>\<open>hiraeth_sns/src/actions\<close>, all but \<^verbatim>\<open>Publish\<close>: the validation closures and the
  handlers, over any store that implements the trait. A response is its result with the id of the
  request; the XML around it is written by \<^verbatim>\<open>quick_xml\<close>.
\<close>

record 'r sns_response =
  sr_result :: 'r
  sr_request_id :: string

definition sns_reply :: "resolved_request \<Rightarrow> 'r \<Rightarrow> 'r sns_response" where
  "sns_reply request r = \<lparr>sr_result = r, sr_request_id = rr_request_id request\<rparr>"

text \<open>\<^verbatim>\<open>store.get_topic(arn).await?.ok_or(SnsError::TopicNotFound)?\<close>.\<close>

definition load_topic :: "'s sns_store \<Rightarrow> string \<Rightarrow> 's \<Rightarrow> sns_error + sns_topic" where
  "load_topic store arn s =
     ebind (map_err sns_of_store_error (ss_get_topic store arn s)) (ok_or TopicNotFound)"

section \<open>Topics\<close>

record create_topic_request =
  ct_name :: string
  ct_attributes :: "(string \<times> string) list"
  ct_tags :: "(string \<times> string) list"

definition check_topic_attribute :: "ext \<Rightarrow> string \<times> string \<Rightarrow> sns_error + unit" where
  "check_topic_attribute E kv =
     (if \<not> is_valid_topic_attribute (fst kv)
      then Inl (SnsBadRequest (''Unsupported attribute name: '' @ fst kv))
      else validate_json_attribute E (fst kv) (snd kv))"

definition validate_create_topic :: "ext \<Rightarrow> create_topic_request \<Rightarrow> sns_error + unit" where
  "validate_create_topic E payload =
     ebind (validate_topic_name (ct_name payload) (map_of (ct_attributes payload) ''FifoTopic'')) (\<lambda>_.
     ebind (check_all (check_topic_attribute E) (ct_attributes payload)) (\<lambda>_.
     sns_validate_tags (ct_tags payload) True))"

definition requested_topic :: "resolved_request \<Rightarrow> time \<Rightarrow> create_topic_request \<Rightarrow> sns_topic" where
  "requested_topic request now body =
     (let attrs = map_of (ct_attributes body)
      in \<lparr>tp_id = 0, tp_name = ct_name body, tp_region = rr_region request, tp_account_id = req_account request,
          tp_display_name = attrs ''DisplayName'', tp_policy = coalesce (attrs ''Policy'') ''{}'',
          tp_delivery_policy = attrs ''DeliveryPolicy'', tp_fifo_topic = attrs ''FifoTopic'',
          tp_signature_version = attrs ''SignatureVersion'', tp_tracing_config = attrs ''TracingConfig'',
          tp_kms_master_key_id = attrs ''KmsMasterKeyId'', tp_data_protection_policy = attrs ''DataProtectionPolicy'',
          tp_archive_policy = attrs ''ArchivePolicy'', tp_beginning_archive_time = None,
          tp_content_based_deduplication = attrs ''ContentBasedDeduplication'', tp_created_at = now\<rparr>)"

definition handle_create_topic ::
    "'s sns_store \<Rightarrow> time \<Rightarrow> resolved_request \<Rightarrow> create_topic_request \<Rightarrow> ('s, sns_error, string sns_response) store_op" where
  "handle_create_topic store now request body =
     (let topic_arn = sns_arn (rr_region request) (req_account request) (ct_name body)
      in sbind (smap_err sns_of_store_error (ss_create_topic store (requested_topic request now body))) (\<lambda>_.
         sbind (if ct_tags body \<noteq> [] then smap_err sns_of_store_error (ss_tag_topic store topic_arn (ct_tags body))
                else slift (Inr ())) (\<lambda>_.
         slift (Inr (sns_reply request topic_arn)))))"

definition handle_delete_topic ::
    "'s sns_store \<Rightarrow> resolved_request \<Rightarrow> string \<Rightarrow> ('s, sns_error, unit sns_response) store_op" where
  "handle_delete_topic store request topic_arn =
     sbind (smap_err sns_of_store_error (ss_delete_topic store topic_arn)) (\<lambda>_.
     slift (Inr (sns_reply request ())))"

text \<open>Entries that are present only when the column is.\<close>

definition optional_attribute :: "string \<Rightarrow> string option \<Rightarrow> (string \<times> string) list" where
  "optional_attribute key v = (case v of None \<Rightarrow> [] | Some x \<Rightarrow> [(key, x)])"

definition topic_attribute_entries :: "sns_ext \<Rightarrow> sns_topic \<Rightarrow> (string \<times> string) list" where
  "topic_attribute_entries X topic =
     [(''TopicArn'', topic_arn_of topic), (''Owner'', tp_account_id topic),
      (''Policy'', topic_policy_attribute_value X (tp_policy topic) (topic_arn_of topic) (tp_account_id topic))] @
     optional_attribute ''DisplayName'' (tp_display_name topic) @
     optional_attribute ''DeliveryPolicy'' (tp_delivery_policy topic) @
     optional_attribute ''FifoTopic'' (tp_fifo_topic topic) @
     optional_attribute ''ContentBasedDeduplication'' (tp_content_based_deduplication topic) @
     optional_attribute ''SignatureVersion'' (tp_signature_version topic) @
     optional_attribute ''TracingConfig'' (tp_tracing_config topic) @
     optional_attribute ''KmsMasterKeyId'' (tp_kms_master_key_id topic) @
     optional_attribute ''DataProtectionPolicy'' (tp_data_protection_policy topic) @
     optional_attribute ''ArchivePolicy'' (tp_archive_policy topic) @
     optional_attribute ''BeginningArchiveTime'' (tp_beginning_archive_time topic)"

definition handle_get_topic_attributes ::
    "sns_ext \<Rightarrow> 's sns_store \<Rightarrow> resolved_request \<Rightarrow> string \<Rightarrow>
     ('s, sns_error, (string \<times> string) list sns_response) store_op" where
  "handle_get_topic_attributes X store request topic_arn =
     sbind (sread (load_topic store topic_arn)) (\<lambda>topic.
     slift (Inr (sns_reply request (topic_attribute_entries X topic))))"

definition validate_set_topic_attributes :: "ext \<Rightarrow> string \<Rightarrow> string \<Rightarrow> string \<Rightarrow> sns_error + unit" where
  "validate_set_topic_attributes E topic_arn attribute_name attribute_value =
     ebind (validate_topic_arn topic_arn ''TopicArn'') (\<lambda>_.
     ebind (guard (attribute_name = []) (SnsBadRequest ''AttributeName is required'')) (\<lambda>_.
     ebind (validate_json_attribute E attribute_name attribute_value) (\<lambda>_.
     guard (\<not> is_valid_topic_attribute attribute_name)
       (SnsBadRequest (''Unsupported attribute name: '' @ attribute_name)))))"

definition handle_set_topic_attributes ::
    "'s sns_store \<Rightarrow> resolved_request \<Rightarrow> string \<Rightarrow> string \<Rightarrow> string \<Rightarrow> ('s, sns_error, unit sns_response) store_op" where
  "handle_set_topic_attributes store request topic_arn attribute_name attribute_value =
     sbind (slift (ok_or (SnsBadRequest ''Invalid TopicArn format'') (parse_sns_topic_arn topic_arn))) (\<lambda>topic_id.
     sbind (smap_err sns_of_store_error (ss_set_topic_attributes store (tr_account_id topic_id) (tr_region topic_id)
              (tr_name topic_id) (topic_update_of attribute_name attribute_value))) (\<lambda>_.
     slift (Inr (sns_reply request ()))))"

section \<open>Subscriptions\<close>

record subscribe_request =
  sc_topic_arn :: string
  sc_protocol :: string
  sc_endpoint :: string
  sc_attributes :: "(string \<times> string) list"

definition check_subscription_attribute :: "ext \<Rightarrow> string \<times> string \<Rightarrow> sns_error + unit" where
  "check_subscription_attribute E kv =
     (if \<not> is_valid_subscription_attribute (fst kv)
      then Inl (SnsBadRequest (''Unsupported attribute name: '' @ fst kv))
      else ebind (validate_json_attribute E (fst kv) (snd kv)) (\<lambda>_.
           if fst kv = ''RawMessageDelivery'' then validate_raw_message_delivery (snd kv) else Inr ()))"

definition validate_subscribe :: "ext \<Rightarrow> subscribe_request \<Rightarrow> sns_error + unit" where
  "validate_subscribe E payload =
     ebind (validate_topic_arn (sc_topic_arn payload) ''TopicArn'') (\<lambda>_.
     ebind (guard (sc_protocol payload = []) (SnsBadRequest ''Protocol is required'')) (\<lambda>_.
     ebind (guard (sc_endpoint payload = []) (SnsBadRequest ''Endpoint is required'')) (\<lambda>_.
     check_all (check_subscription_attribute E) (sc_attributes payload))))"

definition requested_subscription ::
    "resolved_request \<Rightarrow> time \<Rightarrow> string \<Rightarrow> subscribe_request \<Rightarrow> sns_subscription" where
  "requested_subscription request now subscription_arn body =
     (let attrs = map_of (sc_attributes body)
      in \<lparr>sub_id = 0, sub_topic_arn = sc_topic_arn body, sub_protocol = sc_protocol body,
          sub_endpoint = sc_endpoint body, sub_owner_account_id = req_account request,
          sub_subscription_arn = subscription_arn, sub_delivery_policy = attrs ''DeliveryPolicy'',
          sub_filter_policy = attrs ''FilterPolicy'', sub_filter_policy_scope = attrs ''FilterPolicyScope'',
          sub_raw_message_delivery = attrs ''RawMessageDelivery'', sub_redrive_policy = attrs ''RedrivePolicy'',
          sub_subscription_role_arn = attrs ''SubscriptionRoleArn'', sub_replay_policy = attrs ''ReplayPolicy'',
          sub_created_at = now\<rparr>)"

text \<open>Here a failing read of the topic is an internal error with the text of the store error; \<open>uuid\<close> is random.\<close>

definition handle_subscribe ::
    "'s sns_store \<Rightarrow> time \<Rightarrow> string \<Rightarrow> resolved_request \<Rightarrow> subscribe_request \<Rightarrow>
     ('s, sns_error, string sns_response) store_op" where
  "handle_subscribe store now uuid request body =
     sbind (sread (map_err (\<lambda>e. SnsInternalError (store_error_text e)) \<circ> ss_get_topic store (sc_topic_arn body))) (\<lambda>found.
     sbind (slift (ok_or TopicNotFound found)) (\<lambda>topic.
     sbind (slift (guard (sc_protocol body \<noteq> ''sqs'')
       (SnsBadRequest (''Protocol '' @ quoted (sc_protocol body) @ '' is not supported in this slice'')))) (\<lambda>_.
     let subscription_arn = topic_arn_of topic @ '':'' @ uuid
     in sbind (smap_err sns_of_store_error
                (ss_create_subscription store (requested_subscription request now subscription_arn body))) (\<lambda>_.
        slift (Inr (sns_reply request subscription_arn))))))"

text \<open>The store's \<^verbatim>\<open>NotFound\<close> is about the subscription here.\<close>

fun subscription_error :: "store_error \<Rightarrow> sns_error" where
  "subscription_error (StoreNotFound _) = SubscriptionNotFound"
| "subscription_error e = sns_of_store_error e"

definition load_subscription :: "'s sns_store \<Rightarrow> string \<Rightarrow> 's \<Rightarrow> sns_error + sns_subscription" where
  "load_subscription store arn s =
     ebind (map_err sns_of_store_error (ss_get_subscription store arn s)) (ok_or SubscriptionNotFound)"

definition handle_unsubscribe ::
    "'s sns_store \<Rightarrow> resolved_request \<Rightarrow> string \<Rightarrow> ('s, sns_error, unit sns_response) store_op" where
  "handle_unsubscribe store request subscription_arn =
     sbind (sread (load_subscription store subscription_arn)) (\<lambda>_.
     sbind (smap_err subscription_error (ss_delete_subscription store subscription_arn)) (\<lambda>_.
     slift (Inr (sns_reply request ()))))"

definition subscription_attribute_entries :: "sns_subscription \<Rightarrow> (string \<times> string) list" where
  "subscription_attribute_entries subscription =
     [(''SubscriptionArn'', sub_subscription_arn subscription), (''TopicArn'', sub_topic_arn subscription),
      (''Owner'', sub_owner_account_id subscription), (''Protocol'', sub_protocol subscription),
      (''Endpoint'', sub_endpoint subscription), (''PendingConfirmation'', ''false''),
      (''ConfirmationWasAuthenticated'', ''true''),
      (''RawMessageDelivery'', coalesce (sub_raw_message_delivery subscription) ''false'')] @
     optional_attribute ''DeliveryPolicy'' (sub_delivery_policy subscription) @
     optional_attribute ''FilterPolicy'' (sub_filter_policy subscription) @
     optional_attribute ''FilterPolicyScope'' (sub_filter_policy_scope subscription) @
     optional_attribute ''RedrivePolicy'' (sub_redrive_policy subscription) @
     optional_attribute ''SubscriptionRoleArn'' (sub_subscription_role_arn subscription) @
     optional_attribute ''ReplayPolicy'' (sub_replay_policy subscription)"

definition handle_get_subscription_attributes ::
    "'s sns_store \<Rightarrow> resolved_request \<Rightarrow> string \<Rightarrow> ('s, sns_error, (string \<times> string) list sns_response) store_op" where
  "handle_get_subscription_attributes store request subscription_arn =
     sbind (sread (load_subscription store subscription_arn)) (\<lambda>subscription.
     slift (Inr (sns_reply request (subscription_attribute_entries subscription))))"

definition validate_set_subscription_attributes :: "ext \<Rightarrow> string \<Rightarrow> string \<Rightarrow> string \<Rightarrow> sns_error + unit" where
  "validate_set_subscription_attributes E subscription_arn attribute_name attribute_value =
     ebind (validate_subscription_arn subscription_arn) (\<lambda>_.
     ebind (guard (attribute_name = []) (SnsBadRequest ''AttributeName is required'')) (\<lambda>_.
     ebind (guard (\<not> is_valid_subscription_attribute attribute_name)
              (SnsBadRequest (''Unsupported attribute name: '' @ attribute_name))) (\<lambda>_.
     ebind (validate_json_attribute E attribute_name attribute_value) (\<lambda>_.
     if attribute_name = ''RawMessageDelivery'' then validate_raw_message_delivery attribute_value else Inr ()))))"

definition handle_set_subscription_attributes ::
    "'s sns_store \<Rightarrow> resolved_request \<Rightarrow> string \<Rightarrow> string \<Rightarrow> string \<Rightarrow> ('s, sns_error, unit sns_response) store_op" where
  "handle_set_subscription_attributes store request subscription_arn attribute_name attribute_value =
     sbind (smap_err subscription_error (ss_set_subscription_attributes store subscription_arn
              (subscription_update_of attribute_name attribute_value))) (\<lambda>_.
     slift (Inr (sns_reply request ())))"

section \<open>Listing\<close>

text \<open>
  \<^verbatim>\<open>NextToken\<close> is an offset. The sum \<^verbatim>\<open>offset + PAGE_SIZE\<close> is on \<^verbatim>\<open>usize\<close>; it wraps in a release build
  (and panics in a debug build) when the client sends an offset within a page of the top.
\<close>

definition list_page_size :: nat where
  "list_page_size = 100"

definition invalid_next_token :: sns_error where
  "invalid_next_token = SnsBadRequest ''NextToken is invalid''"

definition validate_next_token :: "string option \<Rightarrow> sns_error + unit" where
  "validate_next_token next_token =
     (case next_token of None \<Rightarrow> Inr () | Some t \<Rightarrow> guard (parse_usize t = None) invalid_next_token)"

definition page_offset :: "string option \<Rightarrow> sns_error + nat" where
  "page_offset next_token =
     (case next_token of None \<Rightarrow> Inr 0 | Some t \<Rightarrow> ok_or invalid_next_token (parse_usize t))"

definition page_at :: "nat \<Rightarrow> 'a list \<Rightarrow> 'a list \<times> string option" where
  "page_at offset items =
     (let next_offset = (offset + list_page_size) mod 2 ^ 64
      in (take list_page_size (drop offset items),
          if next_offset < length items then Some (show_nat next_offset) else None))"

definition handle_list_topics ::
    "'s sns_store \<Rightarrow> resolved_request \<Rightarrow> string option \<Rightarrow>
     ('s, sns_error, (string list \<times> string option) sns_response) store_op" where
  "handle_list_topics store request next_token =
     sbind (slift (page_offset next_token)) (\<lambda>offset.
     sbind (sread (map_err sns_of_store_error \<circ>
              ss_list_topics store (rr_region request) (req_account request) None None)) (\<lambda>all_topics.
     slift (Inr (sns_reply request (apfst (map topic_arn_of) (page_at offset all_topics))))))"

record subscription_summary =
  sy_subscription_arn :: string
  sy_owner :: string
  sy_protocol :: string
  sy_endpoint :: string
  sy_topic_arn :: string

definition subscription_summary_of :: "sns_subscription \<Rightarrow> subscription_summary" where
  "subscription_summary_of s =
     \<lparr>sy_subscription_arn = sub_subscription_arn s, sy_owner = sub_owner_account_id s, sy_protocol = sub_protocol s,
      sy_endpoint = sub_endpoint s, sy_topic_arn = sub_topic_arn s\<rparr>"

definition handle_list_subscriptions ::
    "'s sns_store \<Rightarrow> resolved_request \<Rightarrow> string option \<Rightarrow>
     ('s, sns_error, (subscription_summary list \<times> string option) sns_response) store_op" where
  "handle_list_subscriptions store request next_token =
     sbind (slift (page_offset next_token)) (\<lambda>offset.
     sbind (sread (map_err sns_of_store_error \<circ>
              ss_list_subscriptions store (rr_region request) (req_account request) None)) (\<lambda>all_subscriptions.
     slift (Inr (sns_reply request (apfst (map subscription_summary_of) (page_at offset all_subscriptions))))))"

definition validate_list_subscriptions_by_topic :: "string \<Rightarrow> string option \<Rightarrow> sns_error + unit" where
  "validate_list_subscriptions_by_topic topic_arn next_token =
     ebind (validate_topic_arn topic_arn ''TopicArn'') (\<lambda>_. validate_next_token next_token)"

definition handle_list_subscriptions_by_topic ::
    "'s sns_store \<Rightarrow> resolved_request \<Rightarrow> string \<Rightarrow> string option \<Rightarrow>
     ('s, sns_error, (subscription_summary list \<times> string option) sns_response) store_op" where
  "handle_list_subscriptions_by_topic store request topic_arn next_token =
     sbind (slift (page_offset next_token)) (\<lambda>offset.
     sbind (sread (load_topic store topic_arn)) (\<lambda>_.
     sbind (sread (map_err sns_of_store_error \<circ> ss_list_subscriptions_by_topic store topic_arn)) (\<lambda>all_subscriptions.
     slift (Inr (sns_reply request (apfst (map subscription_summary_of) (page_at offset all_subscriptions)))))))"

section \<open>Tags\<close>

definition validate_tag_resource :: "string \<Rightarrow> (string \<times> string) list \<Rightarrow> sns_error + unit" where
  "validate_tag_resource resource_arn tags =
     ebind (validate_topic_arn resource_arn ''ResourceArn'') (\<lambda>_. sns_validate_tags tags False)"

definition handle_tag_resource ::
    "'s sns_store \<Rightarrow> resolved_request \<Rightarrow> string \<Rightarrow> (string \<times> string) list \<Rightarrow>
     ('s, sns_error, unit sns_response) store_op" where
  "handle_tag_resource store request resource_arn tags =
     sbind (slift (sns_validate_tags tags False)) (\<lambda>_.
     sbind (sread (load_topic store resource_arn)) (\<lambda>_.
     sbind (sread (map_err sns_of_store_error \<circ> ss_list_topic_tags store resource_arn)) (\<lambda>existing.
     sbind (slift (sns_validate_tags (hashmap_extend existing tags) True)) (\<lambda>_.
     sbind (smap_err sns_of_store_error (ss_tag_topic store resource_arn tags)) (\<lambda>_.
     slift (Inr (sns_reply request ())))))))"

definition validate_untag_resource :: "string \<Rightarrow> string list \<Rightarrow> sns_error + unit" where
  "validate_untag_resource resource_arn tag_keys =
     ebind (validate_topic_arn resource_arn ''ResourceArn'') (\<lambda>_. sns_validate_tag_keys tag_keys False)"

definition handle_untag_resource ::
    "'s sns_store \<Rightarrow> resolved_request \<Rightarrow> string \<Rightarrow> string list \<Rightarrow> ('s, sns_error, unit sns_response) store_op" where
  "handle_untag_resource store request resource_arn tag_keys =
     sbind (slift (sns_validate_tag_keys tag_keys False)) (\<lambda>_.
     sbind (sread (load_topic store resource_arn)) (\<lambda>_.
     sbind (smap_err sns_of_store_error (ss_untag_topic store resource_arn tag_keys)) (\<lambda>_.
     slift (Inr (sns_reply request ())))))"

definition handle_list_tags_for_resource ::
    "'s sns_store \<Rightarrow> resolved_request \<Rightarrow> string \<Rightarrow> ('s, sns_error, (string \<times> string) list sns_response) store_op" where
  "handle_list_tags_for_resource store request resource_arn =
     sbind (sread (load_topic store resource_arn)) (\<lambda>_.
     sbind (sread (map_err sns_of_store_error \<circ> ss_list_topic_tags store resource_arn)) (\<lambda>tags.
     slift (Inr (sns_reply request (sort_key fst tags)))))"

section \<open>What the actions rely on\<close>

text \<open>
  The contract between the actions and a store: looking a topic up never fails; a topic created where
  there was none is found under its ARN with the columns it was created with; every method keeps the
  invariant.
\<close>

definition same_topic :: "sns_topic \<Rightarrow> sns_topic \<Rightarrow> bool" where
  "same_topic t t' \<longleftrightarrow> t\<lparr>tp_id := 0\<rparr> = t'\<lparr>tp_id := 0\<rparr>"

locale sns_store_contract =
  fixes store :: "'s sns_store"
    and inv :: "'s \<Rightarrow> bool"
  assumes get_topic_total: "\<exists>t. ss_get_topic store arn s = Inr t"
    and create_topic_new: "inv s \<Longrightarrow> CHR '':'' \<notin> set (tp_region t @ tp_account_id t @ tp_name t) \<Longrightarrow>
      ss_get_topic store (topic_arn_of t) s = Inr None \<Longrightarrow>
      \<exists>s' t'. ss_create_topic store t s = (Inr (), s') \<and> ss_get_topic store (topic_arn_of t) s' = Inr (Some t') \<and>
        same_topic t' t"
    and tag_topic_keeps_topics: "ss_get_topic store arn (snd (ss_tag_topic store arn' tags s)) = ss_get_topic store arn s"
    and tag_existing_topic: "inv s \<Longrightarrow> ss_get_topic store arn s = Inr (Some t) \<Longrightarrow> fst (ss_tag_topic store arn tags s) = Inr ()"
    and topics_keep: "keeps inv (ss_create_topic store t)" "keeps inv (ss_delete_topic store arn)"
      "keeps inv (ss_set_topic_attributes store account region name tu)"
      "keeps inv (ss_tag_topic store arn tags)" "keeps inv (ss_untag_topic store arn keys)"
    and subscriptions_keep: "keeps inv (ss_create_subscription store sub)" "keeps inv (ss_delete_subscription store arn)"
      "keeps inv (ss_set_subscription_attributes store arn su)"
begin

lemma actions_keep:
  "keeps inv (handle_create_topic store now request ct)" "keeps inv (handle_delete_topic store request arn)"
  "keeps inv (handle_get_topic_attributes X store request arn)"
  "keeps inv (handle_set_topic_attributes store request arn name val)"
  "keeps inv (handle_subscribe store now uuid request sc)" "keeps inv (handle_unsubscribe store request arn)"
  "keeps inv (handle_get_subscription_attributes store request arn)"
  "keeps inv (handle_set_subscription_attributes store request arn name val)"
  "keeps inv (handle_list_topics store request token)" "keeps inv (handle_list_subscriptions store request token)"
  "keeps inv (handle_list_subscriptions_by_topic store request arn token)"
  "keeps inv (handle_tag_resource store request arn tags)" "keeps inv (handle_untag_resource store request arn keys)"
  "keeps inv (handle_list_tags_for_resource store request arn)"
  unfolding handle_create_topic_def handle_delete_topic_def handle_get_topic_attributes_def
    handle_set_topic_attributes_def handle_subscribe_def handle_unsubscribe_def handle_get_subscription_attributes_def
    handle_set_subscription_attributes_def handle_list_topics_def handle_list_subscriptions_def
    handle_list_subscriptions_by_topic_def handle_tag_resource_def handle_untag_resource_def
    handle_list_tags_for_resource_def Let_def
  by (intro keeps_sbind keeps_smap_err keeps_sread keeps_slift keeps_if topics_keep subscriptions_keep)+

lemma create_topic_establishes:
  assumes "inv s" "CHR '':'' \<notin> set (rr_region request @ req_account request @ ct_name body)"
    and "ss_get_topic store (sns_arn (rr_region request) (req_account request) (ct_name body)) s = Inr None"
  shows "\<exists>s' t. handle_create_topic store now request body s =
      (Inr (sns_reply request (sns_arn (rr_region request) (req_account request) (ct_name body))), s') \<and>
    load_topic store (sns_arn (rr_region request) (req_account request) (ct_name body)) s' = Inr t \<and>
    same_topic t (requested_topic request now body)"
proof -
  let ?t = "requested_topic request now body"
  let ?arn = "sns_arn (rr_region request) (req_account request) (ct_name body)"
  have key: "topic_arn_of ?t = ?arn" "CHR '':'' \<notin> set (tp_region ?t @ tp_account_id ?t @ tp_name ?t)"
    using assms(2) by (simp_all add: topic_arn_of_def requested_topic_def Let_def)
  obtain s1 t where created: "ss_create_topic store ?t s = (Inr (), s1)"
      "ss_get_topic store ?arn s1 = Inr (Some t)" "same_topic t ?t"
    using create_topic_new [OF assms(1) key(2)] assms(3) key(1) by auto
  have "inv s1" using keepsD [OF topics_keep(1) assms(1), of ?t] created(1) by simp
  obtain r s2 where tag: "ss_tag_topic store ?arn (ct_tags body) s1 = (r, s2)"
    by (cases "ss_tag_topic store ?arn (ct_tags body) s1")
  with tag_existing_topic [OF \<open>inv s1\<close> created(2), of "ct_tags body"]
  have tag: "ss_tag_topic store ?arn (ct_tags body) s1 = (Inr (), s2)" by simp
  with tag_topic_keeps_topics [of ?arn ?arn "ct_tags body" s1] created(2)
  have found: "ss_get_topic store ?arn s2 = Inr (Some t)" by simp
  show ?thesis
    by (cases "ct_tags body = []")
      (use created tag found in \<open>simp_all add: handle_create_topic_def load_topic_def sbind_def smap_err_def Let_def\<close>)
qed

end

lemma topic_arn_key:
  "CHR '':'' \<notin> set (tp_region t @ tp_account_id t @ tp_name t) \<Longrightarrow> arn_topic_key (topic_arn_of t) = Some (topic_key t)"
  by (simp add: topic_arn_of_def topic_key_def arn_topic_key_sns_arn)

lemma tag_topic_keeps_rows: "topics (snd (sqlite_tag_topic arn tags db)) = topics db"
proof -
  have "topics (snd (for_each (upsert_topic_tag i) tags db)) = topics db" for i db
  proof (induction tags arbitrary: db)
    case (Cons kv tags)
    have "topics (snd (upsert_topic_tag i kv db)) = topics db" by (simp add: upsert_topic_tag_def)
    with Cons show ?case by (simp only: for_each_step tag_steps_ok)
  qed simp
  then show ?thesis
    by (simp add: sqlite_tag_topic_def sqlite_get_topic_def ok_or_def split: option.split)
qed

interpretation sqlite_sns: sns_store_contract "sqlite_sns_store UE" sns_inv for UE
proof unfold_locales
  fix db :: sns_db and t :: sns_topic
  assume "sns_inv db" and key: "CHR '':'' \<notin> set (tp_region t @ tp_account_id t @ tp_name t)"
    and "ss_get_topic (sqlite_sns_store UE) (topic_arn_of t) db = Inr None"
  then have none: "find_topic (topic_key t) db = None"
    by (simp add: sqlite_sns_store_def sqlite_get_topic_def topic_arn_key)
  moreover have "\<not> list_ex (\<lambda>x. topic_key x = topic_key t) (topics db)" using none by (simp add: list_ex_topic)
  ultimately show "\<exists>s' t'. ss_create_topic (sqlite_sns_store UE) t db = (Inr (), s') \<and>
      ss_get_topic (sqlite_sns_store UE) (topic_arn_of t) s' = Inr (Some t') \<and> same_topic t' t"
    by (simp add: sqlite_sns_store_def sqlite_create_topic_def sqlite_get_topic_def topic_arn_key [OF key]
        find_topic_def find_append same_topic_def topic_key_def)
next
  fix db :: sns_db and arn tags t
  assume "ss_get_topic (sqlite_sns_store UE) arn db = Inr (Some t)"
  then show "fst (ss_tag_topic (sqlite_sns_store UE) arn tags db) = Inr ()"
    by (simp add: sqlite_sns_store_def sqlite_tag_topic_def for_each_ok tag_steps_ok)
qed (simp_all add: sqlite_sns_store_def sns_keeps sqlite_get_topic_def find_topic_def tag_topic_keeps_rows
    split: option.split)

end
