(* ===== verification/Sns_Publish.thy ===== *)
theory Sns_Publish
  imports Sns_Actions Sqs_Receive Router
begin

text \<open>
  \<^verbatim>\<open>Publish\<close> (\<^verbatim>\<open>hiraeth_sns/src/actions/publish.rs\<close>) and the store of the SNS service
  (\<^verbatim>\<open>hiraeth_sns/src/store.rs\<close>), which joins the SNS store with the SQS store and the authorization mode.
  A state is a pair of the two stores' states. The spans that are recorded on the way have no
  influence on what is delivered and are left out.
\<close>

section \<open>The store of the service\<close>

record ('n, 'q) sns_service_store =
  sv_sns_store :: "'n sns_store"
  sv_sqs_store :: "'q sqs_store"
  sv_auth_mode :: authorization_mode

definition on_fst :: "('n, 'e, 'a) store_op \<Rightarrow> ('n \<times> 'q, 'e, 'a) store_op" where
  "on_fst m s = (case m (fst s) of (r, n) \<Rightarrow> (r, (n, snd s)))"

definition on_snd :: "('q, 'e, 'a) store_op \<Rightarrow> ('n \<times> 'q, 'e, 'a) store_op" where
  "on_snd m s = (case m (snd s) of (r, q) \<Rightarrow> (r, (fst s, q)))"

text \<open>\<^verbatim>\<open>impl SnsStore for SnsServiceStore\<close>: every method is passed on.\<close>

definition service_sns_store :: "('n, 'q) sns_service_store \<Rightarrow> ('n \<times> 'q) sns_store" where
  "service_sns_store SV =
     (let st = sv_sns_store SV
      in \<lparr>ss_create_topic = (\<lambda>t. on_fst (ss_create_topic st t)),
          ss_get_topic = (\<lambda>arn s. ss_get_topic st arn (fst s)),
          ss_get_topic_by_id = (\<lambda>i s. ss_get_topic_by_id st i (fst s)),
          ss_list_topics = (\<lambda>region account pre limit s. ss_list_topics st region account pre limit (fst s)),
          ss_delete_topic = (\<lambda>arn. on_fst (ss_delete_topic st arn)),
          ss_create_subscription = (\<lambda>sub. on_fst (ss_create_subscription st sub)),
          ss_get_subscription = (\<lambda>arn s. ss_get_subscription st arn (fst s)),
          ss_get_subscription_by_id = (\<lambda>i s. ss_get_subscription_by_id st i (fst s)),
          ss_list_subscriptions = (\<lambda>region account limit s. ss_list_subscriptions st region account limit (fst s)),
          ss_list_subscriptions_by_topic = (\<lambda>arn s. ss_list_subscriptions_by_topic st arn (fst s)),
          ss_delete_subscription = (\<lambda>arn. on_fst (ss_delete_subscription st arn)),
          ss_delete_subscription_by_id = (\<lambda>i. on_fst (ss_delete_subscription_by_id st i)),
          ss_set_subscription_attributes = (\<lambda>arn u. on_fst (ss_set_subscription_attributes st arn u)),
          ss_set_topic_attributes = (\<lambda>account region name u. on_fst (ss_set_topic_attributes st account region name u)),
          ss_list_topic_tags = (\<lambda>arn s. ss_list_topic_tags st arn (fst s)),
          ss_tag_topic = (\<lambda>arn tags. on_fst (ss_tag_topic st arn tags)),
          ss_untag_topic = (\<lambda>arn keys. on_fst (ss_untag_topic st arn keys))\<rparr>)"

section \<open>Publishing\<close>

record publish_request =
  pb_topic_arn :: string
  pb_message :: string
  pb_subject :: "string option"

text \<open>
  What one publication reads from its environment: the random ids, and for each subscription the
  clock of the notification's time stamp and the one of the enqueued message.
\<close>

record publish_env =
  pe_message_id :: string
  pe_sqs_message_id :: "nat \<Rightarrow> string"
  pe_timestamp :: "nat \<Rightarrow> time"
  pe_date :: "nat \<Rightarrow> time"

definition validate_publish :: "publish_request \<Rightarrow> sns_error + unit" where
  "validate_publish payload =
     ebind (validate_topic_arn (pb_topic_arn payload) ''TopicArn'') (\<lambda>_.
     validate_publish_payload (pb_message payload) (pb_subject payload))"

definition parse_sqs_resource_policy :: "ext \<Rightarrow> string \<Rightarrow> sns_error + policy" where
  "parse_sqs_resource_policy E p =
     (if trim p = [] \<or> trim p = ''{}'' then Inr \<lparr>pol_version = ''2012-10-17'', pol_statement = []\<rparr>
      else map_err (\<lambda>e. SnsInternalError (''invalid queue policy: '' @ e)) (x_policy E p))"

definition queue_decision :: "ext \<Rightarrow> policy \<Rightarrow> string \<Rightarrow> authorization_result" where
  "queue_decision E p queue_arn =
     (case authorize_cross_service (x_wildmatch E) (Service ''sns.amazonaws.com'') ''sqs:SendMessage'' queue_arn p of
        Allowed \<Rightarrow> Allow | _ \<Rightarrow> Deny)"

definition effective_decision :: "authorization_mode \<Rightarrow> authorization_result \<Rightarrow> authorization_result" where
  "effective_decision mode decision = (case mode of Enforce \<Rightarrow> decision | _ \<Rightarrow> Allow)"

definition delivery_body ::
    "sns_ext \<Rightarrow> publish_env \<Rightarrow> nat \<Rightarrow> sns_topic \<Rightarrow> publish_request \<Rightarrow> sns_subscription \<Rightarrow> string" where
  "delivery_body X env i topic body subscription =
     (if sub_raw_message_delivery subscription = Some ''true'' then pb_message body
      else sx_notification X (pe_message_id env) (topic_arn_of topic) (coalesce (pb_subject body) [])
             (pb_message body) (sx_rfc3339 X (pe_timestamp env i)))"

definition deliver_to_sqs ::
    "ext \<Rightarrow> sns_ext \<Rightarrow> 'q sqs_store \<Rightarrow> authorization_mode \<Rightarrow> publish_env \<Rightarrow> sns_topic \<Rightarrow> publish_request \<Rightarrow>
     nat \<Rightarrow> sns_subscription \<Rightarrow> ('q, sns_error, unit) store_op" where
  "deliver_to_sqs E X store mode env topic body i subscription =
     sbind (slift (ok_or (SnsBadRequest (''Invalid SQS endpoint: '' @ sub_endpoint subscription))
              (parse_sqs_endpoint_arn (sub_endpoint subscription)))) (\<lambda>queue_id.
     sbind (sread (map_err sns_of_store_error \<circ>
              st_get_queue store (qi_name queue_id) (qi_region queue_id) (qi_account_id queue_id))) (\<lambda>found.
     sbind (slift (ok_or (SnsBadRequest (''SQS queue not found: '' @ sub_endpoint subscription)) found)) (\<lambda>sqs_queue.
     sbind (slift (parse_sqs_resource_policy E (q_policy sqs_queue))) (\<lambda>resource_policy.
     sbind (slift (guard (effective_decision mode (queue_decision E resource_policy (get_queue_arn sqs_queue)) \<noteq> Allow)
              (NotAuthorizedToQueue (get_queue_arn sqs_queue)))) (\<lambda>_.
     sbind (smap_err (\<lambda>e. SnsInternalError (''sqs delivery failed: '' @ sqs_error_text e))
              (enqueue_message E store (pe_sqs_message_id env i) sqs_queue
                 (delivery_body X env i topic body subscription) None None None None (pe_date env i))) (\<lambda>_.
     slift (Inr ())))))))"

text \<open>One turn of the loop over the subscriptions; a failed delivery is logged and the loop goes on.\<close>

definition deliver ::
    "ext \<Rightarrow> sns_ext \<Rightarrow> 'q sqs_store \<Rightarrow> authorization_mode \<Rightarrow> publish_env \<Rightarrow> sns_topic \<Rightarrow> publish_request \<Rightarrow>
     nat \<Rightarrow> sns_subscription \<Rightarrow> ('q, sns_error, unit) store_op" where
  "deliver E X store mode env topic body i subscription =
     (if sub_protocol subscription = ''sqs'' then deliver_to_sqs E X store mode env topic body i subscription
      else slift (Inr ()))"

definition handle_publish ::
    "ext \<Rightarrow> sns_ext \<Rightarrow> ('n, 'q) sns_service_store \<Rightarrow> publish_env \<Rightarrow> resolved_request \<Rightarrow> publish_request \<Rightarrow>
     ('n \<times> 'q, sns_error, string sns_response) store_op" where
  "handle_publish E X SV env request body =
     sbind (sread (load_topic (service_sns_store SV) (pb_topic_arn body))) (\<lambda>topic.
     sbind (sread (map_err sns_of_store_error \<circ>
              ss_list_subscriptions_by_topic (service_sns_store SV) (topic_arn_of topic))) (\<lambda>subs.
     sbind (on_snd (\<lambda>q. case run_entries (deliver E X (sv_sqs_store SV) (sv_auth_mode SV) env topic body) 0 subs q of
              (_, q') \<Rightarrow> (Inr (), q'))) (\<lambda>_.
     slift (Inr (sns_reply request (pe_message_id env))))))"

section \<open>The two stores together\<close>

lemma on_fst_apply [simp]: "on_fst m (n, q) = (fst (m n), (snd (m n), q))"
  by (simp add: on_fst_def split_beta)

lemma on_snd_apply [simp]: "on_snd m (n, q) = (fst (m q), (n, snd (m q)))"
  by (simp add: on_snd_def split_beta)

lemma keeps_on_fst: "keeps P m \<Longrightarrow> keeps (\<lambda>s. P (fst s) \<and> Q (snd s)) (on_fst m)"
  by (auto simp: keeps_def)

lemma keeps_on_snd: "keeps Q m \<Longrightarrow> keeps (\<lambda>s. P (fst s) \<and> Q (snd s)) (on_snd m)"
  by (auto simp: keeps_def)

text \<open>Two stores that keep their contracts make a service store that keeps the contract of the SNS store.\<close>

locale sns_service_contract =
  sns: sns_store_contract "sv_sns_store SV" sinv + sqs: sqs_store_contract "sv_sqs_store SV" qinv
  for SV :: "('n, 'q) sns_service_store" and sinv :: "'n \<Rightarrow> bool" and qinv :: "'q \<Rightarrow> bool"
begin

definition both :: "'n \<times> 'q \<Rightarrow> bool" where
  "both s \<longleftrightarrow> sinv (fst s) \<and> qinv (snd s)"

lemma both_keeps: "keeps sinv m \<Longrightarrow> keeps both (on_fst m)" "keeps qinv k \<Longrightarrow> keeps both (on_snd k)"
  using keeps_on_fst [of sinv m qinv] keeps_on_snd [of qinv k sinv] by (simp_all add: both_def [abs_def])

lemma keeps_deliver: "keeps qinv (deliver E X (sv_sqs_store SV) mode env topic body i sub)"
  unfolding deliver_def deliver_to_sqs_def
  by (intro keeps_if keeps_sbind keeps_smap_err keeps_sread keeps_slift sqs.keeps_message_actions)

lemma keeps_publish: "keeps both (handle_publish E X SV env request body)"
  unfolding handle_publish_def
  by (intro keeps_sbind keeps_sread keeps_slift both_keeps)
    (intro keepsI, simp add: split_beta sqs.run_entries_keeps keeps_deliver)

end

sublocale sns_service_contract \<subseteq> joined: sns_store_contract "service_sns_store SV" both
proof unfold_locales
  fix s :: "'n \<times> 'q" and t
  assume "both s" "CHR '':'' \<notin> set (tp_region t @ tp_account_id t @ tp_name t)"
    "ss_get_topic (service_sns_store SV) (topic_arn_of t) s = Inr None"
  then show "\<exists>s' t'. ss_create_topic (service_sns_store SV) t s = (Inr (), s') \<and>
      ss_get_topic (service_sns_store SV) (topic_arn_of t) s' = Inr (Some t') \<and> same_topic t' t"
    using sns.create_topic_new [of "fst s" t] by (cases s) (auto simp: service_sns_store_def both_def Let_def)
next
  fix s :: "'n \<times> 'q" and arn tags t
  assume "both s" "ss_get_topic (service_sns_store SV) arn s = Inr (Some t)"
  then show "fst (ss_tag_topic (service_sns_store SV) arn tags s) = Inr ()"
    using sns.tag_existing_topic [of "fst s" arn t tags] by (cases s) (auto simp: service_sns_store_def both_def Let_def)
next
  fix s :: "'n \<times> 'q" and arn arn' tags
  show "\<exists>t. ss_get_topic (service_sns_store SV) arn s = Inr t"
    using sns.get_topic_total [of arn "fst s"] by (simp add: service_sns_store_def Let_def)
  show "ss_get_topic (service_sns_store SV) arn (snd (ss_tag_topic (service_sns_store SV) arn' tags s)) =
      ss_get_topic (service_sns_store SV) arn s"
    using sns.tag_topic_keeps_topics [of arn arn' tags "fst s"] by (cases s) (simp add: service_sns_store_def Let_def)
qed (simp_all add: service_sns_store_def Let_def both_keeps sns.topics_keep sns.subscriptions_keep)

definition sqlite_service_store :: "sqlite_texts \<Rightarrow> authorization_mode \<Rightarrow> (sns_db, sqs_db) sns_service_store" where
  "sqlite_service_store UE mode =
     \<lparr>sv_sns_store = sqlite_sns_store UE, sv_sqs_store = sqlite_sqs_store UE, sv_auth_mode = mode\<rparr>"

lemma sqlite_service_store_sel [simp]:
  "sv_sns_store (sqlite_service_store UE mode) = sqlite_sns_store UE"
  "sv_sqs_store (sqlite_service_store UE mode) = sqlite_sqs_store UE"
  "sv_auth_mode (sqlite_service_store UE mode) = mode"
  by (simp_all add: sqlite_service_store_def)

interpretation sqlite_joined: sns_service_contract "sqlite_service_store UE mode" sns_inv sqs_inv for UE mode
  by (simp add: sns_service_contract_def sqlite_sns.sns_store_contract_axioms sqlite.sqs_store_contract_axioms)

end
