(* ===== verification/Sns_Publish_Laws.thy ===== *)
theory Sns_Publish_Laws
  imports Sns_Publish
begin

text \<open>
  What a publication delivers: a reference definition of the message each subscription is owed, read
  off the queues as they are at the time of the publication, and the proof that the loop of \<^verbatim>\<open>Publish\<close>
  enqueues exactly these messages.
\<close>

section \<open>What a subscription is owed\<close>

text \<open>The queue a delivery goes to: it exists, its policy can be read, and the delivery is authorized.\<close>

definition delivery_queue :: "ext \<Rightarrow> authorization_mode \<Rightarrow> sqs_queue list \<Rightarrow> sns_subscription \<Rightarrow> sqs_queue option" where
  "delivery_queue E mode qs sub =
     (if sub_protocol sub \<noteq> ''sqs'' then None
      else case parse_sqs_endpoint_arn (sub_endpoint sub) of
        None \<Rightarrow> None
      | Some r \<Rightarrow>
          (case find (\<lambda>q. q_name q = qi_name r \<and> q_region q = qi_region r \<and> q_account_id q = qi_account_id r) qs of
             None \<Rightarrow> None
           | Some q \<Rightarrow>
               (case parse_sqs_resource_policy E (q_policy q) of
                  Inl _ \<Rightarrow> None
                | Inr p \<Rightarrow> if effective_decision mode (queue_decision E p (get_queue_arn q)) = Allow then Some q else None)))"

definition delivery_row ::
    "ext \<Rightarrow> sns_ext \<Rightarrow> authorization_mode \<Rightarrow> publish_env \<Rightarrow> sns_topic \<Rightarrow> publish_request \<Rightarrow> sqs_queue list \<Rightarrow>
     nat \<times> sns_subscription \<Rightarrow> sqs_message option" where
  "delivery_row E X mode env topic body qs isub =
     (case delivery_queue E mode qs (snd isub) of
        None \<Rightarrow> None
      | Some q \<Rightarrow>
          let content = delivery_body X env (fst isub) topic body (snd isub)
          in if validate_message_body content (q_maximum_message_size q) = Inr () \<and>
                0 \<le> q_delay_seconds q \<and> q_delay_seconds q \<le> 900
             then Some (new_message (pe_sqs_message_id env (fst isub)) q content (Some ''{}'') None
                          (pe_date env (fst isub)) (q_delay_seconds q) None None)
             else None)"

definition topic_deliveries ::
    "ext \<Rightarrow> sns_ext \<Rightarrow> authorization_mode \<Rightarrow> publish_env \<Rightarrow> sns_topic \<Rightarrow> publish_request \<Rightarrow> sqs_queue list \<Rightarrow>
     sns_subscription list \<Rightarrow> sqs_message list" where
  "topic_deliveries E X mode env topic body qs subs =
     List.map_filter (delivery_row E X mode env topic body qs) (enumerate 0 subs)"

section \<open>One delivery\<close>

abbreviation contents :: "sqs_db \<Rightarrow> sqs_message list" where
  "contents db \<equiv> map snd (messages db)"

definition fresh_ids :: "(nat \<Rightarrow> string) \<Rightarrow> nat \<Rightarrow> sqs_db \<Rightarrow> bool" where
  "fresh_ids mids n db \<longleftrightarrow> inj mids \<and> (\<forall>i \<ge> n. mids i \<notin> m_message_id ` set (contents db))"

text \<open>\<open>db'\<close> has the messages \<open>ms\<close> appended and is otherwise \<open>db\<close>.\<close>

definition appended :: "sqs_db \<Rightarrow> sqs_message list \<Rightarrow> sqs_db \<Rightarrow> bool" where
  "appended db ms db' \<longleftrightarrow>
     queues db' = queues db \<and> queue_tags db' = queue_tags db \<and>
     (\<exists>rows. messages db' = messages db @ rows \<and> map snd rows = ms)"

lemma appended_refl [simp]: "appended db [] db"
  by (simp add: appended_def)

lemma appended_contents: "appended db ms db' \<Longrightarrow> contents db' = contents db @ ms"
  by (auto simp: appended_def)

lemma appended_trans: "appended a ms b \<Longrightarrow> appended b ns c \<Longrightarrow> appended a (ms @ ns) c"
  by (auto simp: appended_def)

lemma enqueue_message_appends:
  assumes "q \<in> set (queues db)" "mid \<notin> m_message_id ` set (contents db)"
  shows "appended db
    (if validate_message_body content (q_maximum_message_size q) = Inr () \<and> 0 \<le> q_delay_seconds q \<and> q_delay_seconds q \<le> 900
     then [new_message mid q content (Some ''{}'') None date (q_delay_seconds q) None None] else [])
    (snd (enqueue_message E (sqlite_sqs_store UE) mid q content None None None None date db))"
proof -
  have "queue_exists db (q_id q)" using assms(1) by (auto simp: queue_exists_iff)
  moreover have "\<not> list_ex (\<lambda>(_, m). m_message_id m = mid) (messages db)"
    using assms(2) by (auto simp: list_ex_iff image_iff)
  ultimately have send: "sqlite_send_message UE (new_message mid q content None None date (q_delay_seconds q) None None) db =
      (Inr (), db\<lparr>messages := messages db @ [(next_rowid (map fst (messages db)),
         new_message mid q content (Some ''{}'') None date (q_delay_seconds q) None None)]\<rparr>)"
    by (simp add: sqlite_send_message_def new_message_def)
  show ?thesis
    by (cases "validate_message_body content (q_maximum_message_size q)")
      (auto simp: enqueue_message_def resolve_delay_seconds_def extract_aws_trace_header_def sqlite_sqs_store_def
        send sbind_def smap_err_def appended_def)
qed

lemma delivery_queue_in: "delivery_queue E mode qs sub = Some q \<Longrightarrow> q \<in> set qs"
  by (auto simp: delivery_queue_def find_Some_iff in_set_conv_nth split: if_splits option.splits sum.splits)

lemma deliver_cases:
  "snd (deliver E X (sqlite_sqs_store UE) mode env topic body i sub db) =
     (case delivery_queue E mode (queues db) sub of
        None \<Rightarrow> db
      | Some q \<Rightarrow> snd (enqueue_message E (sqlite_sqs_store UE) (pe_sqs_message_id env i) q
                   (delivery_body X env i topic body sub) None None None None (pe_date env i) db))"
proof -
  have snd_then: "snd (sbind (smap_err g m) (\<lambda>_. slift (Inr ())) db) = snd (m db)"
    for g :: "sqs_error \<Rightarrow> sns_error" and m :: "(sqs_db, sqs_error, string) store_op"
    by (simp add: sbind_def smap_err_def map_err_def split: prod.split sum.split)
  show ?thesis
    by (simp add: deliver_def deliver_to_sqs_def delivery_queue_def sqlite_get_queue_def snd_then ok_or_def guard_def
        sqlite_sqs_store_def split: option.split sum.split)
qed

lemma deliver_appends:
  assumes "pe_sqs_message_id env i \<notin> m_message_id ` set (contents db)"
  shows "appended db (case delivery_row E X mode env topic body (queues db) (i, sub) of None \<Rightarrow> [] | Some m \<Rightarrow> [m])
    (snd (deliver E X (sqlite_sqs_store UE) mode env topic body i sub db))"
proof (cases "delivery_queue E mode (queues db) sub")
  case None
  then show ?thesis by (simp add: deliver_cases delivery_row_def)
next
  case (Some q)
  with enqueue_message_appends [OF delivery_queue_in [OF Some] assms, of "delivery_body X env i topic body sub"
      "pe_date env i" E UE]
  show ?thesis by (auto simp: deliver_cases delivery_row_def Let_def Some split: if_splits)
qed

section \<open>The loop\<close>

lemma delivery_row_id: "delivery_row E X mode env topic body qs (i, sub) = Some m \<Longrightarrow> m_message_id m = pe_sqs_message_id env i"
  by (auto simp: delivery_row_def new_message_def Let_def split: option.splits if_splits)

lemma fresh_ids_step:
  assumes "fresh_ids (pe_sqs_message_id env) i db"
    and "appended db (case delivery_row E X mode env topic body qs (i, sub) of None \<Rightarrow> [] | Some m \<Rightarrow> [m]) db'"
  shows "fresh_ids (pe_sqs_message_id env) (Suc i) db'"
proof -
  have "contents db' = contents db @ (case delivery_row E X mode env topic body qs (i, sub) of None \<Rightarrow> [] | Some m \<Rightarrow> [m])"
    using assms(2) by (rule appended_contents)
  with assms(1) show ?thesis
    by (cases "delivery_row E X mode env topic body qs (i, sub)")
      (auto simp: fresh_ids_def inj_eq dest: delivery_row_id)
qed

lemma run_deliver_appends:
  assumes "fresh_ids (pe_sqs_message_id env) n db"
  shows "appended db (List.map_filter (delivery_row E X mode env topic body (queues db)) (enumerate n subs))
    (snd (run_entries (deliver E X (sqlite_sqs_store UE) mode env topic body) n subs db))"
  using assms
proof (induction subs arbitrary: n db)
  case (Cons sub subs)
  let ?row = "delivery_row E X mode env topic body (queues db) (n, sub)"
  obtain r db1 where step: "deliver E X (sqlite_sqs_store UE) mode env topic body n sub db = (r, db1)"
    by (cases "deliver E X (sqlite_sqs_store UE) mode env topic body n sub db")
  have "pe_sqs_message_id env n \<notin> m_message_id ` set (contents db)"
    using Cons.prems by (simp add: fresh_ids_def)
  from deliver_appends [OF this, of E X mode topic body sub UE] step
  have one: "appended db (case ?row of None \<Rightarrow> [] | Some m \<Rightarrow> [m]) db1" by simp
  have qs: "queues db1 = queues db" using one by (simp add: appended_def)
  from Cons.IH [OF fresh_ids_step [OF Cons.prems one]]
  have "appended db1 (List.map_filter (delivery_row E X mode env topic body (queues db)) (enumerate (Suc n) subs))
      (snd (run_entries (deliver E X (sqlite_sqs_store UE) mode env topic body) (Suc n) subs db1))"
    by (simp only: qs)
  from appended_trans [OF one this] step show ?case
    by (cases ?row) (simp_all add: split_beta map_filter_simps)
qed (simp add: map_filter_simps)

section \<open>Publishing\<close>

lemma sns_of_store_sel [simp]:
  "ss_get_topic (service_sns_store SV) arn s = ss_get_topic (sv_sns_store SV) arn (fst s)"
  "ss_list_subscriptions_by_topic (service_sns_store SV) arn s = ss_list_subscriptions_by_topic (sv_sns_store SV) arn (fst s)"
  by (simp_all add: service_sns_store_def Let_def)

definition topic_subscriptions :: "sns_topic \<Rightarrow> sns_db \<Rightarrow> sns_subscription list" where
  "topic_subscriptions topic ndb = filter (\<lambda>s. sub_topic_arn s = topic_arn_of topic) (subscriptions ndb)"

lemma handle_publish_eq:
  assumes "sqlite_get_topic (pb_topic_arn body) ndb = Inr (Some topic)"
  shows "handle_publish E X (sqlite_service_store UE mode) env request body (ndb, qdb) =
    (Inr (sns_reply request (pe_message_id env)), (ndb, snd (run_entries
       (deliver E X (sqlite_sqs_store UE) mode env topic body) 0 (topic_subscriptions topic ndb) qdb)))"
  using assms
  by (simp add: handle_publish_def load_topic_def sqlite_sns_store_def sqlite_list_subscriptions_by_topic_def
      topic_subscriptions_def sbind_def split_beta)

lemma map_filter_Some: "m \<in> set (List.map_filter f xs) \<Longrightarrow> \<exists>x\<in>set xs. f x = Some m"
  by (induction xs) (auto simp: map_filter_simps split: option.splits)

lemma publish_appends:
  assumes "sqlite_get_topic (pb_topic_arn body) ndb = Inr (Some topic)"
    and "fresh_ids (pe_sqs_message_id env) 0 qdb"
  shows "\<exists>qdb'. handle_publish E X (sqlite_service_store UE mode) env request body (ndb, qdb) =
             (Inr (sns_reply request (pe_message_id env)), (ndb, qdb')) \<and>
           appended qdb (topic_deliveries E X mode env topic body (queues qdb) (topic_subscriptions topic ndb)) qdb'"
  using run_deliver_appends [OF assms(2)] handle_publish_eq [OF assms(1)] by (simp add: topic_deliveries_def)

section \<open>A publication\<close>

text \<open>A topic with one raw subscription, to a queue whose policy allows the SNS service to send.\<close>

definition demo_subscription :: sns_subscription where
  "demo_subscription = \<lparr>sub_id = 1, sub_topic_arn = ''arn:aws:sns:us-east-1:000000000000:news'', sub_protocol = ''sqs'',
     sub_endpoint = ''arn:aws:sqs:us-east-1:000000000000:jobs'', sub_owner_account_id = ''000000000000'',
     sub_subscription_arn = ''arn:aws:sns:us-east-1:000000000000:news:u1'', sub_delivery_policy = None,
     sub_filter_policy = None, sub_filter_policy_scope = None, sub_raw_message_delivery = Some ''true'',
     sub_redrive_policy = None, sub_subscription_role_arn = None, sub_replay_policy = None, sub_created_at = 0\<rparr>"

definition demo_sns_db :: sns_db where
  "demo_sns_db = \<lparr>topics = [demo_topic], subscriptions = [demo_subscription], topic_tags = [], topic_seq = 1,
     subscription_seq = 1\<rparr>"

definition demo_open_queue :: sqs_queue where
  "demo_open_queue = demo_queue\<lparr>q_id := 1, q_policy := ''allow''\<rparr>"

definition demo_open_db :: sqs_db where
  "demo_open_db = \<lparr>queues = [demo_open_queue], messages = [], queue_tags = []\<rparr>"

definition demo_open_ext :: ext where
  "demo_open_ext = demo_ext\<lparr>x_policy := (\<lambda>d. if d = ''allow'' then
     Inr \<lparr>pol_version = [], pol_statement = [\<lparr>ps_effect = ''Allow'', ps_action = [''*''], ps_resource = [''*''],
       ps_principal = [Service ''sns.amazonaws.com'']\<rparr>]\<rparr> else Inl ''invalid'')\<rparr>"

definition demo_sns_ext :: sns_ext where
  "demo_sns_ext = \<lparr>sx_xml_error = (\<lambda>_ _ m. Inr m), sx_topic_policy = (\<lambda>_ _. ''default''),
     sx_notification = (\<lambda>_ _ _ m _. m), sx_rfc3339 = (\<lambda>_. [])\<rparr>"

definition demo_publish :: publish_request where
  "demo_publish = \<lparr>pb_topic_arn = ''arn:aws:sns:us-east-1:000000000000:news'', pb_message = ''hi'', pb_subject = None\<rparr>"

definition demo_publish_env :: publish_env where
  "demo_publish_env = \<lparr>pe_message_id = ''p'', pe_sqs_message_id = (\<lambda>i. replicate i CHR ''m''), pe_timestamp = (\<lambda>_. 0),
     pe_date = (\<lambda>_. 0)\<rparr>"

lemma demo_sns_inv: "sns_inv demo_sns_db" "sqs_inv demo_open_db"
  by (simp_all add: sns_inv_def demo_sns_db_def demo_topic_def demo_subscription_def sqs_inv_def sqs_keys_def demo_open_db_def)

lemma demo_fresh: "fresh_ids (pe_sqs_message_id demo_publish_env) 0 demo_open_db"
  by (simp add: fresh_ids_def demo_publish_env_def demo_open_db_def inj_def)

lemma demo_topic_found: "sqlite_get_topic (pb_topic_arn demo_publish) demo_sns_db = Inr (Some demo_topic)"
  by (simp add: sqlite_get_topic_def demo_publish_def arn_topic_key_def demo_sns_db_def find_topic_def topic_key_def
      demo_topic_def)

lemma demo_topic_subscriptions: "topic_subscriptions demo_topic demo_sns_db = [demo_subscription]"
  by (simp add: topic_subscriptions_def demo_sns_db_def demo_subscription_def demo_topic_def topic_arn_of_def sns_arn_def)

lemma demo_delivery_queue: "delivery_queue demo_open_ext Enforce (queues demo_open_db) demo_subscription = Some demo_open_queue"
proof -
  have "trim ''allow'' = ''allow''"
    by (simp add: trim_def trim_chars_def utf8_width_def byte_def is_whitespace_def)
  then show ?thesis
    by (simp add: delivery_queue_def demo_subscription_def parse_sqs_endpoint_arn_def demo_open_db_def demo_open_queue_def
        demo_queue_def parse_sqs_resource_policy_def demo_open_ext_def effective_decision_def queue_decision_def
        authorize_cross_service_def evaluate_resource_policy_def evaluate_matching_statements_def evaluate_statement_def
        resource_statement_matches_def wildcard_match_def demo_ext_def)
qed

definition demo_delivered :: sqs_message where
  "demo_delivered = new_message [] demo_open_queue ''hi'' (Some ''{}'') None 0 0 None None"

lemma demo_delivery_row:
  "delivery_row demo_open_ext demo_sns_ext Enforce demo_publish_env demo_topic demo_publish (queues demo_open_db)
     (0, demo_subscription) = Some demo_delivered"
proof -
  have "validate_message_body ''hi'' 1048576 = Inr ()"
    by (simp add: validate_message_body_def rust_chars_def utf8_width_def byte_def is_valid_sqs_message_character_def)
  moreover have "delivery_body demo_sns_ext demo_publish_env 0 demo_topic demo_publish demo_subscription = ''hi''"
    by (simp add: delivery_body_def demo_subscription_def demo_publish_def)
  ultimately show ?thesis
    by (simp add: delivery_row_def demo_delivery_queue)
      (simp add: demo_publish_env_def demo_delivered_def demo_open_queue_def demo_queue_def default_sqs_queue_def)
qed

lemma demo_topic_deliveries:
  "topic_deliveries demo_open_ext demo_sns_ext Enforce demo_publish_env demo_topic demo_publish (queues demo_open_db)
     (topic_subscriptions demo_topic demo_sns_db) = [demo_delivered]"
  by (simp add: topic_deliveries_def demo_topic_subscriptions map_filter_simps demo_delivery_row)

section \<open>Properties\<close>

text \<open>
  C5. Fan-out: a publication to an existing topic always answers with its message id and appends to
  the SQS messages, in the order of the topic's subscriptions, exactly one message for each
  subscription whose endpoint names an existing queue that accepts the delivery and the content; it
  changes no other table of either store. The message is the published one when the subscription
  asks for raw delivery and the notification around it otherwise, delayed and retained as its queue
  says. One failed delivery never prevents another.
\<close>

theorem publish_fan_out:
  assumes "sqlite_get_topic (pb_topic_arn body) ndb = Inr (Some topic)"
    and "fresh_ids (pe_sqs_message_id env) 0 qdb"
  shows "\<exists>qdb'. handle_publish E X (sqlite_service_store UE mode) env request body (ndb, qdb) =
             (Inr (sns_reply request (pe_message_id env)), (ndb, qdb')) \<and>
           appended qdb (topic_deliveries E X mode env topic body (queues qdb) (topic_subscriptions topic ndb)) qdb'"
  using publish_appends [OF assms] .

theorem publish_fan_out_witness:
  "\<exists>qdb'. handle_publish demo_open_ext demo_sns_ext (sqlite_service_store demo_texts Enforce) demo_publish_env
         (demo_request ''sns'') demo_publish (demo_sns_db, demo_open_db) =
       (Inr (sns_reply (demo_request ''sns'') ''p''), (demo_sns_db, qdb')) \<and> contents qdb' = [demo_delivered]"
proof -
  from demo_topic_deliveries publish_fan_out [OF demo_topic_found demo_fresh, of demo_open_ext demo_sns_ext demo_texts Enforce "demo_request ''sns''"]
  obtain qdb' where "handle_publish demo_open_ext demo_sns_ext (sqlite_service_store demo_texts Enforce) demo_publish_env
         (demo_request ''sns'') demo_publish (demo_sns_db, demo_open_db) =
       (Inr (sns_reply (demo_request ''sns'') (pe_message_id demo_publish_env)), (demo_sns_db, qdb'))"
    "appended demo_open_db [demo_delivered] qdb'" by auto
  then show ?thesis using appended_contents [of demo_open_db "[demo_delivered]" qdb']
    by (simp add: demo_publish_env_def demo_open_db_def)
qed

lemma demo_publish_run:
  "\<exists>qdb'. handle_publish demo_open_ext demo_sns_ext (sqlite_service_store demo_texts Enforce) demo_publish_env
         (demo_request ''sns'') demo_publish (demo_sns_db, demo_open_db) =
       (Inr (sns_reply (demo_request ''sns'') ''p''), (demo_sns_db, qdb')) \<and> appended demo_open_db [demo_delivered] qdb'"
proof -
  from demo_topic_deliveries publish_appends [OF demo_topic_found demo_fresh, of demo_open_ext demo_sns_ext demo_texts Enforce "demo_request ''sns''"]
  show ?thesis by (simp add: demo_publish_env_def)
qed

text \<open>
  C18. Under enforced authorization every message a publication adds to a queue is one that the
  policy of this queue, as it can be read at that moment, allows the SNS service to send there.
\<close>

theorem publish_respects_queue_policy:
  assumes "fresh_ids (pe_sqs_message_id env) 0 qdb"
    and "handle_publish E X (sqlite_service_store UE Enforce) env request body (ndb, qdb) = (r, (ndb', qdb'))"
    and "m \<in> set (contents qdb')" "m \<notin> set (contents qdb)"
  shows "\<exists>q p. q \<in> set (queues qdb) \<and> m_queue_id m = q_id q \<and> parse_sqs_resource_policy E (q_policy q) = Inr p \<and>
    authorize_cross_service (x_wildmatch E) (Service ''sns.amazonaws.com'') ''sqs:SendMessage'' (get_queue_arn q) p = Allowed"
proof -
  obtain found where get: "sqlite_get_topic (pb_topic_arn body) ndb = Inr found"
    by (cases "arn_topic_key (pb_topic_arn body)") (simp_all add: sqlite_get_topic_def)
  show ?thesis
  proof (cases found)
    case None
    with get assms(2-4) show ?thesis
      by (simp add: handle_publish_def load_topic_def sqlite_sns_store_def)
  next
    case (Some topic)
    with publish_appends [OF _ assms(1), of body ndb topic E X UE Enforce request] get assms(2)
    have "appended qdb (topic_deliveries E X Enforce env topic body (queues qdb) (topic_subscriptions topic ndb)) qdb'"
      by fastforce
    with assms(3,4) have "m \<in> set (topic_deliveries E X Enforce env topic body (queues qdb) (topic_subscriptions topic ndb))"
      using appended_contents by fastforce
    then obtain i sub where "delivery_row E X Enforce env topic body (queues qdb) (i, sub) = Some m"
      unfolding topic_deliveries_def by (auto dest!: map_filter_Some)
    then obtain q where q: "delivery_queue E Enforce (queues qdb) sub = Some q" "m_queue_id m = q_id q"
      by (auto simp: delivery_row_def Let_def new_message_def split: option.splits if_splits)
    then obtain p where "parse_sqs_resource_policy E (q_policy q) = Inr p" "queue_decision E p (get_queue_arn q) = Allow"
      by (auto simp: delivery_queue_def effective_decision_def split: if_splits option.splits sum.splits)
    with q delivery_queue_in [OF q(1)] show ?thesis
      by (auto simp: queue_decision_def split: policy_eval_result.splits)
  qed
qed

theorem publish_respects_queue_policy_witness:
  "\<exists>q p. q \<in> set (queues demo_open_db) \<and> m_queue_id demo_delivered = q_id q \<and>
     parse_sqs_resource_policy demo_open_ext (q_policy q) = Inr p \<and>
     authorize_cross_service (x_wildmatch demo_open_ext) (Service ''sns.amazonaws.com'') ''sqs:SendMessage'' (get_queue_arn q) p =
       Allowed"
proof -
  obtain qdb' where run: "handle_publish demo_open_ext demo_sns_ext (sqlite_service_store demo_texts Enforce)
      demo_publish_env (demo_request ''sns'') demo_publish (demo_sns_db, demo_open_db) =
       (Inr (sns_reply (demo_request ''sns'') ''p''), (demo_sns_db, qdb'))" "appended demo_open_db [demo_delivered] qdb'"
    using demo_publish_run by blast
  have "contents qdb' = [demo_delivered]" using appended_contents [OF run(2)] by (simp add: demo_open_db_def)
  then show ?thesis
    by (intro publish_respects_queue_policy [OF demo_fresh run(1)]) (simp_all add: demo_open_db_def)
qed

lemma delivered_row:
  assumes "appended qdb ms qdb'" "m \<in> set ms"
  shows "\<exists>rid. (rid, m) \<in> set (messages qdb')"
  using assms by (force simp: appended_def)

lemma publish_inv:
  assumes "sns_inv ndb" "sqs_inv qdb"
    and "handle_publish E X (sqlite_service_store UE mode) env request body (ndb, qdb) = (r, (ndb', qdb'))"
  shows "sqs_inv qdb'"
proof -
  have "sqlite_joined.both (snd (handle_publish E X (sqlite_service_store UE mode) env request body (ndb, qdb)))"
    by (rule keepsD [OF sqlite_joined.keeps_publish]) (simp add: sqlite_joined.both_def assms(1,2))
  then show ?thesis by (simp add: sqlite_joined.both_def assms(3))
qed

text \<open>
  C20. From publication to reception: when a subscription of the topic is owed a message, the
  publication stores it, and once the delay of its queue is over and until its retention period ends,
  a receive on the queue with room for all ready messages hands it out, for the first time, with the
  content that was published: the raw message, or the notification with the message in it.
\<close>

theorem published_message_is_delivered:
  assumes "sns_inv ndb" "sqs_inv qdb" "fresh_ids (pe_sqs_message_id env) 0 qdb"
    and "sqlite_get_topic (pb_topic_arn body) ndb = Inr (Some topic)"
    and "i < length (topic_subscriptions topic ndb)" "sub = topic_subscriptions topic ndb ! i"
    and "delivery_queue E mode (queues qdb) sub = Some q"
    and "delivery_row E X mode env topic body (queues qdb) (i, sub) = Some m"
    and "handle_publish E X (sqlite_service_store UE mode) env request body (ndb, qdb) = (r, (ndb', qdb1))"
  shows "\<exists>rid. (rid, m) \<in> set (messages qdb1) \<and>
    (\<forall>stmts renv n vt ms qdb2.
       list_all (spares (rid, m)) stmts \<longrightarrow>
       pe_date env i + seconds (q_delay_seconds q) \<le> re_now renv \<longrightarrow>
       re_now renv < pe_date env i + seconds (q_message_retention_period_seconds q) \<longrightarrow>
       int (length (ready (q_id q) (re_now renv) (messages (exec_stmts UE stmts qdb1)))) \<le> n \<longrightarrow>
       sqlite_receive_messages renv (q_id q) n vt (exec_stmts UE stmts qdb1) = (Inr ms, qdb2) \<longrightarrow>
       (\<exists>x\<in>set ms. m_message_id x = pe_sqs_message_id env i \<and> m_receive_count x = 1 \<and>
          m_body x = delivery_body X env i topic body sub))"
proof -
  have "(i, sub) \<in> set (enumerate 0 (topic_subscriptions topic ndb))"
    using assms(5,6) by (auto simp: in_set_enumerate_eq)
  with assms(8) have "m \<in> set (topic_deliveries E X mode env topic body (queues qdb) (topic_subscriptions topic ndb))"
    by (force simp: topic_deliveries_def map_filter_def)
  moreover have "appended qdb (topic_deliveries E X mode env topic body (queues qdb) (topic_subscriptions topic ndb)) qdb1"
    using publish_appends [OF assms(4,3), of E X UE mode request] assms(9) by auto
  ultimately obtain rid where row: "(rid, m) \<in> set (messages qdb1)" using delivered_row by blast
  have m: "m = new_message (pe_sqs_message_id env i) q (delivery_body X env i topic body sub) (Some ''{}'') None
      (pe_date env i) (q_delay_seconds q) None None"
    using assms(7,8) by (auto simp: delivery_row_def Let_def split: if_splits)
  have "\<exists>x\<in>set ms. m_message_id x = pe_sqs_message_id env i \<and> m_receive_count x = 1 \<and>
      m_body x = delivery_body X env i topic body sub"
    if "list_all (spares (rid, m)) stmts" "pe_date env i + seconds (q_delay_seconds q) \<le> re_now renv"
      "re_now renv < pe_date env i + seconds (q_message_retention_period_seconds q)"
      "int (length (ready (q_id q) (re_now renv) (messages (exec_stmts UE stmts qdb1)))) \<le> n"
      "sqlite_receive_messages renv (q_id q) n vt (exec_stmts UE stmts qdb1) = (Inr ms, qdb2)"
    for stmts renv n vt ms qdb2
  proof -
    have "receivable (q_id q) (re_now renv) m" using that(2,3) by (simp add: m receivable_def new_message_def)
    from spared_row_delivered [OF publish_inv [OF assms(1,2,9)] row that(1) this that(4,5)]
    show ?thesis by (rule rev_bexI) (simp add: m new_message_def)
  qed
  with row show ?thesis by blast
qed

theorem published_message_is_delivered_witness:
  "\<exists>qdb1. handle_publish demo_open_ext demo_sns_ext (sqlite_service_store demo_texts Enforce) demo_publish_env
        (demo_request ''sns'') demo_publish (demo_sns_db, demo_open_db) =
        (Inr (sns_reply (demo_request ''sns'') ''p''), (demo_sns_db, qdb1)) \<and>
     (\<exists>x. x \<in> set (projr (fst (sqlite_receive_messages (demo_env 5 ''h1'') 1 (int (length (messages qdb1))) 30 qdb1))) \<and>
        m_body x = ''hi'' \<and> m_receive_count x = 1)"
proof -
  obtain qdb1 where run: "handle_publish demo_open_ext demo_sns_ext (sqlite_service_store demo_texts Enforce)
      demo_publish_env (demo_request ''sns'') demo_publish (demo_sns_db, demo_open_db) =
       (Inr (sns_reply (demo_request ''sns'') ''p''), (demo_sns_db, qdb1))" "appended demo_open_db [demo_delivered] qdb1"
    using demo_publish_run by blast
  have "0 < length (topic_subscriptions demo_topic demo_sns_db)"
    "demo_subscription = topic_subscriptions demo_topic demo_sns_db ! 0" by (simp_all add: demo_topic_subscriptions)
  from published_message_is_delivered [OF demo_sns_inv demo_fresh demo_topic_found this demo_delivery_queue
      demo_delivery_row run(1)]
  obtain rid where deliver: "\<And>stmts renv n vt ms qdb2.
       list_all (spares (rid, demo_delivered)) stmts \<Longrightarrow>
       pe_date demo_publish_env 0 + seconds (q_delay_seconds demo_open_queue) \<le> re_now renv \<Longrightarrow>
       re_now renv < pe_date demo_publish_env 0 + seconds (q_message_retention_period_seconds demo_open_queue) \<Longrightarrow>
       int (length (ready (q_id demo_open_queue) (re_now renv) (messages (exec_stmts demo_texts stmts qdb1)))) \<le> n \<Longrightarrow>
       sqlite_receive_messages renv (q_id demo_open_queue) n vt (exec_stmts demo_texts stmts qdb1) = (Inr ms, qdb2) \<Longrightarrow>
       \<exists>x\<in>set ms. m_message_id x = pe_sqs_message_id demo_publish_env 0 \<and> m_receive_count x = 1 \<and>
          m_body x = delivery_body demo_sns_ext demo_publish_env 0 demo_topic demo_publish demo_subscription"
    by blast
  have "lease_end (demo_env 5 ''h1'') 30 \<le> naive_datetime_max" by (simp add: demo_eval)
  note rcv = receive_Inr_projr [OF this, of 1 "int (length (messages qdb1))" qdb1]
  have body: "delivery_body demo_sns_ext demo_publish_env 0 demo_topic demo_publish demo_subscription = ''hi''"
    by (simp add: delivery_body_def demo_subscription_def demo_publish_def)
  have "length (ready 1 (seconds 5) (messages qdb1)) \<le> length (messages qdb1)" by (simp add: ready_def)
  then have "\<exists>x\<in>set (projr (fst (sqlite_receive_messages (demo_env 5 ''h1'') 1 (int (length (messages qdb1))) 30 qdb1))).
      m_message_id x = pe_sqs_message_id demo_publish_env 0 \<and> m_receive_count x = 1 \<and> m_body x = ''hi''"
    unfolding body [symmetric] using rcv
    by (intro deliver [of "[]" "demo_env 5 ''h1''" "int (length (messages qdb1))" 30])
      (simp_all add: demo_env_def demo_publish_env_def demo_open_queue_def demo_queue_def default_sqs_queue_def seconds_def)
  then show ?thesis using run by blast
qed

end
