(* ===== verification/Sns_Actions_Laws.thy ===== *)
theory Sns_Actions_Laws
  imports Sns_Publish_Laws Sqs_Queue_Laws
begin

text \<open>
  Properties of the SNS actions over the SQLite store: the listings with their page tokens, the
  attributes that are read back as they were set, and the life of a topic from creation to deletion.
\<close>

section \<open>Listing\<close>

text \<open>The token of the page that starts at an offset, as a client sees it.\<close>

definition offset_token :: "nat \<Rightarrow> string option" where
  "offset_token k = (if k = 0 then None else Some (show_nat k))"

definition token_page :: "'a list \<Rightarrow> string option \<Rightarrow> 'a list \<times> string option" where
  "token_page items token = page_at (projr (page_offset token)) items"

lemma page_offset_token: "k < 2 ^ 64 \<Longrightarrow> page_offset (offset_token k) = Inr k"
  by (simp add: page_offset_def offset_token_def parse_usize_show_nat)

lemma token_page_at:
  assumes "length items + list_page_size < 2 ^ 64" "k \<le> length items"
  shows "token_page items (offset_token k) =
    (take list_page_size (drop k items),
     if k + list_page_size < length items then offset_token (k + list_page_size) else None)"
proof -
  have "(k + list_page_size) mod 2 ^ 64 = k + list_page_size" using assms by (intro mod_less) simp
  moreover have "offset_token (k + list_page_size) = Some (show_nat (k + list_page_size))"
    by (simp add: offset_token_def list_page_size_def)
  moreover have "page_offset (offset_token k) = Inr k" using assms by (intro page_offset_token) simp
  ultimately show ?thesis by (simp only: token_page_def page_at_def Let_def sum.sel)
qed

lemma follow_offset_pages:
  assumes "length items + list_page_size < 2 ^ 64"
    and "\<And>k. k \<le> length items \<Longrightarrow> f (offset_token k) = apfst (map g) (token_page items (offset_token k))"
  shows "k \<le> length items \<Longrightarrow> length items - k < fuel \<Longrightarrow>
         follow_pages f fuel (offset_token k) = Some (map g (drop k items))"
proof (induction fuel arbitrary: k)
  case (Suc fuel)
  have page: "f (offset_token k) = (map g (take list_page_size (drop k items)),
     if k + list_page_size < length items then offset_token (k + list_page_size) else None)"
    using assms(2) [OF Suc.prems(1)] token_page_at [OF assms(1) Suc.prems(1)] by simp
  show ?case
  proof (cases "k + list_page_size < length items")
    case True
    then have "follow_pages f fuel (offset_token (k + list_page_size)) = Some (map g (drop (k + list_page_size) items))"
      using Suc.prems(2) by (intro Suc.IH) (simp_all add: list_page_size_def)
    moreover have "map g (take list_page_size (drop k items)) @ map g (drop (k + list_page_size) items) = map g (drop k items)"
      by (metis add.commute append_take_drop_id drop_drop map_append)
    moreover have "offset_token (k + list_page_size) = Some (show_nat (k + list_page_size))"
      by (simp add: offset_token_def list_page_size_def)
    ultimately show ?thesis using page True by simp
  next
    case False
    then show ?thesis using page by simp
  qed
qed simp

lemma follow_all_pages:
  assumes "length items \<le> n" "n < 2 ^ 63"
    and "\<And>k. k \<le> length items \<Longrightarrow> f (offset_token k) = apfst (map g) (token_page items (offset_token k))"
  shows "follow_pages f (Suc n) None = Some (map g items)"
proof -
  have "length items + list_page_size < 2 ^ 64" using assms(1,2) by (simp add: list_page_size_def)
  from follow_offset_pages [OF this, of f g 0 "Suc n"] assms(1,3) show ?thesis by (simp add: offset_token_def)
qed

text \<open>The pages of the three listings, as the answers to the requests with the tokens.\<close>

definition topics_page :: "sqlite_texts \<Rightarrow> resolved_request \<Rightarrow> sns_db \<Rightarrow> string option \<Rightarrow> string list \<times> string option" where
  "topics_page UE request db token =
     sr_result (projr (fst (handle_list_topics (sqlite_sns_store UE) request token db)))"

definition subscriptions_page ::
    "sqlite_texts \<Rightarrow> resolved_request \<Rightarrow> sns_db \<Rightarrow> string option \<Rightarrow> subscription_summary list \<times> string option" where
  "subscriptions_page UE request db token =
     sr_result (projr (fst (handle_list_subscriptions (sqlite_sns_store UE) request token db)))"

definition topic_subscriptions_page ::
    "sqlite_texts \<Rightarrow> resolved_request \<Rightarrow> string \<Rightarrow> sns_db \<Rightarrow> string option \<Rightarrow>
     subscription_summary list \<times> string option" where
  "topic_subscriptions_page UE request arn db token =
     sr_result (projr (fst (handle_list_subscriptions_by_topic (sqlite_sns_store UE) request arn token db)))"

definition account_topics :: "resolved_request \<Rightarrow> sns_db \<Rightarrow> sns_topic list" where
  "account_topics request db =
     sort_key tp_name (filter (\<lambda>t. tp_region t = rr_region request \<and> tp_account_id t = req_account request) (topics db))"

definition account_subscriptions :: "resolved_request \<Rightarrow> sns_db \<Rightarrow> sns_subscription list" where
  "account_subscriptions request db =
     sort_key sub_subscription_arn (filter (\<lambda>s. sub_owner_account_id s = req_account request \<and>
       sql_like (''arn:aws:sns:'' @ rr_region request @ '':'' @ req_account request @ '':%'') (sub_topic_arn s))
       (subscriptions db))"

lemma sql_limit_all: "length xs < 2 ^ 63 \<Longrightarrow> sql_limit (2 ^ 63 - 1) xs = xs"
  by (simp add: sql_limit_def)

lemma length_account_rows:
  "length (account_topics request db) \<le> length (topics db)"
  "length (account_subscriptions request db) \<le> length (subscriptions db)"
  by (simp_all add: account_topics_def account_subscriptions_def)

lemma topics_page_eq:
  assumes "length (topics db) < 2 ^ 63" "page_offset token = Inr k"
  shows "topics_page UE request db token = apfst (map topic_arn_of) (token_page (account_topics request db) token)"
proof -
  have "sqlite_list_topics (rr_region request) (req_account request) None None db = Inr (account_topics request db)"
    using sql_limit_all [of "account_topics request db", OF order.strict_trans1 [OF length_account_rows(1) assms(1)]]
    by (simp add: sqlite_list_topics_def account_topics_def)
  with assms(2) show ?thesis
    by (simp add: topics_page_def handle_list_topics_def sqlite_sns_store_def token_page_def sns_reply_def)
qed

lemma subscriptions_page_eq:
  assumes "length (subscriptions db) < 2 ^ 63" "page_offset token = Inr k"
  shows "subscriptions_page UE request db token =
    apfst (map subscription_summary_of) (token_page (account_subscriptions request db) token)"
proof -
  have "sqlite_list_subscriptions (rr_region request) (req_account request) None db = Inr (account_subscriptions request db)"
    using sql_limit_all [of "account_subscriptions request db", OF order.strict_trans1 [OF length_account_rows(2) assms(1)]]
    by (simp add: sqlite_list_subscriptions_def account_subscriptions_def)
  with assms(2) show ?thesis
    by (simp add: subscriptions_page_def handle_list_subscriptions_def sqlite_sns_store_def token_page_def sns_reply_def)
qed

lemma topic_subscriptions_page_eq:
  assumes "sqlite_get_topic arn db = Inr (Some t)" "page_offset token = Inr k"
  shows "topic_subscriptions_page UE request arn db token =
    apfst (map subscription_summary_of) (token_page (filter (\<lambda>s. sub_topic_arn s = arn) (subscriptions db)) token)"
  using assms
  by (simp add: topic_subscriptions_page_def handle_list_subscriptions_by_topic_def load_topic_def sqlite_sns_store_def
      sqlite_list_subscriptions_by_topic_def token_page_def sns_reply_def)

text \<open>
  The listings of SNS are complete: following the page tokens ends after at most one request more
  than there are rows and gives every topic of the caller's region and account in the order of the
  names, every subscription the account owns there in the order of the ARNs, and every subscription of
  an existing topic; no topic and no subscription comes twice.
\<close>

theorem sns_listings_complete:
  assumes "sns_inv db" "length (topics db) < 2 ^ 63" "length (subscriptions db) < 2 ^ 63"
  shows "follow_pages (topics_page UE request db) (Suc (length (topics db))) None =
           Some (map topic_arn_of (account_topics request db)) \<and>
         follow_pages (subscriptions_page UE request db) (Suc (length (subscriptions db))) None =
           Some (map subscription_summary_of (account_subscriptions request db)) \<and>
         (sqlite_get_topic arn db = Inr (Some t) \<longrightarrow>
            follow_pages (topic_subscriptions_page UE request arn db) (Suc (length (subscriptions db))) None =
              Some (map subscription_summary_of (filter (\<lambda>s. sub_topic_arn s = arn) (subscriptions db)))) \<and>
         distinct (map tp_name (account_topics request db)) \<and>
         distinct (map sub_subscription_arn (account_subscriptions request db))"
proof (intro conjI impI)
  have offset: "page_offset (offset_token k) = Inr k" if "k \<le> m" "m \<le> n" "n < 2 ^ 63" for k m n :: nat
    using that by (intro page_offset_token) simp
  show "follow_pages (topics_page UE request db) (Suc (length (topics db))) None =
      Some (map topic_arn_of (account_topics request db))"
    by (rule follow_all_pages [OF length_account_rows(1) assms(2)])
      (rule topics_page_eq [OF assms(2) offset [OF _ length_account_rows(1) assms(2)]])
  show "follow_pages (subscriptions_page UE request db) (Suc (length (subscriptions db))) None =
      Some (map subscription_summary_of (account_subscriptions request db))"
    by (rule follow_all_pages [OF length_account_rows(2) assms(3)])
      (rule subscriptions_page_eq [OF assms(3) offset [OF _ length_account_rows(2) assms(3)]])
  show "follow_pages (topic_subscriptions_page UE request arn db) (Suc (length (subscriptions db))) None =
      Some (map subscription_summary_of (filter (\<lambda>s. sub_topic_arn s = arn) (subscriptions db)))"
    if "sqlite_get_topic arn db = Inr (Some t)"
    by (rule follow_all_pages [OF length_filter_le assms(3)])
      (rule topic_subscriptions_page_eq [OF that offset [OF _ length_filter_le assms(3)]])
  have "inj_on tp_name (set (account_topics request db))"
    using inv_topic_keys [OF assms(1)] by (auto simp: account_topics_def inj_on_def distinct_map topic_key_def)
  moreover have "distinct (topics db)" using inv_topic_ids [OF assms(1)] by (simp add: distinct_map)
  ultimately show "distinct (map tp_name (account_topics request db))"
    by (simp add: distinct_map account_topics_def)
  have "distinct (map sub_subscription_arn (subscriptions db))" using assms(1) by (rule inv_sub_arns)
  then show "distinct (map sub_subscription_arn (account_subscriptions request db))"
    by (auto simp: distinct_map account_subscriptions_def inj_on_def)
qed

theorem sns_listings_complete_witness:
  "follow_pages (topics_page demo_texts (demo_request ''sns'') demo_sns_db) 2 None =
     Some [''arn:aws:sns:us-east-1:000000000000:news'']"
proof -
  have "account_topics (demo_request ''sns'') demo_sns_db = [demo_topic]"
    by (simp add: account_topics_def demo_request_def demo_sns_db_def demo_topic_def)
  moreover have "topic_arn_of demo_topic = ''arn:aws:sns:us-east-1:000000000000:news''"
    by (simp add: topic_arn_of_def sns_arn_def demo_topic_def)
  moreover have small: "length (topics demo_sns_db) = 1" "length (subscriptions demo_sns_db) = 1"
    by (simp_all add: demo_sns_db_def)
  moreover from small have "length (topics demo_sns_db) < 2 ^ 63" "length (subscriptions demo_sns_db) < 2 ^ 63"
    by simp_all
  note sns_listings_complete [OF demo_sns_inv(1) this, THEN conjunct1, of demo_texts "demo_request ''sns''"]
  ultimately show ?thesis by (simp only: list.map numeral_2_eq_2 One_nat_def)
qed

section \<open>Attributes read back\<close>

lemma map_of_optional [simp]:
  "map_of (optional_attribute k v @ rest) x = (if x = k \<and> v \<noteq> None then v else map_of rest x)"
  "map_of (optional_attribute k v) x = (if x = k then v else None)"
  by (auto simp: optional_attribute_def split: option.split)

lemma subscription_update_columns:
  "apply_subscription_update (subscription_update_of ''DeliveryPolicy'' v) s s = s\<lparr>sub_delivery_policy := Some v\<rparr>"
  "apply_subscription_update (subscription_update_of ''FilterPolicy'' v) s s = s\<lparr>sub_filter_policy := Some v\<rparr>"
  "apply_subscription_update (subscription_update_of ''FilterPolicyScope'' v) s s = s\<lparr>sub_filter_policy_scope := Some v\<rparr>"
  "apply_subscription_update (subscription_update_of ''RawMessageDelivery'' v) s s = s\<lparr>sub_raw_message_delivery := Some v\<rparr>"
  "apply_subscription_update (subscription_update_of ''RedrivePolicy'' v) s s = s\<lparr>sub_redrive_policy := Some v\<rparr>"
  "apply_subscription_update (subscription_update_of ''SubscriptionRoleArn'' v) s s = s\<lparr>sub_subscription_role_arn := Some v\<rparr>"
  "apply_subscription_update (subscription_update_of ''ReplayPolicy'' v) s s = s\<lparr>sub_replay_policy := Some v\<rparr>"
  by (simp_all add: apply_subscription_update_def subscription_update_of_def default_subscription_update_def or_else_def)

lemma subscription_entries_columns:
  "map_of (subscription_attribute_entries (s\<lparr>sub_delivery_policy := Some v\<rparr>)) = (map_of (subscription_attribute_entries s))(''DeliveryPolicy'' \<mapsto> v)"
  "map_of (subscription_attribute_entries (s\<lparr>sub_filter_policy := Some v\<rparr>)) = (map_of (subscription_attribute_entries s))(''FilterPolicy'' \<mapsto> v)"
  "map_of (subscription_attribute_entries (s\<lparr>sub_filter_policy_scope := Some v\<rparr>)) = (map_of (subscription_attribute_entries s))(''FilterPolicyScope'' \<mapsto> v)"
  "map_of (subscription_attribute_entries (s\<lparr>sub_raw_message_delivery := Some v\<rparr>)) = (map_of (subscription_attribute_entries s))(''RawMessageDelivery'' \<mapsto> v)"
  "map_of (subscription_attribute_entries (s\<lparr>sub_redrive_policy := Some v\<rparr>)) = (map_of (subscription_attribute_entries s))(''RedrivePolicy'' \<mapsto> v)"
  "map_of (subscription_attribute_entries (s\<lparr>sub_subscription_role_arn := Some v\<rparr>)) = (map_of (subscription_attribute_entries s))(''SubscriptionRoleArn'' \<mapsto> v)"
  "map_of (subscription_attribute_entries (s\<lparr>sub_replay_policy := Some v\<rparr>)) = (map_of (subscription_attribute_entries s))(''ReplayPolicy'' \<mapsto> v)"
  by (rule ext, simp add: subscription_attribute_entries_def del: map_of_append)+

lemma subscription_entries_update:
  assumes "is_valid_subscription_attribute name"
  shows "map_of (subscription_attribute_entries (apply_subscription_update (subscription_update_of name v) s s)) =
    (map_of (subscription_attribute_entries s))(name \<mapsto> v)"
  using assms unfolding is_valid_subscription_attribute_def valid_subscription_attributes_def list.set insert_iff empty_iff simp_thms
  by (elim disjE; simp only: subscription_update_columns subscription_entries_columns)

text \<open>The topic attributes that have a column; the others are accepted and forgotten.\<close>

definition stored_topic_attributes :: "string list" where
  "stored_topic_attributes = [''DeliveryPolicy'', ''DisplayName'', ''Policy'', ''TracingConfig'', ''KmsMasterKeyId'',
     ''SignatureVersion'', ''FifoTopic'', ''DataProtectionPolicy'', ''ArchivePolicy'', ''ContentBasedDeduplication'']"

definition shown_topic_attribute :: "sns_ext \<Rightarrow> sns_topic \<Rightarrow> string \<Rightarrow> string \<Rightarrow> string" where
  "shown_topic_attribute X t name v =
     (if name = ''Policy'' then topic_policy_attribute_value X v (topic_arn_of t) (tp_account_id t) else v)"

lemma topic_update_columns:
  "apply_topic_update (topic_update_of ''DeliveryPolicy'' v) t t = t\<lparr>tp_delivery_policy := Some v\<rparr>"
  "apply_topic_update (topic_update_of ''DisplayName'' v) t t = t\<lparr>tp_display_name := Some v\<rparr>"
  "apply_topic_update (topic_update_of ''TracingConfig'' v) t t = t\<lparr>tp_tracing_config := Some v\<rparr>"
  "apply_topic_update (topic_update_of ''KmsMasterKeyId'' v) t t = t\<lparr>tp_kms_master_key_id := Some v\<rparr>"
  "apply_topic_update (topic_update_of ''SignatureVersion'' v) t t = t\<lparr>tp_signature_version := Some v\<rparr>"
  "apply_topic_update (topic_update_of ''FifoTopic'' v) t t = t\<lparr>tp_fifo_topic := Some v\<rparr>"
  "apply_topic_update (topic_update_of ''DataProtectionPolicy'' v) t t = t\<lparr>tp_data_protection_policy := Some v\<rparr>"
  "apply_topic_update (topic_update_of ''ArchivePolicy'' v) t t = t\<lparr>tp_archive_policy := Some v\<rparr>"
  "apply_topic_update (topic_update_of ''ContentBasedDeduplication'' v) t t = t\<lparr>tp_content_based_deduplication := Some v\<rparr>"
  "apply_topic_update (topic_update_of ''Policy'' v) t t = t\<lparr>tp_policy := v\<rparr>"
  by (simp_all add: apply_topic_update_def topic_update_of_def default_topic_update_def or_else_def)

lemma topic_entries_columns:
  "map_of (topic_attribute_entries X (t\<lparr>tp_delivery_policy := Some v\<rparr>)) = (map_of (topic_attribute_entries X t))(''DeliveryPolicy'' \<mapsto> v)"
  "map_of (topic_attribute_entries X (t\<lparr>tp_display_name := Some v\<rparr>)) = (map_of (topic_attribute_entries X t))(''DisplayName'' \<mapsto> v)"
  "map_of (topic_attribute_entries X (t\<lparr>tp_tracing_config := Some v\<rparr>)) = (map_of (topic_attribute_entries X t))(''TracingConfig'' \<mapsto> v)"
  "map_of (topic_attribute_entries X (t\<lparr>tp_kms_master_key_id := Some v\<rparr>)) = (map_of (topic_attribute_entries X t))(''KmsMasterKeyId'' \<mapsto> v)"
  "map_of (topic_attribute_entries X (t\<lparr>tp_signature_version := Some v\<rparr>)) = (map_of (topic_attribute_entries X t))(''SignatureVersion'' \<mapsto> v)"
  "map_of (topic_attribute_entries X (t\<lparr>tp_fifo_topic := Some v\<rparr>)) = (map_of (topic_attribute_entries X t))(''FifoTopic'' \<mapsto> v)"
  "map_of (topic_attribute_entries X (t\<lparr>tp_data_protection_policy := Some v\<rparr>)) = (map_of (topic_attribute_entries X t))(''DataProtectionPolicy'' \<mapsto> v)"
  "map_of (topic_attribute_entries X (t\<lparr>tp_archive_policy := Some v\<rparr>)) = (map_of (topic_attribute_entries X t))(''ArchivePolicy'' \<mapsto> v)"
  "map_of (topic_attribute_entries X (t\<lparr>tp_content_based_deduplication := Some v\<rparr>)) = (map_of (topic_attribute_entries X t))(''ContentBasedDeduplication'' \<mapsto> v)"
  "map_of (topic_attribute_entries X (t\<lparr>tp_policy := v\<rparr>)) =
     (map_of (topic_attribute_entries X t))(''Policy'' \<mapsto> shown_topic_attribute X t ''Policy'' v)"
  by (rule ext, simp add: topic_attribute_entries_def topic_arn_of_def shown_topic_attribute_def del: map_of_append)+

lemma topic_entries_update:
  "map_of (topic_attribute_entries X (apply_topic_update (topic_update_of name v) t t)) =
    (if name \<in> set stored_topic_attributes
     then (map_of (topic_attribute_entries X t))(name \<mapsto> shown_topic_attribute X t name v)
     else map_of (topic_attribute_entries X t))"
proof (cases "name \<in> set stored_topic_attributes")
  case True
  have shown: "shown_topic_attribute X t name v = v" if "name \<noteq> ''Policy''" using that by (simp add: shown_topic_attribute_def)
  from True shown show ?thesis unfolding if_P [OF True] stored_topic_attributes_def list.set insert_iff empty_iff simp_thms
    by (elim disjE; simp only: topic_update_columns topic_entries_columns; simp)
next
  case False
  then have "topic_update_of name v = default_topic_update"
    by (simp add: stored_topic_attributes_def topic_update_of_def Let_def)
  then have "apply_topic_update (topic_update_of name v) t t = t"
    by (simp add: apply_topic_update_def default_topic_update_def or_else_def)
  with False show ?thesis by simp
qed

lemma set_subscription_found:
  assumes "find_subscription arn db = Some s"
  shows "find_subscription arn (snd (sqlite_set_subscription_attributes arn u db)) = Some (apply_subscription_update u s s)"
  using assms find_key_map [where h = "\<lambda>x. if sub_id x = sub_id s then apply_subscription_update u s x else x"
      and f = sub_subscription_arn and k = arn and xs = "subscriptions db"]
  by (simp add: sqlite_set_subscription_attributes_def find_subscription_def)

lemma set_topic_found:
  assumes "sqlite_get_topic (sns_arn region account name) db = Inr (Some t)"
  shows "sqlite_get_topic (sns_arn region account name) (snd (sqlite_set_topic_attributes account region name u db)) =
    Inr (Some (apply_topic_update u t t))"
proof -
  obtain k where k: "arn_topic_key (sns_arn region account name) = Some k" "find_topic k db = Some t"
    using assms by (auto simp: sqlite_get_topic_def split: option.splits)
  then show ?thesis
    using assms find_key_map [where h = "\<lambda>x. if tp_id x = tp_id t then apply_topic_update u t x else x"
        and f = topic_key and k = k and xs = "topics db"]
    by (simp add: sqlite_set_topic_attributes_def sqlite_get_topic_def find_topic_def)
qed

definition shown_subscription :: "sqlite_texts \<Rightarrow> resolved_request \<Rightarrow> string \<Rightarrow> sns_db \<Rightarrow> string \<Rightarrow> string option" where
  "shown_subscription UE request arn db =
     map_of (sr_result (projr (fst (handle_get_subscription_attributes (sqlite_sns_store UE) request arn db))))"

definition shown_topic :: "sns_ext \<Rightarrow> sqlite_texts \<Rightarrow> resolved_request \<Rightarrow> string \<Rightarrow> sns_db \<Rightarrow> string \<Rightarrow> string option" where
  "shown_topic X UE request arn db =
     map_of (sr_result (projr (fst (handle_get_topic_attributes X (sqlite_sns_store UE) request arn db))))"

lemma shown_subscription_eq:
  "find_subscription arn db = Some s \<Longrightarrow>
   shown_subscription UE request arn db = map_of (subscription_attribute_entries s)"
  by (simp add: shown_subscription_def handle_get_subscription_attributes_def load_subscription_def sqlite_sns_store_def
      sqlite_get_subscription_def sns_reply_def)

lemma shown_topic_eq:
  "sqlite_get_topic arn db = Inr (Some t) \<Longrightarrow> shown_topic X UE request arn db = map_of (topic_attribute_entries X t)"
  by (simp add: shown_topic_def handle_get_topic_attributes_def load_topic_def sqlite_sns_store_def sns_reply_def)

text \<open>
  C35. Attributes are read back as they were set. After a successful \<^verbatim>\<open>SetSubscriptionAttributes\<close> that
  passed validation, the attributes shown for the subscription are those shown before with this one
  set to the given value. After a successful \<^verbatim>\<open>SetTopicAttributes\<close> the same holds of the topic for the
  attributes with a column (an empty policy is shown as the default policy), and nothing changes for
  the attributes that are only accepted.
\<close>

theorem sns_attributes_roundtrip:
  "(validate_set_subscription_attributes E arn name v = Inr () \<and>
      handle_set_subscription_attributes (sqlite_sns_store UE) request arn name v db = (Inr r, db') \<longrightarrow>
      shown_subscription UE request' arn db' = (shown_subscription UE request' arn db)(name \<mapsto> v)) \<and>
   (handle_set_topic_attributes (sqlite_sns_store UE) request arn name v db = (Inr r, db') \<longrightarrow>
      (\<exists>t. sqlite_get_topic arn db = Inr (Some t) \<and>
        shown_topic X UE request' arn db' =
          (if name \<in> set stored_topic_attributes
           then (shown_topic X UE request' arn db)(name \<mapsto> shown_topic_attribute X t name v)
           else shown_topic X UE request' arn db)))"
proof (intro conjI impI)
  assume *: "validate_set_subscription_attributes E arn name v = Inr () \<and>
      handle_set_subscription_attributes (sqlite_sns_store UE) request arn name v db = (Inr r, db')"
  then have run: "sqlite_set_subscription_attributes arn (subscription_update_of name v) db = (Inr (), db')"
    by (auto simp: handle_set_subscription_attributes_def sqlite_sns_store_def sbind_eq_Inr smap_err_eq)
  then obtain s where s: "find_subscription arn db = Some s"
    by (auto simp: sqlite_set_subscription_attributes_def split: option.splits)
  have "find_subscription arn db' = Some (apply_subscription_update (subscription_update_of name v) s s)"
    using set_subscription_found [OF s, of "subscription_update_of name v"] run by simp
  moreover have "is_valid_subscription_attribute name"
    using * by (auto simp: validate_set_subscription_attributes_def)
  ultimately show "shown_subscription UE request' arn db' = (shown_subscription UE request' arn db)(name \<mapsto> v)"
    by (simp add: shown_subscription_eq [OF s] shown_subscription_eq subscription_entries_update)
next
  assume *: "handle_set_topic_attributes (sqlite_sns_store UE) request arn name v db = (Inr r, db')"
  then obtain i where i: "parse_sns_topic_arn arn = Some i"
    and run: "sqlite_set_topic_attributes (tr_account_id i) (tr_region i) (tr_name i) (topic_update_of name v) db = (Inr (), db')"
    by (auto simp: handle_set_topic_attributes_def sqlite_sns_store_def sbind_eq_Inr smap_err_eq
        split: sum.splits simp del: sbind_slift)
  have arn: "arn = sns_arn (tr_region i) (tr_account_id i) (tr_name i)" using parse_sns_topic_arn_Some [OF i] by simp
  from run obtain t where t: "sqlite_get_topic arn db = Inr (Some t)"
    unfolding sqlite_set_topic_attributes_def arn [symmetric] by (auto split: sum.splits option.splits)
  have "sqlite_get_topic arn db' = Inr (Some (apply_topic_update (topic_update_of name v) t t))"
    using set_topic_found [of "tr_region i" "tr_account_id i" "tr_name i" db t "topic_update_of name v"] run t arn by simp
  from shown_topic_eq [OF this] shown_topic_eq [OF t] t topic_entries_update [of X name v t]
  show "\<exists>t. sqlite_get_topic arn db = Inr (Some t) \<and>
        shown_topic X UE request' arn db' =
          (if name \<in> set stored_topic_attributes
           then (shown_topic X UE request' arn db)(name \<mapsto> shown_topic_attribute X t name v)
           else shown_topic X UE request' arn db)" by simp
qed

theorem sns_attributes_roundtrip_witness:
  "shown_subscription demo_texts (demo_request ''sns'') (sub_subscription_arn demo_subscription)
     (snd (handle_set_subscription_attributes (sqlite_sns_store demo_texts) (demo_request ''sns'')
        (sub_subscription_arn demo_subscription) ''RawMessageDelivery'' ''false'' demo_sns_db)) ''RawMessageDelivery'' =
   Some ''false''"
proof -
  let ?arn = "sub_subscription_arn demo_subscription"
  have "validate_set_subscription_attributes demo_ext ?arn ''RawMessageDelivery'' ''false'' = Inr ()"
    by (simp add: validate_set_subscription_attributes_def validate_subscription_arn_def demo_subscription_def
        is_valid_subscription_attribute_def valid_subscription_attributes_def validate_json_attribute_def
        validate_raw_message_delivery_def)
  moreover have "handle_set_subscription_attributes (sqlite_sns_store demo_texts) (demo_request ''sns'')
        ?arn ''RawMessageDelivery'' ''false'' demo_sns_db =
      (Inr (sns_reply (demo_request ''sns'') ()), snd (handle_set_subscription_attributes (sqlite_sns_store demo_texts)
        (demo_request ''sns'') ?arn ''RawMessageDelivery'' ''false'' demo_sns_db))"
    by (simp add: handle_set_subscription_attributes_def sqlite_sns_store_def sbind_def smap_err_def
        sqlite_set_subscription_attributes_def find_subscription_def demo_sns_db_def)
  ultimately show ?thesis
    using sns_attributes_roundtrip [THEN conjunct1, THEN mp, OF conjI, of demo_ext ?arn "''RawMessageDelivery''" "''false''"
        demo_texts "demo_request ''sns''" demo_sns_db] by (simp only: fun_upd_same)
qed

section \<open>The life of a topic\<close>

lemma same_topic_entries: "same_topic t t' \<Longrightarrow> topic_attribute_entries X t = topic_attribute_entries X t'"
proof -
  assume "same_topic t t'"
  then have "topic_attribute_entries X (t\<lparr>tp_id := 0\<rparr>) = topic_attribute_entries X (t'\<lparr>tp_id := 0\<rparr>)"
    by (simp only: same_topic_def)
  moreover have "topic_attribute_entries X (x\<lparr>tp_id := 0\<rparr>) = topic_attribute_entries X x" for x
    by (simp add: topic_attribute_entries_def topic_arn_of_def)
  ultimately show ?thesis by simp
qed

lemma create_topic_again:
  assumes "sqlite_get_topic (sns_arn (rr_region request) (req_account request) (ct_name body)) db = Inr (Some t)"
    and "CHR '':'' \<notin> set (rr_region request @ req_account request @ ct_name body)"
  shows "handle_create_topic (sqlite_sns_store UE) now request body db = (Inl (SnsBadRequest (txt_unique UE)), db)"
proof -
  have "find_topic (ct_name body, rr_region request, req_account request) db = Some t"
    using assms by (simp add: sqlite_get_topic_def arn_topic_key_sns_arn)
  moreover have "topic_key (requested_topic request now body) = (ct_name body, rr_region request, req_account request)"
    by (simp add: topic_key_def requested_topic_def Let_def)
  ultimately have "list_ex (\<lambda>t. topic_key t = topic_key (requested_topic request now body)) (topics db)"
    by (simp add: list_ex_topic)
  then show ?thesis
    by (simp add: handle_create_topic_def sqlite_sns_store_def sqlite_create_topic_def sbind_def smap_err_def Let_def)
qed

text \<open>
  Creating a topic that does not exist always succeeds, answers with its ARN, and makes it
  readable under this ARN with exactly the attributes of the request; creating it again is refused as
  a conflict and changes nothing. (The region, account and name of a request have no colon; the
  validation of names and the credential scope see to it.)
\<close>

theorem created_topic_readable:
  assumes "sns_inv db" "CHR '':'' \<notin> set (rr_region request @ req_account request @ ct_name body)"
    and "arn = sns_arn (rr_region request) (req_account request) (ct_name body)"
    and "sqlite_get_topic arn db = Inr None"
  shows "\<exists>db'. handle_create_topic (sqlite_sns_store UE) now request body db = (Inr (sns_reply request arn), db') \<and>
    handle_get_topic_attributes X (sqlite_sns_store UE) request' arn db' =
      (Inr (sns_reply request' (topic_attribute_entries X (requested_topic request now body))), db') \<and>
    handle_create_topic (sqlite_sns_store UE) now' request body db' = (Inl (SnsBadRequest (txt_unique UE)), db')"
proof -
  have "ss_get_topic (sqlite_sns_store UE) arn db = Inr None" using assms(4) by (simp add: sqlite_sns_store_def)
  from sqlite_sns.create_topic_establishes [OF assms(1,2), of UE now, folded assms(3), OF this]
  obtain db' t where run: "handle_create_topic (sqlite_sns_store UE) now request body db = (Inr (sns_reply request arn), db')"
      "load_topic (sqlite_sns_store UE) arn db' = Inr t" "same_topic t (requested_topic request now body)"
    by blast
  then have "sqlite_get_topic arn db' = Inr (Some t)" by (auto simp: load_topic_def sqlite_sns_store_def)
  from create_topic_again [OF this [unfolded assms(3)] assms(2)] run same_topic_entries [OF run(3)]
  show ?thesis by (auto simp: handle_get_topic_attributes_def)
qed

definition demo_create_topic :: create_topic_request where
  "demo_create_topic = \<lparr>ct_name = ''alerts'', ct_attributes = [(''DisplayName'', ''Alerts'')], ct_tags = [(''env'', ''dev'')]\<rparr>"

theorem created_topic_readable_witness:
  "\<exists>db'. handle_create_topic (sqlite_sns_store demo_texts) 0 (demo_request ''sns'') demo_create_topic demo_sns_db =
     (Inr (sns_reply (demo_request ''sns'') ''arn:aws:sns:us-east-1:000000000000:alerts''), db')"
proof -
  let ?r = "demo_request ''sns''"
  have arn: "''arn:aws:sns:us-east-1:000000000000:alerts'' = sns_arn (rr_region ?r) (req_account ?r) (ct_name demo_create_topic)"
    by (simp add: sns_arn_def demo_request_def demo_create_topic_def)
  have "CHR '':'' \<notin> set (rr_region ?r @ req_account ?r @ ct_name demo_create_topic)"
    by (simp add: demo_request_def demo_create_topic_def)
  moreover have "sqlite_get_topic ''arn:aws:sns:us-east-1:000000000000:alerts'' demo_sns_db = Inr None"
    by (simp add: sqlite_get_topic_def arn_topic_key_def find_topic_def demo_sns_db_def demo_topic_def topic_key_def)
  ultimately show ?thesis
    using created_topic_readable [OF demo_sns_inv(1) _ arn, of demo_texts 0 demo_sns_ext ?r 0] by blast
qed

lemma delete_topic_rows:
  assumes "sns_inv db" "validate_topic_arn arn field = Inr ()" "sqlite_delete_topic arn db = (Inr (), db')"
  obtains t where "t \<in> set (topics db)" "topic_arn_of t = arn" "topics db' = filter (\<lambda>x. x \<noteq> t) (topics db)"
    "topic_tags db' = filter (\<lambda>(i, _). i \<noteq> tp_id t) (topic_tags db)"
    "subscriptions db' = filter (\<lambda>s. sub_topic_arn s \<noteq> arn) (subscriptions db)" "sqlite_get_topic arn db' = Inr None"
proof -
  obtain r where r: "parse_sns_topic_arn arn = Some r" using assms(2) by (auto simp: validate_topic_arn_Inr)
  then have key: "arn_topic_key arn = Some (tr_name r, tr_region r, tr_account_id r)"
    and arn: "arn = sns_arn (tr_region r) (tr_account_id r) (tr_name r)"
    using parse_sns_topic_arn_Some by blast+
  let ?k = "(tr_name r, tr_region r, tr_account_id r)"
  from assms(3) key obtain t where t: "t \<in> set (topics db)" "topic_key t = ?k"
    by (auto simp: sqlite_delete_topic_def Let_def list_ex_iff split: if_splits)
  have only: "topic_key x = ?k \<longleftrightarrow> x = t" if "x \<in> set (topics db)" for x
    using that t inv_topic_keys [OF assms(1)] by (metis distinct_map inj_onD)
  have "filter (\<lambda>x. topic_key x = ?k) (topics db) = filter (\<lambda>x. x = t) (topics db)"
    using only by (intro filter_cong) auto
  moreover have "filter (\<lambda>x. topic_key x \<noteq> ?k) (topics db) = filter (\<lambda>x. x \<noteq> t) (topics db)"
    using only by (intro filter_cong) auto
  moreover have "set (map tp_id (filter (\<lambda>x. x = t) (topics db))) = {tp_id t}" using t by auto
  ultimately have rows: "topics db' = filter (\<lambda>x. x \<noteq> t) (topics db)"
    "topic_tags db' = filter (\<lambda>(i, _). i \<noteq> tp_id t) (topic_tags db)"
    "subscriptions db' = filter (\<lambda>s. sub_topic_arn s \<noteq> arn) (subscriptions db)"
    using assms(3) key by (auto simp: sqlite_delete_topic_def Let_def split: if_splits)
  have "find_topic ?k db' = None" using only by (auto simp: find_topic_def find_None_iff rows)
  then have "sqlite_get_topic arn db' = Inr None" by (simp add: sqlite_get_topic_def key)
  moreover have "topic_arn_of t = arn" using t(2) by (simp add: topic_arn_of_def topic_key_def arn)
  ultimately show ?thesis using that t(1) rows by blast
qed

text \<open>
  Deleting a topic removes the topic, its tags and its subscriptions, and nothing else from any
  table; from then on it is not found, and a publication to it delivers nothing.
\<close>

theorem deleted_topic_is_gone:
  assumes "sns_inv db" "validate_topic_arn arn field = Inr ()"
    and "handle_delete_topic (sqlite_sns_store UE) request arn db = (Inr r, db')"
  shows "(\<exists>t. t \<in> set (topics db) \<and> topic_arn_of t = arn \<and> topics db' = filter (\<lambda>x. x \<noteq> t) (topics db) \<and>
            topic_tags db' = filter (\<lambda>(i, _). i \<noteq> tp_id t) (topic_tags db)) \<and>
         subscriptions db' = filter (\<lambda>s. sub_topic_arn s \<noteq> arn) (subscriptions db) \<and>
         handle_get_topic_attributes X (sqlite_sns_store UE) request' arn db' = (Inl TopicNotFound, db') \<and>
         handle_publish E X (sqlite_service_store UE mode) env request'
           \<lparr>pb_topic_arn = arn, pb_message = content, pb_subject = subj\<rparr> (db', qdb) = (Inl TopicNotFound, (db', qdb))"
proof -
  from assms(3) have "sqlite_delete_topic arn db = (Inr (), db')"
    by (auto simp: handle_delete_topic_def sqlite_sns_store_def sbind_eq_Inr smap_err_eq)
  from delete_topic_rows [OF assms(1,2) this] obtain t where t: "t \<in> set (topics db)" "topic_arn_of t = arn"
      "topics db' = filter (\<lambda>x. x \<noteq> t) (topics db)" "topic_tags db' = filter (\<lambda>(i, _). i \<noteq> tp_id t) (topic_tags db)"
      "subscriptions db' = filter (\<lambda>s. sub_topic_arn s \<noteq> arn) (subscriptions db)" "sqlite_get_topic arn db' = Inr None"
    by blast
  then have gone: "load_topic (sqlite_sns_store UE) arn db' = Inl TopicNotFound"
    "load_topic (service_sns_store (sqlite_service_store UE mode)) arn (db', qdb) = Inl TopicNotFound"
    by (simp_all add: load_topic_def sqlite_sns_store_def)
  then have "handle_get_topic_attributes X (sqlite_sns_store UE) request' arn db' = (Inl TopicNotFound, db')"
    by (simp add: handle_get_topic_attributes_def)
  moreover from gone have "handle_publish E X (sqlite_service_store UE mode) env request'
      \<lparr>pb_topic_arn = arn, pb_message = content, pb_subject = subj\<rparr> (db', qdb) = (Inl TopicNotFound, (db', qdb))"
    by (simp add: handle_publish_def)
  ultimately show ?thesis using t by blast
qed

theorem deleted_topic_is_gone_witness:
  "subscriptions (snd (handle_delete_topic (sqlite_sns_store demo_texts) (demo_request ''sns'') (topic_arn_of demo_topic)
     demo_sns_db)) = []"
proof -
  let ?arn = "topic_arn_of demo_topic"
  have arn: "?arn = ''arn:aws:sns:us-east-1:000000000000:news''"
    by (simp add: topic_arn_of_def sns_arn_def demo_topic_def)
  have "validate_topic_arn ?arn ''TopicArn'' = Inr ()"
    by (simp add: arn validate_topic_arn_def parse_sns_topic_arn_def)
  moreover have "handle_delete_topic (sqlite_sns_store demo_texts) (demo_request ''sns'') ?arn demo_sns_db =
      (Inr (sns_reply (demo_request ''sns'') ()), snd (handle_delete_topic (sqlite_sns_store demo_texts)
         (demo_request ''sns'') ?arn demo_sns_db))"
    unfolding arn by (simp add: handle_delete_topic_def sqlite_sns_store_def sbind_def smap_err_def sqlite_delete_topic_def
        arn_topic_key_def demo_sns_db_def demo_topic_def topic_key_def Let_def)
  ultimately have "subscriptions (snd (handle_delete_topic (sqlite_sns_store demo_texts) (demo_request ''sns'') ?arn demo_sns_db)) =
      filter (\<lambda>s. sub_topic_arn s \<noteq> ?arn) (subscriptions demo_sns_db)"
    using deleted_topic_is_gone [OF demo_sns_inv(1)] by blast
  then show ?thesis by (simp only: arn) (simp add: demo_sns_db_def demo_subscription_def)
qed

section \<open>Raw delivery\<close>

text \<open>
  \<^verbatim>\<open>RawMessageDelivery\<close> may be written with capitals when it is set, but only the lower-case text switches
  raw delivery on: a subscription that was accepted with \<^verbatim>\<open>True\<close> is sent notifications.
\<close>

lemma capital_true_is_not_raw:
  "check_subscription_attribute E (''RawMessageDelivery'', ''True'') = Inr () \<and>
   delivery_body X env i topic body (sub\<lparr>sub_raw_message_delivery := Some ''True''\<rparr>) =
     sx_notification X (pe_message_id env) (topic_arn_of topic) (coalesce (pb_subject body) []) (pb_message body)
       (sx_rfc3339 X (pe_timestamp env i))"
  by (simp add: check_subscription_attribute_def is_valid_subscription_attribute_def valid_subscription_attributes_def
      validate_json_attribute_def validate_raw_message_delivery_def delivery_body_def)

end
