(* ===== verification/Sns_Service.thy ===== *)
theory Sns_Service
  imports Sns_Actions_Laws
begin

text \<open>
  The SNS service as the router sees it: \<^verbatim>\<open>hiraeth_sns/src/lib.rs\<close>, \<^verbatim>\<open>auth.rs\<close> and the registry of
  \<^verbatim>\<open>actions/mod.rs\<close>. The decoders of the payloads and the XML encoders of the responses are derived by
  \<^verbatim>\<open>serde\<close>: a record of functions. A payload with flattened attributes or tags is decoded to its named
  fields and the remaining parameters, which \<open>sns_attributes\<close>, \<open>sns_tags\<close> and \<open>sns_tag_keys\<close> read.
\<close>

section \<open>Codecs and environment\<close>

type_synonym raw_params = "(string \<times> string) list"

record sns_codec =
  sd_create_topic :: "string \<Rightarrow> string + string \<times> raw_params"
  sd_topic_arn :: "string \<Rightarrow> string + string"
  sd_subscribe :: "string \<Rightarrow> string + (string \<times> string \<times> string) \<times> raw_params"
  sd_publish :: "string \<Rightarrow> string + publish_request"
  sd_subscription_arn :: "string \<Rightarrow> string + string"
  sd_next_token :: "string \<Rightarrow> string + string option"
  sd_topic_next_token :: "string \<Rightarrow> string + string \<times> string option"
  sd_set_subscription_attributes :: "string \<Rightarrow> string + string \<times> string \<times> string"
  sd_set_topic_attributes :: "string \<Rightarrow> string + string \<times> string \<times> string"
  sd_resource_arn :: "string \<Rightarrow> string + string"
  sd_resource_params :: "string \<Rightarrow> string + string \<times> raw_params"
  sn_text :: "string \<Rightarrow> string sns_response \<Rightarrow> string + string"
  sn_empty :: "string \<Rightarrow> unit sns_response \<Rightarrow> string + string"
  sn_attributes :: "string \<Rightarrow> (string \<times> string) list sns_response \<Rightarrow> string + string"
  sn_topics :: "(string list \<times> string option) sns_response \<Rightarrow> string + string"
  sn_subscriptions :: "string \<Rightarrow> (subscription_summary list \<times> string option) sns_response \<Rightarrow> string + string"

record sns_env =
  se_now :: time
  se_uuid :: string
  se_publish :: publish_env

definition map_payload :: "('a \<Rightarrow> 'b) \<Rightarrow> (string \<Rightarrow> string + 'a) \<Rightarrow> string \<Rightarrow> string + 'b" where
  "map_payload f dec encoded = ebind (dec encoded) (\<lambda>x. Inr (f x))"

section \<open>Authorization\<close>

definition sns_errors :: "sns_ext \<Rightarrow> sns_error query_errors" where
  "sns_errors X = \<lparr>qe_bad_request = SnsBadRequest, qe_internal = SnsInternalError, qe_response = sns_error_response X\<rparr>"

definition sns_operation_names :: "string list" where
  "sns_operation_names =
     [''CreateTopic'', ''DeleteTopic'', ''Subscribe'', ''Unsubscribe'', ''ListSubscriptions'',
      ''ListSubscriptionsByTopic'', ''ListTopics'', ''ListTagsForResource'', ''TagResource'', ''UntagResource'',
      ''GetSubscriptionAttributes'', ''SetSubscriptionAttributes'', ''SetTopicAttributes'', ''GetTopicAttributes'',
      ''Publish'']"

definition sns_action_name :: "form_parser \<Rightarrow> resolved_request \<Rightarrow> sns_error + string" where
  "sns_action_name fp request =
     ebind (map_err SnsBadRequest (get_query_request_action_name fp request)) (\<lambda>found.
     ebind (ok_or (SnsBadRequest ''Missing Action parameter'') found) (\<lambda>action_name.
     if action_name \<in> set sns_operation_names then Inr action_name else Inl (SnsUnsupportedOperation action_name)))"

definition extract_topic_arn_from_request :: "form_parser \<Rightarrow> resolved_request \<Rightarrow> sns_error + string option" where
  "extract_topic_arn_from_request fp request =
     ebind (map_err SnsBadRequest (parse_aws_query_params fp (rr_request request))) (\<lambda>params.
     Inr (or_else (query_get params ''TopicArn'')
           (or_else (query_get params ''ResourceArn'') (query_get params ''SubscriptionArn''))))"

definition account_resource :: "resolved_request \<Rightarrow> string" where
  "account_resource request = ''arn:aws:sns:'' @ rr_region request @ '':'' @ req_account request @ '':*''"

definition sns_resolve_authorization ::
    "ext \<Rightarrow> form_parser \<Rightarrow> 's sns_store \<Rightarrow> string \<Rightarrow> resolved_request \<Rightarrow> 's \<Rightarrow> sns_error + authorization_check" where
  "sns_resolve_authorization E fp store action request s =
     ebind (extract_topic_arn_from_request fp request) (\<lambda>topic_arn.
     ebind (case topic_arn of
              Some arn \<Rightarrow>
                ebind (map_err sns_of_store_error (ss_get_topic store arn s)) (\<lambda>topic.
                Inr (case topic of
                       None \<Rightarrow> None
                     | Some t \<Rightarrow> (case x_policy E (tp_policy t) of Inl _ \<Rightarrow> None | Inr p \<Rightarrow> Some p)))
            | None \<Rightarrow> Inr None) (\<lambda>pol.
     Inr \<lparr>chk_action = action, chk_resource = coalesce topic_arn (account_resource request),
          chk_resource_policy = pol\<rparr>))"

text \<open>The check of the actions that concern no topic yet.\<close>

definition account_check :: "string \<Rightarrow> resolved_request \<Rightarrow> 's \<Rightarrow> sns_error + authorization_check" where
  "account_check action request s =
     Inr \<lparr>chk_action = action, chk_resource = account_resource request, chk_resource_policy = None\<rparr>"

section \<open>The registry\<close>

definition create_topic_action ::
    "ext \<Rightarrow> sns_ext \<Rightarrow> sns_codec \<Rightarrow> ('n, 'q) sns_service_store \<Rightarrow> sns_env \<Rightarrow> ('n \<times> 'q) aws_action" where
  "create_topic_action E X C SV env =
     query_action (sns_errors X) ''CreateTopic''
       (map_payload (\<lambda>(name, raw). \<lparr>ct_name = name, ct_attributes = sns_attributes raw, ct_tags = sns_tags raw\<rparr>) (sd_create_topic C))
       (\<lambda>_ payload _. validate_create_topic E payload)
       (handle_create_topic (service_sns_store SV) (se_now env))
       (account_check ''sns:CreateTopic'') (sn_text C ''CreateTopicResponse'')"

definition delete_topic_action ::
    "ext \<Rightarrow> sns_ext \<Rightarrow> form_parser \<Rightarrow> sns_codec \<Rightarrow> ('n, 'q) sns_service_store \<Rightarrow> ('n \<times> 'q) aws_action" where
  "delete_topic_action E X fp C SV =
     query_action (sns_errors X) ''DeleteTopic'' (sd_topic_arn C)
       (\<lambda>_ topic_arn _. validate_topic_arn topic_arn ''TopicArn'')
       (handle_delete_topic (service_sns_store SV))
       (sns_resolve_authorization E fp (service_sns_store SV) ''sns:DeleteTopic'') (sn_empty C ''DeleteTopicResponse'')"

definition subscribe_action ::
    "ext \<Rightarrow> sns_ext \<Rightarrow> form_parser \<Rightarrow> sns_codec \<Rightarrow> ('n, 'q) sns_service_store \<Rightarrow> sns_env \<Rightarrow> ('n \<times> 'q) aws_action" where
  "subscribe_action E X fp C SV env =
     query_action (sns_errors X) ''Subscribe''
       (map_payload (\<lambda>((topic_arn, protocol, endpoint), raw).
          \<lparr>sc_topic_arn = topic_arn, sc_protocol = protocol, sc_endpoint = endpoint, sc_attributes = sns_attributes raw\<rparr>)
          (sd_subscribe C))
       (\<lambda>_ payload _. validate_subscribe E payload)
       (handle_subscribe (service_sns_store SV) (se_now env) (se_uuid env))
       (sns_resolve_authorization E fp (service_sns_store SV) ''sns:Subscribe'') (sn_text C ''SubscribeResponse'')"

definition publish_action ::
    "ext \<Rightarrow> sns_ext \<Rightarrow> form_parser \<Rightarrow> sns_codec \<Rightarrow> ('n, 'q) sns_service_store \<Rightarrow> sns_env \<Rightarrow> ('n \<times> 'q) aws_action" where
  "publish_action E X fp C SV env =
     query_action (sns_errors X) ''Publish'' (sd_publish C)
       (\<lambda>_ payload _. validate_publish payload)
       (handle_publish E X SV (se_publish env))
       (\<lambda>request s. sns_resolve_authorization E fp (sv_sns_store SV) ''sns:Publish'' request (fst s))
       (sn_text C ''PublishResponse'')"

definition get_topic_attributes_action ::
    "ext \<Rightarrow> sns_ext \<Rightarrow> form_parser \<Rightarrow> sns_codec \<Rightarrow> ('n, 'q) sns_service_store \<Rightarrow> ('n \<times> 'q) aws_action" where
  "get_topic_attributes_action E X fp C SV =
     query_action (sns_errors X) ''GetTopicAttributes'' (sd_topic_arn C)
       (\<lambda>_ topic_arn _. validate_topic_arn topic_arn ''TopicArn'')
       (handle_get_topic_attributes X (service_sns_store SV))
       (sns_resolve_authorization E fp (service_sns_store SV) ''sns:GetTopicAttributes'')
       (sn_attributes C ''GetTopicAttributesResponse'')"

definition get_subscription_attributes_action ::
    "ext \<Rightarrow> sns_ext \<Rightarrow> form_parser \<Rightarrow> sns_codec \<Rightarrow> ('n, 'q) sns_service_store \<Rightarrow> ('n \<times> 'q) aws_action" where
  "get_subscription_attributes_action E X fp C SV =
     query_action (sns_errors X) ''GetSubscriptionAttributes'' (sd_subscription_arn C)
       (\<lambda>_ arn _. validate_subscription_arn arn)
       (handle_get_subscription_attributes (service_sns_store SV))
       (sns_resolve_authorization E fp (service_sns_store SV) ''sns:GetSubscriptionAttributes'')
       (sn_attributes C ''GetSubscriptionAttributesResponse'')"

definition list_subscriptions_action ::
    "sns_ext \<Rightarrow> sns_codec \<Rightarrow> ('n, 'q) sns_service_store \<Rightarrow> ('n \<times> 'q) aws_action" where
  "list_subscriptions_action X C SV =
     query_action (sns_errors X) ''ListSubscriptions'' (sd_next_token C)
       (\<lambda>_ next_token _. validate_next_token next_token)
       (handle_list_subscriptions (service_sns_store SV))
       (account_check ''sns:ListSubscriptions'') (sn_subscriptions C ''ListSubscriptionsResponse'')"

definition list_subscriptions_by_topic_action ::
    "ext \<Rightarrow> sns_ext \<Rightarrow> form_parser \<Rightarrow> sns_codec \<Rightarrow> ('n, 'q) sns_service_store \<Rightarrow> ('n \<times> 'q) aws_action" where
  "list_subscriptions_by_topic_action E X fp C SV =
     query_action (sns_errors X) ''ListSubscriptionsByTopic'' (sd_topic_next_token C)
       (\<lambda>_ (topic_arn, next_token) _. validate_list_subscriptions_by_topic topic_arn next_token)
       (\<lambda>req (topic_arn, next_token). handle_list_subscriptions_by_topic (service_sns_store SV) req topic_arn next_token)
       (sns_resolve_authorization E fp (service_sns_store SV) ''sns:ListSubscriptionsByTopic'')
       (sn_subscriptions C ''ListSubscriptionsByTopicResponse'')"

definition list_topics_action ::
    "sns_ext \<Rightarrow> sns_codec \<Rightarrow> ('n, 'q) sns_service_store \<Rightarrow> ('n \<times> 'q) aws_action" where
  "list_topics_action X C SV =
     query_action (sns_errors X) ''ListTopics'' (sd_next_token C)
       (\<lambda>_ next_token _. validate_next_token next_token)
       (handle_list_topics (service_sns_store SV)) (account_check ''sns:ListTopics'') (sn_topics C)"

definition set_subscription_attributes_action ::
    "ext \<Rightarrow> sns_ext \<Rightarrow> form_parser \<Rightarrow> sns_codec \<Rightarrow> ('n, 'q) sns_service_store \<Rightarrow> ('n \<times> 'q) aws_action" where
  "set_subscription_attributes_action E X fp C SV =
     query_action (sns_errors X) ''SetSubscriptionAttributes'' (sd_set_subscription_attributes C)
       (\<lambda>_ (arn, name, v) _. validate_set_subscription_attributes E arn name v)
       (\<lambda>req (arn, name, v). handle_set_subscription_attributes (service_sns_store SV) req arn name v)
       (sns_resolve_authorization E fp (service_sns_store SV) ''sns:SetSubscriptionAttributes'')
       (sn_empty C ''SetSubscriptionAttributesResponse'')"

definition set_topic_attributes_action ::
    "ext \<Rightarrow> sns_ext \<Rightarrow> form_parser \<Rightarrow> sns_codec \<Rightarrow> ('n, 'q) sns_service_store \<Rightarrow> ('n \<times> 'q) aws_action" where
  "set_topic_attributes_action E X fp C SV =
     query_action (sns_errors X) ''SetTopicAttributes'' (sd_set_topic_attributes C)
       (\<lambda>_ (arn, name, v) _. validate_set_topic_attributes E arn name v)
       (\<lambda>req (arn, name, v). handle_set_topic_attributes (service_sns_store SV) req arn name v)
       (\<lambda>request s. sns_resolve_authorization E fp (sv_sns_store SV) ''sns:SetTopicAttributes'' request (fst s))
       (sn_empty C ''SetTopicAttributesResponse'')"

definition list_tags_for_resource_action ::
    "ext \<Rightarrow> sns_ext \<Rightarrow> form_parser \<Rightarrow> sns_codec \<Rightarrow> ('n, 'q) sns_service_store \<Rightarrow> ('n \<times> 'q) aws_action" where
  "list_tags_for_resource_action E X fp C SV =
     query_action (sns_errors X) ''ListTagsForResource'' (sd_resource_arn C)
       (\<lambda>_ arn _. validate_topic_arn arn ''ResourceArn'')
       (handle_list_tags_for_resource (service_sns_store SV))
       (sns_resolve_authorization E fp (service_sns_store SV) ''sns:ListTagsForResource'')
       (sn_attributes C ''ListTagsForResourceResponse'')"

definition tag_resource_action ::
    "ext \<Rightarrow> sns_ext \<Rightarrow> form_parser \<Rightarrow> sns_codec \<Rightarrow> ('n, 'q) sns_service_store \<Rightarrow> ('n \<times> 'q) aws_action" where
  "tag_resource_action E X fp C SV =
     query_action (sns_errors X) ''TagResource'' (map_payload (apsnd sns_tags) (sd_resource_params C))
       (\<lambda>_ (arn, tags) _. validate_tag_resource arn tags)
       (\<lambda>req (arn, tags). handle_tag_resource (service_sns_store SV) req arn tags)
       (sns_resolve_authorization E fp (service_sns_store SV) ''sns:TagResource'') (sn_empty C ''TagResourceResponse'')"

definition untag_resource_action ::
    "ext \<Rightarrow> sns_ext \<Rightarrow> form_parser \<Rightarrow> sns_codec \<Rightarrow> ('n, 'q) sns_service_store \<Rightarrow> ('n \<times> 'q) aws_action" where
  "untag_resource_action E X fp C SV =
     query_action (sns_errors X) ''UntagResource'' (map_payload (apsnd sns_tag_keys) (sd_resource_params C))
       (\<lambda>_ (arn, keys) _. validate_untag_resource arn keys)
       (\<lambda>req (arn, keys). handle_untag_resource (service_sns_store SV) req arn keys)
       (sns_resolve_authorization E fp (service_sns_store SV) ''sns:UntagResource'') (sn_empty C ''UntagResourceResponse'')"

definition unsubscribe_action ::
    "ext \<Rightarrow> sns_ext \<Rightarrow> form_parser \<Rightarrow> sns_codec \<Rightarrow> ('n, 'q) sns_service_store \<Rightarrow> ('n \<times> 'q) aws_action" where
  "unsubscribe_action E X fp C SV =
     query_action (sns_errors X) ''Unsubscribe'' (sd_subscription_arn C)
       (\<lambda>_ arn _. validate_subscription_arn arn)
       (handle_unsubscribe (service_sns_store SV))
       (sns_resolve_authorization E fp (service_sns_store SV) ''sns:Unsubscribe'') (sn_empty C ''UnsubscribeResponse'')"

definition sns_registry ::
    "ext \<Rightarrow> sns_ext \<Rightarrow> form_parser \<Rightarrow> sns_codec \<Rightarrow> ('n, 'q) sns_service_store \<Rightarrow> sns_env \<Rightarrow> ('n \<times> 'q) registry" where
  "sns_registry E X fp C SV env =
     [create_topic_action E X C SV env, delete_topic_action E X fp C SV, subscribe_action E X fp C SV env,
      publish_action E X fp C SV env, get_topic_attributes_action E X fp C SV,
      get_subscription_attributes_action E X fp C SV, list_subscriptions_action X C SV,
      list_subscriptions_by_topic_action E X fp C SV, list_topics_action X C SV,
      set_subscription_attributes_action E X fp C SV, set_topic_attributes_action E X fp C SV,
      list_tags_for_resource_action E X fp C SV, tag_resource_action E X fp C SV,
      untag_resource_action E X fp C SV, unsubscribe_action E X fp C SV]"

lemmas sns_actions_def =
  create_topic_action_def delete_topic_action_def subscribe_action_def publish_action_def
  get_topic_attributes_action_def get_subscription_attributes_action_def list_subscriptions_action_def
  list_subscriptions_by_topic_action_def list_topics_action_def set_subscription_attributes_action_def
  set_topic_attributes_action_def list_tags_for_resource_action_def tag_resource_action_def
  untag_resource_action_def unsubscribe_action_def

section \<open>The service\<close>

definition sns_can_handle :: "resolved_request \<Rightarrow> bool" where
  "sns_can_handle request \<longleftrightarrow> rr_service request = ''sns''"

definition sns_handle_request ::
    "sns_ext \<Rightarrow> form_parser \<Rightarrow> 's registry \<Rightarrow> resolved_request \<Rightarrow> 's \<Rightarrow> (api_error + service_response) \<times> 's" where
  "sns_handle_request X fp reg request s =
     (case sns_action_name fp request of
        Inl error \<Rightarrow> (Inr (sns_error_response X error), s)
      | Inr action_name \<Rightarrow>
          (case registry_handle reg action_name request s of
             Some (response, s') \<Rightarrow> (Inr response, s')
           | None \<Rightarrow> (Inr (sns_error_response X (SnsUnsupportedOperation action_name)), s)))"

definition sns_service_resolve_authorization ::
    "sns_ext \<Rightarrow> form_parser \<Rightarrow> 's registry \<Rightarrow> resolved_request \<Rightarrow> 's \<Rightarrow> service_response + authorization_check" where
  "sns_service_resolve_authorization X fp reg request s =
     ebind (map_err (sns_error_response X) (sns_action_name fp request)) (\<lambda>action_name.
     ebind (ok_or (sns_error_response X (SnsUnsupportedOperation action_name)) (registry_get reg action_name)) (\<lambda>action.
     act_resolve_authorization action request s))"

definition sns_validate_request ::
    "sns_ext \<Rightarrow> form_parser \<Rightarrow> 's registry \<Rightarrow> resolved_request \<Rightarrow> 's \<Rightarrow> service_response + unit" where
  "sns_validate_request X fp reg request s =
     ebind (map_err (sns_error_response X) (sns_action_name fp request)) (\<lambda>action_name.
     case registry_validate reg action_name request s of
       None \<Rightarrow> Inl (sns_error_response X (SnsUnsupportedOperation action_name))
     | Some r \<Rightarrow> r)"

definition sns_service ::
    "ext \<Rightarrow> sns_ext \<Rightarrow> form_parser \<Rightarrow> sns_codec \<Rightarrow> ('n, 'q) sns_service_store \<Rightarrow> sns_env \<Rightarrow> ('n \<times> 'q) service" where
  "sns_service E X fp C SV env =
     (let reg = sns_registry E X fp C SV env
      in \<lparr>svc_can_handle = sns_can_handle, svc_handle_request = sns_handle_request X fp reg,
          svc_resolve_authorization = sns_service_resolve_authorization X fp reg,
          svc_validate_request = sns_validate_request X fp reg\<rparr>)"

section \<open>Every request keeps the integrity of the tables\<close>

context sns_service_contract
begin

lemma registry_keeps_both:
  assumes "a \<in> set (sns_registry E X fp C SV env)" "both s"
  shows "both (snd (act_handle a req s))"
proof -
  note keep = joined.actions_keep keeps_publish
  have "\<forall>a\<in>set (sns_registry E X fp C SV env). both (snd (act_handle a req s))"
    unfolding sns_registry_def sns_actions_def
    by (simp only: list.set ball_simps ball_empty simp_thms, intro conjI; rule query_action_keeps)
      (simp_all add: keep assms(2) split: prod.split)
  with assms(1) show ?thesis by blast
qed

lemma sns_service_keeps:
  assumes "both s"
  shows "both (snd (sns_handle_request X fp (sns_registry E X fp C SV env) req s))"
  using registry_handle_keeps [where P = both and reg = "sns_registry E X fp C SV env" and req = req and s = s,
      OF registry_keeps_both [OF _ assms]] assms
  by (auto simp: sns_handle_request_def split: sum.split option.split)

end

text \<open>Codecs that decode every query as a request about the topic of the examples, or as nothing.\<close>

definition demo_sns_codec :: sns_codec where
  "demo_sns_codec = \<lparr>sd_create_topic = (\<lambda>_. Inl ''invalid''),
     sd_topic_arn = (\<lambda>_. Inr ''arn:aws:sns:us-east-1:000000000000:news''), sd_subscribe = (\<lambda>_. Inl ''invalid''),
     sd_publish = (\<lambda>_. Inr demo_publish),
     sd_subscription_arn = (\<lambda>_. Inr ''arn:aws:sns:us-east-1:000000000000:news:u1''), sd_next_token = (\<lambda>_. Inr None),
     sd_topic_next_token = (\<lambda>_. Inl ''invalid''), sd_set_subscription_attributes = (\<lambda>_. Inl ''invalid''),
     sd_set_topic_attributes = (\<lambda>_. Inl ''invalid''), sd_resource_arn = (\<lambda>_. Inl ''invalid''),
     sd_resource_params = (\<lambda>_. Inl ''invalid''), sn_text = (\<lambda>_ r. Inr (sr_result r)), sn_empty = (\<lambda>n _. Inr n),
     sn_attributes = (\<lambda>n _. Inr n), sn_topics = (\<lambda>_. Inr []), sn_subscriptions = (\<lambda>n _. Inr n)\<rparr>"

definition demo_sns_env :: sns_env where
  "demo_sns_env = \<lparr>se_now = 0, se_uuid = ''u2'', se_publish = demo_publish_env\<rparr>"

definition demo_form :: "string \<Rightarrow> string \<Rightarrow> form_parser" where
  "demo_form action arn = (\<lambda>_. [(''Action'', action), (''TopicArn'', arn)])"

lemma demo_sns_encoded: "encoded_aws_query_request (rr_request (demo_request ''sns'')) = Inr []"
  by (simp add: encoded_aws_query_request_def demo_request_def)

text \<open>
  Every request to the SNS service, valid or not, authorized or not, leaves the tables of SNS and
  of SQS with their integrity: unique topic and subscription keys, tags only of existing topics, and
  the messages that a publication adds with unique ids and in existing queues.
\<close>

theorem routed_sns_request_keeps_integrity:
  assumes "sns_inv ndb" "sqs_inv qdb"
  shows "\<exists>ndb' qdb'. snd (route_traced az [sns_service E X fp C (sqlite_service_store UE mode) env] req (ndb, qdb)) =
           (ndb', qdb') \<and> sns_inv ndb' \<and> sqs_inv qdb'"
proof -
  let ?s = "snd (route_traced az [sns_service E X fp C (sqlite_service_store UE mode) env] req (ndb, qdb))"
  have "sqlite_joined.both (ndb, qdb)" using assms by (simp add: sqlite_joined.both_def)
  moreover from this have "sqlite_joined.both (snd (sns_handle_request X fp
      (sns_registry E X fp C (sqlite_service_store UE mode) env) req (ndb, qdb)))"
    by (rule sqlite_joined.sns_service_keeps)
  ultimately have "sqlite_joined.both ?s"
    by (auto simp: route_traced_def sns_service_def Let_def split: sum.split authorization_result.split)
  then show ?thesis by (cases ?s) (auto simp: sqlite_joined.both_def)
qed

theorem routed_sns_request_keeps_integrity_witness:
  "\<exists>ndb' qdb'. snd (route_traced (iam_authorizer demo_open_ext Off allow_all_store)
      [sns_service demo_open_ext demo_sns_ext (demo_form ''Publish'' ''arn:aws:sns:us-east-1:000000000000:news'')
         demo_sns_codec (sqlite_service_store demo_texts Enforce) demo_sns_env] (demo_request ''sns'') (demo_sns_db, demo_open_db)) =
    (ndb', qdb') \<and> sns_inv ndb' \<and> sqs_inv qdb'"
  by (rule routed_sns_request_keeps_integrity [OF demo_sns_inv])

section \<open>Topic policies\<close>

lemma sns_registry_names: "map act_name (sns_registry E X fp C SV env) =
   [''CreateTopic'', ''DeleteTopic'', ''Subscribe'', ''Publish'', ''GetTopicAttributes'', ''GetSubscriptionAttributes'',
    ''ListSubscriptions'', ''ListSubscriptionsByTopic'', ''ListTopics'', ''SetSubscriptionAttributes'',
    ''SetTopicAttributes'', ''ListTagsForResource'', ''TagResource'', ''UntagResource'', ''Unsubscribe'']"
  by (simp add: sns_registry_def sns_actions_def)

text \<open>The actions whose request names its topic in \<^verbatim>\<open>TopicArn\<close>.\<close>

definition topic_actions :: "string list" where
  "topic_actions = [''DeleteTopic'', ''Subscribe'', ''Publish'', ''GetTopicAttributes'', ''ListSubscriptionsByTopic'',
     ''SetTopicAttributes'']"

lemma query_action_authorize_cases:
  assumes "a = query_action Q name dec validate handler authz enc"
  shows "(\<exists>e. act_resolve_authorization a req s = Inl (qe_response Q (qe_bad_request Q e))) \<or>
    act_resolve_authorization a req s = map_err (qe_response Q) (authz req s)"
proof (cases "parse_aws_query_request dec (rr_request req)")
  case (Inl e)
  then show ?thesis
    by (auto simp: assms query_action_def typed_action_adapter_def adapter_resolve_authorization_def query_payload_def)
qed (auto simp: assms query_action_authorize query_payload_def)

lemma service_store_authorization:
  "sns_resolve_authorization E fp (service_sns_store SV) action req s =
   sns_resolve_authorization E fp (sv_sns_store SV) action req (fst s)"
  by (simp add: sns_resolve_authorization_def cong: option.case_cong)

lemma topic_check:
  assumes "registry_get reg name = Some (query_action (sns_errors X) nm dec validate handler authz enc)"
    and "authz req s = sns_resolve_authorization E fp (sv_sns_store SV) (''sns:'' @ name) req (fst s)"
  shows "\<exists>a. registry_get reg name = Some a \<and>
    ((\<exists>e. act_resolve_authorization a req s = Inl (sns_error_response X (SnsBadRequest e))) \<or>
     act_resolve_authorization a req s =
       map_err (sns_error_response X) (sns_resolve_authorization E fp (sv_sns_store SV) (''sns:'' @ name) req (fst s)))"
  using assms query_action_authorize_cases [OF refl, of "sns_errors X" nm dec validate handler authz enc req s]
  by (simp add: sns_errors_def)

lemma topic_action_check:
  assumes "name \<in> set topic_actions"
  shows "\<exists>a. registry_get (sns_registry E X fp C SV env) name = Some a \<and>
    ((\<exists>e. act_resolve_authorization a req s = Inl (sns_error_response X (SnsBadRequest e))) \<or>
     act_resolve_authorization a req s =
       map_err (sns_error_response X) (sns_resolve_authorization E fp (sv_sns_store SV) (''sns:'' @ name) req (fst s)))"
proof -
  have found: "registry_get (sns_registry E X fp C SV env) ''DeleteTopic'' = Some (delete_topic_action E X fp C SV)"
    "registry_get (sns_registry E X fp C SV env) ''Subscribe'' = Some (subscribe_action E X fp C SV env)"
    "registry_get (sns_registry E X fp C SV env) ''Publish'' = Some (publish_action E X fp C SV env)"
    "registry_get (sns_registry E X fp C SV env) ''GetTopicAttributes'' = Some (get_topic_attributes_action E X fp C SV)"
    "registry_get (sns_registry E X fp C SV env) ''ListSubscriptionsByTopic'' = Some (list_subscriptions_by_topic_action E X fp C SV)"
    "registry_get (sns_registry E X fp C SV env) ''SetTopicAttributes'' = Some (set_topic_attributes_action E X fp C SV)"
    by (simp_all add: registry_get_def sns_registry_def sns_actions_def)
  note checks = found [unfolded sns_actions_def, THEN topic_check]
  from assms show ?thesis
    unfolding topic_actions_def list.set insert_iff empty_iff simp_thms
    by (elim disjE) (hypsubst, rule checks, simp add: service_store_authorization)+
qed

lemma topic_arn_authorization:
  assumes "encoded_aws_query_request (rr_request req) = Inr encoded" "map_of (fp encoded) ''TopicArn'' = Some arn"
    and "sqlite_get_topic arn ndb = Inr (Some t)" "x_policy E (tp_policy t) = Inr p"
  shows "sns_resolve_authorization E fp (sqlite_sns_store UE) action req ndb =
    Inr \<lparr>chk_action = action, chk_resource = arn, chk_resource_policy = Some p\<rparr>"
  using assms
  by (simp add: sns_resolve_authorization_def extract_topic_arn_from_request_def parse_aws_query_params_def
      query_get_from_encoded or_else_def sqlite_sns_store_def)

lemma sns_action_name_eq:
  assumes "encoded_aws_query_request (rr_request req) = Inr encoded" "map_of (fp encoded) ''Action'' = Some name"
    and "name \<in> set sns_operation_names"
  shows "sns_action_name fp req = Inr name"
  using assms
  by (simp add: sns_action_name_def get_query_request_action_name_def parse_aws_query_params_def query_get_from_encoded)

text \<open>
  A topic's policy protects it: when authorization is enforced and a statement of the policy of
  the topic a request names denies the action to the caller, the router answers 403 (or refuses the
  request as malformed) and changes neither the topics nor any queue, whatever other policies allow.
\<close>

theorem topic_policy_denial_protects:
  assumes "name \<in> set topic_actions" "rr_service req = ''sns''"
    and "encoded_aws_query_request (rr_request req) = Inr encoded"
    and "map_of (fp encoded) ''Action'' = Some name" "map_of (fp encoded) ''TopicArn'' = Some arn"
    and "sqlite_get_topic arn ndb = Inr (Some t)" "x_policy E (tp_policy t) = Inr p"
    and "policy_principal_from_request req = Some prin"
    and "has_matching ''Deny'' (resource_statement_matches (x_wildmatch E) prin arn (''sns:'' @ name)) p"
  shows "\<exists>resp. route_traced (iam_authorizer E Enforce st) [sns_service E X fp C (sqlite_service_store UE mode) env]
             req (ndb, qdb) = (Inr resp, (ndb, qdb)) \<and>
           (resp = unauthorized_response \<or> (\<exists>e. resp = sns_error_response X (SnsBadRequest e)))"
proof -
  let ?reg = "sns_registry E X fp C (sqlite_service_store UE mode) env"
  let ?check = "\<lparr>chk_action = ''sns:'' @ name, chk_resource = arn, chk_resource_policy = Some p\<rparr>"
  have "resource_decision E req ?check = Denied"
    using assms(8,9) by (simp add: resource_decision_def evaluate_resource_policy_def evaluate_matching_statements_eq)
  then have deny: "authorize E Enforce st req ?check (ndb, qdb) = Deny" by (rule resource_denial_denies)
  have "name \<in> set sns_operation_names" using assms(1) by (auto simp: topic_actions_def sns_operation_names_def)
  then have name: "sns_action_name fp req = Inr name" using assms(3,4) by (intro sns_action_name_eq)
  have auth: "sns_resolve_authorization E fp (sqlite_sns_store UE) (''sns:'' @ name) req ndb = Inr ?check"
    using assms(3,5-7) by (intro topic_arn_authorization)
  obtain a where a: "registry_get ?reg name = Some a"
    "(\<exists>e. act_resolve_authorization a req (ndb, qdb) = Inl (sns_error_response X (SnsBadRequest e))) \<or>
     act_resolve_authorization a req (ndb, qdb) = Inr ?check"
    using topic_action_check [OF assms(1), of E X fp C "sqlite_service_store UE mode" env req "(ndb, qdb)"] auth by auto
  then show ?thesis
    using name deny assms(2)
    by (auto simp: route_traced_def sns_service_def sns_can_handle_def iam_authorizer_def Let_def
        sns_service_resolve_authorization_def)
qed

definition locked_topic_ext :: ext where
  "locked_topic_ext = demo_ext\<lparr>x_policy := (\<lambda>_. Inr \<lparr>pol_version = ''2012-10-17'', pol_statement =
     [\<lparr>ps_effect = ''Deny'', ps_action = [''*''], ps_resource = [''*''], ps_principal = [Any]\<rparr>]\<rparr>)\<rparr>"

theorem topic_policy_denial_protects_witness:
  "\<exists>resp. route_traced (iam_authorizer locked_topic_ext Enforce allow_all_store)
      [sns_service locked_topic_ext demo_sns_ext (demo_form ''DeleteTopic'' ''arn:aws:sns:us-east-1:000000000000:news'')
         demo_sns_codec (sqlite_service_store demo_texts Enforce) demo_sns_env] (demo_request ''sns'') (demo_sns_db, demo_open_db) =
    (Inr resp, (demo_sns_db, demo_open_db)) \<and>
    (resp = unauthorized_response \<or> (\<exists>e. resp = sns_error_response demo_sns_ext (SnsBadRequest e)))"
proof (rule topic_policy_denial_protects [OF _ _ demo_sns_encoded])
  show "''DeleteTopic'' \<in> set topic_actions" by (simp add: topic_actions_def)
  show "rr_service (demo_request ''sns'') = ''sns''" by (simp add: demo_request_def)
  show "map_of (demo_form ''DeleteTopic'' ''arn:aws:sns:us-east-1:000000000000:news'' []) ''Action'' = Some ''DeleteTopic''"
    "map_of (demo_form ''DeleteTopic'' ''arn:aws:sns:us-east-1:000000000000:news'' []) ''TopicArn'' =
       Some ''arn:aws:sns:us-east-1:000000000000:news''" by (simp_all add: demo_form_def)
  show "sqlite_get_topic ''arn:aws:sns:us-east-1:000000000000:news'' demo_sns_db = Inr (Some demo_topic)"
    using demo_topic_found by (simp add: demo_publish_def)
  show "x_policy locked_topic_ext (tp_policy demo_topic) = Inr \<lparr>pol_version = ''2012-10-17'', pol_statement =
     [\<lparr>ps_effect = ''Deny'', ps_action = [''*''], ps_resource = [''*''], ps_principal = [Any]\<rparr>]\<rparr>"
    by (simp add: locked_topic_ext_def)
  show "policy_principal_from_request (demo_request ''sns'') = Some (User ''000000000000'' ''test'')"
    by (simp add: policy_principal_from_request_def demo_request_def)
  show "has_matching ''Deny'' (resource_statement_matches (x_wildmatch locked_topic_ext) (User ''000000000000'' ''test'')
      ''arn:aws:sns:us-east-1:000000000000:news'' (''sns:'' @ ''DeleteTopic''))
      \<lparr>pol_version = ''2012-10-17'', pol_statement =
        [\<lparr>ps_effect = ''Deny'', ps_action = [''*''], ps_resource = [''*''], ps_principal = [Any]\<rparr>]\<rparr>"
    by (simp add: has_matching_def locked_topic_ext_def resource_statement_matches_def wildcard_match_def demo_ext_def)
qed

text \<open>
  The check of an action that works on a subscription or on a tagged resource looks at \<^verbatim>\<open>TopicArn\<close> first,
  a parameter these actions do not have. A caller who adds it chooses the resource that is checked,
  while the action works on the one its own parameter names: here a subscription is removed although
  only the rights on some other topic were looked at.
\<close>

lemma extra_topic_arn_diverts_check:
  assumes "encoded_aws_query_request (rr_request req) = Inr encoded" "map_of (fp encoded) ''TopicArn'' = Some other"
    and "sqlite_get_topic other ndb = Inr (Some t)" "x_policy E (tp_policy t) = Inr p"
    and "sd_subscription_arn C encoded = Inr arn" "find_subscription arn ndb = Some sub"
  shows "act_resolve_authorization (unsubscribe_action E X fp C (sqlite_service_store UE mode)) req (ndb, qdb) =
           Inr \<lparr>chk_action = ''sns:Unsubscribe'', chk_resource = other, chk_resource_policy = Some p\<rparr> \<and>
         subscriptions (fst (snd (act_handle (unsubscribe_action E X fp C (sqlite_service_store UE mode)) req (ndb, qdb)))) =
           filter (\<lambda>s. sub_subscription_arn s \<noteq> arn) (subscriptions ndb)"
proof
  have payload: "query_payload (sns_errors X) (sd_subscription_arn C) req = Inr arn"
    using assms(1,5) by (simp add: query_payload_def parse_aws_query_request_def)
  have "sns_resolve_authorization E fp (sqlite_sns_store UE) ''sns:Unsubscribe'' req ndb =
      Inr \<lparr>chk_action = ''sns:Unsubscribe'', chk_resource = other, chk_resource_policy = Some p\<rparr>"
    using assms(1-4) by (intro topic_arn_authorization)
  then show "act_resolve_authorization (unsubscribe_action E X fp C (sqlite_service_store UE mode)) req (ndb, qdb) =
      Inr \<lparr>chk_action = ''sns:Unsubscribe'', chk_resource = other, chk_resource_policy = Some p\<rparr>"
    by (simp add: unsubscribe_action_def query_action_authorize [OF payload] service_store_authorization)
  have "list_ex (\<lambda>s. sub_subscription_arn s = arn) (subscriptions ndb)"
    using assms(6) by (simp add: list_ex_subscription)
  then have run: "handle_unsubscribe (service_sns_store (sqlite_service_store UE mode)) req arn (ndb, qdb) =
      (Inr (sns_reply req ()), (ndb\<lparr>subscriptions := filter (\<lambda>s. sub_subscription_arn s \<noteq> arn) (subscriptions ndb)\<rparr>, qdb))"
    using assms(6)
    by (simp add: handle_unsubscribe_def load_subscription_def service_sns_store_def sqlite_sns_store_def Let_def
        sqlite_get_subscription_def sqlite_delete_subscription_def sbind_def smap_err_def)
  show "subscriptions (fst (snd (act_handle (unsubscribe_action E X fp C (sqlite_service_store UE mode)) req (ndb, qdb)))) =
      filter (\<lambda>s. sub_subscription_arn s \<noteq> arn) (subscriptions ndb)"
    by (simp add: unsubscribe_action_def query_action_def typed_action_adapter_def adapter_handle_def payload run
        split: sum.split)
qed

end
