(* ===== verification/Iam_Store.thy ===== *)
theory Iam_Store
  imports Core Sqs_Store
begin

text \<open>
  The rows and the four store traits of IAM (\<^verbatim>\<open>hiraeth_store/src/iam\<close>), here one record, and their
  SQLite implementation (\<^verbatim>\<open>hiraeth_store_sqlx/src/iam\<close>) over the tables of principals, access keys,
  inline policies, managed policies and attachments. Rows are numbered by \<^verbatim>\<open>INTEGER PRIMARY KEY\<close>
  without \<^verbatim>\<open>AUTOINCREMENT\<close>: one more than the largest number in use, so numbers are reused. The
  numbers of access keys and attachments are read by no statement and are left out.
\<close>

section \<open>Rows\<close>

record access_key =
  ak_key_id :: string
  ak_principal_id :: int
  ak_secret_key :: string
  ak_created_at :: time

record new_principal =
  np_account_id :: string
  np_kind :: string
  np_name :: string
  np_path :: string
  np_user_id :: string

record principal_inline_policy =
  pip_id :: int
  pip_principal_id :: int
  pip_policy_name :: string
  pip_policy_document :: string
  pip_created_at :: time
  pip_updated_at :: time

record managed_policy =
  mpo_id :: int
  mpo_policy_id :: string
  mpo_account_id :: string
  mpo_policy_name :: string
  mpo_policy_path :: "string option"
  mpo_policy_document :: string
  mpo_created_at :: time
  mpo_updated_at :: time

record new_managed_policy =
  nmp_policy_id :: string
  nmp_account_id :: string
  nmp_policy_name :: string
  nmp_policy_path :: "string option"
  nmp_policy_document :: string

type_synonym principal_key = "string \<times> string \<times> string"

definition principal_key :: "principal_row \<Rightarrow> principal_key" where
  "principal_key p = (p_account_id p, p_kind p, p_name p)"

definition inline_policy_key :: "principal_inline_policy \<Rightarrow> int \<times> string" where
  "inline_policy_key p = (pip_principal_id p, pip_policy_name p)"

definition managed_policy_key :: "managed_policy \<Rightarrow> string \<times> string \<times> string option" where
  "managed_policy_key p = (mpo_account_id p, mpo_policy_name p, mpo_policy_path p)"

section \<open>The store interface\<close>

text \<open>\<^verbatim>\<open>IamStore\<close> is the sum of four traits: access keys, principals, inline and managed policies.\<close>

record 's iam_store =
  im_get_secret_key :: "string \<Rightarrow> 's \<Rightarrow> store_error + access_key option"
  im_list_access_keys_for_principal :: "int \<Rightarrow> 's \<Rightarrow> store_error + access_key list"
  im_insert_secret_key :: "string \<Rightarrow> string \<Rightarrow> int \<Rightarrow> ('s, store_error, access_key) store_op"
  im_delete_access_key_for_principal :: "int \<Rightarrow> string \<Rightarrow> ('s, store_error, unit) store_op"
  im_get_principal :: "int \<Rightarrow> 's \<Rightarrow> store_error + principal_row option"
  im_get_principal_by_identity :: "string \<Rightarrow> string \<Rightarrow> string \<Rightarrow> 's \<Rightarrow> store_error + principal_row option"
  im_list_principals :: "'s \<Rightarrow> store_error + principal_row list"
  im_create_principal :: "new_principal \<Rightarrow> ('s, store_error, principal_row) store_op"
  im_delete_principal :: "int \<Rightarrow> ('s, store_error, unit) store_op"
  im_delete_user :: "string \<Rightarrow> string \<Rightarrow> ('s, store_error, unit) store_op"
  im_get_inline_policies_for_principal :: "int \<Rightarrow> 's \<Rightarrow> store_error + principal_inline_policy list"
  im_put_inline_policy :: "int \<Rightarrow> string \<Rightarrow> string \<Rightarrow> ('s, store_error, principal_inline_policy) store_op"
  im_delete_inline_policy :: "int \<Rightarrow> string \<Rightarrow> ('s, store_error, unit) store_op"
  im_get_principal_policy :: "int \<Rightarrow> string \<Rightarrow> 's \<Rightarrow> store_error + principal_inline_policy option"
  im_insert_managed_policy :: "new_managed_policy \<Rightarrow> ('s, store_error, managed_policy) store_op"
  im_get_managed_policy :: "string \<Rightarrow> string \<Rightarrow> string \<Rightarrow> 's \<Rightarrow> store_error + managed_policy option"
  im_list_managed_policies :: "'s \<Rightarrow> store_error + managed_policy list"
  im_update_managed_policy_document :: "int \<Rightarrow> string \<Rightarrow> ('s, store_error, managed_policy) store_op"
  im_attach_policy_to_principal :: "int \<Rightarrow> int \<Rightarrow> ('s, store_error, unit) store_op"
  im_detach_policy_from_principal :: "int \<Rightarrow> int \<Rightarrow> ('s, store_error, unit) store_op"
  im_delete_managed_policy :: "string \<Rightarrow> string \<Rightarrow> string \<Rightarrow> ('s, store_error, unit) store_op"
  im_get_managed_policies_attached_to_principal :: "int \<Rightarrow> 's \<Rightarrow> store_error + managed_policy list"

section \<open>The SQLite tables\<close>

text \<open>An attachment is the pair of the columns \<^verbatim>\<open>policy_id\<close> and \<^verbatim>\<open>user_id\<close>.\<close>

record iam_db =
  principals :: "principal_row list"
  access_keys :: "access_key list"
  inline_policies :: "principal_inline_policy list"
  managed_policies :: "managed_policy list"
  attachments :: "(int \<times> int) list"

text \<open>
  The database after the migrations: the user \<^verbatim>\<open>test\<close> with its access key and the policy of an
  account administrator. The id \<open>uid\<close> of the user is random.
\<close>

definition json_text :: "string \<Rightarrow> string" where
  "json_text s = [CHR 0x22] @ s @ [CHR 0x22]"

definition admin_policy_document :: string where
  "admin_policy_document =
     ''{'' @ json_text ''Version'' @ '':'' @ json_text ''2012-10-17'' @ '','' @ json_text ''Statement'' @ '':[{'' @
     json_text ''Effect'' @ '':'' @ json_text ''Allow'' @ '','' @ json_text ''Action'' @ '':'' @ json_text ''*'' @ '','' @
     json_text ''Resource'' @ '':'' @ json_text ''arn:aws:*:*:000000000000:*'' @ ''}]}''"

definition migrated_iam_db :: "string \<Rightarrow> time \<Rightarrow> iam_db" where
  "migrated_iam_db uid now =
     \<lparr>principals = [\<lparr>p_id = 1, p_account_id = ''000000000000'', p_kind = ''user'', p_name = ''test'', p_path = ''/'',
        p_user_id = uid, p_created_at = current_timestamp now\<rparr>],
      access_keys = [\<lparr>ak_key_id = ''test'', ak_principal_id = 1, ak_secret_key = ''test'',
        ak_created_at = current_timestamp now\<rparr>],
      inline_policies = [\<lparr>pip_id = 1, pip_principal_id = 1, pip_policy_name = ''default-account-admin'',
        pip_policy_document = admin_policy_document, pip_created_at = current_timestamp now,
        pip_updated_at = current_timestamp now\<rparr>],
      managed_policies = [], attachments = []\<rparr>"

definition principal_exists :: "iam_db \<Rightarrow> int \<Rightarrow> bool" where
  "principal_exists db pid \<longleftrightarrow> list_ex (\<lambda>p. p_id p = pid) (principals db)"

definition managed_policy_exists :: "iam_db \<Rightarrow> int \<Rightarrow> bool" where
  "managed_policy_exists db i \<longleftrightarrow> list_ex (\<lambda>p. mpo_id p = i) (managed_policies db)"

subsection \<open>Access keys\<close>

definition sqlite_get_secret_key :: "string \<Rightarrow> iam_db \<Rightarrow> store_error + access_key option" where
  "sqlite_get_secret_key key db = Inr (find (\<lambda>k. ak_key_id k = key) (access_keys db))"

definition sqlite_list_access_keys_for_principal :: "int \<Rightarrow> iam_db \<Rightarrow> store_error + access_key list" where
  "sqlite_list_access_keys_for_principal pid db =
     Inr (sort_key (\<lambda>k. (- ak_created_at k, ak_key_id k)) (filter (\<lambda>k. ak_principal_id k = pid) (access_keys db)))"

definition sqlite_insert_secret_key ::
    "sqlite_texts \<Rightarrow> time \<Rightarrow> string \<Rightarrow> string \<Rightarrow> int \<Rightarrow> (iam_db, store_error, access_key) store_op" where
  "sqlite_insert_secret_key UE now key secret pid db =
     (let row = \<lparr>ak_key_id = key, ak_principal_id = pid, ak_secret_key = secret, ak_created_at = current_timestamp now\<rparr>
      in if list_ex (\<lambda>k. ak_key_id k = key) (access_keys db)
         then (Inl (map_sqlx_error (UniqueViolation (txt_unique UE))), db)
         else if \<not> principal_exists db pid
         then (Inl (map_sqlx_error (OtherSqlxError (txt_foreign_key UE))), db)
         else (Inr row, db\<lparr>access_keys := access_keys db @ [row]\<rparr>))"

definition sqlite_delete_access_key_for_principal :: "int \<Rightarrow> string \<Rightarrow> (iam_db, store_error, unit) store_op" where
  "sqlite_delete_access_key_for_principal pid key db =
     (if list_ex (\<lambda>k. ak_principal_id k = pid \<and> ak_key_id k = key) (access_keys db)
      then (Inr (), db\<lparr>access_keys := filter (\<lambda>k. \<not> (ak_principal_id k = pid \<and> ak_key_id k = key)) (access_keys db)\<rparr>)
      else (Inl (StoreNotFound (''Access key '' @ key @ '' not found for principal '' @ show_int pid)), db))"

subsection \<open>Principals\<close>

definition sqlite_get_principal :: "int \<Rightarrow> iam_db \<Rightarrow> store_error + principal_row option" where
  "sqlite_get_principal pid db = Inr (find (\<lambda>p. p_id p = pid) (principals db))"

definition sqlite_get_principal_by_identity ::
    "string \<Rightarrow> string \<Rightarrow> string \<Rightarrow> iam_db \<Rightarrow> store_error + principal_row option" where
  "sqlite_get_principal_by_identity account kind name db =
     Inr (find (\<lambda>p. p_account_id p = account \<and> p_kind p = kind \<and> p_name p = name) (principals db))"

definition sqlite_list_principals :: "iam_db \<Rightarrow> store_error + principal_row list" where
  "sqlite_list_principals db = Inr (sort_key principal_key (principals db))"

definition sqlite_create_principal ::
    "sqlite_texts \<Rightarrow> time \<Rightarrow> new_principal \<Rightarrow> (iam_db, store_error, principal_row) store_op" where
  "sqlite_create_principal UE now np db =
     (let row = \<lparr>p_id = next_rowid (map p_id (principals db)), p_account_id = np_account_id np, p_kind = np_kind np,
            p_name = np_name np, p_path = np_path np, p_user_id = np_user_id np, p_created_at = current_timestamp now\<rparr>
      in if list_ex (\<lambda>p. principal_key p = principal_key row \<or> p_user_id p = p_user_id row) (principals db)
         then (Inl (map_sqlx_error (UniqueViolation (txt_unique UE))), db)
         else (Inr row, db\<lparr>principals := principals db @ [row]\<rparr>))"

text \<open>Deleting principals, with \<^verbatim>\<open>ON DELETE CASCADE\<close> in the three tables that refer to them.\<close>

definition delete_principals :: "(principal_row \<Rightarrow> bool) \<Rightarrow> iam_db \<Rightarrow> iam_db" where
  "delete_principals sel db =
     (let ids = map p_id (filter sel (principals db))
      in db\<lparr>principals := filter (\<lambda>p. \<not> sel p) (principals db),
            access_keys := filter (\<lambda>k. ak_principal_id k \<notin> set ids) (access_keys db),
            inline_policies := filter (\<lambda>p. pip_principal_id p \<notin> set ids) (inline_policies db),
            attachments := filter (\<lambda>(_, user). user \<notin> set ids) (attachments db)\<rparr>)"

definition sqlite_delete_principal :: "int \<Rightarrow> (iam_db, store_error, unit) store_op" where
  "sqlite_delete_principal pid db =
     (if principal_exists db pid then (Inr (), delete_principals (\<lambda>p. p_id p = pid) db)
      else (Inl (StoreNotFound (''Principal '' @ show_int pid @ '' not found'')), db))"

definition sqlite_delete_user :: "string \<Rightarrow> string \<Rightarrow> (iam_db, store_error, unit) store_op" where
  "sqlite_delete_user account name db =
     (let sel = (\<lambda>p. p_kind p = ''user'' \<and> p_account_id p = account \<and> p_name p = name)
      in if list_ex sel (principals db) then (Inr (), delete_principals sel db)
         else (Inl (StoreNotFound (''User with account_id '' @ account @ '' and name '' @ name @ '' not found'')), db))"

subsection \<open>Inline policies\<close>

definition sqlite_get_inline_policies_for_principal ::
    "int \<Rightarrow> iam_db \<Rightarrow> store_error + principal_inline_policy list" where
  "sqlite_get_inline_policies_for_principal pid db =
     Inr (filter (\<lambda>p. pip_principal_id p = pid) (inline_policies db))"

text \<open>
  \<^verbatim>\<open>ON CONFLICT(principal_id, policy_name) DO UPDATE\<close>. All errors of this table are storage failures.
\<close>

definition sqlite_put_inline_policy ::
    "sqlite_texts \<Rightarrow> time \<Rightarrow> int \<Rightarrow> string \<Rightarrow> string \<Rightarrow> (iam_db, store_error, principal_inline_policy) store_op" where
  "sqlite_put_inline_policy UE now pid name document db =
     (let t = current_timestamp now
      in case find (\<lambda>p. inline_policy_key p = (pid, name)) (inline_policies db) of
           Some old \<Rightarrow>
             let row = old\<lparr>pip_policy_document := document, pip_updated_at := t\<rparr>
             in (Inr row, db\<lparr>inline_policies :=
                   map (\<lambda>p. if inline_policy_key p = (pid, name) then row else p) (inline_policies db)\<rparr>)
         | None \<Rightarrow>
             if \<not> principal_exists db pid then (Inl (StorageFailure (txt_foreign_key UE)), db)
             else let row = \<lparr>pip_id = next_rowid (map pip_id (inline_policies db)), pip_principal_id = pid,
                        pip_policy_name = name, pip_policy_document = document, pip_created_at = t, pip_updated_at = t\<rparr>
                  in (Inr row, db\<lparr>inline_policies := inline_policies db @ [row]\<rparr>))"

definition sqlite_delete_inline_policy :: "int \<Rightarrow> string \<Rightarrow> (iam_db, store_error, unit) store_op" where
  "sqlite_delete_inline_policy pid name db =
     (if list_ex (\<lambda>p. inline_policy_key p = (pid, name)) (inline_policies db)
      then (Inr (), db\<lparr>inline_policies := filter (\<lambda>p. inline_policy_key p \<noteq> (pid, name)) (inline_policies db)\<rparr>)
      else (Inl (StoreNotFound (''Inline policy '' @ name @ '' not found for principal '' @ show_int pid)), db))"

definition sqlite_get_principal_policy ::
    "int \<Rightarrow> string \<Rightarrow> iam_db \<Rightarrow> store_error + principal_inline_policy option" where
  "sqlite_get_principal_policy pid name db =
     Inr (find (\<lambda>p. inline_policy_key p = (pid, name)) (inline_policies db))"

subsection \<open>Managed policies\<close>

text \<open>The column of the path is \<^verbatim>\<open>NOT NULL\<close>, and the statement writes the path it is given.\<close>

definition sqlite_insert_managed_policy ::
    "sqlite_texts \<Rightarrow> time \<Rightarrow> new_managed_policy \<Rightarrow> (iam_db, store_error, managed_policy) store_op" where
  "sqlite_insert_managed_policy UE now np db =
     (let row = \<lparr>mpo_id = next_rowid (map mpo_id (managed_policies db)), mpo_policy_id = nmp_policy_id np,
            mpo_account_id = nmp_account_id np, mpo_policy_name = nmp_policy_name np,
            mpo_policy_path = nmp_policy_path np, mpo_policy_document = nmp_policy_document np,
            mpo_created_at = current_timestamp now, mpo_updated_at = current_timestamp now\<rparr>
      in if nmp_policy_path np = None then (Inl (map_sqlx_error (OtherSqlxError (txt_not_null UE))), db)
         else if list_ex (\<lambda>p. managed_policy_key p = managed_policy_key row \<or> mpo_policy_id p = mpo_policy_id row)
                (managed_policies db)
         then (Inl (map_sqlx_error (UniqueViolation (txt_unique UE))), db)
         else (Inr row, db\<lparr>managed_policies := managed_policies db @ [row]\<rparr>))"

definition sqlite_get_managed_policy ::
    "string \<Rightarrow> string \<Rightarrow> string \<Rightarrow> iam_db \<Rightarrow> store_error + managed_policy option" where
  "sqlite_get_managed_policy account name path db =
     Inr (find (\<lambda>p. managed_policy_key p = (account, name, Some path)) (managed_policies db))"

definition sqlite_list_managed_policies :: "iam_db \<Rightarrow> store_error + managed_policy list" where
  "sqlite_list_managed_policies db =
     Inr (sort_key (\<lambda>p. (mpo_account_id p, coalesce (mpo_policy_path p) [], mpo_policy_name p)) (managed_policies db))"

definition sqlite_update_managed_policy_document ::
    "time \<Rightarrow> int \<Rightarrow> string \<Rightarrow> (iam_db, store_error, managed_policy) store_op" where
  "sqlite_update_managed_policy_document now i document db =
     (let upd = (\<lambda>p. p\<lparr>mpo_policy_document := document, mpo_updated_at := current_timestamp now\<rparr>)
      in case find (\<lambda>p. mpo_id p = i) (managed_policies db) of
           None \<Rightarrow> (Inl (StoreNotFound (''Managed policy not found: '' @ show_int i)), db)
         | Some old \<Rightarrow> (Inr (upd old),
             db\<lparr>managed_policies := map (\<lambda>p. if mpo_id p = i then upd p else p) (managed_policies db)\<rparr>))"

definition sqlite_attach_policy_to_principal ::
    "sqlite_texts \<Rightarrow> int \<Rightarrow> int \<Rightarrow> (iam_db, store_error, unit) store_op" where
  "sqlite_attach_policy_to_principal UE policy user db =
     (if (policy, user) \<in> set (attachments db)
      then (Inl (map_sqlx_error (UniqueViolation (txt_unique UE))), db)
      else if \<not> (principal_exists db user \<and> managed_policy_exists db policy)
      then (Inl (map_sqlx_error (OtherSqlxError (txt_foreign_key UE))), db)
      else (Inr (), db\<lparr>attachments := attachments db @ [(policy, user)]\<rparr>))"

definition sqlite_detach_policy_from_principal :: "int \<Rightarrow> int \<Rightarrow> (iam_db, store_error, unit) store_op" where
  "sqlite_detach_policy_from_principal policy user db =
     (if (policy, user) \<in> set (attachments db)
      then (Inr (), db\<lparr>attachments := filter (\<lambda>a. a \<noteq> (policy, user)) (attachments db)\<rparr>)
      else (Inl (StoreNotFound (''No attachment found for policy_id '' @ show_int policy @
              '' and principal_id '' @ show_int user)), db))"

definition sqlite_delete_managed_policy ::
    "string \<Rightarrow> string \<Rightarrow> string \<Rightarrow> (iam_db, store_error, unit) store_op" where
  "sqlite_delete_managed_policy account name path db =
     (let sel = (\<lambda>p. managed_policy_key p = (account, name, Some path));
          ids = map mpo_id (filter sel (managed_policies db))
      in if list_ex sel (managed_policies db)
         then (Inr (), db\<lparr>managed_policies := filter (\<lambda>p. \<not> sel p) (managed_policies db),
                 attachments := filter (\<lambda>(policy, _). policy \<notin> set ids) (attachments db)\<rparr>)
         else (Inl (StoreNotFound (''Managed policy '' @ name @ '' (path '' @ path @ '') not found for account '' @ account)), db))"

text \<open>The \<^verbatim>\<open>JOIN\<close> of policies and attachments.\<close>

definition sqlite_get_managed_policies_attached_to_principal ::
    "int \<Rightarrow> iam_db \<Rightarrow> store_error + managed_policy list" where
  "sqlite_get_managed_policies_attached_to_principal pid db =
     Inr [mp. (policy, user) \<leftarrow> attachments db, user = pid, mp \<leftarrow> managed_policies db, mpo_id mp = policy]"

definition sqlite_iam_store :: "sqlite_texts \<Rightarrow> time \<Rightarrow> iam_db iam_store" where
  "sqlite_iam_store UE now =
     \<lparr>im_get_secret_key = sqlite_get_secret_key,
      im_list_access_keys_for_principal = sqlite_list_access_keys_for_principal,
      im_insert_secret_key = sqlite_insert_secret_key UE now,
      im_delete_access_key_for_principal = sqlite_delete_access_key_for_principal,
      im_get_principal = sqlite_get_principal,
      im_get_principal_by_identity = sqlite_get_principal_by_identity,
      im_list_principals = sqlite_list_principals,
      im_create_principal = sqlite_create_principal UE now,
      im_delete_principal = sqlite_delete_principal,
      im_delete_user = sqlite_delete_user,
      im_get_inline_policies_for_principal = sqlite_get_inline_policies_for_principal,
      im_put_inline_policy = sqlite_put_inline_policy UE now,
      im_delete_inline_policy = sqlite_delete_inline_policy,
      im_get_principal_policy = sqlite_get_principal_policy,
      im_insert_managed_policy = sqlite_insert_managed_policy UE now,
      im_get_managed_policy = sqlite_get_managed_policy,
      im_list_managed_policies = sqlite_list_managed_policies,
      im_update_managed_policy_document = sqlite_update_managed_policy_document now,
      im_attach_policy_to_principal = sqlite_attach_policy_to_principal UE,
      im_detach_policy_from_principal = sqlite_detach_policy_from_principal,
      im_delete_managed_policy = sqlite_delete_managed_policy,
      im_get_managed_policies_attached_to_principal = sqlite_get_managed_policies_attached_to_principal\<rparr>"

end
