(* ===== verification/Uri_Encoding.thy ===== *)
theory Uri_Encoding
  imports Rust_Std
begin

text \<open>
  Percent encoding, which the program writes out twice: \<^verbatim>\<open>aws_uri_encode\<close> of \<^verbatim>\<open>hiraeth_auth/src/sig_v4.rs\<close>
  for canonical requests and \<^verbatim>\<open>url_encode_policy_document\<close> of \<^verbatim>\<open>hiraeth_iam/src/actions/get_policy_version.rs\<close>.
  A reference decoder shows that nothing is lost.
\<close>

section \<open>Encoding\<close>

definition is_unreserved :: "char \<Rightarrow> bool" where
  "is_unreserved c \<longleftrightarrow> is_ascii_alphanumeric (byte c) \<or> c \<in> {CHR ''-'', CHR ''_'', CHR ''.'', CHR ''~''}"

text \<open>\<^verbatim>\<open>HEX\<close>, the digits of \<^verbatim>\<open>{byte:02X}\<close>.\<close>

definition hex_digits :: string where
  "hex_digits = ''0123456789ABCDEF''"

definition percent_byte :: "char \<Rightarrow> string" where
  "percent_byte c = [CHR ''%'', hex_digits ! (byte c div 16), hex_digits ! (byte c mod 16)]"

definition aws_uri_encode :: "string \<Rightarrow> bool \<Rightarrow> string" where
  "aws_uri_encode v encode_slash =
     concat (map (\<lambda>c. if is_unreserved c then [c]
                      else if c = CHR ''/'' \<and> \<not> encode_slash then [c] else percent_byte c) v)"

definition url_encode_policy_document :: "string \<Rightarrow> string" where
  "url_encode_policy_document document = concat (map (\<lambda>c. if is_unreserved c then [c] else percent_byte c) document)"

section \<open>Decoding\<close>

definition hex_value :: "char \<Rightarrow> nat" where
  "hex_value c = (if is_digit c then byte c - 48 else byte c - 55)"

fun percent_decode :: "string \<Rightarrow> string" where
  "percent_decode [] = []"
| "percent_decode (c # s) =
     (if c = CHR ''%'' then (case s of h # l # rest \<Rightarrow> char_of (hex_value h * 16 + hex_value l) # percent_decode rest | _ \<Rightarrow> [])
      else c # percent_decode s)"

lemma byte_less [simp]: "byte c < 256"
  by (simp add: byte_def)

lemma all_digits: "list_all P [0..<16] \<Longrightarrow> n < 16 \<Longrightarrow> P n"
  by (simp add: list_all_iff)

lemma hex_value_digit [simp]: "n < 16 \<Longrightarrow> hex_value (hex_digits ! n) = n"
  by (erule all_digits [rotated]) (simp add: hex_value_def hex_digits_def is_digit_def byte_def upt_rec)

lemma percent_decode_byte: "percent_decode (percent_byte c @ s) = c # percent_decode s"
proof -
  have "byte c div 16 < 16" by (simp add: less_mult_imp_div_less)
  then have "hex_value (hex_digits ! (byte c div 16)) * 16 + hex_value (hex_digits ! (byte c mod 16)) = byte c" by simp
  then show ?thesis by (simp add: percent_byte_def byte_def)
qed

lemma percent_not_unreserved: "is_unreserved c \<Longrightarrow> c \<noteq> CHR ''%''"
  by (auto simp: is_unreserved_def is_ascii_alphanumeric_def byte_def)

lemma percent_decode_encode: "percent_decode (aws_uri_encode v encode_slash) = v"
  by (induction v) (auto simp: aws_uri_encode_def percent_decode_byte percent_not_unreserved)

lemma aws_uri_encode_inj: "aws_uri_encode v b = aws_uri_encode w b \<longleftrightarrow> v = w"
  by (metis percent_decode_encode)

lemma url_encode_eq: "url_encode_policy_document document = aws_uri_encode document True"
  by (simp add: url_encode_policy_document_def aws_uri_encode_def cong: if_cong)

text \<open>The characters of an encoded text: no separator of a canonical request among them.\<close>

lemma hex_digit_unreserved: "n < 16 \<Longrightarrow> is_unreserved (hex_digits ! n)"
  by (erule all_digits [rotated])
    (simp add: hex_digits_def is_unreserved_def is_ascii_alphanumeric_def byte_def upt_rec)

lemma aws_uri_encode_chars:
  assumes "c \<in> set (aws_uri_encode v encode_slash)"
  shows "is_unreserved c \<or> c = CHR ''%'' \<or> c = CHR ''/'' \<and> \<not> encode_slash"
proof -
  have "c \<in> set (percent_byte d) \<Longrightarrow> is_unreserved c \<or> c = CHR ''%''" for d
    by (auto simp: percent_byte_def hex_digit_unreserved less_mult_imp_div_less)
  with assms show ?thesis by (auto simp: aws_uri_encode_def split: if_splits)
qed

lemma separators_reserved [simp]:
  "CHR ''='' \<notin> set (aws_uri_encode v b)" "CHR ''&'' \<notin> set (aws_uri_encode v b)"
  "CHR 0x0A \<notin> set (aws_uri_encode v b)"
  by (auto dest!: aws_uri_encode_chars simp: is_unreserved_def is_ascii_alphanumeric_def byte_def)

end
