(* ===== verification/Iam_Support.thy ===== *)
theory Iam_Support
  imports Query_Protocol Iam_Store Uri_Encoding
begin

text \<open>
  Errors of the IAM service (\<^verbatim>\<open>hiraeth_iam/src/error.rs\<close>) and what its actions share
  (\<^verbatim>\<open>actions/util.rs\<close>): policy ARNs, names and paths, policy documents, the user an action is about.
\<close>

section \<open>Errors\<close>

datatype iam_error =
    IamBadRequest string
  | EntityAlreadyExists string
  | NoSuchEntity string
  | IamUnsupportedOperation string
  | IamInternalError string

fun iam_error_text :: "iam_error \<Rightarrow> string" where
  "iam_error_text (IamBadRequest m) = m"
| "iam_error_text (EntityAlreadyExists m) = m"
| "iam_error_text (NoSuchEntity m) = m"
| "iam_error_text (IamUnsupportedOperation action) = ''IAM action '' @ action @ '' is not implemented''"
| "iam_error_text (IamInternalError m) = m"

fun iam_status_code :: "iam_error \<Rightarrow> nat" where
  "iam_status_code (IamBadRequest _) = 400"
| "iam_status_code (EntityAlreadyExists _) = 409"
| "iam_status_code (NoSuchEntity _) = 404"
| "iam_status_code (IamUnsupportedOperation _) = 501"
| "iam_status_code (IamInternalError _) = 500"

fun iam_code :: "iam_error \<Rightarrow> string" where
  "iam_code (IamBadRequest _) = ''ValidationError''"
| "iam_code (EntityAlreadyExists _) = ''EntityAlreadyExists''"
| "iam_code (NoSuchEntity _) = ''NoSuchEntity''"
| "iam_code (IamUnsupportedOperation _) = ''InvalidAction''"
| "iam_code (IamInternalError _) = ''InternalFailure''"

fun iam_error_type :: "iam_error \<Rightarrow> string" where
  "iam_error_type (IamInternalError _) = ''Server''"
| "iam_error_type _ = ''Sender''"

fun iam_of_store_error :: "store_error \<Rightarrow> iam_error" where
  "iam_of_store_error (StoreConflict m) = EntityAlreadyExists m"
| "iam_of_store_error (StoreNotFound m) = NoSuchEntity m"
| "iam_of_store_error (StorageFailure m) = IamInternalError (store_error_text (StorageFailure m))"

text \<open>
  What other crates do: the XML of an error (type, code, message), whether a JSON text is an object
  (\<^verbatim>\<open>serde_json::Value::is_object\<close>), and RFC 3339.
\<close>

record iam_ext =
  ix_xml_error :: "string \<Rightarrow> string \<Rightarrow> string \<Rightarrow> string + string"
  ix_json_is_object :: "string \<Rightarrow> string + bool"
  ix_rfc3339 :: "time \<Rightarrow> string"

definition iam_error_response :: "iam_ext \<Rightarrow> iam_error \<Rightarrow> service_response" where
  "iam_error_response X e =
     \<lparr>status_code = iam_status_code e, resp_headers = [(''content-type'', ''text/xml; charset=utf-8'')],
      resp_body = (case ix_xml_error X (iam_error_type e) (iam_code e) (iam_error_text e) of
                     Inl _ \<Rightarrow> iam_error_text e | Inr body \<Rightarrow> body)\<rparr>"

section \<open>Identifiers\<close>

definition default_policy_version_id :: string where "default_policy_version_id = ''v1''"

definition ascii_upper :: "char \<Rightarrow> char" where
  "ascii_upper c = (if 97 \<le> byte c \<and> byte c \<le> 122 then char_of (byte c - 32) else c)"

text \<open>\<open>uuid\<close> is the text of a random UUID without hyphens.\<close>

definition new_id :: "string \<Rightarrow> string" where
  "new_id uuid = ''AIDA'' @ map ascii_upper uuid"

definition default_user_path :: string where "default_user_path = ''/''"

section \<open>Policy ARNs and paths\<close>

record policy_arn_parts =
  pa_account_id :: string
  pa_policy_path :: string
  pa_policy_name :: string

definition parse_policy_arn :: "string \<Rightarrow> iam_error + policy_arn_parts" where
  "parse_policy_arn arn =
     (let parts = split_all (CHR '':'') arn
      in if length parts \<noteq> 6 \<or> parts ! 0 \<noteq> ''arn'' \<or> parts ! 1 \<noteq> ''aws'' \<or> parts ! 2 \<noteq> ''iam''
         then Inl (IamBadRequest (''Invalid ARN format: '' @ arn))
         else let resource_parts = split_all (CHR ''/'') (parts ! 5)
              in if length resource_parts < 2 \<or> resource_parts ! 0 \<noteq> ''policy''
                 then Inl (IamBadRequest (''Invalid policy ARN format: '' @ arn))
                 else if last resource_parts = []
                 then Inl (IamBadRequest (''Invalid policy ARN format: '' @ arn))
                 else Inr \<lparr>pa_account_id = parts ! 4,
                        pa_policy_path =
                          (if length resource_parts = 2 then ''/''
                           else ''/'' @ join_strings ''/'' (butlast (tl resource_parts)) @ ''/''),
                        pa_policy_name = last resource_parts\<rparr>)"

definition normalize_policy_path :: "string option \<Rightarrow> string" where
  "normalize_policy_path path =
     (case path of
        None \<Rightarrow> ''/''
      | Some p \<Rightarrow>
          if trim p = [] then ''/''
          else let with_leading = (if starts_with ''/'' (trim p) then trim p else ''/'' @ trim p)
               in if ends_with ''/'' with_leading then with_leading else with_leading @ ''/'')"

section \<open>Checks\<close>

definition is_iam_name_char :: "nat \<Rightarrow> bool" where
  "is_iam_name_char n \<longleftrightarrow> is_ascii_alphanumeric n \<or> n \<in> {95, 43, 61, 44, 46, 64, 45}"

definition validate_iam_name :: "string \<Rightarrow> string \<Rightarrow> nat \<Rightarrow> iam_error + unit" where
  "validate_iam_name field_name v max_len =
     (if v = [] \<or> length v > max_len
      then Inl (IamBadRequest (field_name @ '' must be between 1 and '' @ show_nat max_len @ '' characters''))
      else if \<not> list_all is_iam_name_char (rust_chars v)
      then Inl (IamBadRequest (field_name @ '' contains unsupported characters''))
      else Inr ())"

definition validate_user_name :: "string \<Rightarrow> iam_error + unit" where
  "validate_user_name name = validate_iam_name ''UserName'' name 64"

definition validate_policy_name :: "string \<Rightarrow> iam_error + unit" where
  "validate_policy_name policy_name = validate_iam_name ''PolicyName'' policy_name 128"

definition validate_iam_path :: "string \<Rightarrow> string \<Rightarrow> iam_error + unit" where
  "validate_iam_path field_name path =
     (if path = [] \<or> length path > 512
      then Inl (IamBadRequest (field_name @ '' must be between 1 and 512 characters''))
      else if \<not> starts_with ''/'' path \<or> \<not> ends_with ''/'' path
      then Inl (IamBadRequest (field_name @ '' must begin and end with /''))
      else if \<not> list_all (\<lambda>n. n = 47 \<or> 33 \<le> n \<and> n \<le> 126) (rust_chars path)
      then Inl (IamBadRequest (field_name @ '' contains unsupported characters''))
      else Inr ())"

definition validate_policy_document :: "iam_ext \<Rightarrow> string \<Rightarrow> iam_error + unit" where
  "validate_policy_document X document =
     (if trim document = [] then Inl (IamBadRequest ''PolicyDocument must not be empty'')
      else ebind (map_err (\<lambda>e. IamBadRequest (''PolicyDocument must be valid JSON: '' @ e)) (ix_json_is_object X document))
        (\<lambda>is_object. guard (\<not> is_object) (IamBadRequest ''PolicyDocument must be a JSON object'')))"

section \<open>The user an action is about\<close>

definition optional_target_user ::
    "'s iam_store \<Rightarrow> resolved_request \<Rightarrow> string option \<Rightarrow> 's \<Rightarrow> iam_error + principal_row option" where
  "optional_target_user store request requested s =
     map_err iam_of_store_error (im_get_principal_by_identity store (req_account request) ''user''
       (coalesce requested (p_name (ac_principal (rr_auth_context request)))) s)"

definition requested_or_signing_user ::
    "'s iam_store \<Rightarrow> resolved_request \<Rightarrow> string option \<Rightarrow> 's \<Rightarrow> iam_error + principal_row" where
  "requested_or_signing_user store request requested s =
     (case requested of
        Some name \<Rightarrow>
          if trim name = [] then Inl (IamBadRequest ''UserName must not be empty'')
          else ebind (map_err iam_of_store_error
                 (im_get_principal_by_identity store (req_account request) ''user'' name s))
                 (ok_or (NoSuchEntity (''User '' @ name @ '' does not exist'')))
      | None \<Rightarrow>
          if p_kind (ac_principal (rr_auth_context request)) = ''user''
          then Inr (ac_principal (rr_auth_context request))
          else Inl (IamBadRequest ''UserName is required when the caller is not an IAM user''))"

section \<open>Users and policies in responses\<close>

record iam_user_xml =
  ux_path :: string
  ux_user_name :: string
  ux_user_id :: string
  ux_arn :: string
  ux_create_date :: string

definition user_xml :: "iam_ext \<Rightarrow> principal_row \<Rightarrow> iam_user_xml" where
  "user_xml X p =
     \<lparr>ux_path = p_path p, ux_user_name = p_name p, ux_user_id = p_user_id p,
      ux_arn = user_arn (p_account_id p) (p_path p) (p_name p), ux_create_date = ix_rfc3339 X (p_created_at p)\<rparr>"

record iam_policy_xml =
  px_path :: "string option"
  px_policy_name :: "string option"
  px_default_version_id :: "string option"
  px_policy_id :: "string option"
  px_arn :: "string option"
  px_attachments_count :: "int option"
  px_create_date :: "string option"
  px_update_date :: "string option"

definition policy_xml :: "iam_ext \<Rightarrow> managed_policy \<Rightarrow> iam_policy_xml" where
  "policy_xml X p =
     (let policy_path = normalize_policy_path (mpo_policy_path p)
      in \<lparr>px_path = Some policy_path, px_policy_name = Some (mpo_policy_name p),
          px_default_version_id = Some default_policy_version_id, px_policy_id = Some (mpo_policy_id p),
          px_arn = Some (policy_arn (mpo_account_id p) policy_path (mpo_policy_name p)), px_attachments_count = None,
          px_create_date = Some (ix_rfc3339 X (mpo_created_at p)),
          px_update_date = Some (ix_rfc3339 X (mpo_updated_at p))\<rparr>)"

end
