(* ===== verification/Iam_Actions.thy ===== *)
theory Iam_Actions
  imports Iam_Support Iam_Store_Laws
begin

text \<open>
  The fourteen IAM actions of \<^verbatim>\<open>hiraeth_iam/src/actions\<close>: validation closures and handlers, over any
  store that implements the traits. A response is its result with the id of the request; the XML
  around it is written by \<^verbatim>\<open>quick_xml\<close>. The contract of a store that the handlers rely on is a locale,
  interpreted on the SQLite store.
\<close>

record 'r iam_response =
  ires_result :: 'r
  ires_request_id :: string

definition iam_reply :: "resolved_request \<Rightarrow> 'r \<Rightarrow> 'r iam_response" where
  "iam_reply request r = \<lparr>ires_result = r, ires_request_id = rr_request_id request\<rparr>"

text \<open>\<^verbatim>\<open>store.get_principal_by_identity(account_id, "user", name).await?.ok_or_else(...)?\<close> with the error of the caller.\<close>

definition load_user :: "'s iam_store \<Rightarrow> resolved_request \<Rightarrow> string \<Rightarrow> string \<Rightarrow> 's \<Rightarrow> iam_error + principal_row" where
  "load_user store request name message s =
     ebind (map_err iam_of_store_error (im_get_principal_by_identity store (req_account request) ''user'' name s))
       (ok_or (NoSuchEntity message))"

definition policy_missing :: "string \<Rightarrow> iam_error" where
  "policy_missing arn = NoSuchEntity (''Policy '' @ arn @ '' does not exist'')"

definition load_managed_policy ::
    "'s iam_store \<Rightarrow> policy_arn_parts \<Rightarrow> string \<Rightarrow> 's \<Rightarrow> iam_error + managed_policy" where
  "load_managed_policy store parts arn s =
     ebind (map_err iam_of_store_error
              (im_get_managed_policy store (pa_account_id parts) (pa_policy_name parts) (pa_policy_path parts) s))
       (ok_or (policy_missing arn))"

section \<open>Users\<close>

record create_user_request =
  cu_user_name :: string
  cu_path :: string
  cu_permissions_boundary :: "string option"

definition validate_create_user :: "create_user_request \<Rightarrow> iam_error + unit" where
  "validate_create_user payload =
     ebind (validate_user_name (cu_user_name payload)) (\<lambda>_.
     ebind (validate_iam_path ''Path'' (cu_path payload)) (\<lambda>_.
     guard (cu_permissions_boundary payload \<noteq> None) (IamBadRequest ''PermissionsBoundary is not supported yet'')))"

definition handle_create_user ::
    "iam_ext \<Rightarrow> 's iam_store \<Rightarrow> string \<Rightarrow> resolved_request \<Rightarrow> create_user_request \<Rightarrow>
     ('s, iam_error, iam_user_xml iam_response) store_op" where
  "handle_create_user X store uuid request payload =
     sbind (smap_err iam_of_store_error (im_create_principal store
              \<lparr>np_account_id = req_account request, np_kind = ''user'', np_name = cu_user_name payload,
               np_path = normalize_user_path (cu_path payload), np_user_id = new_id uuid\<rparr>)) (\<lambda>created.
     slift (Inr (iam_reply request (user_xml X created))))"

text \<open>\<^verbatim>\<open>if let Some(user_name) = ... { validate_user_name(user_name)?; }\<close>, in four actions.\<close>

definition validate_optional_user_name :: "string option \<Rightarrow> iam_error + unit" where
  "validate_optional_user_name requested =
     (case requested of None \<Rightarrow> Inr () | Some name \<Rightarrow> validate_user_name name)"

definition handle_get_user ::
    "iam_ext \<Rightarrow> 's iam_store \<Rightarrow> resolved_request \<Rightarrow> string option \<Rightarrow>
     ('s, iam_error, iam_user_xml iam_response) store_op" where
  "handle_get_user X store request requested =
     sbind (sread (optional_target_user store request requested)) (\<lambda>found.
     sbind (slift (ok_or (NoSuchEntity (''User with name '' @ quoted (coalesce requested
              (p_name (ac_principal (rr_auth_context request)))) @ '' not found'')) found)) (\<lambda>principal.
     slift (Inr (iam_reply request (user_xml X principal)))))"

definition handle_delete_user ::
    "'s iam_store \<Rightarrow> resolved_request \<Rightarrow> string \<Rightarrow> ('s, iam_error, unit iam_response) store_op" where
  "handle_delete_user store request name =
     sbind (smap_err iam_of_store_error (im_delete_user store (req_account request) name)) (\<lambda>_.
     slift (Inr (iam_reply request ())))"

section \<open>Access keys\<close>

record access_key_xml =
  kx_user_name :: string
  kx_access_key_id :: string
  kx_status :: string
  kx_secret_access_key :: string
  kx_create_date :: string

definition iam_access_key_xml :: "iam_ext \<Rightarrow> string \<Rightarrow> access_key \<Rightarrow> access_key_xml" where
  "iam_access_key_xml X name key =
     \<lparr>kx_user_name = name, kx_access_key_id = ak_key_id key, kx_status = ''Active'',
      kx_secret_access_key = ak_secret_key key, kx_create_date = ix_rfc3339 X (ak_created_at key)\<rparr>"

definition new_access_key_id :: "string \<Rightarrow> string" where
  "new_access_key_id uuid = ''AKIA'' @ take 16 (map ascii_upper uuid)"

definition new_secret_access_key :: "string \<Rightarrow> string \<Rightarrow> string" where
  "new_secret_access_key uuid1 uuid2 = take 40 (uuid1 @ uuid2)"

definition handle_create_access_key ::
    "iam_ext \<Rightarrow> 's iam_store \<Rightarrow> string \<Rightarrow> string \<Rightarrow> string \<Rightarrow> resolved_request \<Rightarrow> string option \<Rightarrow>
     ('s, iam_error, access_key_xml iam_response) store_op" where
  "handle_create_access_key X store uuid1 uuid2 uuid3 request requested =
     sbind (sread (requested_or_signing_user store request requested)) (\<lambda>target_user.
     sbind (smap_err iam_of_store_error (im_insert_secret_key store (new_access_key_id uuid1)
              (new_secret_access_key uuid2 uuid3) (p_id target_user))) (\<lambda>created.
     slift (Inr (iam_reply request (iam_access_key_xml X (p_name target_user) created)))))"

record access_key_metadata =
  km_user_name :: string
  km_access_key_id :: string
  km_status :: string
  km_create_date :: string

definition access_key_metadata_member :: "iam_ext \<Rightarrow> string \<Rightarrow> access_key \<Rightarrow> access_key_metadata" where
  "access_key_metadata_member X name key =
     \<lparr>km_user_name = name, km_access_key_id = ak_key_id key, km_status = ''Active'',
      km_create_date = ix_rfc3339 X (ak_created_at key)\<rparr>"

definition handle_list_access_keys ::
    "iam_ext \<Rightarrow> 's iam_store \<Rightarrow> resolved_request \<Rightarrow> string option \<Rightarrow>
     ('s, iam_error, (access_key_metadata list \<times> bool) iam_response) store_op" where
  "handle_list_access_keys X store request requested =
     sbind (sread (requested_or_signing_user store request requested)) (\<lambda>target_user.
     sbind (sread (\<lambda>s. map_err iam_of_store_error (im_list_access_keys_for_principal store (p_id target_user) s))) (\<lambda>keys.
     slift (Inr (iam_reply request (map (access_key_metadata_member X (p_name target_user)) keys, False)))))"

section \<open>Inline policies\<close>

record put_user_policy_request =
  pu_user_name :: string
  pu_policy_name :: string
  pu_policy_document :: string

definition validate_put_user_policy :: "iam_ext \<Rightarrow> put_user_policy_request \<Rightarrow> iam_error + unit" where
  "validate_put_user_policy X payload =
     ebind (validate_user_name (pu_user_name payload)) (\<lambda>_.
     ebind (validate_policy_name (pu_policy_name payload)) (\<lambda>_.
     validate_policy_document X (pu_policy_document payload)))"

definition handle_put_user_policy ::
    "'s iam_store \<Rightarrow> resolved_request \<Rightarrow> put_user_policy_request \<Rightarrow> ('s, iam_error, unit iam_response) store_op" where
  "handle_put_user_policy store request payload =
     sbind (sread (load_user store request (pu_user_name payload) (''User '' @ pu_user_name payload @ '' does not exist''))) (\<lambda>user.
     sbind (smap_err iam_of_store_error
              (im_put_inline_policy store (p_id user) (pu_policy_name payload) (pu_policy_document payload))) (\<lambda>_.
     slift (Inr (iam_reply request ()))))"

text \<open>The result: user name, policy name, policy document.\<close>

definition handle_get_user_policy ::
    "'s iam_store \<Rightarrow> resolved_request \<Rightarrow> string \<Rightarrow> string \<Rightarrow> ('s, iam_error, (string \<times> string \<times> string) iam_response) store_op" where
  "handle_get_user_policy store request name pol =
     sbind (sread (load_user store request name (''User '' @ name @ '' does not exist''))) (\<lambda>principal.
     sbind (sread (\<lambda>s. map_err iam_of_store_error (im_get_principal_policy store (p_id principal) pol s))) (\<lambda>found.
     sbind (slift (ok_or (NoSuchEntity (''Policy '' @ pol @ '' does not exist for user '' @ name)) found)) (\<lambda>row.
     slift (Inr (iam_reply request (p_name principal, pip_policy_name row, pip_policy_document row))))))"

section \<open>Managed policies\<close>

record create_policy_request =
  cp_path :: "string option"
  cp_policy_document :: string
  cp_policy_name :: string

definition validate_create_policy :: "iam_ext \<Rightarrow> create_policy_request \<Rightarrow> iam_error + unit" where
  "validate_create_policy X payload =
     ebind (validate_policy_name (cp_policy_name payload)) (\<lambda>_.
     ebind (validate_iam_path ''Path'' (normalize_policy_path (cp_path payload))) (\<lambda>_.
     validate_policy_document X (cp_policy_document payload)))"

definition handle_create_policy ::
    "iam_ext \<Rightarrow> 's iam_store \<Rightarrow> string \<Rightarrow> resolved_request \<Rightarrow> create_policy_request \<Rightarrow>
     ('s, iam_error, iam_policy_xml iam_response) store_op" where
  "handle_create_policy X store uuid request payload =
     sbind (smap_err iam_of_store_error (im_insert_managed_policy store
              \<lparr>nmp_policy_id = new_id uuid, nmp_account_id = req_account request, nmp_policy_name = cp_policy_name payload,
               nmp_policy_path = Some (normalize_policy_path (cp_path payload)),
               nmp_policy_document = cp_policy_document payload\<rparr>)) (\<lambda>created.
     slift (Inr (iam_reply request (policy_xml X created))))"

definition validate_policy_arn :: "string \<Rightarrow> iam_error + unit" where
  "validate_policy_arn arn = ebind (parse_policy_arn arn) (\<lambda>_. Inr ())"

definition handle_delete_policy ::
    "'s iam_store \<Rightarrow> resolved_request \<Rightarrow> string \<Rightarrow> ('s, iam_error, unit iam_response) store_op" where
  "handle_delete_policy store request arn =
     sbind (slift (parse_policy_arn arn)) (\<lambda>parts.
     sbind (slift (guard (pa_account_id parts \<noteq> req_account request) (policy_missing arn))) (\<lambda>_.
     sbind (smap_err iam_of_store_error (im_delete_managed_policy store (pa_account_id parts) (pa_policy_name parts)
              (pa_policy_path parts))) (\<lambda>_.
     slift (Inr (iam_reply request ())))))"

text \<open>The response of \<^verbatim>\<open>GetPolicy\<close> carries no request id.\<close>

definition handle_get_policy ::
    "iam_ext \<Rightarrow> 's iam_store \<Rightarrow> resolved_request \<Rightarrow> string \<Rightarrow> ('s, iam_error, iam_policy_xml) store_op" where
  "handle_get_policy X store request arn =
     sbind (slift (parse_policy_arn arn)) (\<lambda>parts.
     sbind (sread (load_managed_policy store parts arn)) (\<lambda>pol.
     slift (Inr (policy_xml X pol))))"

record policy_version_xml =
  vx_document :: string
  vx_version_id :: string
  vx_is_default_version :: bool
  vx_create_date :: string

definition normalize_version_id :: "string \<Rightarrow> string" where
  "normalize_version_id version_id =
     (if trim version_id = [] then default_policy_version_id else trim version_id)"

definition get_policy_version_response :: "iam_ext \<Rightarrow> managed_policy \<Rightarrow> string \<Rightarrow> policy_version_xml" where
  "get_policy_version_response X pol version_id =
     \<lparr>vx_document = url_encode_policy_document (mpo_policy_document pol), vx_version_id = version_id,
      vx_is_default_version = True, vx_create_date = ix_rfc3339 X (mpo_updated_at pol)\<rparr>"

definition handle_get_policy_version ::
    "iam_ext \<Rightarrow> 's iam_store \<Rightarrow> resolved_request \<Rightarrow> string \<Rightarrow> string \<Rightarrow>
     ('s, iam_error, policy_version_xml iam_response) store_op" where
  "handle_get_policy_version X store request arn version_id =
     sbind (slift (parse_policy_arn arn)) (\<lambda>parts.
     sbind (sread (load_managed_policy store parts arn)) (\<lambda>pol.
     slift (Inr (iam_reply request (get_policy_version_response X pol (normalize_version_id version_id))))))"

section \<open>Attachments\<close>

definition validate_user_policy :: "string \<Rightarrow> string \<Rightarrow> iam_error + unit" where
  "validate_user_policy name arn =
     ebind (validate_user_name name) (\<lambda>_. ebind (parse_policy_arn arn) (\<lambda>_. Inr ()))"

definition handle_attach_user_policy ::
    "'s iam_store \<Rightarrow> resolved_request \<Rightarrow> string \<Rightarrow> string \<Rightarrow> ('s, iam_error, unit iam_response) store_op" where
  "handle_attach_user_policy store request name arn =
     sbind (sread (load_user store request name (''User '' @ name))) (\<lambda>user.
     sbind (slift (parse_policy_arn arn)) (\<lambda>parts.
     sbind (slift (guard (pa_account_id parts \<noteq> req_account request) (policy_missing arn))) (\<lambda>_.
     sbind (sread (load_managed_policy store parts arn)) (\<lambda>pol.
     sbind (smap_err iam_of_store_error (im_attach_policy_to_principal store (mpo_id pol) (p_id user))) (\<lambda>_.
     slift (Inr (iam_reply request ())))))))"

definition handle_detach_user_policy ::
    "'s iam_store \<Rightarrow> resolved_request \<Rightarrow> string \<Rightarrow> string \<Rightarrow> ('s, iam_error, unit iam_response) store_op" where
  "handle_detach_user_policy store request name arn =
     sbind (sread (load_user store request name (''User '' @ name))) (\<lambda>user.
     sbind (slift (parse_policy_arn arn)) (\<lambda>parts.
     sbind (slift (guard (pa_account_id parts \<noteq> req_account request) (policy_missing arn))) (\<lambda>_.
     sbind (sread (load_managed_policy store parts arn)) (\<lambda>pol.
     sbind (smap_err iam_of_store_error (im_detach_policy_from_principal store (mpo_id pol) (p_id user))) (\<lambda>_.
     slift (Inr (iam_reply request ())))))))"

text \<open>The result: policy name and policy ARN of each attached policy.\<close>

definition attached_policy_member :: "string \<Rightarrow> managed_policy \<Rightarrow> string \<times> string" where
  "attached_policy_member account pol =
     (mpo_policy_name pol, policy_arn account (normalize_policy_path (mpo_policy_path pol)) (mpo_policy_name pol))"

definition handle_list_attached_user_policies ::
    "'s iam_store \<Rightarrow> resolved_request \<Rightarrow> string option \<Rightarrow>
     ('s, iam_error, ((string \<times> string) list \<times> bool) iam_response) store_op" where
  "handle_list_attached_user_policies store request requested =
     sbind (sread (requested_or_signing_user store request requested)) (\<lambda>target_user.
     sbind (sread (\<lambda>s. map_err iam_of_store_error
              (im_get_managed_policies_attached_to_principal store (p_id target_user) s))) (\<lambda>policies.
     slift (Inr (iam_reply request (map (attached_policy_member (p_account_id target_user)) policies, False)))))"

section \<open>The contract of the store\<close>

text \<open>What every operation of the store keeps, every handler keeps.\<close>

locale iam_store_contract =
  fixes store :: "'s iam_store" and inv :: "'s \<Rightarrow> bool"
  assumes insert_secret_key_keeps: "keeps inv (im_insert_secret_key store key secret pid)"
    and create_principal_keeps: "keeps inv (im_create_principal store np)"
    and delete_user_keeps: "keeps inv (im_delete_user store account name)"
    and put_inline_policy_keeps: "keeps inv (im_put_inline_policy store pid name document)"
    and insert_managed_policy_keeps: "keeps inv (im_insert_managed_policy store nmp)"
    and attach_keeps: "keeps inv (im_attach_policy_to_principal store i pid)"
    and detach_keeps: "keeps inv (im_detach_policy_from_principal store i pid)"
    and delete_managed_policy_keeps: "keeps inv (im_delete_managed_policy store account name path)"
begin

lemmas store_keeps =
  insert_secret_key_keeps create_principal_keeps delete_user_keeps put_inline_policy_keeps
  insert_managed_policy_keeps attach_keeps detach_keeps delete_managed_policy_keeps

lemma handlers_keep:
  "keeps inv (handle_create_user X store uuid request cu)"
  "keeps inv (handle_get_user X store request requested)"
  "keeps inv (handle_delete_user store request name)"
  "keeps inv (handle_create_access_key X store u1 u2 u3 request requested)"
  "keeps inv (handle_list_access_keys X store request requested)"
  "keeps inv (handle_put_user_policy store request pu)"
  "keeps inv (handle_get_user_policy store request name pol)"
  "keeps inv (handle_create_policy X store uuid request cp)"
  "keeps inv (handle_delete_policy store request arn)"
  "keeps inv (handle_get_policy X store request arn)"
  "keeps inv (handle_get_policy_version X store request arn version)"
  "keeps inv (handle_attach_user_policy store request name arn)"
  "keeps inv (handle_detach_user_policy store request name arn)"
  "keeps inv (handle_list_attached_user_policies store request requested)"
  unfolding handle_create_user_def handle_get_user_def handle_delete_user_def handle_create_access_key_def
    handle_list_access_keys_def handle_put_user_policy_def handle_get_user_policy_def handle_create_policy_def
    handle_delete_policy_def handle_get_policy_def handle_get_policy_version_def handle_attach_user_policy_def
    handle_detach_user_policy_def handle_list_attached_user_policies_def
  by (intro keeps_sbind keeps_smap_err keeps_slift keeps_sread store_keeps)+

end

interpretation sqlite_iam: iam_store_contract "sqlite_iam_store UE now" iam_inv for UE now
  by unfold_locales (simp_all add: sqlite_iam_store_def iam_inv_stmts)

end
