(* ===== verification/Iam_Service.thy ===== *)
theory Iam_Service
  imports Iam_Actions
begin

text \<open>
  The IAM service as the router sees it: \<^verbatim>\<open>hiraeth_iam/src/auth.rs\<close>, the registry of \<^verbatim>\<open>actions/mod.rs\<close> and
  \<^verbatim>\<open>lib.rs\<close>, with the resolution of an identity. The decoders of the payloads and the XML encoders of
  the responses are derived by \<^verbatim>\<open>serde\<close>: a record of functions. A field with a default is decoded to an
  option and the default is filled in here.
\<close>

section \<open>Codecs and environment\<close>

record iam_codec =
  id_optional_user :: "string \<Rightarrow> string + string option"
  id_user :: "string \<Rightarrow> string + string"
  id_create_user :: "string \<Rightarrow> string + string \<times> string option \<times> string option"
  id_put_user_policy :: "string \<Rightarrow> string + put_user_policy_request"
  id_user_policy_name :: "string \<Rightarrow> string + string \<times> string"
  id_user_policy_arn :: "string \<Rightarrow> string + string \<times> string"
  id_create_policy :: "string \<Rightarrow> string + create_policy_request"
  id_policy_arn :: "string \<Rightarrow> string + string"
  id_policy_version :: "string \<Rightarrow> string + string \<times> string option"
  in_user :: "string \<Rightarrow> iam_user_xml iam_response \<Rightarrow> string + string"
  in_empty :: "string \<Rightarrow> unit iam_response \<Rightarrow> string + string"
  in_access_key :: "access_key_xml iam_response \<Rightarrow> string + string"
  in_access_keys :: "(access_key_metadata list \<times> bool) iam_response \<Rightarrow> string + string"
  in_user_policy :: "(string \<times> string \<times> string) iam_response \<Rightarrow> string + string"
  in_create_policy :: "iam_policy_xml iam_response \<Rightarrow> string + string"
  in_get_policy :: "iam_policy_xml \<Rightarrow> string + string"
  in_policy_version :: "policy_version_xml iam_response \<Rightarrow> string + string"
  in_attached_policies :: "((string \<times> string) list \<times> bool) iam_response \<Rightarrow> string + string"

text \<open>The random UUIDs of one request.\<close>

record iam_env =
  ie_uuid :: string
  ie_uuid2 :: string
  ie_uuid3 :: string

definition iam_errors :: "iam_ext \<Rightarrow> iam_error query_errors" where
  "iam_errors X = \<lparr>qe_bad_request = IamBadRequest, qe_internal = IamInternalError, qe_response = iam_error_response X\<rparr>"

section \<open>Authorization\<close>

definition user_check :: "string \<Rightarrow> principal_row \<Rightarrow> authorization_check" where
  "user_check action p =
     \<lparr>chk_action = action, chk_resource = user_arn (p_account_id p) (p_path p) (p_name p), chk_resource_policy = None\<rparr>"

definition iam_resolve_authorization ::
    "form_parser \<Rightarrow> 's iam_store \<Rightarrow> string \<Rightarrow> resolved_request \<Rightarrow> 's \<Rightarrow> iam_error + authorization_check" where
  "iam_resolve_authorization fp store action request s =
     ebind (map_err IamBadRequest (parse_aws_query_params fp (rr_request request))) (\<lambda>params.
     let account_id = req_account request;
         caller = ac_principal (rr_auth_context request);
         get_user = (\<lambda>name message. ebind (map_err iam_of_store_error
           (im_get_principal_by_identity store account_id ''user'' name s)) (ok_or (NoSuchEntity message)))
     in if action = ''iam:CreateUser'' then
          ebind (ok_or (IamBadRequest ''UserName is required'') (query_get params ''UserName'')) (\<lambda>name.
          let path = normalize_user_path (coalesce (query_get params ''Path'') ''/'')
          in Inr \<lparr>chk_action = action, chk_resource = user_arn account_id path name, chk_resource_policy = None\<rparr>)
        else if action = ''iam:GetUser'' then
          (let name = coalesce (query_get params ''UserName'') (p_name caller)
           in ebind (get_user name (''User with name '' @ quoted name @ '' not found'')) (\<lambda>p. Inr (user_check action p)))
        else if action = ''iam:DeleteUser'' then
          ebind (ok_or (IamBadRequest ''UserName is required'') (query_get params ''UserName'')) (\<lambda>name.
          ebind (get_user name (''User with name '' @ quoted name @ '' not found'')) (\<lambda>p. Inr (user_check action p)))
        else if action \<in> {''iam:CreateAccessKey'', ''iam:ListAccessKeys'', ''iam:ListAttachedUserPolicies''} then
          ebind (case query_get params ''UserName'' of
                   Some name \<Rightarrow>
                     if trim name \<noteq> [] then get_user name (''User '' @ name @ '' does not exist'')
                     else if p_kind caller = ''user'' then Inr caller
                     else Inl (IamBadRequest ''UserName is required when the caller is not an IAM user'')
                 | None \<Rightarrow>
                     if p_kind caller = ''user'' then Inr caller
                     else Inl (IamBadRequest ''UserName is required when the caller is not an IAM user'')) (\<lambda>p.
          Inr (user_check action p))
        else if action \<in> {''iam:PutUserPolicy'', ''iam:GetUserPolicy'', ''iam:AttachUserPolicy'', ''iam:DetachUserPolicy''} then
          ebind (ok_or (IamBadRequest ''UserName is required'') (query_get params ''UserName'')) (\<lambda>name.
          ebind (get_user name (''User '' @ name @ '' does not exist'')) (\<lambda>p. Inr (user_check action p)))
        else if action = ''iam:CreatePolicy'' then
          ebind (ok_or (IamBadRequest ''PolicyName is required'') (query_get params ''PolicyName'')) (\<lambda>name.
          let path = normalize_user_path (coalesce (query_get params ''Path'') ''/'')
          in Inr \<lparr>chk_action = action, chk_resource = policy_arn account_id path name, chk_resource_policy = None\<rparr>)
        else if action \<in> {''iam:GetPolicy'', ''iam:DeletePolicy'', ''iam:GetPolicyVersion''} then
          ebind (ok_or (IamBadRequest ''PolicyArn is required'') (query_get params ''PolicyArn'')) (\<lambda>arn.
          Inr \<lparr>chk_action = action, chk_resource = arn, chk_resource_policy = None\<rparr>)
        else Inl (IamUnsupportedOperation action))"

section \<open>The registry\<close>

definition iam_action ::
    "iam_ext \<Rightarrow> form_parser \<Rightarrow> 's iam_store \<Rightarrow> string \<Rightarrow> (string \<Rightarrow> string + 'p) \<Rightarrow> ('p \<Rightarrow> iam_error + unit) \<Rightarrow>
     (resolved_request \<Rightarrow> 'p \<Rightarrow> ('s, iam_error, 'r) store_op) \<Rightarrow> ('r \<Rightarrow> string + string) \<Rightarrow> 's aws_action" where
  "iam_action X fp store name dec validate handler enc =
     query_action (iam_errors X) name dec (\<lambda>_ payload _. validate payload) handler
       (iam_resolve_authorization fp store (''iam:'' @ name)) enc"

definition map_decoded :: "('a \<Rightarrow> 'b) \<Rightarrow> (string \<Rightarrow> string + 'a) \<Rightarrow> string \<Rightarrow> string + 'b" where
  "map_decoded f dec encoded = ebind (dec encoded) (\<lambda>x. Inr (f x))"

definition create_access_key_action :: "iam_ext \<Rightarrow> form_parser \<Rightarrow> iam_codec \<Rightarrow> 's iam_store \<Rightarrow> iam_env \<Rightarrow> 's aws_action" where
  "create_access_key_action X fp C store env =
     iam_action X fp store ''CreateAccessKey'' (id_optional_user C) validate_optional_user_name
       (handle_create_access_key X store (ie_uuid env) (ie_uuid2 env) (ie_uuid3 env)) (in_access_key C)"

definition create_user_action :: "iam_ext \<Rightarrow> form_parser \<Rightarrow> iam_codec \<Rightarrow> 's iam_store \<Rightarrow> iam_env \<Rightarrow> 's aws_action" where
  "create_user_action X fp C store env =
     iam_action X fp store ''CreateUser''
       (map_decoded (\<lambda>(name, path, boundary). \<lparr>cu_user_name = name, cu_path = coalesce path default_user_path,
          cu_permissions_boundary = boundary\<rparr>) (id_create_user C))
       validate_create_user (handle_create_user X store (ie_uuid env)) (in_user C ''CreateUserResponse'')"

definition get_user_action :: "iam_ext \<Rightarrow> form_parser \<Rightarrow> iam_codec \<Rightarrow> 's iam_store \<Rightarrow> 's aws_action" where
  "get_user_action X fp C store =
     iam_action X fp store ''GetUser'' (id_optional_user C) validate_optional_user_name
       (handle_get_user X store) (in_user C ''GetUserResponse'')"

definition delete_user_action :: "iam_ext \<Rightarrow> form_parser \<Rightarrow> iam_codec \<Rightarrow> 's iam_store \<Rightarrow> 's aws_action" where
  "delete_user_action X fp C store =
     iam_action X fp store ''DeleteUser'' (id_user C) validate_user_name (handle_delete_user store)
       (in_empty C ''DeleteUserResponse'')"

definition create_policy_action :: "iam_ext \<Rightarrow> form_parser \<Rightarrow> iam_codec \<Rightarrow> 's iam_store \<Rightarrow> iam_env \<Rightarrow> 's aws_action" where
  "create_policy_action X fp C store env =
     iam_action X fp store ''CreatePolicy'' (id_create_policy C) (validate_create_policy X)
       (handle_create_policy X store (ie_uuid env)) (in_create_policy C)"

definition put_user_policy_action :: "iam_ext \<Rightarrow> form_parser \<Rightarrow> iam_codec \<Rightarrow> 's iam_store \<Rightarrow> 's aws_action" where
  "put_user_policy_action X fp C store =
     iam_action X fp store ''PutUserPolicy'' (id_put_user_policy C) (validate_put_user_policy X)
       (handle_put_user_policy store) (in_empty C ''PutUserPolicyResponse'')"

definition attach_user_policy_action :: "iam_ext \<Rightarrow> form_parser \<Rightarrow> iam_codec \<Rightarrow> 's iam_store \<Rightarrow> 's aws_action" where
  "attach_user_policy_action X fp C store =
     iam_action X fp store ''AttachUserPolicy'' (id_user_policy_arn C) (\<lambda>(name, arn). validate_user_policy name arn)
       (\<lambda>req (name, arn). handle_attach_user_policy store req name arn) (in_empty C ''AttachUserPolicyResponse'')"

definition detach_user_policy_action :: "iam_ext \<Rightarrow> form_parser \<Rightarrow> iam_codec \<Rightarrow> 's iam_store \<Rightarrow> 's aws_action" where
  "detach_user_policy_action X fp C store =
     iam_action X fp store ''DetachUserPolicy'' (id_user_policy_arn C) (\<lambda>(name, arn). validate_user_policy name arn)
       (\<lambda>req (name, arn). handle_detach_user_policy store req name arn) (in_empty C ''DetachUserPolicyResponse'')"

definition delete_policy_action :: "iam_ext \<Rightarrow> form_parser \<Rightarrow> iam_codec \<Rightarrow> 's iam_store \<Rightarrow> 's aws_action" where
  "delete_policy_action X fp C store =
     iam_action X fp store ''DeletePolicy'' (id_policy_arn C) validate_policy_arn (handle_delete_policy store)
       (in_empty C ''DeletePolicyResponse'')"

definition get_user_policy_action :: "iam_ext \<Rightarrow> form_parser \<Rightarrow> iam_codec \<Rightarrow> 's iam_store \<Rightarrow> 's aws_action" where
  "get_user_policy_action X fp C store =
     iam_action X fp store ''GetUserPolicy'' (id_user_policy_name C) (\<lambda>_. Inr ())
       (\<lambda>req (name, pol). handle_get_user_policy store req name pol) (in_user_policy C)"

definition get_policy_action :: "iam_ext \<Rightarrow> form_parser \<Rightarrow> iam_codec \<Rightarrow> 's iam_store \<Rightarrow> 's aws_action" where
  "get_policy_action X fp C store =
     iam_action X fp store ''GetPolicy'' (id_policy_arn C) (\<lambda>_. Inr ()) (handle_get_policy X store) (in_get_policy C)"

definition get_policy_version_action :: "iam_ext \<Rightarrow> form_parser \<Rightarrow> iam_codec \<Rightarrow> 's iam_store \<Rightarrow> 's aws_action" where
  "get_policy_version_action X fp C store =
     iam_action X fp store ''GetPolicyVersion'' (id_policy_version C) (\<lambda>_. Inr ())
       (\<lambda>req (arn, version_id). handle_get_policy_version X store req arn (coalesce version_id [])) (in_policy_version C)"

definition list_access_keys_action :: "iam_ext \<Rightarrow> form_parser \<Rightarrow> iam_codec \<Rightarrow> 's iam_store \<Rightarrow> 's aws_action" where
  "list_access_keys_action X fp C store =
     iam_action X fp store ''ListAccessKeys'' (id_optional_user C) validate_optional_user_name
       (handle_list_access_keys X store) (in_access_keys C)"

definition list_attached_user_policies_action ::
    "iam_ext \<Rightarrow> form_parser \<Rightarrow> iam_codec \<Rightarrow> 's iam_store \<Rightarrow> 's aws_action" where
  "list_attached_user_policies_action X fp C store =
     iam_action X fp store ''ListAttachedUserPolicies'' (id_optional_user C) validate_optional_user_name
       (handle_list_attached_user_policies store) (in_attached_policies C)"

definition iam_registry :: "iam_ext \<Rightarrow> form_parser \<Rightarrow> iam_codec \<Rightarrow> 's iam_store \<Rightarrow> iam_env \<Rightarrow> 's registry" where
  "iam_registry X fp C store env =
     [create_access_key_action X fp C store env, create_user_action X fp C store env, get_user_action X fp C store,
      delete_user_action X fp C store, create_policy_action X fp C store env, put_user_policy_action X fp C store,
      attach_user_policy_action X fp C store, detach_user_policy_action X fp C store, delete_policy_action X fp C store,
      get_user_policy_action X fp C store, get_policy_action X fp C store, get_policy_version_action X fp C store,
      list_access_keys_action X fp C store, list_attached_user_policies_action X fp C store]"

lemmas iam_actions_def =
  create_access_key_action_def create_user_action_def get_user_action_def delete_user_action_def
  create_policy_action_def put_user_policy_action_def attach_user_policy_action_def detach_user_policy_action_def
  delete_policy_action_def get_user_policy_action_def get_policy_action_def get_policy_version_action_def
  list_access_keys_action_def list_attached_user_policies_action_def

section \<open>The service\<close>

definition missing_action :: string where "missing_action = ''Missing Action parameter''"

definition iam_can_handle :: "resolved_request \<Rightarrow> bool" where
  "iam_can_handle request \<longleftrightarrow> rr_service request = ''iam''"

definition iam_handle_request ::
    "iam_ext \<Rightarrow> form_parser \<Rightarrow> 's registry \<Rightarrow> resolved_request \<Rightarrow> 's \<Rightarrow> (api_error + service_response) \<times> 's" where
  "iam_handle_request X fp reg request s =
     (case get_query_request_action_name fp request of
        Inl error \<Rightarrow> (Inl (ApiBadRequest error), s)
      | Inr None \<Rightarrow> (Inl (ApiBadRequest missing_action), s)
      | Inr (Some action_name) \<Rightarrow>
          (case registry_handle reg action_name request s of
             Some (response, s') \<Rightarrow> (Inr response, s')
           | None \<Rightarrow> (Inr (iam_error_response X (IamUnsupportedOperation action_name)), s)))"

definition iam_action_name :: "iam_ext \<Rightarrow> form_parser \<Rightarrow> resolved_request \<Rightarrow> service_response + string" where
  "iam_action_name X fp request =
     map_err (iam_error_response X)
       (ebind (map_err IamBadRequest (get_query_request_action_name fp request)) (ok_or (IamBadRequest missing_action)))"

definition iam_service_resolve_authorization ::
    "iam_ext \<Rightarrow> form_parser \<Rightarrow> 's registry \<Rightarrow> resolved_request \<Rightarrow> 's \<Rightarrow> service_response + authorization_check" where
  "iam_service_resolve_authorization X fp reg request s =
     ebind (iam_action_name X fp request) (\<lambda>action_name.
     ebind (ok_or (iam_error_response X (IamUnsupportedOperation action_name)) (registry_get reg action_name)) (\<lambda>action.
     act_resolve_authorization action request s))"

definition iam_validate_request ::
    "iam_ext \<Rightarrow> form_parser \<Rightarrow> 's registry \<Rightarrow> resolved_request \<Rightarrow> 's \<Rightarrow> service_response + unit" where
  "iam_validate_request X fp reg request s =
     ebind (iam_action_name X fp request) (\<lambda>action_name.
     case registry_validate reg action_name request s of
       None \<Rightarrow> Inl (iam_error_response X (IamUnsupportedOperation action_name)) | Some r \<Rightarrow> r)"

definition iam_service :: "iam_ext \<Rightarrow> form_parser \<Rightarrow> iam_codec \<Rightarrow> 's iam_store \<Rightarrow> iam_env \<Rightarrow> 's service" where
  "iam_service X fp C store env =
     \<lparr>svc_can_handle = iam_can_handle, svc_handle_request = iam_handle_request X fp (iam_registry X fp C store env),
      svc_resolve_authorization = iam_service_resolve_authorization X fp (iam_registry X fp C store env),
      svc_validate_request = iam_validate_request X fp (iam_registry X fp C store env)\<rparr>"

text \<open>The authorizer reads the policies of a principal through the same store.\<close>

definition policy_reads :: "'s iam_store \<Rightarrow> 's iam_policy_store" where
  "policy_reads store =
     \<lparr>iam_inline_policies = (\<lambda>pid s. ebind (im_get_inline_policies_for_principal store pid s) (\<lambda>ps.
        Inr (map (\<lambda>p. \<lparr>ip_name = pip_policy_name p, ip_document = pip_policy_document p\<rparr>) ps))),
      iam_attached_policies = (\<lambda>pid s. ebind (im_get_managed_policies_attached_to_principal store pid s) (\<lambda>ps.
        Inr (map (\<lambda>p. \<lparr>mp_name = mpo_policy_name p, mp_document = mpo_policy_document p\<rparr>) ps)))\<rparr>"

section \<open>Identity\<close>

datatype resolve_identity_error = PrincipalStoreError store_error | PrincipalNotFound

text \<open>\<^verbatim>\<open>hiraeth_auth::AuthenticatedRequest\<close> with its \<^verbatim>\<open>AuthContext\<close>.\<close>

record authenticated_request =
  ar_request :: incoming_request
  ar_service :: string
  ar_region :: string
  ar_access_key :: string
  ar_principal_id :: int
  ar_date :: time

definition resolve_identity ::
    "'s iam_store \<Rightarrow> string \<Rightarrow> authenticated_request \<Rightarrow> 's \<Rightarrow> resolve_identity_error + resolved_request" where
  "resolve_identity store request_id request s =
     ebind (map_err PrincipalStoreError (im_get_principal store (ar_principal_id request) s)) (\<lambda>found.
     ebind (ok_or PrincipalNotFound found) (\<lambda>principal.
     Inr \<lparr>rr_request_id = request_id, rr_request = ar_request request, rr_service = ar_service request,
          rr_region = ar_region request,
          rr_auth_context = \<lparr>ac_access_key = ar_access_key request, ac_principal = principal\<rparr>,
          rr_date = ar_date request\<rparr>))"

text \<open>\<^verbatim>\<open>{:?}\<close> of a store error is derived: the parameter \<open>dbg\<close>.\<close>

fun api_of_resolve_identity_error :: "(store_error \<Rightarrow> string) \<Rightarrow> resolve_identity_error \<Rightarrow> api_error" where
  "api_of_resolve_identity_error dbg (PrincipalStoreError e) = InternalServerError (''Principal store error: '' @ dbg e)"
| "api_of_resolve_identity_error dbg PrincipalNotFound = NotAuthenticated ''Principal not found for access key''"

section \<open>Every request keeps the store well-formed\<close>

context iam_store_contract
begin

lemma action_keeps: "a \<in> set (iam_registry X fp C store env) \<Longrightarrow> inv s \<Longrightarrow> inv (snd (act_handle a req s))"
  unfolding iam_registry_def iam_actions_def iam_action_def set_simps insert_iff empty_iff
  by (elim disjE) (auto intro!: query_action_keeps handlers_keep split: prod.split)

lemma handle_request_keeps:
  assumes "inv s"
  shows "inv (snd (svc_handle_request (iam_service X fp C store env) req s))"
proof (cases "get_query_request_action_name fp req")
  case (Inr found)
  show ?thesis
  proof (cases found)
    case (Some name)
    show ?thesis
    proof (cases "registry_handle (iam_registry X fp C store env) name req s")
      case (Some rs)
      have "inv (snd rs)"
        by (rule registry_handle_keeps [where P = inv and resp = "fst rs" and s' = "snd rs"])
          (use Some action_keeps assms in auto)
      with Some Inr \<open>found = Some name\<close> show ?thesis
        by (cases rs) (simp add: iam_service_def iam_handle_request_def)
    qed (use Inr Some assms in \<open>simp add: iam_service_def iam_handle_request_def\<close>)
  qed (use Inr assms in \<open>simp add: iam_service_def iam_handle_request_def\<close>)
qed (use assms in \<open>simp add: iam_service_def iam_handle_request_def\<close>)

end

end
