(* ===== verification/Iam_Rights.thy ===== *)
theory Iam_Rights
  imports Iam_Service
begin

text \<open>
  The rights of a principal in the IAM tables: the access keys it owns, its inline policies and the
  managed policies attached to it. What each statement and each handler does to them, and what the
  authorizer makes of them.
\<close>

section \<open>Rights\<close>

type_synonym rights = "access_key list \<times> principal_inline_policy list \<times> managed_policy list"

definition attached_policies :: "int \<Rightarrow> iam_db \<Rightarrow> managed_policy list" where
  "attached_policies pid db =
     concat (map (\<lambda>a. filter (\<lambda>mp. mpo_id mp = fst a) (managed_policies db)) (filter (\<lambda>a. snd a = pid) (attachments db)))"

definition rights_of :: "int \<Rightarrow> iam_db \<Rightarrow> rights" where
  "rights_of pid db =
     (filter (\<lambda>k. ak_principal_id k = pid) (access_keys db),
      filter (\<lambda>p. pip_principal_id p = pid) (inline_policies db),
      attached_policies pid db)"

definition no_rights :: rights where "no_rights = ([], [], [])"

lemma attached_to_principal:
  "sqlite_get_managed_policies_attached_to_principal pid db = Inr (attached_policies pid db)"
proof -
  have inner: "concat (map (\<lambda>mp. if mpo_id mp = i then [mp] else []) ms) = filter (\<lambda>mp. mpo_id mp = i) ms" for i ms
    by (induction ms) auto
  have "concat (map (\<lambda>(policy, user). if user = pid then concat (map (\<lambda>mp. if mpo_id mp = policy then [mp] else []) ms) else []) as) =
      concat (map (\<lambda>a. filter (\<lambda>mp. mpo_id mp = fst a) ms) (filter (\<lambda>a. snd a = pid) as))" for as ms
    by (induction as) (auto simp: inner)
  then show ?thesis
    by (simp add: sqlite_get_managed_policies_attached_to_principal_def attached_policies_def)
qed

lemma attached_mem:
  "mp \<in> set (attached_policies pid db) \<longleftrightarrow> mp \<in> set (managed_policies db) \<and> (mpo_id mp, pid) \<in> set (attachments db)"
  by (force simp: attached_policies_def)

text \<open>Numbers that are not in use have no rights: the foreign keys hold.\<close>

lemma unused_no_rights:
  assumes "iam_inv db" "pid \<notin> p_id ` set (principals db)"
  shows "rights_of pid db = no_rights"
proof -
  have "filter (\<lambda>k. ak_principal_id k = pid) (access_keys db) = []"
    "filter (\<lambda>p. pip_principal_id p = pid) (inline_policies db) = []"
    "filter (\<lambda>a. snd a = pid) (attachments db) = []"
    using assms by (auto simp: iam_inv_def filter_empty_conv)
  then show ?thesis by (simp add: rights_of_def attached_policies_def no_rights_def)
qed

lemma principal_by_id:
  "iam_inv db \<Longrightarrow> p \<in> set (principals db) \<Longrightarrow> q \<in> set (principals db) \<Longrightarrow> p_id p = p_id q \<Longrightarrow> p = q"
  by (metis iam_inv_def distinct_map inj_onD)

lemma principal_by_key:
  "iam_inv db \<Longrightarrow> p \<in> set (principals db) \<Longrightarrow> q \<in> set (principals db) \<Longrightarrow> principal_key p = principal_key q \<Longrightarrow> p = q"
  by (metis iam_inv_def distinct_map inj_onD)

lemma managed_by_id:
  "iam_inv db \<Longrightarrow> p \<in> set (managed_policies db) \<Longrightarrow> q \<in> set (managed_policies db) \<Longrightarrow> mpo_id p = mpo_id q \<Longrightarrow> p = q"
  by (metis iam_inv_def distinct_map inj_onD)

section \<open>Statements and rights\<close>

lemma create_principal_rights:
  assumes "iam_inv db" "sqlite_create_principal UE now np db = (Inr row, db')"
  shows "rights_of pid db' = (if pid = p_id row then no_rights else rights_of pid db)"
    and "principals db' = principals db @ [row]" "principal_key row = (np_account_id np, np_kind np, np_name np)"
    "p_path row = np_path np" "p_id row \<notin> p_id ` set (principals db)" "principal_key row \<notin> principal_key ` set (principals db)"
proof -
  have new: "p_id row = next_rowid (map p_id (principals db))" "db' = db\<lparr>principals := principals db @ [row]\<rparr>"
    and fresh: "principal_key row \<notin> principal_key ` set (principals db)"
    and "principal_key row = (np_account_id np, np_kind np, np_name np)" "p_path row = np_path np"
    using assms(2) by (auto simp: sqlite_create_principal_def Let_def list_ex_iff principal_key_def split: if_splits)
  then show "principals db' = principals db @ [row]" "principal_key row = (np_account_id np, np_kind np, np_name np)"
    "p_path row = np_path np" "principal_key row \<notin> principal_key ` set (principals db)" by simp_all
  show "p_id row \<notin> p_id ` set (principals db)" using new(1) next_rowid_notin [of "map p_id (principals db)"] by simp
  then have "rights_of (p_id row) db = no_rights" by (rule unused_no_rights [OF assms(1)])
  moreover have "rights_of pid db' = rights_of pid db" using new(2) by (simp add: rights_of_def attached_policies_def)
  ultimately show "rights_of pid db' = (if pid = p_id row then no_rights else rights_of pid db)" by simp
qed

lemma delete_principals_rights:
  "rights_of pid (delete_principals sel db) =
     (if \<exists>p\<in>set (principals db). sel p \<and> p_id p = pid then no_rights else rights_of pid db)"
proof -
  let ?gone = "p_id ` {p \<in> set (principals db). sel p}"
  have keep: "filter (\<lambda>x. f x = pid) (filter (\<lambda>x. f x \<notin> ?gone) xs) = (if pid \<in> ?gone then [] else filter (\<lambda>x. f x = pid) xs)"
    for f :: "'a \<Rightarrow> int" and xs by (induction xs) auto
  have att: "filter (\<lambda>(_, user). user \<notin> ?gone) xs = filter (\<lambda>a. snd a \<notin> ?gone) xs" for xs :: "(int \<times> int) list"
    by (rule filter_cong) auto
  have "(\<exists>p\<in>set (principals db). sel p \<and> p_id p = pid) \<longleftrightarrow> pid \<in> ?gone" by auto
  then show ?thesis
    unfolding rights_of_def attached_policies_def delete_principals_def Let_def no_rights_def
    by (simp add: keep att del: filter_filter)
qed

lemma insert_secret_key_rights:
  assumes "sqlite_insert_secret_key UE now key secret owner db = (r, db')" "pid \<noteq> owner"
  shows "rights_of pid db' = rights_of pid db"
  using assms by (auto simp: sqlite_insert_secret_key_def Let_def rights_of_def attached_policies_def split: if_splits)

lemma put_inline_policy_rights:
  assumes "sqlite_put_inline_policy UE now owner name document db = (r, db')" "pid \<noteq> owner"
  shows "rights_of pid db' = rights_of pid db"
proof -
  have "filter (\<lambda>p. pip_principal_id p = pid) (map (\<lambda>p. if inline_policy_key p = (owner, name) then row else p) xs) =
      filter (\<lambda>p. pip_principal_id p = pid) xs" if "pip_principal_id row = owner" for row xs
    using that assms(2) by (induction xs) (auto simp: inline_policy_key_def)
  moreover have "old \<in> set (inline_policies db) \<and> pip_principal_id old = owner"
    if "find (\<lambda>p. inline_policy_key p = (owner, name)) (inline_policies db) = Some old" for old
    using that by (auto simp: find_Some_iff inline_policy_key_def)
  ultimately show ?thesis
    using assms by (auto simp: sqlite_put_inline_policy_def Let_def rights_of_def attached_policies_def split: if_splits option.splits)
qed

lemma insert_managed_policy_rights:
  assumes "iam_inv db" "sqlite_insert_managed_policy UE now np db = (r, db')"
  shows "rights_of pid db' = rights_of pid db"
proof -
  have "fst ` set (attachments db) \<subseteq> mpo_id ` set (managed_policies db)" using assms(1) by (simp add: iam_inv_def)
  then have fresh: "a \<in> set (attachments db) \<Longrightarrow> fst a \<noteq> next_rowid (map mpo_id (managed_policies db))" for a
    using next_rowid_notin [of "map mpo_id (managed_policies db)"] by (metis image_subset_iff list.set_map)
  have "map (\<lambda>a. filter (\<lambda>mp. mpo_id mp = fst a) (managed_policies db @ [row])) (filter (\<lambda>a. snd a = pid) (attachments db)) =
      map (\<lambda>a. filter (\<lambda>mp. mpo_id mp = fst a) (managed_policies db)) (filter (\<lambda>a. snd a = pid) (attachments db))"
    if "mpo_id row = next_rowid (map mpo_id (managed_policies db))" for row
    using that fresh by (intro map_cong) (auto dest: sym)
  then have "rights_of pid (db\<lparr>managed_policies := managed_policies db @ [row]\<rparr>) = rights_of pid db"
    if "mpo_id row = next_rowid (map mpo_id (managed_policies db))" for row
    unfolding rights_of_def attached_policies_def using that by (simp del: filter_append filter.simps map_eq_conv)
  with assms(2) show ?thesis
    by (auto simp: sqlite_insert_managed_policy_def Let_def split: if_splits)
qed

lemma attach_rights:
  assumes "iam_inv db" "pol \<in> set (managed_policies db)" "sqlite_attach_policy_to_principal UE (mpo_id pol) owner db = (Inr u, db')"
  shows "rights_of pid db' = (if pid = owner then (case rights_of pid db of (ks, ips, mps) \<Rightarrow> (ks, ips, mps @ [pol])) else rights_of pid db)"
proof -
  have "filter (\<lambda>mp. mpo_id mp = mpo_id pol) (managed_policies db) = [pol]"
    using assms(1,2) by (intro filter_key) (simp_all add: iam_inv_def)
  then show ?thesis using assms(3)
    by (auto simp: sqlite_attach_policy_to_principal_def rights_of_def attached_policies_def split: if_splits)
qed

lemma attach_error_rights: "sqlite_attach_policy_to_principal UE i owner db = (Inl e, db') \<Longrightarrow> db' = db"
  by (auto simp: sqlite_attach_policy_to_principal_def split: if_splits)

lemma detach_rights:
  assumes "sqlite_detach_policy_from_principal i owner db = (r, db')" "pid \<noteq> owner"
  shows "rights_of pid db' = rights_of pid db"
proof -
  have "filter (\<lambda>a. snd a = pid) (filter (\<lambda>a. a \<noteq> (i, owner)) xs) = filter (\<lambda>a. snd a = pid) xs" for xs
    using assms(2) by (induction xs) auto
  with assms(1) show ?thesis
    by (auto simp: sqlite_detach_policy_from_principal_def rights_of_def attached_policies_def split: if_splits simp del: filter_filter)
qed

lemma delete_managed_policy_rights:
  assumes "iam_inv db" "sqlite_delete_managed_policy account name path db = (r, db')" "rights_of pid db' \<noteq> rights_of pid db"
  shows "\<exists>mp. mp \<in> set (attached_policies pid db) \<and> managed_policy_key mp = (account, name, Some path)"
proof (rule ccontr)
  let ?sel = "\<lambda>p. managed_policy_key p = (account, name, Some path)"
  let ?gone = "mpo_id ` {p \<in> set (managed_policies db). ?sel p}"
  assume none: "\<nexists>mp. mp \<in> set (attached_policies pid db) \<and> managed_policy_key mp = (account, name, Some path)"
  then have free: "fst a \<notin> ?gone" if "a \<in> set (attachments db)" "snd a = pid" for a
    using that by (cases a) (auto simp: attached_mem)
  then have "filter (\<lambda>a. snd a = pid) (filter (\<lambda>(policy, _). policy \<notin> ?gone) (attachments db)) = filter (\<lambda>a. snd a = pid) (attachments db)"
    by (subst filter_filter, intro filter_cong) force+
  moreover have "filter (\<lambda>mp. mpo_id mp = fst a) (filter (\<lambda>p. \<not> ?sel p) (managed_policies db)) =
      filter (\<lambda>mp. mpo_id mp = fst a) (managed_policies db)" if "a \<in> set (attachments db)" "snd a = pid" for a
    using free [OF that] by (subst filter_filter, intro filter_cong refl)
      (metis (mono_tags, lifting) image_eqI mem_Collect_eq)
  ultimately have "rights_of pid db' = rights_of pid db"
    using assms(2) by (auto simp: sqlite_delete_managed_policy_def Let_def rights_of_def attached_policies_def
        split: if_splits simp del: filter_filter intro!: arg_cong [where f = concat] map_cong)
  with assms(3) show False by simp
qed

end
