(* ===== verification/Iam_Laws.thy ===== *)
theory Iam_Laws
  imports Iam_Rights
begin

text \<open>
  What the IAM actions do on the SQLite store: users come without rights and go with all of theirs,
  policies decide from the moment they are put or attached, and policies read back.
\<close>

section \<open>The store and the authorizer\<close>

abbreviation iam_sqlite :: "sqlite_texts \<Rightarrow> time \<Rightarrow> iam_db iam_store" where
  "iam_sqlite \<equiv> sqlite_iam_store"

lemma sqlite_iam_ops [simp]:
  "im_get_secret_key (sqlite_iam_store UE now) = sqlite_get_secret_key"
  "im_insert_secret_key (sqlite_iam_store UE now) = sqlite_insert_secret_key UE now"
  "im_list_access_keys_for_principal (sqlite_iam_store UE now) = sqlite_list_access_keys_for_principal"
  "im_get_principal (sqlite_iam_store UE now) = sqlite_get_principal"
  "im_get_principal_by_identity (sqlite_iam_store UE now) = sqlite_get_principal_by_identity"
  "im_create_principal (sqlite_iam_store UE now) = sqlite_create_principal UE now"
  "im_delete_user (sqlite_iam_store UE now) = sqlite_delete_user"
  "im_get_inline_policies_for_principal (sqlite_iam_store UE now) = sqlite_get_inline_policies_for_principal"
  "im_put_inline_policy (sqlite_iam_store UE now) = sqlite_put_inline_policy UE now"
  "im_get_principal_policy (sqlite_iam_store UE now) = sqlite_get_principal_policy"
  "im_insert_managed_policy (sqlite_iam_store UE now) = sqlite_insert_managed_policy UE now"
  "im_get_managed_policy (sqlite_iam_store UE now) = sqlite_get_managed_policy"
  "im_attach_policy_to_principal (sqlite_iam_store UE now) = sqlite_attach_policy_to_principal UE"
  "im_detach_policy_from_principal (sqlite_iam_store UE now) = sqlite_detach_policy_from_principal"
  "im_delete_managed_policy (sqlite_iam_store UE now) = sqlite_delete_managed_policy"
  "im_get_managed_policies_attached_to_principal (sqlite_iam_store UE now) = sqlite_get_managed_policies_attached_to_principal"
  by (simp_all add: sqlite_iam_store_def)

definition find_user :: "string \<Rightarrow> string \<Rightarrow> iam_db \<Rightarrow> principal_row option" where
  "find_user account name db = find (\<lambda>p. principal_key p = (account, ''user'', name)) (principals db)"

lemma sqlite_find_user: "sqlite_get_principal_by_identity account ''user'' name db = Inr (find_user account name db)"
  by (simp add: sqlite_get_principal_by_identity_def find_user_def principal_key_def)

lemma find_user_Some:
  "find_user account name db = Some p \<Longrightarrow> p \<in> set (principals db) \<and> p_account_id p = account \<and> p_kind p = ''user'' \<and> p_name p = name"
  by (auto simp: find_user_def find_Some_iff principal_key_def)

lemma load_user_sqlite:
  "load_user (sqlite_iam_store UE now) request name message db =
     ok_or (NoSuchEntity message) (find_user (req_account request) name db)"
  by (simp add: load_user_def sqlite_find_user)

definition find_policy :: "policy_arn_parts \<Rightarrow> iam_db \<Rightarrow> managed_policy option" where
  "find_policy parts db =
     find (\<lambda>p. managed_policy_key p = (pa_account_id parts, pa_policy_name parts, Some (pa_policy_path parts))) (managed_policies db)"

lemma load_managed_policy_sqlite:
  "load_managed_policy (sqlite_iam_store UE now) parts arn db = ok_or (policy_missing arn) (find_policy parts db)"
  by (simp add: load_managed_policy_def sqlite_get_managed_policy_def find_policy_def)

lemma find_policy_in: "find_policy parts db = Some pol \<Longrightarrow> pol \<in> set (managed_policies db)"
  by (auto simp: find_policy_def find_Some_iff)

text \<open>The decision depends on the tables only through the rights of the caller.\<close>

abbreviation caller_id :: "resolved_request \<Rightarrow> int" where
  "caller_id req \<equiv> p_id (ac_principal (rr_auth_context req))"

definition documents_of :: "rights \<Rightarrow> string list" where
  "documents_of r = (case r of (_, ips, mps) \<Rightarrow> map pip_policy_document ips @ map mpo_policy_document mps)"

abbreviation sqlite_decision ::
    "ext \<Rightarrow> sqlite_texts \<Rightarrow> time \<Rightarrow> resolved_request \<Rightarrow> authorization_check \<Rightarrow> iam_db \<Rightarrow> policy_eval_result" where
  "sqlite_decision E UE now \<equiv> evaluate_request E (policy_reads (sqlite_iam_store UE now))"

lemma sqlite_decision_eq:
  "sqlite_decision E UE now req check db =
     combine_policy_results (map (document_decision E check) (documents_of (rights_of (caller_id req) db)) @
       [resource_decision E req check])"
  by (simp add: evaluate_request_eq policy_reads_def sqlite_get_inline_policies_for_principal_def attached_to_principal
      all_decisions_def documents_of_def rights_of_def comp_def)

lemma combine_insert:
  "set ys = insert d (set xs) \<Longrightarrow> combine_policy_results ys = combine_two_policies d (combine_policy_results xs)"
  by (cases d) (auto simp: combine_policy_results_eq)

section \<open>A small database\<close>

definition demo_iam_ext :: iam_ext where
  "demo_iam_ext =
     \<lparr>ix_xml_error = (\<lambda>t c m. Inr c), ix_json_is_object = (\<lambda>_. Inr True), ix_rfc3339 = (\<lambda>_. ''1970-01-01T00:00:00Z'')\<rparr>"

definition demo_iam_db :: iam_db where
  "demo_iam_db = (migrated_iam_db ''AIDA'' 0)
     \<lparr>inline_policies := [\<lparr>pip_id = 1, pip_principal_id = 1, pip_policy_name = ''admin'', pip_policy_document = ''d'',
        pip_created_at = 0, pip_updated_at = 0\<rparr>],
      managed_policies := [\<lparr>mpo_id = 1, mpo_policy_id = ''AIDA2'', mpo_account_id = ''000000000000'', mpo_policy_name = ''read'',
        mpo_policy_path = Some ''/'', mpo_policy_document = ''d'', mpo_created_at = 0, mpo_updated_at = 0\<rparr>]\<rparr>"

lemma demo_iam_inv: "iam_inv demo_iam_db"
  by (simp add: iam_inv_def demo_iam_db_def migrated_iam_db_def)

lemmas demo_iam = demo_iam_db_def migrated_iam_db_def demo_request_def principal_key_def find_user_def find_policy_def
  iam_reply_def load_user_sqlite load_managed_policy_sqlite managed_policy_key_def inline_policy_key_def

lemma demo_policy_arn:
  "parse_policy_arn ''arn:aws:iam::000000000000:policy/read'' =
     Inr \<lparr>pa_account_id = ''000000000000'', pa_policy_path = ''/'', pa_policy_name = ''read''\<rparr>"
  by (simp add: parse_policy_arn_def)

lemma demo_create_user:
  "\<exists>resp db'. handle_create_user demo_iam_ext (sqlite_iam_store demo_texts 0) ''f0'' (demo_request ''iam'')
     \<lparr>cu_user_name = ''bob'', cu_path = ''/'', cu_permissions_boundary = None\<rparr> (migrated_iam_db ''AIDA'' 0) = (Inr resp, db')"
  by (simp add: handle_create_user_def sqlite_create_principal_def sbind_def smap_err_def Let_def demo_iam new_id_def
      ascii_upper_def byte_def)

lemma demo_attach:
  "handle_attach_user_policy (sqlite_iam_store demo_texts 0) (demo_request ''iam'') ''test''
     ''arn:aws:iam::000000000000:policy/read'' demo_iam_db =
   (Inr (iam_reply (demo_request ''iam'') ()), demo_iam_db\<lparr>attachments := [(1, 1)]\<rparr>)"
  by (simp add: handle_attach_user_policy_def demo_policy_arn sqlite_attach_policy_to_principal_def sbind_def smap_err_def
      demo_iam principal_exists_def managed_policy_exists_def)

lemma demo_put:
  "\<exists>resp db'. handle_put_user_policy (sqlite_iam_store demo_texts 0) (demo_request ''iam'')
     \<lparr>pu_user_name = ''test'', pu_policy_name = ''admin'', pu_policy_document = ''none''\<rparr> demo_iam_db = (Inr resp, db')"
  by (simp add: handle_put_user_policy_def sqlite_put_inline_policy_def sbind_def smap_err_def Let_def demo_iam)

lemma demo_create_policy:
  "\<exists>resp db'. handle_create_policy demo_iam_ext (sqlite_iam_store demo_texts 0) ''f0'' (demo_request ''iam'')
     \<lparr>cp_path = None, cp_policy_document = ''{}'', cp_policy_name = ''write''\<rparr> demo_iam_db = (Inr resp, db')"
  by (simp add: handle_create_policy_def sqlite_insert_managed_policy_def sbind_def smap_err_def Let_def demo_iam new_id_def
      normalize_policy_path_def ascii_upper_def byte_def)

lemma demo_delete_user:
  "\<exists>r db'. handle_delete_user (sqlite_iam_store demo_texts 0) (demo_request ''iam'') ''test'' demo_iam_db = (r, db')"
  by (metis surj_pair)

section \<open>Users\<close>

text \<open>
  A user that CreateUser made has no access keys, no inline policies and no attached policies, even
  when its number belonged to a user that was deleted; the response describes the row that is found
  under its name, its path is the normalized one, and nobody else's rights change.
\<close>

theorem created_user_has_no_rights:
  assumes "iam_reachable UE db"
    and "handle_create_user X (sqlite_iam_store UE now) uuid request payload db = (Inr resp, db')"
  shows "\<exists>row. find_user (req_account request) (cu_user_name payload) db' = Some row \<and>
    resp = iam_reply request (user_xml X row) \<and> p_path row = normalize_user_path (cu_path payload) \<and>
    rights_of pid db' = (if pid = p_id row then no_rights else rights_of pid db)"
proof -
  have inv: "iam_inv db" using assms(1) by (rule iam_reachable_inv)
  let ?np = "\<lparr>np_account_id = req_account request, np_kind = ''user'', np_name = cu_user_name payload,
    np_path = normalize_user_path (cu_path payload), np_user_id = new_id uuid\<rparr>"
  from assms(2) obtain row where made: "sqlite_create_principal UE now ?np db = (Inr row, db')"
    and resp: "resp = iam_reply request (user_xml X row)"
    by (auto simp: handle_create_user_def result_simps)
  note new = create_principal_rights [OF inv made]
  have "find (\<lambda>p. principal_key p = principal_key row) (principals db) = None" using new(6) by (simp only: find_key_None not_False_eq_True)
  then have "find (\<lambda>p. principal_key p = principal_key row) (principals db') = Some row" by (simp add: new(2) find_key_append)
  then have "find_user (req_account request) (cu_user_name payload) db' = Some row"
    by (simp add: find_user_def new(3))
  with resp new(1,4) show ?thesis by auto
qed

theorem created_user_has_no_rights_witness:
  "\<exists>db' row. find_user ''000000000000'' ''bob'' db' = Some row \<and> rights_of (p_id row) db' = no_rights"
proof -
  obtain resp db' where run: "handle_create_user demo_iam_ext (sqlite_iam_store demo_texts 0) ''f0'' (demo_request ''iam'')
     \<lparr>cu_user_name = ''bob'', cu_path = ''/'', cu_permissions_boundary = None\<rparr> (migrated_iam_db ''AIDA'' 0) = (Inr resp, db')"
    using demo_create_user by blast
  obtain row where row: "find_user (req_account (demo_request ''iam'')) ''bob'' db' = Some row"
    using created_user_has_no_rights [OF iam_reachable.start run] by auto
  with created_user_has_no_rights [OF iam_reachable.start run, of "p_id row"]
  have "rights_of (p_id row) db' = no_rights" by auto
  with row show ?thesis by (auto simp: demo_request_def)
qed

lemma delete_user_effect:
  assumes "iam_inv db" "find_user (req_account request) name db = Some p"
    and "handle_delete_user (sqlite_iam_store UE now) request name db = (r, db')"
  shows "r = Inr (iam_reply request ()) \<and> principals db' = filter (\<lambda>q. q \<noteq> p) (principals db) \<and>
    rights_of pid db' = (if pid = p_id p then no_rights else rights_of pid db) \<and>
    (\<forall>k\<in>set (fst (rights_of (p_id p) db)). sqlite_get_secret_key (ak_key_id k) db' = Inr None)"
proof -
  let ?sel = "\<lambda>q. p_kind q = ''user'' \<and> p_account_id q = req_account request \<and> p_name q = name"
  have p: "p \<in> set (principals db)" "?sel p" using find_user_Some [OF assms(2)] by auto
  then have sel: "?sel q \<longleftrightarrow> q = p" if "q \<in> set (principals db)" for q
    using principal_by_key [OF assms(1) that p(1)] by (auto simp: principal_key_def)
  have "list_ex ?sel (principals db)" using p by (auto simp: list_ex_iff)
  with assms(3) have r: "r = Inr (iam_reply request ())" and db': "db' = delete_principals ?sel db"
    by (auto simp: handle_delete_user_def sqlite_delete_user_def Let_def sbind_def smap_err_def)
  have "(\<exists>q\<in>set (principals db). ?sel q \<and> p_id q = pid) \<longleftrightarrow> pid = p_id p" using sel p by auto
  then have rights: "rights_of pid db' = (if pid = p_id p then no_rights else rights_of pid db)"
    by (simp add: db' delete_principals_rights)
  have rows: "principals db' = filter (\<lambda>q. q \<noteq> p) (principals db)"
    using sel by (auto simp: db' delete_principals_def Let_def intro!: filter_cong)
  have "set (map p_id (filter ?sel (principals db))) = {p_id p}" using sel p by auto
  then have keys: "access_keys db' = filter (\<lambda>k. ak_principal_id k \<noteq> p_id p) (access_keys db)"
    by (simp add: db' delete_principals_def)
  have dist: "distinct (map ak_key_id (access_keys db))" using assms(1) by (simp add: iam_inv_def)
  have "find (\<lambda>k'. ak_key_id k' = ak_key_id k) (access_keys db') = None"
    if "k \<in> set (access_keys db)" "ak_principal_id k = p_id p" for k
    using that find_key_Some [OF dist, of "ak_key_id k" k] by (simp add: keys find_key_filter [OF dist])
  with r rights rows show ?thesis by (auto simp: rights_of_def sqlite_get_secret_key_def)
qed

text \<open>
  C29. DeleteUser takes everything of the user with it: the row is gone, its access keys are no longer
  found, it has no policies left; every other row and everybody else's rights stay.
\<close>

theorem deleted_user_is_gone:
  assumes "iam_inv db" "find_user (req_account request) name db = Some p"
    and "handle_delete_user (sqlite_iam_store UE now) request name db = (r, db')"
  shows "r = Inr (iam_reply request ()) \<and> principals db' = filter (\<lambda>q. q \<noteq> p) (principals db) \<and>
    rights_of pid db' = (if pid = p_id p then no_rights else rights_of pid db) \<and>
    (\<forall>k\<in>set (fst (rights_of (p_id p) db)). sqlite_get_secret_key (ak_key_id k) db' = Inr None)"
  by (rule delete_user_effect [OF assms])

theorem deleted_user_is_gone_witness:
  "\<exists>db'. principals db' = [] \<and> rights_of 1 db' = no_rights \<and> sqlite_get_secret_key ''test'' db' = Inr None"
proof -
  obtain r db' where run: "handle_delete_user (sqlite_iam_store demo_texts 0) (demo_request ''iam'') ''test'' demo_iam_db = (r, db')"
    using demo_delete_user by blast
  have user: "find_user (req_account (demo_request ''iam'')) ''test'' demo_iam_db = Some (ac_principal (rr_auth_context (demo_request ''iam'')))"
    by (simp add: demo_iam current_timestamp_def seconds_def)
  from deleted_user_is_gone [OF demo_iam_inv user run, of 1] show ?thesis
    by (intro exI [of _ db']) (simp add: demo_iam rights_of_def current_timestamp_def seconds_def)
qed

section \<open>Attachments\<close>

lemma attach_user_policy_run:
  assumes "handle_attach_user_policy (sqlite_iam_store UE now) request name arn db = (Inr resp, db')"
  obtains user parts pol where "find_user (req_account request) name db = Some user" "parse_policy_arn arn = Inr parts"
    "pa_account_id parts = req_account request" "find_policy parts db = Some pol" "resp = iam_reply request ()"
    "sqlite_attach_policy_to_principal UE (mpo_id pol) (p_id user) db = (Inr (), db')"
  using assms by (auto simp: handle_attach_user_policy_def load_user_sqlite load_managed_policy_sqlite result_simps
      split: sum.splits option.splits if_splits)

text \<open>
  C16. An attached policy decides from the next request on: the decision for the user is the one before
  combined with that of the document, for every action and resource; other callers see no change.
\<close>

theorem attached_policy_decides:
  assumes "iam_inv db" "handle_attach_user_policy (sqlite_iam_store UE now) request name arn db = (Inr resp, db')"
  shows "\<exists>user parts pol. find_user (req_account request) name db = Some user \<and> parse_policy_arn arn = Inr parts \<and>
    find_policy parts db = Some pol \<and>
    sqlite_decision E UE now req check db' =
      (if caller_id req = p_id user
       then combine_two_policies (document_decision E check (mpo_policy_document pol)) (sqlite_decision E UE now req check db)
       else sqlite_decision E UE now req check db)"
proof -
  from assms(2) obtain user parts pol where run: "find_user (req_account request) name db = Some user"
    "parse_policy_arn arn = Inr parts" "find_policy parts db = Some pol"
    "sqlite_attach_policy_to_principal UE (mpo_id pol) (p_id user) db = (Inr (), db')"
    by (rule attach_user_policy_run)
  note rights = attach_rights [OF assms(1) find_policy_in [OF run(3)] run(4)]
  have "sqlite_decision E UE now req check db' =
      (if caller_id req = p_id user
       then combine_two_policies (document_decision E check (mpo_policy_document pol)) (sqlite_decision E UE now req check db)
       else sqlite_decision E UE now req check db)"
  proof (cases "caller_id req = p_id user")
    case True
    obtain ks ips mps where before: "rights_of (caller_id req) db = (ks, ips, mps)" by (cases "rights_of (caller_id req) db") auto
    then have "rights_of (caller_id req) db' = (ks, ips, mps @ [pol])" using True rights by simp
    with before True show ?thesis
      by (simp add: sqlite_decision_eq documents_of_def) (rule combine_insert, auto)
  qed (simp add: sqlite_decision_eq rights)
  with run show ?thesis by blast
qed

theorem attached_policy_decides_witness:
  "sqlite_decision demo_ext demo_texts 0 (demo_request ''sqs'') \<lparr>chk_action = ''a'', chk_resource = ''r'', chk_resource_policy = None\<rparr>
     (demo_iam_db\<lparr>attachments := [(1, 1)]\<rparr>) =
   combine_two_policies (document_decision demo_ext \<lparr>chk_action = ''a'', chk_resource = ''r'', chk_resource_policy = None\<rparr> ''d'')
     (sqlite_decision demo_ext demo_texts 0 (demo_request ''sqs'') \<lparr>chk_action = ''a'', chk_resource = ''r'', chk_resource_policy = None\<rparr> demo_iam_db)"
  using attached_policy_decides [OF demo_iam_inv demo_attach, of demo_ext "demo_request ''sqs''"
      "\<lparr>chk_action = ''a'', chk_resource = ''r'', chk_resource_policy = None\<rparr>"]
  by (auto simp: demo_iam demo_policy_arn split: if_splits)

text \<open>
  DetachUserPolicy undoes AttachUserPolicy: after a successful attachment it succeeds and the tables
  are what they were.
\<close>

theorem detach_undoes_attach:
  assumes "handle_attach_user_policy (sqlite_iam_store UE now) request name arn db = (Inr resp, db')"
  shows "handle_detach_user_policy (sqlite_iam_store UE now') request name arn db' = (Inr resp, db)"
proof -
  from assms obtain user parts pol where run: "find_user (req_account request) name db = Some user"
    "parse_policy_arn arn = Inr parts" "pa_account_id parts = req_account request" "find_policy parts db = Some pol"
    "resp = iam_reply request ()" "sqlite_attach_policy_to_principal UE (mpo_id pol) (p_id user) db = (Inr (), db')"
    by (rule attach_user_policy_run)
  then have new: "(mpo_id pol, p_id user) \<notin> set (attachments db)"
    and db': "db' = db\<lparr>attachments := attachments db @ [(mpo_id pol, p_id user)]\<rparr>"
    by (auto simp: sqlite_attach_policy_to_principal_def split: if_splits)
  have "find_user (req_account request) name db' = Some user" "find_policy parts db' = Some pol"
    using run by (simp_all add: db' find_user_def find_policy_def)
  moreover have "filter (\<lambda>a. a \<noteq> (mpo_id pol, p_id user)) (attachments db) = attachments db"
    using new by (auto simp: filter_id_conv)
  then have "sqlite_detach_policy_from_principal (mpo_id pol) (p_id user) db' = (Inr (), db)"
    by (simp add: db' sqlite_detach_policy_from_principal_def)
  ultimately show ?thesis using run
    by (simp add: handle_detach_user_policy_def load_user_sqlite load_managed_policy_sqlite sbind_def smap_err_def)
qed

theorem detach_undoes_attach_witness:
  "handle_detach_user_policy (sqlite_iam_store demo_texts 5) (demo_request ''iam'') ''test'' ''arn:aws:iam::000000000000:policy/read''
     (demo_iam_db\<lparr>attachments := [(1, 1)]\<rparr>) = (Inr (iam_reply (demo_request ''iam'') ()), demo_iam_db)"
  by (rule detach_undoes_attach [OF demo_attach])

section \<open>Inline policies\<close>

lemma put_inline_policy_row:
  assumes "iam_inv db" "sqlite_put_inline_policy UE now owner name document db = (Inr row, db')"
  shows "inline_policy_key row = (owner, name)" "pip_policy_document row = document"
    "set (inline_policies db') = insert row {p \<in> set (inline_policies db). inline_policy_key p \<noteq> (owner, name)}"
    "db' = db\<lparr>inline_policies := inline_policies db'\<rparr>"
proof -
  show "inline_policy_key row = (owner, name)" "pip_policy_document row = document" "db' = db\<lparr>inline_policies := inline_policies db'\<rparr>"
    using assms(2) by (auto simp: sqlite_put_inline_policy_def Let_def inline_policy_key_def find_Some_iff split: option.splits if_splits)
  show "set (inline_policies db') = insert row {p \<in> set (inline_policies db). inline_policy_key p \<noteq> (owner, name)}"
  proof (cases "find (\<lambda>p. inline_policy_key p = (owner, name)) (inline_policies db)")
    case None
    then have "\<forall>p\<in>set (inline_policies db). inline_policy_key p \<noteq> (owner, name)" by (auto simp: find_None_iff)
    with None show ?thesis using assms(2) by (auto simp: sqlite_put_inline_policy_def Let_def split: if_splits)
  next
    case (Some old)
    then have "old \<in> set (inline_policies db)" "inline_policy_key old = (owner, name)" by (auto simp: find_Some_iff)
    with Some show ?thesis using assms(2) by (auto simp: sqlite_put_inline_policy_def Let_def)
  qed
qed

definition without_inline :: "string \<Rightarrow> rights \<Rightarrow> rights" where
  "without_inline name r = (case r of (ks, ips, mps) \<Rightarrow> (ks, filter (\<lambda>p. pip_policy_name p \<noteq> name) ips, mps))"

text \<open>
  C17. PutUserPolicy: the policy reads back under its name, and the decision for the user is that of the
  document combined with the other policies of the user, whether the name was new or replaced an older
  document; other callers see no change.
\<close>

theorem put_policy_decides:
  assumes "iam_inv db" "handle_put_user_policy (sqlite_iam_store UE now) request payload db = (Inr resp, db')"
  shows "\<exists>user. find_user (req_account request) (pu_user_name payload) db = Some user \<and>
    handle_get_user_policy (sqlite_iam_store UE now) request (pu_user_name payload) (pu_policy_name payload) db' =
      (Inr (iam_reply request (pu_user_name payload, pu_policy_name payload, pu_policy_document payload)), db') \<and>
    sqlite_decision E UE now req check db' =
      (if caller_id req = p_id user
       then combine_two_policies (document_decision E check (pu_policy_document payload))
              (combine_policy_results (map (document_decision E check)
                 (documents_of (without_inline (pu_policy_name payload) (rights_of (caller_id req) db))) @ [resource_decision E req check]))
       else sqlite_decision E UE now req check db)"
proof -
  let ?name = "pu_policy_name payload" and ?doc = "pu_policy_document payload"
  from assms(2) obtain user row where user: "find_user (req_account request) (pu_user_name payload) db = Some user"
    and put: "sqlite_put_inline_policy UE now (p_id user) ?name ?doc db = (Inr row, db')"
    by (auto simp: handle_put_user_policy_def load_user_sqlite result_simps split: sum.splits option.splits)
  note row = put_inline_policy_row [OF assms(1) put]
  have inv': "iam_inv db'" using keepsD [OF inv_put_inline_policy assms(1)] put by (metis snd_conv)
  then have dist: "distinct (map inline_policy_key (inline_policies db'))" by (simp add: iam_inv_def)
  have found: "find (\<lambda>p. inline_policy_key p = (p_id user, ?name)) (inline_policies db') = Some row"
    using find_key_Some [OF dist, of "(p_id user, ?name)" row] row by simp
  have "principals db' = principals db" using arg_cong [OF row(4), of principals] by simp
  then have "find_user (req_account request) (pu_user_name payload) db' = Some user" using user by (simp add: find_user_def)
  then have reads: "handle_get_user_policy (sqlite_iam_store UE now) request (pu_user_name payload) ?name db' =
      (Inr (iam_reply request (pu_user_name payload, ?name, ?doc)), db')"
    using found row(1,2) find_user_Some [OF user]
    by (simp add: handle_get_user_policy_def load_user_sqlite sqlite_get_principal_policy_def inline_policy_key_def)
  have decision: "sqlite_decision E UE now req check db' = combine_two_policies (document_decision E check ?doc)
      (combine_policy_results (map (document_decision E check)
         (documents_of (without_inline ?name (rights_of (caller_id req) db))) @ [resource_decision E req check]))"
    if "caller_id req = p_id user"
  proof -
    have att: "attached_policies pid db' = attached_policies pid db" for pid
      using arg_cong [OF row(4), of attachments] arg_cong [OF row(4), of managed_policies]
      by (simp add: attached_policies_def)
    have "set (filter (\<lambda>p. pip_principal_id p = p_id user) (inline_policies db')) =
        insert row (set (filter (\<lambda>p. pip_policy_name p \<noteq> ?name) (filter (\<lambda>p. pip_principal_id p = p_id user) (inline_policies db))))"
      using row(1,3) by (auto simp: inline_policy_key_def)
    then show ?thesis unfolding sqlite_decision_eq that
      by (intro combine_insert) (simp add: att documents_of_def without_inline_def rights_of_def row(2) image_Un insert_commute)
  qed
  have "sqlite_decision E UE now req check db' = sqlite_decision E UE now req check db" if "caller_id req \<noteq> p_id user"
    using that put_inline_policy_rights [OF put] by (simp add: sqlite_decision_eq)
  with user reads decision show ?thesis by auto
qed

theorem put_policy_decides_witness:
  "\<exists>db'. fst (handle_get_user_policy (sqlite_iam_store demo_texts 0) (demo_request ''iam'') ''test'' ''admin'' db') =
     Inr (iam_reply (demo_request ''iam'') (''test'', ''admin'', ''none''))"
proof -
  obtain resp db' where run: "handle_put_user_policy (sqlite_iam_store demo_texts 0) (demo_request ''iam'')
     \<lparr>pu_user_name = ''test'', pu_policy_name = ''admin'', pu_policy_document = ''none''\<rparr> demo_iam_db = (Inr resp, db')"
    using demo_put by blast
  from put_policy_decides [OF demo_iam_inv run, of demo_ext "demo_request ''iam''" "\<lparr>chk_action = [], chk_resource = [], chk_resource_policy = None\<rparr>"]
  have "handle_get_user_policy (sqlite_iam_store demo_texts 0) (demo_request ''iam'') ''test'' ''admin'' db' =
     (Inr (iam_reply (demo_request ''iam'') (''test'', ''admin'', ''none'')), db')" by (elim exE conjE) simp
  then show ?thesis by (intro exI [of _ db']) simp
qed

section \<open>Managed policies\<close>

text \<open>A path as IAM prints it: nothing to trim, a slash at either end and no run of slashes there.\<close>

definition canonical_path :: "string \<Rightarrow> bool" where
  "canonical_path p \<longleftrightarrow> trim p = p \<and> starts_with ''/'' p \<and> ends_with ''/'' p \<and> normalize_user_path p = p"

lemma canonical_path_normal: "canonical_path p \<Longrightarrow> normalize_policy_path (Some p) = p"
  by (auto simp: canonical_path_def normalize_policy_path_def Let_def starts_with_iff)

lemma parse_policy_arn_policy_arn:
  assumes "canonical_path path" "CHR '':'' \<notin> set account" "CHR '':'' \<notin> set path" "CHR '':'' \<notin> set name"
    and "CHR ''/'' \<notin> set name" "name \<noteq> []"
  shows "parse_policy_arn (policy_arn account path name) =
    Inr \<lparr>pa_account_id = account, pa_policy_path = path, pa_policy_name = name\<rparr>"
proof -
  from assms(1) have "starts_with ''/'' path" "ends_with ''/'' path" and norm: "normalize_user_path path = path"
    by (simp_all add: canonical_path_def)
  then obtain t u where tu: "path = ''/'' @ t" "path = u @ ''/''" using starts_with_iff ends_with_iff by blast
  have arn: "split_all (CHR '':'') (policy_arn account path name) = [''arn'', ''aws'', ''iam'', [], account, ''policy'' @ path @ name]"
    using assms(2-4) by (simp add: policy_arn_def norm)
  show ?thesis
  proof (cases u)
    case Nil
    then have "path = ''/''" using tu by simp
    with assms(5,6) show ?thesis unfolding parse_policy_arn_def arn Let_def by simp
  next
    case (Cons x q)
    with tu have path: "path = CHR ''/'' # q @ ''/''" by simp
    have "split_all (CHR ''/'') (''policy'' @ path @ name) = ''policy'' # split_all (CHR ''/'') q @ [name]"
      using assms(5) by (simp add: path split_all_join)
    moreover have "length (split_all (CHR ''/'') q) \<ge> 1" by (cases "split_all (CHR ''/'') q") (use split_all_nonempty in auto)
    ultimately show ?thesis using assms(6) unfolding parse_policy_arn_def arn Let_def
      by (simp add: path join_split_all butlast_append)
  qed
qed

text \<open>
  C28. The ARN that CreatePolicy answers leads back to the policy: GetPolicy answers the same description
  and GetPolicyVersion the document, percent-encoded without loss. The account id and the name have no
  colon and the name no slash, as their checks demand; the path is canonical and has no colon, which
  the checks do not demand (\<open>double_slash_policy_is_lost\<close>).
\<close>

theorem created_policy_resolves:
  assumes "iam_inv db" "handle_create_policy X (sqlite_iam_store UE now) uuid request payload db = (Inr resp, db')"
    and "canonical_path (normalize_policy_path (cp_path payload))" "CHR '':'' \<notin> set (normalize_policy_path (cp_path payload))"
    and "CHR '':'' \<notin> set (req_account request)" "CHR '':'' \<notin> set (cp_policy_name payload)"
    and "CHR ''/'' \<notin> set (cp_policy_name payload)" "cp_policy_name payload \<noteq> []"
  shows "\<exists>arn v. px_arn (ires_result resp) = Some arn \<and>
    handle_get_policy X (sqlite_iam_store UE now') request' arn db' = (Inr (ires_result resp), db') \<and>
    handle_get_policy_version X (sqlite_iam_store UE now') request' arn version db' = (Inr (iam_reply request' v), db') \<and>
    percent_decode (vx_document v) = cp_policy_document payload"
proof -
  let ?path = "normalize_policy_path (cp_path payload)" and ?name = "cp_policy_name payload"
  let ?np = "\<lparr>nmp_policy_id = new_id uuid, nmp_account_id = req_account request, nmp_policy_name = ?name,
    nmp_policy_path = Some ?path, nmp_policy_document = cp_policy_document payload\<rparr>"
  from assms(2) obtain row where made: "sqlite_insert_managed_policy UE now ?np db = (Inr row, db')"
    and resp: "resp = iam_reply request (policy_xml X row)"
    by (auto simp: handle_create_policy_def result_simps)
  let ?parts = "\<lparr>pa_account_id = req_account request, pa_policy_path = ?path, pa_policy_name = ?name\<rparr>"
  from made have key: "managed_policy_key row = (req_account request, ?name, Some ?path)"
    and doc: "mpo_policy_document row = cp_policy_document payload" and db': "managed_policies db' = managed_policies db @ [row]"
    and "managed_policy_key row \<notin> managed_policy_key ` set (managed_policies db)"
    by (auto simp: sqlite_insert_managed_policy_def Let_def managed_policy_key_def list_ex_iff split: if_splits)
  then have "find (\<lambda>p. managed_policy_key p = managed_policy_key row) (managed_policies db) = None"
    by (simp only: find_key_None not_False_eq_True)
  then have found: "find_policy ?parts db' = Some row" by (simp add: find_policy_def key [symmetric] db' find_key_append)
  have arn: "px_arn (policy_xml X row) = Some (policy_arn (req_account request) ?path ?name)"
    using key canonical_path_normal [OF assms(3)] by (simp add: policy_xml_def managed_policy_key_def Let_def)
  have parse: "parse_policy_arn (policy_arn (req_account request) ?path ?name) = Inr ?parts"
    using assms(3-8) by (intro parse_policy_arn_policy_arn)
  show ?thesis
  proof (intro exI conjI)
    show "px_arn (ires_result resp) = Some (policy_arn (req_account request) ?path ?name)"
      by (simp add: resp iam_reply_def arn)
    show "handle_get_policy X (sqlite_iam_store UE now') request' (policy_arn (req_account request) ?path ?name) db' =
        (Inr (ires_result resp), db')"
      by (simp add: handle_get_policy_def parse load_managed_policy_sqlite found resp iam_reply_def)
    show "handle_get_policy_version X (sqlite_iam_store UE now') request' (policy_arn (req_account request) ?path ?name) version db' =
        (Inr (iam_reply request' (get_policy_version_response X row (normalize_version_id version))), db')"
      by (simp add: handle_get_policy_version_def parse load_managed_policy_sqlite found)
    show "percent_decode (vx_document (get_policy_version_response X row (normalize_version_id version))) = cp_policy_document payload"
      by (simp add: get_policy_version_response_def url_encode_eq percent_decode_encode doc)
  qed
qed

theorem created_policy_resolves_witness:
  "\<exists>db' arn v. handle_get_policy_version demo_iam_ext (sqlite_iam_store demo_texts 0) (demo_request ''iam'') arn [] db' =
     (Inr (iam_reply (demo_request ''iam'') v), db') \<and> percent_decode (vx_document v) = ''{}''"
proof -
  obtain resp db' where run: "handle_create_policy demo_iam_ext (sqlite_iam_store demo_texts 0) ''f0'' (demo_request ''iam'')
     \<lparr>cp_path = None, cp_policy_document = ''{}'', cp_policy_name = ''write''\<rparr> demo_iam_db = (Inr resp, db')"
    using demo_create_policy by blast
  have "canonical_path (normalize_policy_path None)"
    by (simp add: canonical_path_def normalize_policy_path_def normalize_user_path_def trim_def trim_chars_def utf8_width_def
        byte_def is_whitespace_def starts_with_def ends_with_def)
  with created_policy_resolves [OF demo_iam_inv run, where now' = 0 and request' = "demo_request ''iam''" and version = "[]"] show ?thesis
    by (simp add: normalize_policy_path_def demo_request_def) blast
qed

lemma double_slash_policy_is_lost:
  "normalize_policy_path (Some ''/a//'') = ''/a//''" "validate_iam_path ''Path'' ''/a//'' = Inr ()"
  "parse_policy_arn (policy_arn ''1'' ''/a//'' ''p'') = Inr \<lparr>pa_account_id = ''1'', pa_policy_path = ''/a/'', pa_policy_name = ''p''\<rparr>"
  by (simp_all add: validate_iam_path_def normalize_policy_path_def normalize_user_path_def policy_arn_def parse_policy_arn_def
      trim_def trim_matches_def trim_chars_def utf8_width_def byte_def is_whitespace_def starts_with_def ends_with_def rust_chars_def)

text \<open>
  The region of a policy ARN is not looked at, so one policy has many ARNs; the check of an action is
  about the ARN as it was written.
\<close>

lemma policy_arn_region_ignored:
  "parse_policy_arn ''arn:aws:iam:any:1:policy/p'' = parse_policy_arn ''arn:aws:iam::1:policy/p''"
  by (simp add: parse_policy_arn_def)

end
