(* ===== verification/Iam_Mediation.thy ===== *)
theory Iam_Mediation
  imports Iam_Laws
begin

text \<open>
  Whose rights the handlers of the IAM service change, and the check the service resolves for the same
  request: it is about that very user, or about a policy the user had attached.
\<close>

section \<open>Whose rights a handler changes\<close>

lemma create_user_rights:
  assumes "iam_inv db"
  shows "rights_of pid (snd (handle_create_user X (sqlite_iam_store UE now) uuid request payload db)) = rights_of pid db"
proof -
  let ?np = "\<lparr>np_account_id = req_account request, np_kind = ''user'', np_name = cu_user_name payload,
    np_path = normalize_user_path (cu_path payload), np_user_id = new_id uuid\<rparr>"
  obtain r db' where run: "sqlite_create_principal UE now ?np db = (r, db')" by (metis surj_pair)
  show ?thesis
  proof (cases r)
    case (Inl e)
    then have "db' = db" using run by (auto simp: sqlite_create_principal_def Let_def split: if_splits)
    with run Inl show ?thesis by (simp add: handle_create_user_def sbind_def smap_err_def)
  next
    case (Inr row)
    with run have made: "sqlite_create_principal UE now ?np db = (Inr row, db')" by simp
    have "rights_of (p_id row) db = no_rights"
      using create_principal_rights(5) [OF assms made] by (rule unused_no_rights [OF assms])
    with create_principal_rights(1) [OF assms made, of pid] made show ?thesis
      by (simp add: handle_create_user_def sbind_def smap_err_def split: if_splits)
  qed
qed

lemma create_policy_rights:
  assumes "iam_inv db"
  shows "rights_of pid (snd (handle_create_policy X (sqlite_iam_store UE now) uuid request payload db)) = rights_of pid db"
proof -
  let ?np = "\<lparr>nmp_policy_id = new_id uuid, nmp_account_id = req_account request, nmp_policy_name = cp_policy_name payload,
    nmp_policy_path = Some (normalize_policy_path (cp_path payload)), nmp_policy_document = cp_policy_document payload\<rparr>"
  obtain r db' where run: "sqlite_insert_managed_policy UE now ?np db = (r, db')" by (metis surj_pair)
  with insert_managed_policy_rights [OF assms run] show ?thesis
    by (cases r) (simp_all add: handle_create_policy_def sbind_def smap_err_def)
qed

lemma delete_user_rights:
  assumes "rights_of pid (snd (handle_delete_user (sqlite_iam_store UE now) request name db)) \<noteq> rights_of pid db" "iam_inv db"
  shows "\<exists>p. find_user (req_account request) name db = Some p \<and> p_id p = pid"
proof -
  let ?sel = "\<lambda>q. p_kind q = ''user'' \<and> p_account_id q = req_account request \<and> p_name q = name"
  have "list_ex ?sel (principals db)" and changed: "rights_of pid (delete_principals ?sel db) \<noteq> rights_of pid db"
    using assms(1) by (auto simp: handle_delete_user_def sqlite_delete_user_def Let_def sbind_def smap_err_def split: if_splits)
  from changed obtain p where p: "p \<in> set (principals db)" "?sel p" "p_id p = pid"
    by (auto simp: delete_principals_rights split: if_splits)
  moreover have "distinct (map principal_key (principals db))" using assms(2) by (simp add: iam_inv_def)
  ultimately have "find_user (req_account request) name db = Some p"
    unfolding find_user_def by (subst find_key_Some) (simp_all add: principal_key_def)
  with p show ?thesis by blast
qed

lemma create_access_key_rights:
  assumes "rights_of pid (snd (handle_create_access_key X (sqlite_iam_store UE now) u1 u2 u3 request requested db)) \<noteq> rights_of pid db"
  shows "\<exists>p. requested_or_signing_user (sqlite_iam_store UE now) request requested db = Inr p \<and> p_id p = pid"
proof (cases "requested_or_signing_user (sqlite_iam_store UE now) request requested db")
  case (Inr p)
  obtain r db' where run: "sqlite_insert_secret_key UE now (new_access_key_id u1) (new_secret_access_key u2 u3) (p_id p) db = (r, db')"
    by (metis surj_pair)
  then have "snd (handle_create_access_key X (sqlite_iam_store UE now) u1 u2 u3 request requested db) = db'"
    using Inr by (cases r) (simp_all add: handle_create_access_key_def sbind_def smap_err_def)
  with assms insert_secret_key_rights [OF run, of pid] Inr show ?thesis by auto
qed (use assms in \<open>simp add: handle_create_access_key_def\<close>)

lemma put_user_policy_rights:
  assumes "rights_of pid (snd (handle_put_user_policy (sqlite_iam_store UE now) request payload db)) \<noteq> rights_of pid db"
  shows "\<exists>p. find_user (req_account request) (pu_user_name payload) db = Some p \<and> p_id p = pid"
proof (cases "find_user (req_account request) (pu_user_name payload) db")
  case (Some p)
  obtain r db' where run: "sqlite_put_inline_policy UE now (p_id p) (pu_policy_name payload) (pu_policy_document payload) db = (r, db')"
    by (metis surj_pair)
  then have "snd (handle_put_user_policy (sqlite_iam_store UE now) request payload db) = db'"
    using Some by (cases r) (simp_all add: handle_put_user_policy_def load_user_sqlite sbind_def smap_err_def)
  with assms put_inline_policy_rights [OF run, of pid] Some show ?thesis by auto
qed (use assms in \<open>simp add: handle_put_user_policy_def load_user_sqlite\<close>)

lemma attachment_rights:
  assumes "rights_of pid db' \<noteq> rights_of pid db" "iam_inv db"
    and "db' = snd (handle_attach_user_policy (sqlite_iam_store UE now) request name arn db) \<or>
         db' = snd (handle_detach_user_policy (sqlite_iam_store UE now) request name arn db)"
  shows "\<exists>p. find_user (req_account request) name db = Some p \<and> p_id p = pid"
proof (rule ccontr)
  assume none: "\<not> ?thesis"
  have owner: "pid \<noteq> p_id user" if "find_user (req_account request) name db = Some user" for user
    using none that by auto
  have attach: "rights_of pid db1 = rights_of pid db"
    if "find_user (req_account request) name db = Some user" "find_policy parts db = Some pol"
      "sqlite_attach_policy_to_principal UE (mpo_id pol) (p_id user) db = (r, db1)" for user parts pol r db1
    using attach_rights [OF assms(2) find_policy_in [OF that(2)], of UE "p_id user" "()" db1 pid] that(3) owner [OF that(1)]
    by (cases r) (auto dest: attach_error_rights)
  have detach: "rights_of pid db1 = rights_of pid db"
    if "find_user (req_account request) name db = Some user"
      "sqlite_detach_policy_from_principal (mpo_id pol) (p_id user) db = (r, db1)" for user pol r db1
    using detach_rights [OF that(2) owner [OF that(1)]] .
  have "rights_of pid (snd (handle_attach_user_policy (sqlite_iam_store UE now) request name arn db)) = rights_of pid db"
    "rights_of pid (snd (handle_detach_user_policy (sqlite_iam_store UE now) request name arn db)) = rights_of pid db"
    by (auto simp: handle_attach_user_policy_def handle_detach_user_policy_def load_user_sqlite load_managed_policy_sqlite
        sbind_def smap_err_def guard_def map_err_def ok_or_def split: sum.splits option.splits prod.splits intro: attach detach)
  with assms(1,3) show False by auto
qed

lemma delete_policy_rights:
  assumes "rights_of pid (snd (handle_delete_policy (sqlite_iam_store UE now) request arn db)) \<noteq> rights_of pid db" "iam_inv db"
  shows "\<exists>parts mp. parse_policy_arn arn = Inr parts \<and> mp \<in> set (attached_policies pid db) \<and>
    managed_policy_key mp = (pa_account_id parts, pa_policy_name parts, Some (pa_policy_path parts))"
proof (cases "parse_policy_arn arn")
  case (Inr parts)
  obtain r db' where run: "sqlite_delete_managed_policy (pa_account_id parts) (pa_policy_name parts) (pa_policy_path parts) db = (r, db')"
    by (metis surj_pair)
  then have "snd (handle_delete_policy (sqlite_iam_store UE now) request arn db) \<in> {db, db'}"
    using Inr by (cases "pa_account_id parts = req_account request"; cases r) (simp_all add: handle_delete_policy_def sbind_def smap_err_def)
  with assms(1) have "rights_of pid db' \<noteq> rights_of pid db" by auto
  with delete_managed_policy_rights [OF assms(2) run] Inr show ?thesis by blast
qed (use assms in \<open>simp add: handle_delete_policy_def\<close>)

section \<open>Which check an action resolves\<close>

text \<open>The derived decoders read the parameter that has the name of the field.\<close>

definition reads_parameters :: "form_parser \<Rightarrow> iam_codec \<Rightarrow> bool" where
  "reads_parameters fp C \<longleftrightarrow>
     (\<forall>e n. id_user C e = Inr n \<longrightarrow> map_of (fp e) ''UserName'' = Some n) \<and>
     (\<forall>e v. id_optional_user C e = Inr v \<longrightarrow> map_of (fp e) ''UserName'' = v) \<and>
     (\<forall>e p. id_put_user_policy C e = Inr p \<longrightarrow> map_of (fp e) ''UserName'' = Some (pu_user_name p)) \<and>
     (\<forall>e n a. id_user_policy_arn C e = Inr (n, a) \<longrightarrow> map_of (fp e) ''UserName'' = Some n) \<and>
     (\<forall>e a. id_policy_arn C e = Inr a \<longrightarrow> map_of (fp e) ''PolicyArn'' = Some a)"

lemma iam_action_effect:
  assumes "f (snd (act_handle (iam_action X fp store name dec validate handler enc) req s)) \<noteq> f s"
  obtains encoded p where "encoded_aws_query_request (rr_request req) = Inr encoded" "dec encoded = Inr p"
    "f (snd (handler req p s)) \<noteq> f s"
  using assms
  by (auto simp: iam_action_def query_action_def typed_action_adapter_def adapter_handle_def query_payload_def
      parse_aws_query_request_def result_simps split: sum.splits prod.splits)

lemma iam_action_check:
  assumes "act_resolve_authorization (iam_action X fp store name dec validate handler enc) req s = Inr check"
  shows "iam_resolve_authorization fp store (''iam:'' @ name) req s = Inr check"
  using assms by (simp add: iam_action_def query_action_def typed_action_adapter_def adapter_resolve_authorization_def)

lemma query_params_eq:
  "encoded_aws_query_request r = Inr encoded \<Longrightarrow>
   parse_aws_query_params fp r = Inr (from_encoded fp encoded) \<and> query_get (from_encoded fp encoded) k = map_of (fp encoded) k"
  by (simp add: parse_aws_query_params_def query_get_from_encoded)

lemma named_user_check:
  assumes "iam_resolve_authorization fp (sqlite_iam_store UE now) action req db = Inr check"
    and "encoded_aws_query_request (rr_request req) = Inr encoded" "map_of (fp encoded) ''UserName'' = Some name"
    and "find_user (req_account req) name db = Some p"
    and "action \<in> {''iam:DeleteUser'', ''iam:PutUserPolicy'', ''iam:AttachUserPolicy'', ''iam:DetachUserPolicy''}"
  shows "check = user_check action p"
  using assms(5,1) query_params_eq [OF assms(2)] assms(3,4)
  by (auto simp: iam_resolve_authorization_def Let_def sqlite_find_user)

lemma optional_user_check:
  assumes "iam_resolve_authorization fp (sqlite_iam_store UE now) ''iam:CreateAccessKey'' req db = Inr check"
    and "encoded_aws_query_request (rr_request req) = Inr encoded" "map_of (fp encoded) ''UserName'' = requested"
    and "requested_or_signing_user (sqlite_iam_store UE now) req requested db = Inr p"
  shows "check = user_check ''iam:CreateAccessKey'' p"
  using assms(1,3,4) query_params_eq [OF assms(2)]
  by (auto simp: iam_resolve_authorization_def requested_or_signing_user_def Let_def sqlite_find_user split: option.splits if_splits)

lemma policy_check:
  assumes "iam_resolve_authorization fp store ''iam:DeletePolicy'' req s = Inr check"
    and "encoded_aws_query_request (rr_request req) = Inr encoded" "map_of (fp encoded) ''PolicyArn'' = Some arn"
  shows "check = \<lparr>chk_action = ''iam:DeletePolicy'', chk_resource = arn, chk_resource_policy = None\<rparr>"
  using assms(1,3) query_params_eq [OF assms(2)] by (simp add: iam_resolve_authorization_def Let_def)

text \<open>Reading actions change nothing.\<close>

lemma reads_change_nothing:
  "snd (handle_get_user X store request requested s) = s"
  "snd (handle_list_access_keys X store request requested s) = s"
  "snd (handle_get_user_policy store request name pol s) = s"
  "snd (handle_get_policy X store request arn s) = s"
  "snd (handle_get_policy_version X store request arn version s) = s"
  "snd (handle_list_attached_user_policies store request requested s) = s"
  by (simp_all add: handle_get_user_def handle_list_access_keys_def handle_get_user_policy_def handle_get_policy_def
      handle_get_policy_version_def handle_list_attached_user_policies_def split: sum.split)

section \<open>Complete mediation of rights\<close>

definition is_about :: "authorization_check \<Rightarrow> int \<Rightarrow> iam_db \<Rightarrow> bool" where
  "is_about check pid db \<longleftrightarrow>
     list_ex (\<lambda>p. p_id p = pid \<and> chk_resource check = user_arn (p_account_id p) (p_path p) (p_name p) \<and>
       chk_action check \<in> {''iam:DeleteUser'', ''iam:CreateAccessKey'', ''iam:PutUserPolicy'', ''iam:AttachUserPolicy'',
         ''iam:DetachUserPolicy''}) (principals db) \<or>
     chk_action check = ''iam:DeletePolicy'' \<and>
     (case parse_policy_arn (chk_resource check) of
        Inl _ \<Rightarrow> False
      | Inr parts \<Rightarrow> list_ex (\<lambda>mp. managed_policy_key mp =
          (pa_account_id parts, pa_policy_name parts, Some (pa_policy_path parts))) (attached_policies pid db))"

lemma user_check_is_about:
  "p \<in> set (principals db) \<Longrightarrow> p_id p = pid \<Longrightarrow>
   action \<in> {''iam:DeleteUser'', ''iam:CreateAccessKey'', ''iam:PutUserPolicy'', ''iam:AttachUserPolicy'', ''iam:DetachUserPolicy''} \<Longrightarrow>
   is_about (user_check action p) pid db"
  by (auto simp: is_about_def user_check_def list_ex_iff)

lemma registry_change_is_checked:
  assumes "iam_inv db" "reads_parameters fp C" "sqlite_get_principal (caller_id req) db = Inr (Some (ac_principal (rr_auth_context req)))"
    and a: "a \<in> set (iam_registry X fp C (sqlite_iam_store UE now) env)"
    and check: "act_resolve_authorization a req db = Inr check"
    and changed: "rights_of pid (snd (act_handle a req db)) \<noteq> rights_of pid db"
  shows "is_about check pid db"
proof -
  note codec = assms(2) [unfolded reads_parameters_def]
  have caller: "ac_principal (rr_auth_context req) \<in> set (principals db)"
    using assms(3) by (auto simp: sqlite_get_principal_def find_Some_iff)
  have signing: "p \<in> set (principals db)" if "requested_or_signing_user (sqlite_iam_store UE now) req requested db = Inr p" for requested p
    using that caller by (auto simp: requested_or_signing_user_def sqlite_find_user dest: find_user_Some split: option.splits if_splits)
  have named: "is_about check pid db"
    if "iam_resolve_authorization fp (sqlite_iam_store UE now) action req db = Inr check"
      "encoded_aws_query_request (rr_request req) = Inr encoded" "map_of (fp encoded) ''UserName'' = Some name"
      "\<exists>p. find_user (req_account req) name db = Some p \<and> p_id p = pid"
      "action \<in> {''iam:DeleteUser'', ''iam:PutUserPolicy'', ''iam:AttachUserPolicy'', ''iam:DetachUserPolicy''}"
    for action encoded name
  proof -
    from that(4) obtain p where p: "find_user (req_account req) name db = Some p" "p_id p = pid" by blast
    have "is_about (user_check action p) pid db"
      by (rule user_check_is_about) (use find_user_Some [OF p(1)] p(2) that(5) in auto)
    then show ?thesis using named_user_check [OF that(1-3) p(1) that(5)] by simp
  qed
  note still = create_user_rights [OF assms(1)] create_policy_rights [OF assms(1)] reads_change_nothing
  from a consider
      "a = create_access_key_action X fp C (sqlite_iam_store UE now) env"
    | "a = delete_user_action X fp C (sqlite_iam_store UE now)" | "a = put_user_policy_action X fp C (sqlite_iam_store UE now)"
    | "a = attach_user_policy_action X fp C (sqlite_iam_store UE now)" | "a = detach_user_policy_action X fp C (sqlite_iam_store UE now)"
    | "a = delete_policy_action X fp C (sqlite_iam_store UE now)"
    | "a \<in> {create_user_action X fp C (sqlite_iam_store UE now) env, get_user_action X fp C (sqlite_iam_store UE now),
        create_policy_action X fp C (sqlite_iam_store UE now) env, get_user_policy_action X fp C (sqlite_iam_store UE now),
        get_policy_action X fp C (sqlite_iam_store UE now), get_policy_version_action X fp C (sqlite_iam_store UE now),
        list_access_keys_action X fp C (sqlite_iam_store UE now), list_attached_user_policies_action X fp C (sqlite_iam_store UE now)}"
    unfolding iam_registry_def by auto
  then show ?thesis
  proof cases
    case 1
    from iam_action_check [OF check [unfolded 1 create_access_key_action_def]]
    have auth: "iam_resolve_authorization fp (sqlite_iam_store UE now) ''iam:CreateAccessKey'' req db = Inr check" by simp
    from changed [unfolded 1 create_access_key_action_def] obtain encoded requested where
      enc: "encoded_aws_query_request (rr_request req) = Inr encoded" "id_optional_user C encoded = Inr requested"
      and "rights_of pid (snd (handle_create_access_key X (sqlite_iam_store UE now) (ie_uuid env) (ie_uuid2 env) (ie_uuid3 env) req requested db)) \<noteq> rights_of pid db"
      by (rule iam_action_effect)
    from create_access_key_rights [OF this(3)] obtain p where
      p: "requested_or_signing_user (sqlite_iam_store UE now) req requested db = Inr p" "p_id p = pid" by blast
    have "check = user_check ''iam:CreateAccessKey'' p" by (rule optional_user_check [OF auth enc(1) _ p(1)]) (use codec enc(2) in blast)
    with signing [OF p(1)] p(2) show ?thesis by (simp add: user_check_is_about)
  next
    case 2
    from changed [unfolded 2 delete_user_action_def] obtain encoded name where
      enc: "encoded_aws_query_request (rr_request req) = Inr encoded" "id_user C encoded = Inr name"
      and "rights_of pid (snd (handle_delete_user (sqlite_iam_store UE now) req name db)) \<noteq> rights_of pid db"
      by (rule iam_action_effect)
    from named [OF iam_action_check [OF check [unfolded 2 delete_user_action_def]] enc(1) _ delete_user_rights [OF this(3) assms(1)]]
    show ?thesis using codec enc(2) by simp
  next
    case 3
    from changed [unfolded 3 put_user_policy_action_def] obtain encoded payload where
      enc: "encoded_aws_query_request (rr_request req) = Inr encoded" "id_put_user_policy C encoded = Inr payload"
      and "rights_of pid (snd (handle_put_user_policy (sqlite_iam_store UE now) req payload db)) \<noteq> rights_of pid db"
      by (rule iam_action_effect)
    from named [OF iam_action_check [OF check [unfolded 3 put_user_policy_action_def]] enc(1) _ put_user_policy_rights [OF this(3)]]
    show ?thesis using codec enc(2) by simp
  next
    case 4
    from changed [unfolded 4 attach_user_policy_action_def] obtain encoded na where
      enc: "encoded_aws_query_request (rr_request req) = Inr encoded" "id_user_policy_arn C encoded = Inr na"
      and "rights_of pid (snd ((\<lambda>(name, arn). handle_attach_user_policy (sqlite_iam_store UE now) req name arn) na db)) \<noteq> rights_of pid db"
      by (rule iam_action_effect)
    then obtain name arn where na: "na = (name, arn)"
      "rights_of pid (snd (handle_attach_user_policy (sqlite_iam_store UE now) req name arn db)) \<noteq> rights_of pid db" by (cases na) auto
    from named [OF iam_action_check [OF check [unfolded 4 attach_user_policy_action_def]] enc(1) _
        attachment_rights [OF na(2) assms(1) disjI1 [OF refl]]]
    show ?thesis using codec enc(2) na(1) by simp
  next
    case 5
    from changed [unfolded 5 detach_user_policy_action_def] obtain encoded na where
      enc: "encoded_aws_query_request (rr_request req) = Inr encoded" "id_user_policy_arn C encoded = Inr na"
      and "rights_of pid (snd ((\<lambda>(name, arn). handle_detach_user_policy (sqlite_iam_store UE now) req name arn) na db)) \<noteq> rights_of pid db"
      by (rule iam_action_effect)
    then obtain name arn where na: "na = (name, arn)"
      "rights_of pid (snd (handle_detach_user_policy (sqlite_iam_store UE now) req name arn db)) \<noteq> rights_of pid db" by (cases na) auto
    from named [OF iam_action_check [OF check [unfolded 5 detach_user_policy_action_def]] enc(1) _
        attachment_rights [OF na(2) assms(1) disjI2 [OF refl]]]
    show ?thesis using codec enc(2) na(1) by simp
  next
    case 6
    from changed [unfolded 6 delete_policy_action_def] obtain encoded arn where
      enc: "encoded_aws_query_request (rr_request req) = Inr encoded" "id_policy_arn C encoded = Inr arn"
      and "rights_of pid (snd (handle_delete_policy (sqlite_iam_store UE now) req arn db)) \<noteq> rights_of pid db"
      by (rule iam_action_effect)
    from delete_policy_rights [OF this(3) assms(1)] have about: "\<exists>parts mp. parse_policy_arn arn = Inr parts \<and> mp \<in> set (attached_policies pid db) \<and>
        managed_policy_key mp = (pa_account_id parts, pa_policy_name parts, Some (pa_policy_path parts))" .
    have auth: "iam_resolve_authorization fp (sqlite_iam_store UE now) ''iam:DeletePolicy'' req db = Inr check"
      using iam_action_check [OF check [unfolded 6 delete_policy_action_def]] by simp
    have "check = \<lparr>chk_action = ''iam:DeletePolicy'', chk_resource = arn, chk_resource_policy = None\<rparr>"
      by (rule policy_check [OF auth enc(1)]) (use codec enc(2) in blast)
    with about show ?thesis by (auto simp: is_about_def list_ex_iff)
  next
    case 7
    with changed show ?thesis unfolding iam_actions_def
      by (elim insertE emptyE) (auto elim!: iam_action_effect simp: still split: prod.splits)
  qed
qed

text \<open>The same behind the dispatch of the service.\<close>

lemma service_change_is_checked:
  assumes "iam_inv db" "reads_parameters fp C"
    and "sqlite_get_principal (caller_id req) db = Inr (Some (ac_principal (rr_auth_context req)))"
    and "svc_resolve_authorization (iam_service X fp C (sqlite_iam_store UE now) env) req db = Inr check"
    and "rights_of pid (snd (svc_handle_request (iam_service X fp C (sqlite_iam_store UE now) env) req db)) \<noteq> rights_of pid db"
  shows "is_about check pid db"
proof -
  let ?reg = "iam_registry X fp C (sqlite_iam_store UE now) env"
  from assms(4) obtain name a where name: "get_query_request_action_name fp req = Inr (Some name)" and a: "registry_get ?reg name = Some a"
    and check: "act_resolve_authorization a req db = Inr check"
    by (auto simp: iam_service_def iam_service_resolve_authorization_def iam_action_name_def)
  from assms(5) have "rights_of pid (snd (act_handle a req db)) \<noteq> rights_of pid db"
    by (simp add: iam_service_def iam_handle_request_def name registry_handle_def a split: prod.splits)
  from registry_change_is_checked [OF assms(1-3) registry_get_name [OF a, THEN conjunct1] check this]
  show ?thesis .
qed

section \<open>An example: a user who may do everything deletes himself\<close>

definition demo_iam_form :: form_parser where
  "demo_iam_form e = (if e = ''q'' then [(''Action'', ''DeleteUser''), (''UserName'', ''test'')] else [])"

definition demo_iam_codec :: iam_codec where
  "demo_iam_codec =
     \<lparr>id_optional_user = (\<lambda>e. Inr (map_of (demo_iam_form e) ''UserName'')),
      id_user = (\<lambda>e. ok_or [] (map_of (demo_iam_form e) ''UserName'')), id_create_user = (\<lambda>_. Inl []),
      id_put_user_policy = (\<lambda>_. Inl []), id_user_policy_name = (\<lambda>_. Inl []), id_user_policy_arn = (\<lambda>_. Inl []),
      id_create_policy = (\<lambda>_. Inl []), id_policy_arn = (\<lambda>_. Inl []), id_policy_version = (\<lambda>_. Inl []),
      in_user = (\<lambda>_ _. Inr []), in_empty = (\<lambda>_ _. Inr []), in_access_key = (\<lambda>_. Inr []), in_access_keys = (\<lambda>_. Inr []),
      in_user_policy = (\<lambda>_. Inr []), in_create_policy = (\<lambda>_. Inr []), in_get_policy = (\<lambda>_. Inr []),
      in_policy_version = (\<lambda>_. Inr []), in_attached_policies = (\<lambda>_. Inr [])\<rparr>"

definition demo_iam_env :: iam_env where
  "demo_iam_env = \<lparr>ie_uuid = ''f0'', ie_uuid2 = ''f1'', ie_uuid3 = ''f2''\<rparr>"

definition demo_iam_request :: "incoming_request \<Rightarrow> resolved_request" where
  "demo_iam_request w = (demo_request ''iam'')\<lparr>rr_request := w\<lparr>ir_query := Some ''q'', ir_body := []\<rparr>\<rparr>"

abbreviation demo_iam_service :: "iam_db service" where
  "demo_iam_service \<equiv> iam_service demo_iam_ext demo_iam_form demo_iam_codec (sqlite_iam_store demo_texts 0) demo_iam_env"

lemma demo_reads: "reads_parameters demo_iam_form demo_iam_codec"
  by (simp add: reads_parameters_def demo_iam_codec_def)

lemma demo_encoded: "encoded_aws_query_request (rr_request (demo_iam_request w)) = Inr ''q''"
  by (simp add: encoded_aws_query_request_def demo_iam_request_def demo_request_def)

lemma demo_iam_action: "get_query_request_action_name demo_iam_form (demo_iam_request w) = Inr (Some ''DeleteUser'')"
  using query_params_eq [OF demo_encoded, of demo_iam_form w "''Action''"]
  by (simp add: get_query_request_action_name_def demo_iam_form_def)

lemma demo_caller: "sqlite_get_principal (caller_id (demo_iam_request w)) demo_iam_db = Inr (Some (ac_principal (rr_auth_context (demo_iam_request w))))"
  by (simp add: sqlite_get_principal_def demo_iam_request_def demo_iam current_timestamp_def seconds_def)


lemma demo_delete_action:
  "registry_get (iam_registry demo_iam_ext demo_iam_form demo_iam_codec (sqlite_iam_store demo_texts 0) demo_iam_env) ''DeleteUser'' =
     Some (delete_user_action demo_iam_ext demo_iam_form demo_iam_codec (sqlite_iam_store demo_texts 0))"
  by (simp add: registry_get_def iam_registry_def iam_actions_def iam_action_def)

lemma demo_payload: "query_payload (iam_errors demo_iam_ext) (id_user demo_iam_codec) (demo_iam_request w) = Inr ''test''"
  by (simp add: query_payload_def parse_aws_query_request_def demo_encoded demo_iam_codec_def demo_iam_form_def)

lemma demo_find: "find_user (req_account (demo_iam_request w)) ''test'' demo_iam_db = Some (ac_principal (rr_auth_context (demo_iam_request w)))"
  by (simp add: demo_iam_request_def demo_iam current_timestamp_def seconds_def)

lemma demo_resolve:
  "svc_resolve_authorization demo_iam_service (demo_iam_request w) demo_iam_db =
     Inr (user_check ''iam:DeleteUser'' (ac_principal (rr_auth_context (demo_iam_request w))))"
  using query_params_eq [OF demo_encoded, of demo_iam_form w "''UserName''"] demo_find
  by (simp add: iam_service_def iam_service_resolve_authorization_def iam_action_name_def demo_iam_action demo_delete_action
      delete_user_action_def iam_action_def query_action_authorize [OF demo_payload] iam_resolve_authorization_def Let_def
      sqlite_find_user demo_iam_form_def)

lemma demo_validated: "svc_validate_request demo_iam_service (demo_iam_request w) demo_iam_db = Inr ()"
  using demo_payload
  by (simp add: iam_service_def iam_validate_request_def iam_action_name_def demo_iam_action registry_validate_def demo_delete_action
      delete_user_action_def iam_action_def query_action_def typed_action_adapter_def adapter_validate_def validate_user_name_def
      validate_iam_name_def rust_chars_def utf8_width_def byte_def is_iam_name_char_def is_ascii_alphanumeric_def)

lemma demo_handled:
  "\<exists>r. svc_handle_request demo_iam_service (demo_iam_request w) demo_iam_db =
     (r, snd (handle_delete_user (sqlite_iam_store demo_texts 0) (demo_iam_request w) ''test'' demo_iam_db))"
  using demo_payload
  by (simp add: iam_service_def iam_handle_request_def demo_iam_action registry_handle_def demo_delete_action
      delete_user_action_def iam_action_def query_action_def typed_action_adapter_def adapter_handle_def split: prod.split sum.split)

lemma demo_allowed:
  "sqlite_decision demo_ext demo_texts 0 (demo_iam_request w)
     (user_check ''iam:DeleteUser'' (ac_principal (rr_auth_context (demo_iam_request w)))) demo_iam_db = Allowed"
  by (simp add: sqlite_decision_eq rights_of_def documents_of_def attached_policies_def demo_iam_request_def demo_iam
      combine_policy_results_eq document_decision_def resource_decision_def demo_ext_def user_check_def policy_principal_from_request_def
      evaluate_identity_policy_def evaluate_matching_statements_eq has_matching_def identity_statement_matches_def wildcard_match_def)

end
