(* ===== verification/Sts_Service.thy ===== *)
theory Sts_Service
  imports Iam_Laws
begin

text \<open>
  The STS service, \<^verbatim>\<open>hiraeth_sts\<close>: one action, \<^verbatim>\<open>GetCallerIdentity\<close>, over the IAM store.
\<close>

section \<open>Errors\<close>

datatype sts_error = StsBadRequest string | StsUnsupportedOperation string | StsInternalError string

fun sts_error_text :: "sts_error \<Rightarrow> string" where
  "sts_error_text (StsBadRequest m) = m"
| "sts_error_text (StsUnsupportedOperation action) = ''STS action '' @ action @ '' is not implemented''"
| "sts_error_text (StsInternalError m) = m"

fun sts_status_code :: "sts_error \<Rightarrow> nat" where
  "sts_status_code (StsBadRequest _) = 400"
| "sts_status_code (StsUnsupportedOperation _) = 501"
| "sts_status_code (StsInternalError _) = 500"

fun sts_code :: "sts_error \<Rightarrow> string" where
  "sts_code (StsBadRequest _) = ''ValidationError''"
| "sts_code (StsUnsupportedOperation _) = ''InvalidAction''"
| "sts_code (StsInternalError _) = ''InternalFailure''"

fun sts_error_type :: "sts_error \<Rightarrow> string" where
  "sts_error_type (StsInternalError _) = ''Server''"
| "sts_error_type _ = ''Sender''"

definition sts_of_store_error :: "store_error \<Rightarrow> sts_error" where
  "sts_of_store_error e = StsInternalError (store_error_text e)"

text \<open>\<open>xml\<close> writes the XML of an error (type, code, message).\<close>

type_synonym xml_error = "string \<Rightarrow> string \<Rightarrow> string \<Rightarrow> string + string"

definition sts_error_response :: "xml_error \<Rightarrow> sts_error \<Rightarrow> service_response" where
  "sts_error_response xml e =
     \<lparr>status_code = sts_status_code e, resp_headers = [(''content-type'', ''text/xml; charset=utf-8'')],
      resp_body = (case xml (sts_error_type e) (sts_code e) (sts_error_text e) of Inl _ \<Rightarrow> sts_error_text e | Inr body \<Rightarrow> body)\<rparr>"

section \<open>The action\<close>

record caller_identity =
  ci_arn :: string
  ci_user_id :: string
  ci_account :: string

definition handle_get_caller_identity ::
    "'s iam_store \<Rightarrow> resolved_request \<Rightarrow> ('s, sts_error, caller_identity \<times> string) store_op" where
  "handle_get_caller_identity store request =
     sbind (sread (\<lambda>s. map_err sts_of_store_error (im_get_principal_by_identity store (req_account request) ''user''
              (p_name (ac_principal (rr_auth_context request))) s))) (\<lambda>found.
     sbind (slift (ok_or (StsInternalError ''User not found'') found)) (\<lambda>user.
     slift (Inr (\<lparr>ci_arn = user_arn (req_account request) (p_path user) (p_name user), ci_user_id = p_user_id user,
                  ci_account = req_account request\<rparr>, rr_request_id request))))"

definition sts_resolve_authorization :: "resolved_request \<Rightarrow> 's \<Rightarrow> sts_error + authorization_check" where
  "sts_resolve_authorization request s =
     Inr \<lparr>chk_action = ''sts:GetCallerIdentity'',
          chk_resource = ''arn:aws:iam::'' @ req_account request @ '':user/'' @ p_name (ac_principal (rr_auth_context request)),
          chk_resource_policy = None\<rparr>"

definition sts_errors :: "xml_error \<Rightarrow> sts_error query_errors" where
  "sts_errors xml = \<lparr>qe_bad_request = StsBadRequest, qe_internal = StsInternalError, qe_response = sts_error_response xml\<rparr>"

record sts_codec =
  td_empty :: "string \<Rightarrow> string + unit"
  tn_identity :: "caller_identity \<times> string \<Rightarrow> string + string"

definition get_caller_identity_action :: "xml_error \<Rightarrow> sts_codec \<Rightarrow> 's iam_store \<Rightarrow> 's aws_action" where
  "get_caller_identity_action xml C store =
     query_action (sts_errors xml) ''GetCallerIdentity'' (td_empty C) (\<lambda>_ _ _. Inr ())
       (\<lambda>request _. handle_get_caller_identity store request) sts_resolve_authorization (tn_identity C)"

definition sts_registry :: "xml_error \<Rightarrow> sts_codec \<Rightarrow> 's iam_store \<Rightarrow> 's registry" where
  "sts_registry xml C store = [get_caller_identity_action xml C store]"

section \<open>The service\<close>

definition sts_can_handle :: "resolved_request \<Rightarrow> bool" where
  "sts_can_handle request \<longleftrightarrow> rr_service request = ''sts''"

definition sts_handle_request ::
    "xml_error \<Rightarrow> form_parser \<Rightarrow> 's registry \<Rightarrow> resolved_request \<Rightarrow> 's \<Rightarrow> (api_error + service_response) \<times> 's" where
  "sts_handle_request xml fp reg request s =
     (case get_query_request_action_name fp request of
        Inl error \<Rightarrow> (Inl (ApiBadRequest error), s)
      | Inr None \<Rightarrow> (Inl (ApiBadRequest missing_action), s)
      | Inr (Some action_name) \<Rightarrow>
          (case registry_handle reg action_name request s of
             Some (response, s') \<Rightarrow> (Inr response, s')
           | None \<Rightarrow> (Inr (sts_error_response xml (StsUnsupportedOperation action_name)), s)))"

definition sts_action_name :: "xml_error \<Rightarrow> form_parser \<Rightarrow> resolved_request \<Rightarrow> service_response + string" where
  "sts_action_name xml fp request =
     map_err (sts_error_response xml)
       (ebind (map_err StsBadRequest (get_query_request_action_name fp request)) (ok_or (StsBadRequest missing_action)))"

definition sts_service_resolve_authorization ::
    "xml_error \<Rightarrow> form_parser \<Rightarrow> 's registry \<Rightarrow> resolved_request \<Rightarrow> 's \<Rightarrow> service_response + authorization_check" where
  "sts_service_resolve_authorization xml fp reg request s =
     ebind (sts_action_name xml fp request) (\<lambda>action_name.
     ebind (ok_or (sts_error_response xml (StsUnsupportedOperation action_name)) (registry_get reg action_name)) (\<lambda>action.
     act_resolve_authorization action request s))"

definition sts_validate_request ::
    "xml_error \<Rightarrow> form_parser \<Rightarrow> 's registry \<Rightarrow> resolved_request \<Rightarrow> 's \<Rightarrow> service_response + unit" where
  "sts_validate_request xml fp reg request s =
     ebind (sts_action_name xml fp request) (\<lambda>action_name.
     case registry_validate reg action_name request s of
       None \<Rightarrow> Inl (sts_error_response xml (StsUnsupportedOperation action_name)) | Some r \<Rightarrow> r)"

definition sts_service :: "xml_error \<Rightarrow> form_parser \<Rightarrow> sts_codec \<Rightarrow> 's iam_store \<Rightarrow> 's service" where
  "sts_service xml fp C store =
     \<lparr>svc_can_handle = sts_can_handle, svc_handle_request = sts_handle_request xml fp (sts_registry xml C store),
      svc_resolve_authorization = sts_service_resolve_authorization xml fp (sts_registry xml C store),
      svc_validate_request = sts_validate_request xml fp (sts_registry xml C store)\<rparr>"

section \<open>What it answers\<close>

text \<open>STS changes nothing, whatever it is asked.\<close>

lemma sts_changes_nothing: "snd (svc_handle_request (sts_service xml fp C store) req s) = s"
proof -
  have "snd (handle_get_caller_identity store request s) = s" for request
    by (simp add: handle_get_caller_identity_def split: sum.split)
  then have act: "snd (act_handle a req s) = s" if "a \<in> set (sts_registry xml C store)" for a
    using that query_action_keeps [of "\<lambda>x. x = s" "\<lambda>request _. handle_get_caller_identity store request" req s]
    by (auto simp: sts_registry_def get_caller_identity_action_def keeps_def)
  have "resp_s = Some (r, s') \<Longrightarrow> resp_s = registry_handle (sts_registry xml C store) name req s \<Longrightarrow> s' = s" for resp_s r s' name
    by (rule registry_handle_keeps [where P = "\<lambda>x. x = s"]) (use act in auto)
  then show ?thesis by (auto simp: sts_service_def sts_handle_request_def split: sum.split option.split)
qed

text \<open>
  The check of the action leaves the path of the user out, so it is about the ARN the action answers
  exactly for users at the root.
\<close>

lemma sts_check_resource:
  assumes "find_user (req_account request) (p_name (ac_principal (rr_auth_context request))) db = Some p"
  shows "\<exists>check identity. sts_resolve_authorization request db = Inr check \<and>
    handle_get_caller_identity (sqlite_iam_store UE now) request db = (Inr (identity, rr_request_id request), db) \<and>
    (ci_arn identity = chk_resource check \<longleftrightarrow> normalize_user_path (p_path p) = ''/'')"
proof -
  have "handle_get_caller_identity (sqlite_iam_store UE now) request db =
      (Inr (\<lparr>ci_arn = user_arn (req_account request) (p_path p) (p_name p), ci_user_id = p_user_id p,
             ci_account = req_account request\<rparr>, rr_request_id request), db)"
    using assms by (simp add: handle_get_caller_identity_def sqlite_find_user)
  moreover have "p_name p = p_name (ac_principal (rr_auth_context request))" using find_user_Some [OF assms] by simp
  ultimately show ?thesis by (auto simp: sts_resolve_authorization_def user_arn_def)
qed

end
