(* ===== verification/Sig_V4.thy ===== *)
theory Sig_V4
  imports Iam_Laws
begin

text \<open>
  Authentication, \<^verbatim>\<open>hiraeth_auth\<close>: the authorization header of Signature Version 4, the canonical
  request, the signature and its comparison (\<^verbatim>\<open>sig_v4.rs\<close>), and \<^verbatim>\<open>authenticate_request\<close> of \<^verbatim>\<open>lib.rs\<close>. SHA-256,
  HMAC, hexadecimal encoding and the parsing of the date come from other crates: the record \<open>sig_ext\<close>.
\<close>

record sig_ext =
  sg_sha256 :: "string \<Rightarrow> string"
  sg_hmac :: "string \<Rightarrow> string \<Rightarrow> string"
  sg_hex :: "string \<Rightarrow> string"
  sg_parse_date :: "string \<Rightarrow> time option"
  sg_debug :: "store_error \<Rightarrow> string"

datatype auth_error =
    MissingAuthorizationHeader
  | InvalidAuthorizationHeader string
  | MissingSignedHeader string
  | InvalidSignature
  | SecretKeyNotFound
  | KeyStoreError store_error

fun api_of_auth_error :: "sig_ext \<Rightarrow> auth_error \<Rightarrow> api_error" where
  "api_of_auth_error G MissingAuthorizationHeader = NotAuthenticated ''Missing Authorization header''"
| "api_of_auth_error G (InvalidAuthorizationHeader m) = NotAuthenticated (''Invalid Authorization header: '' @ m)"
| "api_of_auth_error G (MissingSignedHeader h) = NotAuthenticated (''Missing signed header: '' @ h)"
| "api_of_auth_error G InvalidSignature = NotAuthenticated ''Invalid signature''"
| "api_of_auth_error G SecretKeyNotFound = NotAuthenticated ''Secret key not found for access key''"
| "api_of_auth_error G (KeyStoreError e) = InternalServerError (''Access key store error: '' @ sg_debug G e)"

section \<open>The authorization header\<close>

record sig_v4_parameters =
  sp_algorithm :: string
  sp_access_key :: string
  sp_date :: string
  sp_region :: string
  sp_service :: string
  sp_signed_headers :: "string list"
  sp_signature :: string

text \<open>The loop over the parameters: the last \<^verbatim>\<open>Credential\<close>, \<^verbatim>\<open>SignedHeaders\<close> and \<^verbatim>\<open>Signature\<close> seen.\<close>

record auth_fields =
  af_credential :: "string option"
  af_signed_headers :: "string option"
  af_signature :: "string option"

definition read_pair :: "string \<Rightarrow> auth_fields \<Rightarrow> auth_error + auth_fields" where
  "read_pair pair f =
     (case split_once (CHR ''='') pair of
        None \<Rightarrow> Inl (InvalidAuthorizationHeader (''Authorization parameter '' @ quoted pair @ '' is malformed''))
      | Some (key, v) \<Rightarrow>
          Inr (if key = ''Credential'' then f\<lparr>af_credential := Some v\<rparr>
               else if key = ''SignedHeaders'' then f\<lparr>af_signed_headers := Some v\<rparr>
               else if key = ''Signature'' then f\<lparr>af_signature := Some v\<rparr> else f))"

fun read_pairs :: "string list \<Rightarrow> auth_fields \<Rightarrow> auth_error + auth_fields" where
  "read_pairs [] f = Inr f"
| "read_pairs (p # ps) f = ebind (read_pair p f) (read_pairs ps)"

definition extract_sigv4_params :: "incoming_request \<Rightarrow> auth_error + sig_v4_parameters" where
  "extract_sigv4_params request =
     ebind (ok_or MissingAuthorizationHeader (map_of (ir_headers request) ''authorization'')) (\<lambda>auth_header.
     ebind (ok_or (InvalidAuthorizationHeader ''Authorization header format invalid'')
              (split_once (CHR '' '') auth_header)) (\<lambda>(algorithm, key_value_pairs).
     ebind (guard (algorithm \<noteq> ''AWS4-HMAC-SHA256'')
              (InvalidAuthorizationHeader (''Unsupported algorithm: '' @ algorithm))) (\<lambda>_.
     ebind (read_pairs (map trim (split_all (CHR '','') (trim key_value_pairs)))
              \<lparr>af_credential = None, af_signed_headers = None, af_signature = None\<rparr>) (\<lambda>f.
     ebind (ok_or (InvalidAuthorizationHeader ''Credential missing'') (af_credential f)) (\<lambda>credential.
     let parts = split_all (CHR ''/'') credential
     in ebind (guard (length parts \<noteq> 5) (InvalidAuthorizationHeader ''Credential scope format invalid'')) (\<lambda>_.
     ebind (guard (parts ! 4 \<noteq> ''aws4_request'') (InvalidAuthorizationHeader ''Credential scope terminator invalid'')) (\<lambda>_.
     ebind (ok_or (InvalidAuthorizationHeader ''Signed headers missing'') (af_signed_headers f)) (\<lambda>signed.
     let signed_headers = filter (\<lambda>h. h \<noteq> []) (split_all (CHR '';'') signed)
     in ebind (guard (signed_headers = []) (InvalidAuthorizationHeader ''Signed headers value missing'')) (\<lambda>_.
     ebind (ok_or (InvalidAuthorizationHeader ''Signature missing'') (af_signature f)) (\<lambda>signature.
     ebind (guard (signature = []) (InvalidAuthorizationHeader ''Signature value missing'')) (\<lambda>_.
     Inr \<lparr>sp_algorithm = algorithm, sp_access_key = parts ! 0, sp_date = parts ! 1, sp_region = parts ! 2,
          sp_service = parts ! 3, sp_signed_headers = signed_headers, sp_signature = signature\<rparr>)))))))))))"

section \<open>The canonical request\<close>

definition newline :: char where "newline = CHR 0x0A"

text \<open>
  \<^verbatim>\<open>sort_unstable_by\<close> on the encoded key, then the encoded value: encoding is injective, so equal
  elements of the order are equal and stability does not matter.
\<close>

definition extract_query_params :: "incoming_request \<Rightarrow> (string \<times> string) list" where
  "extract_query_params request =
     (case ir_query request of
        None \<Rightarrow> []
      | Some query \<Rightarrow>
          sort_key (\<lambda>(k, v). (aws_uri_encode k True, aws_uri_encode v True))
            (map (\<lambda>pair. case split_once (CHR ''='') pair of None \<Rightarrow> (pair, []) | Some kv \<Rightarrow> kv)
              (split_all (CHR ''&'') query)))"

text \<open>\<^verbatim>\<open>split_whitespace\<close>: the words between whitespace characters, empty ones left out.\<close>

fun whitespace_words :: "string list \<Rightarrow> string list" where
  "whitespace_words [] = [[]]"
| "whitespace_words (c # cs) =
     (if is_whitespace (code_point c) then [] # whitespace_words cs
      else case whitespace_words cs of [] \<Rightarrow> [c] | w # ws \<Rightarrow> (c @ w) # ws)"

definition split_whitespace :: "string \<Rightarrow> string list" where
  "split_whitespace s = filter (\<lambda>w. w \<noteq> []) (whitespace_words (str_chars s))"

definition normalize_header_value :: "string \<Rightarrow> string" where
  "normalize_header_value v = join_strings '' '' (split_whitespace v)"

definition extract_signed_headers :: "incoming_request \<Rightarrow> string list \<Rightarrow> auth_error + string" where
  "extract_signed_headers request signed_headers =
     ebind (collect_results (\<lambda>header.
              ebind (ok_or (MissingSignedHeader header) (map_of (ir_headers request) header)) (\<lambda>v.
              Inr (header @ '':'' @ normalize_header_value v))) signed_headers) (\<lambda>headers.
     Inr (join_strings [newline] headers))"

definition canonical_uri :: "string \<Rightarrow> string" where
  "canonical_uri path = (if path = [] then ''/'' else aws_uri_encode path False)"

definition canonical_query_string :: "incoming_request \<Rightarrow> string" where
  "canonical_query_string request =
     join_strings ''&'' (map (\<lambda>(k, v). aws_uri_encode k True @ ''='' @ aws_uri_encode v True) (extract_query_params request))"

definition canonicalize_signed_headers :: "string list \<Rightarrow> string list" where
  "canonicalize_signed_headers signed_headers = remdups_adj (sort (map to_ascii_lowercase signed_headers))"

definition create_canonical_request :: "sig_ext \<Rightarrow> incoming_request \<Rightarrow> string list \<Rightarrow> auth_error + string" where
  "create_canonical_request G request signed_headers =
     (let canonical = canonicalize_signed_headers signed_headers
      in ebind (extract_signed_headers request canonical) (\<lambda>headers.
         Inr (ir_method request @ [newline] @ canonical_uri (ir_path request) @ [newline] @
              canonical_query_string request @ [newline] @ headers @ [newline, newline] @
              join_strings '';'' canonical @ [newline] @ sg_hex G (sg_sha256 G (ir_body request)))))"

section \<open>The signature\<close>

definition derive_signing_key :: "sig_ext \<Rightarrow> string \<Rightarrow> string \<Rightarrow> string \<Rightarrow> string \<Rightarrow> string" where
  "derive_signing_key G secret_key date region svc =
     (let k_date = sg_hmac G (''AWS4'' @ secret_key) date;
          k_region = sg_hmac G k_date region;
          k_service = sg_hmac G k_region svc
      in sg_hmac G k_service ''aws4_request'')"

definition string_to_sign :: "sig_ext \<Rightarrow> sig_v4_parameters \<Rightarrow> string \<Rightarrow> string \<Rightarrow> string" where
  "string_to_sign G params timestamp canonical_request =
     sp_algorithm params @ [newline] @ timestamp @ [newline] @
     sp_date params @ ''/'' @ sp_region params @ ''/'' @ sp_service params @ ''/aws4_request'' @ [newline] @
     sg_hex G (sg_sha256 G canonical_request)"

definition hash_request :: "sig_ext \<Rightarrow> incoming_request \<Rightarrow> access_key \<Rightarrow> auth_error + string" where
  "hash_request G request key =
     ebind (extract_sigv4_params request) (\<lambda>params.
     ebind (create_canonical_request G request (sp_signed_headers params)) (\<lambda>canonical_request.
     ebind (ok_or (MissingSignedHeader ''x-amz-date'') (map_of (ir_headers request) ''x-amz-date'')) (\<lambda>timestamp.
     ebind (guard (\<not> starts_with (sp_date params) timestamp)
              (InvalidAuthorizationHeader ''Credential date does not match x-amz-date'')) (\<lambda>_.
     Inr (sg_hex G (sg_hmac G
            (derive_signing_key G (ak_secret_key key) (sp_date params) (sp_region params) (sp_service params))
            (string_to_sign G params timestamp canonical_request)))))))"

definition sigv4_authenticate ::
    "sig_ext \<Rightarrow> 's iam_store \<Rightarrow> incoming_request \<Rightarrow> 's \<Rightarrow> auth_error + sig_v4_parameters \<times> access_key" where
  "sigv4_authenticate G store request s =
     ebind (extract_sigv4_params request) (\<lambda>params.
     ebind (map_err KeyStoreError (im_get_secret_key store (sp_access_key params) s)) (\<lambda>found.
     ebind (ok_or SecretKeyNotFound found) (\<lambda>key.
     ebind (hash_request G request key) (\<lambda>calculated_signature.
     if sp_signature params = calculated_signature then Inr (params, key) else Inl InvalidSignature))))"

definition authenticate_request ::
    "sig_ext \<Rightarrow> 's iam_store \<Rightarrow> incoming_request \<Rightarrow> 's \<Rightarrow> auth_error + authenticated_request" where
  "authenticate_request G store request s =
     ebind (sigv4_authenticate G store request s) (\<lambda>(params, key).
     ebind (ok_or (MissingSignedHeader ''x-amz-date'') (map_of (ir_headers request) ''x-amz-date'')) (\<lambda>timestamp.
     ebind (ok_or (InvalidAuthorizationHeader ''Date format incorrect'') (sg_parse_date G timestamp)) (\<lambda>date.
     Inr \<lparr>ar_request = request, ar_service = sp_service params, ar_region = sp_region params,
          ar_access_key = ak_key_id key, ar_principal_id = ak_principal_id key, ar_date = date\<rparr>)))"

end
