(* ===== verification/Sig_V4_Laws.thy ===== *)
theory Sig_V4_Laws
  imports Sig_V4
begin

text \<open>
  What a signature promises: everything it covers is bound to it, the key of an access key that was
  created opens the door to its user, and keys of a deleted user open none.
\<close>

section \<open>Texts made of lines\<close>

lemma cancel_at:
  assumes "(c::char) \<notin> set a" "c \<notin> set b"
  shows "a @ c # x = b @ c # y \<longleftrightarrow> a = b \<and> x = y"
proof
  assume "a @ c # x = b @ c # y"
  then have "Some (a, x) = Some (b, y)"
    by (simp only: split_once_append [OF assms(1), symmetric] split_once_append [OF assms(2), symmetric])
  then show "a = b \<and> x = y" by simp
qed simp

lemma join_cancel:
  "length xs = length ys \<Longrightarrow> \<forall>x\<in>set xs \<union> set ys. c \<notin> set x \<Longrightarrow>
   join_strings [c] xs @ c # r = join_strings [c] ys @ c # q \<Longrightarrow> xs = ys \<and> r = q"
proof (induction xs ys rule: list_induct2)
  case (Cons x xs y ys)
  have free: "c \<notin> set x" "c \<notin> set y" using Cons.prems(1) by auto
  show ?case
  proof (cases xs)
    case Nil
    then show ?thesis using Cons.hyps Cons.prems(2) cancel_at [OF free] by simp
  next
    case (Cons x' xs')
    then obtain y' ys' where ys: "ys = y' # ys'" using \<open>length xs = length ys\<close> by (cases ys) auto
    with Cons Cons.prems(2) have "x = y" "join_strings [c] xs @ c # r = join_strings [c] ys @ c # q"
      by (simp_all add: cancel_at [OF free])
    then show ?thesis using Cons.IH Cons.prems(1) by auto
  qed
qed simp

lemma split_join: "xs \<noteq> [] \<Longrightarrow> \<forall>x\<in>set xs. c \<notin> set x \<Longrightarrow> split_all c (join_strings [c] xs) = xs"
proof (induction xs)
  case (Cons x xs)
  then show ?case by (cases xs) auto
qed simp

text \<open>The canonical query determines the sorted parameters.\<close>

lemma canonical_query_inj:
  assumes "canonical_query_string r = canonical_query_string q"
  shows "extract_query_params r = extract_query_params q"
proof -
  let ?enc = "\<lambda>kv. aws_uri_encode (fst kv) True @ ''='' @ aws_uri_encode (snd kv) True"
  have enc: "(\<lambda>(k, v). aws_uri_encode k True @ ''='' @ aws_uri_encode v True) = ?enc" by (simp add: fun_eq_iff split: prod.split)
  have "a = b" if "?enc a = ?enc b" for a b
  proof -
    have "aws_uri_encode (fst a) True = aws_uri_encode (fst b) True \<and> aws_uri_encode (snd a) True = aws_uri_encode (snd b) True"
      by (rule cancel_at [THEN iffD1, OF separators_reserved(1) separators_reserved(1)]) (use that in simp)
    then show ?thesis by (simp only: aws_uri_encode_inj prod_eq_iff)
  qed
  then have "inj ?enc" by (rule injI)
  then have inj: "map ?enc xs = map ?enc ys \<Longrightarrow> xs = ys" for xs ys
    using inj_map_eq_map [of ?enc xs ys] by blast
  have empty: "join_strings ''&'' (map ?enc xs) = [] \<longleftrightarrow> xs = []" for xs
  proof (cases xs)
    case (Cons x ys)
    then show ?thesis by (cases ys) simp_all
  qed simp
  have split: "xs \<noteq> [] \<Longrightarrow> split_all (CHR ''&'') (join_strings ''&'' (map ?enc xs)) = map ?enc xs" for xs
    by (rule split_join) auto
  have eq: "join_strings ''&'' (map ?enc (extract_query_params r)) = join_strings ''&'' (map ?enc (extract_query_params q))"
    using assms unfolding canonical_query_string_def enc .
  have joined: "xs = ys" if "join_strings ''&'' (map ?enc xs) = join_strings ''&'' (map ?enc ys)" for xs ys
  proof (cases "xs = [] \<or> ys = []")
    case True
    have "xs = [] \<longleftrightarrow> ys = []" unfolding empty [of xs, symmetric] empty [of ys, symmetric] that ..
    with True show ?thesis by blast
  next
    case False
    then have "map ?enc xs = map ?enc ys" using split [of xs] split [of ys] unfolding that by simp
    then show ?thesis by (rule inj)
  qed
  show ?thesis by (rule joined [OF eq])
qed

lemma canonical_uri_newline: "newline \<notin> set (canonical_uri path)"
  by (simp add: canonical_uri_def newline_def)

lemma set_join_strings: "c \<in> set (join_strings sep xs) \<Longrightarrow> c \<in> set sep \<or> (\<exists>x\<in>set xs. c \<in> set x)"
  by (induction sep xs rule: join_strings.induct) auto

lemma canonical_query_newline: "newline \<notin> set (canonical_query_string r)"
  by (auto simp: canonical_query_string_def newline_def dest!: set_join_strings)

lemma normalized_newline:
  assumes "\<forall>c\<in>set v. byte c < 128"
  shows "newline \<notin> set (normalize_header_value v)"
proof -
  have chunks: "str_chars v = map (\<lambda>c. [c]) v" using assms
    by (induction v) (auto simp: utf8_width_def)
  have words: "\<forall>w\<in>set (whitespace_words (map (\<lambda>c. [c]) s)). newline \<notin> set w" for s
    by (induction s) (auto simp: newline_def is_whitespace_def byte_def split: list.split)
  show ?thesis using words [of v]
    by (auto simp: normalize_header_value_def split_whitespace_def chunks newline_def dest!: set_join_strings)
qed


section \<open>What a signature covers\<close>

text \<open>
  Requests as \<^verbatim>\<open>http\<close> delivers them: no line break in the method, header values of visible ASCII
  characters and tabs (\<^verbatim>\<open>HeaderValue::to_str\<close>).
\<close>

definition visible :: "char \<Rightarrow> bool" where
  "visible c \<longleftrightarrow> 32 \<le> byte c \<and> byte c < 127 \<or> byte c = 9"

definition plain_request :: "incoming_request \<Rightarrow> bool" where
  "plain_request r \<longleftrightarrow> newline \<notin> set (ir_method r) \<and> list_all (\<lambda>(k, v). list_all visible v) (ir_headers r)"

lemma plain_header:
  assumes "plain_request r" "map_of (ir_headers r) h = Some v"
  shows "newline \<notin> set v" "newline \<notin> set (normalize_header_value v)"
proof -
  have vis: "list_all visible v" using assms by (auto simp: plain_request_def list_all_iff dest!: map_of_SomeD)
  then show "newline \<notin> set v" by (auto simp: list_all_iff newline_def visible_def byte_def)
  show "newline \<notin> set (normalize_header_value v)"
    using vis by (intro normalized_newline) (auto simp: list_all_iff visible_def)
qed

definition header_value :: "incoming_request \<Rightarrow> string \<Rightarrow> string" where
  "header_value r h = normalize_header_value (the (map_of (ir_headers r) h))"

lemma extract_signed_headers_Inr:
  assumes "extract_signed_headers r hs = Inr t" "plain_request r"
  shows "t = join_strings [newline] (map (\<lambda>h. h @ CHR '':'' # header_value r h) hs)"
    "\<forall>h\<in>set hs. newline \<notin> set (header_value r h) \<and> map_of (ir_headers r) h \<noteq> None"
proof -
  let ?line = "\<lambda>header. ebind (ok_or (MissingSignedHeader header) (map_of (ir_headers r) header))
    (\<lambda>v. Inr (header @ '':'' @ normalize_header_value v))"
  from assms(1) obtain ls where ls: "collect_results ?line hs = Inr ls" "t = join_strings [newline] ls"
    by (auto simp: extract_signed_headers_def)
  then have found: "h \<in> set hs \<Longrightarrow> \<exists>v. map_of (ir_headers r) h = Some v" for h
    by (fastforce simp: collect_results_Inr_iff)
  have line: "projr (?line h) = h @ CHR '':'' # header_value r h" if "h \<in> set hs" for h
    using found [OF that] by (auto simp: header_value_def)
  have "ls = map (\<lambda>h. projr (?line h)) hs" using ls(1) by (simp add: collect_results_Inr_iff)
  also have "\<dots> = map (\<lambda>h. h @ CHR '':'' # header_value r h) hs" using line by (rule map_cong [OF refl])
  finally show "t = join_strings [newline] (map (\<lambda>h. h @ CHR '':'' # header_value r h) hs)" using ls(2) by simp
  show "\<forall>h\<in>set hs. newline \<notin> set (header_value r h) \<and> map_of (ir_headers r) h \<noteq> None"
  proof
    fix h assume "h \<in> set hs"
    then obtain v where v: "map_of (ir_headers r) h = Some v" using found by blast
    then show "newline \<notin> set (header_value r h) \<and> map_of (ir_headers r) h \<noteq> None"
      using plain_header(2) [OF assms(2) v] by (simp add: header_value_def)
  qed
qed

lemma header_lines_cancel:
  "join_strings [newline] (map (\<lambda>h. h @ CHR '':'' # f h) hs) @ newline # x =
     join_strings [newline] (map (\<lambda>h. h @ CHR '':'' # g h) hs) @ newline # y \<Longrightarrow>
   \<forall>h\<in>set hs. newline \<notin> set (f h) \<and> newline \<notin> set (g h) \<Longrightarrow> (\<forall>h\<in>set hs. f h = g h) \<and> x = y"
proof (induction hs rule: induct_list012)
  case (2 h)
  then have free: "newline \<notin> set (f h)" "newline \<notin> set (g h)" by simp_all
  have "f h @ newline # x = g h @ newline # y" 
    using 2(1) by (simp only: list.map join_strings.simps append_assoc append_Cons same_append_eq list.inject)
  then have "f h = g h \<and> x = y" by (simp only: cancel_at [OF free])
  then show ?case by simp
next
  case (3 h h' hs)
  have free: "newline \<notin> set (f h)" "newline \<notin> set (g h)" using 3(4) by simp_all
  have step: "join_strings [newline] (map (\<lambda>h. h @ CHR '':'' # k h) (h # h' # hs)) @ newline # z = h @ CHR '':'' # (k h @ newline #
      (join_strings [newline] (map (\<lambda>h. h @ CHR '':'' # k h) (h' # hs)) @ newline # z))" for k z by simp
  from 3(3) [unfolded step] have head: "f h = g h" and tail: "join_strings [newline] (map (\<lambda>h. h @ CHR '':'' # f h) (h' # hs)) @ newline # x =
      join_strings [newline] (map (\<lambda>h. h @ CHR '':'' # g h) (h' # hs)) @ newline # y"
    unfolding append_same_eq same_append_eq list.inject cancel_at [OF free] by blast+
  have "(\<forall>h\<in>set (h' # hs). f h = g h) \<and> x = y" by (rule 3(2) [OF tail]) (use 3(4) in simp)
  with head show ?case by simp
qed simp

text \<open>The path as it is signed: no path stands for the root.\<close>

definition signed_path :: "incoming_request \<Rightarrow> string" where
  "signed_path r = (if ir_path r = [] then ''/'' else ir_path r)"

lemma canonical_uri_inj: "canonical_uri (ir_path r) = canonical_uri (ir_path q) \<longleftrightarrow> signed_path r = signed_path q"
proof -
  have root: "aws_uri_encode ''/'' False = ''/''" by (simp add: aws_uri_encode_def is_unreserved_def is_ascii_alphanumeric_def byte_def)
  have uri: "canonical_uri (ir_path x) = aws_uri_encode (signed_path x) False" for x
    by (simp add: canonical_uri_def signed_path_def root)
  show ?thesis by (simp only: uri aws_uri_encode_inj)
qed

lemma canonical_request_covers:
  assumes "create_canonical_request G r hs = Inr t" "create_canonical_request G q hs = Inr t"
    and "plain_request r" "plain_request q"
  shows "ir_method r = ir_method q" "signed_path r = signed_path q" "extract_query_params r = extract_query_params q"
    "\<forall>h\<in>set hs. header_value r (to_ascii_lowercase h) = header_value q (to_ascii_lowercase h)"
    "sg_hex G (sg_sha256 G (ir_body r)) = sg_hex G (sg_sha256 G (ir_body q))"
proof -
  let ?hs = "canonicalize_signed_headers hs"
  obtain a where a: "extract_signed_headers r ?hs = Inr a" using assms(1) by (auto simp: create_canonical_request_def Let_def)
  obtain b where b: "extract_signed_headers q ?hs = Inr b" using assms(2) by (auto simp: create_canonical_request_def Let_def)
  from assms(1,2) a b have eq: "ir_method r @ newline # canonical_uri (ir_path r) @ newline # canonical_query_string r @ newline #
      a @ newline # (newline # join_strings '';'' ?hs @ newline # sg_hex G (sg_sha256 G (ir_body r))) =
    ir_method q @ newline # canonical_uri (ir_path q) @ newline # canonical_query_string q @ newline #
      b @ newline # (newline # join_strings '';'' ?hs @ newline # sg_hex G (sg_sha256 G (ir_body q)))"
    by (simp add: create_canonical_request_def)
  have no_break: "newline \<notin> set (ir_method r)" "newline \<notin> set (ir_method q)" using assms(3,4) by (simp_all add: plain_request_def)
  note eq = eq [unfolded cancel_at [OF no_break] cancel_at [OF canonical_uri_newline canonical_uri_newline]
      cancel_at [OF canonical_query_newline canonical_query_newline]]
  show "ir_method r = ir_method q" using eq by blast
  show "signed_path r = signed_path q" using eq canonical_uri_inj by blast
  show "extract_query_params r = extract_query_params q" by (rule canonical_query_inj) (use eq in blast)
  have lines: "a @ newline # x = b @ newline # y \<Longrightarrow> (\<forall>h\<in>set ?hs. header_value r h = header_value q h) \<and> x = y" for x y
    unfolding extract_signed_headers_Inr(1) [OF a assms(3)] extract_signed_headers_Inr(1) [OF b assms(4)]
    by (rule header_lines_cancel)
      (use extract_signed_headers_Inr(2) [OF a assms(3)] extract_signed_headers_Inr(2) [OF b assms(4)] in blast)+
  from eq have rest: "(\<forall>h\<in>set ?hs. header_value r h = header_value q h) \<and>
      newline # join_strings '';'' ?hs @ newline # sg_hex G (sg_sha256 G (ir_body r)) =
      newline # join_strings '';'' ?hs @ newline # sg_hex G (sg_sha256 G (ir_body q))" by (intro lines) blast
  then show "sg_hex G (sg_sha256 G (ir_body r)) = sg_hex G (sg_sha256 G (ir_body q))" by simp
  from rest show "\<forall>h\<in>set hs. header_value r (to_ascii_lowercase h) = header_value q (to_ascii_lowercase h)"
    by (simp add: canonicalize_signed_headers_def)
qed


text \<open>The texts of a request that go through SHA-256 and HMAC, and what is assumed of the two there.\<close>

definition canonical_text :: "sig_ext \<Rightarrow> incoming_request \<Rightarrow> auth_error + string" where
  "canonical_text G r = ebind (extract_sigv4_params r) (\<lambda>params. create_canonical_request G r (sp_signed_headers params))"

definition text_to_sign :: "sig_ext \<Rightarrow> incoming_request \<Rightarrow> auth_error + string" where
  "text_to_sign G r =
     ebind (extract_sigv4_params r) (\<lambda>params.
     ebind (canonical_text G r) (\<lambda>t.
     ebind (ok_or (MissingSignedHeader ''x-amz-date'') (map_of (ir_headers r) ''x-amz-date'')) (\<lambda>timestamp.
     Inr (string_to_sign G params timestamp t))))"

definition no_collision :: "sig_ext \<Rightarrow> incoming_request \<Rightarrow> incoming_request \<Rightarrow> bool" where
  "no_collision G r q \<longleftrightarrow>
     inj_on (\<lambda>x. sg_hex G (sg_sha256 G x))
       ({ir_body r, ir_body q} \<union> {t. canonical_text G r = Inr t \<or> canonical_text G q = Inr t}) \<and>
     (\<forall>k. inj_on (\<lambda>x. sg_hex G (sg_hmac G k x)) {t. text_to_sign G r = Inr t \<or> text_to_sign G q = Inr t})"

lemma sigv4_authenticate_run:
  assumes "sigv4_authenticate G store r s = Inr (params, key)"
  obtains t timestamp where "extract_sigv4_params r = Inr params" "im_get_secret_key store (sp_access_key params) s = Inr (Some key)"
    "canonical_text G r = Inr t" "map_of (ir_headers r) ''x-amz-date'' = Some timestamp"
    "text_to_sign G r = Inr (string_to_sign G params timestamp t)"
    "sp_signature params = sg_hex G (sg_hmac G
       (derive_signing_key G (ak_secret_key key) (sp_date params) (sp_region params) (sp_service params))
       (string_to_sign G params timestamp t))"
proof -
  from assms obtain found sig where "extract_sigv4_params r = Inr params"
    "im_get_secret_key store (sp_access_key params) s = Inr (Some key)" "hash_request G r key = Inr (sp_signature params)"
    by (auto simp: sigv4_authenticate_def split: if_splits)
  moreover from this(3) calculation(1) obtain t timestamp where
    "create_canonical_request G r (sp_signed_headers params) = Inr t" "map_of (ir_headers r) ''x-amz-date'' = Some timestamp"
    "sp_signature params = sg_hex G (sg_hmac G
       (derive_signing_key G (ak_secret_key key) (sp_date params) (sp_region params) (sp_service params))
       (string_to_sign G params timestamp t))"
    by (auto simp: hash_request_def)
  ultimately show thesis by (intro that) (simp_all add: canonical_text_def text_to_sign_def)
qed

lemma string_to_sign_inj:
  assumes "string_to_sign G params a t = string_to_sign G params b u" "newline \<notin> set a" "newline \<notin> set b"
  shows "a = b" "sg_hex G (sg_sha256 G t) = sg_hex G (sg_sha256 G u)"
proof -
  let ?scope = "sp_date params @ ''/'' @ sp_region params @ ''/'' @ sp_service params @ ''/aws4_request'' @ [newline]"
  have "a @ newline # (?scope @ sg_hex G (sg_sha256 G t)) = b @ newline # (?scope @ sg_hex G (sg_sha256 G u))"
    using assms(1) by (simp add: string_to_sign_def)
  then show "a = b" "sg_hex G (sg_sha256 G t) = sg_hex G (sg_sha256 G u)"
    unfolding cancel_at [OF assms(2,3)] by simp_all
qed

lemma authenticate_request_run:
  assumes "authenticate_request G store r s = Inr ar"
  obtains params key timestamp where "sigv4_authenticate G store r s = Inr (params, key)"
    "map_of (ir_headers r) ''x-amz-date'' = Some timestamp" "sg_parse_date G timestamp = Some (ar_date ar)"
    "ar = \<lparr>ar_request = r, ar_service = sp_service params, ar_region = sp_region params,
       ar_access_key = ak_key_id key, ar_principal_id = ak_principal_id key, ar_date = ar_date ar\<rparr>"
  using assms by (auto simp: authenticate_request_def)

text \<open>
  C6. A signature covers the request: when one authorization header is accepted for two requests, they
  have the same method, path, query parameters, body, date and signed headers (up to the white space
  that normalization drops), and they are the same caller's. The requests are as \<^verbatim>\<open>http\<close> delivers
  them, and SHA-256 and HMAC do not collide on the texts of these two.
\<close>

theorem signed_parts_are_covered:
  assumes "authenticate_request G store r s = Inr ar" "authenticate_request G store q s = Inr aq"
    and "map_of (ir_headers r) ''authorization'' = map_of (ir_headers q) ''authorization''"
    and "plain_request r" "plain_request q" "no_collision G r q"
  shows "\<exists>params. extract_sigv4_params r = Inr params \<and>
    ir_method r = ir_method q \<and> signed_path r = signed_path q \<and> extract_query_params r = extract_query_params q \<and>
    ir_body r = ir_body q \<and> map_of (ir_headers r) ''x-amz-date'' = map_of (ir_headers q) ''x-amz-date'' \<and>
    list_all (\<lambda>h. header_value r (to_ascii_lowercase h) = header_value q (to_ascii_lowercase h)) (sp_signed_headers params) \<and>
    aq = ar\<lparr>ar_request := q\<rparr>"
proof -
  from assms(1) obtain params key ts where auth: "sigv4_authenticate G store r s = Inr (params, key)"
    and date: "map_of (ir_headers r) ''x-amz-date'' = Some ts" "sg_parse_date G ts = Some (ar_date ar)"
    and ar: "ar = \<lparr>ar_request = r, ar_service = sp_service params, ar_region = sp_region params,
       ar_access_key = ak_key_id key, ar_principal_id = ak_principal_id key, ar_date = ar_date ar\<rparr>"
    by (rule authenticate_request_run)
  from assms(2) obtain params' key' ts' where auth': "sigv4_authenticate G store q s = Inr (params', key')"
    and date': "map_of (ir_headers q) ''x-amz-date'' = Some ts'" "sg_parse_date G ts' = Some (ar_date aq)"
    and aq: "aq = \<lparr>ar_request = q, ar_service = sp_service params', ar_region = sp_region params',
       ar_access_key = ak_key_id key', ar_principal_id = ak_principal_id key', ar_date = ar_date aq\<rparr>"
    by (rule authenticate_request_run)
  from auth obtain t where r: "extract_sigv4_params r = Inr params" "im_get_secret_key store (sp_access_key params) s = Inr (Some key)"
    "canonical_text G r = Inr t" "text_to_sign G r = Inr (string_to_sign G params ts t)"
    "sp_signature params = sg_hex G (sg_hmac G
       (derive_signing_key G (ak_secret_key key) (sp_date params) (sp_region params) (sp_service params)) (string_to_sign G params ts t))"
    using date(1) by (elim sigv4_authenticate_run) simp
  from auth' obtain u where q: "extract_sigv4_params q = Inr params'" "im_get_secret_key store (sp_access_key params') s = Inr (Some key')"
    "canonical_text G q = Inr u" "text_to_sign G q = Inr (string_to_sign G params' ts' u)"
    "sp_signature params' = sg_hex G (sg_hmac G
       (derive_signing_key G (ak_secret_key key') (sp_date params') (sp_region params') (sp_service params')) (string_to_sign G params' ts' u))"
    using date'(1) by (elim sigv4_authenticate_run) simp
  have "extract_sigv4_params r = extract_sigv4_params q" by (simp only: extract_sigv4_params_def assms(3))
  then have params: "params' = params" using r(1) q(1) by simp
  then have key: "key' = key" using r(2) q(2) by simp
  have "string_to_sign G params ts t = string_to_sign G params ts' u"
    using assms(6) r(4,5) q(4,5) params key unfolding no_collision_def by (auto dest: inj_onD)
  note texts = string_to_sign_inj [OF this plain_header(1) [OF assms(4) date(1)] plain_header(1) [OF assms(5) date'(1)]]
  have "t = u" using assms(6) r(3) q(3) texts(2) unfolding no_collision_def by (auto dest: inj_onD)
  then have canonical: "create_canonical_request G r (sp_signed_headers params) = Inr t"
    "create_canonical_request G q (sp_signed_headers params) = Inr t"
    using r(1,3) q(1,3) params by (simp_all add: canonical_text_def)
  note covers = canonical_request_covers [OF this assms(4,5)]
  have "ir_body r = ir_body q" using assms(6) covers(5) unfolding no_collision_def by (auto dest: inj_onD)
  moreover have "aq = ar\<lparr>ar_request := q\<rparr>" using date'(2) date(2) texts(1) by (subst aq, subst ar) (simp add: params key)
  ultimately show ?thesis using covers(1-4) date(1) date'(1) texts(1) r(1) by (auto simp: list_all_iff)
qed


text \<open>Requests of the user the migrations create, with stand-ins for the functions of other crates.\<close>

definition demo_sig_ext :: sig_ext where
  "demo_sig_ext = \<lparr>sg_sha256 = (\<lambda>x. x), sg_hmac = (\<lambda>k x. x), sg_hex = take 1, sg_parse_date = (\<lambda>t. Some 0), sg_debug = (\<lambda>_. [])\<rparr>"

definition demo_signed :: "string \<Rightarrow> string \<Rightarrow> incoming_request" where
  "demo_signed key agent =
     \<lparr>ir_host = ''localhost'', ir_method = ''POST'', ir_path = ''/'', ir_query = None,
      ir_headers = [(''authorization'', ''AWS4-HMAC-SHA256 Credential='' @ key @ ''/20200101/us-east-1/iam/aws4_request, SignedHeaders=Host, Signature=A''),
        (''x-amz-date'', ''20200101T000000Z''), (''host'', ''localhost''), (''user-agent'', agent)], ir_body = ''q''\<rparr>"

definition demo_params :: "string \<Rightarrow> sig_v4_parameters" where
  "demo_params key = \<lparr>sp_algorithm = ''AWS4-HMAC-SHA256'', sp_access_key = key, sp_date = ''20200101'',
     sp_region = ''us-east-1'', sp_service = ''iam'', sp_signed_headers = [''Host''], sp_signature = ''A''\<rparr>"

lemma demo_extract:
  "extract_sigv4_params (demo_signed ''test'' agent) = Inr (demo_params ''test'')"
  "extract_sigv4_params (demo_signed ''AKIA'' agent) = Inr (demo_params ''AKIA'')"
  by (simp_all add: extract_sigv4_params_def demo_signed_def demo_params_def split_once_def read_pair_def trim_def trim_chars_def
      utf8_width_def byte_def is_whitespace_def Let_def del: ebind_eq_Inr)

lemma demo_lowercase: "to_ascii_lowercase ''Host'' = ''host''"
  by code_simp

lemma demo_canonical: "\<exists>t. create_canonical_request demo_sig_ext (demo_signed key agent) [''Host''] = Inr (CHR ''P'' # t)"
  by (simp add: create_canonical_request_def demo_signed_def demo_sig_ext_def canonicalize_signed_headers_def
      demo_lowercase extract_signed_headers_def)

lemma demo_hash:
  "hash_request demo_sig_ext (demo_signed ''test'' agent) row = Inr ''A''"
  "hash_request demo_sig_ext (demo_signed ''AKIA'' agent) row = Inr ''A''"
  using demo_canonical [of "''test''" agent] demo_canonical [of "''AKIA''" agent]
  by (auto simp: hash_request_def demo_extract) (simp_all add: demo_params_def demo_signed_def demo_sig_ext_def
      string_to_sign_def starts_with_def)

lemma demo_authenticated:
  "authenticate_request demo_sig_ext (sqlite_iam_store demo_texts 0) (demo_signed ''test'' agent) demo_iam_db =
     Inr \<lparr>ar_request = demo_signed ''test'' agent, ar_service = ''iam'', ar_region = ''us-east-1'', ar_access_key = ''test'',
       ar_principal_id = 1, ar_date = 0\<rparr>"
proof -
  have "sigv4_authenticate demo_sig_ext (sqlite_iam_store demo_texts 0) (demo_signed ''test'' agent) demo_iam_db =
      Inr (demo_params ''test'', \<lparr>ak_key_id = ''test'', ak_principal_id = 1, ak_secret_key = ''test'', ak_created_at = current_timestamp 0\<rparr>)"
    by (simp add: sigv4_authenticate_def demo_extract demo_hash demo_iam sqlite_get_secret_key_def del: ebind_eq_Inr)
      (simp add: demo_params_def)
  then show ?thesis
    by (simp add: authenticate_request_def del: ebind_eq_Inr) (simp add: demo_signed_def demo_sig_ext_def demo_params_def)
qed

lemma demo_plain: "list_all visible agent \<Longrightarrow> plain_request (demo_signed ''test'' agent)"
  by (simp add: plain_request_def demo_signed_def visible_def byte_def newline_def)

lemma demo_same_canonical: "canonical_text demo_sig_ext (demo_signed ''test'' a) = canonical_text demo_sig_ext (demo_signed ''test'' b)"
  unfolding canonical_text_def demo_extract ebind_simps
  by (simp add: demo_params_def demo_signed_def create_canonical_request_def canonicalize_signed_headers_def demo_lowercase
      extract_signed_headers_def canonical_query_string_def extract_query_params_def)

lemma demo_date: "map_of (ir_headers (demo_signed key agent)) ''x-amz-date'' = Some ''20200101T000000Z''"
  by (simp add: demo_signed_def)

lemma demo_no_collision: "no_collision demo_sig_ext (demo_signed ''test'' a) (demo_signed ''test'' b)"
proof -
  obtain t where t: "canonical_text demo_sig_ext (demo_signed ''test'' a) = Inr (CHR ''P'' # t)"
    using demo_canonical by (auto simp: canonical_text_def demo_extract demo_params_def)
  then have "text_to_sign demo_sig_ext (demo_signed ''test'' a) = text_to_sign demo_sig_ext (demo_signed ''test'' b)"
    by (simp only: text_to_sign_def demo_extract demo_same_canonical [of a b] demo_date)
  with t show ?thesis
    by (auto simp: no_collision_def inj_on_def demo_same_canonical [of b a]) (simp_all add: demo_signed_def demo_sig_ext_def)
qed

theorem signed_parts_are_covered_witness:
  "ir_body (demo_signed ''test'' ''curl'') = ir_body (demo_signed ''test'' ''wget'') \<and>
   header_value (demo_signed ''test'' ''curl'') ''host'' = header_value (demo_signed ''test'' ''wget'') ''host''"
proof -
  have "plain_request (demo_signed ''test'' ''curl'')" "plain_request (demo_signed ''test'' ''wget'')"
    by (rule demo_plain, simp add: visible_def byte_def)+
  from signed_parts_are_covered [OF demo_authenticated demo_authenticated _ this demo_no_collision]
  show ?thesis by (simp add: demo_extract) (simp add: demo_signed_def demo_params_def demo_lowercase)
qed


section \<open>Keys and identities\<close>

lemma get_secret_key_row:
  "sqlite_get_secret_key k db = Inr (Some row) \<Longrightarrow> row \<in> set (access_keys db) \<and> ak_key_id row = k"
  by (auto simp: sqlite_get_secret_key_def find_Some_iff)

lemma authenticated_row:
  assumes "authenticate_request G (sqlite_iam_store UE now) r db = Inr ar"
  obtains row where "row \<in> set (access_keys db)" "ak_key_id row = ar_access_key ar" "ak_principal_id row = ar_principal_id ar"
    "ar_request ar = r"
proof -
  from assms obtain params key ts where auth: "sigv4_authenticate G (sqlite_iam_store UE now) r db = Inr (params, key)"
    and ar: "ar = \<lparr>ar_request = r, ar_service = sp_service params, ar_region = sp_region params,
       ar_access_key = ak_key_id key, ar_principal_id = ak_principal_id key, ar_date = ar_date ar\<rparr>"
    by (rule authenticate_request_run)
  from auth have "sqlite_get_secret_key (sp_access_key params) db = Inr (Some key)" by (rule sigv4_authenticate_run) simp
  then have "key \<in> set (access_keys db)" using get_secret_key_row by blast
  with ar show thesis by (intro that [of key]) (metis authenticated_request.simps)+
qed

lemma sqlite_principal_row:
  assumes "iam_inv db" "p \<in> set (principals db)"
  shows "sqlite_get_principal (p_id p) db = Inr (Some p)"
proof -
  have "distinct (map p_id (principals db))" using assms(1) by (simp add: iam_inv_def)
  then show ?thesis using assms(2) by (simp add: sqlite_get_principal_def find_key_Some)
qed

lemma authenticated_row_identity:
  assumes "iam_inv db" "authenticate_request G (sqlite_iam_store UE now) r db = Inr ar"
  shows "\<exists>p\<in>set (principals db). p_id p = ar_principal_id ar \<and>
    resolve_identity (sqlite_iam_store UE now) request_id ar db =
      Inr \<lparr>rr_request_id = request_id, rr_request = r, rr_service = ar_service ar, rr_region = ar_region ar,
        rr_auth_context = \<lparr>ac_access_key = ar_access_key ar, ac_principal = p\<rparr>, rr_date = ar_date ar\<rparr>"
proof -
  from assms(2) obtain row where row: "row \<in> set (access_keys db)" "ak_principal_id row = ar_principal_id ar" "ar_request ar = r"
    by (rule authenticated_row)
  then have "ar_principal_id ar \<in> ak_principal_id ` set (access_keys db)" by (auto simp flip: row(2))
  then have "ar_principal_id ar \<in> p_id ` set (principals db)" using assms(1) by (auto simp: iam_inv_def)
  then obtain p where p: "p \<in> set (principals db)" "p_id p = ar_principal_id ar" by auto
  then have "sqlite_get_principal (ar_principal_id ar) db = Inr (Some p)" using sqlite_principal_row [OF assms(1), of p] by simp
  with p row(3) show ?thesis by (intro bexI [of _ p]) (simp_all add: resolve_identity_def)
qed

text \<open>
  Whoever authenticates is somebody: the identity of an authenticated request resolves to a row of
  the principals, the owner of the access key that signed; the error for a missing principal does not occur.
\<close>

theorem authenticated_caller_exists:
  assumes "iam_inv db" "authenticate_request G (sqlite_iam_store UE now) r db = Inr ar"
  shows "\<exists>p\<in>set (principals db). p_id p = ar_principal_id ar \<and>
    resolve_identity (sqlite_iam_store UE now) request_id ar db =
      Inr \<lparr>rr_request_id = request_id, rr_request = r, rr_service = ar_service ar, rr_region = ar_region ar,
        rr_auth_context = \<lparr>ac_access_key = ar_access_key ar, ac_principal = p\<rparr>, rr_date = ar_date ar\<rparr>"
  by (rule authenticated_row_identity [OF assms])

theorem authenticated_caller_exists_witness:
  "\<exists>req. resolve_identity (sqlite_iam_store demo_texts 0) ''id''
     \<lparr>ar_request = demo_signed ''test'' ''curl'', ar_service = ''iam'', ar_region = ''us-east-1'', ar_access_key = ''test'',
       ar_principal_id = 1, ar_date = 0\<rparr> demo_iam_db = Inr req"
  using authenticated_caller_exists [OF demo_iam_inv demo_authenticated] by blast

text \<open>
  C30. The key that CreateAccessKey answers opens the door to its user: a request that names it and is
  signed with the secret of the answer authenticates as that user; signed otherwise, it is rejected.
\<close>

theorem created_key_authenticates:
  assumes "handle_create_access_key X (sqlite_iam_store UE now) u1 u2 u3 request requested db = (Inr resp, db')"
    and "extract_sigv4_params r = Inr params" "sp_access_key params = kx_access_key_id (ires_result resp)"
    and "ak_secret_key key = kx_secret_access_key (ires_result resp)"
    and "map_of (ir_headers r) ''x-amz-date'' = Some ts" "sg_parse_date G ts = Some date"
  shows "\<exists>user. requested_or_signing_user (sqlite_iam_store UE now) request requested db = Inr user \<and>
    authenticate_request G (sqlite_iam_store UE now') r db' =
      (case hash_request G r key of
         Inl e \<Rightarrow> Inl e
       | Inr sig \<Rightarrow>
           if sig = sp_signature params
           then Inr \<lparr>ar_request = r, ar_service = sp_service params, ar_region = sp_region params,
             ar_access_key = sp_access_key params, ar_principal_id = p_id user, ar_date = date\<rparr>
           else Inl InvalidSignature)"
proof -
  from assms(1) obtain user row where user: "requested_or_signing_user (sqlite_iam_store UE now) request requested db = Inr user"
    and made: "sqlite_insert_secret_key UE now (new_access_key_id u1) (new_secret_access_key u2 u3) (p_id user) db = (Inr row, db')"
    and resp: "resp = iam_reply request (iam_access_key_xml X (p_name user) row)"
    by (auto simp: handle_create_access_key_def result_simps split: sum.splits)
  from made have new: "ak_key_id row \<notin> ak_key_id ` set (access_keys db)" "access_keys db' = access_keys db @ [row]"
    and owner: "ak_principal_id row = p_id user"
    by (auto simp: sqlite_insert_secret_key_def Let_def list_ex_iff split: if_splits)
  from resp have id: "kx_access_key_id (ires_result resp) = ak_key_id row" "kx_secret_access_key (ires_result resp) = ak_secret_key row"
    by (simp_all add: iam_reply_def iam_access_key_xml_def)
  have "find (\<lambda>k. ak_key_id k = ak_key_id row) (access_keys db) = None" using new(1) by (simp only: find_key_None not_False_eq_True)
  then have found: "sqlite_get_secret_key (ak_key_id row) db' = Inr (Some row)"
    by (simp add: sqlite_get_secret_key_def new(2) find_key_append)
  have hash: "hash_request G r row = hash_request G r key" using assms(4) id by (simp add: hash_request_def)
  show ?thesis using user owner id assms(3,5,6)
    by (cases "hash_request G r key")
      (auto simp: authenticate_request_def sigv4_authenticate_def assms(2) found hash simp del: ebind_eq_Inr)
qed


lemma demo_create_key:
  "\<exists>resp db'. handle_create_access_key demo_iam_ext (sqlite_iam_store demo_texts 0) [] ''f1'' ''f2'' (demo_request ''iam'') None demo_iam_db =
     (Inr resp, db') \<and> kx_access_key_id (ires_result resp) = ''AKIA'' \<and>
     requested_or_signing_user (sqlite_iam_store demo_texts 0) (demo_request ''iam'') None demo_iam_db =
       Inr (ac_principal (rr_auth_context (demo_request ''iam'')))"
  by (simp add: handle_create_access_key_def requested_or_signing_user_def sqlite_insert_secret_key_def Let_def sbind_def smap_err_def
      new_access_key_id_def iam_access_key_xml_def principal_exists_def demo_iam)

theorem created_key_authenticates_witness:
  "\<exists>db' ar. authenticate_request demo_sig_ext (sqlite_iam_store demo_texts 0) (demo_signed ''AKIA'' ''curl'') db' = Inr ar \<and>
     ar_principal_id ar = 1"
proof -
  obtain resp db' where run: "handle_create_access_key demo_iam_ext (sqlite_iam_store demo_texts 0) [] ''f1'' ''f2'' (demo_request ''iam'') None demo_iam_db =
     (Inr resp, db')" and id: "kx_access_key_id (ires_result resp) = ''AKIA''"
    and user: "requested_or_signing_user (sqlite_iam_store demo_texts 0) (demo_request ''iam'') None demo_iam_db =
       Inr (ac_principal (rr_auth_context (demo_request ''iam'')))"
    using demo_create_key by blast
  let ?key = "\<lparr>ak_key_id = [], ak_principal_id = 0, ak_secret_key = kx_secret_access_key (ires_result resp), ak_created_at = 0\<rparr>"
  have key: "sp_access_key (demo_params ''AKIA'') = kx_access_key_id (ires_result resp)" by (simp add: id demo_params_def)
  have secret: "ak_secret_key ?key = kx_secret_access_key (ires_result resp)" by simp
  have parse: "sg_parse_date demo_sig_ext ''20200101T000000Z'' = Some 0" by (simp add: demo_sig_ext_def)
  from created_key_authenticates [OF run demo_extract(2) key secret demo_date parse, of 0 "''curl''"]
  have "\<exists>ar. authenticate_request demo_sig_ext (sqlite_iam_store demo_texts 0) (demo_signed ''AKIA'' ''curl'') db' = Inr ar \<and>
      ar_principal_id ar = p_id (ac_principal (rr_auth_context (demo_request ''iam'')))"
    unfolding user by (auto simp: demo_hash) (simp_all add: demo_params_def)
  then show ?thesis by (auto simp: demo_request_def)
qed

section \<open>A query is encoded twice\<close>

text \<open>
  The canonical query encodes what the request line carries, which is already encoded: the escape of a
  reserved character is escaped again.
\<close>

lemma query_encoded_twice:
  "canonical_query_string ((demo_signed ''test'' [])\<lparr>ir_query := Some ''Name=a%20b''\<rparr>) = ''Name=a%2520b''"
  by (simp add: canonical_query_string_def extract_query_params_def split_once_def aws_uri_encode_def is_unreserved_def
      is_ascii_alphanumeric_def byte_def percent_byte_def hex_digits_def)

end
