(* ===== verification/Trace_Store.thy ===== *)
theory Trace_Store
  imports Core
begin

text \<open>
  Traces of requests: the records of \<^verbatim>\<open>hiraeth_core/src/tracing.rs\<close> and the SQLite store of
  \<^verbatim>\<open>hiraeth_store_sqlx/src/trace.rs\<close>, one definition per statement. The rows of a table stand in the
  order of their \<^verbatim>\<open>AUTOINCREMENT\<close> ids, which nothing but that order depends on. Texts of points in
  time, JSON and \<^verbatim>\<open>json_extract\<close> belong to other programs: the record \<open>trace_ext\<close>.
\<close>

section \<open>Records\<close>

record trace_http_request =
  hq_method :: string
  hq_host :: string
  hq_path :: string
  hq_query :: "string option"
  hq_headers :: "(string \<times> string) list"
  hq_body :: string

record trace_http_response =
  hp_status_code :: nat
  hp_headers :: "(string \<times> string) list"
  hp_body :: string

record completed_request_trace =
  ct_request_id :: string
  ct_started_at :: time
  ct_completed_at :: time
  ct_duration_ms :: nat
  ct_auth_ms :: nat
  ct_route_ms :: "nat option"
  ct_service :: "string option"
  ct_region :: "string option"
  ct_account_id :: "string option"
  ct_principal :: "string option"
  ct_access_key :: "string option"
  ct_request :: trace_http_request
  ct_response :: trace_http_response
  ct_error_message :: "string option"

record request_trace_summary =
  ts_request_id :: string
  ts_started_at :: time
  ts_duration_ms :: nat
  ts_service :: "string option"
  ts_action :: "string option"
  ts_region :: "string option"
  ts_account_id :: "string option"
  ts_principal :: "string option"
  ts_method :: string
  ts_path :: string
  ts_status_code :: nat
  ts_error_message :: "string option"

datatype trace_request_status_filter = StatusOk | StatusError

record trace_request_filters =
  tf_service :: "string option"
  tf_action :: "string option"
  tf_status :: "trace_request_status_filter option"

definition default_filters :: trace_request_filters where
  "default_filters = \<lparr>tf_service = None, tf_action = None, tf_status = None\<rparr>"

record trace_span =
  tsp_request_id :: string
  tsp_span_id :: string
  tsp_parent_span_id :: "string option"
  tsp_name :: string
  tsp_layer :: string
  tsp_started_at :: time
  tsp_completed_at :: time
  tsp_duration_ms :: nat
  tsp_status :: string
  tsp_attributes :: "(string \<times> string) list"

datatype trace_record_error = TraceStorageFailure string

fun trace_error_text :: "trace_record_error \<Rightarrow> string" where
  "trace_error_text (TraceStorageFailure m) = ''trace storage failure: '' @ m"

section \<open>Contexts and timers\<close>

record trace_context =
  tc_request_id :: string
  tc_parent_span_id :: "string option"

definition new_trace_context :: "string \<Rightarrow> trace_context" where
  "new_trace_context request_id = \<lparr>tc_request_id = request_id, tc_parent_span_id = None\<rparr>"

record trace_span_timer =
  tt_span_id :: string
  tt_parent_span_id :: "string option"
  tt_started_at :: time
  tt_started_instant :: time

text \<open>
  \<^verbatim>\<open>timestamp_nanos_opt().unwrap_or_default()\<close>: the nanoseconds from the epoch when they fit \<^verbatim>\<open>i64\<close>.
  The readings of the clocks are arguments.
\<close>

definition new_span_id :: "string \<Rightarrow> time \<Rightarrow> string" where
  "new_span_id request_id now = request_id @ ''-'' @ show_int (if in_i64 now then now else 0)"

definition start_span :: "trace_context \<Rightarrow> time \<Rightarrow> time \<Rightarrow> time \<Rightarrow> trace_span_timer" where
  "start_span ctx id_now now instant =
     \<lparr>tt_span_id = new_span_id (tc_request_id ctx) id_now, tt_parent_span_id = tc_parent_span_id ctx,
      tt_started_at = now, tt_started_instant = instant\<rparr>"

definition child_context :: "trace_context \<Rightarrow> trace_span_timer \<Rightarrow> trace_context" where
  "child_context ctx timer = \<lparr>tc_request_id = tc_request_id ctx, tc_parent_span_id = Some (tt_span_id timer)\<rparr>"

text \<open>\<^verbatim>\<open>elapsed().as_millis()\<close>, which does not go below zero.\<close>

definition elapsed_ms :: "time \<Rightarrow> time \<Rightarrow> nat" where
  "elapsed_ms start now = nat ((now - start) div 1000000)"

text \<open>The trait \<^verbatim>\<open>TraceRecorder\<close> over a state.\<close>

record 's trace_recorder =
  rc_record_request_trace :: "completed_request_trace \<Rightarrow> ('s, trace_record_error, unit) store_op"
  rc_record_span :: "trace_span \<Rightarrow> ('s, trace_record_error, unit) store_op"

definition noop_trace_recorder :: "'s trace_recorder" where
  "noop_trace_recorder = \<lparr>rc_record_request_trace = (\<lambda>_. slift (Inr ())), rc_record_span = (\<lambda>_. slift (Inr ()))\<rparr>"

definition record_span ::
    "trace_context \<Rightarrow> 's trace_recorder \<Rightarrow> trace_span_timer \<Rightarrow> string \<Rightarrow> string \<Rightarrow> string \<Rightarrow> (string \<times> string) list \<Rightarrow>
     time \<Rightarrow> time \<Rightarrow> ('s, trace_record_error, unit) store_op" where
  "record_span ctx recorder timer name layer status attributes now instant =
     rc_record_span recorder
       \<lparr>tsp_request_id = tc_request_id ctx, tsp_span_id = tt_span_id timer, tsp_parent_span_id = tt_parent_span_id timer,
        tsp_name = name, tsp_layer = layer, tsp_started_at = tt_started_at timer, tsp_completed_at = now,
        tsp_duration_ms = elapsed_ms (tt_started_instant timer) instant, tsp_status = status, tsp_attributes = attributes\<rparr>"

section \<open>Integer casts\<close>

text \<open>\<^verbatim>\<open>u128 as i64\<close>, \<^verbatim>\<open>i64 as u128\<close> and \<^verbatim>\<open>i64 as u16\<close> cut off the higher bits.\<close>

definition as_i64 :: "nat \<Rightarrow> int" where
  "as_i64 n = (let m = int n mod 2 ^ 64 in if m < 2 ^ 63 then m else m - 2 ^ 64)"

definition as_u128 :: "int \<Rightarrow> nat" where
  "as_u128 i = nat (i mod 2 ^ 128)"

definition as_u16 :: "int \<Rightarrow> nat" where
  "as_u16 i = nat (i mod 2 ^ 16)"

lemma as_u128_as_i64: "n < 2 ^ 63 \<Longrightarrow> as_u128 (as_i64 n) = n"
proof -
  assume small: "n < 2 ^ 63"
  then have "int n mod 2 ^ 64 = int n" "int n < 2 ^ 63" by simp_all
  then show "as_u128 (as_i64 n) = n" using small by (simp add: as_i64_def as_u128_def)
qed

lemma as_u16_int: "n < 2 ^ 16 \<Longrightarrow> as_u16 (int n) = n"
  by (simp add: as_u16_def)

section \<open>Tables\<close>

record trace_ext =
  tx_time_text :: "time \<Rightarrow> string"
  tx_parse_time :: "string \<Rightarrow> string + time"
  tx_map_json :: "(string \<times> string) list \<Rightarrow> string + string"
  tx_parse_map :: "string \<Rightarrow> string + (string \<times> string) list"
  tx_pairs_json :: "(string \<times> string) list \<Rightarrow> string + string"
  tx_parse_pairs :: "string \<Rightarrow> string + (string \<times> string) list"
  tx_action_name :: "string \<Rightarrow> string option"
  tx_unique :: string

record request_row =
  rq_request_id :: string
  rq_started_at :: string
  rq_completed_at :: string
  rq_duration_ms :: int
  rq_auth_ms :: int
  rq_route_ms :: "int option"
  rq_service :: "string option"
  rq_region :: "string option"
  rq_account_id :: "string option"
  rq_principal :: "string option"
  rq_access_key :: "string option"
  rq_method :: string
  rq_host :: string
  rq_path :: string
  rq_query :: "string option"
  rq_headers_json :: string
  rq_body :: string
  rq_response_status_code :: int
  rq_response_headers_json :: string
  rq_response_body :: string
  rq_error_message :: "string option"

record span_row =
  spr_request_id :: string
  spr_span_id :: string
  spr_parent_span_id :: "string option"
  spr_name :: string
  spr_layer :: string
  spr_started_at :: string
  spr_completed_at :: string
  spr_duration_ms :: int
  spr_status :: string
  spr_attributes_json :: string

record trace_db =
  trace_requests :: "request_row list"
  trace_spans :: "span_row list"

definition migrated_trace_db :: trace_db where
  "migrated_trace_db = \<lparr>trace_requests = [], trace_spans = []\<rparr>"

section \<open>Recording\<close>

definition request_row_of :: "trace_ext \<Rightarrow> completed_request_trace \<Rightarrow> string \<Rightarrow> string \<Rightarrow> request_row" where
  "request_row_of T trace request_headers_json response_headers_json =
     \<lparr>rq_request_id = ct_request_id trace, rq_started_at = tx_time_text T (ct_started_at trace),
      rq_completed_at = tx_time_text T (ct_completed_at trace), rq_duration_ms = as_i64 (ct_duration_ms trace),
      rq_auth_ms = as_i64 (ct_auth_ms trace), rq_route_ms = map_option as_i64 (ct_route_ms trace),
      rq_service = ct_service trace, rq_region = ct_region trace, rq_account_id = ct_account_id trace,
      rq_principal = ct_principal trace, rq_access_key = ct_access_key trace,
      rq_method = hq_method (ct_request trace), rq_host = hq_host (ct_request trace), rq_path = hq_path (ct_request trace),
      rq_query = hq_query (ct_request trace), rq_headers_json = request_headers_json, rq_body = hq_body (ct_request trace),
      rq_response_status_code = int (hp_status_code (ct_response trace)),
      rq_response_headers_json = response_headers_json, rq_response_body = hp_body (ct_response trace),
      rq_error_message = ct_error_message trace\<rparr>"

text \<open>The index on \<^verbatim>\<open>request_id\<close> is unique.\<close>

definition sqlite_record_request_trace ::
    "trace_ext \<Rightarrow> completed_request_trace \<Rightarrow> (trace_db, trace_record_error, unit) store_op" where
  "sqlite_record_request_trace T trace =
     sbind (slift (map_err TraceStorageFailure (tx_map_json T (hq_headers (ct_request trace))))) (\<lambda>request_headers_json.
     sbind (slift (map_err TraceStorageFailure (tx_pairs_json T (hp_headers (ct_response trace))))) (\<lambda>response_headers_json.
     \<lambda>db. if list_ex (\<lambda>r. rq_request_id r = ct_request_id trace) (trace_requests db)
          then (Inl (TraceStorageFailure (tx_unique T)), db)
          else (Inr (), db\<lparr>trace_requests := trace_requests db @
                       [request_row_of T trace request_headers_json response_headers_json]\<rparr>)))"

definition sqlite_record_span :: "trace_ext \<Rightarrow> trace_span \<Rightarrow> (trace_db, trace_record_error, unit) store_op" where
  "sqlite_record_span T span =
     sbind (slift (map_err TraceStorageFailure (tx_map_json T (tsp_attributes span)))) (\<lambda>attributes_json db.
     (Inr (), db\<lparr>trace_spans := trace_spans db @
        [\<lparr>spr_request_id = tsp_request_id span, spr_span_id = tsp_span_id span, spr_parent_span_id = tsp_parent_span_id span,
          spr_name = tsp_name span, spr_layer = tsp_layer span, spr_started_at = tx_time_text T (tsp_started_at span),
          spr_completed_at = tx_time_text T (tsp_completed_at span), spr_duration_ms = as_i64 (tsp_duration_ms span),
          spr_status = tsp_status span, spr_attributes_json = attributes_json\<rparr>]\<rparr>))"

definition sqlite_trace_recorder :: "trace_ext \<Rightarrow> trace_db trace_recorder" where
  "sqlite_trace_recorder T =
     \<lparr>rc_record_request_trace = sqlite_record_request_trace T, rc_record_span = sqlite_record_span T\<rparr>"

section \<open>Reading\<close>

definition parse_datetime :: "trace_ext \<Rightarrow> string \<Rightarrow> trace_record_error + time" where
  "parse_datetime T v = map_err TraceStorageFailure (tx_parse_time T v)"

definition action_spans :: "trace_db \<Rightarrow> span_row list" where
  "action_spans db = filter (\<lambda>sp. spr_name sp = ''action.handle'') (trace_spans db)"

text \<open>The subquery of a listing: the action of the first span \<^verbatim>\<open>action.handle\<close> of a request.\<close>

definition request_action :: "trace_ext \<Rightarrow> trace_db \<Rightarrow> string \<Rightarrow> string option" where
  "request_action T db request_id =
     (case sort_key spr_started_at (filter (\<lambda>sp. spr_request_id sp = request_id) (action_spans db)) of
        [] \<Rightarrow> None | sp # _ \<Rightarrow> tx_action_name T (spr_attributes_json sp))"

definition append_request_trace_filters :: "trace_ext \<Rightarrow> trace_db \<Rightarrow> trace_request_filters \<Rightarrow> request_row \<Rightarrow> bool" where
  "append_request_trace_filters T db filters r \<longleftrightarrow>
     (case tf_service filters of None \<Rightarrow> True | Some service \<Rightarrow> rq_service r = Some service) \<and>
     (case tf_status filters of
        Some StatusOk \<Rightarrow> rq_response_status_code r < 400
      | Some StatusError \<Rightarrow> rq_response_status_code r \<ge> 400
      | None \<Rightarrow> True) \<and>
     (case tf_action filters of
        None \<Rightarrow> True
      | Some action \<Rightarrow> list_ex (\<lambda>sp. spr_request_id sp = rq_request_id r \<and> tx_action_name T (spr_attributes_json sp) = Some action)
          (action_spans db))"

definition request_summary :: "trace_ext \<Rightarrow> trace_db \<Rightarrow> request_row \<Rightarrow> trace_record_error + request_trace_summary" where
  "request_summary T db r =
     ebind (parse_datetime T (rq_started_at r)) (\<lambda>started_at.
     Inr \<lparr>ts_request_id = rq_request_id r, ts_started_at = started_at, ts_duration_ms = as_u128 (rq_duration_ms r),
          ts_service = rq_service r, ts_action = request_action T db (rq_request_id r), ts_region = rq_region r,
          ts_account_id = rq_account_id r, ts_principal = rq_principal r, ts_method = rq_method r, ts_path = rq_path r,
          ts_status_code = as_u16 (rq_response_status_code r), ts_error_message = rq_error_message r\<rparr>)"

text \<open>\<^verbatim>\<open>ORDER BY started_at DESC, request_id DESC\<close>: request ids are unique, so no two rows are equal in the order.\<close>

definition sqlite_list_request_traces_filtered ::
    "trace_ext \<Rightarrow> int \<Rightarrow> trace_request_filters \<Rightarrow> trace_db \<Rightarrow> trace_record_error + request_trace_summary list" where
  "sqlite_list_request_traces_filtered T limit filters db =
     collect_results (request_summary T db)
       (sql_limit limit (rev (sort_key (\<lambda>r. (rq_started_at r, rq_request_id r))
         (filter (append_request_trace_filters T db filters) (trace_requests db)))))"

definition sqlite_list_request_traces :: "trace_ext \<Rightarrow> int \<Rightarrow> trace_db \<Rightarrow> trace_record_error + request_trace_summary list" where
  "sqlite_list_request_traces T limit db = sqlite_list_request_traces_filtered T limit default_filters db"

text \<open>\<^verbatim>\<open>SELECT DISTINCT\<close> of a text that is neither \<^verbatim>\<open>NULL\<close> nor empty, in order.\<close>

definition distinct_texts :: "string option list \<Rightarrow> string list" where
  "distinct_texts vs = sort (remdups (filter (\<lambda>v. v \<noteq> []) (map the (filter (\<lambda>v. v \<noteq> None) vs))))"

definition sqlite_list_trace_services :: "trace_db \<Rightarrow> trace_record_error + string list" where
  "sqlite_list_trace_services db = Inr (distinct_texts (map rq_service (trace_requests db)))"

definition sqlite_list_trace_actions :: "trace_ext \<Rightarrow> trace_db \<Rightarrow> trace_record_error + string list" where
  "sqlite_list_trace_actions T db = Inr (distinct_texts (map (\<lambda>sp. tx_action_name T (spr_attributes_json sp)) (action_spans db)))"

definition stored_request_trace :: "trace_ext \<Rightarrow> request_row \<Rightarrow> trace_record_error + completed_request_trace" where
  "stored_request_trace T r =
     ebind (parse_datetime T (rq_started_at r)) (\<lambda>started_at.
     ebind (parse_datetime T (rq_completed_at r)) (\<lambda>completed_at.
     ebind (map_err TraceStorageFailure (tx_parse_map T (rq_headers_json r))) (\<lambda>request_headers.
     ebind (map_err TraceStorageFailure (tx_parse_pairs T (rq_response_headers_json r))) (\<lambda>response_headers.
     Inr \<lparr>ct_request_id = rq_request_id r, ct_started_at = started_at, ct_completed_at = completed_at,
          ct_duration_ms = as_u128 (rq_duration_ms r), ct_auth_ms = as_u128 (rq_auth_ms r),
          ct_route_ms = map_option as_u128 (rq_route_ms r), ct_service = rq_service r, ct_region = rq_region r,
          ct_account_id = rq_account_id r, ct_principal = rq_principal r, ct_access_key = rq_access_key r,
          ct_request = \<lparr>hq_method = rq_method r, hq_host = rq_host r, hq_path = rq_path r, hq_query = rq_query r,
            hq_headers = request_headers, hq_body = rq_body r\<rparr>,
          ct_response = \<lparr>hp_status_code = as_u16 (rq_response_status_code r), hp_headers = response_headers,
            hp_body = rq_response_body r\<rparr>,
          ct_error_message = rq_error_message r\<rparr>))))"

definition sqlite_get_request_trace ::
    "trace_ext \<Rightarrow> string \<Rightarrow> trace_db \<Rightarrow> trace_record_error + completed_request_trace option" where
  "sqlite_get_request_trace T request_id db =
     map_transpose (stored_request_trace T) (find (\<lambda>r. rq_request_id r = request_id) (trace_requests db))"

definition stored_span :: "trace_ext \<Rightarrow> span_row \<Rightarrow> trace_record_error + trace_span" where
  "stored_span T r =
     ebind (parse_datetime T (spr_started_at r)) (\<lambda>started_at.
     ebind (parse_datetime T (spr_completed_at r)) (\<lambda>completed_at.
     ebind (map_err TraceStorageFailure (tx_parse_map T (spr_attributes_json r))) (\<lambda>attributes.
     Inr \<lparr>tsp_request_id = spr_request_id r, tsp_span_id = spr_span_id r, tsp_parent_span_id = spr_parent_span_id r,
          tsp_name = spr_name r, tsp_layer = spr_layer r, tsp_started_at = started_at, tsp_completed_at = completed_at,
          tsp_duration_ms = as_u128 (spr_duration_ms r), tsp_status = spr_status r, tsp_attributes = attributes\<rparr>)))"

definition sqlite_list_trace_spans :: "trace_ext \<Rightarrow> string \<Rightarrow> trace_db \<Rightarrow> trace_record_error + trace_span list" where
  "sqlite_list_trace_spans T request_id db =
     collect_results (stored_span T)
       (sort_key spr_started_at (filter (\<lambda>sp. spr_request_id sp = request_id) (trace_spans db)))"

definition sqlite_clear_traces :: "(trace_db, trace_record_error, unit) store_op" where
  "sqlite_clear_traces db = (Inr (), db\<lparr>trace_spans := [], trace_requests := []\<rparr>)"

section \<open>What the store promises\<close>

definition trace_inv :: "trace_db \<Rightarrow> bool" where
  "trace_inv db \<longleftrightarrow> distinct (map rq_request_id (trace_requests db))"

lemma trace_inv_ops [intro]:
  "keeps trace_inv (sqlite_record_request_trace T trace)" "keeps trace_inv (sqlite_record_span T span)"
  "keeps trace_inv sqlite_clear_traces"
  by (auto simp: keeps_def sqlite_record_request_trace_def sqlite_record_span_def sqlite_clear_traces_def trace_inv_def
      request_row_of_def list_ex_iff split: sum.split)

text \<open>The laws of the other programs on the values of one trace: what is written is read back.\<close>

definition values_roundtrip ::
    "trace_ext \<Rightarrow> time \<Rightarrow> time \<Rightarrow> (string \<times> string) list \<Rightarrow> (string \<times> string) list \<Rightarrow> bool" where
  "values_roundtrip T started completed headers pairs \<longleftrightarrow>
     tx_parse_time T (tx_time_text T started) = Inr started \<and> tx_parse_time T (tx_time_text T completed) = Inr completed \<and>
     ebind (tx_map_json T headers) (tx_parse_map T) = Inr headers \<and>
     ebind (tx_pairs_json T pairs) (tx_parse_pairs T) = Inr pairs"

abbreviation trace_values_roundtrip :: "trace_ext \<Rightarrow> completed_request_trace \<Rightarrow> bool" where
  "trace_values_roundtrip T trace \<equiv> values_roundtrip T (ct_started_at trace) (ct_completed_at trace)
     (hq_headers (ct_request trace)) (hp_headers (ct_response trace))"

definition trace_values_fit :: "completed_request_trace \<Rightarrow> bool" where
  "trace_values_fit trace \<longleftrightarrow> ct_duration_ms trace < 2 ^ 63 \<and> ct_auth_ms trace < 2 ^ 63 \<and>
     (case ct_route_ms trace of None \<Rightarrow> True | Some ms \<Rightarrow> ms < 2 ^ 63) \<and> hp_status_code (ct_response trace) < 2 ^ 16"

lemma stored_row_of:
  assumes "trace_values_roundtrip T trace" "trace_values_fit trace"
    and "tx_map_json T (hq_headers (ct_request trace)) = Inr a" "tx_pairs_json T (hp_headers (ct_response trace)) = Inr b"
  shows "stored_request_trace T (request_row_of T trace a b) = Inr trace"
  using assms
  by (simp add: stored_request_trace_def request_row_of_def values_roundtrip_def trace_values_fit_def parse_datetime_def
      as_u128_as_i64 as_u16_int option.map_comp comp_def split: option.splits del: ebind_eq_Inr)

lemma recorded_trace_reads_back:
  assumes "trace_values_roundtrip T trace" "trace_values_fit trace"
    and "sqlite_get_request_trace T (ct_request_id trace) db = Inr None"
  shows "\<exists>db'. sqlite_record_request_trace T trace db = (Inr (), db') \<and>
    sqlite_get_request_trace T request_id db' =
      (if request_id = ct_request_id trace then Inr (Some trace) else sqlite_get_request_trace T request_id db)"
proof -
  have new: "find (\<lambda>r. rq_request_id r = ct_request_id trace) (trace_requests db) = None"
    using assms(3) by (auto simp: sqlite_get_request_trace_def map_transpose_def split: option.splits)
  from assms(1) obtain a b where json: "tx_map_json T (hq_headers (ct_request trace)) = Inr a"
    "tx_pairs_json T (hp_headers (ct_response trace)) = Inr b" by (auto simp: values_roundtrip_def)
  have id: "rq_request_id (request_row_of T trace a b) = ct_request_id trace" by (simp add: request_row_of_def)
  have "sqlite_record_request_trace T trace db =
      (Inr (), db\<lparr>trace_requests := trace_requests db @ [request_row_of T trace a b]\<rparr>)"
    using new json by (simp add: sqlite_record_request_trace_def list_ex_iff find_None_iff)
  with new id stored_row_of [OF assms(1,2) json] show ?thesis
    by (auto simp: sqlite_get_request_trace_def find_append split: option.split)
qed


definition demo_trace_ext :: trace_ext where
  "demo_trace_ext =
     \<lparr>tx_time_text = show_int, tx_parse_time = (\<lambda>t. ok_or ''time'' (parse_i64 t)),
      tx_map_json = (\<lambda>m. if m = [] then Inr ''{}'' else Inl ''json''), tx_parse_map = (\<lambda>_. Inr []),
      tx_pairs_json = (\<lambda>m. if m = [] then Inr ''[]'' else Inl ''json''), tx_parse_pairs = (\<lambda>_. Inr []),
      tx_action_name = (\<lambda>_. Some ''SendMessage''), tx_unique = ''UNIQUE''\<rparr>"

end
