(* ===== verification/Runtime.thy ===== *)
theory Runtime
  imports Trace_Store Sqs_Service Sns_Service Iam_Mediation Sts_Service Sig_V4_Laws
begin

text \<open>
  The server, \<^verbatim>\<open>hiraeth_runtime\<close>: the application with its services over one database (\<^verbatim>\<open>app.rs\<close>), the
  way of a request through authentication, identity and router (\<^verbatim>\<open>request.rs\<close>), and the answer to the
  client with its request id and its trace (\<^verbatim>\<open>serve.rs\<close>); the conversion of requests of
  \<^verbatim>\<open>hiraeth_http\<close> and the mode of \<^verbatim>\<open>hiraeth_core/src/config.rs\<close>. The state is a record of the tables.
  Spans recorded by the router and below it are left out.
\<close>

section \<open>Configuration\<close>

datatype auth_mode = EnforceMode | AuditMode | OffMode

fun authorization_mode_of :: "auth_mode \<Rightarrow> authorization_mode" where
  "authorization_mode_of EnforceMode = Enforce"
| "authorization_mode_of AuditMode = Audit"
| "authorization_mode_of OffMode = Off"

definition default_auth_mode :: auth_mode where "default_auth_mode = AuditMode"

record server_config =
  cfg_host :: string
  cfg_port :: nat
  cfg_database_url :: string
  cfg_web_enabled :: bool
  cfg_web_host :: string
  cfg_web_port :: nat
  cfg_auth_mode :: auth_mode

text \<open>The values \<^verbatim>\<open>serde\<close> takes for the fields that are not given.\<close>

definition default_config :: server_config where
  "default_config = \<lparr>cfg_host = ''0.0.0.0'', cfg_port = 4566, cfg_database_url = ''sqlite://data/db.sqlite'',
     cfg_web_enabled = True, cfg_web_host = ''127.0.0.1'', cfg_web_port = 4567, cfg_auth_mode = default_auth_mode\<rparr>"

definition aws_endpoint_url :: "server_config \<Rightarrow> string" where
  "aws_endpoint_url config =
     (let host = (if cfg_host config = ''0.0.0.0'' \<or> cfg_host config = ''::'' then ''localhost'' else cfg_host config);
          host = (if CHR '':'' \<in> set host \<and> \<not> starts_with ''['' host then ''['' @ host @ '']'' else host)
      in ''http://'' @ host @ '':'' @ show_nat (cfg_port config))"

section \<open>Requests from the wire\<close>

text \<open>
  What \<^verbatim>\<open>http\<close> delivers: a value of \<^verbatim>\<open>None\<close> is one that \<^verbatim>\<open>to_str\<close> refuses. The headers are those of
  the header map in the order of its iterator; a name may come more than once.
\<close>

record http_parts =
  pt_method :: string
  pt_path :: string
  pt_query :: "string option"
  pt_headers :: "(string \<times> string option) list"

definition collect_headers :: "(string \<times> string option) list \<Rightarrow> (string \<times> string) list" where
  "collect_headers hs = fold (\<lambda>(k, v). hashmap_insert (to_ascii_lowercase k) (coalesce v [])) hs []"

definition from_parts :: "http_parts \<Rightarrow> string \<Rightarrow> incoming_request" where
  "from_parts parts body =
     \<lparr>ir_host = (case map_of (pt_headers parts) ''host'' of Some (Some v) \<Rightarrow> v | _ \<Rightarrow> []),
      ir_method = pt_method parts, ir_path = pt_path parts, ir_query = pt_query parts,
      ir_headers = collect_headers (pt_headers parts), ir_body = body\<rparr>"

definition from_hyper :: "http_parts \<Rightarrow> 'e + string \<Rightarrow> 'e + incoming_request" where
  "from_hyper parts body = ebind body (\<lambda>bytes. Inr (from_parts parts bytes))"

section \<open>The application\<close>

record app_state =
  app_iam :: iam_db
  app_sns :: sns_db
  app_sqs :: sqs_db
  app_traces :: trace_db

text \<open>What belongs to other crates, and the payload codecs.\<close>

record app_ext =
  ae_ext :: ext
  ae_sns :: sns_ext
  ae_iam :: iam_ext
  ae_sts :: xml_error
  ae_sig :: sig_ext
  ae_trace :: trace_ext
  ae_texts :: sqlite_texts
  ae_form :: form_parser
  ae_sqs_codec :: sqs_codec
  ae_sns_codec :: sns_codec
  ae_iam_codec :: iam_codec
  ae_sts_codec :: sts_codec
  ae_debug_api :: "api_error \<Rightarrow> string"
  ae_debug_identity :: "resolve_identity_error \<Rightarrow> string"
  ae_valid_status :: "nat \<Rightarrow> bool"
  ae_valid_header :: "string \<Rightarrow> string \<Rightarrow> bool"

text \<open>The random values of a request and the readings of its clocks, by number.\<close>

record app_env =
  en_request_id :: string
  en_now :: time
  en_iam :: iam_env
  en_sqs :: "sqs_db sqs_env"
  en_sns :: sns_env
  en_clock :: "nat \<Rightarrow> time"

text \<open>A service over a part of the state.\<close>

definition service_on :: "('s \<Rightarrow> 't) \<Rightarrow> ('t \<Rightarrow> 's \<Rightarrow> 's) \<Rightarrow> 't service \<Rightarrow> 's service" where
  "service_on part put svc =
     \<lparr>svc_can_handle = svc_can_handle svc,
      svc_handle_request = (\<lambda>req s. case svc_handle_request svc req (part s) of (r, t) \<Rightarrow> (r, put t s)),
      svc_resolve_authorization = (\<lambda>req s. svc_resolve_authorization svc req (part s)),
      svc_validate_request = (\<lambda>req s. svc_validate_request svc req (part s))\<rparr>"

abbreviation app_iam_store :: "app_ext \<Rightarrow> app_env \<Rightarrow> iam_db iam_store" where
  "app_iam_store A env \<equiv> sqlite_iam_store (ae_texts A) (en_now env)"

text \<open>\<^verbatim>\<open>App::new\<close>: the services in the order of their registration, and the authorizer.\<close>

definition app_services :: "app_ext \<Rightarrow> authorization_mode \<Rightarrow> app_env \<Rightarrow> app_state service list" where
  "app_services A mode env =
     [service_on app_iam (\<lambda>t s. s\<lparr>app_iam := t\<rparr>)
        (iam_service (ae_iam A) (ae_form A) (ae_iam_codec A) (app_iam_store A env) (en_iam env)),
      service_on app_sqs (\<lambda>t s. s\<lparr>app_sqs := t\<rparr>)
        (sqs_service (ae_ext A) (ae_sqs_codec A) (sqlite_sqs_store (ae_texts A)) (en_sqs env)),
      service_on (\<lambda>s. (app_sns s, app_sqs s)) (\<lambda>(n, q) s. s\<lparr>app_sns := n, app_sqs := q\<rparr>)
        (sns_service (ae_ext A) (ae_sns A) (ae_form A) (ae_sns_codec A) (sqlite_service_store (ae_texts A) mode) (en_sns env)),
      service_on app_iam (\<lambda>t s. s\<lparr>app_iam := t\<rparr>)
        (sts_service (ae_sts A) (ae_form A) (ae_sts_codec A) (app_iam_store A env))]"

definition app_policy_reads :: "app_ext \<Rightarrow> app_env \<Rightarrow> app_state iam_policy_store" where
  "app_policy_reads A env =
     \<lparr>iam_inline_policies = (\<lambda>pid s. iam_inline_policies (policy_reads (app_iam_store A env)) pid (app_iam s)),
      iam_attached_policies = (\<lambda>pid s. iam_attached_policies (policy_reads (app_iam_store A env)) pid (app_iam s))\<rparr>"

definition app_authorizer :: "app_ext \<Rightarrow> authorization_mode \<Rightarrow> app_env \<Rightarrow> app_state authorizer" where
  "app_authorizer A mode env = iam_authorizer (ae_ext A) mode (app_policy_reads A env)"

definition app_recorder :: "app_ext \<Rightarrow> app_state trace_recorder" where
  "app_recorder A =
     \<lparr>rc_record_request_trace = (\<lambda>trace s. case sqlite_record_request_trace (ae_trace A) trace (app_traces s) of
        (r, t) \<Rightarrow> (r, s\<lparr>app_traces := t\<rparr>)),
      rc_record_span = (\<lambda>span s. case sqlite_record_span (ae_trace A) span (app_traces s) of
        (r, t) \<Rightarrow> (r, s\<lparr>app_traces := t\<rparr>))\<rparr>"

section \<open>Resolving and routing a request\<close>

record request_trace =
  rt_auth_ms :: nat
  rt_route_ms :: "nat option"
  rt_service :: "string option"
  rt_region :: "string option"
  rt_account_id :: "string option"
  rt_principal :: "string option"
  rt_access_key :: "string option"

definition insert_all :: "(string \<times> string) list \<Rightarrow> (string \<times> string) list \<Rightarrow> (string \<times> string) list" where
  "insert_all kvs m = fold (\<lambda>(k, v). hashmap_insert k v) kvs m"

definition optional_entry :: "string \<Rightarrow> string option \<Rightarrow> (string \<times> string) list" where
  "optional_entry k v = (case v of None \<Rightarrow> [] | Some x \<Rightarrow> [(k, x)])"

definition request_span_attributes :: "incoming_request \<Rightarrow> (string \<times> string) list" where
  "request_span_attributes request =
     insert_all (optional_entry ''target'' (map_of (ir_headers request) ''x-amz-target''))
       (insert_all (optional_entry ''query'' (ir_query request))
         [(''method'', ir_method request), (''host'', ir_host request), (''path'', ir_path request),
          (''request_bytes'', show_nat (length (ir_body request)))])"

definition identity_span_attributes ::
    "app_ext \<Rightarrow> resolve_identity_error + resolved_request \<Rightarrow> authenticated_request \<Rightarrow> (string \<times> string) list" where
  "identity_span_attributes A resolved ar =
     insert_all
       (case resolved of
          Inr request \<Rightarrow>
            let principal = ac_principal (rr_auth_context request)
            in [(''principal_id'', show_int (p_id principal)), (''principal_account_id'', p_account_id principal),
                (''principal_kind'', p_kind principal), (''principal_name'', p_name principal),
                (''principal_path'', p_path principal), (''principal_user_id'', p_user_id principal)]
        | Inl error \<Rightarrow> [(''error'', ae_debug_identity A error)])
       [(''access_key'', ar_access_key ar), (''authenticated_principal_id'', show_int (ar_principal_id ar)),
        (''service'', ar_service ar), (''region'', ar_region ar)]"

text \<open>A span that cannot be recorded is only logged.\<close>

definition record_runtime_span ::
    "app_ext \<Rightarrow> trace_context \<Rightarrow> trace_span_timer \<Rightarrow> string \<Rightarrow> string \<Rightarrow> (string \<times> string) list \<Rightarrow> time \<Rightarrow> time \<Rightarrow>
     app_state \<Rightarrow> app_state" where
  "record_runtime_span A ctx timer name status attributes now instant s =
     snd (record_span ctx (app_recorder A) timer name ''runtime'' status attributes now instant s)"

definition ok_status :: "'e + 'a \<Rightarrow> string" where
  "ok_status r = (case r of Inr _ \<Rightarrow> ''ok'' | Inl _ \<Rightarrow> ''error'')"

definition failed_trace :: "nat \<Rightarrow> request_trace" where
  "failed_trace auth_ms = \<lparr>rt_auth_ms = auth_ms, rt_route_ms = None, rt_service = None, rt_region = None,
     rt_account_id = None, rt_principal = None, rt_access_key = None\<rparr>"

definition outcome_status :: "api_error + service_response \<Rightarrow> nat" where
  "outcome_status response = (case response of Inr r \<Rightarrow> status_code r | Inl e \<Rightarrow> api_status_code e)"

text \<open>The three ways of \<^verbatim>\<open>resolve_and_route\<close>: routed, authenticated without identity, not authenticated.\<close>

definition routed_outcome ::
    "app_ext \<Rightarrow> authorization_mode \<Rightarrow> app_env \<Rightarrow> trace_context \<Rightarrow> trace_span_timer \<Rightarrow> incoming_request \<Rightarrow> nat \<Rightarrow>
     resolved_request \<Rightarrow> app_state \<Rightarrow> ((api_error + service_response) \<times> request_trace) \<times> app_state" where
  "routed_outcome A mode env ctx timer incoming auth_ms request s =
     (let clock = en_clock env;
          principal = ac_principal (rr_auth_context request);
          trace = \<lparr>rt_auth_ms = auth_ms, rt_route_ms = None, rt_service = Some (rr_service request),
            rt_region = Some (rr_region request), rt_account_id = Some (p_account_id principal),
            rt_principal = Some (p_name principal), rt_access_key = Some (ac_access_key (rr_auth_context request))\<rparr>
      in case route_traced (app_authorizer A mode env) (app_services A mode env) request s of
           (response, s1) \<Rightarrow>
             let route_ms = elapsed_ms (clock 17) (clock 18);
                 attributes = insert_all
                   ([(''service'', rr_service request), (''region'', rr_region request), (''account_id'', p_account_id principal),
                     (''principal'', p_name principal), (''access_key'', ac_access_key (rr_auth_context request)),
                     (''auth_ms'', show_nat auth_ms), (''route_ms'', show_nat route_ms)] @
                    (case response of Inr _ \<Rightarrow> [] | Inl e \<Rightarrow> [(''error'', ae_debug_api A e)]) @
                    [(''status_code'', show_nat (outcome_status response))])
                   (request_span_attributes incoming);
                 s2 = record_runtime_span A ctx timer ''request.handle''
                   (if outcome_status response < 400 then ''ok'' else ''error'') attributes (clock 19) (clock 20) s1
             in ((response, trace\<lparr>rt_route_ms := Some route_ms\<rparr>), s2))"

definition no_identity_outcome ::
    "app_ext \<Rightarrow> app_env \<Rightarrow> trace_context \<Rightarrow> trace_span_timer \<Rightarrow> incoming_request \<Rightarrow> nat \<Rightarrow> authenticated_request \<Rightarrow>
     api_error \<Rightarrow> app_state \<Rightarrow> ((api_error + service_response) \<times> request_trace) \<times> app_state" where
  "no_identity_outcome A env ctx timer incoming auth_ms ar e s =
     ((Inl e, failed_trace auth_ms),
      record_runtime_span A ctx timer ''request.handle'' ''error''
        (insert_all [(''service'', ar_service ar), (''region'', ar_region ar), (''access_key'', ar_access_key ar),
           (''authenticated_principal_id'', show_int (ar_principal_id ar)), (''auth_ms'', show_nat auth_ms),
           (''status_code'', show_nat (api_status_code e)), (''error'', ae_debug_api A e)]
          (request_span_attributes incoming)) (en_clock env 19) (en_clock env 20) s)"

definition unauthenticated_outcome ::
    "app_ext \<Rightarrow> app_env \<Rightarrow> trace_context \<Rightarrow> trace_span_timer \<Rightarrow> incoming_request \<Rightarrow> nat \<Rightarrow> api_error \<Rightarrow> app_state \<Rightarrow>
     ((api_error + service_response) \<times> request_trace) \<times> app_state" where
  "unauthenticated_outcome A env ctx timer incoming auth_ms e s =
     ((Inl e, failed_trace auth_ms),
      record_runtime_span A ctx timer ''request.handle'' ''error''
        (insert_all [(''auth_ms'', show_nat auth_ms), (''status_code'', show_nat (api_status_code e)),
           (''error'', ae_debug_api A e)] (request_span_attributes incoming)) (en_clock env 19) (en_clock env 20) s)"

definition resolve_and_route ::
    "app_ext \<Rightarrow> authorization_mode \<Rightarrow> app_env \<Rightarrow> trace_context \<Rightarrow> incoming_request \<Rightarrow> app_state \<Rightarrow>
     ((api_error + service_response) \<times> request_trace) \<times> app_state" where
  "resolve_and_route A mode env ctx incoming s =
     (let clock = en_clock env;
          request_timer = start_span ctx (clock 3) (clock 4) (clock 5);
          request_ctx = child_context ctx request_timer;
          authn_timer = start_span request_ctx (clock 6) (clock 7) (clock 8);
          authn_ctx = child_context request_ctx authn_timer;
          authenticated = authenticate_request (ae_sig A) (app_iam_store A env) incoming (app_iam s);
          s1 = record_runtime_span A request_ctx authn_timer ''authn.authenticate'' (ok_status authenticated) []
            (clock 9) (clock 10) s
      in case authenticated of
           Inl e \<Rightarrow> unauthenticated_outcome A env ctx request_timer incoming (elapsed_ms (clock 2) (clock 16))
             (api_of_auth_error (ae_sig A) e) s1
         | Inr ar \<Rightarrow>
             let identity_timer = start_span authn_ctx (clock 11) (clock 12) (clock 13);
                 resolved = resolve_identity (app_iam_store A env) (tc_request_id ctx) ar (app_iam s1);
                 s2 = record_runtime_span A authn_ctx identity_timer ''iam.resolve_identity'' (ok_status resolved)
                   (identity_span_attributes A resolved ar) (clock 14) (clock 15) s1;
                 auth_ms = elapsed_ms (clock 2) (clock 16)
             in case resolved of
                  Inr request \<Rightarrow> routed_outcome A mode env ctx request_timer incoming auth_ms request s2
                | Inl e \<Rightarrow> no_identity_outcome A env ctx request_timer incoming auth_ms ar
                    (api_of_resolve_identity_error (sg_debug (ae_sig A)) e) s2)"

section \<open>Request ids in answers\<close>

text \<open>\<^verbatim>\<open>std::str::from_utf8\<close> accepts well-formed UTF-8: no overlong forms, no surrogates, up to U+10FFFF.\<close>

definition continuation :: "char \<Rightarrow> bool" where
  "continuation c \<longleftrightarrow> 128 \<le> byte c \<and> byte c < 192"

fun valid_utf8 :: "string \<Rightarrow> bool" where
  "valid_utf8 [] = True"
| "valid_utf8 (a # s) =
     (if byte a < 128 then valid_utf8 s
      else if 194 \<le> byte a \<and> byte a < 224 then
        (case s of b # t \<Rightarrow> continuation b \<and> valid_utf8 t | _ \<Rightarrow> False)
      else if 224 \<le> byte a \<and> byte a < 240 then
        (case s of
           b # c # t \<Rightarrow> continuation b \<and> continuation c \<and> (byte a = 224 \<longrightarrow> 160 \<le> byte b) \<and>
             (byte a = 237 \<longrightarrow> byte b < 160) \<and> valid_utf8 t
         | _ \<Rightarrow> False)
      else if 240 \<le> byte a \<and> byte a < 245 then
        (case s of
           b # c # d # t \<Rightarrow> continuation b \<and> continuation c \<and> continuation d \<and> (byte a = 240 \<longrightarrow> 144 \<le> byte b) \<and>
             (byte a = 244 \<longrightarrow> byte b < 144) \<and> valid_utf8 t
         | _ \<Rightarrow> False)
      else False)"

text \<open>\<^verbatim>\<open>str::find\<close> of an ASCII text.\<close>

fun find_str :: "string \<Rightarrow> string \<Rightarrow> nat option" where
  "find_str p [] = (if p = [] then Some 0 else None)"
| "find_str p (c # s) = (if starts_with p (c # s) then Some 0 else map_option Suc (find_str p s))"

definition open_tag :: string where "open_tag = ''<RequestId>''"
definition close_tag :: string where "close_tag = ''</RequestId>''"

lemma find_str_bound: "find_str p s = Some n \<Longrightarrow> n + length p \<le> length s"
proof (induction s arbitrary: n)
  case (Cons c s)
  have "starts_with p (c # s) \<Longrightarrow> length p \<le> length (c # s)" by (auto simp only: starts_with_iff length_append)
  with Cons show ?case by (auto split: if_splits)
qed (simp split: if_splits)

text \<open>The loop over \<^verbatim>\<open>remaining\<close> with the output so far.\<close>

function replace_loop :: "string \<Rightarrow> string \<Rightarrow> string \<Rightarrow> string" where
  "replace_loop request_id output remaining =
     (case find_str open_tag remaining of
        None \<Rightarrow> output @ remaining
      | Some start \<Rightarrow>
          let before = take start remaining;
              after_open = drop (start + length open_tag) remaining;
              output = output @ before @ open_tag
          in case find_str close_tag after_open of
               None \<Rightarrow> output @ after_open
             | Some e \<Rightarrow> replace_loop request_id (output @ request_id @ close_tag) (drop (e + length close_tag) after_open))"
  by pat_completeness auto
termination
  by (relation "measure (\<lambda>(_, _, remaining). length remaining)") (auto simp: close_tag_def open_tag_def dest!: find_str_bound)

declare replace_loop.simps [simp del]

definition replace_xml_request_ids :: "string \<Rightarrow> string \<Rightarrow> string" where
  "replace_xml_request_ids body request_id = replace_loop request_id [] body"

definition aws_request_id_header :: string where "aws_request_id_header = ''x-amzn-requestid''"

definition with_aws_request_id :: "service_response \<Rightarrow> string \<Rightarrow> service_response" where
  "with_aws_request_id response request_id =
     (let headers = (if list_ex (\<lambda>(name, _). eq_ignore_ascii_case name aws_request_id_header) (resp_headers response)
                     then resp_headers response else resp_headers response @ [(aws_request_id_header, request_id)]);
          body = (if valid_utf8 (resp_body response) then replace_xml_request_ids (resp_body response) request_id
                  else resp_body response)
      in response\<lparr>resp_headers := headers, resp_body := body\<rparr>)"

section \<open>Serving a request\<close>

text \<open>
  \<^verbatim>\<open>builder.body(..).unwrap()\<close>: \<^verbatim>\<open>None\<close> is the panic that ends the connection, when the status or a
  header is one that \<^verbatim>\<open>http\<close> refuses.
\<close>

definition build_response :: "app_ext \<Rightarrow> nat \<Rightarrow> (string \<times> string) list \<Rightarrow> string \<Rightarrow> service_response option" where
  "build_response A status headers body =
     (if ae_valid_status A status \<and> list_all (\<lambda>(name, v). ae_valid_header A name v) headers
      then Some \<lparr>status_code = status, resp_headers = headers, resp_body = body\<rparr> else None)"

definition completed_trace ::
    "app_env \<Rightarrow> incoming_request \<Rightarrow> request_trace \<Rightarrow> nat \<Rightarrow> (string \<times> string) list \<Rightarrow> string \<Rightarrow> string option \<Rightarrow>
     completed_request_trace" where
  "completed_trace env incoming trace status headers body error_message =
     \<lparr>ct_request_id = en_request_id env, ct_started_at = en_clock env 1, ct_completed_at = en_clock env 22,
      ct_duration_ms = elapsed_ms (en_clock env 0) (en_clock env 21), ct_auth_ms = rt_auth_ms trace,
      ct_route_ms = rt_route_ms trace, ct_service = rt_service trace, ct_region = rt_region trace,
      ct_account_id = rt_account_id trace, ct_principal = rt_principal trace, ct_access_key = rt_access_key trace,
      ct_request = \<lparr>hq_method = ir_method incoming, hq_host = ir_host incoming, hq_path = ir_path incoming,
        hq_query = ir_query incoming, hq_headers = ir_headers incoming, hq_body = ir_body incoming\<rparr>,
      ct_response = \<lparr>hp_status_code = status, hp_headers = headers, hp_body = body\<rparr>, ct_error_message = error_message\<rparr>"

definition record_trace :: "app_ext \<Rightarrow> completed_request_trace \<Rightarrow> app_state \<Rightarrow> app_state" where
  "record_trace A trace s = snd (rc_record_request_trace (app_recorder A) trace s)"

definition serve_request ::
    "app_ext \<Rightarrow> authorization_mode \<Rightarrow> app_env \<Rightarrow> http_parts \<Rightarrow> string + string \<Rightarrow> app_state \<Rightarrow>
     service_response option \<times> app_state" where
  "serve_request A mode env parts body s =
     (let request_id = en_request_id env
      in case from_hyper parts body of
           Inl _ \<Rightarrow>
             (build_response A 400 [(aws_request_id_header, request_id)] ''Bad Request: failed to read request body'', s)
         | Inr incoming \<Rightarrow>
             (case resolve_and_route A mode env (new_trace_context request_id) incoming s of
                ((Inr r, trace), s1) \<Rightarrow>
                  let response = with_aws_request_id r request_id;
                      s2 = record_trace A (completed_trace env incoming trace (status_code response)
                        (resp_headers response) (resp_body response) None) s1
                  in (build_response A (status_code response) (resp_headers response) (resp_body response), s2)
              | ((Inl e, trace), s1) \<Rightarrow>
                  let s2 = record_trace A (completed_trace env incoming trace (api_status_code e)
                        [(aws_request_id_header, request_id)] (api_message e) (Some (api_message e))) s1
                  in (build_response A (api_status_code e) [(aws_request_id_header, request_id)] (api_message e), s2)))"

end
