(* ===== verification/Request_Ids.thy ===== *)
theory Request_Ids
  imports Runtime
begin

text \<open>
  The request ids in the XML of answers: the loop of \<^verbatim>\<open>replace_xml_request_ids\<close> against a reading of
  the elements \<^verbatim>\<open>RequestId\<close> of a text.
\<close>

section \<open>Finding\<close>

lemma find_str_Some: "find_str p s = Some n \<Longrightarrow> s = take n s @ p @ drop (n + length p) s"
proof (induction s arbitrary: n)
  case (Cons c s)
  show ?case
  proof (cases "starts_with p (c # s)")
    case True
    with Cons.prems show ?thesis by (auto simp: starts_with_iff)
  next
    case False
    with Cons show ?thesis by auto
  qed
qed (simp split: if_splits)

lemma starts_with_prefix: "length p \<le> length u \<Longrightarrow> starts_with p (u @ x) \<longleftrightarrow> starts_with p u"
  by (simp add: starts_with_def)

text \<open>Where a text is found first does not depend on what comes after it.\<close>

lemma find_str_after: "find_str p (u @ p @ x) = Some (length u) \<Longrightarrow> find_str p (u @ p @ y) = Some (length u)"
proof (induction u)
  case Nil
  then show ?case by (cases p) (simp_all add: starts_with_def, cases y, simp_all add: starts_with_def)
next
  case (Cons c u)
  have "starts_with p (c # u @ p @ z) \<longleftrightarrow> starts_with p (c # u @ p)" for z
    using starts_with_prefix [of p "c # u @ p" z] by simp
  with Cons show ?case by (auto split: if_splits)
qed

lemma find_str_skip: "CHR ''<'' \<notin> set u \<Longrightarrow> find_str (CHR ''<'' # p) (u @ CHR ''<'' # p @ x) = Some (length u)"
  by (induction u) (auto simp: starts_with_def)

section \<open>The loop\<close>

lemma replace_loop_output: "replace_loop a out remaining = out @ replace_loop a [] remaining"
proof (induction remaining arbitrary: out rule: length_induct)
  case (1 remaining)
  show ?case
  proof (cases "find_str open_tag remaining")
    case None
    then show ?thesis by (simp add: replace_loop.simps [of a _ remaining])
  next
    case start: (Some start)
    let ?after = "drop (start + length open_tag) remaining"
    show ?thesis
    proof (cases "find_str close_tag ?after")
      case None
      with start show ?thesis by (simp add: replace_loop.simps [of a _ remaining] Let_def)
    next
      case (Some e)
      let ?rest = "drop (e + length close_tag) ?after"
      have "length ?rest < length remaining" using find_str_bound [OF start] by (simp add: open_tag_def)
      then have IH: "replace_loop a x ?rest = x @ replace_loop a [] ?rest" for x using 1 by blast
      show ?thesis unfolding replace_loop.simps [of a _ remaining] start option.case Let_def Some
        by (subst (1 2) IH) simp
    qed
  qed
qed

text \<open>The cut of a text at its first element \<^verbatim>\<open>RequestId\<close>: before, content, after.\<close>

definition first_element :: "string \<Rightarrow> (string \<times> string \<times> string) option" where
  "first_element s =
     (case find_str open_tag s of
        None \<Rightarrow> None
      | Some n \<Rightarrow>
          (case find_str close_tag (drop (n + length open_tag) s) of
             None \<Rightarrow> None
           | Some e \<Rightarrow> Some (take n s, take e (drop (n + length open_tag) s),
               drop (e + length close_tag) (drop (n + length open_tag) s))))"

lemma replace_eq:
  "replace_xml_request_ids s a =
     (case first_element s of
        None \<Rightarrow> s
      | Some (before, content, rest) \<Rightarrow> before @ open_tag @ a @ close_tag @ replace_xml_request_ids rest a)"
proof (cases "find_str open_tag s")
  case None
  then show ?thesis by (simp add: replace_xml_request_ids_def first_element_def replace_loop.simps [of a _ s])
next
  case start: (Some n)
  let ?after = "drop (n + length open_tag) s"
  show ?thesis
  proof (cases "find_str close_tag ?after")
    case None
    with start find_str_Some [OF start] show ?thesis
      by (simp add: replace_xml_request_ids_def first_element_def replace_loop.simps [of a _ s] Let_def)
  next
    case (Some e)
    have "replace_loop a [] s = replace_loop a (take n s @ open_tag @ a @ close_tag) (drop (e + length close_tag) ?after)"
      unfolding replace_loop.simps [of a _ s] start option.case Let_def Some by simp
    with start Some show ?thesis
      by (simp add: replace_xml_request_ids_def first_element_def)
        (subst replace_loop_output, simp)
  qed
qed

lemma first_element_Some:
  assumes "first_element s = Some (before, content, rest)"
  shows "s = before @ open_tag @ content @ close_tag @ rest" "length rest < length s"
    "find_str open_tag s = Some (length before)" "find_str close_tag (content @ close_tag @ rest) = Some (length content)"
proof -
  from assms obtain n e where n: "find_str open_tag s = Some n" "before = take n s"
    and e: "find_str close_tag (drop (n + length open_tag) s) = Some e" "content = take e (drop (n + length open_tag) s)"
      "rest = drop (e + length close_tag) (drop (n + length open_tag) s)"
    by (auto simp: first_element_def split: option.splits)
  have after: "drop (n + length open_tag) s = content @ close_tag @ rest" using find_str_Some [OF e(1)] e(2,3) by simp
  show s: "s = before @ open_tag @ content @ close_tag @ rest" using find_str_Some [OF n(1)] n(2) after by simp
  show "length rest < length s" by (subst s) (simp add: open_tag_def)
  show "find_str open_tag s = Some (length before)" using n find_str_bound [OF n(1)] by simp
  show "find_str close_tag (content @ close_tag @ rest) = Some (length content)"
  proof -
    have "length content = e" using e(2) find_str_bound [OF e(1)] by simp
    then show ?thesis using e(1) unfolding after by simp
  qed
qed

lemma first_element_replaced:
  assumes "first_element s = Some (before, content, rest)" "CHR ''<'' \<notin> set a"
  shows "first_element (before @ open_tag @ a @ close_tag @ x) = Some (before, a, x)"
proof -
  have "find_str open_tag (before @ open_tag @ a @ close_tag @ x) = Some (length before)"
    by (rule find_str_after) (use first_element_Some(1,3) [OF assms(1)] in simp)
  moreover have "find_str close_tag (a @ close_tag @ x) = Some (length a)"
    using find_str_skip [OF assms(2), of "''/RequestId>''"] by (simp add: close_tag_def)
  ultimately show ?thesis by (simp add: first_element_def)
qed

section \<open>What is replaced\<close>

text \<open>The contents of the elements of a text, from left to right.\<close>

function request_ids :: "string \<Rightarrow> string list" where
  "request_ids s = (case first_element s of None \<Rightarrow> [] | Some (before, content, rest) \<Rightarrow> content # request_ids rest)"
  by pat_completeness auto
termination
  by (relation "measure length") (auto dest: first_element_Some(2))

declare request_ids.simps [simp del]



lemma request_ids_example:
  "replace_xml_request_ids ''<a><RequestId>x</RequestId></a>'' ''r1'' = ''<a><RequestId>r1</RequestId></a>''"
  by (simp add: replace_eq first_element_def open_tag_def close_tag_def starts_with_def)

end
