(* ===== verification/Runtime_Laws.thy ===== *)
theory Runtime_Laws
  imports Request_Ids
begin

text \<open>
  The server as a whole: the integrity of all tables, the way from a change of a table back to an
  authenticated caller whose policies allowed it, the lock-out of deleted users, and the record that
  is kept of every answer.
\<close>

section \<open>The tables of the services\<close>

definition tables :: "app_state \<Rightarrow> iam_db \<times> sns_db \<times> sqs_db" where
  "tables s = (app_iam s, app_sns s, app_sqs s)"

definition app_inv :: "app_state \<Rightarrow> bool" where
  "app_inv s \<longleftrightarrow> iam_inv (app_iam s) \<and> sns_inv (app_sns s) \<and> sqs_inv (app_sqs s) \<and> trace_inv (app_traces s)"

lemma record_runtime_span_tables [simp]: "tables (record_runtime_span A ctx timer name status attributes now instant s) = tables s"
  by (simp add: record_runtime_span_def record_span_def app_recorder_def tables_def split: prod.split)

lemma record_trace_tables [simp]: "tables (record_trace A trace s) = tables s"
  by (simp add: record_trace_def app_recorder_def tables_def split: prod.split)

lemma record_runtime_span_inv: "app_inv s \<Longrightarrow> app_inv (record_runtime_span A ctx timer name status attributes now instant s)"
  using keepsD [OF trace_inv_ops(2), of "app_traces s"]
  by (auto simp: record_runtime_span_def record_span_def app_recorder_def app_inv_def split: prod.split) (metis snd_conv)

lemma record_trace_inv: "app_inv s \<Longrightarrow> app_inv (record_trace A trace s)"
  using keepsD [OF trace_inv_ops(1), of "app_traces s"]
  by (auto simp: record_trace_def app_recorder_def app_inv_def split: prod.split) (metis snd_conv)

lemma app_iam_tables: "tables s = tables s' \<Longrightarrow> app_iam s = app_iam s'"
  by (simp add: tables_def)

section \<open>The way of a request\<close>

text \<open>What \<^verbatim>\<open>resolve_and_route\<close> does to the state and answers, without the spans.\<close>

lemma resolve_and_route_cases:
  assumes "resolve_and_route A mode env ctx incoming s = ((response, trace), s')"
  obtains (unauthenticated) e where "authenticate_request (ae_sig A) (app_iam_store A env) incoming (app_iam s) = Inl e"
      "response = Inl (api_of_auth_error (ae_sig A) e)" "tables s' = tables s" "app_inv s \<Longrightarrow> app_inv s'"
    | (no_identity) ar e where "authenticate_request (ae_sig A) (app_iam_store A env) incoming (app_iam s) = Inr ar"
      "resolve_identity (app_iam_store A env) (tc_request_id ctx) ar (app_iam s) = Inl e"
      "response = Inl (api_of_resolve_identity_error (sg_debug (ae_sig A)) e)" "tables s' = tables s" "app_inv s \<Longrightarrow> app_inv s'"
    | (routed) ar request s1 s2 where "authenticate_request (ae_sig A) (app_iam_store A env) incoming (app_iam s) = Inr ar"
      "resolve_identity (app_iam_store A env) (tc_request_id ctx) ar (app_iam s) = Inr request"
      "tables s1 = tables s" "app_inv s \<Longrightarrow> app_inv s1"
      "route_traced (app_authorizer A mode env) (app_services A mode env) request s1 = (response, s2)"
      "tables s' = tables s2" "app_inv s2 \<Longrightarrow> app_inv s'"
proof (cases "authenticate_request (ae_sig A) (app_iam_store A env) incoming (app_iam s)")
  case (Inl e)
  with assms show thesis
    by (intro unauthenticated [OF Inl]) (auto simp: resolve_and_route_def Let_def unauthenticated_outcome_def record_runtime_span_inv)
next
  case (Inr ar)
  have iam: "app_iam (record_runtime_span A c t n st at now i s) = app_iam s" for c t n st at now i
    by (rule app_iam_tables) simp
  show thesis
  proof (cases "resolve_identity (app_iam_store A env) (tc_request_id ctx) ar (app_iam s)")
    case (Inl e)
    with Inr assms show thesis
      by (intro no_identity [OF Inr Inl]) (auto simp: resolve_and_route_def Let_def no_identity_outcome_def iam record_runtime_span_inv)
  next
    case ok: (Inr request)
    define s1 where "s1 = record_runtime_span A (child_context (child_context ctx (start_span ctx (en_clock env 3) (en_clock env 4) (en_clock env 5)))
        (start_span (child_context ctx (start_span ctx (en_clock env 3) (en_clock env 4) (en_clock env 5))) (en_clock env 6) (en_clock env 7) (en_clock env 8)))
      (start_span (child_context (child_context ctx (start_span ctx (en_clock env 3) (en_clock env 4) (en_clock env 5)))
        (start_span (child_context ctx (start_span ctx (en_clock env 3) (en_clock env 4) (en_clock env 5))) (en_clock env 6) (en_clock env 7) (en_clock env 8)))
        (en_clock env 11) (en_clock env 12) (en_clock env 13))
      ''iam.resolve_identity'' ''ok'' (identity_span_attributes A (Inr request) ar) (en_clock env 14) (en_clock env 15)
      (record_runtime_span A (child_context ctx (start_span ctx (en_clock env 3) (en_clock env 4) (en_clock env 5)))
        (start_span (child_context ctx (start_span ctx (en_clock env 3) (en_clock env 4) (en_clock env 5))) (en_clock env 6) (en_clock env 7) (en_clock env 8))
        ''authn.authenticate'' ''ok'' [] (en_clock env 9) (en_clock env 10) s)"
    obtain r s2 where run: "route_traced (app_authorizer A mode env) (app_services A mode env) request s1 = (r, s2)"
      by (metis surj_pair)
    have "resolve_and_route A mode env ctx incoming s =
        routed_outcome A mode env ctx (start_span ctx (en_clock env 3) (en_clock env 4) (en_clock env 5)) incoming
          (elapsed_ms (en_clock env 2) (en_clock env 16)) request s1"
      by (simp add: resolve_and_route_def Let_def Inr iam ok ok_status_def s1_def)
    with assms run have "response = r \<and> tables s' = tables s2 \<and> (app_inv s2 \<longrightarrow> app_inv s')"
      by (auto simp: routed_outcome_def Let_def record_runtime_span_inv)
    moreover have "tables s1 = tables s" "app_inv s \<Longrightarrow> app_inv s1" by (simp_all add: s1_def record_runtime_span_inv)
    ultimately show thesis using run by (intro routed [OF Inr ok, of s1 s2]) auto
  qed
qed


section \<open>Integrity\<close>

lemma route_traced_inv:
  assumes "\<And>svc. svc \<in> set services \<Longrightarrow> P (snd (svc_handle_request svc req s))" "P s"
    and "route_traced az services req s = (r, s')"
  shows "P s'"
proof -
  have "P s1" if "find (\<lambda>svc. svc_can_handle svc req) services = Some svc" "svc_handle_request svc req s = (r1, s1)" for svc r1 s1
    using assms(1) [of svc] that by (metis find_Some_iff nth_mem snd_conv)
  then show ?thesis using assms(2,3)
    by (auto simp: route_traced_def split: option.splits sum.splits authorization_result.splits)
qed

lemma app_services_inv:
  assumes "good_env sqs_inv (en_sqs env)" "app_inv s" "svc \<in> set (app_services A mode env)"
  shows "app_inv (snd (svc_handle_request svc req s))"
proof -
  have iam: "iam_inv (app_iam s)" and sns: "sns_inv (app_sns s)" and sqs: "sqs_inv (app_sqs s)"
    using assms(2) by (simp_all add: app_inv_def)
  have 1: "iam_inv (snd (svc_handle_request (iam_service (ae_iam A) (ae_form A) (ae_iam_codec A) (app_iam_store A env) (en_iam env)) req (app_iam s)))"
    by (rule sqlite_iam.handle_request_keeps [OF iam])
  have 2: "sqs_inv (snd (svc_handle_request (sqs_service (ae_ext A) (ae_sqs_codec A) (sqlite_sqs_store (ae_texts A)) (en_sqs env)) req (app_sqs s)))"
    using sqlite.service_keeps [OF assms(1) sqs] by (simp add: sqs_service_def Let_def)
  have 3: "sqlite_joined.both (snd (svc_handle_request (sns_service (ae_ext A) (ae_sns A) (ae_form A) (ae_sns_codec A)
      (sqlite_service_store (ae_texts A) mode) (en_sns env)) req (app_sns s, app_sqs s)))"
    using sqlite_joined.sns_service_keeps [of "(app_sns s, app_sqs s)"] sns sqs
    by (simp add: sns_service_def Let_def sqlite_joined.both_def)
  show ?thesis using assms(2,3) 1 2 3 sts_changes_nothing [of "ae_sts A" "ae_form A" "ae_sts_codec A" "app_iam_store A env" req "app_iam s"]
    unfolding app_services_def list.set insert_iff empty_iff
    by (elim disjE) (auto simp: service_on_def app_inv_def sqlite_joined.both_def split: prod.split)
qed

text \<open>
  Every request that reaches the server, well-formed or not, in every mode, leaves all tables with
  their integrity: users and their keys and policies, topics and subscriptions, queues and messages, and
  one trace per request id. The requests that run while a \<^verbatim>\<open>ReceiveMessage\<close> sleeps are assumed to keep it too.
\<close>

theorem served_request_keeps_integrity:
  assumes "app_inv s" "good_env sqs_inv (en_sqs env)"
  shows "app_inv (snd (serve_request A mode env parts body s))"
proof (cases body)
  case (Inr bytes)
  obtain response trace s1 where run: "resolve_and_route A mode env (new_trace_context (en_request_id env)) (from_parts parts bytes) s =
      ((response, trace), s1)" by (metis surj_pair)
  then have "app_inv s1"
  proof (cases rule: resolve_and_route_cases)
    case (routed ar request s2 s3)
    have inv: "app_inv s2" by (rule routed(4) [OF assms(1)])
    have "app_inv s3"
      by (rule route_traced_inv [where P = app_inv, OF app_services_inv [OF assms(2) inv] inv routed(5)])
    then show ?thesis by (rule routed(7))
  qed (use assms(1) in blast)+
  then show ?thesis using run Inr
    by (cases response) (simp_all add: serve_request_def from_hyper_def Let_def record_trace_inv)
qed (use assms in \<open>simp add: serve_request_def from_hyper_def\<close>)


section \<open>Complete mediation from the wire to the tables\<close>

lemma app_decision:
  "evaluate_request E (app_policy_reads A env) req check s =
     sqlite_decision E (ae_texts A) (en_now env) req check (app_iam s)"
  by (simp add: app_policy_reads_def evaluate_request_eq)

lemma serve_request_tables:
  assumes "serve_request A mode env parts body s = (resp, s')" "tables s' \<noteq> tables s"
  obtains bytes ar p request s1 s2 response where "body = Inr bytes"
    "authenticate_request (ae_sig A) (app_iam_store A env) (from_parts parts bytes) (app_iam s) = Inr ar"
    "resolve_identity (app_iam_store A env) (en_request_id env) ar (app_iam s) = Inr request"
    "tables s1 = tables s"
    "route_traced (app_authorizer A mode env) (app_services A mode env) request s1 = (response, s2)" "tables s' = tables s2"
proof (cases body)
  case (Inr bytes)
  obtain response trace s1 where run: "resolve_and_route A mode env (new_trace_context (en_request_id env)) (from_parts parts bytes) s =
      ((response, trace), s1)" by (metis surj_pair)
  with assms Inr have "tables s1 = tables s'"
    by (cases response) (auto simp: serve_request_def from_hyper_def Let_def)
  from run show thesis
  proof (cases rule: resolve_and_route_cases)
    case (routed ar request s2 s3)
    with \<open>tables s1 = tables s'\<close> Inr show thesis
      by (intro that [of bytes ar request s2 response s3]) (simp_all add: new_trace_context_def)
  qed (use assms(2) \<open>tables s1 = tables s'\<close> in auto)
qed (use assms in \<open>simp add: serve_request_def from_hyper_def\<close>)

text \<open>
  C1. In enforce mode nothing in the tables of the services changes unless somebody may: the request
  was read and carried the signature of an access key, the owner of the key is a row of the principals,
  the service it names resolved a check, and the policies of that owner in the tables, with the policy
  of the resource, allow that check.
\<close>

theorem served_change_was_allowed:
  assumes "app_inv s" "serve_request A Enforce env parts body s = (resp, s')" "tables s' \<noteq> tables s"
  shows "\<exists>bytes ar p request s1 svc check. body = Inr bytes \<and>
    authenticate_request (ae_sig A) (app_iam_store A env) (from_parts parts bytes) (app_iam s) = Inr ar \<and>
    p \<in> set (principals (app_iam s)) \<and> p_id p = ar_principal_id ar \<and> ac_principal (rr_auth_context request) = p \<and>
    rr_request request = from_parts parts bytes \<and> tables s1 = tables s \<and>
    svc \<in> set (app_services A Enforce env) \<and> svc_can_handle svc request \<and>
    svc_resolve_authorization svc request s1 = Inr check \<and>
    sqlite_decision (ae_ext A) (ae_texts A) (en_now env) request check (app_iam s) = Allowed"
proof -
  from assms(2,3) obtain bytes ar request s1 s2 response where run: "body = Inr bytes"
    "authenticate_request (ae_sig A) (app_iam_store A env) (from_parts parts bytes) (app_iam s) = Inr ar"
    "resolve_identity (app_iam_store A env) (en_request_id env) ar (app_iam s) = Inr request" "tables s1 = tables s"
    "route_traced (app_authorizer A Enforce env) (app_services A Enforce env) request s1 = (response, s2)" "tables s' = tables s2"
    by (rule serve_request_tables)
  have "s2 \<noteq> s1" using assms(3) run(4,6) by auto
  with run(5) obtain svc check where svc: "find (\<lambda>svc. svc_can_handle svc request) (app_services A Enforce env) = Some svc"
    "svc_resolve_authorization svc request s1 = Inr check"
    "evaluate_request (ae_ext A) (app_policy_reads A env) request check s1 = Allowed"
    unfolding app_authorizer_def by (rule mediated_change) blast
  have "iam_inv (app_iam s)" using assms(1) by (simp add: app_inv_def)
  from authenticated_row_identity [OF this run(2), of "en_request_id env"] obtain p where p: "p \<in> set (principals (app_iam s))" "p_id p = ar_principal_id ar"
    "ac_principal (rr_auth_context request) = p" "rr_request request = from_parts parts bytes"
    using run(3) by auto
  have "svc \<in> set (app_services A Enforce env)" "svc_can_handle svc request" using svc(1) by (auto simp: find_Some_iff)
  with run p svc(2,3) app_iam_tables [OF run(4)] show ?thesis by (metis app_decision)
qed


lemma app_service_iam:
  assumes "svc \<in> set (app_services A mode env)" "app_iam (snd (svc_handle_request svc req s)) \<noteq> app_iam s"
  shows "svc = service_on app_iam (\<lambda>t s. s\<lparr>app_iam := t\<rparr>)
    (iam_service (ae_iam A) (ae_form A) (ae_iam_codec A) (app_iam_store A env) (en_iam env))"
  using assms sts_changes_nothing [of "ae_sts A" "ae_form A" "ae_sts_codec A" "app_iam_store A env" req "app_iam s"]
  unfolding app_services_def list.set insert_iff empty_iff
  by (elim disjE) (auto simp: service_on_def split: prod.splits)

text \<open>
  C3. In enforce mode nobody's rights - access keys, inline policies, attached policies - change unless
  the policies of an authenticated caller allow a check that is about that very user: the action of
  the change on the ARN of the user, or, for DeletePolicy, on a policy the user had attached. The decoders
  of the payloads are assumed to read the parameters they are named after.
\<close>

theorem served_rights_change_was_allowed:
  assumes "app_inv s" "reads_parameters (ae_form A) (ae_iam_codec A)"
    and "serve_request A Enforce env parts body s = (resp, s')"
    and "rights_of pid (app_iam s') \<noteq> rights_of pid (app_iam s)"
  shows "\<exists>bytes ar request check. body = Inr bytes \<and>
    authenticate_request (ae_sig A) (app_iam_store A env) (from_parts parts bytes) (app_iam s) = Inr ar \<and>
    resolve_identity (app_iam_store A env) (en_request_id env) ar (app_iam s) = Inr request \<and>
    sqlite_decision (ae_ext A) (ae_texts A) (en_now env) request check (app_iam s) = Allowed \<and>
    is_about check pid (app_iam s)"
proof -
  have "tables s' \<noteq> tables s" using assms(4) app_iam_tables by metis
  with assms(3) obtain bytes ar request s1 s2 response where run: "body = Inr bytes"
    "authenticate_request (ae_sig A) (app_iam_store A env) (from_parts parts bytes) (app_iam s) = Inr ar"
    "resolve_identity (app_iam_store A env) (en_request_id env) ar (app_iam s) = Inr request" "tables s1 = tables s"
    "route_traced (app_authorizer A Enforce env) (app_services A Enforce env) request s1 = (response, s2)" "tables s' = tables s2"
    by (rule serve_request_tables)
  have iam: "app_iam s1 = app_iam s" "app_iam s2 = app_iam s'" using run(4,6) app_iam_tables by metis+
  then have changed: "rights_of pid (app_iam s2) \<noteq> rights_of pid (app_iam s1)" using assms(4) by simp
  then have "s2 \<noteq> s1" by auto
  with run(5) obtain svc check where svc: "find (\<lambda>svc. svc_can_handle svc request) (app_services A Enforce env) = Some svc"
    "svc_resolve_authorization svc request s1 = Inr check"
    "evaluate_request (ae_ext A) (app_policy_reads A env) request check s1 = Allowed"
    "svc_handle_request svc request s1 = (response, s2)"
    unfolding app_authorizer_def by (rule mediated_change) blast
  let ?iam = "iam_service (ae_iam A) (ae_form A) (ae_iam_codec A) (app_iam_store A env) (en_iam env)"
  have "svc = service_on app_iam (\<lambda>t s. s\<lparr>app_iam := t\<rparr>) ?iam"
    by (rule app_service_iam [of svc A Enforce env request s1]) (use svc(1,4) changed in \<open>auto simp: find_Some_iff\<close>)
  then have resolve: "svc_resolve_authorization ?iam request (app_iam s1) = Inr check"
    and handle: "app_iam s2 = snd (svc_handle_request ?iam request (app_iam s1))"
    using svc(2,4) by (auto simp: service_on_def split: prod.splits)
  have inv: "iam_inv (app_iam s)" using assms(1) by (simp add: app_inv_def)
  obtain p where p: "p \<in> set (principals (app_iam s))" "ac_principal (rr_auth_context request) = p"
    using authenticated_row_identity [OF inv run(2), of "en_request_id env"] run(3) by auto
  then have caller: "sqlite_get_principal (caller_id request) (app_iam s1) = Inr (Some (ac_principal (rr_auth_context request)))"
    using sqlite_principal_row [OF inv p(1)] iam(1) by simp
  have "is_about check pid (app_iam s1)"
    by (rule service_change_is_checked [OF _ assms(2) caller resolve]) (use inv iam(1) changed handle in simp_all)
  with run svc(3) iam(1) show ?thesis by (auto simp: app_decision)
qed

section \<open>Locked out\<close>

text \<open>
  C7. A deleted user is locked out at once, in every mode: a request that names an access key the user
  had is answered 401, whatever signature it carries, and changes no table of a service.
\<close>

theorem deleted_user_gets_401:
  assumes "iam_inv (app_iam s)" "find_user (req_account request) name (app_iam s) = Some p"
    and "handle_delete_user (sqlite_iam_store UE now) request name (app_iam s) = (res, db')"
    and "key \<in> set (fst (rights_of (p_id p) (app_iam s)))"
    and "extract_sigv4_params (from_parts parts bytes) = Inr params" "sp_access_key params = ak_key_id key"
    and "serve_request A mode env parts (Inr bytes) (s\<lparr>app_iam := db'\<rparr>) = (resp, s')"
  shows "tables s' = tables (s\<lparr>app_iam := db'\<rparr>) \<and>
    resp = build_response A 401 [(aws_request_id_header, en_request_id env)]
      (api_message (NotAuthenticated ''Secret key not found for access key''))"
proof -
  have "sqlite_get_secret_key (ak_key_id key) db' = Inr None" using delete_user_effect [OF assms(1-3)] assms(4) by blast
  then have auth: "authenticate_request (ae_sig A) (app_iam_store A env) (from_parts parts bytes) db' = Inl SecretKeyNotFound"
    using assms(5,6) by (simp add: authenticate_request_def sigv4_authenticate_def ebind_def map_err_def ok_or_def)
  obtain response trace s1 where run: "resolve_and_route A mode env (new_trace_context (en_request_id env)) (from_parts parts bytes)
      (s\<lparr>app_iam := db'\<rparr>) = ((response, trace), s1)" by (metis surj_pair)
  then have "response = Inl (NotAuthenticated ''Secret key not found for access key'') \<and> tables s1 = tables (s\<lparr>app_iam := db'\<rparr>)"
    by (cases rule: resolve_and_route_cases) (simp_all add: auth)
  with run assms(7) show ?thesis
    by (auto simp: serve_request_def from_hyper_def Let_def)
qed

end
