(* ===== verification/Answers.thy ===== *)
theory Answers
  imports Runtime_Laws
begin

text \<open>
  The type of answers: what every action of every service hands back has a status and headers that
  can be sent, so the server answers every request, with its request id.
\<close>

section \<open>Answers that can be sent\<close>

definition sendable :: "service_response \<Rightarrow> bool" where
  "sendable r \<longleftrightarrow> status_code r \<in> {200, 400, 401, 403, 404, 409, 500, 501} \<and>
     list_all (\<lambda>(name, v). name \<in> {''content-type'', ''x-amzn-query-error''} \<and> list_all visible v) (resp_headers r)"

definition sends :: "'s aws_action \<Rightarrow> bool" where
  "sends a \<longleftrightarrow> (\<forall>req s. sendable (fst (act_handle a req s)) \<and>
     (\<forall>r. act_validate a req s = Inl r \<longrightarrow> sendable r) \<and> (\<forall>r. act_resolve_authorization a req s = Inl r \<longrightarrow> sendable r))"

lemma map_err_eq_Inl: "map_err f m = Inl r \<longleftrightarrow> (\<exists>e. m = Inl e \<and> r = f e)"
  by (cases m) auto

lemma adapter_sends:
  assumes "\<And>e. sendable (ta_error_response A e)" "\<And>x r. ta_render A x = Inr r \<Longrightarrow> sendable r"
  shows "sends (typed_action_adapter A)"
  using assms
  by (auto simp: sends_def typed_action_adapter_def adapter_handle_def adapter_validate_def adapter_resolve_authorization_def
      map_err_eq_Inl split: sum.split prod.split)

section \<open>The services\<close>

lemma sqs_error_sendable: "sendable (sqs_error_response E e)"
  by (cases e) (simp_all add: sendable_def sqs_error_response_def render_aws_json_error_def sqs_service_error_def
      visible_def byte_def)


lemma xml_sendable:
  "status \<in> {200, 400, 401, 403, 404, 409, 500, 501} \<Longrightarrow>
   sendable \<lparr>status_code = status, resp_headers = [(''content-type'', ''text/xml; charset=utf-8'')], resp_body = body\<rparr>"
  by (simp add: sendable_def visible_def byte_def)

lemma sns_error_sendable: "sendable (sns_error_response X e)"
  unfolding sns_error_response_def by (rule xml_sendable) (cases e; simp)

lemma iam_error_sendable: "sendable (iam_error_response X e)"
  unfolding iam_error_response_def by (rule xml_sendable) (cases e; simp)

lemma sts_error_sendable: "sendable (sts_error_response xml e)"
  unfolding sts_error_response_def by (rule xml_sendable) (cases e; simp)

lemmas error_sendable = sqs_error_sendable sns_error_sendable iam_error_sendable sts_error_sendable

lemma sqs_action_sends: "(\<And>x r. render x = Inr r \<Longrightarrow> sendable r) \<Longrightarrow> sends (sqs_action E C store name auth dec validate handler render)"
  unfolding sqs_action_def by (rule adapter_sends) (simp_all add: sqs_error_sendable)

lemma render_sendable: "render_json enc x = Inr r \<Longrightarrow> sendable r" "render_empty u = Inr r \<Longrightarrow> sendable r"
  by (auto simp: render_json_def render_empty_def sendable_def json_response_def empty_response_def)

lemma query_action_sends:
  "(\<And>e. sendable (qe_response Q e)) \<Longrightarrow> sends (query_action Q name dec validate handler auth enc)"
  unfolding query_action_def
  by (rule adapter_sends) (auto simp: render_xml_def xml_response_def intro: xml_sendable)

lemma sqs_registry_sends: "\<forall>a\<in>set (sqs_registry E C store env). sends a"
  unfolding sqs_registry_unfold set_simps ball_simps ball_empty simp_thms
  by (intro conjI) (auto intro!: sqs_action_sends dest: render_sendable)

lemma sns_registry_sends: "\<forall>a\<in>set (sns_registry E X fp C SV env). sends a"
  unfolding sns_registry_def sns_actions_def set_simps ball_simps ball_empty simp_thms
  by (intro conjI) (auto intro!: query_action_sends simp: sns_errors_def error_sendable)

lemma iam_registry_sends: "\<forall>a\<in>set (iam_registry X fp C store env). sends a"
  unfolding iam_registry_def iam_actions_def iam_action_def set_simps ball_simps ball_empty simp_thms
  by (intro conjI) (auto intro!: query_action_sends simp: iam_errors_def error_sendable)

lemma sts_registry_sends: "\<forall>a\<in>set (sts_registry xml C store). sends a"
  unfolding sts_registry_def get_caller_identity_action_def by (auto intro!: query_action_sends simp: sts_errors_def error_sendable)


section \<open>Services and router\<close>

definition service_sends :: "'s service \<Rightarrow> bool" where
  "service_sends svc \<longleftrightarrow> (\<forall>req s. (\<forall>r s'. svc_handle_request svc req s = (Inr r, s') \<longrightarrow> sendable r) \<and>
     (\<forall>r. svc_validate_request svc req s = Inl r \<longrightarrow> sendable r) \<and>
     (\<forall>r. svc_resolve_authorization svc req s = Inl r \<longrightarrow> sendable r))"

lemma service_sendsD:
  assumes "service_sends svc"
  shows "svc_handle_request svc req s = (Inr r, s') \<Longrightarrow> sendable r"
    "svc_validate_request svc req s = Inl r \<Longrightarrow> sendable r"
    "svc_resolve_authorization svc req s = Inl r \<Longrightarrow> sendable r"
  using assms by (simp_all add: service_sends_def) blast

lemma registry_sends:
  assumes "\<forall>a\<in>set reg. sends a"
  shows "registry_handle reg name req s = Some (r, s') \<Longrightarrow> sendable r"
    and "registry_validate reg name req s = Some (Inl r) \<Longrightarrow> sendable r"
    and "registry_get reg name = Some a \<Longrightarrow> act_resolve_authorization a req s = Inl r \<Longrightarrow> sendable r"
proof -
  have found: "registry_get reg name = Some a \<Longrightarrow> sends a" for a using assms registry_get_name by blast
  show "registry_handle reg name req s = Some (r, s') \<Longrightarrow> sendable r"
    using found by (auto simp: registry_handle_def sends_def split: option.splits) (metis fst_conv)
  show "registry_validate reg name req s = Some (Inl r) \<Longrightarrow> sendable r"
    using found by (auto simp: registry_validate_def sends_def split: option.splits)
  show "registry_get reg name = Some a \<Longrightarrow> act_resolve_authorization a req s = Inl r \<Longrightarrow> sendable r"
    using found by (auto simp: sends_def)
qed

lemmas service_parts = service_sends_def ebind_eq_Inl map_err_eq_Inl ok_or_def error_sendable

lemma sqs_service_sends: "service_sends (sqs_service E C store env)"
  by (auto simp: service_parts sqs_service_def Let_def sqs_handle_request_def sqs_validate_request_def
      sqs_service_resolve_authorization_def split: sum.splits option.splits sqs_error.splits if_splits
      dest: registry_sends [OF sqs_registry_sends])

lemma sns_service_sends: "service_sends (sns_service E X fp C SV env)"
  by (auto simp: service_parts sns_service_def Let_def sns_handle_request_def sns_validate_request_def
      sns_service_resolve_authorization_def split: sum.splits option.splits
      dest: registry_sends [OF sns_registry_sends])

lemma iam_service_sends: "service_sends (iam_service X fp C store env)"
  by (auto simp: service_parts iam_service_def iam_handle_request_def iam_validate_request_def iam_action_name_def
      iam_service_resolve_authorization_def split: sum.splits option.splits
      dest: registry_sends [OF iam_registry_sends])

lemma sts_service_sends: "service_sends (sts_service xml fp C store)"
  by (auto simp: service_parts sts_service_def sts_handle_request_def sts_validate_request_def sts_action_name_def
      sts_service_resolve_authorization_def split: sum.splits option.splits
      dest: registry_sends [OF sts_registry_sends])

lemma service_on_sends:
  assumes "service_sends svc"
  shows "service_sends (service_on part put svc)"
  unfolding service_sends_def
proof (intro allI conjI impI)
  fix req s r s'
  show "sendable r" if "svc_handle_request (service_on part put svc) req s = (Inr r, s')"
    using that service_sendsD(1) [OF assms, of req "part s" r] by (auto simp: service_on_def split: prod.splits)
qed (use service_sendsD(2,3) [OF assms] in \<open>auto simp: service_on_def\<close>)

lemma app_services_send: "svc \<in> set (app_services A mode env) \<Longrightarrow> service_sends svc"
  by (auto simp: app_services_def intro!: service_on_sends sqs_service_sends sns_service_sends iam_service_sends sts_service_sends)

lemma route_traced_sends:
  assumes "\<And>svc. svc \<in> set services \<Longrightarrow> service_sends svc" "sendable (az_unauthorized_response az)"
    and "route_traced az services req s = (Inr r, s')"
  shows "sendable r"
proof -
  from assms(3) obtain svc where svc: "find (\<lambda>svc. svc_can_handle svc req) services = Some svc"
    by (auto simp: route_traced_def split: option.splits)
  then have "svc \<in> set services" by (metis find_Some_iff nth_mem)
  then have "service_sends svc" by (rule assms(1))
  note sent = service_sendsD [OF this, of req s]
  from assms(2,3) svc sent show ?thesis
    by (auto simp: route_traced_def split: sum.splits authorization_result.splits)
qed

lemma resolve_and_route_sends:
  assumes "resolve_and_route A mode env ctx incoming s = ((Inr r, trace), s')"
  shows "sendable r"
  using assms
proof (cases rule: resolve_and_route_cases)
  case (routed ar request s1 s2)
  have "sendable (az_unauthorized_response (app_authorizer A mode env))"
    by (simp add: app_authorizer_def iam_authorizer_def unauthorized_response_def sendable_def)
  from route_traced_sends [OF app_services_send this routed(5)] show ?thesis .
qed auto

section \<open>Every request is answered\<close>

text \<open>What \<^verbatim>\<open>http\<close> is relied on to accept in a response.\<close>

definition http_accepts :: "app_ext \<Rightarrow> bool" where
  "http_accepts A \<longleftrightarrow> list_all (ae_valid_status A) [200, 400, 401, 403, 404, 409, 500, 501] \<and>
     (\<forall>v. list_all visible v \<longrightarrow>
        list_all (\<lambda>name. ae_valid_header A name v) [''content-type'', ''x-amzn-query-error'', aws_request_id_header])"

lemma not_request_id_header:
  "\<not> eq_ignore_ascii_case ''content-type'' aws_request_id_header"
  "\<not> eq_ignore_ascii_case ''x-amzn-query-error'' aws_request_id_header"
  by (simp_all add: eq_ignore_ascii_case_def aws_request_id_header_def) code_simp+

lemma with_aws_request_id_headers:
  assumes "sendable r"
  shows "resp_headers (with_aws_request_id r request_id) = resp_headers r @ [(aws_request_id_header, request_id)]"
    "status_code (with_aws_request_id r request_id) = status_code r"
    "map_of (resp_headers r @ [(aws_request_id_header, request_id)]) aws_request_id_header = Some request_id"
proof -
  have names: "name = ''content-type'' \<or> name = ''x-amzn-query-error''" if "(name, v) \<in> set (resp_headers r)" for name v
    using assms that by (auto simp: sendable_def list_all_iff)
  then have "\<not> list_ex (\<lambda>(name, _). eq_ignore_ascii_case name aws_request_id_header) (resp_headers r)"
    using not_request_id_header by (auto simp: list_ex_iff)
  then show "resp_headers (with_aws_request_id r request_id) = resp_headers r @ [(aws_request_id_header, request_id)]"
    by (simp add: with_aws_request_id_def)
  show "status_code (with_aws_request_id r request_id) = status_code r" by (simp add: with_aws_request_id_def Let_def)
  have "aws_request_id_header \<noteq> ''content-type''" "aws_request_id_header \<noteq> ''x-amzn-query-error''"
    by (simp_all add: aws_request_id_header_def)
  then have "aws_request_id_header \<notin> fst ` set (resp_headers r)" using names by force
  then show "map_of (resp_headers r @ [(aws_request_id_header, request_id)]) aws_request_id_header = Some request_id"
    by (simp add: map_of_append map_add_def map_of_eq_None_iff [THEN iffD2])
qed

lemma build_response_accepted:
  assumes "http_accepts A" "status \<in> {200, 400, 401, 403, 404, 409, 500, 501}"
    and "\<And>name v. (name, v) \<in> set headers \<Longrightarrow> name \<in> {''content-type'', ''x-amzn-query-error'', aws_request_id_header} \<and> list_all visible v"
  shows "build_response A status headers body = Some \<lparr>status_code = status, resp_headers = headers, resp_body = body\<rparr>"
proof -
  have "ae_valid_header A name v" if "(name, v) \<in> set headers" for name v
    using assms(1) assms(3) [OF that] by (auto simp: http_accepts_def)
  moreover have "ae_valid_status A status" using assms(1,2) by (auto simp: http_accepts_def)
  ultimately show ?thesis by (auto simp: build_response_def list_all_iff)
qed

lemma build_error_accepted:
  assumes "http_accepts A" "status \<in> {200, 400, 401, 403, 404, 409, 500, 501}" "list_all visible request_id"
  shows "build_response A status [(aws_request_id_header, request_id)] body =
    Some \<lparr>status_code = status, resp_headers = [(aws_request_id_header, request_id)], resp_body = body\<rparr>"
  by (rule build_response_accepted [OF assms(1,2)]) (use assms(3) in auto)

text \<open>
  C10. Every request is answered: whatever arrives and however it ends, the server builds a response
  without a panic; its status is one of eight, and it carries the request id in the header
  \<^verbatim>\<open>x-amzn-requestid\<close>.
\<close>

theorem every_request_is_answered:
  assumes "http_accepts A" "list_all visible (en_request_id env)"
  shows "\<exists>r. fst (serve_request A mode env parts body s) = Some r \<and>
    status_code r \<in> {200, 400, 401, 403, 404, 409, 500, 501} \<and>
    map_of (resp_headers r) aws_request_id_header = Some (en_request_id env)"
proof (cases body)
  case (Inl e)
  with build_error_accepted [OF assms(1) _ assms(2), of 400] show ?thesis
    by (simp add: serve_request_def from_hyper_def)
next
  case (Inr bytes)
  obtain response trace s1 where run: "resolve_and_route A mode env (new_trace_context (en_request_id env)) (from_parts parts bytes) s =
      ((response, trace), s1)" by (metis surj_pair)
  show ?thesis
  proof (cases response)
    case (Inl e)
    have "api_status_code e \<in> {200, 400, 401, 403, 404, 409, 500, 501}" by (cases e) simp_all
    with build_error_accepted [OF assms(1) this assms(2)] run Inl Inr show ?thesis
      by (simp add: serve_request_def from_hyper_def Let_def)
  next
    case ok: (Inr r)
    have r: "sendable r" by (rule resolve_and_route_sends) (use run ok in simp)
    note headers = with_aws_request_id_headers [OF r, of "en_request_id env"]
    have "build_response A (status_code r) (resp_headers r @ [(aws_request_id_header, en_request_id env)]) b =
        Some \<lparr>status_code = status_code r, resp_headers = resp_headers r @ [(aws_request_id_header, en_request_id env)], resp_body = b\<rparr>" for b
      by (rule build_response_accepted [OF assms(1)]) (use r assms(2) in \<open>auto simp: sendable_def list_all_iff\<close>)
    with run ok Inr headers r show ?thesis
      by (simp add: serve_request_def from_hyper_def Let_def) (simp add: sendable_def)
  qed
qed


section \<open>Every request is traced\<close>

lemma record_runtime_span_requests [simp]:
  "trace_requests (app_traces (record_runtime_span A ctx timer name status attributes now instant s)) = trace_requests (app_traces s)"
  by (simp add: record_runtime_span_def record_span_def app_recorder_def sqlite_record_span_def split: prod.split sum.split)

lemma app_services_traces:
  assumes "svc \<in> set (app_services A mode env)"
  shows "app_traces (snd (svc_handle_request svc req s)) = app_traces s"
  using assms by (auto simp: app_services_def service_on_def split: prod.split)

lemma route_traced_traces:
  "route_traced (app_authorizer A mode env) (app_services A mode env) request s = (response, s') \<Longrightarrow> app_traces s' = app_traces s"
  by (rule route_traced_inv [where P = "\<lambda>x. app_traces x = app_traces s"]) (use app_services_traces in auto)

lemma resolve_and_route_trace:
  assumes "resolve_and_route A mode env ctx incoming s = ((response, trace), s')"
  shows "trace_requests (app_traces s') = trace_requests (app_traces s) \<and>
    rt_auth_ms trace = elapsed_ms (en_clock env 2) (en_clock env 16) \<and>
    rt_route_ms trace \<in> {None, Some (elapsed_ms (en_clock env 17) (en_clock env 18))}"
  using assms
  by (auto simp: resolve_and_route_def Let_def unauthenticated_outcome_def no_identity_outcome_def routed_outcome_def failed_trace_def
      split: sum.splits prod.splits dest: route_traced_traces)

lemma record_trace_reads_back:
  assumes "trace_values_roundtrip (ae_trace A) trace" "trace_values_fit trace"
    and "sqlite_get_request_trace (ae_trace A) (ct_request_id trace) (app_traces s) = Inr None"
  shows "sqlite_get_request_trace (ae_trace A) (ct_request_id trace) (app_traces (record_trace A trace s)) = Inr (Some trace)"
proof -
  obtain db' where "sqlite_record_request_trace (ae_trace A) trace (app_traces s) = (Inr (), db')"
    "sqlite_get_request_trace (ae_trace A) (ct_request_id trace) db' = Inr (Some trace)"
    using recorded_trace_reads_back [OF assms, of "ct_request_id trace"] by auto
  then show ?thesis by (simp add: record_trace_def app_recorder_def)
qed

definition durations_fit :: "app_env \<Rightarrow> bool" where
  "durations_fit env \<longleftrightarrow> list_all (\<lambda>(a, b). elapsed_ms (en_clock env a) (en_clock env b) < 2 ^ 63) [(0, 21), (2, 16), (17, 18)]"


end
