(* ===== verification/Runtime_Examples.thy ===== *)
theory Runtime_Examples
  imports Answers
begin

text \<open>
  One request through the whole server: the user the migrations create, who may do everything, deletes
  himself in enforce mode. The theorems about the server applied to it.
\<close>

definition demo_app :: app_ext where
  "demo_app =
     \<lparr>ae_ext = demo_ext, ae_sns = demo_sns_ext, ae_iam = demo_iam_ext, ae_sts = (\<lambda>_ _ _. Inr []), ae_sig = demo_sig_ext,
      ae_trace = demo_trace_ext\<lparr>tx_map_json := (\<lambda>_. Inr ''{}''), tx_pairs_json := (\<lambda>_. Inr ''[]''),
        tx_parse_pairs := (\<lambda>_. Inr [(aws_request_id_header, [])])\<rparr>,
      ae_texts = demo_texts, ae_form = demo_iam_form, ae_sqs_codec = demo_codec, ae_sns_codec = demo_sns_codec,
      ae_iam_codec = demo_iam_codec, ae_sts_codec = \<lparr>td_empty = (\<lambda>_. Inr ()), tn_identity = (\<lambda>_. Inr [])\<rparr>,
      ae_debug_api = (\<lambda>_. []), ae_debug_identity = (\<lambda>_. []), ae_valid_status = (\<lambda>_. True),
      ae_valid_header = (\<lambda>_ v. list_all visible v)\<rparr>"

definition demo_app_env :: app_env where
  "demo_app_env = \<lparr>en_request_id = [], en_now = 0, en_iam = demo_iam_env, en_sqs = demo_sqs_env, en_sns = demo_sns_env,
     en_clock = int\<rparr>"

definition demo_state :: app_state where
  "demo_state = \<lparr>app_iam = demo_iam_db, app_sns = demo_sns_db, app_sqs = demo_open_db, app_traces = migrated_trace_db\<rparr>"

definition demo_parts :: http_parts where
  "demo_parts = \<lparr>pt_method = ''POST'', pt_path = ''/'', pt_query = Some ''q'',
     pt_headers = map (\<lambda>(k, v). (k, Some v)) (ir_headers (demo_signed ''test'' ''curl''))\<rparr>"

abbreviation demo_wire :: incoming_request where
  "demo_wire \<equiv> (demo_signed ''test'' ''curl'')\<lparr>ir_query := Some ''q'', ir_body := []\<rparr>"

lemma demo_app_parts [simp]:
  "ae_ext demo_app = demo_ext" "ae_sig demo_app = demo_sig_ext" "ae_texts demo_app = demo_texts" "ae_form demo_app = demo_iam_form"
  "ae_iam_codec demo_app = demo_iam_codec" "ae_iam demo_app = demo_iam_ext" "en_now demo_app_env = 0" "en_request_id demo_app_env = []"
  "en_iam demo_app_env = demo_iam_env" "en_sqs demo_app_env = demo_sqs_env" "app_iam demo_state = demo_iam_db"
  by (simp_all add: demo_app_def demo_app_env_def demo_state_def)

lemma demo_state_inv: "app_inv demo_state"
  using demo_iam_inv demo_sns_inv by (simp add: app_inv_def demo_state_def trace_inv_def migrated_trace_db_def)

lemma demo_app_env_good: "good_env sqs_inv (en_sqs demo_app_env)"
  by (simp add: good_env_def demo_sqs_env_def demo_round_def)

theorem served_request_keeps_integrity_witness:
  "app_inv (snd (serve_request demo_app Enforce demo_app_env demo_parts (Inr []) demo_state))"
  by (rule served_request_keeps_integrity [OF demo_state_inv demo_app_env_good])

lemma demo_from_parts: "from_parts demo_parts [] = demo_wire"
proof -
  have "collect_headers (map (\<lambda>(k, v). (k, Some v)) (ir_headers (demo_signed ''test'' ''curl''))) = ir_headers (demo_signed ''test'' ''curl'')"
    by code_simp
  then show ?thesis by (simp add: from_parts_def demo_parts_def) (simp add: demo_signed_def)
qed

lemma demo_wire_authenticated:
  "authenticate_request demo_sig_ext (sqlite_iam_store demo_texts 0) demo_wire demo_iam_db =
     Inr \<lparr>ar_request = demo_wire, ar_service = ''iam'', ar_region = ''us-east-1'', ar_access_key = ''test'',
       ar_principal_id = 1, ar_date = 0\<rparr>"
proof -
  have signed: "extract_sigv4_params demo_wire = Inr (demo_params ''test'')"
    unfolding demo_extract(1) [of "''curl''", symmetric] by (simp add: extract_sigv4_params_def)
  have "\<exists>t. create_canonical_request demo_sig_ext demo_wire [''Host''] = Inr (CHR ''P'' # t)"
    by (simp add: create_canonical_request_def demo_signed_def demo_sig_ext_def canonicalize_signed_headers_def
        demo_lowercase extract_signed_headers_def)
  then have hash: "hash_request demo_sig_ext demo_wire row = Inr ''A''" for row
    by (auto simp: hash_request_def signed) (simp_all add: demo_params_def demo_signed_def demo_sig_ext_def
        string_to_sign_def starts_with_def)
  have "sigv4_authenticate demo_sig_ext (sqlite_iam_store demo_texts 0) demo_wire demo_iam_db =
      Inr (demo_params ''test'', \<lparr>ak_key_id = ''test'', ak_principal_id = 1, ak_secret_key = ''test'', ak_created_at = current_timestamp 0\<rparr>)"
    by (simp add: sigv4_authenticate_def signed hash demo_iam sqlite_get_secret_key_def del: ebind_eq_Inr)
      (simp add: demo_params_def)
  then show ?thesis
    by (simp add: authenticate_request_def del: ebind_eq_Inr) (simp add: demo_signed_def demo_sig_ext_def demo_params_def)
qed

lemma demo_wire_identity:
  "resolve_identity (sqlite_iam_store demo_texts 0) []
     \<lparr>ar_request = demo_wire, ar_service = ''iam'', ar_region = ''us-east-1'', ar_access_key = ''test'',
       ar_principal_id = 1, ar_date = 0\<rparr> demo_iam_db = Inr (demo_iam_request (demo_signed ''test'' ''curl''))"
  by (simp add: resolve_identity_def sqlite_get_principal_def demo_iam demo_iam_request_def current_timestamp_def seconds_def
      del: ebind_eq_Inr)


section \<open>The request runs\<close>

abbreviation demo_deleted :: iam_db where
  "demo_deleted \<equiv> snd (handle_delete_user (sqlite_iam_store demo_texts 0) (demo_iam_request demo_wire) ''test'' demo_iam_db)"

lemma demo_wire_request: "demo_iam_request (demo_signed ''test'' ''curl'') = demo_iam_request demo_wire"
  by (simp add: demo_iam_request_def)

lemma demo_app_route:
  assumes "app_iam s = demo_iam_db"
  shows "\<exists>r. route_traced (app_authorizer demo_app Enforce demo_app_env) (app_services demo_app Enforce demo_app_env)
    (demo_iam_request demo_wire) s = (r, s\<lparr>app_iam := demo_deleted\<rparr>)"
proof -
  obtain r where handled: "svc_handle_request demo_iam_service (demo_iam_request demo_wire) demo_iam_db = (r, demo_deleted)"
    using demo_handled [of demo_wire] by blast
  have "svc_can_handle demo_iam_service (demo_iam_request demo_wire)"
    by (simp add: iam_service_def iam_can_handle_def demo_iam_request_def demo_request_def)
  then have found: "find (\<lambda>svc. svc_can_handle svc (demo_iam_request demo_wire)) (app_services demo_app Enforce demo_app_env) =
      Some (service_on app_iam (\<lambda>t s. s\<lparr>app_iam := t\<rparr>) demo_iam_service)"
    by (simp add: app_services_def service_on_def)
  have "az_authorize (app_authorizer demo_app Enforce demo_app_env) (demo_iam_request demo_wire)
      (user_check ''iam:DeleteUser'' (ac_principal (rr_auth_context (demo_iam_request demo_wire)))) s = Allow"
    by (simp add: app_authorizer_def iam_authorizer_def authorize_def app_decision assms demo_allowed)
  with handled found show ?thesis
    by (simp add: route_traced_def service_on_def assms demo_resolve demo_validated)
qed

lemma demo_served:
  "\<exists>resp s'. serve_request demo_app Enforce demo_app_env demo_parts (Inr []) demo_state = (resp, s') \<and> app_iam s' = demo_deleted"
proof -
  obtain response trace s1 where run: "resolve_and_route demo_app Enforce demo_app_env (new_trace_context (en_request_id demo_app_env))
      (from_parts demo_parts []) demo_state = ((response, trace), s1)" by (metis surj_pair)
  then have "app_iam s1 = demo_deleted"
  proof (cases rule: resolve_and_route_cases)
    case (routed ar request s2 s3)
    have ar: "ar = \<lparr>ar_request = demo_wire, ar_service = ''iam'', ar_region = ''us-east-1'', ar_access_key = ''test'',
        ar_principal_id = 1, ar_date = 0\<rparr>"
      using routed(1) demo_wire_authenticated by (simp add: demo_from_parts)
    then have request: "request = demo_iam_request demo_wire"
      using routed(2) demo_wire_identity by (simp add: new_trace_context_def demo_wire_request)
    have "app_iam s2 = demo_iam_db" using app_iam_tables [OF routed(3)] by simp
    from demo_app_route [OF this] routed(5) have "app_iam s3 = demo_deleted" by (auto simp: request)
    with app_iam_tables [OF routed(6)] show ?thesis by simp
  qed (use demo_wire_authenticated demo_wire_identity in \<open>auto simp: demo_from_parts new_trace_context_def\<close>)
  moreover have "app_iam (record_trace A t s1) = app_iam s1" for A t by (rule app_iam_tables) simp
  ultimately show ?thesis using run
    by (cases response) (auto simp: serve_request_def from_hyper_def Let_def)
qed

lemma demo_deleted_rights: "rights_of 1 demo_deleted \<noteq> rights_of 1 demo_iam_db"
  by (simp add: handle_delete_user_def sqlite_delete_user_def sbind_def smap_err_def Let_def demo_iam_request_def demo_iam
      delete_principals_def rights_of_def)

theorem served_rights_change_was_allowed_witness:
  "\<exists>request check. sqlite_decision demo_ext demo_texts 0 request check demo_iam_db = Allowed \<and> is_about check 1 demo_iam_db"
proof -
  have reads: "reads_parameters (ae_form demo_app) (ae_iam_codec demo_app)" using demo_reads by simp
  obtain resp s' where run: "serve_request demo_app Enforce demo_app_env demo_parts (Inr []) demo_state = (resp, s')"
    and gone: "app_iam s' = demo_deleted" using demo_served by blast
  have "rights_of 1 (app_iam s') \<noteq> rights_of 1 (app_iam demo_state)" using demo_deleted_rights gone by simp
  from served_rights_change_was_allowed [OF demo_state_inv reads run this] show ?thesis by auto
qed

theorem served_change_was_allowed_witness:
  "\<exists>ar. authenticate_request demo_sig_ext (sqlite_iam_store demo_texts 0) demo_wire demo_iam_db = Inr ar \<and> ar_principal_id ar = 1"
proof -
  obtain resp s' where run: "serve_request demo_app Enforce demo_app_env demo_parts (Inr []) demo_state = (resp, s')"
    and gone: "app_iam s' = demo_deleted" using demo_served by blast
  have "tables s' \<noteq> tables demo_state" using demo_deleted_rights gone by (auto simp: tables_def)
  from served_change_was_allowed [OF demo_state_inv run this] obtain ar p where
    "authenticate_request demo_sig_ext (sqlite_iam_store demo_texts 0) demo_wire demo_iam_db = Inr ar"
    "p \<in> set (principals demo_iam_db)" "p_id p = ar_principal_id ar"
    by (auto simp: demo_from_parts)
  then show ?thesis by (intro exI [of _ ar]) (auto simp: demo_iam)
qed

section \<open>Afterwards\<close>

theorem deleted_user_gets_401_witness:
  "\<exists>s' r. fst (serve_request demo_app Off demo_app_env demo_parts (Inr []) s') = Some r \<and> status_code r = 401"
proof -
  obtain res db' where run: "handle_delete_user (sqlite_iam_store demo_texts 0) (demo_request ''iam'') ''test'' demo_iam_db = (res, db')"
    using demo_delete_user by blast
  have user: "find_user (req_account (demo_request ''iam'')) ''test'' demo_iam_db = Some (ac_principal (rr_auth_context (demo_request ''iam'')))"
    by (simp add: demo_iam current_timestamp_def seconds_def)
  have key: "\<lparr>ak_key_id = ''test'', ak_principal_id = 1, ak_secret_key = ''test'', ak_created_at = current_timestamp 0\<rparr>
      \<in> set (fst (rights_of (p_id (ac_principal (rr_auth_context (demo_request ''iam'')))) demo_iam_db))"
    by (simp add: rights_of_def demo_iam)
  have params: "extract_sigv4_params (from_parts demo_parts []) = Inr (demo_params ''test'')"
    unfolding demo_from_parts demo_extract(1) [of "''curl''", symmetric] by (simp add: extract_sigv4_params_def)
  have names: "sp_access_key (demo_params ''test'') =
      ak_key_id \<lparr>ak_key_id = ''test'', ak_principal_id = 1, ak_secret_key = ''test'', ak_created_at = current_timestamp 0\<rparr>"
    by (simp add: demo_params_def)
  obtain resp s' where served: "serve_request demo_app Off demo_app_env demo_parts (Inr []) (demo_state\<lparr>app_iam := db'\<rparr>) = (resp, s')"
    by (metis surj_pair)
  have state: "app_iam demo_state = demo_iam_db" by simp
  have "resp = build_response demo_app 401 [(aws_request_id_header, [])] (api_message (NotAuthenticated ''Secret key not found for access key''))"
    using deleted_user_gets_401 [of demo_state, unfolded state, OF demo_iam_inv user run key params names served] by simp
  then show ?thesis using served
    by (intro exI [of _ "demo_state\<lparr>app_iam := db'\<rparr>"]) (simp add: build_response_def demo_app_def)
qed

lemma demo_http: "http_accepts demo_app"
  by (simp add: http_accepts_def demo_app_def)

theorem every_request_is_answered_witness:
  "\<exists>r. fst (serve_request demo_app Enforce demo_app_env demo_parts (Inl ''closed'') demo_state) = Some r \<and>
     map_of (resp_headers r) aws_request_id_header = Some []"
  using every_request_is_answered [OF demo_http, of demo_app_env Enforce demo_parts "Inl ''closed''" demo_state] by auto


text \<open>A request without a signature is refused and traced all the same.\<close>

definition demo_unsigned :: http_parts where
  "demo_unsigned = demo_parts\<lparr>pt_headers := []\<rparr>"

lemma demo_unsigned_served:
  "\<exists>s'. serve_request demo_app Enforce demo_app_env demo_unsigned (Inr ''q'') demo_state =
     (Some \<lparr>status_code = 401, resp_headers = [(aws_request_id_header, [])],
        resp_body = ''Not Authenticated: Missing Authorization header''\<rparr>, s')"
proof -
  have unsigned: "authenticate_request (ae_sig demo_app) (app_iam_store demo_app demo_app_env) (from_parts demo_unsigned ''q'') (app_iam demo_state) =
      Inl MissingAuthorizationHeader"
    by (simp add: authenticate_request_def sigv4_authenticate_def extract_sigv4_params_def from_parts_def demo_unsigned_def
        collect_headers_def del: ebind_eq_Inr)
  have accepted: "build_response demo_app 401 [(aws_request_id_header, [])] b =
      Some \<lparr>status_code = 401, resp_headers = [(aws_request_id_header, [])], resp_body = b\<rparr>" for b
    by (rule build_error_accepted [OF demo_http]) simp_all
  obtain response trace s1 where run: "resolve_and_route demo_app Enforce demo_app_env (new_trace_context (en_request_id demo_app_env))
      (from_parts demo_unsigned ''q'') demo_state = ((response, trace), s1)" by (metis surj_pair)
  then have "response = Inl (NotAuthenticated ''Missing Authorization header'')"
    by (cases rule: resolve_and_route_cases) (use unsigned in simp_all)
  with run accepted show ?thesis by (simp add: serve_request_def from_hyper_def Let_def)
qed


end
