(* ===== verification/Web_Support.thy ===== *)
theory Web_Support
  imports Runtime
begin

text \<open>
  What the pages of the web interface, \<^verbatim>\<open>hiraeth_web\<close>, share: errors (\<^verbatim>\<open>error.rs\<close>), the components of a
  page (\<^verbatim>\<open>components.rs\<close>), redirects with messages in their query, and the answers of handlers.
  Templates (\<^verbatim>\<open>askama\<close>), percent encoding (\<^verbatim>\<open>urlencoding\<close>), JSON and texts of times belong to other crates:
  the record \<open>web_ext\<close>. The three services have copies of the functions here.
\<close>

section \<open>Components\<close>

record header_action =
  ha_label :: string
  ha_href :: "string option"
  ha_button_class :: string

definition header_link :: "string \<Rightarrow> string \<Rightarrow> string \<Rightarrow> header_action" where
  "header_link label href button_class = \<lparr>ha_label = label, ha_href = Some href, ha_button_class = button_class\<rparr>"

definition header_disabled :: "string \<Rightarrow> string \<Rightarrow> header_action" where
  "header_disabled label button_class = \<lparr>ha_label = label, ha_href = None, ha_button_class = button_class\<rparr>"

record page_header =
  ph_eyebrow :: string
  ph_title :: string
  ph_description :: string
  ph_actions :: "header_action list"

record stat_block =
  sb_title :: string
  sb_value :: string
  sb_value_class :: string
  sb_description :: string

record stat_block_grid =
  sg_grid_class :: string
  sg_blocks :: "stat_block list"

record summary_card =
  sc_title :: string
  sc_value :: string
  sc_value_class :: string
  sc_description :: string

record summary_card_grid =
  scg_grid_class :: string
  scg_cards :: "summary_card list"

record empty_state =
  es_title :: string
  es_message :: string

record action_card_action =
  ca_label :: string
  ca_href :: "string option"
  ca_form_action :: "string option"
  ca_button_class :: string
  ca_onsubmit :: "string option"

definition card_link :: "string \<Rightarrow> string \<Rightarrow> string \<Rightarrow> action_card_action" where
  "card_link label href button_class =
     \<lparr>ca_label = label, ca_href = Some href, ca_form_action = None, ca_button_class = button_class, ca_onsubmit = None\<rparr>"

text \<open>The attribute \<^verbatim>\<open>onsubmit\<close> of buttons that ask first.\<close>

definition confirm_submit :: "string \<Rightarrow> string \<Rightarrow> string" where
  "confirm_submit question progress =
     ''return hiraethConfirmSubmit(this, '' @ quoted question @ '', '' @ quoted progress @ '')''"

definition card_post :: "string \<Rightarrow> string \<Rightarrow> string \<Rightarrow> string option \<Rightarrow> action_card_action" where
  "card_post label form_action button_class onsubmit =
     \<lparr>ca_label = label, ca_href = None, ca_form_action = Some form_action, ca_button_class = button_class,
      ca_onsubmit = onsubmit\<rparr>"

record action_card =
  ac_title :: string
  ac_grid_class :: string
  ac_actions :: "action_card_action list"

record metadata_entry =
  me_label :: string
  me_value :: string
  me_value_class :: string

record metadata_list =
  ml_entries :: "metadata_entry list"

datatype component =
    PageHeader page_header
  | StatBlockGrid stat_block_grid
  | SummaryCardGrid summary_card_grid
  | EmptyState empty_state
  | ActionCard action_card
  | MetadataList metadata_list

abbreviation mk_stat :: "string \<Rightarrow> string \<Rightarrow> string \<Rightarrow> string \<Rightarrow> stat_block" where
  "mk_stat title v class description \<equiv> \<lparr>sb_title = title, sb_value = v, sb_value_class = class, sb_description = description\<rparr>"

abbreviation mk_card :: "string \<Rightarrow> string \<Rightarrow> string \<Rightarrow> string \<Rightarrow> summary_card" where
  "mk_card title v class description \<equiv> \<lparr>sc_title = title, sc_value = v, sc_value_class = class, sc_description = description\<rparr>"

abbreviation mk_entry :: "string \<Rightarrow> string \<Rightarrow> string \<Rightarrow> metadata_entry" where
  "mk_entry label v class \<equiv> \<lparr>me_label = label, me_value = v, me_value_class = class\<rparr>"

section \<open>External code\<close>

text \<open>
  The results of \<^verbatim>\<open>render\<close>, \<^verbatim>\<open>from_str\<close> and \<^verbatim>\<open>to_string\<close> carry the text of their error. \<open>wx_json_minify\<close> and
  \<open>wx_json_pretty\<close> parse a text and print the value again; \<open>wx_json_keys\<close> parses a text and counts the keys,
  if it is an object; \<open>wx_notification\<close> prints the envelope of a published message (its id, the topic, subject,
  message and time); \<open>wx_pretty_map\<close> and \<open>wx_pretty_pairs\<close> print an object and a list of
  pairs; \<open>wx_default_policy\<close> is the document offered in forms, as \<^verbatim>\<open>serde_json\<close> prints it.
\<close>

text \<open>\<^verbatim>\<open>StoredMessageAttribute\<close> of the SQS pages, as \<^verbatim>\<open>serde_json\<close> reads it; \<open>wx_attributes\<close> has the keys in order.\<close>

record stored_message_attribute =
  sma_data_type :: string
  sma_string_value :: "string option"
  sma_binary_value :: "string option"

record web_ext =
  wx_render :: "component \<Rightarrow> string + string"
  wx_render_error :: "nat \<Rightarrow> string \<Rightarrow> string \<Rightarrow> string + string"
  wx_urlencode :: "string \<Rightarrow> string"
  wx_json_minify :: "string \<Rightarrow> string + (string + string)"
  wx_json_pretty :: "string \<Rightarrow> string + (string + string)"
  wx_json_keys :: "string \<Rightarrow> string + nat option"
  wx_attributes :: "string \<Rightarrow> (string \<times> stored_message_attribute) list option"
  wx_notification :: "string \<Rightarrow> string \<Rightarrow> string \<Rightarrow> string \<Rightarrow> string \<Rightarrow> string"
  wx_rfc3339 :: "time \<Rightarrow> string"
  wx_pretty_map :: "(string \<times> string) list \<Rightarrow> string + string"
  wx_pretty_pairs :: "(string \<times> string) list \<Rightarrow> string + string"
  wx_utf8_lossy :: "string \<Rightarrow> string"
  wx_time_text :: "time \<Rightarrow> string"
  wx_naive_text :: "time \<Rightarrow> string"
  wx_header_value :: "string \<Rightarrow> bool"
  wx_default_policy :: string

section \<open>Errors\<close>

record web_error =
  we_status :: nat
  we_title :: string
  we_message :: string

fun web_of_store_error :: "store_error \<Rightarrow> web_error" where
  "web_of_store_error (StoreNotFound m) =
     \<lparr>we_status = 404, we_title = ''Not found'', we_message = store_error_text (StoreNotFound m)\<rparr>"
| "web_of_store_error (StoreConflict m) =
     \<lparr>we_status = 409, we_title = ''Conflict'', we_message = store_error_text (StoreConflict m)\<rparr>"
| "web_of_store_error (StorageFailure m) =
     \<lparr>we_status = 500, we_title = ''Storage error'', we_message = store_error_text (StorageFailure m)\<rparr>"

definition web_of_trace_error :: "trace_record_error \<Rightarrow> web_error" where
  "web_of_trace_error e = \<lparr>we_status = 500, we_title = ''Trace storage error'', we_message = trace_error_text e\<rparr>"

definition web_of_template_error :: "string \<Rightarrow> web_error" where
  "web_of_template_error e = \<lparr>we_status = 500, we_title = ''Template error'', we_message = e\<rparr>"

definition bad_request :: "string \<Rightarrow> web_error" where
  "bad_request m = \<lparr>we_status = 400, we_title = ''Bad request'', we_message = m\<rparr>"

definition web_internal_error :: "string \<Rightarrow> web_error" where
  "web_internal_error m = \<lparr>we_status = 500, we_title = ''Internal error'', we_message = m\<rparr>"

section \<open>Answers\<close>

text \<open>
  \<^verbatim>\<open>Redirect::to\<close> panics when its target is not a header value: \<open>None\<close>. Otherwise the answer is 303 with the
  target as \<^verbatim>\<open>location\<close>.
\<close>

datatype web_reply = Html string | Redirect string | Json string

type_synonym ('s, 'a) web_op = "('s, web_error, 'a) store_op"

definition web_error_response :: "web_ext \<Rightarrow> web_error \<Rightarrow> nat \<times> string" where
  "web_error_response W e =
     (we_status e, case wx_render_error W (we_status e) (we_title e) (we_message e) of
        Inr body \<Rightarrow> body | Inl _ \<Rightarrow> we_message e)"

fun web_response :: "web_ext \<Rightarrow> web_error + web_reply \<Rightarrow> (nat \<times> string option \<times> string) option" where
  "web_response W (Inr (Html body)) = Some (200, None, body)"
| "web_response W (Inr (Json body)) = Some (200, None, body)"
| "web_response W (Inr (Redirect target)) = (if wx_header_value W target then Some (303, Some target, []) else None)"
| "web_response W (Inl e) = (case web_error_response W e of (status, body) \<Rightarrow> Some (status, None, body))"

definition from_store :: "('s, store_error, 'a) store_op \<Rightarrow> ('s, 'a) web_op" where
  "from_store m = smap_err web_of_store_error m"

definition read_store :: "('s \<Rightarrow> store_error + 'a) \<Rightarrow> ('s, 'a) web_op" where
  "read_store f = sread (\<lambda>s. map_err web_of_store_error (f s))"

definition render_component :: "web_ext \<Rightarrow> component \<Rightarrow> web_error + string" where
  "render_component W c = map_err web_of_template_error (wx_render W c)"

definition render_page :: "('t \<Rightarrow> string + string) \<Rightarrow> 't \<Rightarrow> web_error + web_reply" where
  "render_page render template = map_err web_of_template_error (ebind (render template) (\<lambda>body. Inr (Html body)))"

section \<open>Messages in redirects\<close>

record page_feedback =
  pf_message :: string
  pf_alert_class :: string
  pf_has_message :: bool

definition feedback_from_params :: "string option \<Rightarrow> string option \<Rightarrow> page_feedback" where
  "feedback_from_params kind message =
     (let m = coalesce message []
      in \<lparr>pf_message = m,
          pf_alert_class = (if kind = Some ''error'' then ''alert-error''
             else if kind = Some ''warning'' then ''alert-warning'' else ''alert-success''),
          pf_has_message = m \<noteq> []\<rparr>)"

fun append_pairs :: "(string \<Rightarrow> string) \<Rightarrow> bool \<Rightarrow> string \<Rightarrow> (string \<times> string) list \<Rightarrow> string" where
  "append_pairs enc is_first path [] = path"
| "append_pairs enc is_first path ((key, v) # params) =
     (if v = [] then append_pairs enc is_first path params
      else append_pairs enc False (path @ (if is_first then ''?'' else ''&'') @ enc key @ ''='' @ enc v) params)"

definition append_query_params :: "web_ext \<Rightarrow> string \<Rightarrow> (string \<times> string) list \<Rightarrow> string" where
  "append_query_params W path params = append_pairs (wx_urlencode W) (CHR ''?'' \<notin> set path) path params"

definition feedback_redirect :: "web_ext \<Rightarrow> string \<Rightarrow> string \<Rightarrow> string \<Rightarrow> web_reply" where
  "feedback_redirect W path kind message =
     Redirect (append_query_params W path [(''feedback_kind'', kind), (''feedback'', message)])"

definition safe_return_to :: "string \<Rightarrow> string option \<Rightarrow> string \<Rightarrow> string" where
  "safe_return_to base return_to fallback =
     (case return_to of
        None \<Rightarrow> fallback
      | Some target \<Rightarrow>
          let valid_path = (target = base \<or> starts_with (base @ ''/'') target \<or> starts_with (base @ ''?'') target)
          in if valid_path \<and> \<not> starts_with ''//'' target \<and> CHR 0x0A \<notin> set target \<and> CHR 0x0D \<notin> set target
             then target else fallback)"

section \<open>Fields of forms\<close>

text \<open>\<^verbatim>\<open>.filter(|value| !value.is_empty()).unwrap_or_else(default)\<close>\<close>

definition non_empty_or :: "string option \<Rightarrow> string \<Rightarrow> string" where
  "non_empty_or v fallback = (case v of Some x \<Rightarrow> if x = [] then fallback else x | None \<Rightarrow> fallback)"

definition non_empty_trimmed :: "string \<Rightarrow> string option" where
  "non_empty_trimmed v = (let t = trim v in if t = [] then None else Some t)"

definition web_validate_required :: "string \<Rightarrow> string \<Rightarrow> web_error + unit" where
  "web_validate_required field_name v = guard (v = []) (bad_request (field_name @ '' is required''))"

text \<open>\<^verbatim>\<open>trim_end_matches\<close> of an ASCII character.\<close>

definition trim_end_char :: "char \<Rightarrow> string \<Rightarrow> string" where
  "trim_end_char c s = rev (dropWhile (\<lambda>x. x = c) (rev s))"

text \<open>\<^verbatim>\<open>if let Err(error) = checks { return Ok(redirect) }\<close>\<close>

definition or_redirect :: "web_error + 'a \<Rightarrow> (string \<Rightarrow> web_reply) \<Rightarrow> ('a \<Rightarrow> ('s, web_reply) web_op) \<Rightarrow> ('s, web_reply) web_op" where
  "or_redirect check redirect next_step =
     (case check of Inl e \<Rightarrow> slift (Inr (redirect (we_message e))) | Inr x \<Rightarrow> next_step x)"

text \<open>\<^verbatim>\<open>match op { Ok(x) => .., Err(StoreError::Conflict(message)) => Ok(redirect), Err(error) => Err(error) }\<close>\<close>

definition try_conflict ::
    "('s, store_error, 'a) store_op \<Rightarrow> (string \<Rightarrow> web_reply) \<Rightarrow> ('a \<Rightarrow> ('s, web_reply) web_op) \<Rightarrow> ('s, web_reply) web_op" where
  "try_conflict m redirect next_step s =
     (case m s of
        (Inr x, s') \<Rightarrow> next_step x s'
      | (Inl (StoreConflict message), s') \<Rightarrow> (Inr (redirect message), s')
      | (Inl e, s') \<Rightarrow> (Inl (web_of_store_error e), s'))"

definition on_conflict ::
    "('s, store_error, 'a) store_op \<Rightarrow> (string \<Rightarrow> web_reply) \<Rightarrow> ('a \<Rightarrow> web_reply) \<Rightarrow> ('s, web_reply) web_op" where
  "on_conflict m redirect done_reply = try_conflict m redirect (\<lambda>x. slift (Inr (done_reply x)))"

section \<open>What every handler keeps\<close>

lemma keeps_from_store [intro]: "keeps P m \<Longrightarrow> keeps P (from_store m)"
  by (auto simp: from_store_def)

lemma keeps_read_store [simp, intro]: "keeps P (read_store f)"
  by (simp add: read_store_def)

lemma keeps_or_redirect [intro]: "(\<And>x. keeps P (next_step x)) \<Longrightarrow> keeps P (or_redirect check redirect next_step)"
  by (simp add: or_redirect_def split: sum.split)

lemma keeps_try_conflict [intro]:
  "keeps P m \<Longrightarrow> (\<And>x. keeps P (next_step x)) \<Longrightarrow> keeps P (try_conflict m redirect next_step)"
  by (fastforce simp: keeps_def try_conflict_def split: prod.splits sum.splits store_error.splits)

lemma keeps_on_conflict [intro]: "keeps P m \<Longrightarrow> keeps P (on_conflict m redirect done_reply)"
  by (simp add: on_conflict_def keeps_try_conflict)

end
