(* ===== verification/Web_Iam.thy ===== *)
theory Web_Iam
  imports Web_Support Uri_Encoding
begin

text \<open>
  The IAM pages of the web interface, \<^verbatim>\<open>hiraeth_web/src/iam/mod.rs\<close>: what a page shows of the tables, and
  the forms that change them. Handlers work on the tables of \<^verbatim>\<open>SqliteIamStore\<close>; there is no authorization.
\<close>

section \<open>Parameters and forms\<close>

record iam_dashboard_params =
  idp_feedback :: "string option"
  idp_feedback_kind :: "string option"
  idp_create_error :: "string option"
  idp_create_account_id :: "string option"
  idp_create_kind :: "string option"
  idp_create_name :: "string option"
  idp_create_path :: "string option"
  idp_policy_error :: "string option"
  idp_policy_account_id :: "string option"
  idp_policy_name :: "string option"
  idp_policy_path :: "string option"
  idp_policy_document :: "string option"

record iam_principal_detail_params =
  ipp_feedback :: "string option"
  ipp_feedback_kind :: "string option"
  ipp_access_key_error :: "string option"
  ipp_policy_error :: "string option"
  ipp_policy_name :: "string option"
  ipp_policy_document :: "string option"
  ipp_policy_open :: "string option"
  ipp_attach_policy_error :: "string option"

record iam_managed_policy_detail_params =
  imp_feedback :: "string option"
  imp_feedback_kind :: "string option"
  imp_policy_error :: "string option"
  imp_policy_document :: "string option"
  imp_policy_open :: "string option"
  imp_attach_error :: "string option"

record create_principal_form =
  cpf_account_id :: string
  cpf_kind :: string
  cpf_name :: string
  cpf_path :: string

record access_key_form =
  akf_key_id :: string
  akf_secret_key :: string

record inline_policy_form =
  ipf_policy_name :: string
  ipf_policy_document :: string

record managed_policy_form =
  mpf_account_id :: string
  mpf_policy_name :: string
  mpf_path :: string
  mpf_policy_document :: string

section \<open>Views\<close>

record iam_dashboard_stats =
  ids_principal_count :: nat
  ids_access_key_count :: nat
  ids_inline_policy_count :: nat
  ids_managed_policy_count :: nat
  ids_account_count :: nat

record iam_principal_summary =
  ips_id :: int
  ips_account_id :: string
  ips_kind :: string
  ips_name :: string
  ips_created_at :: string
  ips_access_key_count :: nat
  ips_inline_policy_count :: nat
  ips_managed_policy_count :: nat

text \<open>\<^verbatim>\<open>IamPrincipalDetailView\<close> has the fields of \<^verbatim>\<open>IamPrincipalSummary\<close>.\<close>

record iam_access_key_view =
  ikv_key_id :: string
  ikv_secret_key :: string
  ikv_masked_secret_key :: string
  ikv_created_at :: string

record iam_inline_policy_view =
  iiv_policy_name :: string
  iiv_created_at :: string
  iiv_updated_at :: string
  iiv_pretty_document :: string

record iam_managed_policy_summary =
  ims_id :: int
  ims_account_id :: string
  ims_policy_name :: string
  ims_policy_path :: string
  ims_arn :: string
  ims_created_at :: string
  ims_updated_at :: string
  ims_attachment_count :: nat
  ims_pretty_document :: string

record iam_managed_policy_detail = iam_managed_policy_summary +
  imd_policy_id :: string

record iam_policy_principal_view =
  ipv_id :: int
  ipv_account_id :: string
  ipv_kind :: string
  ipv_name :: string

record iam_policy_attach_option =
  iao_id :: int
  iao_label :: string

record create_principal_fields =
  cpd_error :: string
  cpd_has_error :: bool
  cpd_account_id :: string
  cpd_kind :: string
  cpd_name :: string
  cpd_path :: string

record inline_policy_fields =
  ipd_error :: string
  ipd_has_error :: bool
  ipd_policy_name :: string
  ipd_policy_document :: string
  ipd_open_panel :: bool

record managed_policy_fields =
  mpd_error :: string
  mpd_has_error :: bool
  mpd_account_id :: string
  mpd_policy_name :: string
  mpd_path :: string
  mpd_policy_document :: string
  mpd_open_panel :: bool

text \<open>The templates, as far as their fields are not texts of the components above.\<close>

record iam_dashboard_template =
  idt_page_header_html :: string
  idt_stats_html :: string
  idt_empty_state_html :: string
  idt_feedback :: page_feedback
  idt_create :: create_principal_fields
  idt_principal_count :: nat
  idt_principals :: "iam_principal_summary list"
  idt_has_principals :: bool
  idt_managed_policy_count :: nat
  idt_managed_policies :: "iam_managed_policy_summary list"
  idt_has_managed_policies :: bool
  idt_policy :: managed_policy_fields

record iam_principal_detail_template =
  ipt_action_card_html :: string
  ipt_summary_cards_html :: string
  ipt_metadata_list_html :: string
  ipt_feedback :: page_feedback
  ipt_access_key_error :: string
  ipt_has_access_key_error :: bool
  ipt_policy :: inline_policy_fields
  ipt_attach_policy_error :: string
  ipt_has_attach_policy_error :: bool
  ipt_principal :: iam_principal_summary
  ipt_access_keys :: "iam_access_key_view list"
  ipt_inline_policies :: "iam_inline_policy_view list"
  ipt_attached_policies :: "iam_managed_policy_summary list"
  ipt_policy_attach_options :: "iam_policy_attach_option list"
  ipt_has_access_keys :: bool
  ipt_has_inline_policies :: bool
  ipt_has_attached_policies :: bool
  ipt_has_policy_attach_options :: bool

record iam_managed_policy_detail_template =
  imt_action_card_html :: string
  imt_metadata_list_html :: string
  imt_feedback :: page_feedback
  imt_policy_error :: string
  imt_has_policy_error :: bool
  imt_policy_document :: string
  imt_policy_panel_open :: bool
  imt_policy :: iam_managed_policy_detail
  imt_attached_principals :: "iam_policy_principal_view list"
  imt_attach_options :: "iam_policy_principal_view list"
  imt_has_attached_principals :: bool
  imt_has_attach_options :: bool

section \<open>Texts\<close>

definition web_normalize_path :: "string \<Rightarrow> string" where
  "web_normalize_path path =
     (let trimmed = trim path
      in if trimmed = [] \<or> trimmed = ''/'' then ''/'' else ''/'' @ trim_matches (CHR ''/'') trimmed @ ''/'')"

definition normalize_policy_document :: "web_ext \<Rightarrow> string \<Rightarrow> web_error + string" where
  "normalize_policy_document W document =
     (case wx_json_minify W document of
        Inl e \<Rightarrow> Inl (bad_request (''Policy document is not valid JSON: '' @ e))
      | Inr (Inl e) \<Rightarrow> Inl (web_internal_error (''Policy document serialization failed: '' @ e))
      | Inr (Inr t) \<Rightarrow> Inr t)"

definition prettify_json :: "web_ext \<Rightarrow> string \<Rightarrow> string" where
  "prettify_json W document = (case wx_json_pretty W document of Inr (Inr t) \<Rightarrow> t | _ \<Rightarrow> document)"

definition mask_secret_key :: "string \<Rightarrow> string" where
  "mask_secret_key secret_key =
     (let chars = str_chars secret_key
      in if length chars \<le> 8 then replicate (max (length chars) 6) (CHR ''*'')
         else concat (take 4 chars) @ replicate (max (length chars - 8) 8) (CHR ''*'') @ concat (drop (length chars - 4) chars))"

definition web_policy_arn :: "managed_policy \<Rightarrow> string" where
  "web_policy_arn pol =
     (let path = coalesce (mpo_policy_path pol) ''/''
      in ''arn:aws:iam::'' @ mpo_account_id pol @ '':policy/'' @ trim_matches (CHR ''/'') path @
         (if path = ''/'' then mpo_policy_name pol else ''/'' @ mpo_policy_name pol))"

definition managed_policy_label :: "managed_policy \<Rightarrow> string" where
  "managed_policy_label pol =
     coalesce (mpo_policy_path pol) ''/'' @ mpo_policy_name pol @ '' ('' @ mpo_account_id pol @ '')''"

definition iam_validate_required :: "string \<Rightarrow> string \<Rightarrow> web_error + unit" where
  "iam_validate_required field_name v = guard (trim v = []) (bad_request (field_name @ '' must not be empty''))"

definition validate_principal_kind :: "string \<Rightarrow> web_error + unit" where
  "validate_principal_kind kind =
     guard (kind \<notin> {''user'', ''role''}) (bad_request ''Principal kind must be either user or role'')"

text \<open>Random ids, from the texts of UUIDs without hyphens.\<close>

definition new_principal_id :: "string \<Rightarrow> string" where
  "new_principal_id uuid = ''AIDA'' @ map ascii_upper uuid"

definition web_access_key_id :: "string \<Rightarrow> string" where
  "web_access_key_id uuid = ''AKIA'' @ take 16 (map ascii_upper uuid)"

definition new_managed_policy_id :: "string \<Rightarrow> string" where
  "new_managed_policy_id uuid = ''ANPA'' @ take 16 (map ascii_upper uuid)"

definition web_secret_access_key :: "string \<Rightarrow> string \<Rightarrow> string" where
  "web_secret_access_key uuid1 uuid2 = take 40 (uuid1 @ uuid2)"

definition if_empty_else :: "string \<Rightarrow> string \<Rightarrow> string" where
  "if_empty_else v fallback = (if v = [] then fallback else v)"

section \<open>Paths\<close>

definition principal_detail_path :: "int \<Rightarrow> string" where
  "principal_detail_path pid = ''/iam/principals/'' @ show_int pid"

definition managed_policy_detail_path :: "int \<Rightarrow> string" where
  "managed_policy_detail_path policy_id = ''/iam/policies/'' @ show_int policy_id"

definition principal_policy_path :: "web_ext \<Rightarrow> int \<Rightarrow> string" where
  "principal_policy_path W pid = append_query_params W (principal_detail_path pid) [(''policy_open'', ''1'')]"

definition create_principal_error_redirect :: "web_ext \<Rightarrow> create_principal_form \<Rightarrow> string \<Rightarrow> web_reply" where
  "create_principal_error_redirect W form message =
     Redirect (append_query_params W ''/iam''
       [(''create_error'', message), (''create_account_id'', trim (cpf_account_id form)),
        (''create_kind'', trim (cpf_kind form)), (''create_name'', trim (cpf_name form)),
        (''create_path'', trim (cpf_path form))])"

definition access_key_error_redirect :: "web_ext \<Rightarrow> int \<Rightarrow> string \<Rightarrow> web_reply" where
  "access_key_error_redirect W pid message =
     Redirect (append_query_params W (principal_detail_path pid) [(''access_key_error'', message)])"

definition inline_policy_error_redirect :: "web_ext \<Rightarrow> int \<Rightarrow> inline_policy_form \<Rightarrow> string \<Rightarrow> web_reply" where
  "inline_policy_error_redirect W pid form message =
     Redirect (append_query_params W (principal_policy_path W pid)
       [(''policy_error'', message), (''policy_name'', trim (ipf_policy_name form)),
        (''policy_document'', ipf_policy_document form)])"

definition managed_policy_error_redirect :: "web_ext \<Rightarrow> managed_policy_form \<Rightarrow> string \<Rightarrow> web_reply" where
  "managed_policy_error_redirect W form message =
     Redirect (append_query_params W ''/iam''
       [(''policy_error'', message), (''policy_account_id'', trim (mpf_account_id form)),
        (''policy_name'', trim (mpf_policy_name form)), (''policy_path'', trim (mpf_path form)),
        (''policy_document'', mpf_policy_document form)])"

definition managed_policy_document_error_redirect :: "web_ext \<Rightarrow> int \<Rightarrow> string \<Rightarrow> string \<Rightarrow> web_reply" where
  "managed_policy_document_error_redirect W policy_id document message =
     Redirect (append_query_params W
       (append_query_params W (managed_policy_detail_path policy_id) [(''policy_open'', ''1'')])
       [(''policy_error'', message), (''policy_document'', document)])"

definition managed_policy_attach_error_redirect :: "web_ext \<Rightarrow> int \<Rightarrow> string \<Rightarrow> web_reply" where
  "managed_policy_attach_error_redirect W policy_id message =
     Redirect (append_query_params W (managed_policy_detail_path policy_id) [(''attach_error'', message)])"

definition principal_policy_attach_error_redirect :: "web_ext \<Rightarrow> int \<Rightarrow> string \<Rightarrow> web_reply" where
  "principal_policy_attach_error_redirect W pid message =
     Redirect (append_query_params W (principal_detail_path pid) [(''attach_policy_error'', message)])"

section \<open>Reading\<close>

definition load_principal :: "int \<Rightarrow> iam_db \<Rightarrow> web_error + principal_row" where
  "load_principal pid db =
     ebind (map_err web_of_store_error (sqlite_get_principal pid db))
       (ok_or (web_of_store_error (StoreNotFound (''Principal not found: '' @ show_int pid))))"

definition load_managed_policy_by_id :: "int \<Rightarrow> iam_db \<Rightarrow> web_error + managed_policy" where
  "load_managed_policy_by_id policy_id db =
     ebind (map_err web_of_store_error (sqlite_list_managed_policies db)) (\<lambda>policies.
     ok_or (web_of_store_error (StoreNotFound (''Managed policy not found: '' @ show_int policy_id)))
       (find (\<lambda>p. mpo_id p = policy_id) policies))"

section \<open>Forms\<close>

text \<open>
  \<open>UE\<close> and \<open>now\<close> are the texts and the clock of SQLite; \<open>uuid\<close> is random.
\<close>

definition web_create_principal ::
    "web_ext \<Rightarrow> sqlite_texts \<Rightarrow> time \<Rightarrow> string \<Rightarrow> create_principal_form \<Rightarrow> (iam_db, web_reply) web_op" where
  "web_create_principal W UE now uuid form =
     (let account_id = trim (cpf_account_id form); kind = trim (cpf_kind form); name = trim (cpf_name form);
          path = web_normalize_path (cpf_path form);
          refuse = create_principal_error_redirect W form
      in or_redirect (ebind (iam_validate_required ''Account ID'' account_id) (\<lambda>_.
           ebind (iam_validate_required ''Principal name'' name) (\<lambda>_. validate_principal_kind kind))) refuse
         (\<lambda>_. on_conflict (sqlite_create_principal UE now
              \<lparr>np_account_id = account_id, np_kind = kind, np_name = name, np_path = path, np_user_id = new_principal_id uuid\<rparr>)
            refuse
            (\<lambda>p. feedback_redirect W (principal_detail_path (p_id p)) ''success'' (''Created principal '' @ name @ ''.''))))"

definition web_delete_principal :: "web_ext \<Rightarrow> int \<Rightarrow> (iam_db, web_reply) web_op" where
  "web_delete_principal W pid =
     sbind (sread (load_principal pid)) (\<lambda>p.
     sbind (from_store (sqlite_delete_principal pid)) (\<lambda>_.
     slift (Inr (feedback_redirect W ''/iam'' ''success'' (''Deleted principal '' @ p_name p @ ''.'')))))"

definition web_create_access_key ::
    "web_ext \<Rightarrow> sqlite_texts \<Rightarrow> time \<Rightarrow> string \<Rightarrow> string \<Rightarrow> string \<Rightarrow> int \<Rightarrow> access_key_form \<Rightarrow> (iam_db, web_reply) web_op" where
  "web_create_access_key W UE now uuid1 uuid2 uuid3 pid form =
     sbind (sread (load_principal pid)) (\<lambda>_.
     let key_id = if_empty_else (trim (akf_key_id form)) (web_access_key_id uuid1);
         secret_key = if_empty_else (trim (akf_secret_key form)) (web_secret_access_key uuid2 uuid3);
         refuse = access_key_error_redirect W pid
     in or_redirect (ebind (iam_validate_required ''Access key id'' key_id) (\<lambda>_. iam_validate_required ''Secret key'' secret_key))
          refuse
          (\<lambda>_. on_conflict (sqlite_insert_secret_key UE now key_id secret_key pid) refuse
             (\<lambda>_. feedback_redirect W (principal_detail_path pid) ''success'' (''Created access key '' @ key_id @ ''.''))))"

definition web_delete_access_key :: "web_ext \<Rightarrow> int \<Rightarrow> string \<Rightarrow> (iam_db, web_reply) web_op" where
  "web_delete_access_key W pid form_key_id =
     sbind (sread (load_principal pid)) (\<lambda>_.
     let key_id = trim form_key_id
     in or_redirect (iam_validate_required ''Access key id'' key_id) (access_key_error_redirect W pid) (\<lambda>_.
        sbind (from_store (sqlite_delete_access_key_for_principal pid key_id)) (\<lambda>_.
        slift (Inr (feedback_redirect W (principal_detail_path pid) ''success'' (''Deleted access key '' @ key_id @ ''.''))))))"

definition web_put_inline_policy ::
    "web_ext \<Rightarrow> sqlite_texts \<Rightarrow> time \<Rightarrow> int \<Rightarrow> inline_policy_form \<Rightarrow> (iam_db, web_reply) web_op" where
  "web_put_inline_policy W UE now pid form =
     sbind (sread (load_principal pid)) (\<lambda>_.
     let policy_name = trim (ipf_policy_name form); refuse = inline_policy_error_redirect W pid form
     in or_redirect (ebind (iam_validate_required ''Policy name'' policy_name) (\<lambda>_.
          iam_validate_required ''Policy document'' (ipf_policy_document form))) refuse (\<lambda>_.
        or_redirect (normalize_policy_document W (ipf_policy_document form)) refuse (\<lambda>document.
        sbind (from_store (sqlite_put_inline_policy UE now pid policy_name document)) (\<lambda>_.
        slift (Inr (feedback_redirect W (principal_policy_path W pid) ''success''
          (''Saved inline policy '' @ policy_name @ ''.'')))))))"

definition web_delete_inline_policy :: "web_ext \<Rightarrow> int \<Rightarrow> inline_policy_form \<Rightarrow> (iam_db, web_reply) web_op" where
  "web_delete_inline_policy W pid form =
     sbind (sread (load_principal pid)) (\<lambda>_.
     let policy_name = trim (ipf_policy_name form)
     in or_redirect (iam_validate_required ''Policy name'' policy_name) (inline_policy_error_redirect W pid form) (\<lambda>_.
        sbind (from_store (sqlite_delete_inline_policy pid policy_name)) (\<lambda>_.
        slift (Inr (feedback_redirect W (principal_policy_path W pid) ''success''
          (''Deleted inline policy '' @ policy_name @ ''.''))))))"

definition web_create_managed_policy ::
    "web_ext \<Rightarrow> sqlite_texts \<Rightarrow> time \<Rightarrow> string \<Rightarrow> managed_policy_form \<Rightarrow> (iam_db, web_reply) web_op" where
  "web_create_managed_policy W UE now uuid form =
     (let account_id = trim (mpf_account_id form); policy_name = trim (mpf_policy_name form);
          policy_path = web_normalize_path (mpf_path form); refuse = managed_policy_error_redirect W form
      in or_redirect (ebind (iam_validate_required ''Account ID'' account_id) (\<lambda>_.
           ebind (iam_validate_required ''Policy name'' policy_name) (\<lambda>_.
           iam_validate_required ''Policy document'' (mpf_policy_document form)))) refuse (\<lambda>_.
         or_redirect (normalize_policy_document W (mpf_policy_document form)) refuse (\<lambda>document.
         on_conflict (sqlite_insert_managed_policy UE now
              \<lparr>nmp_policy_id = new_managed_policy_id uuid, nmp_account_id = account_id, nmp_policy_name = policy_name,
               nmp_policy_path = Some policy_path, nmp_policy_document = document\<rparr>)
           refuse
           (\<lambda>p. feedback_redirect W (managed_policy_detail_path (mpo_id p)) ''success''
              (''Created managed policy '' @ policy_name @ ''.'')))))"

definition web_update_managed_policy ::
    "web_ext \<Rightarrow> time \<Rightarrow> int \<Rightarrow> string \<Rightarrow> (iam_db, web_reply) web_op" where
  "web_update_managed_policy W now policy_id policy_document =
     sbind (sread (load_managed_policy_by_id policy_id)) (\<lambda>_.
     let refuse = managed_policy_document_error_redirect W policy_id policy_document
     in or_redirect (iam_validate_required ''Policy document'' policy_document) refuse (\<lambda>_.
        or_redirect (normalize_policy_document W policy_document) refuse (\<lambda>document.
        sbind (from_store (sqlite_update_managed_policy_document now policy_id document)) (\<lambda>_.
        slift (Inr (feedback_redirect W (managed_policy_detail_path policy_id) ''success''
          ''Updated managed policy document.''))))))"

definition web_delete_managed_policy :: "web_ext \<Rightarrow> int \<Rightarrow> (iam_db, web_reply) web_op" where
  "web_delete_managed_policy W policy_id =
     sbind (sread (load_managed_policy_by_id policy_id)) (\<lambda>p.
     sbind (from_store (sqlite_delete_managed_policy (mpo_account_id p) (mpo_policy_name p)
              (coalesce (mpo_policy_path p) ''/''))) (\<lambda>_.
     slift (Inr (feedback_redirect W ''/iam'' ''success'' (''Deleted managed policy '' @ mpo_policy_name p @ ''.'')))))"

definition different_accounts :: string where
  "different_accounts = ''Principal and managed policy must be in the same account''"

definition web_attach_policy :: "web_ext \<Rightarrow> sqlite_texts \<Rightarrow> int \<Rightarrow> int \<Rightarrow> (iam_db, web_reply) web_op" where
  "web_attach_policy W UE policy_id pid =
     sbind (sread (load_managed_policy_by_id policy_id)) (\<lambda>pol.
     sbind (sread (load_principal pid)) (\<lambda>p.
     if p_account_id p \<noteq> mpo_account_id pol
     then slift (Inr (managed_policy_attach_error_redirect W policy_id different_accounts))
     else on_conflict (sqlite_attach_policy_to_principal UE policy_id pid) (managed_policy_attach_error_redirect W policy_id)
            (\<lambda>_. feedback_redirect W (managed_policy_detail_path policy_id) ''success'' ''Attached managed policy.'')))"

definition web_detach_policy :: "web_ext \<Rightarrow> int \<Rightarrow> int \<Rightarrow> (iam_db, web_reply) web_op" where
  "web_detach_policy W policy_id pid =
     sbind (sread (load_managed_policy_by_id policy_id)) (\<lambda>_.
     sbind (sread (load_principal pid)) (\<lambda>_.
     sbind (from_store (sqlite_detach_policy_from_principal policy_id pid)) (\<lambda>_.
     slift (Inr (feedback_redirect W (managed_policy_detail_path policy_id) ''success'' ''Detached managed policy.'')))))"

definition web_attach_policy_to_principal :: "web_ext \<Rightarrow> sqlite_texts \<Rightarrow> int \<Rightarrow> int \<Rightarrow> (iam_db, web_reply) web_op" where
  "web_attach_policy_to_principal W UE pid policy_id =
     sbind (sread (load_principal pid)) (\<lambda>p.
     sbind (sread (load_managed_policy_by_id policy_id)) (\<lambda>pol.
     if p_account_id p \<noteq> mpo_account_id pol
     then slift (Inr (principal_policy_attach_error_redirect W pid different_accounts))
     else on_conflict (sqlite_attach_policy_to_principal UE policy_id pid) (principal_policy_attach_error_redirect W pid)
            (\<lambda>_. feedback_redirect W (principal_detail_path pid) ''success'' ''Attached managed policy.'')))"

definition web_detach_policy_from_principal :: "web_ext \<Rightarrow> int \<Rightarrow> int \<Rightarrow> (iam_db, web_reply) web_op" where
  "web_detach_policy_from_principal W pid policy_id =
     sbind (sread (load_principal pid)) (\<lambda>_.
     sbind (sread (load_managed_policy_by_id policy_id)) (\<lambda>_.
     sbind (from_store (sqlite_detach_policy_from_principal policy_id pid)) (\<lambda>_.
     slift (Inr (feedback_redirect W (principal_detail_path pid) ''success'' ''Detached managed policy.'')))))"

end
