(* ===== verification/Web_Iam_Pages.thy ===== *)
theory Web_Iam_Pages
  imports Web_Iam
begin

text \<open>
  The pages of \<^verbatim>\<open>hiraeth_web/src/iam/mod.rs\<close>: what they read of the tables and the values they give to
  their templates. A page is a function of the tables; it ends at its first error.
\<close>

section \<open>Views of rows\<close>

definition managed_policy_summary_view :: "web_ext \<Rightarrow> (int \<rightharpoonup> nat) \<Rightarrow> managed_policy \<Rightarrow> iam_managed_policy_summary" where
  "managed_policy_summary_view W counts pol =
     \<lparr>ims_id = mpo_id pol, ims_account_id = mpo_account_id pol, ims_policy_name = mpo_policy_name pol,
      ims_policy_path = coalesce (mpo_policy_path pol) ''/'', ims_arn = web_policy_arn pol,
      ims_created_at = wx_naive_text W (mpo_created_at pol), ims_updated_at = wx_naive_text W (mpo_updated_at pol),
      ims_attachment_count = coalesce (counts (mpo_id pol)) 0,
      ims_pretty_document = prettify_json W (mpo_policy_document pol)\<rparr>"

definition managed_policy_detail_view :: "web_ext \<Rightarrow> managed_policy \<Rightarrow> nat \<Rightarrow> iam_managed_policy_detail" where
  "managed_policy_detail_view W pol attachment_count =
     iam_managed_policy_summary.extend (managed_policy_summary_view W [mpo_id pol \<mapsto> attachment_count] pol)
       \<lparr>imd_policy_id = mpo_policy_id pol\<rparr>"

definition principal_view :: "principal_row \<Rightarrow> iam_policy_principal_view" where
  "principal_view p = \<lparr>ipv_id = p_id p, ipv_account_id = p_account_id p, ipv_kind = p_kind p, ipv_name = p_name p\<rparr>"

definition principal_summary :: "web_ext \<Rightarrow> principal_row \<Rightarrow> nat \<Rightarrow> nat \<Rightarrow> nat \<Rightarrow> iam_principal_summary" where
  "principal_summary W p keys inline managed =
     \<lparr>ips_id = p_id p, ips_account_id = p_account_id p, ips_kind = p_kind p, ips_name = p_name p,
      ips_created_at = wx_naive_text W (p_created_at p), ips_access_key_count = keys,
      ips_inline_policy_count = inline, ips_managed_policy_count = managed\<rparr>"

definition access_key_view :: "web_ext \<Rightarrow> access_key \<Rightarrow> iam_access_key_view" where
  "access_key_view W k =
     \<lparr>ikv_key_id = ak_key_id k, ikv_secret_key = ak_secret_key k, ikv_masked_secret_key = mask_secret_key (ak_secret_key k),
      ikv_created_at = wx_naive_text W (ak_created_at k)\<rparr>"

definition inline_policy_view :: "web_ext \<Rightarrow> principal_inline_policy \<Rightarrow> iam_inline_policy_view" where
  "inline_policy_view W p =
     \<lparr>iiv_policy_name = pip_policy_name p, iiv_created_at = wx_naive_text W (pip_created_at p),
      iiv_updated_at = wx_naive_text W (pip_updated_at p), iiv_pretty_document = prettify_json W (pip_policy_document p)\<rparr>"

section \<open>Reading for pages\<close>

definition load_principal_summaries :: "web_ext \<Rightarrow> iam_db \<Rightarrow> web_error + iam_principal_summary list" where
  "load_principal_summaries W db = map_err web_of_store_error
     (ebind (sqlite_list_principals db) (collect_results (\<lambda>p.
        ebind (sqlite_list_access_keys_for_principal (p_id p) db) (\<lambda>keys.
        ebind (sqlite_get_inline_policies_for_principal (p_id p) db) (\<lambda>inline.
        ebind (sqlite_get_managed_policies_attached_to_principal (p_id p) db) (\<lambda>managed.
        Inr (principal_summary W p (length keys) (length inline) (length managed))))))))"

definition count_policy :: "managed_policy \<Rightarrow> (int \<rightharpoonup> nat) \<Rightarrow> (int \<rightharpoonup> nat)" where
  "count_policy pol counts = counts(mpo_id pol \<mapsto> coalesce (counts (mpo_id pol)) 0 + 1)"

definition managed_policy_attachment_counts :: "iam_db \<Rightarrow> web_error + (int \<rightharpoonup> nat)" where
  "managed_policy_attachment_counts db = map_err web_of_store_error
     (ebind (sqlite_list_principals db) (\<lambda>ps.
      ebind (collect_results (\<lambda>p. sqlite_get_managed_policies_attached_to_principal (p_id p) db) ps) (\<lambda>policies.
      Inr (fold (fold count_policy) policies Map.empty))))"

definition load_managed_policy_summaries :: "web_ext \<Rightarrow> iam_db \<Rightarrow> web_error + iam_managed_policy_summary list" where
  "load_managed_policy_summaries W db =
     ebind (managed_policy_attachment_counts db) (\<lambda>counts.
     ebind (map_err web_of_store_error (sqlite_list_managed_policies db)) (\<lambda>policies.
     Inr (sort_key (\<lambda>p. (ims_account_id p, ims_policy_path p, ims_policy_name p))
            (map (managed_policy_summary_view W counts) policies))))"

definition iam_dashboard_stats_of :: "iam_principal_summary list \<Rightarrow> iam_managed_policy_summary list \<Rightarrow> iam_dashboard_stats" where
  "iam_dashboard_stats_of ps policies =
     \<lparr>ids_principal_count = length ps, ids_access_key_count = sum_list (map ips_access_key_count ps),
      ids_inline_policy_count = sum_list (map ips_inline_policy_count ps), ids_managed_policy_count = length policies,
      ids_account_count = length (remdups (map ips_account_id ps @ map ims_account_id policies))\<rparr>"

definition load_attached_principals_for_policy :: "principal_row list \<Rightarrow> int \<Rightarrow> iam_db \<Rightarrow> web_error + principal_row list" where
  "load_attached_principals_for_policy ps policy_id db =
     map_err web_of_store_error
       (ebind (collect_results (\<lambda>p. sqlite_get_managed_policies_attached_to_principal (p_id p) db) ps) (\<lambda>policies.
        Inr (map fst (filter (\<lambda>(_, pols). list_ex (\<lambda>pol. mpo_id pol = policy_id) pols) (zip ps policies)))))"

section \<open>Fields of forms shown again\<close>

definition create_principal_fields_of :: "iam_dashboard_params \<Rightarrow> create_principal_fields" where
  "create_principal_fields_of params =
     (let problem = coalesce (idp_create_error params) []
      in \<lparr>cpd_error = problem, cpd_has_error = problem \<noteq> [],
          cpd_account_id = non_empty_or (idp_create_account_id params) ''000000000000'',
          cpd_kind = (case idp_create_kind params of
             Some kind \<Rightarrow> if kind \<in> {''user'', ''role''} then kind else ''user'' | None \<Rightarrow> ''user''),
          cpd_name = coalesce (idp_create_name params) [], cpd_path = non_empty_or (idp_create_path params) ''/''\<rparr>)"

definition inline_policy_fields_of :: "web_ext \<Rightarrow> iam_principal_detail_params \<Rightarrow> inline_policy_fields" where
  "inline_policy_fields_of W params =
     (let problem = coalesce (ipp_policy_error params) []
      in \<lparr>ipd_error = problem, ipd_has_error = problem \<noteq> [], ipd_policy_name = coalesce (ipp_policy_name params) [],
          ipd_policy_document = coalesce (ipp_policy_document params) (wx_default_policy W),
          ipd_open_panel = (problem \<noteq> [] \<or> ipp_policy_open params = Some ''1'')\<rparr>)"

definition managed_policy_fields_of :: "web_ext \<Rightarrow> iam_dashboard_params \<Rightarrow> managed_policy_fields" where
  "managed_policy_fields_of W params =
     (let problem = coalesce (idp_policy_error params) []
      in \<lparr>mpd_error = problem, mpd_has_error = problem \<noteq> [],
          mpd_account_id = non_empty_or (idp_policy_account_id params) ''000000000000'',
          mpd_policy_name = coalesce (idp_policy_name params) [], mpd_path = non_empty_or (idp_policy_path params) ''/'',
          mpd_policy_document = coalesce (idp_policy_document params) (wx_default_policy W), mpd_open_panel = problem \<noteq> []\<rparr>)"

section \<open>Components of the pages\<close>

definition iam_dashboard_page_header :: component where
  "iam_dashboard_page_header = PageHeader
     \<lparr>ph_eyebrow = ''Service Dashboard'', ph_title = ''IAM'',
      ph_description =
        ''Review principals, access keys, and inline identity policies for the current environment.'',
      ph_actions = [header_link ''Add principal'' ''#add-principal'' ''btn btn-primary'',
                    header_link ''Add policy'' ''#add-managed-policy'' ''btn btn-outline'']\<rparr>"

definition iam_dashboard_stats_html :: "iam_dashboard_stats \<Rightarrow> component" where
  "iam_dashboard_stats_html stats = StatBlockGrid
     \<lparr>sg_grid_class = ''grid gap-3 md:grid-cols-4'',
      sg_blocks =
        [mk_stat ''Principals'' (show_nat (ids_principal_count stats)) ''text-primary'' ''configured identities'',
         mk_stat ''Access keys'' (show_nat (ids_access_key_count stats)) ''text-secondary'' ''credentials assigned to principals'',
         mk_stat ''Policies'' (show_nat (ids_inline_policy_count stats + ids_managed_policy_count stats)) ''text-accent''
           ''inline and managed documents'',
         mk_stat ''Accounts'' (show_nat (ids_account_count stats)) '''' ''accounts represented'']\<rparr>"

definition principal_summary_cards_html :: "iam_principal_summary \<Rightarrow> component" where
  "principal_summary_cards_html p = SummaryCardGrid
     \<lparr>scg_grid_class = ''mb-6 grid gap-3 md:grid-cols-4'',
      scg_cards =
        [mk_card ''Access keys'' (show_nat (ips_access_key_count p)) ''text-secondary'' ''credentials assigned to this principal'',
         mk_card ''Inline policies'' (show_nat (ips_inline_policy_count p)) ''text-accent'' ''policy documents'',
         mk_card ''Managed policies'' (show_nat (ips_managed_policy_count p)) ''text-primary'' ''attached reusable policies'',
         mk_card ''Account scope'' (ips_account_id p) ''text-primary text-xl font-mono'' (ips_kind p @ '' principal'')]\<rparr>"

definition managed_policy_action_card_html :: "int \<Rightarrow> component" where
  "managed_policy_action_card_html policy_id = ActionCard
     \<lparr>ac_title = ''Policy actions'', ac_grid_class = ''grid-cols-2'',
      ac_actions =
        [card_link ''Back'' ''/iam'' ''btn btn-ghost w-full'',
         card_link ''Reload'' (managed_policy_detail_path policy_id) ''btn btn-outline w-full'',
         card_post ''Delete'' (''/iam/policies/'' @ show_int policy_id @ ''/delete'') ''btn btn-error col-span-2 w-full''
           (Some (confirm_submit ''Delete this managed policy?'' ''Deleting...''))]\<rparr>"

definition principal_action_card_html :: "int \<Rightarrow> component" where
  "principal_action_card_html pid = ActionCard
     \<lparr>ac_title = ''Principal actions'', ac_grid_class = ''grid-cols-2'',
      ac_actions =
        [card_link ''Back'' ''/iam'' ''btn btn-ghost'',
         card_link ''Reload'' (''/iam/principals/'' @ show_int pid) ''btn btn-outline'']\<rparr>"

definition principal_metadata_list_html :: "iam_principal_summary \<Rightarrow> component" where
  "principal_metadata_list_html p = MetadataList
     \<lparr>ml_entries =
        [mk_entry ''Name'' (ips_name p) ''font-mono'', mk_entry ''Account ID'' (ips_account_id p) ''font-mono'',
         mk_entry ''Kind'' (ips_kind p) ''font-mono'', mk_entry ''Database ID'' (show_int (ips_id p)) ''font-mono'',
         mk_entry ''Created'' (ips_created_at p) ''font-mono'']\<rparr>"

definition principal_empty_state_html :: component where
  "principal_empty_state_html = EmptyState
     \<lparr>es_title = ''No principals found'',
      es_message = ''Once IAM identities are seeded or created, they will show up here.''\<rparr>"

definition managed_policy_metadata_list_html :: "iam_managed_policy_detail \<Rightarrow> component" where
  "managed_policy_metadata_list_html pol = MetadataList
     \<lparr>ml_entries =
        [mk_entry ''Name'' (ims_policy_name pol) ''font-mono'', mk_entry ''Path'' (ims_policy_path pol) ''font-mono'',
         mk_entry ''Policy ID'' (imd_policy_id pol) ''font-mono'', mk_entry ''ARN'' (ims_arn pol) ''font-mono break-all'',
         mk_entry ''Created'' (ims_created_at pol) ''font-mono'', mk_entry ''Updated'' (ims_updated_at pol) ''font-mono'']\<rparr>"

section \<open>Pages\<close>

definition iam_dashboard ::
    "web_ext \<Rightarrow> (iam_dashboard_template \<Rightarrow> string + string) \<Rightarrow> iam_dashboard_params \<Rightarrow> iam_db \<Rightarrow> web_error + web_reply" where
  "iam_dashboard W render params db =
     ebind (load_principal_summaries W db) (\<lambda>ps.
     ebind (load_managed_policy_summaries W db) (\<lambda>policies.
     ebind (render_component W iam_dashboard_page_header) (\<lambda>page_header_html.
     ebind (render_component W (iam_dashboard_stats_html (iam_dashboard_stats_of ps policies))) (\<lambda>stats_html.
     ebind (render_component W principal_empty_state_html) (\<lambda>empty_state_html.
     render_page render
       \<lparr>idt_page_header_html = page_header_html, idt_stats_html = stats_html, idt_empty_state_html = empty_state_html,
        idt_feedback = feedback_from_params (idp_feedback_kind params) (idp_feedback params),
        idt_create = create_principal_fields_of params, idt_principal_count = length ps, idt_principals = ps,
        idt_has_principals = ps \<noteq> [], idt_managed_policy_count = length policies, idt_managed_policies = policies,
        idt_has_managed_policies = policies \<noteq> [], idt_policy = managed_policy_fields_of W params\<rparr>)))))"

definition policy_attach_options :: "principal_row \<Rightarrow> managed_policy list \<Rightarrow> managed_policy list \<Rightarrow> iam_policy_attach_option list" where
  "policy_attach_options p attached policies =
     sort_key iao_label (map (\<lambda>pol. \<lparr>iao_id = mpo_id pol, iao_label = managed_policy_label pol\<rparr>)
       (filter (\<lambda>pol. mpo_account_id pol = p_account_id p \<and> mpo_id pol \<notin> set (map mpo_id attached)) policies))"

definition iam_principal_detail ::
    "web_ext \<Rightarrow> (iam_principal_detail_template \<Rightarrow> string + string) \<Rightarrow> int \<Rightarrow> iam_principal_detail_params \<Rightarrow> iam_db \<Rightarrow>
     web_error + web_reply" where
  "iam_principal_detail W render pid params db =
     ebind (load_principal pid db) (\<lambda>p.
     ebind (map_err web_of_store_error (sqlite_list_access_keys_for_principal pid db)) (\<lambda>keys.
     ebind (map_err web_of_store_error (sqlite_get_inline_policies_for_principal pid db)) (\<lambda>inline.
     ebind (map_err web_of_store_error (sqlite_get_managed_policies_attached_to_principal pid db)) (\<lambda>attached.
     ebind (managed_policy_attachment_counts db) (\<lambda>counts.
     ebind (map_err web_of_store_error (sqlite_list_managed_policies db)) (\<lambda>policies.
     let key_views = map (access_key_view W) keys;
         inline_views = sort_key iiv_policy_name (map (inline_policy_view W) inline);
         attached_views = sort_key ims_policy_name (map (managed_policy_summary_view W counts) attached);
         options = policy_attach_options p attached policies;
         view = principal_summary W p (length key_views) (length inline_views) (length attached_views);
         access_key_error = coalesce (ipp_access_key_error params) [];
         attach_policy_error = coalesce (ipp_attach_policy_error params) []
     in ebind (render_component W (principal_action_card_html pid)) (\<lambda>action_card_html.
        ebind (render_component W (principal_summary_cards_html view)) (\<lambda>summary_cards_html.
        ebind (render_component W (principal_metadata_list_html view)) (\<lambda>metadata_list_html.
        render_page render
          \<lparr>ipt_action_card_html = action_card_html, ipt_summary_cards_html = summary_cards_html,
           ipt_metadata_list_html = metadata_list_html,
           ipt_feedback = feedback_from_params (ipp_feedback_kind params) (ipp_feedback params),
           ipt_access_key_error = access_key_error, ipt_has_access_key_error = access_key_error \<noteq> [],
           ipt_policy = inline_policy_fields_of W params, ipt_attach_policy_error = attach_policy_error,
           ipt_has_attach_policy_error = attach_policy_error \<noteq> [], ipt_principal = view, ipt_access_keys = key_views,
           ipt_inline_policies = inline_views, ipt_attached_policies = attached_views, ipt_policy_attach_options = options,
           ipt_has_access_keys = key_views \<noteq> [], ipt_has_inline_policies = inline_views \<noteq> [],
           ipt_has_attached_policies = attached_views \<noteq> [], ipt_has_policy_attach_options = options \<noteq> []\<rparr>)))))))))"

definition iam_managed_policy_detail_page ::
    "web_ext \<Rightarrow> (iam_managed_policy_detail_template \<Rightarrow> string + string) \<Rightarrow> int \<Rightarrow> iam_managed_policy_detail_params \<Rightarrow>
     iam_db \<Rightarrow> web_error + web_reply" where
  "iam_managed_policy_detail_page W render policy_id params db =
     ebind (load_managed_policy_by_id policy_id db) (\<lambda>pol.
     ebind (map_err web_of_store_error (sqlite_list_principals db)) (\<lambda>ps.
     ebind (load_attached_principals_for_policy ps policy_id db) (\<lambda>attached_rows.
     let attached = map principal_view attached_rows;
         options = map principal_view
           (filter (\<lambda>p. p_account_id p = mpo_account_id pol \<and> p_id p \<notin> set (map ipv_id attached)) ps);
         view = managed_policy_detail_view W pol (length attached);
         document_error = coalesce (imp_policy_error params) [];
         policy_error = (if document_error = [] then coalesce (imp_attach_error params) [] else document_error)
     in ebind (render_component W (managed_policy_action_card_html policy_id)) (\<lambda>action_card_html.
        ebind (render_component W (managed_policy_metadata_list_html view)) (\<lambda>metadata_list_html.
        render_page render
          \<lparr>imt_action_card_html = action_card_html, imt_metadata_list_html = metadata_list_html,
           imt_feedback = feedback_from_params (imp_feedback_kind params) (imp_feedback params),
           imt_policy_error = policy_error, imt_has_policy_error = policy_error \<noteq> [],
           imt_policy_document = coalesce (imp_policy_document params) (ims_pretty_document view),
           imt_policy_panel_open = (policy_error \<noteq> [] \<or> imp_policy_open params = Some ''1''),
           imt_policy = view, imt_attached_principals = attached, imt_attach_options = options,
           imt_has_attached_principals = attached \<noteq> [], imt_has_attach_options = options \<noteq> []\<rparr>)))))"

end
