(* ===== verification/Web_Sqs.thy ===== *)
theory Web_Sqs
  imports Web_Support Sqs_Store_Laws
begin

text \<open>
  The SQS pages of the web interface, \<^verbatim>\<open>hiraeth_web/src/sqs/mod.rs\<close>: the checks of its forms and the
  handlers that write. They work on the tables of \<^verbatim>\<open>SqliteSqsStore\<close>.
\<close>

section \<open>Parameters and forms\<close>

record queue_list_params =
  qlp_region :: string
  qlp_account_id :: string
  qlp_prefix :: "string option"
  qlp_feedback :: "string option"
  qlp_feedback_kind :: "string option"
  qlp_create_error :: "string option"
  qlp_create_queue_name :: "string option"
  qlp_create_queue_type :: "string option"
  qlp_create_region :: "string option"
  qlp_create_account_id :: "string option"

record queue_detail_params =
  qdp_message_limit :: int
  qdp_feedback :: "string option"
  qdp_feedback_kind :: "string option"
  qdp_send_error :: "string option"
  qdp_tag_error :: "string option"
  qdp_tag_key :: "string option"
  qdp_tag_value :: "string option"
  qdp_tags_open :: "string option"

record create_queue_form =
  cqf_queue_name :: string
  cqf_region :: string
  cqf_account_id :: string
  cqf_queue_type :: string
  cqf_return_to :: "string option"

record send_message_form =
  smf_message_body :: string
  smf_message_limit :: string
  smf_delay_seconds :: string
  smf_message_attributes_json :: string
  smf_aws_trace_header :: string
  smf_message_group_id :: string
  smf_message_deduplication_id :: string

record tag_form =
  tf_tag_key :: string
  tf_tag_value :: string
  tf_message_limit :: string

section \<open>Checks\<close>

definition web_validate_queue_name :: "string \<Rightarrow> string \<Rightarrow> web_error + unit" where
  "web_validate_queue_name queue_name queue_type =
     (if queue_type \<noteq> ''standard'' \<and> queue_type \<noteq> ''fifo''
      then Inl (bad_request ''Queue type must be either standard or fifo'')
      else let fifo_queue = (queue_type = ''fifo'')
      in if length queue_name > 80 then Inl (bad_request ''Queue name must be at most 80 characters'')
      else let stem = coalesce (strip_suffix ''.fifo'' queue_name) queue_name
      in if \<not> list_all (\<lambda>c. is_ascii_alphanumeric c \<or> c = byte (CHR ''-'') \<or> c = byte (CHR ''_'')) (rust_chars stem)
      then Inl (bad_request ''Queue name may only contain alphanumeric characters, hyphens, and underscores'')
      else if fifo_queue \<and> \<not> ends_with ''.fifo'' queue_name
      then Inl (bad_request ''FIFO queue names must end with .fifo'')
      else if \<not> fifo_queue \<and> ends_with ''.fifo'' queue_name
      then Inl (bad_request ''Queue names ending with .fifo must use the FIFO queue type'')
      else Inr ())"

definition web_max_tags_per_queue :: nat where "web_max_tags_per_queue = 50"
definition web_max_tag_key_length :: nat where "web_max_tag_key_length = 128"
definition web_max_tag_value_length :: nat where "web_max_tag_value_length = 256"

definition web_validate_tag_key :: "string \<Rightarrow> web_error + unit" where
  "web_validate_tag_key key =
     (let key_length = length (rust_chars key)
      in if key_length = 0 \<or> key_length > web_max_tag_key_length
         then Inl (bad_request (''Tag keys must be between 1 and '' @ show_nat web_max_tag_key_length @ '' characters''))
         else if starts_with ''aws:'' key
         then Inl (bad_request ''Tag keys cannot start with the reserved aws: prefix'')
         else Inr ())"

definition web_validate_tag_value :: "string \<Rightarrow> string \<Rightarrow> web_error + unit" where
  "web_validate_tag_value key v =
     guard (length (rust_chars v) > web_max_tag_value_length)
       (bad_request (''Tag value for '' @ quoted key @ '' must be at most '' @ show_nat web_max_tag_value_length @ '' characters''))"

definition parse_optional_i64 :: "string \<Rightarrow> string \<Rightarrow> int \<Rightarrow> int \<Rightarrow> web_error + int option" where
  "parse_optional_i64 raw field_name lo hi =
     (let t = trim raw
      in if t = [] then Inr None
         else case parse_i64 t of
           None \<Rightarrow> Inl (bad_request (field_name @ '' must be an integer between '' @ show_int lo @ '' and '' @ show_int hi))
         | Some v \<Rightarrow>
             if lo \<le> v \<and> v \<le> hi then Inr (Some v)
             else Inl (bad_request (field_name @ '' must be between '' @ show_int lo @ '' and '' @ show_int hi)))"

definition normalize_optional_json_object :: "web_ext \<Rightarrow> string \<Rightarrow> string \<Rightarrow> web_error + string option" where
  "normalize_optional_json_object W raw field_name =
     (let t = trim raw
      in if t = [] then Inr None
         else case wx_json_keys W t of
           Inl e \<Rightarrow> Inl (bad_request (field_name @ '' must be valid JSON: '' @ e))
         | Inr None \<Rightarrow> Inl (bad_request (field_name @ '' must be a JSON object''))
         | Inr (Some n) \<Rightarrow>
             if n = 0 then Inr None
             else (case wx_json_minify W t of
                 Inr (Inr text) \<Rightarrow> Inr (Some text)
               | Inr (Inl e) \<Rightarrow> Inl (web_internal_error (''failed to serialize JSON: '' @ e))
               | Inl e \<Rightarrow> Inl (bad_request (field_name @ '' must be valid JSON: '' @ e))))"

section \<open>Redirects\<close>

definition queue_detail_path :: "web_ext \<Rightarrow> int \<Rightarrow> string \<Rightarrow> string" where
  "queue_detail_path W qid message_limit =
     append_query_params W (''/sqs/queues/'' @ show_int qid) [(''message_limit'', message_limit)]"

definition queue_tags_path :: "web_ext \<Rightarrow> int \<Rightarrow> string \<Rightarrow> string" where
  "queue_tags_path W qid message_limit =
     append_query_params W (queue_detail_path W qid message_limit) [(''tags_open'', ''1'')]"

definition create_queue_error_redirect :: "web_ext \<Rightarrow> create_queue_form \<Rightarrow> string \<Rightarrow> web_reply" where
  "create_queue_error_redirect W form message =
     Redirect (append_query_params W (safe_return_to ''/sqs'' (cqf_return_to form) ''/sqs/queues'')
       [(''create_error'', message), (''create_queue_name'', trim (cqf_queue_name form)),
        (''create_queue_type'', trim (cqf_queue_type form)), (''create_region'', trim (cqf_region form)),
        (''create_account_id'', trim (cqf_account_id form))])"

definition send_message_error_redirect :: "web_ext \<Rightarrow> int \<Rightarrow> string \<Rightarrow> string \<Rightarrow> web_reply" where
  "send_message_error_redirect W qid message_limit message =
     Redirect (append_query_params W (queue_detail_path W qid message_limit) [(''send_error'', message)])"

definition tag_queue_error_redirect :: "web_ext \<Rightarrow> int \<Rightarrow> tag_form \<Rightarrow> string \<Rightarrow> web_reply" where
  "tag_queue_error_redirect W qid form message =
     Redirect (append_query_params W (queue_tags_path W qid (tf_message_limit form))
       [(''tag_error'', message), (''tag_key'', trim (tf_tag_key form)), (''tag_value'', tf_tag_value form)])"

definition queue_list_path :: "sqs_queue \<Rightarrow> string" where
  "queue_list_path q = ''/sqs/queues?region='' @ q_region q @ ''&account_id='' @ q_account_id q"

definition clamp_limit :: "int \<Rightarrow> int" where
  "clamp_limit n = max 1 (min 500 n)"

section \<open>Handlers\<close>

definition web_load_queue :: "int \<Rightarrow> sqs_db \<Rightarrow> web_error + sqs_queue" where
  "web_load_queue qid db =
     ebind (map_err web_of_store_error (sqlite_get_queue_by_id qid db))
       (ok_or (web_of_store_error (StoreNotFound ''queue not found'')))"

definition new_web_queue :: "create_queue_form \<Rightarrow> time \<Rightarrow> sqs_queue" where
  "new_web_queue form now =
     default_sqs_queue\<lparr>q_id := 0, q_name := trim (cqf_queue_name form), q_region := trim (cqf_region form),
       q_account_id := trim (cqf_account_id form), q_queue_type := trim (cqf_queue_type form),
       q_created_at := now, q_updated_at := now\<rparr>"

text \<open>\<open>now\<close> is the reading of the handler, \<open>db_now\<close> that of \<^verbatim>\<open>CURRENT_TIMESTAMP\<close>.\<close>

definition web_create_queue ::
    "web_ext \<Rightarrow> sqlite_texts \<Rightarrow> time \<Rightarrow> time \<Rightarrow> create_queue_form \<Rightarrow> (sqs_db, web_reply) web_op" where
  "web_create_queue W UE now db_now form =
     (let name = trim (cqf_queue_name form); region = trim (cqf_region form); account_id = trim (cqf_account_id form);
          refuse = create_queue_error_redirect W form
      in or_redirect
           (ebind (web_validate_required ''Queue name'' name) (\<lambda>_.
            ebind (web_validate_required ''Region'' region) (\<lambda>_.
            ebind (web_validate_required ''Account ID'' account_id) (\<lambda>_.
            web_validate_queue_name name (trim (cqf_queue_type form)))))) refuse (\<lambda>_.
         try_conflict (sqlite_create_queue UE db_now (new_web_queue form now))
           (\<lambda>m. refuse (store_error_text (StoreConflict m))) (\<lambda>_.
         sbind (read_store (sqlite_get_queue name region account_id)) (\<lambda>created.
         sbind (slift (ok_or (web_internal_error ''created queue could not be loaded'') created)) (\<lambda>q.
         slift (Inr (feedback_redirect W (''/sqs/queues/'' @ show_int (q_id q)) ''success''
           (''Created queue '' @ name @ ''.''))))))))"

definition web_purge_queue :: "web_ext \<Rightarrow> int \<Rightarrow> queue_detail_params \<Rightarrow> (sqs_db, web_reply) web_op" where
  "web_purge_queue W qid params =
     sbind (sread (web_load_queue qid)) (\<lambda>_.
     sbind (from_store (sqlite_purge_queue qid)) (\<lambda>_.
     slift (Inr (feedback_redirect W (queue_detail_path W qid (show_int (clamp_limit (qdp_message_limit params)))) ''success''
       ''Purged queued messages.''))))"

text \<open>\<^verbatim>\<open>maximum_message_size as usize\<close> wraps.\<close>

definition i64_as_usize :: "int \<Rightarrow> nat" where
  "i64_as_usize i = nat (i mod 2 ^ 64)"

definition new_web_message ::
    "string \<Rightarrow> time \<Rightarrow> sqs_queue \<Rightarrow> int \<Rightarrow> string option \<Rightarrow> send_message_form \<Rightarrow> sqs_message" where
  "new_web_message uuid now q delay_seconds attributes form =
     \<lparr>m_message_id = uuid, m_queue_id = q_id q, m_body = smf_message_body form, m_message_attributes = attributes,
      m_aws_trace_header = non_empty_trimmed (smf_aws_trace_header form), m_sent_at = now,
      m_visible_at = now + seconds delay_seconds,
      m_expires_at = now + seconds (q_message_retention_period_seconds q), m_receive_count = 0,
      m_receipt_handle = None, m_first_received_at = None,
      m_message_group_id = non_empty_trimmed (smf_message_group_id form),
      m_message_deduplication_id = non_empty_trimmed (smf_message_deduplication_id form)\<rparr>"

definition web_send_message ::
    "web_ext \<Rightarrow> sqlite_texts \<Rightarrow> string \<Rightarrow> time \<Rightarrow> int \<Rightarrow> send_message_form \<Rightarrow> (sqs_db, web_reply) web_op" where
  "web_send_message W UE uuid now qid form =
     sbind (sread (web_load_queue qid)) (\<lambda>q.
     let refuse = send_message_error_redirect W qid (smf_message_limit form)
     in if smf_message_body form = [] then slift (Inr (refuse ''Message body must not be empty''))
        else if length (smf_message_body form) > i64_as_usize (q_maximum_message_size q)
        then slift (Inr (refuse (''Message body exceeds the queue maximum size of '' @ show_int (q_maximum_message_size q) @ '' bytes'')))
        else or_redirect (parse_optional_i64 (smf_delay_seconds form) ''DelaySeconds'' 0 900) refuse (\<lambda>delay.
          or_redirect (normalize_optional_json_object W (smf_message_attributes_json form) ''Message attributes JSON'') refuse
            (\<lambda>attributes.
          sbind (from_store (sqlite_send_message UE
              (new_web_message uuid now q (coalesce delay (q_delay_seconds q)) attributes form))) (\<lambda>_.
          slift (Inr (feedback_redirect W (queue_detail_path W qid (smf_message_limit form)) ''success'' ''Sent message.''))))))"

definition web_tag_queue :: "web_ext \<Rightarrow> sqlite_texts \<Rightarrow> int \<Rightarrow> tag_form \<Rightarrow> (sqs_db, web_reply) web_op" where
  "web_tag_queue W UE qid form =
     sbind (sread (web_load_queue qid)) (\<lambda>_.
     let key = trim (tf_tag_key form); refuse = tag_queue_error_redirect W qid form
     in or_redirect (ebind (web_validate_tag_key key) (\<lambda>_. web_validate_tag_value key (tf_tag_value form))) refuse (\<lambda>_.
        sbind (read_store (sqlite_list_queue_tags qid)) (\<lambda>existing.
        if key \<notin> set (map fst existing) \<and> length existing \<ge> web_max_tags_per_queue
        then slift (Inr (refuse (''A queue can have at most '' @ show_nat web_max_tags_per_queue @ '' tags'')))
        else sbind (from_store (sqlite_tag_queue UE qid [(key, tf_tag_value form)])) (\<lambda>_.
          slift (Inr (feedback_redirect W (queue_tags_path W qid (tf_message_limit form)) ''success''
            (''Saved tag '' @ key @ ''.'')))))))"

definition web_untag_queue :: "web_ext \<Rightarrow> int \<Rightarrow> tag_form \<Rightarrow> (sqs_db, web_reply) web_op" where
  "web_untag_queue W qid form =
     sbind (sread (web_load_queue qid)) (\<lambda>_.
     let key = trim (tf_tag_key form); path = queue_tags_path W qid (tf_message_limit form)
     in or_redirect (web_validate_tag_key key) (feedback_redirect W path ''error'') (\<lambda>_.
        sbind (from_store (sqlite_untag_queue qid [key])) (\<lambda>_.
        slift (Inr (feedback_redirect W path ''success'' (''Removed tag '' @ key @ ''.''))))))"

definition web_delete_queue :: "web_ext \<Rightarrow> int \<Rightarrow> (sqs_db, web_reply) web_op" where
  "web_delete_queue W qid =
     sbind (sread (web_load_queue qid)) (\<lambda>q.
     sbind (from_store (sqlite_delete_queue qid)) (\<lambda>_.
     slift (Inr (feedback_redirect W (queue_list_path q) ''success'' (''Deleted queue '' @ q_name q @ ''.'')))))"

definition web_delete_message :: "web_ext \<Rightarrow> int \<Rightarrow> string \<Rightarrow> queue_detail_params \<Rightarrow> (sqs_db, web_reply) web_op" where
  "web_delete_message W qid message_id params =
     sbind (from_store (sqlite_delete_message_by_id qid message_id)) (\<lambda>_.
     slift (Inr (feedback_redirect W (queue_detail_path W qid (show_int (clamp_limit (qdp_message_limit params)))) ''success''
       ''Deleted message.'')))"

end
