(* ===== verification/Web_Sns.thy ===== *)
theory Web_Sns
  imports Web_Sqs Sns_Publish Sns_Store_Laws
begin

text \<open>
  The SNS pages of the web interface, \<^verbatim>\<open>hiraeth_web/src/sns/mod.rs\<close>: checks, and the handlers that write.
  Publishing writes to the SQS tables too, by a routine of its own that asks no policy.
\<close>

section \<open>Parameters and forms\<close>

record topic_list_params =
  tlp_region :: string
  tlp_account_id :: string
  tlp_prefix :: "string option"
  tlp_feedback :: "string option"
  tlp_feedback_kind :: "string option"
  tlp_create_error :: "string option"
  tlp_create_topic_name :: "string option"
  tlp_create_region :: "string option"
  tlp_create_account_id :: "string option"
  tlp_create_display_name :: "string option"

record topic_detail_params =
  tdp_feedback :: "string option"
  tdp_feedback_kind :: "string option"
  tdp_subscription_error :: "string option"
  tdp_subscription_protocol :: "string option"
  tdp_subscription_endpoint :: "string option"
  tdp_subscription_raw_message_delivery :: "string option"
  tdp_publish_error :: "string option"
  tdp_publish_message :: "string option"
  tdp_publish_subject :: "string option"
  tdp_tag_error :: "string option"
  tdp_tag_key :: "string option"
  tdp_tag_value :: "string option"
  tdp_tags_open :: "string option"

record create_topic_form =
  ctf_name :: string
  ctf_region :: string
  ctf_account_id :: string
  ctf_display_name :: string
  ctf_return_to :: "string option"

record create_subscription_form =
  csf_protocol :: string
  csf_endpoint :: string
  csf_raw_message_delivery :: string

record publish_form =
  pbf_message :: string
  pbf_subject :: string

record topic_tag_form =
  ttf_tag_key :: string
  ttf_tag_value :: string

section \<open>Checks\<close>

definition web_validate_topic_name :: "string \<Rightarrow> web_error + unit" where
  "web_validate_topic_name topic_name =
     (if length topic_name > 256 then Inl (bad_request ''Topic name must be at most 256 characters'')
      else if \<not> list_all (\<lambda>c. is_ascii_alphanumeric c \<or> c \<in> byte ` {CHR ''-'', CHR ''_'', CHR ''.''}) (rust_chars topic_name)
      then Inl (bad_request ''Topic name may only contain alphanumeric characters, hyphens, underscores, and periods'')
      else if ends_with ''.fifo'' topic_name
      then Inl (bad_request ''FIFO topics are not currently available through the web UI'')
      else Inr ())"

definition web_max_tags_per_topic :: nat where "web_max_tags_per_topic = 50"

definition web_validate_topic_tag_key :: "string \<Rightarrow> web_error + unit" where
  "web_validate_topic_tag_key key =
     (if key = [] then Inl (bad_request ''Tag key is required'')
      else if length (rust_chars key) > web_max_tag_key_length
      then Inl (bad_request (''Tag key must be at most '' @ show_nat web_max_tag_key_length @ '' characters''))
      else if starts_with ''aws:'' key then Inl (bad_request ''Tag keys cannot use the reserved aws: prefix'')
      else if list_ex is_control (rust_chars key) then Inl (bad_request ''Tag key cannot contain control characters'')
      else Inr ())"

definition web_validate_topic_tag_value :: "string \<Rightarrow> web_error + unit" where
  "web_validate_topic_tag_value v =
     (if length (rust_chars v) > web_max_tag_value_length
      then Inl (bad_request (''Tag value must be at most '' @ show_nat web_max_tag_value_length @ '' characters''))
      else if list_ex is_control (rust_chars v) then Inl (bad_request ''Tag value cannot contain control characters'')
      else Inr ())"

text \<open>\<^verbatim>\<open>topic_arn\<close> is \<open>topic_arn_of\<close>; the parser of queue ARNs has a copy here.\<close>

definition web_parse_sqs_endpoint_arn :: "string \<Rightarrow> queue_ref option" where
  "web_parse_sqs_endpoint_arn endpoint =
     (case split_all (CHR '':'') endpoint of
        [arn, aws, sqs, region, account_id, name] \<Rightarrow>
          if arn = ''arn'' \<and> aws = ''aws'' \<and> sqs = ''sqs''
          then Some \<lparr>qi_name = name, qi_region = region, qi_account_id = account_id\<rparr> else None
      | _ \<Rightarrow> None)"

section \<open>Redirects\<close>

definition topic_detail_path :: "int \<Rightarrow> string" where
  "topic_detail_path tid = ''/sns/topics/'' @ show_int tid"

definition topic_tags_path :: "web_ext \<Rightarrow> int \<Rightarrow> string" where
  "topic_tags_path W tid = append_query_params W (topic_detail_path tid) [(''tags_open'', ''1'')]"

definition create_topic_error_redirect :: "web_ext \<Rightarrow> create_topic_form \<Rightarrow> string \<Rightarrow> web_reply" where
  "create_topic_error_redirect W form message =
     Redirect (append_query_params W (safe_return_to ''/sns'' (ctf_return_to form) ''/sns/topics'')
       [(''create_error'', message), (''create_topic_name'', trim (ctf_name form)),
        (''create_region'', trim (ctf_region form)), (''create_account_id'', trim (ctf_account_id form)),
        (''create_display_name'', trim (ctf_display_name form))])"

definition subscription_error_redirect :: "web_ext \<Rightarrow> int \<Rightarrow> string \<Rightarrow> string \<Rightarrow> bool \<Rightarrow> string \<Rightarrow> web_reply" where
  "subscription_error_redirect W tid protocol endpoint raw_message_delivery message =
     Redirect (append_query_params W (topic_detail_path tid)
       [(''subscription_error'', message), (''subscription_protocol'', protocol), (''subscription_endpoint'', endpoint),
        (''subscription_raw_message_delivery'', if raw_message_delivery then ''on'' else [])])"

definition publish_error_redirect :: "web_ext \<Rightarrow> int \<Rightarrow> string \<Rightarrow> string \<Rightarrow> string \<Rightarrow> web_reply" where
  "publish_error_redirect W tid message subject problem =
     Redirect (append_query_params W (topic_detail_path tid)
       [(''publish_error'', problem), (''publish_message'', message), (''publish_subject'', subject)])"

definition tag_topic_error_redirect :: "web_ext \<Rightarrow> int \<Rightarrow> topic_tag_form \<Rightarrow> string \<Rightarrow> web_reply" where
  "tag_topic_error_redirect W tid form message =
     Redirect (append_query_params W (topic_tags_path W tid)
       [(''tag_error'', message), (''tag_key'', trim (ttf_tag_key form)), (''tag_value'', ttf_tag_value form)])"

definition topic_list_path :: "sns_topic \<Rightarrow> string" where
  "topic_list_path t = ''/sns/topics?region='' @ tp_region t @ ''&account_id='' @ tp_account_id t"

section \<open>Handlers\<close>

definition web_load_topic :: "int \<Rightarrow> sns_db \<Rightarrow> web_error + sns_topic" where
  "web_load_topic tid db =
     ebind (map_err web_of_store_error (sqlite_get_topic_by_id tid db))
       (ok_or (web_of_store_error (StoreNotFound ''topic not found'')))"

definition new_web_topic :: "create_topic_form \<Rightarrow> time \<Rightarrow> sns_topic" where
  "new_web_topic form now =
     \<lparr>tp_id = 0, tp_name = trim (ctf_name form), tp_region = trim (ctf_region form), tp_account_id = trim (ctf_account_id form),
      tp_display_name = non_empty_trimmed (ctf_display_name form), tp_policy = ''{}'', tp_delivery_policy = None,
      tp_fifo_topic = None, tp_signature_version = None, tp_tracing_config = None, tp_kms_master_key_id = None,
      tp_data_protection_policy = None, tp_archive_policy = None, tp_beginning_archive_time = None,
      tp_content_based_deduplication = None, tp_created_at = now\<rparr>"

definition web_create_topic :: "web_ext \<Rightarrow> sqlite_texts \<Rightarrow> time \<Rightarrow> create_topic_form \<Rightarrow> (sns_db, web_reply) web_op" where
  "web_create_topic W UE now form =
     (let name = trim (ctf_name form); region = trim (ctf_region form); account_id = trim (ctf_account_id form);
          refuse = create_topic_error_redirect W form
      in or_redirect
           (ebind (web_validate_required ''Topic name'' name) (\<lambda>_.
            ebind (web_validate_required ''Region'' region) (\<lambda>_.
            ebind (web_validate_required ''Account ID'' account_id) (\<lambda>_. web_validate_topic_name name)))) refuse (\<lambda>_.
         try_conflict (sqlite_create_topic UE (new_web_topic form now))
           (\<lambda>m. refuse (store_error_text (StoreConflict m))) (\<lambda>_.
         sbind (read_store (sqlite_get_topic (sns_arn region account_id name))) (\<lambda>created.
         sbind (slift (ok_or (web_internal_error ''created topic could not be loaded'') created)) (\<lambda>t.
         slift (Inr (feedback_redirect W (topic_detail_path (tp_id t)) ''success'' (''Created topic '' @ name @ ''.''))))))))"

definition new_web_subscription :: "sns_topic \<Rightarrow> string \<Rightarrow> string \<Rightarrow> string \<Rightarrow> bool \<Rightarrow> time \<Rightarrow> sns_subscription" where
  "new_web_subscription topic uuid protocol endpoint raw_message_delivery now =
     \<lparr>sub_id = 0, sub_topic_arn = topic_arn_of topic, sub_protocol = protocol, sub_endpoint = endpoint,
      sub_owner_account_id = tp_account_id topic, sub_subscription_arn = topic_arn_of topic @ '':'' @ uuid,
      sub_delivery_policy = None, sub_filter_policy = None, sub_filter_policy_scope = None,
      sub_raw_message_delivery = (if raw_message_delivery then Some ''true'' else None), sub_redrive_policy = None,
      sub_subscription_role_arn = None, sub_replay_policy = None, sub_created_at = now\<rparr>"

definition web_create_subscription ::
    "web_ext \<Rightarrow> sqlite_texts \<Rightarrow> string \<Rightarrow> time \<Rightarrow> int \<Rightarrow> create_subscription_form \<Rightarrow> (sns_db, web_reply) web_op" where
  "web_create_subscription W UE uuid now tid form =
     sbind (sread (web_load_topic tid)) (\<lambda>topic.
     let protocol = trim (csf_protocol form); endpoint = trim (csf_endpoint form);
         raw_message_delivery = (trim (csf_raw_message_delivery form) = ''on'');
         refuse = subscription_error_redirect W tid protocol endpoint raw_message_delivery
     in or_redirect (ebind (web_validate_required ''Protocol'' protocol) (\<lambda>_. web_validate_required ''Endpoint'' endpoint)) refuse (\<lambda>_.
        if protocol \<noteq> ''sqs''
        then slift (Inr (refuse (''Only the '' @ quoted ''sqs'' @ '' protocol is currently supported'')))
        else sbind (from_store (sqlite_create_subscription UE
                 (new_web_subscription topic uuid protocol endpoint raw_message_delivery now))) (\<lambda>_.
          slift (Inr (feedback_redirect W (topic_detail_path tid) ''success'' (''Created '' @ protocol @ '' subscription.''))))))"

definition web_delete_subscription :: "web_ext \<Rightarrow> int \<Rightarrow> int \<Rightarrow> (sns_db, web_reply) web_op" where
  "web_delete_subscription W tid sid =
     sbind (sread (web_load_topic tid)) (\<lambda>_.
     sbind (from_store (sqlite_delete_subscription_by_id sid)) (\<lambda>_.
     slift (Inr (feedback_redirect W (topic_detail_path tid) ''success'' ''Deleted subscription.''))))"

definition web_update_raw_delivery :: "web_ext \<Rightarrow> int \<Rightarrow> int \<Rightarrow> string \<Rightarrow> (sns_db, web_reply) web_op" where
  "web_update_raw_delivery W tid sid form_enabled =
     sbind (sread (web_load_topic tid)) (\<lambda>topic.
     sbind (read_store (sqlite_get_subscription_by_id sid)) (\<lambda>found.
     sbind (slift (ok_or (web_of_store_error (StoreNotFound ''subscription not found'')) found)) (\<lambda>sub.
     if sub_topic_arn sub \<noteq> topic_arn_of topic then slift (Inl (bad_request ''Subscription does not belong to this topic''))
     else let enabled = (trim form_enabled = ''true'')
     in sbind (from_store (sqlite_set_subscription_attributes (sub_subscription_arn sub)
            (default_subscription_update\<lparr>su_raw_message_delivery := Some (show_bool enabled)\<rparr>))) (\<lambda>_.
        slift (Inr (feedback_redirect W (topic_detail_path tid) ''success''
          ((if enabled then ''Enabled'' else ''Disabled'') @ '' raw message delivery.'')))))))"

definition web_delete_topic :: "web_ext \<Rightarrow> int \<Rightarrow> (sns_db, web_reply) web_op" where
  "web_delete_topic W tid =
     sbind (sread (web_load_topic tid)) (\<lambda>topic.
     sbind (from_store (sqlite_delete_topic (topic_arn_of topic))) (\<lambda>_.
     slift (Inr (feedback_redirect W (topic_list_path topic) ''success'' (''Deleted topic '' @ tp_name topic @ ''.'')))))"

definition web_tag_topic :: "web_ext \<Rightarrow> int \<Rightarrow> topic_tag_form \<Rightarrow> (sns_db, web_reply) web_op" where
  "web_tag_topic W tid form =
     sbind (sread (web_load_topic tid)) (\<lambda>topic.
     let key = trim (ttf_tag_key form); refuse = tag_topic_error_redirect W tid form
     in or_redirect (ebind (web_validate_topic_tag_key key) (\<lambda>_. web_validate_topic_tag_value (ttf_tag_value form))) refuse (\<lambda>_.
        sbind (read_store (sqlite_list_topic_tags (topic_arn_of topic))) (\<lambda>existing.
        if key \<notin> set (map fst existing) \<and> length existing \<ge> web_max_tags_per_topic
        then slift (Inr (refuse (''A topic can have at most '' @ show_nat web_max_tags_per_topic @ '' tags'')))
        else sbind (from_store (sqlite_tag_topic (topic_arn_of topic) [(key, ttf_tag_value form)])) (\<lambda>_.
          slift (Inr (feedback_redirect W (topic_tags_path W tid) ''success'' (''Saved tag '' @ key @ ''.'')))))))"

definition web_untag_topic :: "web_ext \<Rightarrow> int \<Rightarrow> string \<Rightarrow> (sns_db, web_reply) web_op" where
  "web_untag_topic W tid form_tag_key =
     sbind (sread (web_load_topic tid)) (\<lambda>topic.
     let key = trim form_tag_key
     in or_redirect (web_validate_topic_tag_key key) (feedback_redirect W (topic_tags_path W tid) ''error'') (\<lambda>_.
        sbind (from_store (sqlite_untag_topic (topic_arn_of topic) [key])) (\<lambda>_.
        slift (Inr (feedback_redirect W (topic_tags_path W tid) ''success'' (''Removed tag '' @ key @ ''.''))))))"

section \<open>Publishing\<close>

definition web_delivery_body ::
    "web_ext \<Rightarrow> publish_env \<Rightarrow> nat \<Rightarrow> sns_topic \<Rightarrow> string \<Rightarrow> string \<Rightarrow> sns_subscription \<Rightarrow> string" where
  "web_delivery_body W env i topic message subject subscription =
     (if sub_raw_message_delivery subscription = Some ''true'' then message
      else wx_notification W (pe_message_id env) (topic_arn_of topic) subject message (wx_rfc3339 W (pe_timestamp env i)))"

definition web_delivery :: "string \<Rightarrow> time \<Rightarrow> sqs_queue \<Rightarrow> string \<Rightarrow> sqs_message" where
  "web_delivery uuid now q body =
     \<lparr>m_message_id = uuid, m_queue_id = q_id q, m_body = body, m_message_attributes = None, m_aws_trace_header = None,
      m_sent_at = now, m_visible_at = now + seconds (q_delay_seconds q),
      m_expires_at = now + seconds (q_message_retention_period_seconds q), m_receive_count = 0, m_receipt_handle = None,
      m_first_received_at = None, m_message_group_id = None, m_message_deduplication_id = None\<rparr>"

definition web_deliver_to_sqs ::
    "web_ext \<Rightarrow> sqlite_texts \<Rightarrow> publish_env \<Rightarrow> sns_topic \<Rightarrow> string \<Rightarrow> string \<Rightarrow> nat \<Rightarrow> sns_subscription \<Rightarrow>
     (sqs_db, unit) web_op" where
  "web_deliver_to_sqs W UE env topic message subject i subscription =
     sbind (slift (ok_or (bad_request (''Invalid SQS endpoint: '' @ sub_endpoint subscription))
              (web_parse_sqs_endpoint_arn (sub_endpoint subscription)))) (\<lambda>r.
     sbind (read_store (sqlite_get_queue (qi_name r) (qi_region r) (qi_account_id r))) (\<lambda>found.
     sbind (slift (ok_or (bad_request (''SQS queue not found: '' @ sub_endpoint subscription)) found)) (\<lambda>q.
     from_store (sqlite_send_message UE (web_delivery (pe_sqs_message_id env i) (pe_date env i) q
       (web_delivery_body W env i topic message subject subscription))))))"

definition publish_feedback :: "bool \<Rightarrow> nat \<Rightarrow> nat \<Rightarrow> string" where
  "publish_feedback no_subscriptions delivered failed =
     (if delivered > 0 \<and> failed = 0 then ''Published message to '' @ show_nat delivered @ '' subscription(s).''
      else if delivered > 0 \<and> failed > 0
      then ''Published to '' @ show_nat delivered @ '' subscription(s), '' @ show_nat failed @ '' failed.''
      else if no_subscriptions then ''Published message. No subscriptions to deliver to.''
      else ''Failed to deliver to all '' @ show_nat failed @ '' subscription(s).'')"

definition web_deliver_all ::
    "web_ext \<Rightarrow> sqlite_texts \<Rightarrow> publish_env \<Rightarrow> sns_topic \<Rightarrow> string \<Rightarrow> string \<Rightarrow> sns_subscription list \<Rightarrow>
     (sqs_db, nat \<times> nat) web_op" where
  "web_deliver_all W UE env topic message subject subs db =
     (case run_entries (web_deliver_to_sqs W UE env topic message subject) 0
             (filter (\<lambda>s. sub_protocol s = ''sqs'') subs) db of
        (results, db') \<Rightarrow> (Inr (length (filter (\<lambda>r. \<not> isl r) results), length (filter isl results)), db'))"

definition web_publish_message ::
    "web_ext \<Rightarrow> sqlite_texts \<Rightarrow> publish_env \<Rightarrow> int \<Rightarrow> publish_form \<Rightarrow> (sns_db \<times> sqs_db, web_reply) web_op" where
  "web_publish_message W UE env tid form =
     sbind (sread (\<lambda>s. web_load_topic tid (fst s))) (\<lambda>topic.
     let message = trim (pbf_message form); subject = trim (pbf_subject form)
     in or_redirect (web_validate_required ''Message'' message) (publish_error_redirect W tid message subject) (\<lambda>_.
        sbind (read_store (\<lambda>s. sqlite_list_subscriptions_by_topic (topic_arn_of topic) (fst s))) (\<lambda>subs.
        sbind (on_snd (web_deliver_all W UE env topic message subject subs)) (\<lambda>(delivered, failed).
        slift (Inr (feedback_redirect W (topic_detail_path tid)
          (if failed > 0 \<and> delivered = 0 then ''warning'' else ''success'')
          (publish_feedback (subs = []) delivered failed)))))))"

end
