(* ===== verification/Web_Sqs_Pages.thy ===== *)
theory Web_Sqs_Pages
  imports Web_Sqs
begin

text \<open>
  The SQS pages, \<^verbatim>\<open>hiraeth_web/src/sqs/mod.rs\<close>: what they read and the values of their templates. Counts
  depend on the clock, which is read again for each count and each message: \<open>clock k\<close> is reading \<open>k\<close> of a page.
\<close>

section \<open>Views\<close>

record queue_summary =
  qs_id :: int
  qs_name :: string
  qs_region :: string
  qs_account_id :: string
  qs_queue_type :: string
  qs_message_count :: int
  qs_visible_message_count :: int
  qs_delayed_message_count :: int

record queue_attribute =
  qa_name :: string
  qa_value :: string

record tag_view =
  tv_key :: string
  tv_value :: string

record message_attribute_summary =
  mas_name :: string
  mas_data_type :: string
  mas_value_kind :: string
  mas_value :: string

record parsed_message_attributes =
  pma_attributes :: "message_attribute_summary list"
  pma_raw :: string
  pma_has_unparsed :: bool

record message_summary =
  ms_message_id :: string
  ms_body_preview :: string
  ms_body :: string
  ms_status :: string
  ms_status_badge_class :: string
  ms_sent_at :: string
  ms_visible_at :: string
  ms_expires_at :: string
  ms_receive_count :: int
  ms_receipt_handle :: string
  ms_has_receipt_handle :: bool
  ms_first_received_at :: string
  ms_attributes :: parsed_message_attributes
  ms_has_message_attributes :: bool
  ms_aws_trace_header :: string
  ms_message_group_id :: string
  ms_message_deduplication_id :: string

record create_queue_fields =
  cqd_error :: string
  cqd_has_error :: bool
  cqd_queue_name :: string
  cqd_queue_type :: string
  cqd_region :: string
  cqd_account_id :: string

record tag_form_fields =
  tff_error :: string
  tff_has_error :: bool
  tff_key :: string
  tff_value :: string
  tff_open_panel :: bool

section \<open>Texts of a row\<close>

definition queue_attributes_of :: "sqs_queue \<Rightarrow> queue_attribute list" where
  "queue_attributes_of q =
     map (\<lambda>(name, v). \<lparr>qa_name = name, qa_value = v\<rparr>)
       [(''VisibilityTimeout'', show_int (q_visibility_timeout_seconds q)),
        (''DelaySeconds'', show_int (q_delay_seconds q)),
        (''MaximumMessageSize'', show_int (q_maximum_message_size q)),
        (''MessageRetentionPeriod'', show_int (q_message_retention_period_seconds q)),
        (''ReceiveMessageWaitTimeSeconds'', show_int (q_receive_message_wait_time_seconds q)),
        (''ContentBasedDeduplication'', show_bool (q_content_based_deduplication q)),
        (''KmsMasterKeyId'', coalesce (q_kms_master_key_id q) []),
        (''KmsDataKeyReusePeriodSeconds'', show_int (q_kms_data_key_reuse_period_seconds q)),
        (''DeduplicationScope'', q_deduplication_scope q),
        (''FifoThroughputLimit'', q_fifo_throughput_limit q),
        (''SqsManagedSseEnabled'', show_bool (q_sqs_managed_sse_enabled q)),
        (''Policy'', q_policy q),
        (''RedrivePolicy'', q_redrive_policy q),
        (''RedriveAllowPolicy'', q_redrive_allow_policy q)]"

definition tag_views :: "(string \<times> string) list \<Rightarrow> tag_view list" where
  "tag_views tags = map (\<lambda>(key, v). \<lparr>tv_key = key, tv_value = v\<rparr>) (btreemap tags)"

definition web_queue_arn :: "sqs_queue \<Rightarrow> string" where
  "web_queue_arn q = ''arn:aws:sqs:'' @ q_region q @ '':'' @ q_account_id q @ '':'' @ q_name q"

definition web_queue_url :: "string \<Rightarrow> sqs_queue \<Rightarrow> string" where
  "web_queue_url endpoint_url q = trim_end_char (CHR ''/'') endpoint_url @ ''/'' @ q_account_id q @ ''/'' @ q_name q"

definition preview :: "string \<Rightarrow> nat \<Rightarrow> string" where
  "preview v max_chars =
     concat (take max_chars (str_chars v)) @ (if length (str_chars v) > max_chars then ''...'' else [])"

definition attribute_summary :: "string \<times> stored_message_attribute \<Rightarrow> message_attribute_summary" where
  "attribute_summary kv =
     (let attribute = snd kv; is_binary = starts_with ''Binary'' (sma_data_type attribute)
      in \<lparr>mas_name = fst kv, mas_data_type = sma_data_type attribute,
          mas_value_kind = (if is_binary then ''BinaryValue'' else ''StringValue''),
          mas_value = coalesce (if is_binary then sma_binary_value attribute else sma_string_value attribute) []\<rparr>)"

definition web_parse_message_attributes :: "web_ext \<Rightarrow> string option \<Rightarrow> parsed_message_attributes" where
  "web_parse_message_attributes W stored =
     (let raw = coalesce stored []
      in if trim raw = [] \<or> trim raw = ''{}''
         then \<lparr>pma_attributes = [], pma_raw = raw, pma_has_unparsed = False\<rparr>
         else case wx_attributes W raw of
           None \<Rightarrow> \<lparr>pma_attributes = [], pma_raw = raw, pma_has_unparsed = True\<rparr>
         | Some parsed \<Rightarrow> \<lparr>pma_attributes = map attribute_summary parsed, pma_raw = raw, pma_has_unparsed = False\<rparr>)"

definition message_status :: "time \<Rightarrow> sqs_message \<Rightarrow> string \<times> string" where
  "message_status now m =
     (if m_expires_at m \<le> now then (''Expired'', ''badge-error'')
      else if m_visible_at m \<le> now then (''Visible'', ''badge-success'')
      else if m_receipt_handle m \<noteq> None then (''In flight'', ''badge-warning'')
      else (''Delayed'', ''badge-info''))"

definition message_summary_of :: "web_ext \<Rightarrow> time \<Rightarrow> sqs_message \<Rightarrow> message_summary" where
  "message_summary_of W now m =
     (let handle = coalesce (m_receipt_handle m) []; parsed = web_parse_message_attributes W (m_message_attributes m)
      in \<lparr>ms_message_id = m_message_id m, ms_body_preview = preview (m_body m) 96, ms_body = m_body m,
          ms_status = fst (message_status now m), ms_status_badge_class = snd (message_status now m),
          ms_sent_at = wx_naive_text W (m_sent_at m), ms_visible_at = wx_naive_text W (m_visible_at m),
          ms_expires_at = wx_naive_text W (m_expires_at m), ms_receive_count = m_receive_count m,
          ms_receipt_handle = handle, ms_has_receipt_handle = handle \<noteq> [],
          ms_first_received_at = (case m_first_received_at m of Some t \<Rightarrow> wx_naive_text W t | None \<Rightarrow> []),
          ms_attributes = parsed, ms_has_message_attributes = pma_attributes parsed \<noteq> [],
          ms_aws_trace_header = coalesce (m_aws_trace_header m) [],
          ms_message_group_id = coalesce (m_message_group_id m) [],
          ms_message_deduplication_id = coalesce (m_message_deduplication_id m) []\<rparr>)"

definition message_summaries :: "web_ext \<Rightarrow> (nat \<Rightarrow> time) \<Rightarrow> sqs_message list \<Rightarrow> message_summary list" where
  "message_summaries W clock ms = map (\<lambda>(k, m). message_summary_of W (clock k) m) (enumerate 0 ms)"

section \<open>Reading\<close>

definition queue_summary_of :: "(nat \<Rightarrow> time) \<Rightarrow> sqs_queue \<Rightarrow> sqs_db \<Rightarrow> web_error + queue_summary" where
  "queue_summary_of clock q db = map_err web_of_store_error
     (ebind (sqlite_get_message_count (clock 0) (q_id q) db) (\<lambda>message_count.
      ebind (sqlite_get_visible_message_count (clock 1) (q_id q) db) (\<lambda>visible.
      ebind (sqlite_get_messages_delayed_count (clock 2) (q_id q) db) (\<lambda>delayed.
      Inr \<lparr>qs_id = q_id q, qs_name = q_name q, qs_region = q_region q, qs_account_id = q_account_id q,
           qs_queue_type = q_queue_type q, qs_message_count = message_count, qs_visible_message_count = visible,
           qs_delayed_message_count = delayed\<rparr>))))"

definition filled :: "string option \<Rightarrow> string option" where
  "filled pre = (if pre = Some [] then None else pre)"

definition load_queue_summaries :: "(nat \<Rightarrow> time) \<Rightarrow> queue_list_params \<Rightarrow> sqs_db \<Rightarrow> web_error + queue_summary list" where
  "load_queue_summaries clock params db =
     ebind (map_err web_of_store_error (sqlite_list_queues (qlp_region params) (qlp_account_id params)
              (filled (qlp_prefix params)) (Some 100) None db)) (\<lambda>qs.
     collect_results (\<lambda>(i, q). queue_summary_of (\<lambda>k. clock (3 * i + k)) q db) (enumerate 0 qs))"

section \<open>Fields of forms shown again\<close>

definition create_queue_fields_of :: "queue_list_params \<Rightarrow> create_queue_fields" where
  "create_queue_fields_of params =
     (let problem = coalesce (qlp_create_error params) []
      in \<lparr>cqd_error = problem, cqd_has_error = problem \<noteq> [], cqd_queue_name = coalesce (qlp_create_queue_name params) [],
          cqd_queue_type = (case qlp_create_queue_type params of
             Some t \<Rightarrow> if t = ''standard'' \<or> t = ''fifo'' then t else ''standard'' | None \<Rightarrow> ''standard''),
          cqd_region = non_empty_or (qlp_create_region params) (qlp_region params),
          cqd_account_id = non_empty_or (qlp_create_account_id params) (qlp_account_id params)\<rparr>)"

definition tag_fields :: "string option \<Rightarrow> string option \<Rightarrow> string option \<Rightarrow> string option \<Rightarrow> tag_form_fields" where
  "tag_fields failure key v panel_open =
     (let problem = coalesce failure []
      in \<lparr>tff_error = problem, tff_has_error = problem \<noteq> [], tff_key = coalesce key [], tff_value = coalesce v [],
          tff_open_panel = (problem \<noteq> [] \<or> panel_open = Some ''1'')\<rparr>)"

definition scoped_page_path :: "web_ext \<Rightarrow> string \<Rightarrow> string \<Rightarrow> string \<Rightarrow> string option \<Rightarrow> string" where
  "scoped_page_path W base_path region account_id pre =
     append_query_params W base_path [(''region'', region), (''account_id'', account_id), (''prefix'', coalesce pre [])]"

section \<open>Components of the pages\<close>

definition sqs_dashboard_page_header :: "string \<Rightarrow> string \<Rightarrow> component" where
  "sqs_dashboard_page_header region account_id = PageHeader
     \<lparr>ph_eyebrow = ''Service Dashboard'', ph_title = ''SQS'',
      ph_description = ''Review queue state for a specific account and region. '' @
        ''Use this page to monitor resources and confirm recent changes.'',
      ph_actions =
        [header_link ''Browse queues'' (''/sqs/queues?region='' @ region @ ''&account_id='' @ account_id) ''btn btn-primary'',
         header_link ''JSON API'' (''/sqs/api/queues?region='' @ region @ ''&account_id='' @ account_id) ''btn btn-outline'']\<rparr>"

definition sqs_dashboard_stats_cards :: "string \<Rightarrow> string \<Rightarrow> queue_summary list \<Rightarrow> component" where
  "sqs_dashboard_stats_cards region account_id summaries = StatBlockGrid
     \<lparr>sg_grid_class = ''grid gap-3 md:grid-cols-4'',
      sg_blocks =
        [mk_stat ''Queues'' (show_nat (length summaries)) ''text-primary'' (account_id @ '' / '' @ region),
         mk_stat ''Messages'' (show_int (sum_list (map qs_message_count summaries))) ''text-secondary'' ''retained and not expired'',
         mk_stat ''Visible'' (show_int (sum_list (map qs_visible_message_count summaries))) ''text-success'' ''available to consumers'',
         mk_stat ''Delayed'' (show_int (sum_list (map qs_delayed_message_count summaries))) ''text-info'' ''waiting for delay'']\<rparr>"

definition dashboard_stats_div :: "string \<Rightarrow> string" where
  "dashboard_stats_div cards =
     ''<div id='' @ [CHR 0x22] @ ''dashboard-stats'' @ [CHR 0x22] @ '' class='' @ [CHR 0x22] @ ''mb-5'' @ [CHR 0x22] @ ''>'' @
     cards @ ''</div>''"

definition queue_list_empty_state :: component where
  "queue_list_empty_state = EmptyState
     \<lparr>es_title = ''No queues found'', es_message = ''Create a queue or adjust the account, region, or prefix filter.''\<rparr>"

definition queue_action_card :: "sqs_queue \<Rightarrow> int \<Rightarrow> component" where
  "queue_action_card q message_limit = ActionCard
     \<lparr>ac_title = ''Queue actions'', ac_grid_class = ''sm:grid-cols-4'',
      ac_actions =
        [card_link ''Back'' (queue_list_path q) ''btn btn-ghost'',
         card_link ''Reload'' (''/sqs/queues/'' @ show_int (q_id q) @ ''?message_limit='' @ show_int message_limit) ''btn btn-outline'',
         card_post ''Purge'' (''/sqs/queues/'' @ show_int (q_id q) @ ''/purge?message_limit='' @ show_int message_limit)
           ''btn btn-warning w-full'' (Some (confirm_submit ''Purge every message in this queue?'' ''Purging...'')),
         card_post ''Delete'' (''/sqs/queues/'' @ show_int (q_id q) @ ''/delete'') ''btn btn-error w-full''
           (Some (confirm_submit ''Delete this queue and all messages?'' ''Deleting...''))]\<rparr>"

definition queue_metadata_list :: "web_ext \<Rightarrow> sqs_queue \<Rightarrow> component" where
  "queue_metadata_list W q = MetadataList
     \<lparr>ml_entries =
        [mk_entry ''Database ID'' (show_int (q_id q)) ''font-mono'', mk_entry ''Created'' (wx_time_text W (q_created_at q)) ''font-mono'',
         mk_entry ''Updated'' (wx_time_text W (q_updated_at q)) ''font-mono'']\<rparr>"

section \<open>Templates and pages\<close>

record sqs_queues_template =
  sqt_empty_state_html :: string
  sqt_region :: string
  sqt_account_id :: string
  sqt_prefix :: string
  sqt_return_to :: string
  sqt_feedback :: page_feedback
  sqt_create :: create_queue_fields
  sqt_queues :: "queue_summary list"
  sqt_has_queues :: bool

record sqs_dashboard_template = sqs_queues_template +
  sdt_page_header_html :: string
  sdt_dashboard_stats_html :: string

record queue_list_template =
  qlt_empty_state_html :: string
  qlt_queues :: "queue_summary list"
  qlt_has_queues :: bool

record queue_message_list_template =
  qmt_queue_id :: int
  qmt_messages :: "message_summary list"
  qmt_has_messages :: bool
  qmt_message_limit :: int

record sqs_queue_detail_template = queue_message_list_template +
  qdt_action_card_html :: string
  qdt_metadata_list_html :: string
  qdt_queue :: sqs_queue
  qdt_queue_arn :: string
  qdt_queue_url :: string
  qdt_feedback :: page_feedback
  qdt_send_error :: string
  qdt_has_send_error :: bool
  qdt_tag_fields :: tag_form_fields
  qdt_summary :: queue_summary
  qdt_attributes :: "queue_attribute list"
  qdt_tags :: "tag_view list"
  qdt_tag_count :: nat
  qdt_has_tags :: bool

definition queues_template ::
    "web_ext \<Rightarrow> string \<Rightarrow> queue_list_params \<Rightarrow> string \<Rightarrow> queue_summary list \<Rightarrow> sqs_queues_template" where
  "queues_template W base_path params empty_state_html summaries =
     \<lparr>sqt_empty_state_html = empty_state_html, sqt_region = qlp_region params, sqt_account_id = qlp_account_id params,
      sqt_prefix = coalesce (qlp_prefix params) [],
      sqt_return_to = scoped_page_path W base_path (qlp_region params) (qlp_account_id params) (qlp_prefix params),
      sqt_feedback = feedback_from_params (qlp_feedback_kind params) (qlp_feedback params),
      sqt_create = create_queue_fields_of params, sqt_queues = summaries, sqt_has_queues = summaries \<noteq> []\<rparr>"

definition sqs_dashboard ::
    "web_ext \<Rightarrow> (sqs_dashboard_template \<Rightarrow> string + string) \<Rightarrow> (nat \<Rightarrow> time) \<Rightarrow> queue_list_params \<Rightarrow> sqs_db \<Rightarrow>
     web_error + web_reply" where
  "sqs_dashboard W render clock params db =
     ebind (load_queue_summaries clock params db) (\<lambda>summaries.
     ebind (render_component W (sqs_dashboard_page_header (qlp_region params) (qlp_account_id params))) (\<lambda>page_header_html.
     ebind (render_component W (sqs_dashboard_stats_cards (qlp_region params) (qlp_account_id params) summaries)) (\<lambda>cards.
     ebind (render_component W queue_list_empty_state) (\<lambda>empty_state_html.
     render_page render (sqs_queues_template.extend (queues_template W ''/sqs'' params empty_state_html summaries)
       \<lparr>sdt_page_header_html = page_header_html, sdt_dashboard_stats_html = dashboard_stats_div cards\<rparr>)))))"

definition sqs_queues_page ::
    "web_ext \<Rightarrow> (sqs_queues_template \<Rightarrow> string + string) \<Rightarrow> (nat \<Rightarrow> time) \<Rightarrow> queue_list_params \<Rightarrow> sqs_db \<Rightarrow>
     web_error + web_reply" where
  "sqs_queues_page W render clock params db =
     ebind (load_queue_summaries clock params db) (\<lambda>summaries.
     ebind (render_component W queue_list_empty_state) (\<lambda>empty_state_html.
     render_page render (queues_template W ''/sqs/queues'' params empty_state_html summaries)))"

definition sqs_queues_fragment ::
    "web_ext \<Rightarrow> (queue_list_template \<Rightarrow> string + string) \<Rightarrow> (nat \<Rightarrow> time) \<Rightarrow> queue_list_params \<Rightarrow> sqs_db \<Rightarrow>
     web_error + web_reply" where
  "sqs_queues_fragment W render clock params db =
     ebind (load_queue_summaries clock params db) (\<lambda>summaries.
     ebind (render_component W queue_list_empty_state) (\<lambda>empty_state_html.
     render_page render \<lparr>qlt_empty_state_html = empty_state_html, qlt_queues = summaries, qlt_has_queues = summaries \<noteq> []\<rparr>))"

definition sqs_stats_fragment ::
    "web_ext \<Rightarrow> (string \<Rightarrow> string + string) \<Rightarrow> (nat \<Rightarrow> time) \<Rightarrow> queue_list_params \<Rightarrow> sqs_db \<Rightarrow> web_error + web_reply" where
  "sqs_stats_fragment W render clock params db =
     ebind (load_queue_summaries clock params db) (\<lambda>summaries.
     ebind (render_component W (sqs_dashboard_stats_cards (qlp_region params) (qlp_account_id params) summaries))
       (render_page render))"

text \<open>\<^verbatim>\<open>Json\<close> with the fields region, account and queues; \<open>to_json\<close> prints it.\<close>

definition sqs_queues_api ::
    "(string \<times> string \<times> queue_summary list \<Rightarrow> string) \<Rightarrow> (nat \<Rightarrow> time) \<Rightarrow> queue_list_params \<Rightarrow> sqs_db \<Rightarrow>
     web_error + web_reply" where
  "sqs_queues_api to_json clock params db =
     ebind (load_queue_summaries clock params db) (\<lambda>summaries.
     Inr (Json (to_json (qlp_region params, qlp_account_id params, summaries))))"

definition messages_template ::
    "web_ext \<Rightarrow> (nat \<Rightarrow> time) \<Rightarrow> int \<Rightarrow> int \<Rightarrow> sqs_message list \<Rightarrow> queue_message_list_template" where
  "messages_template W clock qid message_limit ms =
     (let summaries = message_summaries W clock ms
      in \<lparr>qmt_queue_id = qid, qmt_messages = summaries, qmt_has_messages = summaries \<noteq> [], qmt_message_limit = message_limit\<rparr>)"

definition queue_detail_page ::
    "web_ext \<Rightarrow> (sqs_queue_detail_template \<Rightarrow> string + string) \<Rightarrow> string \<Rightarrow> (nat \<Rightarrow> time) \<Rightarrow> int \<Rightarrow> queue_detail_params \<Rightarrow>
     sqs_db \<Rightarrow> web_error + web_reply" where
  "queue_detail_page W render endpoint_url clock qid params db =
     ebind (web_load_queue qid db) (\<lambda>q.
     ebind (queue_summary_of clock q db) (\<lambda>summary.
     let message_limit = clamp_limit (qdp_message_limit params)
     in ebind (map_err web_of_store_error (sqlite_list_messages (q_id q) message_limit db)) (\<lambda>ms.
        ebind (map_err web_of_store_error (sqlite_list_queue_tags (q_id q) db)) (\<lambda>stored_tags.
        let tags = tag_views stored_tags; send_error = coalesce (qdp_send_error params) []
        in ebind (render_component W (queue_action_card q message_limit)) (\<lambda>action_card_html.
           ebind (render_component W (queue_metadata_list W q)) (\<lambda>metadata_list_html.
           render_page render
             (queue_message_list_template.extend (messages_template W (\<lambda>k. clock (3 + k)) (q_id q) message_limit ms)
               \<lparr>qdt_action_card_html = action_card_html, qdt_metadata_list_html = metadata_list_html, qdt_queue = q,
                qdt_queue_arn = web_queue_arn q, qdt_queue_url = web_queue_url endpoint_url q,
                qdt_feedback = feedback_from_params (qdp_feedback_kind params) (qdp_feedback params),
                qdt_send_error = send_error, qdt_has_send_error = send_error \<noteq> [],
                qdt_tag_fields = tag_fields (qdp_tag_error params) (qdp_tag_key params) (qdp_tag_value params) (qdp_tags_open params),
                qdt_summary = summary, qdt_attributes = queue_attributes_of q, qdt_tags = tags,
                qdt_tag_count = length tags, qdt_has_tags = tags \<noteq> []\<rparr>)))))))"

definition queue_stats_fragment ::
    "(int \<times> queue_summary \<Rightarrow> string + string) \<Rightarrow> (nat \<Rightarrow> time) \<Rightarrow> int \<Rightarrow> sqs_db \<Rightarrow> web_error + web_reply" where
  "queue_stats_fragment render clock qid db =
     ebind (web_load_queue qid db) (\<lambda>q.
     ebind (queue_summary_of clock q db) (\<lambda>summary. render_page render (qid, summary)))"

definition queue_messages_fragment ::
    "web_ext \<Rightarrow> (queue_message_list_template \<Rightarrow> string + string) \<Rightarrow> (nat \<Rightarrow> time) \<Rightarrow> int \<Rightarrow> queue_detail_params \<Rightarrow> sqs_db \<Rightarrow>
     web_error + web_reply" where
  "queue_messages_fragment W render clock qid params db =
     ebind (web_load_queue qid db) (\<lambda>_.
     let message_limit = clamp_limit (qdp_message_limit params)
     in ebind (map_err web_of_store_error (sqlite_list_messages qid message_limit db)) (\<lambda>ms.
        render_page render (messages_template W clock qid message_limit ms)))"

end
