(* ===== verification/Web_Sns_Pages.thy ===== *)
theory Web_Sns_Pages
  imports Web_Sns Web_Sqs_Pages
begin

text \<open>
  The SNS pages, \<^verbatim>\<open>hiraeth_web/src/sns/mod.rs\<close>: what they read of the tables and give to their templates.
\<close>

section \<open>Views\<close>

record topic_summary =
  tsm_id :: int
  tsm_name :: string
  tsm_region :: string
  tsm_account_id :: string
  tsm_display_name :: "string option"
  tsm_subscription_count :: nat

record web_subscription_summary =
  ssm_id :: int
  ssm_protocol :: string
  ssm_endpoint :: string
  ssm_subscription_arn :: string
  ssm_raw_message_delivery :: bool
  ssm_delivery_policy :: "string option"
  ssm_filter_policy :: "string option"
  ssm_filter_policy_scope :: "string option"
  ssm_redrive_policy :: "string option"
  ssm_created_at :: string

record create_topic_fields =
  ctd_error :: string
  ctd_has_error :: bool
  ctd_topic_name :: string
  ctd_region :: string
  ctd_account_id :: string
  ctd_display_name :: string

record subscription_form_fields =
  sfd_error :: string
  sfd_has_error :: bool
  sfd_protocol :: string
  sfd_endpoint :: string
  sfd_raw_message_delivery :: bool

record publish_form_fields =
  pfd_error :: string
  pfd_has_error :: bool
  pfd_message :: string
  pfd_subject :: string

definition web_subscription_summary_of :: "web_ext \<Rightarrow> sns_subscription \<Rightarrow> web_subscription_summary" where
  "web_subscription_summary_of W s =
     \<lparr>ssm_id = sub_id s, ssm_protocol = sub_protocol s, ssm_endpoint = sub_endpoint s,
      ssm_subscription_arn = sub_subscription_arn s, ssm_raw_message_delivery = (sub_raw_message_delivery s = Some ''true''),
      ssm_delivery_policy = sub_delivery_policy s, ssm_filter_policy = sub_filter_policy s,
      ssm_filter_policy_scope = sub_filter_policy_scope s, ssm_redrive_policy = sub_redrive_policy s,
      ssm_created_at = wx_naive_text W (sub_created_at s)\<rparr>"

definition topic_summary_of :: "sns_topic \<Rightarrow> sns_db \<Rightarrow> web_error + topic_summary" where
  "topic_summary_of t db =
     ebind (map_err web_of_store_error (sqlite_list_subscriptions_by_topic (topic_arn_of t) db)) (\<lambda>subs.
     Inr \<lparr>tsm_id = tp_id t, tsm_name = tp_name t, tsm_region = tp_region t, tsm_account_id = tp_account_id t,
          tsm_display_name = tp_display_name t, tsm_subscription_count = length subs\<rparr>)"

definition load_topic_summaries :: "topic_list_params \<Rightarrow> sns_db \<Rightarrow> web_error + topic_summary list" where
  "load_topic_summaries params db =
     ebind (map_err web_of_store_error (sqlite_list_topics (tlp_region params) (tlp_account_id params)
              (filled (tlp_prefix params)) (Some 100) db)) (\<lambda>ts.
     collect_results (\<lambda>t. topic_summary_of t db) ts)"

section \<open>Fields of forms shown again\<close>

definition create_topic_fields_of :: "topic_list_params \<Rightarrow> create_topic_fields" where
  "create_topic_fields_of params =
     (let problem = coalesce (tlp_create_error params) []
      in \<lparr>ctd_error = problem, ctd_has_error = problem \<noteq> [], ctd_topic_name = coalesce (tlp_create_topic_name params) [],
          ctd_region = non_empty_or (tlp_create_region params) (tlp_region params),
          ctd_account_id = non_empty_or (tlp_create_account_id params) (tlp_account_id params),
          ctd_display_name = coalesce (tlp_create_display_name params) []\<rparr>)"

definition subscription_form_fields_of :: "topic_detail_params \<Rightarrow> subscription_form_fields" where
  "subscription_form_fields_of params =
     (let problem = coalesce (tdp_subscription_error params) []
      in \<lparr>sfd_error = problem, sfd_has_error = problem \<noteq> [], sfd_protocol = coalesce (tdp_subscription_protocol params) [],
          sfd_endpoint = coalesce (tdp_subscription_endpoint params) [],
          sfd_raw_message_delivery = (tdp_subscription_raw_message_delivery params = Some ''on'')\<rparr>)"

definition publish_form_fields_of :: "topic_detail_params \<Rightarrow> publish_form_fields" where
  "publish_form_fields_of params =
     (let problem = coalesce (tdp_publish_error params) []
      in \<lparr>pfd_error = problem, pfd_has_error = problem \<noteq> [], pfd_message = coalesce (tdp_publish_message params) [],
          pfd_subject = coalesce (tdp_publish_subject params) []\<rparr>)"

section \<open>Components of the pages\<close>

definition sns_dashboard_page_header :: "string \<Rightarrow> string \<Rightarrow> component" where
  "sns_dashboard_page_header region account_id = PageHeader
     \<lparr>ph_eyebrow = ''Service Dashboard'', ph_title = ''SNS'',
      ph_description = ''Review topics and subscriptions for a specific account and region. '' @
        ''Use this page to monitor resources and confirm recent changes.'',
      ph_actions =
        [header_link ''Browse topics'' (''/sns/topics?region='' @ region @ ''&account_id='' @ account_id) ''btn btn-primary'',
         header_link ''JSON API'' (''/sns/api/topics?region='' @ region @ ''&account_id='' @ account_id) ''btn btn-outline'']\<rparr>"

definition sns_dashboard_stats_cards :: "string \<Rightarrow> string \<Rightarrow> topic_summary list \<Rightarrow> component" where
  "sns_dashboard_stats_cards region account_id summaries = StatBlockGrid
     \<lparr>sg_grid_class = ''grid gap-3 md:grid-cols-3'',
      sg_blocks =
        [mk_stat ''Topics'' (show_nat (length summaries)) ''text-primary'' (account_id @ '' / '' @ region),
         mk_stat ''Subscriptions'' (show_nat (sum_list (map tsm_subscription_count summaries))) ''text-secondary'' ''active subscriptions'',
         mk_stat ''Supported'' ''sqs'' ''text-accent'' ''delivery protocol'']\<rparr>"

definition topic_list_empty_state :: component where
  "topic_list_empty_state = EmptyState
     \<lparr>es_title = ''No topics found'', es_message = ''Create a topic or adjust the account, region, or prefix filter.''\<rparr>"

definition topic_action_card :: "sns_topic \<Rightarrow> component" where
  "topic_action_card t = ActionCard
     \<lparr>ac_title = ''Topic actions'', ac_grid_class = ''grid-cols-2'',
      ac_actions =
        [card_link ''Back'' (topic_list_path t) ''btn btn-ghost'',
         card_link ''Reload'' (topic_detail_path (tp_id t)) ''btn btn-outline'',
         card_post ''Delete'' (topic_detail_path (tp_id t) @ ''/delete'') ''btn btn-error col-span-2 w-full''
           (Some (confirm_submit ''Delete this topic and all subscriptions?'' ''Deleting...''))]\<rparr>"

definition web_optional_entry :: "string \<Rightarrow> string option \<Rightarrow> metadata_entry list" where
  "web_optional_entry label v = (case v of Some x \<Rightarrow> [mk_entry label x ''font-mono''] | None \<Rightarrow> [])"

definition topic_metadata_list :: "web_ext \<Rightarrow> sns_topic \<Rightarrow> component" where
  "topic_metadata_list W t = MetadataList
     \<lparr>ml_entries =
        [mk_entry ''Database ID'' (show_int (tp_id t)) ''font-mono'', mk_entry ''Created'' (wx_naive_text W (tp_created_at t)) ''font-mono''] @
        web_optional_entry ''DeliveryPolicy'' (tp_delivery_policy t) @ web_optional_entry ''FifoTopic'' (tp_fifo_topic t) @
        web_optional_entry ''SignatureVersion'' (tp_signature_version t) @ web_optional_entry ''TracingConfig'' (tp_tracing_config t) @
        web_optional_entry ''KmsMasterKeyId'' (tp_kms_master_key_id t) @
        web_optional_entry ''DataProtectionPolicy'' (tp_data_protection_policy t)\<rparr>"

section \<open>Templates and pages\<close>

record sns_topics_template =
  snt_empty_state_html :: string
  snt_region :: string
  snt_account_id :: string
  snt_prefix :: string
  snt_return_to :: string
  snt_feedback :: page_feedback
  snt_create :: create_topic_fields
  snt_topics :: "topic_summary list"
  snt_has_topics :: bool

record sns_dashboard_template = sns_topics_template +
  snd_page_header_html :: string
  snd_dashboard_stats_html :: string

record sns_topic_list_template =
  stl_empty_state_html :: string
  stl_topics :: "topic_summary list"
  stl_has_topics :: bool

record sns_topic_detail_template =
  tdt_action_card_html :: string
  tdt_metadata_list_html :: string
  tdt_topic :: sns_topic
  tdt_topic_arn :: string
  tdt_feedback :: page_feedback
  tdt_subscription_fields :: subscription_form_fields
  tdt_publish_fields :: publish_form_fields
  tdt_tag_fields :: tag_form_fields
  tdt_summary :: topic_summary
  tdt_subscriptions :: "web_subscription_summary list"
  tdt_subscription_count :: nat
  tdt_has_subscriptions :: bool
  tdt_tags :: "tag_view list"
  tdt_tag_count :: nat
  tdt_has_tags :: bool

definition topics_template ::
    "web_ext \<Rightarrow> string \<Rightarrow> topic_list_params \<Rightarrow> string \<Rightarrow> topic_summary list \<Rightarrow> sns_topics_template" where
  "topics_template W base_path params empty_state_html summaries =
     \<lparr>snt_empty_state_html = empty_state_html, snt_region = tlp_region params, snt_account_id = tlp_account_id params,
      snt_prefix = coalesce (tlp_prefix params) [],
      snt_return_to = scoped_page_path W base_path (tlp_region params) (tlp_account_id params) (tlp_prefix params),
      snt_feedback = feedback_from_params (tlp_feedback_kind params) (tlp_feedback params),
      snt_create = create_topic_fields_of params, snt_topics = summaries, snt_has_topics = summaries \<noteq> []\<rparr>"

definition sns_dashboard ::
    "web_ext \<Rightarrow> (sns_dashboard_template \<Rightarrow> string + string) \<Rightarrow> topic_list_params \<Rightarrow> sns_db \<Rightarrow> web_error + web_reply" where
  "sns_dashboard W render params db =
     ebind (load_topic_summaries params db) (\<lambda>summaries.
     ebind (render_component W (sns_dashboard_page_header (tlp_region params) (tlp_account_id params))) (\<lambda>page_header_html.
     ebind (render_component W (sns_dashboard_stats_cards (tlp_region params) (tlp_account_id params) summaries)) (\<lambda>cards.
     ebind (render_component W topic_list_empty_state) (\<lambda>empty_state_html.
     render_page render (sns_topics_template.extend (topics_template W ''/sns'' params empty_state_html summaries)
       \<lparr>snd_page_header_html = page_header_html, snd_dashboard_stats_html = dashboard_stats_div cards\<rparr>)))))"

definition sns_topics_page ::
    "web_ext \<Rightarrow> (sns_topics_template \<Rightarrow> string + string) \<Rightarrow> topic_list_params \<Rightarrow> sns_db \<Rightarrow> web_error + web_reply" where
  "sns_topics_page W render params db =
     ebind (load_topic_summaries params db) (\<lambda>summaries.
     ebind (render_component W topic_list_empty_state) (\<lambda>empty_state_html.
     render_page render (topics_template W ''/sns/topics'' params empty_state_html summaries)))"

definition sns_topics_fragment ::
    "web_ext \<Rightarrow> (sns_topic_list_template \<Rightarrow> string + string) \<Rightarrow> topic_list_params \<Rightarrow> sns_db \<Rightarrow> web_error + web_reply" where
  "sns_topics_fragment W render params db =
     ebind (load_topic_summaries params db) (\<lambda>summaries.
     ebind (render_component W topic_list_empty_state) (\<lambda>empty_state_html.
     render_page render \<lparr>stl_empty_state_html = empty_state_html, stl_topics = summaries, stl_has_topics = summaries \<noteq> []\<rparr>))"

definition sns_stats_fragment ::
    "web_ext \<Rightarrow> (string \<Rightarrow> string + string) \<Rightarrow> topic_list_params \<Rightarrow> sns_db \<Rightarrow> web_error + web_reply" where
  "sns_stats_fragment W render params db =
     ebind (load_topic_summaries params db) (\<lambda>summaries.
     ebind (render_component W (sns_dashboard_stats_cards (tlp_region params) (tlp_account_id params) summaries))
       (render_page render))"

text \<open>\<open>to_json\<close> prints the region, the account and the topics.\<close>

definition sns_topics_api ::
    "(string \<times> string \<times> topic_summary list \<Rightarrow> string) \<Rightarrow> topic_list_params \<Rightarrow> sns_db \<Rightarrow> web_error + web_reply" where
  "sns_topics_api to_json params db =
     ebind (load_topic_summaries params db) (\<lambda>summaries.
     Inr (Json (to_json (tlp_region params, tlp_account_id params, summaries))))"

definition topic_detail_page ::
    "web_ext \<Rightarrow> (sns_topic_detail_template \<Rightarrow> string + string) \<Rightarrow> int \<Rightarrow> topic_detail_params \<Rightarrow> sns_db \<Rightarrow>
     web_error + web_reply" where
  "topic_detail_page W render tid params db =
     ebind (web_load_topic tid db) (\<lambda>t.
     ebind (topic_summary_of t db) (\<lambda>summary.
     ebind (map_err web_of_store_error (sqlite_list_subscriptions_by_topic (topic_arn_of t) db)) (\<lambda>stored_subs.
     ebind (map_err web_of_store_error (sqlite_list_topic_tags (topic_arn_of t) db)) (\<lambda>stored_tags.
     let subs = map (web_subscription_summary_of W) stored_subs; tags = tag_views stored_tags
     in ebind (render_component W (topic_action_card t)) (\<lambda>action_card_html.
        ebind (render_component W (topic_metadata_list W t)) (\<lambda>metadata_list_html.
        render_page render
          \<lparr>tdt_action_card_html = action_card_html, tdt_metadata_list_html = metadata_list_html, tdt_topic = t,
           tdt_topic_arn = topic_arn_of t,
           tdt_feedback = feedback_from_params (tdp_feedback_kind params) (tdp_feedback params),
           tdt_subscription_fields = subscription_form_fields_of params, tdt_publish_fields = publish_form_fields_of params,
           tdt_tag_fields = tag_fields (tdp_tag_error params) (tdp_tag_key params) (tdp_tag_value params) (tdp_tags_open params),
           tdt_summary = summary, tdt_subscriptions = subs, tdt_subscription_count = length subs,
           tdt_has_subscriptions = subs \<noteq> [], tdt_tags = tags, tdt_tag_count = length tags, tdt_has_tags = tags \<noteq> []\<rparr>))))))"

end
