(* ===== verification/Web_Traces.thy ===== *)
theory Web_Traces
  imports Web_Support Trace_Store "HOL-Library.Signed_Division"
begin

text \<open>
  The pages of traces, \<^verbatim>\<open>hiraeth_web/src/traces.rs\<close>: filters, the text of bodies, and the graph of the spans of
  a request with its layout. The recursion of \<^verbatim>\<open>span_depth\<close> follows links between spans as they are stored and
  need not end; it is a partial function, and \<open>None\<close> stands for an overflow of the stack.
\<close>

section \<open>Views\<close>

record trace_summary_view =
  tvs_request_id :: string
  tvs_started_at :: string
  tvs_duration_ms :: string
  tvs_service :: string
  tvs_action :: string
  tvs_region :: string
  tvs_account_id :: string
  tvs_principal :: string
  tvs_verb :: string
  tvs_path :: string
  tvs_status_code :: nat
  tvs_status_class :: string
  tvs_error_message :: string
  tvs_has_error :: bool

record trace_filter_option_view =
  tfo_value :: string
  tfo_label :: string
  tfo_selected :: bool

record trace_filters_view =
  tfv_service_options :: "trace_filter_option_view list"
  tfv_action_options :: "trace_filter_option_view list"
  tfv_status_options :: "trace_filter_option_view list"
  tfv_has_active_filters :: bool

record trace_detail_view =
  tvd_request_id :: string
  tvd_started_at :: string
  tvd_completed_at :: string
  tvd_duration_ms :: string
  tvd_auth_ms :: string
  tvd_route_ms :: string
  tvd_service :: string
  tvd_region :: string
  tvd_account_id :: string
  tvd_principal :: string
  tvd_access_key :: string
  tvd_verb :: string
  tvd_host :: string
  tvd_path :: string
  tvd_query :: string
  tvd_request_headers :: string
  tvd_request_body :: string
  tvd_response_status_code :: nat
  tvd_response_status_class :: string
  tvd_response_headers :: string
  tvd_response_body :: string
  tvd_error_message :: string
  tvd_has_error :: bool

record trace_span_view =
  sv_detail_id :: string
  sv_graph_id :: string
  sv_span_id :: string
  sv_parent_span_id :: string
  sv_has_parent_span_id :: bool
  sv_name :: string
  sv_layer :: string
  sv_status :: string
  sv_status_class :: string
  sv_duration_ms :: string
  sv_attributes :: string
  sv_has_attributes :: bool

record trace_graph_node =
  gn_graph_id :: string
  gn_detail_id :: string
  gn_parent_graph_id :: string
  gn_has_parent_graph_id :: bool
  gn_label :: string
  gn_meta :: string
  gn_status :: string
  gn_status_class :: string
  gn_node_class :: string
  gn_x :: int
  gn_y :: int
  gn_width :: int
  gn_height :: int
  gn_is_span :: bool
  gn_is_tiny :: bool

record trace_graph_edge =
  ge_parent_graph_id :: string
  ge_child_graph_id :: string
  ge_x1 :: int
  ge_y1 :: int
  ge_y_mid :: int
  ge_x2 :: int
  ge_y2 :: int
  ge_arrow_left_x :: int
  ge_arrow_right_x :: int
  ge_arrow_base_y :: int

record trace_graph =
  tg_width :: int
  tg_height :: int
  tg_nodes :: "trace_graph_node list"
  tg_edges :: "trace_graph_edge list"

section \<open>Classes of a status\<close>

definition status_class :: "nat \<Rightarrow> string" where
  "status_class code =
     (if code \<ge> 500 then ''badge-error'' else if code \<ge> 400 then ''badge-warning'' else ''badge-success'')"

definition graph_root_node_class :: "nat \<Rightarrow> string" where
  "graph_root_node_class code =
     (if code \<ge> 500 then ''border-error/80 bg-error/15 text-error-content shadow-[0_0_0_1px_rgba(0,0,0,0.2)]''
      else if code \<ge> 400
      then ''border-warning/80 bg-warning/15 text-warning-content shadow-[0_0_0_1px_rgba(0,0,0,0.2)]''
      else ''border-primary/80 bg-primary/15 shadow-[0_0_0_1px_rgba(0,0,0,0.2)]'')"

definition good_status :: "string \<Rightarrow> bool" where
  "good_status status \<longleftrightarrow> status = ''ok'' \<or> status = ''allow''"

definition bad_status :: "string \<Rightarrow> bool" where
  "bad_status status \<longleftrightarrow> status = ''deny'' \<or> status = ''error''"

definition span_status_class :: "string \<Rightarrow> string" where
  "span_status_class status =
     (if good_status status then ''badge-success'' else if bad_status status then ''badge-error'' else ''badge-outline'')"

definition graph_node_class :: "string \<Rightarrow> bool \<Rightarrow> string" where
  "graph_node_class status is_tiny =
     (if good_status status
      then (if is_tiny then ''border-success/40 bg-success/5 opacity-80 hover:border-success hover:bg-success/10''
            else ''border-success/60 bg-success/10 hover:border-success hover:bg-success/15'')
      else if bad_status status
      then (if is_tiny then ''border-error/60 bg-error/10 opacity-90 hover:border-error hover:bg-error/15''
            else ''border-error/70 bg-error/10 hover:border-error hover:bg-error/15'')
      else if is_tiny then ''border-base-300/70 bg-base-100/70 hover:border-primary hover:bg-base-200''
      else ''border-base-300 bg-base-100 hover:border-primary hover:bg-base-200'')"

section \<open>Filters\<close>

record trace_list_query =
  tlq_service :: "string option"
  tlq_action :: "string option"
  tlq_status :: "string option"

definition non_empty_filter :: "string option \<Rightarrow> string option" where
  "non_empty_filter v = Option.bind v non_empty_trimmed"

definition trace_request_filters_of :: "trace_list_query \<Rightarrow> trace_request_filters" where
  "trace_request_filters_of query =
     \<lparr>tf_service = non_empty_filter (tlq_service query), tf_action = non_empty_filter (tlq_action query),
      tf_status = (let status = non_empty_filter (tlq_status query)
                   in if status = Some ''ok'' then Some StatusOk else if status = Some ''error'' then Some StatusError else None)\<rparr>"

definition trace_option :: "string \<Rightarrow> string \<Rightarrow> string \<Rightarrow> trace_filter_option_view" where
  "trace_option v label selected_value = \<lparr>tfo_value = v, tfo_label = label, tfo_selected = (v = selected_value)\<rparr>"

definition trace_options :: "string \<Rightarrow> string list \<Rightarrow> string \<Rightarrow> trace_filter_option_view list" where
  "trace_options empty_label vs selected_value =
     trace_option [] empty_label selected_value # map (\<lambda>v. trace_option v v selected_value) vs"

definition trace_filters_view_of :: "trace_list_query \<Rightarrow> string list \<Rightarrow> string list \<Rightarrow> trace_filters_view" where
  "trace_filters_view_of query services actions =
     (let service = coalesce (non_empty_filter (tlq_service query)) [];
          action = coalesce (non_empty_filter (tlq_action query)) [];
          status = coalesce (non_empty_filter (tlq_status query)) []
      in \<lparr>tfv_service_options = trace_options ''Any service'' services service,
          tfv_action_options = trace_options ''Any action'' actions action,
          tfv_status_options = [trace_option [] ''Any status'' status, trace_option ''ok'' ''OK'' status,
            trace_option ''error'' ''Error'' status],
          tfv_has_active_filters = (service \<noteq> [] \<or> action \<noteq> [] \<or> status \<noteq> [])\<rparr>)"

section \<open>XML\<close>

text \<open>
  \<^verbatim>\<open>pretty_xml\<close> on the characters of a text: after \<^verbatim>\<open>'<'\<close> a tag is copied to its first \<^verbatim>\<open>'>'\<close>, a text between tags is
  trimmed, every piece on a line of its own, indented by the depth of open tags.
\<close>

definition xml_space :: "string \<Rightarrow> bool" where
  "xml_space c = is_whitespace (code_point c)"

definition trim_start_list :: "string list \<Rightarrow> string list" where
  "trim_start_list cs = dropWhile xml_space cs"

definition trim_end_list :: "string list \<Rightarrow> string list" where
  "trim_end_list cs = rev (dropWhile xml_space (rev cs))"

definition new_line :: "string list \<Rightarrow> string list" where
  "new_line out = (if out \<noteq> [] \<and> last out \<noteq> [CHR 0x0A] then out @ [[CHR 0x0A]] else out)"

definition indent :: "nat \<Rightarrow> string list" where
  "indent depth = replicate (2 * depth) '' ''"

definition until_gt :: "string list \<Rightarrow> string list \<times> string list" where
  "until_gt cs = (takeWhile (\<lambda>c. c \<noteq> ''>'') cs, tl (dropWhile (\<lambda>c. c \<noteq> ''>'') cs))"

definition through_gt :: "string list \<Rightarrow> string list \<times> string list" where
  "through_gt cs = (takeWhile (\<lambda>c. c \<noteq> ''>'') cs @ (if ''>'' \<in> set cs then [''>''] else []), snd (until_gt cs))"

lemma until_gt_shorter: "length (snd (until_gt cs)) \<le> length cs"
  by (simp add: until_gt_def) (metis diff_le_self length_dropWhile_le order_trans)

lemma until_gt_Cons: "length (snd (until_gt (c # cs))) \<le> Suc (length cs)"
  using until_gt_shorter [of "c # cs"] by simp

function xml_loop :: "nat \<Rightarrow> string list \<Rightarrow> string list \<Rightarrow> string list" where
  "xml_loop depth out [] = out"
| "xml_loop depth out (c # cs) =
     (if c = ''<'' then
        (case cs of
           [] \<Rightarrow> out
         | next_c # rest \<Rightarrow>
             if next_c = ''/'' then
               xml_loop (depth - 1)
                 (new_line out @ indent (depth - 1) @ [''<'', ''/''] @ fst (through_gt rest) @ [[CHR 0x0A]])
                 (snd (through_gt rest))
             else if next_c = ''!'' \<or> next_c = ''?'' then
               xml_loop depth (new_line out @ indent depth @ [''<''] @ fst (through_gt cs) @ [[CHR 0x0A]]) (snd (through_gt cs))
             else
               let tag = fst (until_gt cs); self_closing = (tag \<noteq> [] \<and> last tag = ''/'')
               in xml_loop (if self_closing then depth else depth + 1)
                    (new_line out @ indent depth @ [''<''] @ tag @ [''>'', [CHR 0x0A]]) (snd (until_gt cs)))
      else if \<not> xml_space c then
        let trimmed = trim_end_list (trim_start_list (c # takeWhile (\<lambda>x. x \<noteq> ''<'') cs));
            rest = dropWhile (\<lambda>x. x \<noteq> ''<'') cs
        in if trimmed \<noteq> [] then xml_loop depth (new_line out @ indent depth @ trimmed @ [[CHR 0x0A]]) rest
           else xml_loop depth out rest
      else xml_loop depth out cs)"
  by pat_completeness auto
termination
  by (relation "measure (\<lambda>(_, _, cs). length cs)")
    (auto simp: through_gt_def less_Suc_eq_le le_SucI until_gt_shorter until_gt_Cons length_dropWhile_le)

definition pretty_xml_chars :: "string list \<Rightarrow> string list" where
  "pretty_xml_chars cs = trim_end_list (xml_loop 0 [] (trim_end_list (trim_start_list cs)))"

definition pretty_xml :: "string \<Rightarrow> string" where
  "pretty_xml xml = concat (pretty_xml_chars (str_chars xml))"

definition pretty_json :: "string + string \<Rightarrow> string" where
  "pretty_json printed = (case printed of Inr t \<Rightarrow> t | Inl _ \<Rightarrow> ''{}'')"

definition body_text :: "web_ext \<Rightarrow> string \<Rightarrow> string" where
  "body_text W body =
     (let text = wx_utf8_lossy W body;
          as_xml = (if starts_with ''<'' (trim text) then pretty_xml text else text)
      in if starts_with ''{'' (trim text) \<or> starts_with ''['' (trim text)
         then (case wx_json_pretty W text of Inr (Inr t) \<Rightarrow> t | Inr (Inl _) \<Rightarrow> text | Inl _ \<Rightarrow> as_xml)
         else as_xml)"

section \<open>Rows to views\<close>

definition or_dash :: "string option \<Rightarrow> string" where
  "or_dash v = coalesce v ''-''"

definition trace_summary_view_of :: "web_ext \<Rightarrow> request_trace_summary \<Rightarrow> trace_summary_view" where
  "trace_summary_view_of W trace =
     \<lparr>tvs_request_id = ts_request_id trace, tvs_started_at = wx_naive_text W (ts_started_at trace),
      tvs_duration_ms = show_nat (ts_duration_ms trace), tvs_service = or_dash (ts_service trace),
      tvs_action = or_dash (ts_action trace), tvs_region = or_dash (ts_region trace),
      tvs_account_id = or_dash (ts_account_id trace), tvs_principal = or_dash (ts_principal trace),
      tvs_verb = ts_method trace, tvs_path = ts_path trace, tvs_status_code = ts_status_code trace,
      tvs_status_class = status_class (ts_status_code trace), tvs_error_message = coalesce (ts_error_message trace) [],
      tvs_has_error = ts_error_message trace \<noteq> None\<rparr>"

definition trace_detail_view_of :: "web_ext \<Rightarrow> completed_request_trace \<Rightarrow> trace_detail_view" where
  "trace_detail_view_of W trace =
     (let request = ct_request trace; response = ct_response trace; code = hp_status_code response
      in \<lparr>tvd_request_id = ct_request_id trace, tvd_started_at = wx_naive_text W (ct_started_at trace),
          tvd_completed_at = wx_naive_text W (ct_completed_at trace), tvd_duration_ms = show_nat (ct_duration_ms trace),
          tvd_auth_ms = show_nat (ct_auth_ms trace), tvd_route_ms = or_dash (map_option show_nat (ct_route_ms trace)),
          tvd_service = or_dash (ct_service trace), tvd_region = or_dash (ct_region trace),
          tvd_account_id = or_dash (ct_account_id trace), tvd_principal = or_dash (ct_principal trace),
          tvd_access_key = or_dash (ct_access_key trace), tvd_verb = hq_method request, tvd_host = hq_host request,
          tvd_path = hq_path request, tvd_query = coalesce (hq_query request) [],
          tvd_request_headers = pretty_json (wx_pretty_map W (hq_headers request)),
          tvd_request_body = body_text W (hq_body request), tvd_response_status_code = code,
          tvd_response_status_class = status_class code,
          tvd_response_headers = pretty_json (wx_pretty_pairs W (hp_headers response)),
          tvd_response_body = body_text W (hp_body response), tvd_error_message = coalesce (ct_error_message trace) [],
          tvd_has_error = ct_error_message trace \<noteq> None\<rparr>)"

definition trace_span_view_of :: "web_ext \<Rightarrow> nat \<Rightarrow> trace_span \<Rightarrow> trace_span_view" where
  "trace_span_view_of W index span =
     (let parent_span_id = coalesce (tsp_parent_span_id span) []
      in \<lparr>sv_detail_id = ''trace-span-detail-'' @ show_nat index, sv_graph_id = ''trace-span-node-'' @ show_nat index,
          sv_span_id = tsp_span_id span, sv_parent_span_id = parent_span_id, sv_has_parent_span_id = parent_span_id \<noteq> [],
          sv_name = tsp_name span, sv_layer = tsp_layer span, sv_status = tsp_status span,
          sv_status_class = span_status_class (tsp_status span), sv_duration_ms = show_nat (tsp_duration_ms span),
          sv_attributes = pretty_json (wx_pretty_map W (tsp_attributes span)),
          sv_has_attributes = tsp_attributes span \<noteq> []\<rparr>)"

section \<open>The graph\<close>

text \<open>
  Positions are \<^verbatim>\<open>i32\<close>; they stay in range below ten million spans of a request (\<open>Web_Trace_Laws\<close>), so they are
  integers here. \<^verbatim>\<open>/\<close> rounds towards zero. The map of ids keeps the last of several spans with one id.
\<close>

definition node_width :: int where "node_width = 168"
definition node_height :: int where "node_height = 52"
definition tiny_node_height :: int where "tiny_node_height = 34"
definition x_gap :: int where "x_gap = 42"
definition y_gap :: int where "y_gap = 54"
definition margin :: int where "margin = 24"

type_synonym span_index = "string \<Rightarrow> nat option"

definition span_index_by_id :: "trace_span_view list \<Rightarrow> span_index" where
  "span_index_by_id spans = map_of (rev (map (\<lambda>(i, sp). (sv_span_id sp, i)) (enumerate 0 spans)))"

partial_function (option) span_depth :: "trace_span_view list \<Rightarrow> span_index \<Rightarrow> nat \<Rightarrow> nat option" where
  "span_depth spans ids index =
     (if \<not> sv_has_parent_span_id (spans ! index) then Some 1
      else case ids (sv_parent_span_id (spans ! index)) of
        None \<Rightarrow> Some 1
      | Some parent_index \<Rightarrow> Option.bind (span_depth spans ids parent_index) (\<lambda>d. Some (d + 1)))"

text \<open>The rows of spans: each takes the next free row of its depth.\<close>

fun assign_rows :: "(nat \<Rightarrow> nat) \<Rightarrow> nat list \<Rightarrow> nat list" where
  "assign_rows row_counts [] = []"
| "assign_rows row_counts (d # ds) = row_counts d # assign_rows (row_counts(d := row_counts d + 1)) ds"

definition max_or_zero :: "nat list \<Rightarrow> nat" where
  "max_or_zero ns = fold max ns 0"

definition column_x :: "nat \<Rightarrow> int" where
  "column_x row = margin + int row * (node_width + x_gap)"

definition level_y :: "nat \<Rightarrow> int" where
  "level_y depth = margin + int depth * (node_height + y_gap)"

definition is_tiny_span :: "trace_span_view \<Rightarrow> bool" where
  "is_tiny_span sp \<longleftrightarrow> sv_duration_ms sp = ''0''"

definition span_height :: "trace_span_view \<Rightarrow> int" where
  "span_height sp = (if is_tiny_span sp then tiny_node_height else node_height)"

definition root_node :: "trace_detail_view \<Rightarrow> int \<Rightarrow> trace_graph_node" where
  "root_node trace root_x =
     \<lparr>gn_graph_id = ''trace-root-node'', gn_detail_id = [], gn_parent_graph_id = [], gn_has_parent_graph_id = False,
      gn_label = tvd_verb trace @ '' '' @ tvd_path trace, gn_meta = [], gn_status = show_nat (tvd_response_status_code trace),
      gn_status_class = tvd_response_status_class trace, gn_node_class = graph_root_node_class (tvd_response_status_code trace),
      gn_x = root_x, gn_y = margin, gn_width = node_width, gn_height = node_height, gn_is_span = False, gn_is_tiny = False\<rparr>"

text \<open>The index of the span a span hangs below in the graph.\<close>

definition parent_of :: "bool \<Rightarrow> span_index \<Rightarrow> nat \<Rightarrow> trace_span_view \<Rightarrow> nat option" where
  "parent_of has_parent_links ids index sp =
     (if has_parent_links then ids (sv_parent_span_id sp) else if index > 0 then Some (index - 1) else None)"

definition span_node :: "string \<Rightarrow> int \<Rightarrow> int \<Rightarrow> trace_span_view \<Rightarrow> trace_graph_node" where
  "span_node parent_graph_id x y sp =
     \<lparr>gn_graph_id = sv_graph_id sp, gn_detail_id = sv_detail_id sp, gn_parent_graph_id = parent_graph_id,
      gn_has_parent_graph_id = True, gn_label = sv_name sp, gn_meta = sv_layer sp, gn_status = sv_status sp,
      gn_status_class = sv_status_class sp, gn_node_class = graph_node_class (sv_status sp) (is_tiny_span sp),
      gn_x = x, gn_y = y, gn_width = node_width, gn_height = span_height sp, gn_is_span = True, gn_is_tiny = is_tiny_span sp\<rparr>"

definition span_edge :: "string \<Rightarrow> int \<times> int \<times> int \<Rightarrow> int \<Rightarrow> int \<Rightarrow> trace_span_view \<Rightarrow> trace_graph_edge" where
  "span_edge parent_graph_id parent_box x y sp =
     (case parent_box of (parent_x, parent_y, parent_height) \<Rightarrow>
      let y1 = parent_y + parent_height; y2 = y - 8
      in \<lparr>ge_parent_graph_id = parent_graph_id, ge_child_graph_id = sv_graph_id sp,
          ge_x1 = parent_x + node_width sdiv 2, ge_y1 = y1, ge_y_mid = y1 + (y2 - y1) sdiv 2,
          ge_x2 = x + node_width sdiv 2, ge_y2 = y2, ge_arrow_left_x = x + node_width sdiv 2 - 5,
          ge_arrow_right_x = x + node_width sdiv 2 + 5, ge_arrow_base_y = y2 - 8\<rparr>)"

definition graph_of_depths :: "trace_detail_view \<Rightarrow> trace_span_view list \<Rightarrow> bool \<Rightarrow> span_index \<Rightarrow> nat list \<Rightarrow> trace_graph" where
  "graph_of_depths trace spans has_parent_links ids depths =
     (let rows = assign_rows (\<lambda>_. 0) depths; max_row = int (max_or_zero rows);
          root_x = margin + (max_row * (node_width + x_gap)) sdiv 2;
          place = (\<lambda>i. (column_x (rows ! i), level_y (depths ! i)));
          parent = (\<lambda>(i, sp). parent_of has_parent_links ids i sp);
          parent_id = (\<lambda>p. case p of None \<Rightarrow> ''trace-root-node'' | Some j \<Rightarrow> sv_graph_id (spans ! j));
          parent_box = (\<lambda>p. case p of None \<Rightarrow> (root_x, margin, node_height)
            | Some j \<Rightarrow> (fst (place j), snd (place j), span_height (spans ! j)));
          indexed = enumerate 0 spans
      in \<lparr>tg_width = margin * 2 + (max_row + 1) * node_width + max_row * x_gap,
          tg_height = margin * 2 + (int (max_or_zero depths) + 1) * node_height + int (max_or_zero depths) * y_gap,
          tg_nodes = root_node trace root_x #
            map (\<lambda>(i, sp). span_node (parent_id (parent (i, sp))) (fst (place i)) (snd (place i)) sp) indexed,
          tg_edges = map (\<lambda>(i, sp). span_edge (parent_id (parent (i, sp))) (parent_box (parent (i, sp)))
            (fst (place i)) (snd (place i)) sp) indexed\<rparr>)"

definition empty_graph :: trace_graph where
  "empty_graph = \<lparr>tg_width = 0, tg_height = 0, tg_nodes = [], tg_edges = []\<rparr>"

definition span_depths :: "trace_span_view list \<Rightarrow> nat list option" where
  "span_depths spans =
     (if list_ex sv_has_parent_span_id spans
      then those (map (span_depth spans (span_index_by_id spans)) [0..<length spans])
      else Some (map (\<lambda>index. index + 1) [0..<length spans]))"

definition trace_graph_view :: "trace_detail_view \<Rightarrow> trace_span_view list \<Rightarrow> trace_graph option" where
  "trace_graph_view trace spans =
     (if spans = [] then Some empty_graph
      else map_option (graph_of_depths trace spans (list_ex sv_has_parent_span_id spans) (span_index_by_id spans))
             (span_depths spans))"

section \<open>Pages\<close>

record trace_list_template =
  tlt_page_header_html :: string
  tlt_stats_html :: string
  tlt_filters :: trace_filters_view
  tlt_traces :: "trace_summary_view list"
  tlt_has_traces :: bool

record trace_detail_template =
  tlt_detail_header_html :: string
  tlt_trace :: trace_detail_view
  tlt_graph :: trace_graph
  tlt_spans :: "trace_span_view list"
  tlt_has_spans :: bool

definition traces_stats_html :: "trace_summary_view list \<Rightarrow> component" where
  "traces_stats_html views = StatBlockGrid
     \<lparr>sg_grid_class = ''grid-cols-1 sm:grid-cols-2'',
      sg_blocks =
        [mk_stat ''Requests'' (show_nat (length views)) ''text-primary'' ''recent traces retained locally'',
         mk_stat ''Failures'' (show_nat (length (filter (\<lambda>v. tvs_status_code v \<ge> 400) views))) ''text-error''
           ''responses with error status'']\<rparr>"

definition traces_page_header :: component where
  "traces_page_header = PageHeader
     \<lparr>ph_eyebrow = ''Local Traces'', ph_title = ''Request traces'',
      ph_description = ''Review recent AWS endpoint requests, stored payloads, and lifecycle spans.'',
      ph_actions = [header_link ''Reload'' ''/traces'' ''btn btn-outline'']\<rparr>"

definition trace_page_header :: "trace_detail_view \<Rightarrow> string \<Rightarrow> component" where
  "trace_page_header detail request_id = PageHeader
     \<lparr>ph_eyebrow = ''Request Trace'', ph_title = ''request '' @ tvd_request_id detail,
      ph_description = tvd_verb detail @ '' '' @ tvd_path detail @ '' returned '' @ show_nat (tvd_response_status_code detail),
      ph_actions = [header_link ''Back'' ''/traces'' ''btn btn-ghost'',
                    header_link ''Reload'' (''/traces/'' @ request_id) ''btn btn-outline'']\<rparr>"

definition list_traces_page ::
    "web_ext \<Rightarrow> trace_ext \<Rightarrow> (trace_list_template \<Rightarrow> string + string) \<Rightarrow> trace_list_query \<Rightarrow> trace_db \<Rightarrow>
     web_error + web_reply" where
  "list_traces_page W T render query db =
     ebind (map_err web_of_trace_error
              (sqlite_list_request_traces_filtered T 100 (trace_request_filters_of query) db)) (\<lambda>traces.
     ebind (map_err web_of_trace_error (sqlite_list_trace_services db)) (\<lambda>services.
     ebind (map_err web_of_trace_error (sqlite_list_trace_actions T db)) (\<lambda>actions.
     let views = map (trace_summary_view_of W) traces
     in ebind (render_component W (traces_stats_html views)) (\<lambda>stats_html.
        ebind (render_component W traces_page_header) (\<lambda>page_header_html.
        render_page render
          \<lparr>tlt_page_header_html = page_header_html, tlt_stats_html = stats_html,
           tlt_filters = trace_filters_view_of query services actions, tlt_traces = views, tlt_has_traces = views \<noteq> []\<rparr>)))))"

definition web_clear_traces :: "(trace_db, web_reply) web_op" where
  "web_clear_traces =
     sbind (smap_err web_of_trace_error sqlite_clear_traces) (\<lambda>_. slift (Inr (Redirect ''/traces'')))"

text \<open>\<open>None\<close>: the page is never computed.\<close>

definition trace_detail_page ::
    "web_ext \<Rightarrow> trace_ext \<Rightarrow> (trace_detail_template \<Rightarrow> string + string) \<Rightarrow> string \<Rightarrow> trace_db \<Rightarrow>
     (web_error + web_reply) option" where
  "trace_detail_page W T render request_id db =
     (case ebind (map_err web_of_trace_error (sqlite_get_request_trace T request_id db)) (\<lambda>found.
           ebind (ok_or (bad_request (''Trace '' @ request_id @ '' was not found'')) found) (\<lambda>trace.
           ebind (map_err web_of_trace_error (sqlite_list_trace_spans T request_id db)) (\<lambda>spans. Inr (trace, spans)))) of
        Inl e \<Rightarrow> Some (Inl e)
      | Inr (trace, spans) \<Rightarrow>
          let detail = trace_detail_view_of W trace; views = map (\<lambda>(i, sp). trace_span_view_of W i sp) (enumerate 0 spans)
          in map_option (\<lambda>graph.
               ebind (render_component W (trace_page_header detail request_id)) (\<lambda>header_html.
               render_page render
                 \<lparr>tlt_detail_header_html = header_html, tlt_trace = detail, tlt_graph = graph, tlt_spans = views,
                  tlt_has_spans = views \<noteq> []\<rparr>))
             (trace_graph_view detail views))"

end
