(* ===== verification/Web_App.thy ===== *)
theory Web_App
  imports Web_Iam_Pages Web_Sns_Pages Web_Traces
begin

text \<open>
  The web interface as a whole, \<^verbatim>\<open>hiraeth_web/src/lib.rs\<close> and the routers of its parts: one constructor per
  route, forms (\<^verbatim>\<open>POST\<close>) and pages (\<^verbatim>\<open>GET\<close>). The routes share the tables of the server and ask for no
  credentials. Matching of paths and decoding of forms is \<^verbatim>\<open>axum\<close>'s.
\<close>

section \<open>Routes\<close>

datatype iam_form =
    CreatePrincipal create_principal_form
  | CreateManagedPolicy managed_policy_form
  | UpdateManagedPolicy int string
  | DeleteManagedPolicy int
  | AttachPolicy int int
  | DetachPolicy int int
  | DeletePrincipal int
  | CreateAccessKey int access_key_form
  | DeleteAccessKey int string
  | PutInlinePolicy int inline_policy_form
  | DeleteInlinePolicy int inline_policy_form
  | AttachPolicyToPrincipal int int
  | DetachPolicyFromPrincipal int int

datatype sqs_form =
    CreateQueueForm create_queue_form
  | DeleteQueueForm int
  | PurgeQueueForm int queue_detail_params
  | SendMessageForm int send_message_form
  | TagQueueForm int tag_form
  | UntagQueueForm int tag_form
  | DeleteMessageForm int string queue_detail_params

datatype sns_form =
    CreateTopicForm create_topic_form
  | DeleteTopicForm int
  | CreateSubscriptionForm int create_subscription_form
  | DeleteSubscriptionForm int int
  | RawDeliveryForm int int string
  | PublishForm int publish_form
  | TagTopicForm int topic_tag_form
  | UntagTopicForm int string

datatype web_form = IamForm iam_form | SqsForm sqs_form | SnsForm sns_form | ClearTraces

datatype web_page =
    Home
  | IamDashboard iam_dashboard_params
  | ManagedPolicyDetail int iam_managed_policy_detail_params
  | PrincipalDetail int iam_principal_detail_params
  | SqsDashboard queue_list_params
  | SqsQueues queue_list_params
  | QueueDetail int queue_detail_params
  | SqsQueuesFragment queue_list_params
  | SqsStatsFragment queue_list_params
  | QueueStatsFragment int
  | QueueMessagesFragment int queue_detail_params
  | SqsQueuesApi queue_list_params
  | SnsDashboard topic_list_params
  | SnsTopics topic_list_params
  | TopicDetail int topic_detail_params
  | SnsTopicsFragment topic_list_params
  | SnsStatsFragment topic_list_params
  | SnsTopicsApi topic_list_params
  | ListTraces trace_list_query
  | TraceDetail string

section \<open>The application\<close>

text \<open>Templates, the printing of the two JSON listings, and the address of the AWS endpoint.\<close>

record web_templates =
  wt_ext :: web_ext
  wt_home :: "unit \<Rightarrow> string + string"
  wt_iam_dashboard :: "iam_dashboard_template \<Rightarrow> string + string"
  wt_principal_detail :: "iam_principal_detail_template \<Rightarrow> string + string"
  wt_managed_policy_detail :: "iam_managed_policy_detail_template \<Rightarrow> string + string"
  wt_sqs_dashboard :: "sqs_dashboard_template \<Rightarrow> string + string"
  wt_sqs_queues :: "sqs_queues_template \<Rightarrow> string + string"
  wt_queue_list :: "queue_list_template \<Rightarrow> string + string"
  wt_stats :: "string \<Rightarrow> string + string"
  wt_queue_stats :: "int \<times> queue_summary \<Rightarrow> string + string"
  wt_message_list :: "queue_message_list_template \<Rightarrow> string + string"
  wt_queue_detail :: "sqs_queue_detail_template \<Rightarrow> string + string"
  wt_queues_json :: "string \<times> string \<times> queue_summary list \<Rightarrow> string"
  wt_sns_dashboard :: "sns_dashboard_template \<Rightarrow> string + string"
  wt_sns_topics :: "sns_topics_template \<Rightarrow> string + string"
  wt_topic_list :: "sns_topic_list_template \<Rightarrow> string + string"
  wt_topic_detail :: "sns_topic_detail_template \<Rightarrow> string + string"
  wt_topics_json :: "string \<times> string \<times> topic_summary list \<Rightarrow> string"
  wt_trace_list :: "trace_list_template \<Rightarrow> string + string"
  wt_trace_detail :: "trace_detail_template \<Rightarrow> string + string"
  wt_endpoint_url :: string

text \<open>\<^verbatim>\<open>WebState::with_aws_endpoint_url\<close>.\<close>

definition with_endpoint_url :: "string \<Rightarrow> web_templates \<Rightarrow> web_templates" where
  "with_endpoint_url url WT = WT\<lparr>wt_endpoint_url := trim_end_char (CHR ''/'') url\<rparr>"

text \<open>Random texts and clock readings of one web request.\<close>

record web_env =
  wn_now :: time
  wn_db_now :: time
  wn_uuid :: "nat \<Rightarrow> string"
  wn_clock :: "nat \<Rightarrow> time"
  wn_publish :: publish_env

fun iam_form_handler :: "web_ext \<Rightarrow> sqlite_texts \<Rightarrow> web_env \<Rightarrow> iam_form \<Rightarrow> (iam_db, web_reply) web_op" where
  "iam_form_handler W UE env (CreatePrincipal form) = web_create_principal W UE (wn_db_now env) (wn_uuid env 0) form"
| "iam_form_handler W UE env (CreateManagedPolicy form) = web_create_managed_policy W UE (wn_db_now env) (wn_uuid env 0) form"
| "iam_form_handler W UE env (UpdateManagedPolicy i document) = web_update_managed_policy W (wn_db_now env) i document"
| "iam_form_handler W UE env (DeleteManagedPolicy i) = web_delete_managed_policy W i"
| "iam_form_handler W UE env (AttachPolicy i pid) = web_attach_policy W UE i pid"
| "iam_form_handler W UE env (DetachPolicy i pid) = web_detach_policy W i pid"
| "iam_form_handler W UE env (DeletePrincipal pid) = web_delete_principal W pid"
| "iam_form_handler W UE env (CreateAccessKey pid form) =
     web_create_access_key W UE (wn_db_now env) (wn_uuid env 0) (wn_uuid env 1) (wn_uuid env 2) pid form"
| "iam_form_handler W UE env (DeleteAccessKey pid key) = web_delete_access_key W pid key"
| "iam_form_handler W UE env (PutInlinePolicy pid form) = web_put_inline_policy W UE (wn_db_now env) pid form"
| "iam_form_handler W UE env (DeleteInlinePolicy pid form) = web_delete_inline_policy W pid form"
| "iam_form_handler W UE env (AttachPolicyToPrincipal pid i) = web_attach_policy_to_principal W UE pid i"
| "iam_form_handler W UE env (DetachPolicyFromPrincipal pid i) = web_detach_policy_from_principal W pid i"

fun sqs_form_handler :: "web_ext \<Rightarrow> sqlite_texts \<Rightarrow> web_env \<Rightarrow> sqs_form \<Rightarrow> (sqs_db, web_reply) web_op" where
  "sqs_form_handler W UE env (CreateQueueForm form) = web_create_queue W UE (wn_now env) (wn_db_now env) form"
| "sqs_form_handler W UE env (DeleteQueueForm qid) = web_delete_queue W qid"
| "sqs_form_handler W UE env (PurgeQueueForm qid params) = web_purge_queue W qid params"
| "sqs_form_handler W UE env (SendMessageForm qid form) = web_send_message W UE (wn_uuid env 0) (wn_now env) qid form"
| "sqs_form_handler W UE env (TagQueueForm qid form) = web_tag_queue W UE qid form"
| "sqs_form_handler W UE env (UntagQueueForm qid form) = web_untag_queue W qid form"
| "sqs_form_handler W UE env (DeleteMessageForm qid mid params) = web_delete_message W qid mid params"

fun sns_form_handler :: "web_ext \<Rightarrow> sqlite_texts \<Rightarrow> web_env \<Rightarrow> sns_form \<Rightarrow> (sns_db \<times> sqs_db, web_reply) web_op" where
  "sns_form_handler W UE env (CreateTopicForm form) = on_fst (web_create_topic W UE (wn_now env) form)"
| "sns_form_handler W UE env (DeleteTopicForm tid) = on_fst (web_delete_topic W tid)"
| "sns_form_handler W UE env (CreateSubscriptionForm tid form) =
     on_fst (web_create_subscription W UE (wn_uuid env 0) (wn_now env) tid form)"
| "sns_form_handler W UE env (DeleteSubscriptionForm tid sid) = on_fst (web_delete_subscription W tid sid)"
| "sns_form_handler W UE env (RawDeliveryForm tid sid enabled) = on_fst (web_update_raw_delivery W tid sid enabled)"
| "sns_form_handler W UE env (PublishForm tid form) = web_publish_message W UE (wn_publish env) tid form"
| "sns_form_handler W UE env (TagTopicForm tid form) = on_fst (web_tag_topic W tid form)"
| "sns_form_handler W UE env (UntagTopicForm tid key) = on_fst (web_untag_topic W tid key)"

fun web_form_handler :: "web_ext \<Rightarrow> sqlite_texts \<Rightarrow> web_env \<Rightarrow> web_form \<Rightarrow> (app_state, web_reply) web_op" where
  "web_form_handler W UE env (IamForm form) s =
     (case iam_form_handler W UE env form (app_iam s) of (r, db) \<Rightarrow> (r, s\<lparr>app_iam := db\<rparr>))"
| "web_form_handler W UE env (SqsForm form) s =
     (case sqs_form_handler W UE env form (app_sqs s) of (r, db) \<Rightarrow> (r, s\<lparr>app_sqs := db\<rparr>))"
| "web_form_handler W UE env (SnsForm form) s =
     (case sns_form_handler W UE env form (app_sns s, app_sqs s) of (r, (n, q)) \<Rightarrow> (r, s\<lparr>app_sns := n, app_sqs := q\<rparr>))"
| "web_form_handler W UE env ClearTraces s =
     (case web_clear_traces (app_traces s) of (r, db) \<Rightarrow> (r, s\<lparr>app_traces := db\<rparr>))"

text \<open>The outer \<^verbatim>\<open>None\<close> is the page that is never computed.\<close>

fun web_page_handler :: "web_templates \<Rightarrow> trace_ext \<Rightarrow> web_env \<Rightarrow> web_page \<Rightarrow> app_state \<Rightarrow> (web_error + web_reply) option" where
  "web_page_handler WT T env Home s = Some (render_page (wt_home WT) ())"
| "web_page_handler WT T env (IamDashboard params) s = Some (iam_dashboard (wt_ext WT) (wt_iam_dashboard WT) params (app_iam s))"
| "web_page_handler WT T env (ManagedPolicyDetail i params) s =
     Some (iam_managed_policy_detail_page (wt_ext WT) (wt_managed_policy_detail WT) i params (app_iam s))"
| "web_page_handler WT T env (PrincipalDetail pid params) s =
     Some (iam_principal_detail (wt_ext WT) (wt_principal_detail WT) pid params (app_iam s))"
| "web_page_handler WT T env (SqsDashboard params) s =
     Some (sqs_dashboard (wt_ext WT) (wt_sqs_dashboard WT) (wn_clock env) params (app_sqs s))"
| "web_page_handler WT T env (SqsQueues params) s =
     Some (sqs_queues_page (wt_ext WT) (wt_sqs_queues WT) (wn_clock env) params (app_sqs s))"
| "web_page_handler WT T env (QueueDetail qid params) s =
     Some (queue_detail_page (wt_ext WT) (wt_queue_detail WT) (wt_endpoint_url WT) (wn_clock env) qid params (app_sqs s))"
| "web_page_handler WT T env (SqsQueuesFragment params) s =
     Some (sqs_queues_fragment (wt_ext WT) (wt_queue_list WT) (wn_clock env) params (app_sqs s))"
| "web_page_handler WT T env (SqsStatsFragment params) s =
     Some (sqs_stats_fragment (wt_ext WT) (wt_stats WT) (wn_clock env) params (app_sqs s))"
| "web_page_handler WT T env (QueueStatsFragment qid) s = Some (queue_stats_fragment (wt_queue_stats WT) (wn_clock env) qid (app_sqs s))"
| "web_page_handler WT T env (QueueMessagesFragment qid params) s =
     Some (queue_messages_fragment (wt_ext WT) (wt_message_list WT) (wn_clock env) qid params (app_sqs s))"
| "web_page_handler WT T env (SqsQueuesApi params) s = Some (sqs_queues_api (wt_queues_json WT) (wn_clock env) params (app_sqs s))"
| "web_page_handler WT T env (SnsDashboard params) s = Some (sns_dashboard (wt_ext WT) (wt_sns_dashboard WT) params (app_sns s))"
| "web_page_handler WT T env (SnsTopics params) s = Some (sns_topics_page (wt_ext WT) (wt_sns_topics WT) params (app_sns s))"
| "web_page_handler WT T env (TopicDetail tid params) s =
     Some (topic_detail_page (wt_ext WT) (wt_topic_detail WT) tid params (app_sns s))"
| "web_page_handler WT T env (SnsTopicsFragment params) s = Some (sns_topics_fragment (wt_ext WT) (wt_topic_list WT) params (app_sns s))"
| "web_page_handler WT T env (SnsStatsFragment params) s = Some (sns_stats_fragment (wt_ext WT) (wt_stats WT) params (app_sns s))"
| "web_page_handler WT T env (SnsTopicsApi params) s = Some (sns_topics_api (wt_topics_json WT) params (app_sns s))"
| "web_page_handler WT T env (ListTraces query) s = Some (list_traces_page (wt_ext WT) T (wt_trace_list WT) query (app_traces s))"
| "web_page_handler WT T env (TraceDetail request_id) s =
     trace_detail_page (wt_ext WT) T (wt_trace_detail WT) request_id (app_traces s)"

text \<open>A response is \<^verbatim>\<open>None\<close> when there is none: a panic or an endless page.\<close>

definition serve_form ::
    "web_ext \<Rightarrow> sqlite_texts \<Rightarrow> web_env \<Rightarrow> web_form \<Rightarrow> app_state \<Rightarrow> (nat \<times> string option \<times> string) option \<times> app_state" where
  "serve_form W UE env form s = (case web_form_handler W UE env form s of (r, s') \<Rightarrow> (web_response W r, s'))"

definition serve_page ::
    "web_templates \<Rightarrow> trace_ext \<Rightarrow> web_env \<Rightarrow> web_page \<Rightarrow> app_state \<Rightarrow> (nat \<times> string option \<times> string) option" where
  "serve_page WT T env page s = Option.bind (web_page_handler WT T env page s) (web_response (wt_ext WT))"

end
