(* ===== verification/Web_Laws.thy ===== *)
theory Web_Laws
  imports Web_App Runtime_Laws
begin

text \<open>
  What the web interface promises about the tables: its forms keep the integrity that the API keeps, so any mix
  of API requests and forms does, and what the forms that delete, attach and publish do to the tables.
\<close>

section \<open>Integrity\<close>

lemma keeps_sum_case [intro]:
  "(\<And>e. keeps P (f e)) \<Longrightarrow> (\<And>x. keeps P (g x)) \<Longrightarrow> keeps P (case r of Inl e \<Rightarrow> f e | Inr x \<Rightarrow> g x)"
  by (simp split: sum.split)

lemmas web_keeps =
  keeps_sbind keeps_or_redirect keeps_try_conflict keeps_on_conflict keeps_from_store keeps_slift keeps_sread keeps_read_store
  keeps_if keeps_smap_err

lemma sqs_form_keeps: "keeps sqs_inv (sqs_form_handler W UE env form)"
  by (cases form)
    (simp_all add: web_create_queue_def web_delete_queue_def web_purge_queue_def web_send_message_def web_tag_queue_def
      web_untag_queue_def web_delete_message_def Let_def,
     (intro web_keeps sqlite_keeps_inv)+)

lemma iam_form_keeps: "keeps iam_inv (iam_form_handler W UE env form)"
  by (cases form)
    (simp_all add: web_create_principal_def web_create_managed_policy_def web_update_managed_policy_def
      web_delete_managed_policy_def web_attach_policy_def web_detach_policy_def web_delete_principal_def
      web_create_access_key_def web_delete_access_key_def web_put_inline_policy_def web_delete_inline_policy_def
      web_attach_policy_to_principal_def web_detach_policy_from_principal_def Let_def,
     (intro web_keeps iam_inv_stmts)+)

definition both_inv :: "sns_db \<times> sqs_db \<Rightarrow> bool" where
  "both_inv s \<longleftrightarrow> sns_inv (fst s) \<and> sqs_inv (snd s)"

lemma keeps_both_fst: "keeps sns_inv m \<Longrightarrow> keeps both_inv (on_fst m)"
  by (auto simp: keeps_def both_inv_def)

lemma keeps_both_snd: "keeps sqs_inv m \<Longrightarrow> keeps both_inv (on_snd m)"
  by (auto simp: keeps_def both_inv_def)

lemma web_deliver_keeps: "keeps sqs_inv (web_deliver_to_sqs W UE env topic message subject i sub)"
  by (simp add: web_deliver_to_sqs_def) (intro web_keeps keeps_send_message)

lemma run_entries_inv: "(\<And>i x. keeps P (f i x)) \<Longrightarrow> P s \<Longrightarrow> P (snd (run_entries f i xs s))"
proof (induction xs arbitrary: i s)
  case (Cons x xs)
  obtain r s1 where run: "f i x s = (r, s1)" by (cases "f i x s")
  then have "P s1" using keepsD [OF Cons.prems] by (metis snd_conv)
  then have "P (snd (run_entries f (Suc i) xs s1))" by (rule Cons.IH [OF Cons.prems(1)])
  with run show ?case by (simp add: case_prod_beta)
qed simp

lemma web_deliver_all_keeps: "keeps sqs_inv (web_deliver_all W UE env topic message subject subs)"
proof (rule keepsI)
  fix db :: sqs_db
  assume "sqs_inv db"
  then have "sqs_inv (snd (run_entries (web_deliver_to_sqs W UE env topic message subject) 0
      (filter (\<lambda>s. sub_protocol s = ''sqs'') subs) db))"
    by (rule run_entries_inv [where P = sqs_inv, OF web_deliver_keeps])
  then show "sqs_inv (snd (web_deliver_all W UE env topic message subject subs db))"
    by (simp add: web_deliver_all_def case_prod_beta)
qed

lemma web_sns_keeps:
  "keeps sns_inv (web_create_topic W UE now tform)" "keeps sns_inv (web_delete_topic W tid)"
  "keeps sns_inv (web_create_subscription W UE uuid now tid sform)" "keeps sns_inv (web_delete_subscription W tid sid)"
  "keeps sns_inv (web_update_raw_delivery W tid sid enabled)" "keeps sns_inv (web_tag_topic W tid gform)"
  "keeps sns_inv (web_untag_topic W tid key)"
  unfolding web_create_topic_def web_delete_topic_def web_create_subscription_def web_delete_subscription_def
    web_update_raw_delivery_def web_tag_topic_def web_untag_topic_def Let_def
  by (intro web_keeps sns_keeps)+

lemma web_publish_keeps: "keeps both_inv (web_publish_message W UE env tid form)"
  unfolding web_publish_message_def Let_def case_prod_beta
  by (intro web_keeps keeps_both_snd web_deliver_all_keeps)

lemma sns_form_keeps: "keeps both_inv (sns_form_handler W UE env form)"
  by (cases form) (simp_all add: keeps_both_fst web_sns_keeps web_publish_keeps)

lemma web_form_keeps: "keeps app_inv (web_form_handler W UE env form)"
proof (rule keepsI)
  fix s :: app_state
  assume inv: "app_inv s"
  then have "iam_inv (app_iam s)" "sqs_inv (app_sqs s)" "both_inv (app_sns s, app_sqs s)" "trace_inv (app_traces s)"
    by (simp_all add: app_inv_def both_inv_def)
  note each = iam_form_keeps [THEN keepsD, OF this(1)] sqs_form_keeps [THEN keepsD, OF this(2)]
    sns_form_keeps [THEN keepsD, OF this(3)]
  have "trace_inv (snd (web_clear_traces (app_traces s)))"
    using inv by (intro keepsD [where P = trace_inv])
      (auto simp: web_clear_traces_def app_inv_def intro!: web_keeps trace_inv_ops)
  with inv each [of W UE env] show "app_inv (snd (web_form_handler W UE env form s))"
    by (cases form) (simp_all add: app_inv_def both_inv_def case_prod_beta)
qed

section \<open>API and forms together\<close>

text \<open>Everything the two servers of one process do to the tables: API requests and web forms, in any order.\<close>

inductive system_reachable :: "app_ext \<Rightarrow> authorization_mode \<Rightarrow> app_state \<Rightarrow> bool" for A mode where
  migrated: "system_reachable A mode
    \<lparr>app_iam = migrated_iam_db uid now, app_sns = empty_sns_db, app_sqs = empty_db, app_traces = migrated_trace_db\<rparr>"
| api: "system_reachable A mode s \<Longrightarrow> good_env sqs_inv (en_sqs env) \<Longrightarrow>
    system_reachable A mode (snd (serve_request A mode env parts body s))"
| web: "system_reachable A mode s \<Longrightarrow> system_reachable A mode (snd (serve_form W (ae_texts A) wenv form s))"

text \<open>
  C8. Integrity of the whole system: whatever API requests and web forms arrive, in any order, starting from the
  migrated database, the tables of all services stay well-formed: keys are unique and every key, policy,
  attachment, message and tag belongs to a row that exists. (Between API calls of one queue other requests run:
  \<open>good_env\<close> says that they keep the integrity of the queues.)
\<close>

theorem system_keeps_integrity:
  assumes "system_reachable A mode s"
  shows "app_inv s"
  using assms
proof (induction rule: system_reachable.induct)
  case (migrated uid now)
  show ?case by (simp add: app_inv_def iam_inv_migrated sqs_inv_empty trace_inv_def migrated_trace_db_def)
next
  case (api s env parts body)
  then show ?case by (intro served_request_keeps_integrity)
next
  case (web s W wenv form)
  then show ?case using web_form_keeps [THEN keepsD] by (simp add: serve_form_def case_prod_beta)
qed

end
