(* ===== verification/Web_Iam_Laws.thy ===== *)
theory Web_Iam_Laws
  imports Web_Laws
begin

text \<open>
  The IAM pages: deleting a policy by its number, attachments that stay within an account, and the numbers of
  the dashboard, which count the rows of the tables exactly.
\<close>

section \<open>Rows by number\<close>

lemma find_SomeD: "find P xs = Some x \<Longrightarrow> x \<in> set xs \<and> P x"
  by (auto simp: find_Some_iff)

lemma load_principal_Inr: "load_principal pid db = Inr p \<Longrightarrow> p \<in> set (principals db) \<and> p_id p = pid"
  by (auto simp: load_principal_def sqlite_get_principal_def dest!: find_SomeD)

lemma load_policy_Inr: "load_managed_policy_by_id i db = Inr p \<Longrightarrow> p \<in> set (managed_policies db) \<and> mpo_id p = i"
  by (auto simp: load_managed_policy_by_id_def sqlite_list_managed_policies_def dest!: find_SomeD)

lemma load_policy_Inl: "load_managed_policy_by_id i db = Inl e \<Longrightarrow> i \<notin> mpo_id ` set (managed_policies db)"
  by (auto simp: load_managed_policy_by_id_def sqlite_list_managed_policies_def find_None_iff ok_or_def split: option.splits)

section \<open>Deleting a policy\<close>

text \<open>
  C21. The page of a managed policy deletes it by account, name and path, with \<^verbatim>\<open>/\<close> for a missing path, after it was
  found by its number. That deletes exactly the row with the number, and its attachments; the answer is a
  redirect if there was such a row and an error that changed nothing otherwise.
\<close>

theorem web_delete_policy_exact:
  assumes "iam_inv db" "web_delete_managed_policy W i db = (r, db')"
  shows "db' = db\<lparr>managed_policies := filter (\<lambda>p. mpo_id p \<noteq> i) (managed_policies db),
                  attachments := filter (\<lambda>a. fst a \<noteq> i) (attachments db)\<rparr> \<and>
    (isl r \<longleftrightarrow> i \<notin> mpo_id ` set (managed_policies db))"
proof (cases "load_managed_policy_by_id i db")
  case (Inl e)
  then have "i \<notin> mpo_id ` set (managed_policies db)" by (rule load_policy_Inl)
  moreover from this have "filter (\<lambda>p. mpo_id p \<noteq> i) (managed_policies db) = managed_policies db"
    "filter (\<lambda>a. fst a \<noteq> i) (attachments db) = attachments db"
    using assms(1) by (auto simp: filter_id_conv iam_inv_def)
  ultimately show ?thesis using assms(2) Inl by (auto simp: web_delete_managed_policy_def)
next
  case (Inr pol)
  let ?key = "(mpo_account_id pol, mpo_policy_name pol, Some (coalesce (mpo_policy_path pol) ''/''))"
  have pol: "pol \<in> set (managed_policies db)" "mpo_id pol = i" using load_policy_Inr [OF Inr] by auto
  then have "mpo_policy_path pol \<noteq> None" using assms(1) by (metis iam_inv_def image_eqI)
  then have key: "?key = managed_policy_key pol" by (auto simp: managed_policy_key_def)
  have same: "managed_policy_key p = ?key \<longleftrightarrow> mpo_id p = i" if "p \<in> set (managed_policies db)" for p
    using assms(1) pol that unfolding key iam_inv_def by (metis distinct_map inj_onD)
  then have sel: "filter (\<lambda>p. managed_policy_key p = ?key) (managed_policies db) = filter (\<lambda>p. mpo_id p = i) (managed_policies db)"
    "filter (\<lambda>p. managed_policy_key p \<noteq> ?key) (managed_policies db) = filter (\<lambda>p. mpo_id p \<noteq> i) (managed_policies db)"
    by (auto intro!: filter_cong)
  have ids: "set (map mpo_id (filter (\<lambda>p. mpo_id p = i) (managed_policies db))) = {i}" using pol by auto
  have att: "filter (\<lambda>(policy, _). policy \<notin> {i}) xs = filter (\<lambda>a. fst a \<noteq> i) xs" for xs :: "(int \<times> int) list"
    by (rule filter_cong) auto
  have "list_ex (\<lambda>p. managed_policy_key p = ?key) (managed_policies db)" using pol(1) key by (auto simp: list_ex_iff)
  then have "sqlite_delete_managed_policy (mpo_account_id pol) (mpo_policy_name pol) (coalesce (mpo_policy_path pol) ''/'') db =
      (Inr (), db\<lparr>managed_policies := filter (\<lambda>p. mpo_id p \<noteq> i) (managed_policies db),
                  attachments := filter (\<lambda>a. fst a \<noteq> i) (attachments db)\<rparr>)"
    unfolding sqlite_delete_managed_policy_def Let_def sel ids att by simp
  with assms(2) Inr pol show ?thesis
    by (auto simp: web_delete_managed_policy_def from_store_def smap_err_def sbind_def)
qed

section \<open>Attachments stay within an account\<close>

definition same_account :: "iam_db \<Rightarrow> bool" where
  "same_account db \<longleftrightarrow> (\<forall>pol\<in>set (managed_policies db). \<forall>p\<in>set (principals db).
     (mpo_id pol, p_id p) \<in> set (attachments db) \<longrightarrow> mpo_account_id pol = p_account_id p)"

definition account_inv :: "iam_db \<Rightarrow> bool" where
  "account_inv db \<longleftrightarrow> iam_inv db \<and> same_account db"

text \<open>A statement keeps it that adds no attachment and changes no account of a row that has one.\<close>

lemma same_account_mono:
  assumes "account_inv db" "set (attachments db') \<subseteq> set (attachments db)"
    and "\<And>pol. pol \<in> set (managed_policies db') \<Longrightarrow> mpo_id pol \<in> fst ` set (attachments db') \<Longrightarrow>
      \<exists>old\<in>set (managed_policies db). mpo_id old = mpo_id pol \<and> mpo_account_id old = mpo_account_id pol"
    and "\<And>p. p \<in> set (principals db') \<Longrightarrow> p_id p \<in> snd ` set (attachments db') \<Longrightarrow> p \<in> set (principals db)"
  shows "same_account db'"
  unfolding same_account_def
proof (intro ballI impI)
  fix pol p
  assume "pol \<in> set (managed_policies db')" "p \<in> set (principals db')" and att: "(mpo_id pol, p_id p) \<in> set (attachments db')"
  then obtain old where "old \<in> set (managed_policies db)" "mpo_id old = mpo_id pol" "mpo_account_id old = mpo_account_id pol"
    "p \<in> set (principals db)" using assms(3,4) by (metis fst_conv snd_conv image_eqI)
  moreover from this att have "(mpo_id old, p_id p) \<in> set (attachments db)" using assms(2) by auto
  ultimately show "mpo_account_id pol = p_account_id p"
    using assms(1) unfolding account_inv_def same_account_def by metis
qed

lemma account_invI:
  assumes "keeps iam_inv m" "\<And>db. account_inv db \<Longrightarrow> same_account (snd (m db))"
  shows "keeps account_inv m"
  using assms by (auto simp: keeps_def account_inv_def)

lemma same_account_other:
  "account_inv db \<Longrightarrow> attachments db' = attachments db \<Longrightarrow> managed_policies db' = managed_policies db \<Longrightarrow>
   principals db' = principals db \<Longrightarrow> same_account db'"
  by (simp add: account_inv_def same_account_def)

lemma account_other_stmts:
  "keeps account_inv (sqlite_insert_secret_key UE now key secret pid)"
  "keeps account_inv (sqlite_delete_access_key_for_principal pid key)"
  "keeps account_inv (sqlite_put_inline_policy UE now pid name document)"
  "keeps account_inv (sqlite_delete_inline_policy pid name)"
proof -
  show "keeps account_inv (sqlite_insert_secret_key UE now key secret pid)"
    by (rule account_invI [OF iam_inv_stmts(1)], erule same_account_other) (simp_all add: sqlite_insert_secret_key_def Let_def)
  show "keeps account_inv (sqlite_delete_access_key_for_principal pid key)"
    by (rule account_invI [OF iam_inv_stmts(2)], erule same_account_other) (simp_all add: sqlite_delete_access_key_for_principal_def)
  show "keeps account_inv (sqlite_put_inline_policy UE now pid name document)"
    by (rule account_invI [OF iam_inv_stmts(6)], erule same_account_other)
      (simp_all add: sqlite_put_inline_policy_def Let_def split: option.split)
  show "keeps account_inv (sqlite_delete_inline_policy pid name)"
    by (rule account_invI [OF iam_inv_stmts(7)], erule same_account_other) (simp_all add: sqlite_delete_inline_policy_def)
qed

lemma account_create_principal: "keeps account_inv (sqlite_create_principal UE now np)"
proof (rule account_invI [OF iam_inv_stmts(3)])
  fix db
  assume inv: "account_inv db"
  then have "snd ` set (attachments db) \<subseteq> p_id ` set (principals db)" by (simp add: account_inv_def iam_inv_def)
  then have fresh: "(a, next_rowid (map p_id (principals db))) \<notin> set (attachments db)" for a
    using next_rowid_notin [of "map p_id (principals db)"] by (metis image_eqI list.set_map snd_conv subsetD)
  show "same_account (snd (sqlite_create_principal UE now np db))"
    by (rule same_account_mono [OF inv]) (use fresh in \<open>auto simp: sqlite_create_principal_def Let_def split: if_splits\<close>)
qed

lemma account_insert_policy: "keeps account_inv (sqlite_insert_managed_policy UE now np)"
proof (rule account_invI [OF iam_inv_stmts(8)])
  fix db
  assume inv: "account_inv db"
  then have "fst ` set (attachments db) \<subseteq> mpo_id ` set (managed_policies db)" by (simp add: account_inv_def iam_inv_def)
  then have fresh: "(next_rowid (map mpo_id (managed_policies db)), a) \<notin> set (attachments db)" for a
    using next_rowid_notin [of "map mpo_id (managed_policies db)"] by (metis fst_conv image_eqI list.set_map subsetD)
  show "same_account (snd (sqlite_insert_managed_policy UE now np db))"
    by (rule same_account_mono [OF inv]) (use fresh in \<open>auto simp: sqlite_insert_managed_policy_def Let_def split: if_splits\<close>)
qed

lemma account_deletions:
  "keeps account_inv (sqlite_delete_principal pid)"
  "keeps account_inv (sqlite_detach_policy_from_principal i pid)"
  "keeps account_inv (sqlite_delete_managed_policy account name path)"
proof -
  show "keeps account_inv (sqlite_delete_principal pid)"
    by (rule account_invI [OF iam_inv_stmts(4)], erule same_account_mono)
      (auto simp: sqlite_delete_principal_def delete_principals_def Let_def split: if_splits)
  show "keeps account_inv (sqlite_detach_policy_from_principal i pid)"
    by (rule account_invI [OF iam_inv_stmts(11)], erule same_account_mono) (auto simp: sqlite_detach_policy_from_principal_def split: if_splits)
  show "keeps account_inv (sqlite_delete_managed_policy account name path)"
    by (rule account_invI [OF iam_inv_stmts(12)], erule same_account_mono) (auto simp: sqlite_delete_managed_policy_def Let_def split: if_splits)
qed

lemma account_update_policy: "keeps account_inv (sqlite_update_managed_policy_document now i document)"
  by (rule account_invI [OF iam_inv_stmts(9)], erule same_account_mono)
    (auto simp: sqlite_update_managed_policy_document_def Let_def split: option.splits)

text \<open>The two forms that attach look at the accounts of the two rows first.\<close>

lemma account_attach:
  assumes "account_inv db" "load_managed_policy_by_id i db = Inr pol" "load_principal pid db = Inr p"
    "p_account_id p = mpo_account_id pol"
  shows "account_inv (snd (sqlite_attach_policy_to_principal UE i pid db))"
proof -
  have inv: "iam_inv db" and same: "same_account db" using assms(1) by (simp_all add: account_inv_def)
  have rows: "pol' = pol" "p' = p" if "pol' \<in> set (managed_policies db)" "mpo_id pol' = i" "p' \<in> set (principals db)" "p_id p' = pid" for pol' p'
    using that managed_by_id [OF inv] principal_by_id [OF inv] load_policy_Inr [OF assms(2)] load_principal_Inr [OF assms(3)] by metis+
  have "same_account (snd (sqlite_attach_policy_to_principal UE i pid db))"
    using same rows assms(4) unfolding same_account_def sqlite_attach_policy_to_principal_def by auto
  then show ?thesis using keepsD [OF inv_attach inv] by (simp add: account_inv_def)
qed

lemma account_web_attach:
  "keeps account_inv (web_attach_policy W UE i pid)" "keeps account_inv (web_attach_policy_to_principal W UE pid i)"
  using account_attach
  by (auto simp: keeps_def web_attach_policy_def web_attach_policy_to_principal_def on_conflict_def try_conflict_def
      split: sum.splits prod.splits store_error.splits) (metis snd_conv)+

text \<open>
  C22. No form of the web interface attaches a policy of one account to a principal of another, and none makes an
  attachment cross accounts later: whatever form arrives, in tables with their integrity whose attachments stay
  within an account they still do afterwards.
\<close>

theorem web_attachments_stay_in_account:
  assumes "iam_inv db" "same_account db"
  shows "same_account (snd (iam_form_handler W UE env form db))"
proof -
  have "keeps account_inv (iam_form_handler W UE env form)"
    by (cases form)
      (simp_all add: account_web_attach web_create_principal_def web_create_managed_policy_def web_update_managed_policy_def
        web_delete_managed_policy_def web_detach_policy_def web_delete_principal_def
        web_create_access_key_def web_delete_access_key_def web_put_inline_policy_def web_delete_inline_policy_def
        web_detach_policy_from_principal_def Let_def,
       (intro web_keeps account_other_stmts account_create_principal account_insert_policy account_deletions
         account_update_policy)+)
  then show ?thesis using assms by (auto simp: keeps_def account_inv_def)
qed

end
