(* ===== verification/Web_Counts.thy ===== *)
theory Web_Counts
  imports Web_Iam_Laws
begin

text \<open>The numbers on the dashboards are those of the tables.\<close>

section \<open>Rows of an owner\<close>

lemma sum_owner_one:
  "distinct (map g ps) \<Longrightarrow> a \<in> g ` set ps \<Longrightarrow> (\<Sum>p\<leftarrow>ps. if a = g p then 1 else 0) = (1::nat)"
proof (induction ps)
  case (Cons p ps)
  then show ?case
  proof (cases "a = g p")
    case True
    with Cons.prems(1) have "(\<Sum>p\<leftarrow>ps. if a = g p then 1 else 0) = (0::nat)" by (auto simp: sum_list_eq_0_iff)
    with True show ?thesis by simp
  qed auto
qed simp

lemma sum_rows_of_owners:
  "distinct (map g ps) \<Longrightarrow> f ` set rows \<subseteq> g ` set ps \<Longrightarrow> (\<Sum>p\<leftarrow>ps. length (filter (\<lambda>r. f r = g p) rows)) = length rows"
proof (induction rows)
  case (Cons r rows)
  have "(\<Sum>p\<leftarrow>ps. length (filter (\<lambda>r. f r = g p) (r # rows))) =
      (\<Sum>p\<leftarrow>ps. (if f r = g p then 1 else 0) + length (filter (\<lambda>r. f r = g p) rows))"
    by (intro arg_cong [where f = sum_list] map_cong) auto
  also have "\<dots> = 1 + length rows" using Cons sum_owner_one [of g ps "f r"] by (simp add: sum_list_addf)
  finally show ?case by simp
qed (simp add: sum_list_triv)

lemma distinct_map_sort [simp]: "distinct (map f (sort_key k xs)) \<longleftrightarrow> distinct (map f xs)"
  by (metis distinct_map distinct_sort set_sort)

lemma policy_of_attachment:
  assumes "iam_inv db" "a \<in> set (attachments db)"
  shows "\<exists>pol. filter (\<lambda>mp. mpo_id mp = fst a) (managed_policies db) = [pol] \<and> mpo_id pol = fst a"
proof -
  have "fst a \<in> mpo_id ` set (managed_policies db)" using assms by (auto simp: iam_inv_def)
  then obtain pol where pol: "pol \<in> set (managed_policies db)" "fst a = mpo_id pol" by blast
  moreover have "distinct (map mpo_id (managed_policies db))" using assms(1) by (simp add: iam_inv_def)
  ultimately show ?thesis using filter_key [of mpo_id "managed_policies db" pol] by auto
qed

lemma attached_ids:
  assumes "iam_inv db"
  shows "map mpo_id (attached_policies pid db) = map fst (filter (\<lambda>a. snd a = pid) (attachments db))"
proof -
  have "concat (map (\<lambda>a. map mpo_id (filter (\<lambda>mp. mpo_id mp = fst a) (managed_policies db))) xs) = map fst xs"
    if "set xs \<subseteq> set (attachments db)" for xs
    using that policy_of_attachment [OF assms] by (induction xs) fastforce+
  from this [of "filter (\<lambda>a. snd a = pid) (attachments db)"]
  show ?thesis by (simp add: attached_policies_def map_concat comp_def)
qed

lemma length_attached: "iam_inv db \<Longrightarrow> length (attached_policies pid db) = length (filter (\<lambda>a. snd a = pid) (attachments db))"
  using attached_ids [of db pid] by (metis length_map)

section \<open>Attachments of a policy\<close>

lemma fold_count_policy:
  "coalesce (fold count_policy pols counts i) 0 = coalesce (counts i) 0 + count_list (map mpo_id pols) i"
  by (induction pols arbitrary: counts) (auto simp: count_policy_def)

lemma fold_fold_count_policy:
  "coalesce (fold (fold count_policy) polss counts i) 0 = coalesce (counts i) 0 + (\<Sum>pols\<leftarrow>polss. count_list (map mpo_id pols) i)"
  by (induction polss arbitrary: counts) (auto simp: fold_count_policy)

lemma count_attached:
  assumes "iam_inv db"
  shows "count_list (map mpo_id (attached_policies pid db)) i = (if (i, pid) \<in> set (attachments db) then 1 else 0)"
proof -
  note attached_ids [OF assms]
  moreover have "distinct (map fst (filter (\<lambda>a. snd a = pid) (attachments db)))"
    using assms by (auto simp: iam_inv_def distinct_map inj_on_def)
  moreover have "i \<in> set (map fst (filter (\<lambda>a. snd a = pid) (attachments db))) \<longleftrightarrow> (i, pid) \<in> set (attachments db)" by force
  ultimately show ?thesis by (metis count_list_distinct count_list_0_iff)
qed

lemma collect_attached:
  "collect_results (\<lambda>p. sqlite_get_managed_policies_attached_to_principal (p_id p) db) ps =
     Inr (map (\<lambda>p. attached_policies (p_id p) db) ps)"
  by (simp add: attached_to_principal collect_results_Inr_iff)

lemma attachment_counts_exact:
  assumes "iam_inv db" "managed_policy_attachment_counts db = Inr counts"
  shows "coalesce (counts i) 0 = card {user. (i, user) \<in> set (attachments db)}"
proof -
  let ?ps = "sort_key principal_key (principals db)"
  have "counts = fold (fold count_policy) (map (\<lambda>p. attached_policies (p_id p) db) ?ps) Map.empty"
    using assms(2) by (simp add: managed_policy_attachment_counts_def sqlite_list_principals_def collect_attached)
  then have "coalesce (counts i) 0 = (\<Sum>p\<leftarrow>?ps. if (i, p_id p) \<in> set (attachments db) then 1 else 0)"
    by (simp add: fold_fold_count_policy comp_def count_attached [OF assms(1)])
  also have "\<dots> = (\<Sum>u\<leftarrow>map p_id ?ps. if (i, u) \<in> set (attachments db) then 1 else 0)" by (simp add: comp_def)
  also have "\<dots> = card {user. (i, user) \<in> set (attachments db)}"
  proof -
    have d: "distinct (map p_id ?ps)" using assms(1) by (simp add: iam_inv_def)
    have "snd ` set (attachments db) \<subseteq> set (map p_id ?ps)" using assms(1) by (simp add: iam_inv_def)
    then have "{user. (i, user) \<in> set (attachments db)} = {u \<in> set (map p_id ?ps). (i, u) \<in> set (attachments db)}"
      by (auto simp: image_subset_iff)
    then show ?thesis using d
      by (simp only: sum_list_distinct_conv_sum_set) (simp add: sum.If_cases Int_def)
  qed
  finally show ?thesis .
qed

section \<open>The dashboard of IAM\<close>

lemma attachment_counts_Inr: "\<exists>counts. managed_policy_attachment_counts db = Inr counts"
  by (simp add: managed_policy_attachment_counts_def sqlite_list_principals_def attached_to_principal
      collect_results_Inr_iff)

text \<open>
  C31. The numbers on the IAM dashboard are those of the tables: with the integrity of the tables, reading never
  fails, principals, keys, inline and managed policies are each counted once, the accounts are those of principals
  and policies, each policy shows how many principals it is attached to, and the attachments of the principals add
  up to the table of attachments.
\<close>

theorem iam_dashboard_counts_exact:
  assumes "iam_inv db"
  shows "\<exists>ps policies. load_principal_summaries W db = Inr ps \<and> load_managed_policy_summaries W db = Inr policies \<and>
    iam_dashboard_stats_of ps policies =
      \<lparr>ids_principal_count = length (principals db), ids_access_key_count = length (access_keys db),
       ids_inline_policy_count = length (inline_policies db), ids_managed_policy_count = length (managed_policies db),
       ids_account_count = card (p_account_id ` set (principals db) \<union> mpo_account_id ` set (managed_policies db))\<rparr> \<and>
    (\<forall>v\<in>set policies. ims_attachment_count v = card {user. (ims_id v, user) \<in> set (attachments db)}) \<and>
    sum_list (map ips_managed_policy_count ps) = length (attachments db)"
proof -
  let ?sorted = "sort_key principal_key (principals db)"
  let ?n = "\<lambda>f rows p. length (filter (\<lambda>r. f r = p_id p) rows)"
  define ps where "ps = map (\<lambda>p. principal_summary W p (?n ak_principal_id (access_keys db) p)
      (?n pip_principal_id (inline_policies db) p) (?n snd (attachments db) p)) ?sorted"
  obtain counts where counts: "managed_policy_attachment_counts db = Inr counts" using attachment_counts_Inr by blast
  define policies where "policies = sort_key (\<lambda>p. (ims_account_id p, ims_policy_path p, ims_policy_name p))
      (map (managed_policy_summary_view W counts)
        (sort_key (\<lambda>p. (mpo_account_id p, coalesce (mpo_policy_path p) [], mpo_policy_name p)) (managed_policies db)))"
  have owners: "distinct (map p_id ?sorted)" "ak_principal_id ` set (access_keys db) \<subseteq> p_id ` set ?sorted"
    "pip_principal_id ` set (inline_policies db) \<subseteq> p_id ` set ?sorted" "snd ` set (attachments db) \<subseteq> p_id ` set ?sorted"
    using assms by (simp_all add: iam_inv_def)
  have ps: "load_principal_summaries W db = Inr ps"
    by (simp add: load_principal_summaries_def sqlite_list_principals_def attached_to_principal
        sqlite_list_access_keys_for_principal_def sqlite_get_inline_policies_for_principal_def collect_results_Inr_iff
        ps_def length_attached [OF assms])
  have pols: "load_managed_policy_summaries W db = Inr policies"
    by (simp add: load_managed_policy_summaries_def counts sqlite_list_managed_policies_def policies_def)
  have sums: "sum_list (map ips_access_key_count ps) = length (access_keys db)"
    "sum_list (map ips_inline_policy_count ps) = length (inline_policies db)"
    "sum_list (map ips_managed_policy_count ps) = length (attachments db)"
    using sum_rows_of_owners [OF owners(1)] owners(2-) by (simp_all add: ps_def principal_summary_def comp_def)
  have accounts: "set (map ips_account_id ps @ map ims_account_id policies) =
      p_account_id ` set (principals db) \<union> mpo_account_id ` set (managed_policies db)"
    by (simp add: ps_def policies_def principal_summary_def managed_policy_summary_view_def image_image)
  have each: "ims_attachment_count v = card {user. (ims_id v, user) \<in> set (attachments db)}" if "v \<in> set policies" for v
    using that attachment_counts_exact [OF assms counts] by (auto simp: policies_def managed_policy_summary_view_def)
  have "length ps = length (principals db)" "length policies = length (managed_policies db)" by (simp_all add: ps_def policies_def)
  with ps pols sums each accounts show ?thesis
    by (auto simp: iam_dashboard_stats_of_def length_remdups_card_conv simp del: set_append)
qed

section \<open>Counts of a queue\<close>

text \<open>
  C37. The three counts of a queue on a page are read at three moments. If the clock does not go backwards between
  them, the visible and the delayed messages together are at most the messages counted, whatever expires or becomes
  visible in between.
\<close>

theorem queue_counts_consistent:
  assumes "clock 0 \<le> clock 1" "clock 1 \<le> clock 2"
  shows "\<exists>v. queue_summary_of clock q db = Inr v \<and> 0 \<le> qs_visible_message_count v \<and> 0 \<le> qs_delayed_message_count v \<and>
    qs_visible_message_count v + qs_delayed_message_count v \<le> qs_message_count v"
proof -
  let ?all = "\<lambda>(_, m). m_queue_id m = q_id q \<and> m_expires_at m > clock 0"
  let ?vis = "\<lambda>(_, m). m_queue_id m = q_id q \<and> m_visible_at m \<le> clock 1 \<and> m_expires_at m > clock 1"
  let ?del = "\<lambda>(_, m). m_queue_id m = q_id q \<and> m_visible_at m > clock 2 \<and> m_expires_at m > clock 2 \<and> m_receipt_handle m = None"
  have "length (filter ?vis xs) + length (filter ?del xs) \<le> length (filter ?all xs)" for xs :: "(int \<times> sqs_message) list"
    using assms by (induction xs) auto
  then have "int (length (filter ?vis (messages db))) + int (length (filter ?del (messages db))) \<le> int (length (filter ?all (messages db)))"
    by (simp only: of_nat_add [symmetric] of_nat_le_iff)
  then show ?thesis
    by (simp add: queue_summary_of_def sqlite_get_message_count_def sqlite_get_visible_message_count_def
        sqlite_get_messages_delayed_count_def)
qed

end
