(* ===== verification/Web_Redirects.thy ===== *)
theory Web_Redirects
  imports Web_Laws Uri_Encoding
begin

text \<open>
  Redirects: the parameters written by \<^verbatim>\<open>append_query_params\<close> are the ones read back from the query, and no form
  sends the browser to another site.
\<close>

section \<open>Reading a query\<close>

definition decode_pair :: "string \<Rightarrow> string \<times> string" where
  "decode_pair piece = (case split_once (CHR ''='') piece of
     None \<Rightarrow> (percent_decode piece, []) | Some (k, v) \<Rightarrow> (percent_decode k, percent_decode v))"

text \<open>The parameters of a path, as a server reads them.\<close>

definition query_pairs :: "string \<Rightarrow> (string \<times> string) list" where
  "query_pairs path = (case split_once (CHR ''?'') path of None \<Rightarrow> [] | Some (_, q) \<Rightarrow> map decode_pair (split_all (CHR ''&'') q))"

text \<open>\<^verbatim>\<open>urlencoding::encode\<close> keeps the unreserved characters of RFC 3986 and writes every other byte as \<^verbatim>\<open>%XX\<close>.\<close>

definition percent_encodes :: "web_ext \<Rightarrow> bool" where
  "percent_encodes W \<longleftrightarrow> wx_urlencode W = (\<lambda>s. aws_uri_encode s True)"

abbreviation enc :: "string \<Rightarrow> string" where
  "enc s \<equiv> aws_uri_encode s True"

lemma decode_pair_enc [simp]: "decode_pair (enc k @ CHR ''='' # enc v) = (k, v)"
  by (simp add: decode_pair_def percent_decode_encode)

abbreviation later_pairs :: "(string \<times> string) list \<Rightarrow> string" where
  "later_pairs ps \<equiv> concat (map (\<lambda>(k, v). CHR ''&'' # enc k @ CHR ''='' # enc v) ps)"

lemma append_pairs_later: "append_pairs enc False path ps = path @ later_pairs (filter (\<lambda>(_, v). v \<noteq> []) ps)"
  by (induction ps arbitrary: path) auto

lemma append_pairs_first:
  "append_pairs enc True path ps = (case filter (\<lambda>(_, v). v \<noteq> []) ps of
     [] \<Rightarrow> path | (k, v) # rest \<Rightarrow> path @ CHR ''?'' # enc k @ CHR ''='' # enc v @ later_pairs rest)"
  by (induction ps) (auto simp: append_pairs_later)

lemma decode_later_pairs:
  "map decode_pair (split_all (CHR ''&'') (q @ later_pairs ps)) = map decode_pair (split_all (CHR ''&'') q) @ ps"
proof (induction ps arbitrary: q)
  case (Cons kv ps)
  obtain k v where kv: "kv = (k, v)" by (cases kv)
  let ?q = "enc k @ CHR ''='' # enc v"
  have "split_all (CHR ''&'') (q @ CHR ''&'' # (?q @ later_pairs ps)) = split_all (CHR ''&'') q @ split_all (CHR ''&'') (?q @ later_pairs ps)"
    by (rule split_all_join)
  moreover have "split_all (CHR ''&'') ?q = [?q]" by (rule split_all_single) simp
  ultimately show ?case using Cons.IH [of ?q] kv by simp
qed simp


section \<open>Redirects stay on the site\<close>

text \<open>A target within a part of the site: the part, or something below it, or the part with a query.\<close>

definition within :: "string \<Rightarrow> string \<Rightarrow> bool" where
  "within base target \<longleftrightarrow> target = base \<or> starts_with (base @ ''/'') target \<or> starts_with (base @ ''?'') target"

definition on_site :: "string \<Rightarrow> web_error + web_reply \<Rightarrow> bool" where
  "on_site base r = (case r of Inr (Redirect target) \<Rightarrow> within base target | _ \<Rightarrow> True)"

lemma append_pairs_prefix: "\<exists>t. append_pairs f b path ps = path @ t \<and> (t = [] \<or> hd t = (if b then CHR ''?'' else CHR ''&''))"
  by (induction f b path ps rule: append_pairs.induct) auto

lemma within_append:
  assumes "within base path" "CHR ''?'' \<notin> set base"
  shows "within base (append_query_params W path ps)"
proof -
  let ?b = "CHR ''?'' \<notin> set path"
  obtain t where t: "append_query_params W path ps = path @ t" "t = [] \<or> hd t = (if ?b then CHR ''?'' else CHR ''&'')"
    using append_pairs_prefix [of "wx_urlencode W" ?b path ps] by (auto simp: append_query_params_def)
  consider "t = []" | "path = base" "t \<noteq> []" | "path \<noteq> base" by blast
  then show ?thesis
  proof cases
    case 2
    with assms(2) t obtain u where "t = CHR ''?'' # u" by (cases t) auto
    with 2 t(1) show ?thesis by (simp add: within_def starts_with_iff)
  qed (use assms(1) t in \<open>auto simp: within_def starts_with_iff\<close>)
qed

lemma on_site_error: "on_site base (Inl e)"
  by (simp add: on_site_def)

lemma on_site_sbind:
  "(\<And>x s. on_site base (fst (f x s))) \<Longrightarrow> on_site base (fst (sbind m f s))"
  by (simp add: sbind_def on_site_error split: prod.split sum.split)

lemma on_site_or_redirect:
  "(\<And>e. on_site base (Inr (redirect e))) \<Longrightarrow> (\<And>x s. on_site base (fst (f x s))) \<Longrightarrow> on_site base (fst (or_redirect check redirect f s))"
  by (auto simp: or_redirect_def split: sum.split)

lemma on_site_try_conflict:
  "(\<And>e. on_site base (Inr (redirect e))) \<Longrightarrow> (\<And>x s. on_site base (fst (f x s))) \<Longrightarrow> on_site base (fst (try_conflict m redirect f s))"
  by (simp add: try_conflict_def on_site_error split: prod.split sum.split store_error.split)

lemma on_site_Redirect: "within base target \<Longrightarrow> on_site base (Inr (Redirect target))"
  by (simp add: on_site_def)

lemma on_site_on_conflict:
  "(\<And>e. on_site base (Inr (redirect e))) \<Longrightarrow> (\<And>x. on_site base (Inr (f x))) \<Longrightarrow> on_site base (fst (on_conflict m redirect f s))"
  unfolding on_conflict_def by (rule on_site_try_conflict) simp_all

lemma on_site_slift: "on_site base r \<Longrightarrow> on_site base (fst (slift r s))"
  by simp

lemma on_site_if: "on_site base (fst (m s)) \<Longrightarrow> on_site base (fst (n s)) \<Longrightarrow> on_site base (fst ((if b then m else n) s))"
  by simp

lemma within_safe_return: "within base fallback \<Longrightarrow> within base (safe_return_to base target fallback)"
  by (auto simp: safe_return_to_def within_def Let_def split: option.splits)

lemmas on_site_rules = on_site_sbind on_site_or_redirect on_site_try_conflict on_site_on_conflict on_site_slift on_site_if on_site_error
  on_site_Redirect

lemma within_iam:
  "within ''/iam'' ''/iam''" "within ''/iam'' (principal_detail_path pid)" "within ''/iam'' (managed_policy_detail_path i)"
  by (simp_all add: within_def principal_detail_path_def managed_policy_detail_path_def starts_with_iff)

lemma within_sqs: "within ''/sqs'' (''/sqs/'' @ t)" "within ''/sqs'' ''/sqs/queues''"
  by (simp_all add: within_def starts_with_iff)

lemma within_sns: "within ''/sns'' (''/sns/'' @ t)" "within ''/sns'' ''/sns/topics''"
  by (simp_all add: within_def starts_with_iff)

lemmas iam_form_defs = iam_form_handler.simps web_create_principal_def web_create_managed_policy_def web_update_managed_policy_def
  web_delete_managed_policy_def web_attach_policy_def web_detach_policy_def web_delete_principal_def
  web_create_access_key_def web_delete_access_key_def web_put_inline_policy_def web_delete_inline_policy_def
  web_attach_policy_to_principal_def web_detach_policy_from_principal_def

lemmas iam_redirect_defs = feedback_redirect_def create_principal_error_redirect_def access_key_error_redirect_def
  inline_policy_error_redirect_def managed_policy_error_redirect_def managed_policy_document_error_redirect_def
  principal_policy_path_def managed_policy_attach_error_redirect_def principal_policy_attach_error_redirect_def

lemmas sqs_form_defs = sqs_form_handler.simps web_create_queue_def web_delete_queue_def web_purge_queue_def web_send_message_def
  web_tag_queue_def web_untag_queue_def web_delete_message_def

lemmas sqs_redirect_defs = feedback_redirect_def create_queue_error_redirect_def send_message_error_redirect_def
  tag_queue_error_redirect_def queue_tags_path_def queue_detail_path_def queue_list_path_def

lemmas sns_form_defs = web_create_topic_def web_delete_topic_def web_create_subscription_def web_delete_subscription_def
  web_update_raw_delivery_def web_tag_topic_def web_untag_topic_def

lemmas sns_redirect_defs = feedback_redirect_def create_topic_error_redirect_def subscription_error_redirect_def
  publish_error_redirect_def tag_topic_error_redirect_def topic_tags_path_def topic_detail_path_def topic_list_path_def

lemma iam_form_on_site: "on_site ''/iam'' (fst (iam_form_handler W UE env form db))"
  by (cases form; hypsubst; unfold iam_form_defs iam_redirect_defs Let_def; (intro on_site_rules within_append within_iam | simp)+)

lemma sqs_form_on_site: "on_site ''/sqs'' (fst (sqs_form_handler W UE env form db))"
  by (cases form; hypsubst; unfold sqs_form_defs sqs_redirect_defs Let_def;
      (intro on_site_rules within_append within_sqs within_safe_return | simp add: within_def starts_with_iff)+)

lemma on_site_on_fst: "on_site base (fst (m (fst s))) \<Longrightarrow> on_site base (fst (on_fst m s))"
  by (cases s) simp

lemma on_site_prod: "(\<And>a b. on_site base (fst (f a b s))) \<Longrightarrow> on_site base (fst ((case x of (a, b) \<Rightarrow> f a b) s))"
  by (simp split: prod.split)

lemma sns_form_on_site: "on_site ''/sns'' (fst (sns_form_handler W UE env form s))"
  by (cases form; hypsubst; unfold sns_form_handler.simps sns_form_defs web_publish_message_def sns_redirect_defs Let_def;
      (intro on_site_on_fst on_site_prod on_site_rules within_append within_sns within_safe_return | simp add: within_def starts_with_iff)+)

text \<open>
  C15. No form of the web interface sends the browser away: whatever the form holds, its field \<^verbatim>\<open>return_to\<close>
  included, a redirect goes to the part of the site the form belongs to, or below it. So a target never begins with
  two slashes or with a scheme.
\<close>

theorem web_redirects_stay_on_site:
  assumes "fst (web_form_handler W UE env form s) = Inr (Redirect target)"
  shows "within (case form of IamForm _ \<Rightarrow> ''/iam'' | SqsForm _ \<Rightarrow> ''/sqs'' | SnsForm _ \<Rightarrow> ''/sns'' | ClearTraces \<Rightarrow> ''/traces'') target"
proof -
  have "on_site (case form of IamForm _ \<Rightarrow> ''/iam'' | SqsForm _ \<Rightarrow> ''/sqs'' | SnsForm _ \<Rightarrow> ''/sns'' | ClearTraces \<Rightarrow> ''/traces'')
      (fst (web_form_handler W UE env form s))"
    using iam_form_on_site sqs_form_on_site sns_form_on_site
    by (cases form)
      (simp_all add: case_prod_beta web_clear_traces_def sbind_def smap_err_def sqlite_clear_traces_def on_site_def within_def)
  with assms show ?thesis by (simp add: on_site_def)
qed

end
