(* ===== verification/Web_Sns_Laws.thy ===== *)
theory Web_Sns_Laws
  imports Web_Laws
begin

text \<open>
  What publishing from the web interface does to the queues, and the topics it creates but cannot reach.
\<close>

section \<open>Publishing\<close>

definition web_target :: "sqs_queue list \<Rightarrow> sns_subscription \<Rightarrow> sqs_queue option" where
  "web_target qs s = (case web_parse_sqs_endpoint_arn (sub_endpoint s) of None \<Rightarrow> None
     | Some r \<Rightarrow> find (\<lambda>q. q_name q = qi_name r \<and> q_region q = qi_region r \<and> q_account_id q = qi_account_id r) qs)"

text \<open>The messages for the subscriptions, in order, those without a queue left out.\<close>

fun web_deliveries ::
    "web_ext \<Rightarrow> publish_env \<Rightarrow> sns_topic \<Rightarrow> string \<Rightarrow> string \<Rightarrow> sqs_queue list \<Rightarrow> nat \<Rightarrow> sns_subscription list \<Rightarrow> sqs_message list" where
  "web_deliveries W env topic message subject qs i [] = []"
| "web_deliveries W env topic message subject qs i (s # subs) =
     (case web_target qs s of None \<Rightarrow> [] | Some q \<Rightarrow>
        [(web_delivery (pe_sqs_message_id env i) (pe_date env i) q (web_delivery_body W env i topic message subject s))
           \<lparr>m_message_attributes := Some ''{}''\<rparr>]) @
     web_deliveries W env topic message subject qs (Suc i) subs"

definition used_ids :: "sqs_db \<Rightarrow> string set" where
  "used_ids db = (m_message_id \<circ> snd) ` set (messages db)"

lemma web_deliver_step:
  assumes "pe_sqs_message_id env i \<notin> used_ids db"
  shows "case web_target (queues db) s of
      None \<Rightarrow> \<exists>e. web_deliver_to_sqs W UE env topic message subject i s db = (Inl e, db)
    | Some q \<Rightarrow> \<exists>rid. web_deliver_to_sqs W UE env topic message subject i s db = (Inr (), db\<lparr>messages := messages db @
        [(rid, (web_delivery (pe_sqs_message_id env i) (pe_date env i) q (web_delivery_body W env i topic message subject s))
           \<lparr>m_message_attributes := Some ''{}''\<rparr>)]\<rparr>)"
proof (cases "web_parse_sqs_endpoint_arn (sub_endpoint s)")
  case (Some r)
  let ?q = "find (\<lambda>q. q_name q = qi_name r \<and> q_region q = qi_region r \<and> q_account_id q = qi_account_id r) (queues db)"
  have "queue_exists db (q_id q)" if "?q = Some q" for q
    using that by (auto simp: queue_exists_def list_ex_iff find_Some_iff)
  moreover have "\<not> list_ex (\<lambda>(_, m). m_message_id m = pe_sqs_message_id env i) (messages db)"
    using assms by (force simp: used_ids_def list_ex_iff)
  ultimately show ?thesis using Some
    by (auto simp: web_target_def web_deliver_to_sqs_def read_store_def sqlite_get_queue_def from_store_def smap_err_def
        sqlite_send_message_def web_delivery_def split: option.split)
qed (simp add: web_target_def web_deliver_to_sqs_def)

lemma run_web_deliver:
  assumes "inj (pe_sqs_message_id env)" "\<And>j. i \<le> j \<Longrightarrow> pe_sqs_message_id env j \<notin> used_ids db"
  shows "\<exists>results rows. run_entries (web_deliver_to_sqs W UE env topic message subject) i subs db =
      (results, db\<lparr>messages := messages db @ rows\<rparr>) \<and>
    map snd rows = web_deliveries W env topic message subject (queues db) i subs \<and>
    map isl results = map (\<lambda>s. web_target (queues db) s = None) subs"
  using assms(2)
proof (induction subs arbitrary: i db)
  case Nil
  have "db = db\<lparr>messages := messages db @ []\<rparr>" by simp
  then show ?case by (metis list.simps(8) run_entries.simps(1) web_deliveries.simps(1))
next
  case (Cons s subs)
  note step = web_deliver_step [where W = W and UE = UE and topic = topic and message = message and subject = subject and s = s,
      OF Cons.prems [OF le_refl]]
  show ?case
  proof (cases "web_target (queues db) s")
    case None
    then obtain e where run: "web_deliver_to_sqs W UE env topic message subject i s db = (Inl e, db)" using step by auto
    with Cons.IH [of "Suc i" db] Cons.prems None show ?thesis by fastforce
  next
    case (Some q)
    let ?m = "(web_delivery (pe_sqs_message_id env i) (pe_date env i) q (web_delivery_body W env i topic message subject s))
      \<lparr>m_message_attributes := Some ''{}''\<rparr>"
    obtain rid where run: "web_deliver_to_sqs W UE env topic message subject i s db =
        (Inr (), db\<lparr>messages := messages db @ [(rid, ?m)]\<rparr>)" using step Some by auto
    let ?db = "db\<lparr>messages := messages db @ [(rid, ?m)]\<rparr>"
    have "pe_sqs_message_id env j \<notin> used_ids ?db" if "Suc i \<le> j" for j
      using Cons.prems [of j] that assms(1) by (auto simp: used_ids_def web_delivery_def dest: injD)
    from Cons.IH [of "Suc i" ?db, OF this] obtain results rows where
      "run_entries (web_deliver_to_sqs W UE env topic message subject) (Suc i) subs ?db =
        (results, ?db\<lparr>messages := messages ?db @ rows\<rparr>)"
      "map snd rows = web_deliveries W env topic message subject (queues db) (Suc i) subs"
      "map isl results = map (\<lambda>s. web_target (queues db) s = None) subs" by auto
    with run Some show ?thesis by (intro exI [of _ "Inr () # results"] exI [of _ "(rid, ?m) # rows"]) simp
  qed
qed

lemma sbind_Inr: "m s = (Inr x, s') \<Longrightarrow> sbind m f s = f x s'"
  by (simp add: sbind_def)

text \<open>
  C14. Publishing on the page of a topic puts, for every subscription of the topic to a queue that exists, one message
  into that queue, in the order of the subscriptions, raw or in its envelope, and changes nothing else; the
  message shown counts the deliveries and the failures exactly. The policy of the queue is not asked: unlike
  \<^verbatim>\<open>Publish\<close> of the API, the page delivers whatever it says. (The random ids are new and different.)
\<close>

theorem web_publish_exact:
  fixes topic ndb
  defines "subs \<equiv> filter (\<lambda>s. sub_topic_arn s = topic_arn_of topic) (subscriptions ndb)"
  defines "sqs_subs \<equiv> filter (\<lambda>s. sub_protocol s = ''sqs'') subs"
  assumes "web_load_topic tid ndb = Inr topic" "trim (pbf_message form) \<noteq> []"
    and "inj (pe_sqs_message_id env)" "range (pe_sqs_message_id env) \<inter> used_ids qdb = {}"
    and "web_publish_message W UE env tid form (ndb, qdb) = (r, (ndb', qdb'))"
  shows "\<exists>rows. ndb' = ndb \<and> qdb' = qdb\<lparr>messages := messages qdb @ rows\<rparr> \<and>
    map snd rows = web_deliveries W env topic (trim (pbf_message form)) (trim (pbf_subject form)) (queues qdb) 0 sqs_subs \<and>
    (let failed = length (filter (\<lambda>s. web_target (queues qdb) s = None) sqs_subs)
     in length rows + failed = length sqs_subs \<and>
        r = Inr (feedback_redirect W (topic_detail_path tid) (if failed > 0 \<and> rows = [] then ''warning'' else ''success'')
          (publish_feedback (subs = []) (length rows) failed)))"
proof -
  obtain results rows where run: "run_entries (web_deliver_to_sqs W UE env topic (trim (pbf_message form)) (trim (pbf_subject form))) 0
      sqs_subs qdb = (results, qdb\<lparr>messages := messages qdb @ rows\<rparr>)"
    and rows: "map snd rows = web_deliveries W env topic (trim (pbf_message form)) (trim (pbf_subject form)) (queues qdb) 0 sqs_subs"
    and results: "map isl results = map (\<lambda>s. web_target (queues qdb) s = None) sqs_subs"
    using run_web_deliver [of env 0 qdb W UE topic "trim (pbf_message form)" "trim (pbf_subject form)" sqs_subs] assms(5,6) by blast
  have failed: "length (filter isl results) = length (filter (\<lambda>s. web_target (queues qdb) s = None) sqs_subs)"
    using arg_cong [OF results, of "\<lambda>bs. length (filter id bs)"] by (simp add: filter_map comp_def)
  have delivered: "length (web_deliveries W env topic m sb qs i ss) = length (filter (\<lambda>s. web_target qs s \<noteq> None) ss)" for m sb qs i ss
    by (induction ss arbitrary: i) (auto split: option.split)
  have "length (filter (\<lambda>r. \<not> isl r) results) = length (filter (\<lambda>s. web_target (queues qdb) s \<noteq> None) sqs_subs)"
    using arg_cong [OF results, of "\<lambda>bs. length (filter Not bs)"] by (simp add: filter_map comp_def)
  also have "\<dots> = length rows" using arg_cong [OF rows, of length] delivered by simp
  finally have rows_len: "length (filter (\<lambda>r. \<not> isl r) results) = length rows" .
  have counted: "length rows + length (filter (\<lambda>s. web_target (queues qdb) s = None) sqs_subs) = length sqs_subs"
    using arg_cong [OF rows, of length] delivered sum_length_filter_compl [of "\<lambda>s. web_target (queues qdb) s = None" sqs_subs] by simp
  have published: "web_publish_message W UE env tid form (ndb, qdb) =
      (Inr (feedback_redirect W (topic_detail_path tid)
        (if length (filter isl results) > 0 \<and> rows = [] then ''warning'' else ''success'')
        (publish_feedback (subs = []) (length rows) (length (filter isl results)))), (ndb, qdb\<lparr>messages := messages qdb @ rows\<rparr>))"
  proof -
    have all: "web_deliver_all W UE env topic (trim (pbf_message form)) (trim (pbf_subject form)) subs qdb =
        (Inr (length rows, length (filter isl results)), qdb\<lparr>messages := messages qdb @ rows\<rparr>)"
      using run rows_len by (simp add: web_deliver_all_def sqs_subs_def)
    have delivered_all: "on_snd (web_deliver_all W UE env topic (trim (pbf_message form)) (trim (pbf_subject form)) subs) (ndb, qdb) =
        (Inr (length rows, length (filter isl results)), (ndb, qdb\<lparr>messages := messages qdb @ rows\<rparr>))"
      by (simp add: on_snd_def all)
    note steps = sbind_Inr [where m = "on_snd (web_deliver_all W UE env topic (trim (pbf_message form)) (trim (pbf_subject form)) subs)"
        and s = "(ndb, qdb)", OF delivered_all]
      sbind_Inr [where m = "sread (\<lambda>s. web_load_topic tid (fst s))" and s = "(ndb, qdb)" and x = topic and s' = "(ndb, qdb)"]
      sbind_Inr [where m = "read_store (\<lambda>s. sqlite_list_subscriptions_by_topic (topic_arn_of topic) (fst s))"
        and s = "(ndb, qdb)" and x = subs and s' = "(ndb, qdb)"]
    have "web_validate_required ''Message'' (trim (pbf_message form)) = Inr ()" using assms(4) by (simp add: web_validate_required_def)
    moreover have "sread (\<lambda>s. web_load_topic tid (fst s)) (ndb, qdb) = (Inr topic, (ndb, qdb))" using assms(3) by simp
    moreover have "read_store (\<lambda>s. sqlite_list_subscriptions_by_topic (topic_arn_of topic) (fst s)) (ndb, qdb) = (Inr subs, (ndb, qdb))"
      by (simp add: read_store_def sqlite_list_subscriptions_by_topic_def subs_def)
    ultimately show ?thesis
      by (simp only: web_publish_message_def Let_def or_redirect_def steps sum.case prod.case slift_apply length_0_conv)
  qed
  have "r = Inr (feedback_redirect W (topic_detail_path tid)
        (if length (filter isl results) > 0 \<and> rows = [] then ''warning'' else ''success'')
        (publish_feedback (subs = []) (length rows) (length (filter isl results))))"
    "ndb' = ndb" "qdb' = qdb\<lparr>messages := messages qdb @ rows\<rparr>"
    using assms(7) unfolding published by simp_all
  with counted show ?thesis using rows unfolding Let_def failed by blast
qed

section \<open>Topics that cannot be reached\<close>

lemma length_split_all: "length (split_all c s) = Suc (count_list s c)"
  by (induction s) (auto split: list.split)

lemma colon_arn:
  assumes "CHR '':'' \<in> set region \<or> CHR '':'' \<in> set account"
  shows "arn_topic_key (sns_arn region account name) = None"
proof -
  have "count_list region (CHR '':'') + count_list account (CHR '':'') > 0"
    using assms by (metis add_is_0 count_list_0_iff gr0I)
  then have "length (split_all (CHR '':'') (sns_arn region account name)) \<noteq> 6"
    by (simp only: length_split_all sns_arn_def count_list_append count_list.simps) auto
  then show ?thesis by (simp add: arn_topic_key_def Let_def del: split_all.simps)
qed

text \<open>
  C38. A region or account with a colon is accepted by the form that creates a topic, and ends in a topic that the
  interface cannot get rid of: the row is stored, the answer is an internal error, and from then on deleting the topic on
  its page is answered with 404 and changes nothing, because the topic is looked up by an ARN that no longer parses.
\<close>

theorem web_colon_topic_stuck:
  fixes form
  defines "key \<equiv> (trim (ctf_name form), trim (ctf_region form), trim (ctf_account_id form))"
  assumes "CHR '':'' \<in> set (trim (ctf_region form)) \<or> CHR '':'' \<in> set (trim (ctf_account_id form))"
    and "trim (ctf_name form) \<noteq> []" "trim (ctf_region form) \<noteq> []" "trim (ctf_account_id form) \<noteq> []"
    and "web_validate_topic_name (trim (ctf_name form)) = Inr ()" "key \<notin> topic_key ` set (topics db)" "sns_inv db"
    and "web_create_topic W UE now form db = (r, db')"
  shows "r = Inl (web_internal_error ''created topic could not be loaded'') \<and>
    (\<exists>t. topics db' = topics db @ [t] \<and> topic_key t = key \<and>
      web_delete_topic W (tp_id t) db' = (Inl (web_of_store_error topic_not_found), db'))"
proof -
  let ?t = "(new_web_topic form now)\<lparr>tp_id := topic_seq db + 1\<rparr>"
  have key: "topic_key (new_web_topic form now) = key" by (simp add: topic_key_def new_web_topic_def key_def)
  then have "\<not> list_ex (\<lambda>t. topic_key t = topic_key (new_web_topic form now)) (topics db)"
    using assms(7) by (metis (mono_tags, lifting) image_eqI list_ex_iff)
  then have create: "sqlite_create_topic UE (new_web_topic form now) db =
      (Inr (), db\<lparr>topics := topics db @ [?t], topic_seq := topic_seq db + 1\<rparr>)"
    by (simp add: sqlite_create_topic_def)
  have arn: "arn_topic_key (sns_arn (trim (ctf_region form)) (trim (ctf_account_id form)) name) = None" for name
    by (rule colon_arn) (use assms(2) in simp)
  then have "web_create_topic W UE now form db =
      (Inl (web_internal_error ''created topic could not be loaded''), db\<lparr>topics := topics db @ [?t], topic_seq := topic_seq db + 1\<rparr>)"
    unfolding web_create_topic_def Let_def
    using assms(3-6) by (simp add: or_redirect_def web_validate_required_def try_conflict_def create read_store_def sqlite_get_topic_def)
  with assms(9) have res: "r = Inl (web_internal_error ''created topic could not be loaded'')"
    "db' = db\<lparr>topics := topics db @ [?t], topic_seq := topic_seq db + 1\<rparr>" by simp_all
  have "find (\<lambda>t. tp_id t = topic_seq db + 1) (topics db) = None" using assms(8) by (auto simp: find_None_iff dest: inv_topic_seq)
  then have "web_load_topic (topic_seq db + 1) db' = Inr ?t" by (simp add: res(2) web_load_topic_def sqlite_get_topic_by_id_def find_append)
  moreover have "sqlite_delete_topic (topic_arn_of ?t) db' = (Inl topic_not_found, db')"
    using arn by (simp add: sqlite_delete_topic_def topic_arn_of_def new_web_topic_def)
  ultimately have "web_delete_topic W (tp_id ?t) db' = (Inl (web_of_store_error topic_not_found), db')"
    by (simp add: web_delete_topic_def from_store_def smap_err_def sbind_def)
  with res key show ?thesis by (intro conjI exI [of _ ?t]) (simp_all add: topic_key_def)
qed

end
