(* ===== verification/Web_Trace_Laws.thy ===== *)
theory Web_Trace_Laws
  imports Web_Traces
begin

text \<open>
  The page of a trace: when the graph of its spans is computed at all, that the layout is a layout, and that
  the indentation of XML loses nothing.
\<close>

section \<open>Depths\<close>

text \<open>Span \<open>i\<close> names span \<open>j\<close> as its parent.\<close>

definition parent_links :: "trace_span_view list \<Rightarrow> (nat \<times> nat) set" where
  "parent_links spans = {(j, i). i < length spans \<and> sv_has_parent_span_id (spans ! i) \<and>
     span_index_by_id spans (sv_parent_span_id (spans ! i)) = Some j}"

lemma span_index_bound: "span_index_by_id spans v = Some j \<Longrightarrow> j < length spans \<and> sv_span_id (spans ! j) = v"
  unfolding span_index_by_id_def by (drule map_of_SomeD) (auto simp: in_set_enumerate_eq)

lemma parent_links_bound: "(j, i) \<in> parent_links spans \<Longrightarrow> j < length spans \<and> i < length spans"
  by (auto simp: parent_links_def dest: span_index_bound)

lemma finite_parent_links: "finite (parent_links spans)"
  by (rule finite_subset [of _ "{..<length spans} \<times> {..<length spans}"]) (auto dest: parent_links_bound)

abbreviation depth_of :: "trace_span_view list \<Rightarrow> nat \<Rightarrow> nat option" where
  "depth_of spans \<equiv> span_depth spans (span_index_by_id spans)"

lemma depth_link:
  assumes "(j, i) \<in> parent_links spans"
  shows "depth_of spans i = map_option Suc (depth_of spans j)"
  using assms by (subst span_depth.simps) (auto simp: parent_links_def bind_eq_Some_conv map_option_case split: option.split)

lemma depth_no_link:
  assumes "i < length spans" "\<And>j. (j, i) \<notin> parent_links spans"
  shows "depth_of spans i = Some 1"
  using assms by (subst span_depth.simps) (auto simp: parent_links_def split: option.split)

lemma depth_returns:
  assumes "acyclic (parent_links spans)" "i < length spans"
  shows "\<exists>d. depth_of spans i = Some d"
  using finite_acyclic_wf [OF finite_parent_links assms(1)] assms(2)
proof (induction i rule: wf_induct_rule)
  case (less i)
  show ?case
  proof (cases "\<exists>j. (j, i) \<in> parent_links spans")
    case True
    then obtain j where "(j, i) \<in> parent_links spans" by blast
    with less.IH [OF this] show ?thesis by (auto simp: depth_link dest: parent_links_bound)
  qed (use less.prems depth_no_link in blast)
qed

lemma depth_decreases:
  assumes "(j, i) \<in> (parent_links spans)\<^sup>+" "depth_of spans i = Some d"
  shows "\<exists>d' < d. depth_of spans j = Some d'"
  using assms
proof (induction arbitrary: d rule: trancl_induct)
  case (base i)
  then show ?case by (auto simp: depth_link)
next
  case (step k i)
  then obtain d' where "depth_of spans k = Some d'" "d = Suc d'" by (auto simp: depth_link)
  with step.IH show ?case by (metis less_SucI)
qed

lemma depth_acyclic:
  assumes "\<And>i. i < length spans \<Longrightarrow> depth_of spans i \<noteq> None"
  shows "acyclic (parent_links spans)"
proof (rule acyclicI, intro allI notI)
  fix i assume cycle: "(i, i) \<in> (parent_links spans)\<^sup>+"
  then have "i < length spans" by (metis parent_links_bound tranclE)
  then obtain d where "depth_of spans i = Some d" using assms by blast
  with depth_decreases [OF cycle this] show False by auto
qed

lemma depths_unlinked:
  "\<not> list_ex sv_has_parent_span_id spans \<Longrightarrow> parent_links spans = {}"
  by (auto simp: parent_links_def list_ex_iff)

lemma those_Some_iff: "(\<exists>ys. those (map f [0..<n]) = Some ys) \<longleftrightarrow> (\<forall>i < n. f i \<noteq> None)"
proof -
  have "(\<exists>ys. those (map f xs) = Some ys) \<longleftrightarrow> (\<forall>x \<in> set xs. f x \<noteq> None)" for xs
    by (induction xs) (auto split: option.split)
  from this [of "[0..<n]"] show ?thesis by auto
qed

text \<open>
  C24. The graph of a trace is computed exactly when no span is its own ancestor by the recorded ids: links to spans
  that are not there, several spans with one id and several roots do no harm, and on a cycle (a span that
  records its own id as its parent's is one) the recursion of \<^verbatim>\<open>span_depth\<close> never returns.
\<close>

theorem trace_graph_returns:
  "(\<exists>graph. trace_graph_view trace spans = Some graph) \<longleftrightarrow> acyclic (parent_links spans)"
proof (cases "list_ex sv_has_parent_span_id spans")
  case True
  then have "(\<exists>graph. trace_graph_view trace spans = Some graph) \<longleftrightarrow> (\<forall>i < length spans. depth_of spans i \<noteq> None)"
    by (cases "spans = []") (simp_all add: trace_graph_view_def span_depths_def those_Some_iff)
  then show ?thesis using depth_returns depth_acyclic by (metis option.distinct(1))
next
  case False
  then show ?thesis by (auto simp: trace_graph_view_def span_depths_def depths_unlinked acyclic_def)
qed

section \<open>The layout\<close>

lemma length_assign_rows [simp]: "length (assign_rows c ds) = length ds"
  by (induction ds arbitrary: c) auto

lemma assign_rows_ge: "(d, r) \<in> set (zip ds (assign_rows c ds)) \<Longrightarrow> c d \<le> r"
  by (induction ds arbitrary: c) (force split: if_splits)+

lemma distinct_places: "distinct (zip ds (assign_rows c ds))"
  by (induction ds arbitrary: c) (auto dest: assign_rows_ge)

lemma assign_rows_less: "r \<in> set (assign_rows c ds) \<Longrightarrow> \<forall>d. c d \<le> k \<Longrightarrow> r < k + length ds"
proof (induction ds arbitrary: c k)
  case (Cons d ds)
  have "\<forall>e. (c(d := c d + 1)) e \<le> Suc k" using Cons.prems(2) by (simp add: le_SucI)
  with Cons.IH [of "c(d := c d + 1)" "Suc k"] Cons.prems show ?case by (auto simp del: fun_upd_apply intro: le_less_trans)
qed simp

lemma max_or_zero_ge: "n \<in> set ns \<Longrightarrow> n \<le> max_or_zero ns"
  by (simp add: max_or_zero_def Max.set_eq_fold [symmetric])

lemma max_or_zero_le: "(\<And>n. n \<in> set ns \<Longrightarrow> n \<le> k) \<Longrightarrow> max_or_zero ns \<le> k"
  by (simp add: max_or_zero_def Max.set_eq_fold [symmetric])

lemma depth_positive: "depth_of spans i = Some d \<Longrightarrow> 0 < d"
  by (subst (asm) span_depth.simps) (auto simp: bind_eq_Some_conv split: if_splits option.splits)

lemma depth_chain:
  assumes "depth_of spans i = Some d" "i < length spans"
  shows "{1..d} \<subseteq> (\<lambda>j. the (depth_of spans j)) ` {..<length spans}"
  using assms
proof (induction d arbitrary: i)
  case (Suc d)
  have last: "Suc d \<in> (\<lambda>j. the (depth_of spans j)) ` {..<length spans}" using Suc.prems by force
  show ?case
  proof (cases "d = 0")
    case False
    then obtain j where link: "(j, i) \<in> parent_links spans" using Suc.prems depth_no_link by force
    then have "depth_of spans j = Some d" using Suc.prems by (auto simp: depth_link)
    with Suc.IH link show ?thesis using last by (auto simp: atLeastAtMostSuc_conv dest: parent_links_bound)
  qed (use last in simp)
qed simp

lemma depth_le_length:
  assumes "depth_of spans i = Some d" "i < length spans"
  shows "d \<le> length spans"
proof -
  have "card {1..d} \<le> card {..<length spans}" using surj_card_le [OF finite_lessThan depth_chain [OF assms]] .
  then show ?thesis by simp
qed

lemma those_nth: "those xs = Some ys \<Longrightarrow> length ys = length xs \<and> (\<forall>i < length xs. xs ! i = Some (ys ! i))"
  by (induction xs arbitrary: ys) (auto split: option.splits simp: nth_Cons')

lemma span_depths_nth:
  assumes "span_depths spans = Some ds"
  shows "length ds = length spans"
    and "i < length spans \<Longrightarrow> list_ex sv_has_parent_span_id spans \<Longrightarrow> depth_of spans i = Some (ds ! i)"
    and "i < length spans \<Longrightarrow> \<not> list_ex sv_has_parent_span_id spans \<Longrightarrow> ds ! i = Suc i"
    and "i < length spans \<Longrightarrow> 0 < ds ! i \<and> ds ! i \<le> length spans"
proof -
  show len: "length ds = length spans" using assms by (auto simp: span_depths_def dest: those_nth split: if_splits)
  show linked: "depth_of spans i = Some (ds ! i)" if "i < length spans" "list_ex sv_has_parent_span_id spans" for i
    using assms that by (auto simp: span_depths_def dest!: those_nth)
  show unlinked: "ds ! i = Suc i" if "i < length spans" "\<not> list_ex sv_has_parent_span_id spans" for i
    using assms that by (auto simp: span_depths_def)
  show "0 < ds ! i \<and> ds ! i \<le> length spans" if "i < length spans"
  proof (cases "list_ex sv_has_parent_span_id spans")
    case True
    with linked that show ?thesis using depth_positive depth_le_length by blast
  qed (use unlinked that in simp)
qed

text \<open>The ids of stored spans are never empty; then a parent found in the index is the parent of a link.\<close>

definition proper_spans :: "trace_span_view list \<Rightarrow> bool" where
  "proper_spans spans \<longleftrightarrow>
     (\<forall>sp \<in> set spans. sv_span_id sp \<noteq> [] \<and> sv_has_parent_span_id sp = (sv_parent_span_id sp \<noteq> []))"

lemma proper_span_views:
  assumes "\<And>s. s \<in> set stored \<Longrightarrow> tsp_span_id s \<noteq> []"
  shows "proper_spans (map (\<lambda>(i, s). trace_span_view_of W i s) (enumerate 0 stored))"
  using assms by (auto simp: proper_spans_def trace_span_view_of_def Let_def in_set_enumerate_eq)

lemma parent_depth:
  assumes "span_depths spans = Some ds" "i < length spans" "proper_spans spans"
    and "parent_of (list_ex sv_has_parent_span_id spans) (span_index_by_id spans) i (spans ! i) = Some j"
  shows "j < length spans \<and> ds ! i = Suc (ds ! j)"
proof (cases "list_ex sv_has_parent_span_id spans")
  case True
  then have index: "span_index_by_id spans (sv_parent_span_id (spans ! i)) = Some j" using assms(4) by (simp add: parent_of_def)
  with assms(2,3) have "(j, i) \<in> parent_links spans"
    by (metis (mono_tags, lifting) case_prodI mem_Collect_eq nth_mem parent_links_def proper_spans_def span_index_bound)
  then have "depth_of spans i = map_option Suc (depth_of spans j)" "j < length spans"
    by (auto simp: depth_link dest: parent_links_bound)
  then show ?thesis using span_depths_nth(2) [OF assms(1) _ True] assms(2) by simp
next
  case False
  then show ?thesis using assms span_depths_nth(3) [OF assms(1)] by (auto simp: parent_of_def split: if_splits)
qed

definition boxes_apart :: "trace_graph_node \<Rightarrow> trace_graph_node \<Rightarrow> bool" where
  "boxes_apart a b \<longleftrightarrow> gn_x a + gn_width a \<le> gn_x b \<or> gn_x b + gn_width b \<le> gn_x a \<or>
     gn_y a + gn_height a \<le> gn_y b \<or> gn_y b + gn_height b \<le> gn_y a"

definition inside_canvas :: "trace_graph \<Rightarrow> trace_graph_node \<Rightarrow> bool" where
  "inside_canvas g a \<longleftrightarrow> 0 \<le> gn_x a \<and> gn_x a + gn_width a \<le> tg_width g \<and> 0 \<le> gn_y a \<and> gn_y a + gn_height a \<le> tg_height g"

lemmas measures = node_width_def node_height_def tiny_node_height_def x_gap_def y_gap_def margin_def
  column_x_def level_y_def span_height_def

lemma apart_places:
  assumes "(d, r) \<noteq> (d', r')"
  shows "boxes_apart (span_node p (column_x r) (level_y d) sp) (span_node p' (column_x r') (level_y d') sp')"
  using assms by (auto simp: boxes_apart_def span_node_def measures)

lemma apart_root:
  assumes "0 < d"
  shows "boxes_apart (root_node trace x) (span_node p (column_x r) (level_y d) sp)"
  using assms by (simp add: boxes_apart_def span_node_def root_node_def measures)

lemma places_distinct:
  assumes "i < j" "j < length ds"
  shows "(ds ! i, assign_rows c ds ! i) \<noteq> (ds ! j, assign_rows c ds ! j)"
  using distinct_places [of ds c] assms by (auto simp: distinct_conv_nth dest!: spec [of _ i] spec [of _ j])

lemma graph_nodes_apart:
  assumes "span_depths spans = Some ds" "graph = graph_of_depths trace spans links ids ds"
    and "i < j" "j < length (tg_nodes graph)"
  shows "boxes_apart (tg_nodes graph ! i) (tg_nodes graph ! j)"
proof -
  obtain j' where j: "j = Suc j'" "j' < length spans" using assms(2-4) by (cases j) (auto simp: graph_of_depths_def Let_def)
  show ?thesis
  proof (cases i)
    case 0
    then show ?thesis using j span_depths_nth(4) [OF assms(1) j(2)]
      by (simp add: assms(2) graph_of_depths_def Let_def apart_root split_beta nth_enumerate_eq)
  next
    case (Suc i')
    with j assms(3) places_distinct [of i' j' ds] show ?thesis
      by (auto simp: assms(2) graph_of_depths_def Let_def split_beta nth_enumerate_eq
          span_depths_nth(1) [OF assms(1)] intro!: apart_places)
  qed
qed

lemma sdiv_nonneg: "0 \<le> a \<Longrightarrow> 0 < b \<Longrightarrow> a sdiv b = a div b" for a b :: int
  by (cases "a = 0") (simp_all add: signed_divide_int_def)

lemma graph_inside:
  assumes "span_depths spans = Some ds" "graph = graph_of_depths trace spans links ids ds" "a \<in> set (tg_nodes graph)"
  shows "inside_canvas graph a"
proof -
  let ?rows = "assign_rows (\<lambda>_. 0) ds"
  consider "a = root_node trace (margin + (int (max_or_zero ?rows) * (node_width + x_gap)) sdiv 2)"
    | p i where "i < length spans" "a = span_node p (column_x (?rows ! i)) (level_y (ds ! i)) (spans ! i)"
    using assms(3) by (force simp: assms(2) graph_of_depths_def Let_def in_set_enumerate_eq)
  then show ?thesis
  proof cases
    case 1
    then show ?thesis
      by (simp add: assms(2) graph_of_depths_def Let_def inside_canvas_def root_node_def measures sdiv_nonneg)
  next
    case 2
    then have "?rows ! i \<le> max_or_zero ?rows" "ds ! i \<le> max_or_zero ds"
      using span_depths_nth(1) [OF assms(1)] by (simp_all add: max_or_zero_ge)
    then show ?thesis
      by (auto simp: 2 assms(2) graph_of_depths_def Let_def inside_canvas_def span_node_def measures)
  qed
qed

lemma graph_size:
  assumes "span_depths spans = Some ds" "graph = graph_of_depths trace spans links ids ds" "spans \<noteq> []"
  shows "tg_width graph \<le> 24 * 2 + int (length spans) * 210" "tg_height graph \<le> 24 * 2 + (int (length spans) + 1) * 106"
proof -
  have "max_or_zero ds \<le> length spans"
    using span_depths_nth [OF assms(1)] by (auto intro!: max_or_zero_le simp: in_set_conv_nth)
  then show "tg_height graph \<le> 24 * 2 + (int (length spans) + 1) * 106"
    by (simp add: assms(2) graph_of_depths_def Let_def measures)
  have "max_or_zero (assign_rows (\<lambda>_. 0) ds) \<le> length spans - 1"
    using assign_rows_less [of _ "\<lambda>_. 0" ds 0] span_depths_nth(1) [OF assms(1)] by (fastforce intro!: max_or_zero_le)
  moreover have "length spans > 0" using assms(3) by simp
  ultimately have "int (max_or_zero (assign_rows (\<lambda>_. 0) ds)) \<le> int (length spans) - 1" by linarith
  then show "tg_width graph \<le> 24 * 2 + int (length spans) * 210"
    by (simp add: assms(2) graph_of_depths_def Let_def measures)
qed

lemma graph_edges_down:
  assumes "span_depths spans = Some ds" "proper_spans spans"
    and "graph = graph_of_depths trace spans (list_ex sv_has_parent_span_id spans) (span_index_by_id spans) ds"
    and "e \<in> set (tg_edges graph)"
  shows "ge_y1 e < ge_y_mid e \<and> ge_y_mid e < ge_y2 e \<and> ge_y1 e < ge_arrow_base_y e"
proof -
  obtain i box where i: "i < length spans"
    and box: "box = (case parent_of (list_ex sv_has_parent_span_id spans) (span_index_by_id spans) i (spans ! i) of
        None \<Rightarrow> (0, margin, node_height)
      | Some j \<Rightarrow> (column_x (assign_rows (\<lambda>_. 0) ds ! j), level_y (ds ! j), span_height (spans ! j)))"
    and e: "ge_y1 e = fst (snd box) + snd (snd box)" "ge_y2 e = level_y (ds ! i) - 8"
      "ge_y_mid e = ge_y1 e + (ge_y2 e - ge_y1 e) sdiv 2" "ge_arrow_base_y e = ge_y2 e - 8"
    using assms(4)
    by (auto simp: assms(3) graph_of_depths_def Let_def in_set_enumerate_eq span_edge_def split: option.splits)
  have "fst (snd box) + snd (snd box) + 54 \<le> level_y (ds ! i)"
  proof (cases "parent_of (list_ex sv_has_parent_span_id spans) (span_index_by_id spans) i (spans ! i)")
    case None
    then show ?thesis using span_depths_nth(4) [OF assms(1) i] by (simp add: box measures)
  next
    case (Some j)
    then show ?thesis using parent_depth [OF assms(1) i assms(2) Some] by (simp add: box measures)
  qed
  then have gap: "ge_y2 e - ge_y1 e \<ge> 46" using e(1,2) by simp
  then have "ge_y_mid e = ge_y1 e + (ge_y2 e - ge_y1 e) div 2" by (simp add: e(3) sdiv_nonneg)
  with gap show ?thesis unfolding e(4) by linarith
qed


section \<open>XML\<close>

text \<open>Whether a text ends with the end of a tag; every suffix of it does, too.\<close>

definition ends_tag :: "string list \<Rightarrow> bool" where
  "ends_tag cs \<longleftrightarrow> cs = [] \<or> last cs = ''>''"

abbreviation shown :: "string list \<Rightarrow> string list" where
  "shown \<equiv> filter (\<lambda>c. \<not> xml_space c)"

lemma xml_space_chars [simp]:
  "xml_space [CHR 0x0A]" "xml_space '' ''" "\<not> xml_space ''<''" "\<not> xml_space ''>''" "\<not> xml_space ''/''"
  "\<not> xml_space ''!''" "\<not> xml_space ''?''"
  by (simp_all add: xml_space_def is_whitespace_def byte_def)

lemma visible_trims [simp]:
  "shown (trim_start_list cs) = shown cs" "shown (trim_end_list cs) = shown cs"
proof -
  have drop: "shown (dropWhile xml_space xs) = shown xs" for xs by (induction xs) auto
  then show "shown (trim_start_list cs) = shown cs" by (simp add: trim_start_list_def)
  have "shown (rev (dropWhile xml_space (rev cs))) = rev (shown (dropWhile xml_space (rev cs)))" by (simp add: rev_filter)
  then show "shown (trim_end_list cs) = shown cs" by (simp add: trim_end_list_def drop rev_filter)
qed

lemma visible_layout [simp]: "shown (new_line out) = shown out" "shown (indent n) = []"
  by (simp_all add: new_line_def indent_def)

lemma ends_tag_Cons: "ends_tag (c # cs) \<Longrightarrow> ends_tag cs"
  by (auto simp: ends_tag_def split: if_splits)

lemma ends_tag_append: "ends_tag (xs @ cs) \<Longrightarrow> ends_tag cs"
  by (induction xs) (auto dest: ends_tag_Cons)

lemma until_gt_append:
  assumes "ends_tag cs" "cs \<noteq> []"
  shows "cs = fst (until_gt cs) @ ''>'' # snd (until_gt cs)"
proof -
  have "''>'' \<in> set cs" using assms last_in_set by (fastforce simp: ends_tag_def)
  then obtain xs ys where "cs = xs @ ''>'' # ys" "''>'' \<notin> set xs" using split_list_first by metis
  moreover from this have "takeWhile (\<lambda>c. c \<noteq> ''>'') cs = xs" "dropWhile (\<lambda>c. c \<noteq> ''>'') cs = ''>'' # ys"
    by (auto simp: takeWhile_append dropWhile_append takeWhile_eq_all_conv)
  ultimately show ?thesis by (simp add: until_gt_def)
qed

lemma through_gt_append:
  assumes "ends_tag cs" "cs \<noteq> []"
  shows "cs = fst (through_gt cs) @ snd (through_gt cs)"
proof -
  have "''>'' \<in> set cs" using assms last_in_set by (fastforce simp: ends_tag_def)
  then show ?thesis using until_gt_append [OF assms] by (simp add: through_gt_def until_gt_def)
qed

text \<open>A tag from its first character on, up to its end, and what follows it.\<close>

lemma visible_tag:
  assumes "ends_tag cs" "cs \<noteq> []"
  shows "shown (fst (through_gt cs)) @ shown (snd (through_gt cs)) = shown cs" "ends_tag (snd (through_gt cs))"
    and "shown (fst (until_gt cs)) @ ''>'' # shown (snd (until_gt cs)) = shown cs" "ends_tag (snd (until_gt cs))"
proof -
  note through = through_gt_append [OF assms] and until = until_gt_append [OF assms]
  show "shown (fst (through_gt cs)) @ shown (snd (through_gt cs)) = shown cs"
    using arg_cong [OF through, of shown] by simp
  show "shown (fst (until_gt cs)) @ ''>'' # shown (snd (until_gt cs)) = shown cs"
    using arg_cong [OF until, of shown] by simp
  show "ends_tag (snd (through_gt cs))" using assms(1) by (subst (asm) through) (rule ends_tag_append)
  then show "ends_tag (snd (until_gt cs))" by (simp add: through_gt_def)
qed

lemma visible_text:
  "shown (takeWhile (\<lambda>x. x \<noteq> ''<'') cs) @ shown (dropWhile (\<lambda>x. x \<noteq> ''<'') cs) = shown cs"
  by (simp flip: filter_append)

lemma visible_xml_loop:
  assumes "ends_tag cs"
  shows "shown (xml_loop depth out cs) = shown out @ shown cs"
  using assms
proof (induction depth out cs rule: xml_loop.induct)
  case (2 depth out c cs)
  note ends = ends_tag_Cons [OF "2.prems"]
  consider rest where "c = ''<''" "cs = ''/'' # rest"
    | d rest where "c = ''<''" "cs = d # rest" "d = ''!'' \<or> d = ''?''"
    | d rest where "c = ''<''" "cs = d # rest" "d \<noteq> ''/''" "d \<noteq> ''!''" "d \<noteq> ''?''"
    | "c \<noteq> ''<''" "\<not> xml_space c" | "c \<noteq> ''<''" "xml_space c"
    using "2.prems" by (cases cs) (auto simp: ends_tag_def)
  then show ?case
  proof cases
    case 1
    then have "ends_tag rest" "rest \<noteq> []" using ends ends_tag_Cons by (auto simp: ends_tag_def)
    with 1 "2.IH"(1) [OF 1] show ?thesis using visible_tag [of rest] by simp
  next
    case 2
    then show ?thesis using "2.IH"(2) [OF 2(1,2)] visible_tag [OF ends] by auto
  next
    case 3
    then show ?thesis using "2.IH"(3) [OF 3(1,2)] visible_tag [OF ends] by (simp add: Let_def)
  next
    case 4
    have "ends_tag (dropWhile (\<lambda>x. x \<noteq> ''<'') cs)" using ends ends_tag_append by (metis takeWhile_dropWhile_id)
    moreover have "shown (trim_end_list (trim_start_list (c # takeWhile (\<lambda>x. x \<noteq> ''<'') cs))) \<noteq> []" using 4 by simp
    then have "trim_end_list (trim_start_list (c # takeWhile (\<lambda>x. x \<noteq> ''<'') cs)) \<noteq> []" by fastforce
    ultimately show ?thesis using 4 "2.IH"(4) by (simp add: Let_def visible_text)
  next
    case 5
    then show ?thesis using "2.IH"(6) ends by simp
  qed
qed simp

text \<open>
  C39. Indenting the XML of a body loses nothing: when the text ends with the end of a tag, its characters other than
  white space come out in the same order, none added and none dropped, whatever its tags are.
\<close>

theorem pretty_xml_keeps_text:
  assumes "ends_tag (trim_end_list (trim_start_list cs))"
  shows "filter (\<lambda>c. \<not> xml_space c) (pretty_xml_chars cs) = filter (\<lambda>c. \<not> xml_space c) cs"
  by (simp add: pretty_xml_chars_def visible_xml_loop [OF assms])

end
