(* ===== verification/Web_Examples.thy ===== *)
theory Web_Examples
  imports Runtime_Examples Web_Counts Web_Redirects Web_Sns_Laws Web_Trace_Laws
begin

text \<open>
  The theorems about the web interface applied to small forms and the databases of the other examples.
\<close>

definition demo_web :: web_ext where
  "demo_web =
     \<lparr>wx_render = (\<lambda>_. Inr []), wx_render_error = (\<lambda>_ _ m. Inr m), wx_urlencode = (\<lambda>s. aws_uri_encode s True),
      wx_json_minify = (\<lambda>d. Inr (Inr d)), wx_json_pretty = (\<lambda>d. Inr (Inr d)), wx_json_keys = (\<lambda>_. Inr (Some 0)),
      wx_attributes = (\<lambda>_. Some []), wx_notification = (\<lambda>_ _ _ m _. m), wx_rfc3339 = (\<lambda>_. []),
      wx_pretty_map = (\<lambda>_. Inr ''{}''), wx_pretty_pairs = (\<lambda>_. Inr ''[]''), wx_utf8_lossy = id,
      wx_time_text = (\<lambda>_. []), wx_naive_text = (\<lambda>_. []), wx_header_value = list_all visible, wx_default_policy = ''{}''\<rparr>"

definition demo_web_env :: web_env where
  "demo_web_env = \<lparr>wn_now = 0, wn_db_now = 0, wn_uuid = (\<lambda>i. replicate i (CHR ''u'')), wn_clock = int, wn_publish = demo_publish_env\<rparr>"

lemma demo_encodes: "percent_encodes demo_web"
  by (simp add: percent_encodes_def demo_web_def)

theorem system_keeps_integrity_witness:
  "app_inv (snd (serve_form demo_web (ae_texts demo_app) demo_web_env ClearTraces
     (snd (serve_request demo_app Enforce demo_app_env demo_parts (Inr [])
       \<lparr>app_iam = migrated_iam_db ''AIDA'' 0, app_sns = empty_sns_db, app_sqs = empty_db, app_traces = migrated_trace_db\<rparr>))))"
  by (rule system_keeps_integrity [where A = demo_app and mode = Enforce])
    (intro system_reachable.intros demo_app_env_good)

theorem web_delete_policy_exact_witness:
  "managed_policies (snd (web_delete_managed_policy demo_web 1 demo_iam_db)) = []"
proof -
  obtain r db' where run: "web_delete_managed_policy demo_web 1 demo_iam_db = (r, db')" by (metis surj_pair)
  from web_delete_policy_exact [OF demo_iam_inv run] run show ?thesis by (simp add: demo_iam_db_def)
qed

theorem web_attachments_stay_in_account_witness:
  "same_account (snd (iam_form_handler demo_web demo_texts demo_web_env (AttachPolicy 1 1) demo_iam_db))"
proof -
  have "same_account demo_iam_db" by (simp add: same_account_def demo_iam_db_def migrated_iam_db_def)
  from web_attachments_stay_in_account [OF demo_iam_inv this] show ?thesis .
qed

theorem iam_dashboard_counts_exact_witness:
  "\<exists>ps policies. load_principal_summaries demo_web demo_iam_db = Inr ps \<and>
     load_managed_policy_summaries demo_web demo_iam_db = Inr policies \<and>
     ids_account_count (iam_dashboard_stats_of ps policies) = 1"
  using iam_dashboard_counts_exact [OF demo_iam_inv, of demo_web] by (force simp: demo_iam_db_def migrated_iam_db_def)

theorem queue_counts_consistent_witness:
  "\<exists>v. queue_summary_of int demo_open_queue demo_open_db = Inr v \<and> qs_visible_message_count v \<le> qs_message_count v"
  using queue_counts_consistent [of int demo_open_queue demo_open_db] by fastforce


lemma demo_trims:
  "trim [] = []" "trim ''r'' = ''r''" "trim ''a'' = ''a''" "trim ''t'' = ''t''" "trim ''1'' = ''1''" "trim ''hi'' = ''hi''"
  "trim ''a:b'' = ''a:b''"
  by (simp_all add: trim_def trim_chars_def utf8_width_def byte_def is_whitespace_def)

text \<open>A form without a name, which asks to be sent to another site.\<close>

definition demo_hostile_form :: create_topic_form where
  "demo_hostile_form = \<lparr>ctf_name = [], ctf_region = ''r'', ctf_account_id = ''a'', ctf_display_name = [],
     ctf_return_to = Some ''//evil.example''\<rparr>"

theorem web_redirects_stay_on_site_witness:
  "\<exists>target. fst (web_form_handler demo_web demo_texts demo_web_env (SnsForm (CreateTopicForm demo_hostile_form)) demo_state) =
     Inr (Redirect target) \<and> within ''/sns'' target"
proof -
  have "\<exists>target. fst (web_form_handler demo_web demo_texts demo_web_env (SnsForm (CreateTopicForm demo_hostile_form)) demo_state) =
      Inr (Redirect target)"
    by (simp add: web_create_topic_def demo_hostile_form_def Let_def or_redirect_def web_validate_required_def
        create_topic_error_redirect_def demo_trims)
  then obtain target where run: "fst (web_form_handler demo_web demo_texts demo_web_env
      (SnsForm (CreateTopicForm demo_hostile_form)) demo_state) = Inr (Redirect target)" by blast
  from web_redirects_stay_on_site [OF run] run show ?thesis by simp
qed

theorem web_publish_exact_witness:
  "\<exists>r qdb rows. web_publish_message demo_web demo_texts demo_publish_env 1 \<lparr>pbf_message = ''hi'', pbf_subject = []\<rparr>
     (demo_sns_db, demo_open_db) = (r, (demo_sns_db, qdb)) \<and> messages qdb = rows \<and> length rows = 1"
proof -
  obtain r ndb qdb where run: "web_publish_message demo_web demo_texts demo_publish_env 1 \<lparr>pbf_message = ''hi'', pbf_subject = []\<rparr>
      (demo_sns_db, demo_open_db) = (r, (ndb, qdb))" by (metis surj_pair)
  have topic: "web_load_topic 1 demo_sns_db = Inr demo_topic"
    by (simp add: web_load_topic_def sqlite_get_topic_by_id_def demo_sns_db_def demo_topic_def)
  have message: "trim (pbf_message \<lparr>pbf_message = ''hi'', pbf_subject = []\<rparr>) \<noteq> []" by (simp add: demo_trims)
  have ids: "inj (pe_sqs_message_id demo_publish_env)" "range (pe_sqs_message_id demo_publish_env) \<inter> used_ids demo_open_db = {}"
    by (simp_all add: demo_publish_env_def inj_def used_ids_def demo_open_db_def)
  have target: "web_target (queues demo_open_db) demo_subscription = Some demo_open_queue"
    by (simp add: web_target_def web_parse_sqs_endpoint_arn_def demo_subscription_def demo_open_db_def demo_open_queue_def
        demo_queue_def default_sqs_queue_def)
  have subs: "filter (\<lambda>s. sub_protocol s = ''sqs'') (filter (\<lambda>s. sub_topic_arn s = topic_arn_of demo_topic) (subscriptions demo_sns_db)) =
      [demo_subscription]"
    by (simp add: demo_sns_db_def demo_subscription_def topic_arn_of_def sns_arn_def demo_topic_def)
  from web_publish_exact [OF topic message ids run] target run show ?thesis
    unfolding subs Let_def by (auto simp: demo_open_db_def)
qed

definition demo_colon_form :: create_topic_form where
  "demo_colon_form = \<lparr>ctf_name = ''t'', ctf_region = ''a:b'', ctf_account_id = ''1'', ctf_display_name = [], ctf_return_to = None\<rparr>"

theorem web_colon_topic_stuck_witness:
  "fst (web_create_topic demo_web demo_texts 0 demo_colon_form demo_sns_db) =
     Inl (web_internal_error ''created topic could not be loaded'')"
proof -
  obtain r db' where run: "web_create_topic demo_web demo_texts 0 demo_colon_form demo_sns_db = (r, db')" by (metis surj_pair)
  have trims: "trim (ctf_name demo_colon_form) = ''t''" "trim (ctf_region demo_colon_form) = ''a:b''"
    "trim (ctf_account_id demo_colon_form) = ''1''" by (simp_all add: demo_colon_form_def demo_trims)
  have ok: "web_validate_topic_name ''t'' = Inr ()" by code_simp
  have fresh: "(''t'', ''a:b'', ''1'') \<notin> topic_key ` set (topics demo_sns_db)"
    by (simp add: topic_key_def demo_sns_db_def demo_topic_def)
  have "r = Inl (web_internal_error ''created topic could not be loaded'')"
    using web_colon_topic_stuck [of demo_colon_form demo_sns_db demo_web demo_texts 0 r db'] ok fresh demo_sns_inv(1) run
    unfolding trims by simp
  with run show ?thesis by simp
qed

definition demo_span :: trace_span where
  "demo_span = \<lparr>tsp_request_id = ''r'', tsp_span_id = ''1'', tsp_parent_span_id = None, tsp_name = ''request'',
     tsp_layer = ''runtime'', tsp_started_at = 0, tsp_completed_at = 0, tsp_duration_ms = 3, tsp_status = ''ok'', tsp_attributes = []\<rparr>"

definition demo_child :: trace_span where
  "demo_child = demo_span\<lparr>tsp_span_id := ''2'', tsp_parent_span_id := Some ''1''\<rparr>"


theorem pretty_xml_keeps_text_witness:
  "filter (\<lambda>c. \<not> xml_space c) (pretty_xml_chars (map (\<lambda>c. [c]) ''<a> <b>x</b></a>'')) =
     filter (\<lambda>c. \<not> xml_space c) (map (\<lambda>c. [c]) ''<a> <b>x</b></a>'')"
proof -
  have "ends_tag (trim_end_list (trim_start_list (map (\<lambda>c. [c]) ''<a> <b>x</b></a>'')))" by code_simp
  from pretty_xml_keeps_text [OF this] show ?thesis .
qed

end
