(* ===== verification/Spec2Isabelle.thy ===== *)
theory Spec2Isabelle
  imports Policy Core Router Sqs_Store Sqs_Store_Laws Sqs_Delivery Sqs_Validation Sqs_Attributes
    Sqs_Queue_Actions Sqs_Queue_Laws Sqs_Message_Actions Sqs_Message_Laws Sqs_Receive Sqs_Service Sns_Service
    Iam_Mediation Sts_Service Sig_V4_Laws Trace_Store Runtime Request_Ids Runtime_Laws Answers Runtime_Examples
    Web_App Web_Laws Web_Iam_Laws Web_Counts Web_Redirects Web_Sns_Laws Web_Trace_Laws Web_Examples
begin

text \<open>
  \<^bold>\<open>hiraeth, verified\<close>

  hiraeth is a local emulator of AWS services: an HTTP server that authenticates a request, finds the
  service it is for, asks an IAM authorizer whether the caller may do it, validates it, and lets the
  service run it against an SQLite store. This development models the path of a request from the wire
  to the tables and back: the signature, the identity, the router, the IAM, SQS, SNS and STS services,
  the publication of messages from SNS topics into SQS queues, the policy language and the authorizer
  that guard all of it, and the answer with its trace; and beside it the web interface, a second server
  on the same tables, with its forms and pages.

  \<^bold>\<open>Parts of the program and the theories that model them\<close>

  \<^item> \<^verbatim>\<open>Hiraeth_Prelude\<close>: \<^verbatim>\<open>Result\<close> as a sum (\<^verbatim>\<open>Inl\<close> the error) with \<^verbatim>\<open>?\<close> as \<open>ebind\<close>; fallible store
    operations as functions \<open>'s \<Rightarrow> ('e + 'a) \<times> 's\<close> composed by \<open>sbind\<close>; the predicate \<open>keeps\<close> for
    operations that preserve an invariant, with its rules.
  \<^item> \<^verbatim>\<open>Rust_Std\<close>: what the sources use of the standard library: strings as UTF-8 byte lists with their
    decoding into characters, trimming, splitting, printing and parsing of integers (\<open>i64\<close> bounds
    written out), hash maps as association lists, and the SQL functions of the statements.
  \<^item> \<^verbatim>\<open>Policy\<close>: \<^verbatim>\<open>hiraeth_core/src/auth/\<close> and \<^verbatim>\<open>arn_util.rs\<close>: principals, policy documents, matching,
    evaluation. The locale \<open>deny_overrides\<close> states what a combination of decisions promises; it is
    interpreted on the closure of \<^verbatim>\<open>evaluate_matching_statements\<close> here and on the one of
    \<^verbatim>\<open>combine_policy_results\<close> in \<^verbatim>\<open>Router\<close>.
  \<^item> \<^verbatim>\<open>Core\<close>: requests, responses, API and store errors, error rendering, \<^verbatim>\<open>AwsAction\<close>,
    \<^verbatim>\<open>TypedAwsActionAdapter\<close> and the action registry (\<^verbatim>\<open>hiraeth_core\<close>: \<^verbatim>\<open>request.rs\<close>, \<^verbatim>\<open>protocol.rs\<close>,
    \<^verbatim>\<open>action.rs\<close>, \<^verbatim>\<open>lib.rs\<close>), and the record \<open>ext\<close> of the external crates.
  \<^item> \<^verbatim>\<open>Router\<close>: \<^verbatim>\<open>ServiceRouter::route_traced\<close> of \<^verbatim>\<open>hiraeth_router\<close> and the authorizer of
    \<^verbatim>\<open>hiraeth_iam/src/authorize.rs\<close>.
  \<^item> \<^verbatim>\<open>Sqs_Store\<close>: the rows and the trait of \<^verbatim>\<open>hiraeth_store/src/sqs.rs\<close> (as the record \<open>sqs_store\<close> over
    a state) and its SQLite implementation in \<^verbatim>\<open>hiraeth_store_sqlx/src/sqs.rs\<close> over three tables, one
    definition per statement, with the constraints of the migrations. \<^verbatim>\<open>Sqs_Store_Laws\<close> has the
    integrity invariant \<open>sqs_inv\<close>, the statements as data and the databases reachable by them;
    \<^verbatim>\<open>Sqs_Delivery\<close> what receiving and deleting promise across sequences of statements.
  \<^item> \<^verbatim>\<open>Sqs_Validation\<close>: \<^verbatim>\<open>hiraeth_sqs\<close>: \<^verbatim>\<open>error.rs\<close>, \<^verbatim>\<open>util.rs\<close>, \<^verbatim>\<open>queue_support.rs\<close>, \<^verbatim>\<open>tag_support.rs\<close>.
  \<^item> \<^verbatim>\<open>Sqs_Attributes\<close>: \<^verbatim>\<open>queue_attribute_support.rs\<close>.
  \<^item> \<^verbatim>\<open>Sqs_Queue_Actions\<close>: the handlers of the queue and tag actions, and the locale \<open>sqs_store_contract\<close>,
    the laws of a store on which the handlers rely, interpreted on \<open>sqlite_sqs_store\<close>;
    \<^verbatim>\<open>Sqs_Queue_Laws\<close> proves what these handlers do on that store.
  \<^item> \<^verbatim>\<open>Sqs_Message_Actions\<close>, \<^verbatim>\<open>Sqs_Message_Laws\<close>: sending, deleting and changing visibility, single and
    in batches, and \<^verbatim>\<open>enqueue_message\<close> of \<^verbatim>\<open>operations.rs\<close>.
  \<^item> \<^verbatim>\<open>Sqs_Receive\<close>: \<^verbatim>\<open>receive_message.rs\<close> with its polling loop.
  \<^item> \<^verbatim>\<open>Sqs_Service\<close>: \<^verbatim>\<open>auth.rs\<close>, \<^verbatim>\<open>actions/mod.rs\<close>, the action declarations and \<^verbatim>\<open>lib.rs\<close>: the service as
    the router sees it.
  \<^item> \<^verbatim>\<open>Query_Protocol\<close>: the AWS query protocol of \<^verbatim>\<open>hiraeth_core\<close> (\<^verbatim>\<open>protocol.rs\<close>, \<^verbatim>\<open>action.rs\<close>, \<^verbatim>\<open>macros.rs\<close>):
    parameters from the query string and the form body, the action name, typed actions that decode
    parameters and answer XML.
  \<^item> \<^verbatim>\<open>Tag_Rows\<close>: laws of tag tables that the stores share.
  \<^item> \<^verbatim>\<open>Sns_Store\<close>: the trait of \<^verbatim>\<open>hiraeth_store/src/sns.rs\<close> and its SQLite implementation in
    \<^verbatim>\<open>hiraeth_store_sqlx/src/sns.rs\<close> over topics, subscriptions and tags; \<^verbatim>\<open>Sns_Store_Laws\<close> has the
    integrity invariant and the abstract store, a map of topics and a map of subscriptions, that the
    tables refine.
  \<^item> \<^verbatim>\<open>Sns_Support\<close>, \<^verbatim>\<open>Sns_Actions\<close>: \<^verbatim>\<open>hiraeth_sns\<close>: \<^verbatim>\<open>error.rs\<close>, \<^verbatim>\<open>action_support.rs\<close> and the fourteen
    handlers on topics, subscriptions and tags, with the locale \<open>sns_store_contract\<close>, the laws of a
    store on which they rely, interpreted on \<open>sqlite_sns_store\<close>; \<^verbatim>\<open>Sns_Actions_Laws\<close> proves what they do.
  \<^item> \<^verbatim>\<open>Sns_Publish\<close>, \<^verbatim>\<open>Sns_Publish_Laws\<close>: \<^verbatim>\<open>publish.rs\<close> and \<^verbatim>\<open>store.rs\<close>: the loop of deliveries over the pair
    of the SNS and SQS stores, through \<^verbatim>\<open>enqueue_message\<close> of SQS and the authorization of one service
    by the resource policy of another. The locale \<open>sns_service_contract\<close> joins the two contracts.
  \<^item> \<^verbatim>\<open>Sns_Service\<close>: \<^verbatim>\<open>auth.rs\<close>, \<^verbatim>\<open>actions/mod.rs\<close>, the declarations of the fifteen actions and \<^verbatim>\<open>lib.rs\<close>.
  \<^item> \<^verbatim>\<open>Iam_Store\<close>: the four traits of \<^verbatim>\<open>hiraeth_store/src/iam/\<close> (one record \<open>iam_store\<close>) and their SQLite
    implementation in \<^verbatim>\<open>hiraeth_store_sqlx/src/iam/\<close> over principals, access keys, inline policies,
    managed policies and attachments. \<^verbatim>\<open>Iam_Store_Laws\<close> has the integrity invariant \<open>iam_inv\<close>.
  \<^item> \<^verbatim>\<open>Iam_Support\<close>, \<^verbatim>\<open>Iam_Actions\<close>, \<^verbatim>\<open>Iam_Service\<close>: \<^verbatim>\<open>hiraeth_iam\<close>: \<^verbatim>\<open>error.rs\<close>, \<^verbatim>\<open>actions/util.rs\<close>, the fourteen
    handlers, the checks of \<^verbatim>\<open>auth.rs\<close>, the declarations and \<^verbatim>\<open>lib.rs\<close> with \<^verbatim>\<open>resolve_identity\<close>. The locale
    \<open>iam_store_contract\<close> has the laws of a store on which the handlers rely, interpreted on
    \<open>sqlite_iam_store\<close>. \<^verbatim>\<open>Iam_Rights\<close> defines the rights of a principal and what statements do to them;
    \<^verbatim>\<open>Iam_Laws\<close> shows what the actions do, \<^verbatim>\<open>Iam_Mediation\<close> whose rights they change and which check
    they resolved for it.
  \<^item> \<^verbatim>\<open>Sts_Service\<close>: \<^verbatim>\<open>hiraeth_sts\<close>, one action that reads.
  \<^item> \<^verbatim>\<open>Uri_Encoding\<close>, \<^verbatim>\<open>Sig_V4\<close>, \<^verbatim>\<open>Sig_V4_Laws\<close>: percent encoding and \<^verbatim>\<open>hiraeth_auth\<close>: the authorization header,
    the canonical request, the signature, the authenticated request.
  \<^item> \<^verbatim>\<open>Trace_Store\<close>: \<^verbatim>\<open>hiraeth_core/src/tracing.rs\<close> and \<^verbatim>\<open>hiraeth_store_sqlx/src/trace.rs\<close>.
  \<^item> \<^verbatim>\<open>Runtime\<close>: \<^verbatim>\<open>hiraeth_runtime\<close> (\<^verbatim>\<open>app.rs\<close>, \<^verbatim>\<open>request.rs\<close>, \<^verbatim>\<open>serve.rs\<close>), \<^verbatim>\<open>hiraeth_http\<close> and the configuration: the
    record \<open>app_state\<close> of all tables and \<open>serve_request\<close> from the wire to the answer. \<^verbatim>\<open>Request_Ids\<close> is about
    the rewriting of answers, \<^verbatim>\<open>Runtime_Laws\<close> about the tables, \<^verbatim>\<open>Answers\<close> about what is sent and
    traced, and \<^verbatim>\<open>Runtime_Examples\<close> applies all of it to one request.
  \<^item> \<^verbatim>\<open>Web_Support\<close>: \<^verbatim>\<open>hiraeth_web\<close>: \<^verbatim>\<open>error.rs\<close>, \<^verbatim>\<open>components.rs\<close> (components as data, one constructor per template), the
    redirects that carry messages and form values, the checks of fields. What \<^verbatim>\<open>hiraeth_web\<close> uses of other crates
    is in \<open>web_ext\<close>; a function that its three modules repeat is one definition.
  \<^item> \<^verbatim>\<open>Web_Iam\<close>, \<^verbatim>\<open>Web_Sqs\<close>, \<^verbatim>\<open>Web_Sns\<close>: the forms of \<^verbatim>\<open>iam/mod.rs\<close>, \<^verbatim>\<open>sqs/mod.rs\<close>, \<^verbatim>\<open>sns/mod.rs\<close>, each handler as an operation
    on the tables; \<^verbatim>\<open>Web_Iam_Pages\<close>, \<^verbatim>\<open>Web_Sqs_Pages\<close>, \<^verbatim>\<open>Web_Sns_Pages\<close>: their pages, fragments and listings as functions
    from the tables to the fields of a template.
  \<^item> \<^verbatim>\<open>Web_Traces\<close>: \<^verbatim>\<open>traces.rs\<close>: the list with its filters, the indentation of XML, the graph of the spans.
  \<^item> \<^verbatim>\<open>Web_App\<close>: the routes of all modules as the datatypes \<open>web_form\<close> and \<open>web_page\<close>, from a form or page to the answer.
    \<^verbatim>\<open>Web_Laws\<close> is about API and forms on one set of tables, \<^verbatim>\<open>Web_Iam_Laws\<close>, \<^verbatim>\<open>Web_Sns_Laws\<close>, \<^verbatim>\<open>Web_Trace_Laws\<close>,
    \<^verbatim>\<open>Web_Counts\<close> and \<^verbatim>\<open>Web_Redirects\<close> about the parts, and \<^verbatim>\<open>Web_Examples\<close> applies the theorems.
  \<^item> This theory: requests end to end, from the router to the tables.

  \<^bold>\<open>What is shown\<close>

  \<^item> Policies: a denial wins, order and repetition of statements do not matter, resource and identity
    statements are disjoint, printed user ARNs read back (and, for users below a path, do not match).
  \<^item> Authorization: in enforce mode nothing changes state without a check that was allowed; when
    exactly a request is allowed; the other modes; the check is about the queue that is acted on.
  \<^item> Store: every reachable database is well-formed, whatever requests interleave, and every routed
    request keeps it so. Deleting a queue takes everything with it and nothing else.
  \<^item> Delivery: a message that was sent is delivered; no message is delivered twice within its lease;
    after the lease it is delivered again; the oldest come first; a receive gives as many as it can; a
    receipt handle deletes one message, once, and is void after redelivery; long polling ends.
  \<^item> Actions: creating a queue twice, its URL, attributes that read back as they were set and stay in
    range, tags that merge, complete pagination, batches that answer for each of their entries.
  \<^item> SNS: the tables refine a map of topics and a map of subscriptions; publishing is the sequential
    delivery to the subscriptions of the topic, each delivery independent of the others, none into a
    queue whose policy does not let the topic send; a published message is then received from the
    queue; listings are complete, attributes read back, a deleted topic is gone with its
    subscriptions and tags; the routed service keeps the integrity of both stores and a denying topic
    policy protects the topic.
  \<^item> IAM: a created user has no rights, a deleted one leaves none behind; a policy decides from the
    moment it is put or attached and detaching undoes attaching; a created policy is found under the
    ARN it was answered with; a created key authenticates.
  \<^item> Signatures: whatever verifies under the same signature and key agrees on method, path, query
    parameters, signed headers, date and body, unless SHA-256 or HMAC collide.
  \<^item> The server: in enforce mode no table of a service changes, and nobody's rights change, without an
    authenticated caller whose policies allowed a check about it; a deleted user gets 401 from then on;
    every request keeps the integrity of all tables, is answered with its request id, and leaves a
    trace that reads back as the exchange that took place.
  \<^item> The web interface: API requests and forms in any order keep the integrity of all tables, from the
    migrated database on; redirects stay on the site and their parameters arrive unchanged; forms
    attach policies only within an account, delete exactly the policy they name, and publish to each
    subscription with a queue once; the numbers on the pages are those of the tables; the graph of a
    trace is computed exactly when the parent links have no cycle, and is then a layout without
    overlaps; indenting XML loses nothing.

  \<^bold>\<open>Modelling decisions\<close>

  \<^item> Code of other crates is in the record \<open>ext\<close>: glob matching, JSON, MD5, base64, URL parsing, and
    the rendering of an error body. The \<^verbatim>\<open>serde\<close> decoders and encoders of requests and responses are
    in \<open>sqs_codec\<close>, \<open>sns_codec\<close>, \<open>iam_codec\<close> and \<open>sts_codec\<close>, the splitting of form-encoded text is
    \<open>form_parser\<close>, and what only one part uses of other crates is in \<open>sns_ext\<close>, \<open>iam_ext\<close>, \<open>sig_ext\<close> (hashes),
    \<open>trace_ext\<close> and \<open>app_ext\<close> (what \<^verbatim>\<open>http\<close> accepts as status and header). Theorems hold for all of them; where one relies on a documented property it is a
    hypothesis, and the witness supplies an instance.
  \<^item> The clock, UUIDs and random receipt handles are arguments (\<open>receive_env\<close>, \<open>sqs_env\<close>,
    \<open>publish_env\<close>, \<open>iam_env\<close>, \<open>app_env\<close>). Each reading
    of the clock in the code is an argument of its own, and no relation between them is assumed unless
    a theorem states it. Times are integers, in nanoseconds; the only overflow of \<^verbatim>\<open>chrono\<close> that the
    code handles, that of the end of a lease, is an error of the model.
  \<^item> Each SQL statement, or transaction, is one step on the tables. \<open>sqs_reachable\<close> and the delivery
    theorems quantify over arbitrary sequences of such steps, so they cover concurrent requests. A
    handler is a sequence of steps; other requests run between the rounds of \<^verbatim>\<open>ReceiveMessage\<close>.
    Failures of the SQLite file itself (I/O, locking) are not modelled. The rows a statement
    \<^verbatim>\<open>RETURNING\<close> gives are in table order.
  \<^item> The state of the SNS service is the pair of the SNS and the SQS tables. Where an SNS statement
    reads and then writes in one transaction, the pair is one step. Keys are \<^verbatim>\<open>AUTOINCREMENT\<close>, so the
    tables carry their sequence counters; page tokens of SNS listings are offsets of type \<^verbatim>\<open>usize\<close>
    and their sum wraps at 64 bits.
  \<^item> Log lines and the trace spans of router and services are left out: they do not influence responses
    or the tables of the services. The spans and the trace that the server itself records are modelled.
  \<^item> Ids that no statement reads (of access keys, attachments, traces) are left out; the order of the
    rows stands for them. A panic is \<open>None\<close>.
  \<^item> Bounds: \<open>receive_loop\<close> takes a list of rounds and is \<open>None\<close> when they run out; \<open>10 * w + 1\<close> rounds
    (201 for the longest wait) are proved enough. \<open>follow_pages\<close> takes as fuel one more than the number
    of queues, which is proved enough. \<open>span_depth\<close> is a partial
    function, and \<open>None\<close> where it does not return. Everything else is structurally recursive or
    has a measure.

  \<^bold>\<open>Not modelled\<close>

  What the templates of the web interface print, its static files, and the decoding of its paths, queries
  and forms by \<^verbatim>\<open>axum\<close>, the socket loops and the start-up of the servers, the environment variables of the
  configuration, migrations and connections of the database, the in-memory stores used by the tests,
  the seeding script and the tests.
\<close>

section \<open>Requests end to end\<close>

text \<open>
  The actions that take only a queue URL, from the router's entry point to the tables: the service
  resolves the check of the action on the queue the URL names, the authorizer decides, the handler runs.
\<close>

definition url_actions :: "string list" where
  "url_actions = [''DeleteQueue'', ''PurgeQueue'', ''ListQueueTags'']"

lemma registry_get_url_actions:
  "registry_get (sqs_registry E C store env) ''DeleteQueue'' = Some (sqs_action E C store ''DeleteQueue'' ''sqs:DeleteQueue''
     (dec_queue_url C) no_validation (handle_delete_queue E store) render_empty)"
  "registry_get (sqs_registry E C store env) ''PurgeQueue'' = Some (sqs_action E C store ''PurgeQueue'' ''sqs:PurgeQueue''
     (dec_queue_url C) no_validation (handle_purge_queue E store) render_empty)"
  "registry_get (sqs_registry E C store env) ''ListQueueTags'' = Some (sqs_action E C store ''ListQueueTags'' ''sqs:ListQueueTags''
     (dec_queue_url C) no_validation (handle_list_queue_tags E store) (render_json (enc_tags C)))"
  by (simp_all add: registry_get_def sqs_registry_unfold)

lemma sqs_action_fields:
  "act_resolve_authorization (sqs_action E C store name auth dec validate handler render) request s =
     map_err (sqs_error_response E) (ebind (parse_request_body dec request) (\<lambda>_.
       sqs_resolve_authorization E C store auth request s))"
  "act_validate (sqs_action E C store name auth dec validate handler render) request s =
     map_err (sqs_error_response E) (ebind (parse_request_body dec request) (\<lambda>p. validate request p s))"
  "parse_request_body dec request = Inr p \<Longrightarrow> handler request p s = (Inr r, s') \<Longrightarrow> render r = Inr resp \<Longrightarrow>
   act_handle (sqs_action E C store name auth dec validate handler render) request s = (resp, s')"
  by (simp_all add: sqs_action_def typed_action_adapter_def adapter_resolve_authorization_def adapter_validate_def
      adapter_handle_def)

lemma url_action_resolves:
  assumes "name \<in> set url_actions" "get_action_name_for_request request = Inr name"
    and "dec_queue_url C (ir_body (rr_request request)) = Inr url"
    and "dec_queue_url_field C (ir_body (rr_request request)) = Inr (Some url)"
    and "load_queue_from_url E store request url s = Inr q"
  shows "sqs_service_resolve_authorization E (sqs_registry E C store env) request s =
    Inr \<lparr>chk_action = ''sqs:'' @ name, chk_resource = get_queue_arn q, chk_resource_policy = Some (queue_policy E q)\<rparr>"
proof -
  have check: "sqs_resolve_authorization E C store auth request s =
      Inr \<lparr>chk_action = auth, chk_resource = get_queue_arn q, chk_resource_policy = Some (queue_policy E q)\<rparr>"
    if "auth \<notin> {''sqs:ListQueues'', ''sqs:CreateQueue'', ''sqs:GetQueueUrl''}" for auth
    using that assms(4,5) by (simp add: sqs_resolve_authorization_def get_relevant_queue_for_action_def
        get_queue_from_request_def get_queue_url_from_request_def queue_policy_def)
  from assms(1) consider "name = ''DeleteQueue''" | "name = ''PurgeQueue''" | "name = ''ListQueueTags''"
    by (auto simp: url_actions_def)
  then show ?thesis
    by cases (simp_all add: sqs_service_resolve_authorization_def assms(2,3) registry_get_url_actions
        sqs_action_fields parse_request_body_def check)
qed


text \<open>The externals of the examples, with a policy that denies everything to everybody on every queue.\<close>

definition locked_ext :: ext where
  "locked_ext = demo_ext\<lparr>x_policy := (\<lambda>_. Inr \<lparr>pol_version = ''2012-10-17'', pol_statement =
     [\<lparr>ps_effect = ''Deny'', ps_action = [''sqs:*'', ''*''], ps_resource = [''*''], ps_principal = [Any]\<rparr>]\<rparr>)\<rparr>"

lemma locked_load:
  "load_queue_from_url locked_ext (sqlite_sqs_store demo_texts) (demo_sqs_request op)
     ''http://localhost:4566/000000000000/jobs'' demo_db = Inr (demo_queue\<lparr>q_id := 1, q_created_at := 0\<rparr>)"
  using demo_sqs_load [of op] by (simp add: load_queue_from_url_def locked_ext_def parse_queue_url_def)

lemma demo_action_name:
  "op \<in> set operation_names \<Longrightarrow> get_action_name_for_request (demo_sqs_request op) = Inr op"
  unfolding get_action_name_for_request_def demo_sqs_request_def
  by (simp add: target_to_operation_name_def strip_prefix_append del: append.simps)


text \<open>
  An authorized \<^verbatim>\<open>DeleteQueue\<close> removes the queue with everything that belongs to it and nothing
  else: it answers with the empty response; afterwards the queue is not found under its key, no
  message and no tag of it is left, and all other queues, messages and tags are as before.
\<close>

theorem authorized_delete_queue:
  assumes "get_action_name_for_request request = Inr ''DeleteQueue''" "rr_service request = ''sqs''" "sqs_inv db"
    and "dec_queue_url C (ir_body (rr_request request)) = Inr url"
    and "dec_queue_url_field C (ir_body (rr_request request)) = Inr (Some url)"
    and "load_queue_from_url E (sqlite_sqs_store UE) request url db = Inr q"
    and "authorize E mode st request \<lparr>chk_action = ''sqs:DeleteQueue'', chk_resource = get_queue_arn q,
           chk_resource_policy = Some (queue_policy E q)\<rparr> db = Allow"
  shows "\<exists>db'. route_traced (iam_authorizer E mode st) [sqs_service E C (sqlite_sqs_store UE) env] request db =
             (Inr empty_response, db') \<and>
           sqlite_get_queue (q_name q) (q_region q) (q_account_id q) db' = Inr None \<and>
           queues db' = filter (\<lambda>x. q_id x \<noteq> q_id q) (queues db) \<and>
           messages db' = filter (\<lambda>r. m_queue_id (snd r) \<noteq> q_id q) (messages db) \<and>
           queue_tags db' = filter (\<lambda>t. fst t \<noteq> q_id q) (queue_tags db)"
proof -
  have q: "q \<in> set (queues db)"
    using assms(6) sqlite_get_Some
    by (auto simp: load_queue_from_url_def sqlite_sqs_store_def dest!: sqlite_get_Some)
  then have exists: "queue_exists db (q_id q)" by (simp add: queue_exists_iff)
  let ?db = "snd (sqlite_delete_queue (q_id q) db)"
  have del: "sqlite_delete_queue (q_id q) db = (Inr (), ?db)" using exists by (simp add: sqlite_delete_queue_def)
  have rows: "queues ?db = filter (\<lambda>x. q_id x \<noteq> q_id q) (queues db)"
    "messages ?db = filter (\<lambda>r. m_queue_id (snd r) \<noteq> q_id q) (messages db)"
    "queue_tags ?db = filter (\<lambda>t. fst t \<noteq> q_id q) (queue_tags db)"
    using exists by (simp_all add: sqlite_delete_queue_def case_prod_unfold)
  have "x = q" if "x \<in> set (queues db)" "queue_key x = queue_key q" for x
    using assms(3) q that by (simp add: sqs_inv_def sqs_keys_def distinct_map inj_on_def)
  then have gone: "sqlite_get_queue (q_name q) (q_region q) (q_account_id q) ?db = Inr None"
    by (auto simp: sqlite_get_None rows queue_key_def image_iff)
  have "handle_delete_queue E (sqlite_sqs_store UE) request url db = (Inr (), ?db)"
  proof -
    obtain db' where "sqlite_delete_queue (q_id q) db = (Inr (), db')" using del by blast
    moreover have "handle_delete_queue E (sqlite_sqs_store UE) request url db =
        smap_err map_store_error (sqlite_delete_queue (q_id q)) db"
      using assms(6) by (simp add: handle_delete_queue_def) (simp add: sqlite_sqs_store_def)
    ultimately show ?thesis by (simp add: smap_err_def)
  qed
  then have "sqs_handle_request E (sqs_registry E C (sqlite_sqs_store UE) env) request db = (Inr empty_response, ?db)"
    using assms(1,4) sqs_action_fields(3) [where handler = "handle_delete_queue E (sqlite_sqs_store UE)" and render = render_empty]
    by (simp add: sqs_handle_request_def registry_handle_def registry_get_url_actions parse_request_body_def render_empty_def)
  moreover have "sqs_validate_request E (sqs_registry E C (sqlite_sqs_store UE) env) request db = Inr ()"
    using assms(1,4) by (simp add: sqs_validate_request_def registry_validate_def registry_get_url_actions
        sqs_action_fields parse_request_body_def no_validation_def)
  ultimately have "route_traced (iam_authorizer E mode st) [sqs_service E C (sqlite_sqs_store UE) env] request db =
      (Inr empty_response, ?db)"
    using url_action_resolves [OF _ assms(1,4-6), of env] assms(2,7)
    by (simp add: url_actions_def route_traced_def sqs_service_def sqs_can_handle_def iam_authorizer_def Let_def)
  with gone rows show ?thesis by blast
qed

theorem authorized_delete_queue_witness:
  "\<exists>db'. route_traced (iam_authorizer demo_ext Enforce allow_all_store)
       [sqs_service demo_ext demo_codec (sqlite_sqs_store demo_texts) demo_sqs_env] (demo_sqs_request ''DeleteQueue'') demo_db =
     (Inr empty_response, db') \<and> messages db' = []"
proof -
  let ?r = "demo_sqs_request ''DeleteQueue''" and ?q = "demo_queue\<lparr>q_id := 1, q_created_at := 0\<rparr>"
  have name: "get_action_name_for_request ?r = Inr ''DeleteQueue''" by (simp add: demo_action_name operation_names_def)
  have svc: "rr_service ?r = ''sqs''" by (simp add: demo_sqs_request_def demo_request_def)
  have url: "dec_queue_url demo_codec (ir_body (rr_request ?r)) = Inr ''http://localhost:4566/000000000000/jobs''"
    "dec_queue_url_field demo_codec (ir_body (rr_request ?r)) = Inr (Some ''http://localhost:4566/000000000000/jobs'')"
    by (simp_all add: demo_codec_def)
  have auth: "authorize demo_ext Enforce allow_all_store ?r \<lparr>chk_action = ''sqs:DeleteQueue'',
      chk_resource = get_queue_arn ?q, chk_resource_policy = Some (queue_policy demo_ext ?q)\<rparr> demo_db = Allow"
    by (simp add: authorize_def evaluate_request_eq all_decisions_def document_decision_def resource_decision_def
        allow_all_store_def demo_ext_def demo_sqs_request_def demo_request_def policy_principal_from_request_def
        combine_policy_results_eq evaluate_identity_policy_def evaluate_matching_statements_eq has_matching_def
        identity_statement_matches_def wildcard_match_def queue_policy_def demo_queue_def default_sqs_queue_def
        default_policy_def evaluate_resource_policy_def)
  show ?thesis
    using authorized_delete_queue [OF name svc demo_db_inv url demo_sqs_load auth, of demo_sqs_env]
    by (auto simp: demo_db_eq demo_message_def)
qed

end
